(* ===== verification/Prelude.thy ===== *)
theory Prelude
  imports Main "HOL-Library.Word"
begin

text \<open>
  Shared vocabulary of the development: the machine integer types of the C++ code, the result
  codes of \<^verbatim>\<open>IasAvbTypes.hpp\<close> and \<^verbatim>\<open>IasAvbStreamHandlerTypes.hpp\<close>, and the memory accesses
  (\<open>blit\<close>, \<open>slice\<close>, \<open>fetch\<close>, \<open>store\<close>) whose result \<open>None\<close> is undefined behaviour of the
  source: an access outside the array. The collection \<open>mem_simps\<close> holds the facts that decide
  such accesses.
\<close>

unbundle bit_operations_syntax

named_theorems mem_simps

section \<open>Machine integers\<close>

type_synonym u8 = "8 word"
type_synonym u16 = "16 word"
type_synonym u32 = "32 word"
type_synonym u64 = "64 word"

text \<open>Signed types are the same bits, read by \<open>sint\<close> and compared by \<open>\<le>s\<close> and \<open><s\<close>.\<close>

type_synonym s32 = "32 word"
type_synonym s64 = "64 word"

section \<open>Result codes\<close>

datatype IasAvbProcessingResult =
    eIasAvbProcOK
  | eIasAvbProcErr
  | eIasAvbProcInvalidParam
  | eIasAvbProcOff
  | eIasAvbProcInitializationFailed
  | eIasAvbProcNotInitialized
  | eIasAvbProcNoSpaceLeft
  | eIasAvbProcNotEnoughMemory
  | eIasAvbProcAlreadyInUse
  | eIasAvbProcCallbackError
  | eIasAvbProcUnsupportedFormat
  | eIasAvbProcNotImplemented
  | eIasAvbProcThreadStartFailed
  | eIasAvbProcThreadStopFailed
  | eIasAvbProcNullPointerAccess
  | eIasAvbProcTimeout

datatype IasAvbResult =
    eIasAvbResultOk
  | eIasAvbResultErr
  | eIasAvbResultNotImplemented
  | eIasAvbResultNotSupported
  | eIasAvbResultInvalidParam

section \<open>Enumerations\<close>

datatype IasAvbStreamState =
    eIasAvbStreamInactive
  | eIasAvbStreamNoData
  | eIasAvbStreamInvalidData
  | eIasAvbStreamValid

datatype IasAvbStreamDirection = eIasAvbTransmitToNetwork | eIasAvbReceiveFromNetwork

datatype IasAvbStreamType = eIasAvbAudioStream | eIasAvbVideoStream | eIasAvbClockReferenceStream

datatype IasAvbAudioFormat =
    eIasAvbAudioFormatIec61883
  | eIasAvbAudioFormatSaf16
  | eIasAvbAudioFormatSaf24
  | eIasAvbAudioFormatSaf32
  | eIasAvbAudioFormatSafFloat

datatype IasAvbCompatibility = eIasAvbCompLatest | eIasAvbCompSaf | eIasAvbCompD6

datatype IasLocalStreamType =
    eIasReservedStream
  | eIasAlsaStream
  | eIasTestToneStream
  | eIasLocalVideoInStream
  | eIasLocalVideoOutStream

datatype IasAvbLockState =
    eIasAvbLockStateInit
  | eIasAvbLockStateUnlocked
  | eIasAvbLockStateLocking
  | eIasAvbLockStateLocked

definition cIasAvbMacAddressLength :: nat where "cIasAvbMacAddressLength = 6"

section \<open>Array accesses\<close>

text \<open>\<^verbatim>\<open>memcpy(dst + off, src, n)\<close> with \<open>src\<close> the \<open>n\<close> copied elements.\<close>

definition blit :: "'a list \<Rightarrow> nat \<Rightarrow> 'a list \<Rightarrow> 'a list option" where
  "blit dst off src =
     (if off + length src \<le> length dst
      then Some (take off dst @ src @ drop (off + length src) dst) else None)"

text \<open>The \<open>n\<close> elements read from \<^verbatim>\<open>src + off\<close>.\<close>

definition slice :: "'a list \<Rightarrow> nat \<Rightarrow> nat \<Rightarrow> 'a list option" where
  "slice src off n = (if off + n \<le> length src then Some (take n (drop off src)) else None)"

text \<open>\<^verbatim>\<open>src[i]\<close> and \<^verbatim>\<open>dst[i] = x\<close>.\<close>

definition fetch :: "'a list \<Rightarrow> nat \<Rightarrow> 'a option" where
  "fetch src i = (if i < length src then Some (src ! i) else None)"

definition store :: "'a list \<Rightarrow> nat \<Rightarrow> 'a \<Rightarrow> 'a list option" where
  "store dst i x = (if i < length dst then Some (dst[i := x]) else None)"

lemma blit_Some [mem_simps]:
  "off + length src \<le> length dst \<Longrightarrow>
     blit dst off src = Some (take off dst @ src @ drop (off + length src) dst)"
  by (simp add: blit_def)

lemma length_blit: "blit dst off src = Some dst' \<Longrightarrow> length dst' = length dst"
  by (auto simp: blit_def split: if_splits)

lemma nth_blit:
  "blit dst off src = Some dst' \<Longrightarrow> i < length dst \<Longrightarrow>
     dst' ! i = (if off \<le> i \<and> i < off + length src then src ! (i - off) else dst ! i)"
  by (auto simp: blit_def nth_append min_def split: if_splits)

lemma slice_Some [mem_simps]:
  "off + n \<le> length src \<Longrightarrow> slice src off n = Some (take n (drop off src))"
  by (simp add: slice_def)

lemma fetch_Some [mem_simps]: "i < length src \<Longrightarrow> fetch src i = Some (src ! i)"
  by (simp add: fetch_def)

lemma store_Some [mem_simps]: "i < length dst \<Longrightarrow> store dst i x = Some (dst[i := x])"
  by (simp add: store_def)

lemma length_store: "store dst i x = Some dst' \<Longrightarrow> length dst' = length dst"
  by (auto simp: store_def split: if_splits)

section \<open>Words\<close>

lemma unat_sub_wrap:
  fixes a b :: "'a::len word"
  assumes "unat a < unat b"
  shows "unat (a - b) = 2 ^ LENGTH('a) + unat a - unat b"
  using assms by (simp add: unat_sub_if')

lemma unat_add_small:
  fixes a b :: "'a::len word"
  assumes "unat a + unat b < 2 ^ LENGTH('a)"
  shows "unat (a + b) = unat a + unat b"
  using assms by (simp add: unat_word_ariths)

lemma unat_sub_small:
  fixes a b :: "'a::len word"
  assumes "unat b \<le> unat a"
  shows "unat (a - b) = unat a - unat b"
  using assms by (simp add: unat_sub_if')

lemma unat_lt: "unat (x :: 'a::len word) < 2 ^ LENGTH('a)"
  by (rule unsigned_less)

lemma unat_ucast_mod:
  fixes w :: "'a::len word"
  shows "unat (ucast w :: 'b::len word) = unat w mod 2 ^ LENGTH('b)"
  by (simp add: unsigned_ucast_eq take_bit_eq_mod)

lemma unat_ucast_small:
  fixes w :: "'a::len word"
  assumes "unat w < 2 ^ LENGTH('b)"
  shows "unat (ucast w :: 'b::len word) = unat w"
  using assms by (simp add: unat_ucast_mod)

lemma unat_ucast_up:
  fixes w :: "'a::len word"
  assumes "LENGTH('a) \<le> LENGTH('b)"
  shows "unat (ucast w :: 'b::len word) = unat w"
  by (rule unat_ucast_small)
    (rule less_le_trans [OF unat_lt], simp add: assms power_increasing)

lemma unat_mult_small:
  fixes a b :: "'a::len word"
  assumes "unat a * unat b < 2 ^ LENGTH('a)"
  shows "unat (a * b) = unat a * unat b"
  using assms by (simp add: unat_word_ariths)

lemma ucast_byte_bit:
  "bit (ucast (ucast (x :: u64) :: u8) :: u64) n \<longleftrightarrow> n < 8 \<and> bit x n"
  by (auto simp: bit_simps)

section \<open>Network byte order\<close>

text \<open>\<^verbatim>\<open>ntohs\<close> and \<^verbatim>\<open>ntohl\<close> of a field at a byte offset, and \<^verbatim>\<open>htons\<close> and \<^verbatim>\<open>htonl\<close> as the
  bytes stored.\<close>

definition ntohs_at :: "u8 list \<Rightarrow> nat \<Rightarrow> u16 option" where
  "ntohs_at bytes i =
     map_option (\<lambda>bs. push_bit 8 (ucast (bs ! 0)) OR ucast (bs ! 1)) (slice bytes i 2)"

definition ntohl_at :: "u8 list \<Rightarrow> nat \<Rightarrow> u32 option" where
  "ntohl_at bytes i =
     map_option (\<lambda>bs. push_bit 24 (ucast (bs ! 0)) OR push_bit 16 (ucast (bs ! 1)) OR
                      push_bit 8 (ucast (bs ! 2)) OR ucast (bs ! 3)) (slice bytes i 4)"

definition htons_bytes :: "u16 \<Rightarrow> u8 list" where
  "htons_bytes w = [ucast (drop_bit 8 w), ucast w]"

definition htonl_bytes :: "u32 \<Rightarrow> u8 list" where
  "htonl_bytes w = [ucast (drop_bit 24 w), ucast (drop_bit 16 w), ucast (drop_bit 8 w), ucast w]"

lemma length_htons [simp]: "length (htons_bytes w) = 2"
  by (simp add: htons_bytes_def)

lemma length_htonl [simp]: "length (htonl_bytes w) = 4"
  by (simp add: htonl_bytes_def)

lemma ntohs_htons: "ntohs_at (pre @ htons_bytes w @ post) (length pre) = Some w"
  by (simp add: ntohs_at_def htons_bytes_def slice_def)
    (rule bit_word_eqI, auto simp: bit_simps)

lemma ntohl_htonl: "ntohl_at (pre @ htonl_bytes w @ post) (length pre) = Some w"
proof -
  have "push_bit 24 (ucast (ucast (drop_bit 24 w) :: u8)) OR push_bit 16 (ucast (ucast (drop_bit 16 w) :: u8))
      OR push_bit 8 (ucast (ucast (drop_bit 8 w) :: u8)) OR ucast (ucast w :: u8) = w" (is "?l = w")
  proof (rule bit_word_eqI)
    fix n
    assume "n < LENGTH(32)"
    then consider "n < 8" | "8 \<le> n" "n < 16" | "16 \<le> n" "n < 24" | "24 \<le> n" "n < 32" by fastforce
    then show "bit ?l n = bit w n" by cases (auto simp: bit_simps)
  qed
  then show ?thesis by (simp add: ntohl_at_def htonl_bytes_def slice_def)
qed

section \<open>Circular arrays\<close>

text \<open>The \<open>n\<close> elements from position \<open>r\<close> on of an array used as a ring.\<close>

definition ring :: "'a list \<Rightarrow> nat \<Rightarrow> nat \<Rightarrow> 'a list" where
  "ring buf r n = map (\<lambda>i. buf ! ((r + i) mod length buf)) [0..<n]"

lemma length_ring [simp]: "length (ring buf r n) = n"
  by (simp add: ring_def)

lemma ring_0 [simp]: "ring buf r 0 = []"
  by (simp add: ring_def)

lemma nth_ring: "i < n \<Longrightarrow> ring buf r n ! i = buf ! ((r + i) mod length buf)"
  by (simp add: ring_def)

lemma mod_add_inj:
  fixes a i j T :: nat
  assumes "(a + i) mod T = (a + j) mod T" and "i < T" and "j < T"
  shows "i = j"
proof -
  have "(int a + int i) mod int T = (int a + int j) mod int T"
    using arg_cong [OF assms(1), of int] by (simp add: zmod_int)
  then have "int i mod int T = int j mod int T"
    by (metis add_diff_cancel_left' mod_diff_left_eq)
  with assms(2,3) show ?thesis by simp
qed

text \<open>Writing behind the elements in use appends, taking from the front drops.\<close>

lemma ring_append:
  assumes len: "length buf' = length buf" and room: "m + length xs \<le> length buf"
    and new: "\<And>j. j < length xs \<Longrightarrow> buf' ! ((r + m + j) mod length buf) = xs ! j"
    and old: "\<And>k. k < length buf \<Longrightarrow> (\<And>j. j < length xs \<Longrightarrow> k \<noteq> (r + m + j) mod length buf) \<Longrightarrow>
                buf' ! k = buf ! k"
  shows "ring buf' r (m + length xs) = ring buf r m @ xs"
proof (rule nth_equalityI)
  show "length (ring buf' r (m + length xs)) = length (ring buf r m @ xs)" by simp
  fix i
  assume "i < length (ring buf' r (m + length xs))"
  then have i: "i < m + length xs" by simp
  show "ring buf' r (m + length xs) ! i = (ring buf r m @ xs) ! i"
  proof (cases "i < m")
    case True
    have "buf' ! ((r + i) mod length buf) = buf ! ((r + i) mod length buf)"
    proof (rule old)
      show "(r + i) mod length buf < length buf" using i room by (intro mod_less_divisor) linarith
      fix j
      assume "j < length xs"
      then show "(r + i) mod length buf \<noteq> (r + m + j) mod length buf"
        using mod_add_inj [of r i "length buf" "m + j"] True room by (auto simp: add.assoc)
    qed
    with True i len show ?thesis by (simp add: nth_ring nth_append)
  next
    case False
    with i new [of "i - m"] len show ?thesis by (simp add: nth_ring nth_append)
  qed
qed

lemma ring_take: "n \<le> m \<Longrightarrow> ring buf r n = take n (ring buf r m)"
  by (simp add: ring_def take_map)

lemma ring_drop: "n \<le> m \<Longrightarrow> ring buf (r + n) (m - n) = drop n (ring buf r m)"
  by (rule nth_equalityI) (simp_all add: nth_ring add.assoc)

lemma ring_mod: "ring buf (r mod length buf) n = ring buf r n"
  by (simp add: ring_def mod_simps)

section \<open>Results that are present\<close>

lemma bind_SomeE: "Option.bind x f = Some y \<Longrightarrow> (\<And>a. x = Some a \<Longrightarrow> f a = Some y \<Longrightarrow> P) \<Longrightarrow> P"
  by (cases x) auto

lemma if_SomeE: "(if c then x else y) = Some z \<Longrightarrow> (c \<Longrightarrow> x = Some z \<Longrightarrow> P) \<Longrightarrow> (\<not> c \<Longrightarrow> y = Some z \<Longrightarrow> P) \<Longrightarrow> P"
  by (cases c) auto

lemma Some_SomeE: "Some x = Some y \<Longrightarrow> (y = x \<Longrightarrow> P) \<Longrightarrow> P"
  by simp

lemma map_SomeE: "map_option f x = Some y \<Longrightarrow> (\<And>a. x = Some a \<Longrightarrow> y = f a \<Longrightarrow> P) \<Longrightarrow> P"
  by (cases x) auto

lemmas option_elims = bind_SomeE if_SomeE Some_SomeE map_SomeE

lemma prod_SomeE: "(case p of (a, b) \<Rightarrow> f a b) = Some y \<Longrightarrow> (\<And>a b. p = (a, b) \<Longrightarrow> f a b = Some y \<Longrightarrow> P) \<Longrightarrow> P"
  by (cases p) auto

lemma option_SomeE:
  "(case x of None \<Rightarrow> u | Some a \<Rightarrow> f a) = Some y \<Longrightarrow> (x = None \<Longrightarrow> u = Some y \<Longrightarrow> P) \<Longrightarrow>
     (\<And>a. x = Some a \<Longrightarrow> f a = Some y \<Longrightarrow> P) \<Longrightarrow> P"
  by (cases x) auto

lemmas result_elims = option_elims prod_SomeE option_SomeE

end
