(* ===== verification/Stream_Id.thy ===== *)
theory Stream_Id
  imports Prelude
begin

text \<open>
  \<^verbatim>\<open>IasAvbStreamId\<close>: the 64-bit identifier of an AVB stream and its big-endian wire form
  (\<^verbatim>\<open>IasAvbStreamId.hpp\<close>, \<^verbatim>\<open>IasAvbStreamId.cpp\<close>). A byte pointer is \<open>u8 list option\<close> with
  \<open>None\<close> for NULL; the result \<open>None\<close> of an operation is an access outside the buffer.
\<close>

record IasAvbStreamId =
  mStreamId :: u64

definition streamId_default :: IasAvbStreamId where
  "streamId_default = \<lparr>mStreamId = 0\<rparr>"

definition streamId_of_u64 :: "u64 \<Rightarrow> IasAvbStreamId" where
  "streamId_of_u64 streamId = \<lparr>mStreamId = streamId\<rparr>"

text \<open>The loop \<^verbatim>\<open>for (i = 0; i < sizeof mStreamId; i++)\<close> of \<^verbatim>\<open>setStreamId\<close>; the first argument
  counts the remaining rounds.\<close>

primrec setStreamId_loop :: "nat \<Rightarrow> u8 list \<Rightarrow> u64 \<Rightarrow> u64 option" where
  "setStreamId_loop 0 bytes v = Some v"
| "setStreamId_loop (Suc n) bytes v =
     (case bytes of
        [] \<Rightarrow> None
      | b # bytes' \<Rightarrow> setStreamId_loop n bytes' (push_bit 8 v + ucast b))"

definition setStreamId :: "u8 list option \<Rightarrow> IasAvbStreamId \<Rightarrow> IasAvbStreamId option" where
  "setStreamId streamId s =
     (case streamId of
        None \<Rightarrow> Some s
      | Some bytes \<Rightarrow> map_option (\<lambda>v. s\<lparr>mStreamId := v\<rparr>) (setStreamId_loop 8 bytes (mStreamId s)))"

definition streamId_of_bytes :: "u8 list option \<Rightarrow> IasAvbStreamId option" where
  "streamId_of_bytes streamId = setStreamId streamId streamId_default"

text \<open>The loop of \<^verbatim>\<open>copyStreamIdToBuffer\<close>: with \<open>n\<close> rounds left the shift count \<open>j\<close> is
  \<open>8 * (n - 1)\<close>.\<close>

primrec copyStreamId_loop :: "nat \<Rightarrow> nat \<Rightarrow> u64 \<Rightarrow> u8 list \<Rightarrow> u8 list option" where
  "copyStreamId_loop 0 i v buf = Some buf"
| "copyStreamId_loop (Suc n) i v buf =
     Option.bind (store buf i (ucast (drop_bit (8 * n) v))) (copyStreamId_loop n (Suc i) v)"

definition copyStreamIdToBuffer ::
  "IasAvbStreamId \<Rightarrow> u8 list option \<Rightarrow> nat \<Rightarrow> u8 list option option" where
  "copyStreamIdToBuffer s buf bufSize =
     (let bufSize = (if bufSize > 8 then 8 else bufSize) in
      case buf of
        None \<Rightarrow> Some None
      | Some b \<Rightarrow> map_option Some (copyStreamId_loop bufSize 0 (mStreamId s) b))"

definition streamId_less :: "IasAvbStreamId \<Rightarrow> IasAvbStreamId \<Rightarrow> bool" where
  "streamId_less s other \<longleftrightarrow> mStreamId s < mStreamId other"

section \<open>Lemmas\<close>

text \<open>The \<open>n\<close> low-order bytes of a value, most significant first.\<close>

primrec be_bytes :: "nat \<Rightarrow> u64 \<Rightarrow> u8 list" where
  "be_bytes 0 v = []"
| "be_bytes (Suc n) v = ucast (drop_bit (8 * n) v) # be_bytes n v"

lemma length_be_bytes [simp]: "length (be_bytes n v) = n"
  by (induction n) auto

lemma copyStreamId_loop_eq:
  "i + n \<le> length buf \<Longrightarrow>
     copyStreamId_loop n i v buf = Some (take i buf @ be_bytes n v @ drop (i + n) buf)"
  by (induction n arbitrary: i buf)
    (auto simp: store_def take_Suc_conv_app_nth upd_conv_take_nth_drop min_def add.commute)

lemma copyStreamId_loop_None:
  "i \<le> length buf \<Longrightarrow> length buf < i + n \<Longrightarrow> copyStreamId_loop n i v buf = None"
  by (induction n arbitrary: i buf) (auto simp: store_def)

lemma byte_step:
  "push_bit 8 (drop_bit (8 + 8 * k) x) + ucast (ucast (drop_bit (8 * k) x) :: u8) =
     drop_bit (8 * k) (x :: u64)"
proof -
  have "push_bit 8 (drop_bit (8 + 8 * k) x) + ucast (ucast (drop_bit (8 * k) x) :: u8) =
     push_bit 8 (drop_bit (8 + 8 * k) x) OR ucast (ucast (drop_bit (8 * k) x) :: u8)"
    by (rule disjunctive_add) (auto simp: bit_simps)
  also have "\<dots> = drop_bit (8 * k) x"
  proof (rule bit_word_eqI)
    fix n :: nat
    assume "n < LENGTH(64)"
    have shift: "\<not> n < 8 \<Longrightarrow> 8 + 8 * k + (n - 8) = 8 * k + n" by simp
    show "bit (push_bit 8 (drop_bit (8 + 8 * k) x) OR ucast (ucast (drop_bit (8 * k) x) :: u8)) n
        = bit (drop_bit (8 * k) x) n"
      using \<open>n < LENGTH(64)\<close> shift bit_imp_le_length [of x "8 * k + n"]
      by (cases "n < 8") (auto simp: bit_simps)
  qed
  finally show ?thesis .
qed

lemma setStreamId_loop_be_bytes:
  "setStreamId_loop n (be_bytes n x @ rest) (drop_bit (8 * n) x) = Some x"
  by (induction n) (simp_all add: byte_step)

lemma setStreamId_loop_length:
  "setStreamId_loop n bytes v = None \<longleftrightarrow> length bytes < n"
  by (induction n arbitrary: bytes v) (auto split: list.split)

lemma setStreamId_loop_shift:
  "setStreamId_loop n bytes v = Some r \<Longrightarrow>
     setStreamId_loop n bytes w = Some (r - push_bit (8 * n) v + push_bit (8 * n) w)"
proof (induction n arbitrary: bytes v w r)
  case 0
  then show ?case by simp
next
  case (Suc n)
  then obtain b bytes' where bytes: "bytes = b # bytes'"
    and step: "setStreamId_loop n bytes' (push_bit 8 v + ucast b) = Some r"
    by (auto split: list.splits)
  have "push_bit (8 * n) (push_bit 8 x + ucast b) = push_bit (8 * Suc n) x + push_bit (8 * n) (ucast b)"
    for x :: u64
    by (simp add: push_bit_eq_mult power_add algebra_simps)
  with Suc.IH [OF step, of "push_bit 8 w + ucast b"] show ?case
    by (simp add: bytes algebra_simps)
qed

lemma setStreamId_loop_forget:
  "setStreamId_loop 8 bytes v = setStreamId_loop 8 bytes w"
proof (cases "setStreamId_loop 8 bytes v")
  case None
  then show ?thesis by (metis setStreamId_loop_length)
next
  case (Some r)
  have "push_bit 64 x = 0" for x :: u64
    by (rule bit_word_eqI) (simp add: bit_simps)
  with setStreamId_loop_shift [OF Some, of w] Some show ?thesis by simp
qed

section \<open>Properties\<close>

text \<open>A stream id written to a buffer of at least eight bytes and read back with
  \<^verbatim>\<open>setStreamId\<close> is the same id, whatever id the reading object held before.\<close>

theorem streamId_roundtrip:
  assumes "8 \<le> length buf" and "8 \<le> bufSize"
  shows "\<exists>buf'. copyStreamIdToBuffer s (Some buf) bufSize = Some (Some buf') \<and>
    drop 8 buf' = drop 8 buf \<and>
    setStreamId (Some buf') t = Some (t\<lparr>mStreamId := mStreamId s\<rparr>)"
proof -
  have cap: "(if 8 < bufSize then 8 else bufSize) = 8" using assms(2) by simp
  have "setStreamId_loop 8 (be_bytes 8 (mStreamId s) @ drop 8 buf) (mStreamId t) = Some (mStreamId s)"
    by (subst setStreamId_loop_forget [of _ _ "drop_bit (8 * 8) (mStreamId s)"])
      (rule setStreamId_loop_be_bytes)
  then show ?thesis
    using assms(1) by (simp add: copyStreamIdToBuffer_def setStreamId_def cap copyStreamId_loop_eq)
qed

theorem streamId_roundtrip_witness:
  "setStreamId (Some [0, 1, 2, 3, 4, 5, 0xFE, 0xFF]) \<lparr>mStreamId = 77\<rparr>
     = Some \<lparr>mStreamId = 0x000102030405FEFF\<rparr>"
proof -
  obtain buf' where
    "copyStreamIdToBuffer \<lparr>mStreamId = 0x000102030405FEFF\<rparr> (Some (replicate 8 0)) 8 = Some (Some buf')"
    "setStreamId (Some buf') \<lparr>mStreamId = 77\<rparr> = Some \<lparr>mStreamId = 0x000102030405FEFF\<rparr>"
    using streamId_roundtrip [of "replicate 8 0" 8 "\<lparr>mStreamId = 0x000102030405FEFF\<rparr>" "\<lparr>mStreamId = 77\<rparr>"]
    by auto
  moreover have "copyStreamIdToBuffer \<lparr>mStreamId = 0x000102030405FEFF\<rparr> (Some (replicate 8 0)) 8
      = Some (Some [0, 1, 2, 3, 4, 5, 0xFE, 0xFF])"
    by code_simp
  ultimately show ?thesis by simp
qed

end
