(* ===== verification/Registry.thy ===== *)
theory Registry
  imports Prelude
begin

text \<open>
  The configuration registry of \<^verbatim>\<open>IasAvbStreamHandlerEnvironment\<close>: a numeric and a textual
  table, frozen by \<^verbatim>\<open>validateRegistryEntries\<close>. The registry keys used by the modelled components
  are listed with the spelling of \<^verbatim>\<open>IasAvbStreamHandlerEnvironment.hpp\<close> and
  \<^verbatim>\<open>IasAvbRegistryKeys.hpp\<close>. The build flag \<^verbatim>\<open>IAS_PREPRODUCTION_SW\<close> is the argument
  \<open>preproduction\<close>. The locale \<open>lockable_store\<close> states what the readers of the registry rely on;
  both tables are instances.
\<close>

section \<open>Keys\<close>

definition cUseWatchdog :: string where "cUseWatchdog = ''watchdog.enable''"
definition cXmitWndWidth :: string where "cXmitWndWidth = ''transmit.window.width''"
definition cXmitWndPitch :: string where "cXmitWndPitch = ''transmit.window.pitch''"
definition cNwIfName :: string where "cNwIfName = ''network.interface.name''"
definition cAlsaNumFrames :: string where "cAlsaNumFrames = ''local.alsa.frames''"
definition cAlsaRingBuffer :: string where "cAlsaRingBuffer = ''local.alsa.periods''"
definition cAlsaBaseFreq :: string where "cAlsaBaseFreq = ''local.alsa.basefreq''"
definition cAlsaBasePeriod :: string where "cAlsaBasePeriod = ''local.alsa.baseperiod''"
definition cAudioBaseFillMultiplier :: string where
  "cAudioBaseFillMultiplier = ''audio.basefill.multiplier''"
definition cAudioTstampBuffer :: string where "cAudioTstampBuffer = ''audio.tstamp.buffer''"
definition cRxClkUpdateInterval :: string where
  "cRxClkUpdateInterval = ''receive.clock.updateinterval''"
definition cSchedPolicy :: string where "cSchedPolicy = ''sched.policy''"
definition cSchedPriority :: string where "cSchedPriority = ''sched.priority''"
definition cIgbAccessTimeoutCnt :: string where "cIgbAccessTimeoutCnt = ''igb.access.to.cnt''"
definition cRxCycleWait :: string where "cRxCycleWait = ''receive.cyclewait''"
definition cRxValidationThreshold :: string where "cRxValidationThreshold = ''receive.validation.threshold''"
definition cRxValidationMode :: string where "cRxValidationMode = ''receive.validation.mode''"
definition cTSpecInterval :: string where "cTSpecInterval = ''tspec.interval.''"
definition cTSpecVlanId :: string where "cTSpecVlanId = ''tspec.vlanid.''"
definition cTSpecVlanPrio :: string where "cTSpecVlanPrio = ''tspec.vlanprio.''"
definition cTSpecPresTimeOff :: string where
  "cTSpecPresTimeOff = ''tspec.presentation.time.offset.''"

section \<open>State and operations\<close>

record registry =
  mRegistryNumeric :: "string \<rightharpoonup> u64"
  mRegistryTextual :: "string \<rightharpoonup> string"
  mRegistryLocked :: bool

definition registry_empty :: registry where
  "registry_empty =
     \<lparr>mRegistryNumeric = Map.empty, mRegistryTextual = Map.empty, mRegistryLocked = False\<rparr>"

text \<open>The static accessors read through \<^verbatim>\<open>mInstance\<close>, which may be NULL. A failed lookup leaves the
  caller's variable as it was.\<close>

definition doGetConfigValue :: "registry option \<Rightarrow> string \<Rightarrow> u64 \<Rightarrow> bool \<times> u64" where
  "doGetConfigValue mInstance key val =
     (case mInstance of
        None \<Rightarrow> (False, val)
      | Some r \<Rightarrow> (case mRegistryNumeric r key of
                    Some v \<Rightarrow> (True, v)
                  | None \<Rightarrow> (False, val)))"

definition getConfigValue_text :: "registry option \<Rightarrow> string \<Rightarrow> string \<Rightarrow> bool \<times> string" where
  "getConfigValue_text mInstance key val =
     (case mInstance of
        None \<Rightarrow> (False, val)
      | Some r \<Rightarrow> (case mRegistryTextual r key of
                    Some v \<Rightarrow> (True, v)
                  | None \<Rightarrow> (False, val)))"

text \<open>The template \<^verbatim>\<open>getConfigValue<T>\<close>: \<open>cast\<close> is \<^verbatim>\<open>static_cast<T>\<close>.\<close>

definition getConfigValue :: "(u64 \<Rightarrow> 'a) \<Rightarrow> registry option \<Rightarrow> string \<Rightarrow> 'a \<Rightarrow> bool \<times> 'a" where
  "getConfigValue cast mInstance key val =
     (let (ret, v) = doGetConfigValue mInstance key 0 in (ret, if ret then cast v else val))"

definition setConfigValue :: "string \<Rightarrow> u64 \<Rightarrow> registry \<Rightarrow> IasAvbResult \<times> registry" where
  "setConfigValue key val r =
     (if mRegistryLocked r then (eIasAvbResultErr, r)
      else if key = [] then (eIasAvbResultInvalidParam, r)
      else (eIasAvbResultOk, r\<lparr>mRegistryNumeric := (mRegistryNumeric r)(key \<mapsto> val)\<rparr>))"

definition setConfigValue_text :: "string \<Rightarrow> string \<Rightarrow> registry \<Rightarrow> IasAvbResult \<times> registry" where
  "setConfigValue_text key val r =
     (if mRegistryLocked r then (eIasAvbResultErr, r)
      else if key = [] then (eIasAvbResultInvalidParam, r)
      else (eIasAvbResultOk, r\<lparr>mRegistryTextual := (mRegistryTextual r)(key \<mapsto> val)\<rparr>))"

definition queryConfigValue :: "string \<Rightarrow> registry \<Rightarrow> u64 option" where
  "queryConfigValue key r = mRegistryNumeric r key"

definition queryConfigValue_text :: "string \<Rightarrow> registry \<Rightarrow> string option" where
  "queryConfigValue_text key r = mRegistryTextual r key"

definition setDefaultConfigValues :: "registry \<Rightarrow> registry" where
  "setDefaultConfigValues r =
     (let r = snd (setConfigValue_text cNwIfName ''eth0'' r);
          r = snd (setConfigValue cAlsaNumFrames 256 r);
          r = snd (setConfigValue cAlsaRingBuffer 12 r);
          r = snd (setConfigValue cAlsaBaseFreq 48000 r);
          r = snd (setConfigValue cAlsaBasePeriod 128 r);
          r = snd (setConfigValue cAudioBaseFillMultiplier 15 r);
          r = snd (setConfigValue cAudioTstampBuffer 1 r);
          r = snd (setConfigValue cRxClkUpdateInterval 10000 r);
          r = snd (setConfigValue_text cSchedPolicy ''fifo'' r);
          r = snd (setConfigValue cSchedPriority 20 r)
      in snd (setConfigValue cIgbAccessTimeoutCnt 100 r))"

text \<open>\<^verbatim>\<open>key.find("debug.") == 0\<close>.\<close>

definition is_debug_key :: "string \<Rightarrow> bool" where
  "is_debug_key key \<longleftrightarrow> take 6 key = ''debug.''"

definition validateRegistryEntries :: "bool \<Rightarrow> registry \<Rightarrow> bool \<times> registry" where
  "validateRegistryEntries preproduction r =
     (let r1 = (if preproduction then r
                else r\<lparr>mRegistryNumeric :=
                         (\<lambda>k. if is_debug_key k then None else mRegistryNumeric r k)\<rparr>);
          r2 = (if \<not> preproduction \<and> queryConfigValue cRxValidationMode r1 = Some 0
                then r1\<lparr>mRegistryNumeric := (mRegistryNumeric r1)(cRxValidationMode \<mapsto> 1)\<rparr>
                else r1)
      in (True, r2\<lparr>mRegistryLocked := True\<rparr>))"

section \<open>The interface of a lockable table\<close>

locale lockable_store =
  fixes get :: "'s \<Rightarrow> 'k \<Rightarrow> 'v option"
    and put :: "'k \<Rightarrow> 'v \<Rightarrow> 's \<Rightarrow> IasAvbResult \<times> 's"
    and locked :: "'s \<Rightarrow> bool"
    and valid_key :: "'k \<Rightarrow> bool"
  assumes put_locked: "locked s \<Longrightarrow> put k v s = (eIasAvbResultErr, s)"
    and put_invalid: "\<not> locked s \<Longrightarrow> \<not> valid_key k \<Longrightarrow> put k v s = (eIasAvbResultInvalidParam, s)"
    and put_ok: "\<not> locked s \<Longrightarrow> valid_key k \<Longrightarrow> fst (put k v s) = eIasAvbResultOk"
    and get_put: "\<not> locked s \<Longrightarrow> valid_key k \<Longrightarrow>
      get (snd (put k v s)) k' = (if k' = k then Some v else get s k')"
    and locked_put: "locked (snd (put k v s)) = locked s"
begin

definition puts :: "('k \<times> 'v) list \<Rightarrow> 's \<Rightarrow> 's" where
  "puts kvs s = fold (\<lambda>(k, v) t. snd (put k v t)) kvs s"

lemma put_ok_iff: "fst (put k v s) = eIasAvbResultOk \<longleftrightarrow> \<not> locked s \<and> valid_key k"
  by (cases "locked s"; cases "valid_key k") (auto simp: put_locked put_invalid put_ok)

lemma puts_locked: "locked s \<Longrightarrow> puts kvs s = s"
  unfolding puts_def by (induction kvs) (auto simp: put_locked)

lemma locked_puts: "locked (puts kvs s) = locked s"
  unfolding puts_def by (induction kvs arbitrary: s) (simp_all add: locked_put case_prod_beta)

lemma get_puts:
  "\<not> locked s \<Longrightarrow> \<forall>(k, v) \<in> set kvs. valid_key k \<Longrightarrow>
     get (puts kvs s) k = (case map_of (rev kvs) k of Some v \<Rightarrow> Some v | None \<Rightarrow> get s k)"
proof (induction kvs arbitrary: s)
  case Nil
  then show ?case by (simp add: puts_def)
next
  case (Cons kv kvs)
  obtain k' v' where kv: "kv = (k', v')" by (cases kv)
  have "puts (kv # kvs) s = puts kvs (snd (put k' v' s))"
    by (simp add: puts_def kv)
  also have "get \<dots> k =
      (case map_of (rev kvs) k of Some v \<Rightarrow> Some v | None \<Rightarrow> get (snd (put k' v' s)) k)"
    using Cons.prems by (intro Cons.IH) (auto simp: locked_put)
  finally show ?case
    using Cons.prems by (simp add: kv get_put map_add_def split: option.split)
qed

end

interpretation numeric: lockable_store mRegistryNumeric setConfigValue mRegistryLocked "\<lambda>k. k \<noteq> []"
  by unfold_locales (auto simp: setConfigValue_def)

interpretation textual: lockable_store mRegistryTextual setConfigValue_text mRegistryLocked "\<lambda>k. k \<noteq> []"
  by unfold_locales (auto simp: setConfigValue_text_def)

section \<open>Lemmas\<close>

lemma getConfigValue_cases:
  "getConfigValue cast (Some r) key val =
     (case mRegistryNumeric r key of Some v \<Rightarrow> (True, cast v) | None \<Rightarrow> (False, val))"
  by (simp add: getConfigValue_def doGetConfigValue_def split: option.split)

text \<open>One configuration request of a running system: numeric or textual.\<close>

datatype config_request = Set_Numeric string u64 | Set_Textual string string

fun config_step :: "config_request \<Rightarrow> registry \<Rightarrow> registry" where
  "config_step (Set_Numeric k v) r = snd (setConfigValue k v r)"
| "config_step (Set_Textual k v) r = snd (setConfigValue_text k v r)"

lemma config_step_locked: "mRegistryLocked r \<Longrightarrow> config_step q r = r"
  by (cases q) (auto simp: numeric.put_locked textual.put_locked)

lemma fold_config_step_locked: "mRegistryLocked r \<Longrightarrow> fold config_step qs r = r"
  by (induction qs) (auto simp: config_step_locked)

lemma validate_locked: "mRegistryLocked (snd (validateRegistryEntries p r))"
  by (simp add: validateRegistryEntries_def Let_def)

lemma is_debug_key_mode: "\<not> is_debug_key cRxValidationMode"
  by (simp add: is_debug_key_def cRxValidationMode_def)

lemma validate_lookup:
  "mRegistryNumeric (snd (validateRegistryEntries False r)) k =
     (if is_debug_key k then None
      else if k = cRxValidationMode \<and> mRegistryNumeric r k = Some 0 then Some 1
      else mRegistryNumeric r k)"
  using is_debug_key_mode by (auto simp: validateRegistryEntries_def queryConfigValue_def Let_def)

section \<open>Properties\<close>

text \<open>C32. In a production build, once \<^verbatim>\<open>validateRegistryEntries\<close> has run, no sequence of
  configuration requests changes what the components read: every numeric \<^verbatim>\<open>debug.\<close> key is
  unset, the receive validation mode is never 0 (validation cannot be switched off), and every
  other key keeps its value from before the validation.\<close>

theorem registry_frozen:
  "getConfigValue cast (Some (fold config_step qs (snd (validateRegistryEntries False r)))) key dflt =
     (if is_debug_key key then (False, dflt)
      else case mRegistryNumeric r key of
             None \<Rightarrow> (False, dflt)
           | Some v \<Rightarrow> (True, cast (if key = cRxValidationMode \<and> v = 0 then 1 else v)))"
  by (simp add: fold_config_step_locked validate_locked getConfigValue_cases validate_lookup
      split: option.split)

end
