(* ===== verification/T_Spec.thy ===== *)
theory T_Spec
  imports Registry
begin

text \<open>
  \<^verbatim>\<open>IasAvbTSpec\<close>: the IEEE 802.1Q traffic specification of a stream (\<^verbatim>\<open>IasAvbTSpec.hpp\<close>,
  \<^verbatim>\<open>IasAvbTSpec.cpp\<close>). The static tables are the record \<open>tspec_tables\<close>, which \<open>initTables\<close>
  overwrites from the registry. The arithmetic is 32-bit unsigned, as in the source.
\<close>

datatype IasAvbSrClass = eIasAvbSrClassHigh | eIasAvbSrClassLow

definition cIasAvbPerFrameOverhead :: nat where "cIasAvbPerFrameOverhead = 6 + 6 + 4 + 2"
definition cIasAvbEthernetMinFrameLen :: nat where "cIasAvbEthernetMinFrameLen = 64"
definition cIasAvbEthernetMinPayloadSize :: nat where
  "cIasAvbEthernetMinPayloadSize = cIasAvbEthernetMinFrameLen - 6 - 6 - 4 - 2 - 4"
definition cIasAvbEthernetPerPacketOverhead :: nat where
  "cIasAvbEthernetPerPacketOverhead = 7 + 1 + cIasAvbPerFrameOverhead + 4 + 12"
definition cIasAvbSrpOverhead :: nat where "cIasAvbSrpOverhead = 1"

lemmas tspec_constants =
  cIasAvbPerFrameOverhead_def cIasAvbEthernetMinFrameLen_def cIasAvbEthernetMinPayloadSize_def
  cIasAvbEthernetPerPacketOverhead_def cIasAvbSrpOverhead_def

record IasAvbTSpec =
  mMaxFrameSize :: u16
  mClass :: IasAvbSrClass
  mMaxIntervalFrames :: u16

record tspec_tables =
  mPrioTable :: "IasAvbSrClass \<Rightarrow> u8"
  mIdTable :: "IasAvbSrClass \<Rightarrow> u8"
  mClassMeasurementTimeTable :: "IasAvbSrClass \<Rightarrow> u32"
  mPresentationTimeOffsetTable :: "IasAvbSrClass \<Rightarrow> u32"

definition by_class :: "'a \<Rightarrow> 'a \<Rightarrow> IasAvbSrClass \<Rightarrow> 'a" where
  "by_class high low cl = (case cl of eIasAvbSrClassHigh \<Rightarrow> high | eIasAvbSrClassLow \<Rightarrow> low)"

definition default_tables :: tspec_tables where
  "default_tables =
     \<lparr>mPrioTable = by_class 3 2,
      mIdTable = by_class 2 3,
      mClassMeasurementTimeTable = by_class 125000 250000,
      mPresentationTimeOffsetTable = by_class (2000000 - 125000) (10000000 - 250000)\<rparr>"

text \<open>\<^verbatim>\<open>initTables\<close>: eight registry reads, each keeping the built-in value where the key is unset.\<close>

definition initTables :: "registry option \<Rightarrow> tspec_tables \<Rightarrow> tspec_tables" where
  "initTables reg t =
     (let read8 = (\<lambda>key old. snd (getConfigValue (ucast :: u64 \<Rightarrow> u8) reg key old));
          read32 = (\<lambda>key old. snd (getConfigValue (ucast :: u64 \<Rightarrow> u32) reg key old));
          high = eIasAvbSrClassHigh; low = eIasAvbSrClassLow
      in \<lparr>mPrioTable = by_class (read8 (cTSpecVlanPrio @ ''high'') (mPrioTable t high))
                               (read8 (cTSpecVlanPrio @ ''low'') (mPrioTable t low)),
          mIdTable = by_class (read8 (cTSpecVlanId @ ''high'') (mIdTable t high))
                             (read8 (cTSpecVlanId @ ''low'') (mIdTable t low)),
          mClassMeasurementTimeTable =
            by_class (read32 (cTSpecInterval @ ''high'') (mClassMeasurementTimeTable t high))
                     (read32 (cTSpecInterval @ ''low'') (mClassMeasurementTimeTable t low)),
          mPresentationTimeOffsetTable =
            by_class (read32 (cTSpecPresTimeOff @ ''high'') (mPresentationTimeOffsetTable t high))
                     (read32 (cTSpecPresTimeOff @ ''low'') (mPresentationTimeOffsetTable t low))\<rparr>)"

definition getPacketsPerSecondByClass :: "tspec_tables \<Rightarrow> IasAvbSrClass \<Rightarrow> u32" where
  "getPacketsPerSecondByClass t cl =
     (let interval = mClassMeasurementTimeTable t cl in
      if interval > 0 then ucast ((1000000000 :: u64) div ucast interval) else 0)"

definition getPacketsPerSecond :: "tspec_tables \<Rightarrow> IasAvbTSpec \<Rightarrow> u32" where
  "getPacketsPerSecond t s = ucast (mMaxIntervalFrames s) * getPacketsPerSecondByClass t (mClass s)"

definition getVlanPrioritybyClass :: "tspec_tables \<Rightarrow> IasAvbSrClass \<Rightarrow> u8" where
  "getVlanPrioritybyClass t cl = mPrioTable t cl"

definition getVlanIdbyClass :: "tspec_tables \<Rightarrow> IasAvbSrClass \<Rightarrow> u16" where
  "getVlanIdbyClass t cl = ucast (mIdTable t cl)"

definition getVlanPriority :: "tspec_tables \<Rightarrow> IasAvbTSpec \<Rightarrow> u8" where
  "getVlanPriority t s = mPrioTable t (mClass s)"

definition getVlanId :: "tspec_tables \<Rightarrow> IasAvbTSpec \<Rightarrow> u16" where
  "getVlanId t s = ucast (mIdTable t (mClass s))"

definition getPresentationTimeOffset :: "tspec_tables \<Rightarrow> IasAvbTSpec \<Rightarrow> u32" where
  "getPresentationTimeOffset t s = mPresentationTimeOffsetTable t (mClass s)"

definition getMaxTransitTime :: "tspec_tables \<Rightarrow> IasAvbTSpec \<Rightarrow> u32" where
  "getMaxTransitTime t s = getPresentationTimeOffset t s + mClassMeasurementTimeTable t (mClass s)"

definition getRequiredBandwidth :: "tspec_tables \<Rightarrow> IasAvbTSpec \<Rightarrow> u32" where
  "getRequiredBandwidth t s =
     (let payload = (if mMaxFrameSize s < of_nat cIasAvbEthernetMinPayloadSize
                     then of_nat cIasAvbEthernetMinPayloadSize else mMaxFrameSize s)
      in ((ucast payload + of_nat cIasAvbEthernetPerPacketOverhead + of_nat cIasAvbSrpOverhead)
            * getPacketsPerSecond t s * 8) div 1000)"

definition getClassSuffix :: "IasAvbSrClass \<Rightarrow> string" where
  "getClassSuffix cl = (case cl of eIasAvbSrClassHigh \<Rightarrow> ''high'' | eIasAvbSrClassLow \<Rightarrow> ''low'')"

section \<open>Lemmas\<close>

lemma unat_getPacketsPerSecondByClass:
  "unat (getPacketsPerSecondByClass t cl) = 1000000000 div unat (mClassMeasurementTimeTable t cl)"
proof (cases "mClassMeasurementTimeTable t cl = 0")
  case True
  then show ?thesis by (simp add: getPacketsPerSecondByClass_def)
next
  case False
  let ?i = "mClassMeasurementTimeTable t cl"
  have "unat ((1000000000 :: u64) div ucast ?i) = 1000000000 div unat ?i"
    by (simp add: unat_div unat_ucast_up)
  moreover have "1000000000 div unat ?i < 2 ^ 32"
    by (rule le_less_trans [OF div_le_dividend]) simp
  ultimately show ?thesis
    using False by (simp add: getPacketsPerSecondByClass_def word_neq_0_conv unat_ucast_mod)
qed

definition exact_bandwidth :: "nat \<Rightarrow> nat \<Rightarrow> nat" where
  "exact_bandwidth frameSize pps = (max 42 frameSize + 43) * pps * 8 div 1000"

lemma unat_bandwidth_payload:
  "unat (ucast (if mMaxFrameSize s < of_nat cIasAvbEthernetMinPayloadSize
            then of_nat cIasAvbEthernetMinPayloadSize else mMaxFrameSize s)
      + of_nat cIasAvbEthernetPerPacketOverhead + of_nat cIasAvbSrpOverhead :: u32)
   = max 42 (unat (mMaxFrameSize s)) + 43"
proof -
  have "unat (mMaxFrameSize s) < 65536" using unat_lt [of "mMaxFrameSize s"] by simp
  then show ?thesis
    by (simp add: tspec_constants word_less_nat_alt unat_word_ariths unat_ucast_up max_def)
qed

section \<open>Properties\<close>

text \<open>C40. The bandwidth that \<^verbatim>\<open>getRequiredBandwidth\<close> reports for the shaper is the exact value in
  kBit/s, padding of short frames, preamble, gap and SRP overhead included, whenever the product
  of the packet length, the packet rate and 8 fits 32 bits. In the default tables this holds for
  every Ethernet frame size and up to 43 frames per observation interval.\<close>

theorem required_bandwidth_exact:
  assumes rate: "unat (mMaxIntervalFrames s) * (1000000000 div unat (mClassMeasurementTimeTable t (mClass s))) = pps"
    and fits: "(max 42 (unat (mMaxFrameSize s)) + 43) * pps * 8 < 2 ^ 32"
  shows "unat (getRequiredBandwidth t s) = exact_bandwidth (unat (mMaxFrameSize s)) pps"
proof -
  let ?n = "max 42 (unat (mMaxFrameSize s)) + 43"
  have "1 \<le> ?n" by simp
  then have "pps \<le> ?n * pps" by (metis mult_le_mono1 mult_1)
  then have pps_small: "pps < 2 ^ 32" and prod_small: "?n * pps < 2 ^ 32"
    using fits by linarith+
  have pps: "unat (getPacketsPerSecond t s) = pps"
    using rate pps_small
    by (simp add: getPacketsPerSecond_def unat_word_ariths unat_getPacketsPerSecondByClass unat_ucast_up)
  let ?w = "ucast (if mMaxFrameSize s < of_nat cIasAvbEthernetMinPayloadSize
              then of_nat cIasAvbEthernetMinPayloadSize else mMaxFrameSize s)
        + of_nat cIasAvbEthernetPerPacketOverhead + of_nat cIasAvbSrpOverhead :: u32"
  have "unat (?w * getPacketsPerSecond t s) = ?n * pps"
    using prod_small by (subst unat_mult_small) (simp_all only: unat_bandwidth_payload pps, simp)
  then have "unat (?w * getPacketsPerSecond t s * 8) = ?n * pps * 8"
    using fits by (subst unat_mult_small) simp_all
  then show ?thesis
    unfolding getRequiredBandwidth_def Let_def exact_bandwidth_def by (simp add: unat_div)
qed

theorem required_bandwidth_exact_witness:
  "unat (getRequiredBandwidth default_tables
      \<lparr>mMaxFrameSize = 1500, mClass = eIasAvbSrClassHigh, mMaxIntervalFrames = 43\<rparr>) = 4246336"
  using required_bandwidth_exact
    [of "\<lparr>mMaxFrameSize = 1500, mClass = eIasAvbSrClassHigh, mMaxIntervalFrames = 43\<rparr>" default_tables 344000]
  by (simp add: default_tables_def by_class_def exact_bandwidth_def)

text \<open>The VLAN ids of the two SR classes are kept in 8-bit tables although the registry
  documents a 16-bit id: a configured id is reduced modulo 256, so the id used in the frames is
  the configured one exactly when it is below 256.\<close>

theorem vlan_id_truncated:
  assumes "mRegistryNumeric r (cTSpecVlanId @ getClassSuffix cl) = Some v"
  shows "unat (getVlanIdbyClass (initTables (Some r) t) cl) = unat v mod 256 \<and>
    (unat (getVlanIdbyClass (initTables (Some r) t) cl) = unat v \<longleftrightarrow> unat v < 256)"
proof -
  have eq: "unat (getVlanIdbyClass (initTables (Some r) t) cl) = unat v mod 256"
    using assms
    by (cases cl) (simp_all add: getVlanIdbyClass_def initTables_def by_class_def
        getConfigValue_cases getClassSuffix_def unat_ucast_mod Let_def)
  then show ?thesis by (metis mod_less mod_less_divisor zero_less_numeral)
qed

theorem vlan_id_truncated_witness:
  "unat (getVlanIdbyClass (initTables (Some (snd (setConfigValue (cTSpecVlanId @ ''low'') 256 registry_empty)))
      default_tables) eIasAvbSrClassLow) = 0"
  using vlan_id_truncated [of "snd (setConfigValue (cTSpecVlanId @ ''low'') 256 registry_empty)"
      eIasAvbSrClassLow 256 default_tables]
  by (simp add: setConfigValue_def registry_empty_def cTSpecVlanId_def getClassSuffix_def)

end
