(* ===== verification/Packet_Pool.thy ===== *)
theory Packet_Pool
  imports Prelude "HOL-Library.Multiset"
begin

text \<open>
  \<^verbatim>\<open>IasAvbPacket\<close> and \<^verbatim>\<open>IasAvbPacketPool\<close> (\<^verbatim>\<open>IasAvbPacket.hpp/.cpp\<close>, \<^verbatim>\<open>IasAvbPacketPool.hpp/.cpp\<close>): the
  stack of preallocated DMA packets of a transmit stream. A packet pointer is a pair of the
  number of the allocation \<^verbatim>\<open>new IasAvbPacket[poolSize]\<close> it points into and the index in that
  array, so that a pointer into a deleted array is recognised; dereferencing it is the result
  \<open>None\<close>. libigb and \<^verbatim>\<open>operator new\<close> are not part of the repository: \<open>pool_env\<close> holds their
  answers. DMA memory is a function from addresses to bytes; the bytes of a packet and its big-endian
  words are read and written through lists of the size of its slot.
\<close>

section \<open>Packets\<close>

definition cMagic :: u32 where "cMagic = 0xFB210871"

type_synonym pkt_ref = "nat \<times> nat"
type_synonym dma_memory = "u64 \<Rightarrow> u8"

record IasAvbPacket =
  mHome :: "nat option"
  mMagic :: u32
  mPayloadOffset :: nat
  mDummyFlag :: bool
  attime :: u64
  dmatime :: u64
  flags :: u32
  len :: u32
  offset :: u32
  vaddr :: u64
  map_mmap_size :: u32
  map_paddr :: u64

definition packet_new :: IasAvbPacket where
  "packet_new =
     \<lparr>mHome = None, mMagic = cMagic, mPayloadOffset = 0, mDummyFlag = False, attime = 0, dmatime = 0,
      flags = 0, len = 0, offset = 0, vaddr = 0, map_mmap_size = 0, map_paddr = 0\<rparr>"

definition setHomePool :: "nat option \<Rightarrow> IasAvbPacket \<Rightarrow> IasAvbPacket" where
  "setHomePool homePool pk = (if homePool \<noteq> None \<and> mHome pk = None then pk\<lparr>mHome := homePool\<rparr> else pk)"

definition isValid :: "IasAvbPacket \<Rightarrow> bool" where
  "isValid pk \<longleftrightarrow> mHome pk \<noteq> None \<and> cMagic = mMagic pk"

definition makeDummyPacket :: "IasAvbPacket \<Rightarrow> IasAvbPacket" where
  "makeDummyPacket pk = pk\<lparr>mDummyFlag := True\<rparr>"

definition getPayloadPointer :: "IasAvbPacket \<Rightarrow> u64" where
  "getPayloadPointer pk = vaddr pk + of_nat (mPayloadOffset pk)"

text \<open>\<^verbatim>\<open>avb_safe_memcpy(dest, n, source, n)\<close> on DMA memory: nothing is copied when a pointer is NULL or
  the ranges overlap.\<close>

definition dma_memcpy :: "u64 \<Rightarrow> u64 \<Rightarrow> nat \<Rightarrow> dma_memory \<Rightarrow> dma_memory" where
  "dma_memcpy dest source n mem =
     (if dest = 0 \<or> source = 0 then mem
      else if unat source < unat dest + n \<and> unat dest < unat source + n then mem
      else (\<lambda>a. if unat dest \<le> unat a \<and> unat a < unat dest + n then mem (source + (a - dest)) else mem a))"

text \<open>\<^verbatim>\<open>operator=\<close>: metadata and payload are copied, the payload pointer and the home pool are not.\<close>

definition packet_assign ::
  "IasAvbPacket \<Rightarrow> IasAvbPacket \<Rightarrow> dma_memory \<Rightarrow> IasAvbPacket \<times> dma_memory" where
  "packet_assign this other mem =
     (this\<lparr>attime := attime other, dmatime := dmatime other, flags := flags other, len := len other,
           mPayloadOffset := mPayloadOffset other, mDummyFlag := mDummyFlag other\<rparr>,
      dma_memcpy (vaddr this) (vaddr other) (unat (len other)) mem)"

section \<open>Packets in memory\<close>

text \<open>The bytes of a packet are read as a list of the size of its slot in the pool, so that an access
  beyond the slot is \<open>None\<close>, and written back. The AVTP header follows the Ethernet header and the
  VLAN tag.\<close>

definition load_packet :: "dma_memory \<Rightarrow> u64 \<Rightarrow> nat \<Rightarrow> u8 list" where
  "load_packet mem start n = map (\<lambda>i. mem (start + of_nat i)) [0..<n]"

definition save_packet :: "u64 \<Rightarrow> u8 list \<Rightarrow> dma_memory \<Rightarrow> dma_memory" where
  "save_packet start bytes mem =
     (\<lambda>addr. let i = unat (addr - start) in if i < length bytes then bytes ! i else mem addr)"

definition avtpBase :: nat where "avtpBase = 14 + 4"

definition get8 :: "nat \<Rightarrow> u8 list \<Rightarrow> u8 option" where "get8 i bytes = fetch bytes (avtpBase + i)"
definition put8 :: "nat \<Rightarrow> u8 \<Rightarrow> u8 list \<Rightarrow> u8 list option" where "put8 i b bytes = store bytes (avtpBase + i) b"
definition put16 :: "nat \<Rightarrow> u16 \<Rightarrow> u8 list \<Rightarrow> u8 list option" where
  "put16 i w bytes = blit bytes (avtpBase + i) (htons_bytes w)"
definition put32 :: "nat \<Rightarrow> u32 \<Rightarrow> u8 list \<Rightarrow> u8 list option" where
  "put32 i w bytes = blit bytes (avtpBase + i) (htonl_bytes w)"

lemma put8_eq: "put8 i b bytes = (if 18 + i < length bytes then Some (bytes[18 + i := b]) else None)"
  by (simp add: put8_def store_def avtpBase_def)

lemma put16_eq:
  "put16 i w bytes =
     (if 18 + i + 2 \<le> length bytes then Some (bytes[18 + i := ucast (drop_bit 8 w), 19 + i := ucast w]) else None)"
  by (auto simp: put16_def blit_def htons_bytes_def avtpBase_def list_eq_iff_nth_eq nth_append nth_list_update nth_Cons'
      min_def)

lemma put32_eq:
  "put32 i w bytes =
     (if 18 + i + 4 \<le> length bytes
      then Some (bytes[18 + i := ucast (drop_bit 24 w), 19 + i := ucast (drop_bit 16 w),
                       20 + i := ucast (drop_bit 8 w), 21 + i := ucast w])
      else None)"
  by (auto simp: put32_def blit_def htonl_bytes_def avtpBase_def list_eq_iff_nth_eq nth_append nth_list_update nth_Cons'
      min_def)

lemma ntohs_at_nth:
  assumes "i + 1 < length bytes" "bytes ! i = ucast (drop_bit 8 x)" "bytes ! (i + 1) = ucast x"
  shows "ntohs_at bytes i = Some x"
proof -
  have "ntohs_at bytes i = ntohs_at ([] @ htons_bytes x @ []) (length [])"
    using assms by (simp add: ntohs_at_def slice_def htons_bytes_def nth_take)
  then show ?thesis using ntohs_htons [of "[]" x "[]"] by simp
qed

section \<open>The pool\<close>

record igb_page =
  dma_vaddr :: u64
  dma_paddr :: u64
  mmap_size :: u32

record pool_env =
  env_new_packets :: bool
  env_igbDevice :: bool
  env_new_page :: "nat \<Rightarrow> bool"
  env_malloc_page :: "nat \<Rightarrow> igb_page option"

record IasAvbPacketPool =
  mThis :: nat
  mPacketSize :: nat
  mPoolSize :: nat
  mFreeBufferStack :: "pkt_ref list"
  mBase :: "IasAvbPacket list option"
  mBaseId :: nat
  mDmaPages :: "igb_page list"

definition cMaxPoolSize :: nat where "cMaxPoolSize = 2048"
definition cMaxBufferSize :: nat where "cMaxBufferSize = 2048"

definition pool_new :: "nat \<Rightarrow> IasAvbPacketPool" where
  "pool_new this =
     \<lparr>mThis = this, mPacketSize = 0, mPoolSize = 0, mFreeBufferStack = [], mBase = None,
      mBaseId = 0, mDmaPages = []\<rparr>"

definition deref :: "IasAvbPacketPool \<Rightarrow> pkt_ref \<Rightarrow> IasAvbPacket option" where
  "deref p r =
     (case mBase p of
        None \<Rightarrow> None
      | Some base \<Rightarrow> if fst r = mBaseId p then fetch base (snd r) else None)"

definition update_packet ::
  "(IasAvbPacket \<Rightarrow> IasAvbPacket) \<Rightarrow> pkt_ref \<Rightarrow> IasAvbPacketPool \<Rightarrow> IasAvbPacketPool option" where
  "update_packet f r p =
     map_option (\<lambda>pk. p\<lparr>mBase := map_option (\<lambda>base. base[snd r := f pk]) (mBase p)\<rparr>) (deref p r)"

definition init_packet :: "nat \<Rightarrow> nat \<Rightarrow> igb_page \<Rightarrow> nat \<Rightarrow> IasAvbPacket \<Rightarrow> IasAvbPacket" where
  "init_packet this packetSize page packetIdx pk =
     (let off = of_nat (packetIdx * packetSize) in
      setHomePool (Some this)
        (pk\<lparr>offset := off, vaddr := dma_vaddr page + ucast off, map_mmap_size := mmap_size page,
            map_paddr := dma_paddr page\<rparr>))"

text \<open>The loop of \<^verbatim>\<open>initPage\<close>; the first argument counts the rounds left of \<open>packetsPerPage\<close>.\<close>

primrec initPage_loop ::
  "nat \<Rightarrow> nat \<Rightarrow> igb_page \<Rightarrow> nat \<times> IasAvbPacketPool \<Rightarrow> (nat \<times> IasAvbPacketPool) option" where
  "initPage_loop 0 packetIdx page cp = Some cp"
| "initPage_loop (Suc n) packetIdx page cp =
     (let (packetCountTotal, p) = cp in
      if packetCountTotal < mPoolSize p then
        Option.bind (update_packet (init_packet (mThis p) (mPacketSize p) page packetIdx)
                       (mBaseId p, packetCountTotal) p)
          (\<lambda>p'. initPage_loop n (Suc packetIdx) page
                  (Suc packetCountTotal,
                   p'\<lparr>mFreeBufferStack := mFreeBufferStack p' @ [(mBaseId p, packetCountTotal)]\<rparr>))
      else Some cp)"

definition initPage ::
  "igb_page \<Rightarrow> nat \<Rightarrow> nat \<times> IasAvbPacketPool \<Rightarrow> (nat \<times> IasAvbPacketPool) option" where
  "initPage page packetsPerPage cp =
     initPage_loop packetsPerPage 0 page
       (fst cp, (snd cp)\<lparr>mDmaPages := mDmaPages (snd cp) @ [page]\<rparr>)"

text \<open>The loop over the further pages; the first argument counts the pages still needed.\<close>

primrec initPages_loop ::
  "nat \<Rightarrow> nat \<Rightarrow> nat \<Rightarrow> pool_env \<Rightarrow> nat \<times> IasAvbPacketPool \<Rightarrow>
     (IasAvbProcessingResult \<times> IasAvbPacketPool) option" where
  "initPages_loop 0 pageCount packetsPerPage env cp = Some (eIasAvbProcOK, snd cp)"
| "initPages_loop (Suc n) pageCount packetsPerPage env cp =
     (if \<not> env_new_page env pageCount then Some (eIasAvbProcNotEnoughMemory, snd cp)
      else case env_malloc_page env pageCount of
             None \<Rightarrow> Some (eIasAvbProcInitializationFailed, snd cp)
           | Some page \<Rightarrow>
               Option.bind (initPage page packetsPerPage cp)
                 (initPages_loop n (Suc pageCount) packetsPerPage env))"

text \<open>\<^verbatim>\<open>cleanup\<close>; the pages handed back to libigb are the first component. The bounded wait for
  outstanding packets does not change the state.\<close>

definition pool_cleanup :: "pool_env \<Rightarrow> IasAvbPacketPool \<Rightarrow> igb_page list \<times> IasAvbPacketPool" where
  "pool_cleanup env p =
     (if env_igbDevice env then rev (mDmaPages p) else [], p\<lparr>mDmaPages := [], mBase := None\<rparr>)"

definition pool_init_alloc ::
  "nat \<Rightarrow> nat \<Rightarrow> pool_env \<Rightarrow> IasAvbPacketPool \<Rightarrow> (IasAvbProcessingResult \<times> IasAvbPacketPool) option" where
  "pool_init_alloc packetSize poolSize env p =
     (if packetSize = 0 \<or> packetSize > cMaxBufferSize then Some (eIasAvbProcInvalidParam, p)
      else if poolSize = 0 \<or> poolSize > cMaxPoolSize then Some (eIasAvbProcInvalidParam, p)
      else if \<not> env_new_packets env then Some (eIasAvbProcNotEnoughMemory, p)
      else
        let p1 = p\<lparr>mBase := Some (replicate poolSize packet_new), mBaseId := Suc (mBaseId p),
                   mPoolSize := poolSize\<rparr> in
        if \<not> env_igbDevice env then Some (eIasAvbProcInitializationFailed, p1)
        else if \<not> env_new_page env 0 then Some (eIasAvbProcNotEnoughMemory, p1)
        else case env_malloc_page env 0 of
               None \<Rightarrow> Some (eIasAvbProcInitializationFailed, p1)
             | Some page \<Rightarrow>
                 let p2 = p1\<lparr>mPacketSize := packetSize\<rparr>;
                     packetsPerPage = unat (mmap_size page) div packetSize in
                 if packetsPerPage = 0 then Some (eIasAvbProcUnsupportedFormat, p2)
                 else
                   let pagesNeeded = (poolSize + (packetsPerPage - 1)) div packetsPerPage in
                   Option.bind (initPage page packetsPerPage (0, p2))
                     (initPages_loop (pagesNeeded - 1) 1 packetsPerPage env))"

definition pool_init ::
  "nat \<Rightarrow> nat \<Rightarrow> pool_env \<Rightarrow> IasAvbPacketPool \<Rightarrow> (IasAvbProcessingResult \<times> IasAvbPacketPool) option" where
  "pool_init packetSize poolSize env p =
     (if mBase p \<noteq> None then Some (eIasAvbProcInitializationFailed, p)
      else map_option
             (\<lambda>(ret, p'). (ret, if ret \<noteq> eIasAvbProcOK then snd (pool_cleanup env p') else p'))
             (pool_init_alloc packetSize poolSize env p))"

definition getPacket :: "IasAvbPacketPool \<Rightarrow> (pkt_ref option \<times> IasAvbPacketPool) option" where
  "getPacket p =
     (if mBase p \<noteq> None \<and> mFreeBufferStack p \<noteq> [] then
        let ret = last (mFreeBufferStack p) in
        map_option (\<lambda>p'. (Some ret, p'))
          (update_packet (\<lambda>pk. pk\<lparr>flags := 0, dmatime := 0\<rparr>) ret
             (p\<lparr>mFreeBufferStack := butlast (mFreeBufferStack p)\<rparr>))
      else Some (None, p))"

definition getDummyPacket :: "IasAvbPacketPool \<Rightarrow> (pkt_ref option \<times> IasAvbPacketPool) option" where
  "getDummyPacket p =
     Option.bind (getPacket p)
       (\<lambda>(ret, p'). case ret of
          None \<Rightarrow> Some (None, p')
        | Some r \<Rightarrow> map_option (\<lambda>p''. (ret, p'')) (update_packet makeDummyPacket r p'))"

definition doReturnPacket ::
  "pkt_ref \<Rightarrow> IasAvbPacketPool \<Rightarrow> (IasAvbProcessingResult \<times> IasAvbPacketPool) option" where
  "doReturnPacket r p =
     (if mBase p = None then Some (eIasAvbProcNotInitialized, p)
      else map_option
             (\<lambda>p'. (eIasAvbProcOK,
                     if length (mFreeBufferStack p') \<le> mPoolSize p'
                     then p'\<lparr>mFreeBufferStack := mFreeBufferStack p' @ [r]\<rparr> else p'))
             (update_packet (\<lambda>pk. pk\<lparr>mDummyFlag := False\<rparr>) r p))"

definition returnPacket ::
  "pkt_ref option \<Rightarrow> IasAvbPacketPool \<Rightarrow> (IasAvbProcessingResult \<times> IasAvbPacketPool) option" where
  "returnPacket packet p =
     (case packet of
        None \<Rightarrow> Some (eIasAvbProcInvalidParam, p)
      | Some r \<Rightarrow>
          Option.bind (deref p r)
            (\<lambda>pk. if \<not> isValid pk then Some (eIasAvbProcInvalidParam, p) else doReturnPacket r p))"

primrec template_loop ::
  "pkt_ref list \<Rightarrow> IasAvbPacket \<Rightarrow> IasAvbPacketPool \<times> dma_memory \<Rightarrow> (IasAvbPacketPool \<times> dma_memory) option"
where
  "template_loop [] tpl pm = Some pm"
| "template_loop (r # rs) tpl pm =
     Option.bind (deref (fst pm) r)
       (\<lambda>pk. let (pk', mem') = packet_assign pk tpl (snd pm) in
          Option.bind (update_packet (\<lambda>_. pk') r (fst pm)) (\<lambda>p'. template_loop rs tpl (p', mem')))"

definition initAllPacketsFromTemplate ::
  "IasAvbPacket option \<Rightarrow> IasAvbPacketPool \<times> dma_memory \<Rightarrow>
     (IasAvbProcessingResult \<times> IasAvbPacketPool \<times> dma_memory) option" where
  "initAllPacketsFromTemplate templatePacket pm =
     (if mBase (fst pm) = None then Some (eIasAvbProcNotInitialized, pm)
      else case templatePacket of
             None \<Rightarrow> Some (eIasAvbProcInvalidParam, pm)
           | Some tpl \<Rightarrow>
               if vaddr tpl = 0 \<or> len tpl = 0 then Some (eIasAvbProcInvalidParam, pm)
               else map_option (Pair eIasAvbProcOK)
                      (template_loop (mFreeBufferStack (fst pm)) tpl pm))"

definition pool_reset :: "IasAvbPacketPool \<Rightarrow> IasAvbProcessingResult \<times> IasAvbPacketPool" where
  "pool_reset p =
     (if mBase p = None then (eIasAvbProcNotInitialized, p)
      else (eIasAvbProcOK, p\<lparr>mFreeBufferStack := map (Pair (mBaseId p)) [0..<mPoolSize p]\<rparr>))"

section \<open>Initialisation\<close>

text \<open>\<open>bulk f lo hi base\<close> applies \<open>f i\<close> to the elements at the indices from \<open>lo\<close> to \<open>hi - 1\<close>.\<close>

definition bulk :: "(nat \<Rightarrow> 'a \<Rightarrow> 'a) \<Rightarrow> nat \<Rightarrow> nat \<Rightarrow> 'a list \<Rightarrow> 'a list" where
  "bulk f lo hi base = map (\<lambda>i. if lo \<le> i \<and> i < hi then f i (base ! i) else base ! i) [0..<length base]"

lemma length_bulk [simp]: "length (bulk f lo hi base) = length base"
  by (simp add: bulk_def)

lemma nth_bulk:
  "i < length base \<Longrightarrow> bulk f lo hi base ! i = (if lo \<le> i \<and> i < hi then f i (base ! i) else base ! i)"
  by (simp add: bulk_def)

lemma bulk_empty: "hi \<le> lo \<Longrightarrow> bulk f lo hi base = base"
  by (rule nth_equalityI) (auto simp: nth_bulk)

lemma bulk_first:
  "lo < length base \<Longrightarrow> lo < hi \<Longrightarrow> bulk f (Suc lo) hi (base[lo := f lo (base ! lo)]) = bulk f lo hi base"
  by (rule nth_equalityI) (auto simp: nth_bulk nth_list_update)

lemma bulk_cong:
  "(\<And>i x. lo \<le> i \<Longrightarrow> i < hi \<Longrightarrow> f i x = g i x) \<Longrightarrow> bulk f lo hi base = bulk g lo hi base"
  by (rule nth_equalityI) (auto simp: nth_bulk)

lemma update_packet_Some:
  "mBase p = Some base \<Longrightarrow> i < length base \<Longrightarrow>
     update_packet f (mBaseId p, i) p = Some (p\<lparr>mBase := Some (base[i := f (base ! i)])\<rparr>)"
  by (simp add: update_packet_def deref_def mem_simps)

lemma initPage_loop_eq:
  "mBase p = Some base \<Longrightarrow> length base = mPoolSize p \<Longrightarrow> c \<le> mPoolSize p \<Longrightarrow>
     initPage_loop n idx page (c, p) =
       Some (min (c + n) (mPoolSize p),
         p\<lparr>mBase := Some (bulk (\<lambda>i. init_packet (mThis p) (mPacketSize p) page (idx + (i - c)))
                               c (min (c + n) (mPoolSize p)) base),
           mFreeBufferStack := mFreeBufferStack p @ map (Pair (mBaseId p)) [c..<min (c + n) (mPoolSize p)]\<rparr>)"
proof (induction n arbitrary: idx c p base)
  case 0
  then show ?case by (simp add: bulk_empty)
next
  case (Suc n)
  show ?case
  proof (cases "c < mPoolSize p")
    case False
    with Suc.prems show ?thesis by (simp add: bulk_empty)
  next
    case True
    let ?f = "\<lambda>i. init_packet (mThis p) (mPacketSize p) page (idx + (i - c))"
    have shift: "bulk (\<lambda>i. init_packet (mThis p) (mPacketSize p) page (Suc (idx + (i - Suc c)))) (Suc c) hi xs
        = bulk ?f (Suc c) hi xs" for hi xs
      by (rule bulk_cong) (simp add: Suc_diff_le [symmetric])
    have first: "bulk ?f (Suc c) hi (base[c := init_packet (mThis p) (mPacketSize p) page idx (base ! c)])
        = bulk ?f c hi base" if "c < hi" for hi
      using bulk_first [of c base hi ?f] that True Suc.prems by simp
    have "Suc c \<le> mPoolSize p" using True by simp
    with True Suc.prems show ?thesis
      by (simp add: update_packet_Some Suc.IH shift first upt_conv_Cons [of c])
  qed
qed

text \<open>The pool after \<open>k\<close> of its pages have been set up.\<close>

definition partial_init :: "(nat \<Rightarrow> igb_page) \<Rightarrow> nat \<Rightarrow> nat \<Rightarrow> IasAvbPacketPool \<Rightarrow> bool" where
  "partial_init pg packetsPerPage k p \<longleftrightarrow>
     (\<exists>base. mBase p = Some base \<and> length base = mPoolSize p \<and>
        (\<forall>i < mPoolSize p. base ! i =
           (if i < k * packetsPerPage
            then init_packet (mThis p) (mPacketSize p) (pg (i div packetsPerPage)) (i mod packetsPerPage) packet_new
            else packet_new))) \<and>
     mFreeBufferStack p = map (Pair (mBaseId p)) [0..<min (k * packetsPerPage) (mPoolSize p)] \<and>
     mDmaPages p = map pg [0..<k]"

definition same_pool :: "IasAvbPacketPool \<Rightarrow> IasAvbPacketPool \<Rightarrow> bool" where
  "same_pool p p' \<longleftrightarrow> mThis p' = mThis p \<and> mPacketSize p' = mPacketSize p \<and>
     mPoolSize p' = mPoolSize p \<and> mBaseId p' = mBaseId p"

lemma initPage_partial:
  assumes "0 < ppp" and "partial_init pg ppp k p"
  obtains p' where
    "initPage (pg k) ppp (min (k * ppp) (mPoolSize p), p) = Some (min (Suc k * ppp) (mPoolSize p), p')"
    and "partial_init pg ppp (Suc k) p'" and "same_pool p p'"
proof -
  let ?P = "mPoolSize p" let ?c = "min (k * ppp) ?P" let ?c' = "min (Suc k * ppp) ?P"
  from assms(2) obtain base where base: "mBase p = Some base" "length base = ?P"
    "\<And>i. i < ?P \<Longrightarrow> base ! i = (if i < k * ppp
        then init_packet (mThis p) (mPacketSize p) (pg (i div ppp)) (i mod ppp) packet_new else packet_new)"
    and st: "mFreeBufferStack p = map (Pair (mBaseId p)) [0..<?c]" "mDmaPages p = map pg [0..<k]"
    unfolding partial_init_def by blast
  have c': "min (?c + ppp) ?P = ?c'" by (auto simp: min_def)
  let ?f = "\<lambda>i. init_packet (mThis p) (mPacketSize p) (pg k) (i - ?c)"
  let ?p' = "p\<lparr>mDmaPages := map pg [0..<Suc k], mBase := Some (bulk ?f ?c ?c' base),
      mFreeBufferStack := map (Pair (mBaseId p)) [0..<?c']\<rparr>"
  have glue: "map g [0..<?c] @ map g [?c..<?c'] = map g [0..<?c']" for g :: "nat \<Rightarrow> pkt_ref"
    using upt_add_eq_append [of 0 ?c "?c' - ?c"] by (simp add: min_def flip: map_append)
  have run: "initPage (pg k) ppp (?c, p) = Some (?c', ?p')"
    unfolding initPage_def using glue
    by (simp add: initPage_loop_eq [where base = base] base st c')
  have nth: "bulk ?f ?c ?c' base ! i = (if i < Suc k * ppp
      then init_packet (mThis p) (mPacketSize p) (pg (i div ppp)) (i mod ppp) packet_new else packet_new)"
    if i: "i < ?P" for i
  proof (cases "k * ppp \<le> i \<and> i < Suc k * ppp")
    case True
    then have "i div ppp = k" using assms(1) by (intro div_nat_eqI) (auto simp: algebra_simps)
    moreover from this True have "i mod ppp = i - k * ppp"
      by (metis minus_div_mult_eq_mod)
    moreover have "?c = k * ppp" using True i by simp
    ultimately show ?thesis using True i base by (simp add: nth_bulk)
  next
    case False
    then show ?thesis using i base by (auto simp: nth_bulk)
  qed
  have "partial_init pg ppp (Suc k) ?p'"
    unfolding partial_init_def using base nth by simp
  moreover have "same_pool p ?p'" by (simp add: same_pool_def)
  ultimately show thesis using run that by blast
qed

lemma initPages_partial:
  assumes "0 < ppp" and "partial_init pg ppp k p"
    and "\<And>j. env_new_page env j" and "\<And>j. env_malloc_page env j = Some (pg j)"
  obtains p' where
    "initPages_loop n k ppp env (min (k * ppp) (mPoolSize p), p) = Some (eIasAvbProcOK, p')"
    and "partial_init pg ppp (k + n) p'" and "same_pool p p'"
  using assms(2)
proof (induction n arbitrary: k p thesis)
  case 0
  then show ?case by (simp add: same_pool_def)
next
  case (Suc n)
  from initPage_partial [OF assms(1) Suc.prems(2)] obtain p1 where p1:
    "initPage (pg k) ppp (min (k * ppp) (mPoolSize p), p) = Some (min (Suc k * ppp) (mPoolSize p), p1)"
    "partial_init pg ppp (Suc k) p1" "same_pool p p1" .
  from Suc.IH [OF _ p1(2)] obtain p2 where p2:
    "initPages_loop n (Suc k) ppp env (min (Suc k * ppp) (mPoolSize p1), p1) = Some (eIasAvbProcOK, p2)"
    "partial_init pg ppp (Suc k + n) p2" "same_pool p1 p2" by blast
  have "mPoolSize p1 = mPoolSize p" using p1(3) by (simp add: same_pool_def)
  then show ?case
    using Suc.prems(1) p1 p2 assms(3,4) by (auto simp: same_pool_def)
qed

section \<open>Well-formed pools and the packet source interface\<close>

text \<open>\<open>pool_ok p out\<close>: the pool is initialised, all its packets are valid and belong to it, and every
  packet is either on the free stack or among the outstanding packets \<open>out\<close>, exactly once.\<close>

definition pool_ok :: "IasAvbPacketPool \<Rightarrow> pkt_ref list \<Rightarrow> bool" where
  "pool_ok p out \<longleftrightarrow>
     (\<exists>base. mBase p = Some base \<and> length base = mPoolSize p \<and>
        (\<forall>pk \<in> set base. isValid pk \<and> mHome pk = Some (mThis p))) \<and>
     distinct (mFreeBufferStack p @ out) \<and>
     set (mFreeBufferStack p @ out) = {mBaseId p} \<times> {0..<mPoolSize p}"

lemma pool_ok_deref:
  assumes "pool_ok p out" and "r \<in> set (mFreeBufferStack p) \<union> set out"
  obtains pk where "deref p r = Some pk" "isValid pk" "mHome pk = Some (mThis p)"
proof -
  from assms obtain base where base: "mBase p = Some base" "length base = mPoolSize p"
    "\<forall>pk \<in> set base. isValid pk \<and> mHome pk = Some (mThis p)"
    and r: "r \<in> {mBaseId p} \<times> {0..<mPoolSize p}"
    by (auto simp: pool_ok_def)
  then have "deref p r = Some (base ! snd r)" by (auto simp: deref_def mem_simps)
  with base r that show thesis by auto
qed

lemma pool_ok_update:
  assumes ok: "pool_ok p out" and r: "r \<in> set (mFreeBufferStack p) \<union> set out"
    and keep: "\<And>pk. mHome (f pk) = mHome pk" "\<And>pk. mMagic (f pk) = mMagic pk"
  obtains p' where "update_packet f r p = Some p'" and "pool_ok p' out"
    and "mFreeBufferStack p' = mFreeBufferStack p" and "same_pool p p'" and "mBase p' \<noteq> None"
proof -
  from ok obtain base where base: "mBase p = Some base" "length base = mPoolSize p"
    "\<forall>pk \<in> set base. isValid pk \<and> mHome pk = Some (mThis p)"
    by (auto simp: pool_ok_def)
  from ok r have "r \<in> {mBaseId p} \<times> {0..<mPoolSize p}" by (auto simp: pool_ok_def)
  then obtain i where i: "r = (mBaseId p, i)" "i < length base" using base by auto
  let ?p' = "p\<lparr>mBase := Some (base[i := f (base ! i)])\<rparr>"
  have upd: "update_packet f r p = Some ?p'" using base i by (simp add: update_packet_Some)
  have "isValid (f (base ! i)) \<and> mHome (f (base ! i)) = Some (mThis p)"
    using base i keep by (auto simp: isValid_def)
  then have "\<forall>pk \<in> set (base[i := f (base ! i)]). isValid pk \<and> mHome pk = Some (mThis p)"
    using base by (auto dest!: set_update_subset_insert [THEN subsetD])
  then have "pool_ok ?p' out" using ok base by (simp add: pool_ok_def)
  with upd that show thesis by (simp add: same_pool_def)
qed

lemma pool_ok_stack_length: "pool_ok p out \<Longrightarrow> length (mFreeBufferStack p) + length out = mPoolSize p"
  using distinct_card [of "mFreeBufferStack p @ out"]
  by (auto simp: pool_ok_def card_cartesian_product)

lemma getPacket_Some:
  assumes "pool_ok p out" and "mFreeBufferStack p \<noteq> []"
  obtains p' where "getPacket p = Some (Some (last (mFreeBufferStack p)), p')"
    and "mFreeBufferStack p' = butlast (mFreeBufferStack p)"
    and "pool_ok p' (last (mFreeBufferStack p) # out)"
proof -
  let ?r = "last (mFreeBufferStack p)" and ?q = "p\<lparr>mFreeBufferStack := butlast (mFreeBufferStack p)\<rparr>"
  obtain fs r where "mFreeBufferStack p = fs @ [r]"
    using assms(2) by (cases "mFreeBufferStack p" rule: rev_exhaust) auto
  then have "mset (butlast (mFreeBufferStack p) @ ?r # out) = mset (mFreeBufferStack p @ out)"
    by simp
  then have "distinct (butlast (mFreeBufferStack p) @ ?r # out) = distinct (mFreeBufferStack p @ out)"
    and "set (butlast (mFreeBufferStack p) @ ?r # out) = set (mFreeBufferStack p @ out)"
    by (rule mset_eq_imp_distinct_iff, rule mset_eq_setD)
  then have q: "pool_ok ?q (?r # out)"
    using assms(1) by (simp only: pool_ok_def) simp
  obtain p' where "update_packet (\<lambda>pk. pk\<lparr>flags := 0, dmatime := 0\<rparr>) ?r ?q = Some p'"
    "pool_ok p' (?r # out)" "mFreeBufferStack p' = mFreeBufferStack ?q"
    by (rule pool_ok_update [OF q, of ?r "\<lambda>pk. pk\<lparr>flags := 0, dmatime := 0\<rparr>"]) auto
  moreover have "mBase p \<noteq> None" using assms(1) by (auto simp: pool_ok_def)
  ultimately show thesis using that assms(2) by (auto simp: getPacket_def Let_def)
qed

lemma returnPacket_ok:
  assumes ok: "pool_ok p out" and r: "r \<in> set out"
  obtains p' where "returnPacket (Some r) p = Some (eIasAvbProcOK, p')"
    and "mFreeBufferStack p' = mFreeBufferStack p @ [r]" and "pool_ok p' (remove1 r out)"
proof -
  from pool_ok_deref [OF ok, of r] r obtain pk where pk: "deref p r = Some pk" "isValid pk" by blast
  obtain p1 where p1: "update_packet (\<lambda>pk. pk\<lparr>mDummyFlag := False\<rparr>) r p = Some p1" "pool_ok p1 out"
    "mFreeBufferStack p1 = mFreeBufferStack p" "same_pool p p1"
    by (rule pool_ok_update [OF ok, of r "\<lambda>pk. pk\<lparr>mDummyFlag := False\<rparr>"]) (use r in auto)
  have len: "length (mFreeBufferStack p) \<le> mPoolSize p"
    using pool_ok_stack_length [OF ok] by simp
  let ?p' = "p1\<lparr>mFreeBufferStack := mFreeBufferStack p @ [r]\<rparr>"
  have "mBase p \<noteq> None" using ok by (auto simp: pool_ok_def)
  then have "returnPacket (Some r) p = Some (eIasAvbProcOK, ?p')"
    using pk p1 len by (simp add: returnPacket_def doReturnPacket_def same_pool_def)
  moreover have "pool_ok ?p' (remove1 r out)"
    using p1(2,3) r by (auto simp: pool_ok_def distinct_remove1)
  ultimately show thesis using that by simp
qed

text \<open>What the streams rely on when they take packets from a pool and give them back.\<close>

locale packet_source =
  fixes get :: "'p \<Rightarrow> ('r option \<times> 'p) option"
    and put :: "'r option \<Rightarrow> 'p \<Rightarrow> (IasAvbProcessingResult \<times> 'p) option"
    and free :: "'p \<Rightarrow> 'r list"
    and ok :: "'p \<Rightarrow> 'r list \<Rightarrow> bool"
  assumes get_empty: "ok p out \<Longrightarrow> free p = [] \<Longrightarrow> get p = Some (None, p)"
    and get_free: "ok p out \<Longrightarrow> free p \<noteq> [] \<Longrightarrow>
      \<exists>p'. get p = Some (Some (last (free p)), p') \<and> free p' = butlast (free p) \<and> ok p' (last (free p) # out)"
    and put_held: "ok p out \<Longrightarrow> r \<in> set out \<Longrightarrow>
      \<exists>p'. put (Some r) p = Some (eIasAvbProcOK, p') \<and> free p' = free p @ [r] \<and> ok p' (remove1 r out)"
    and disjoint: "ok p out \<Longrightarrow> distinct (free p @ out)"
begin

text \<open>A client that only returns packets it holds: \<open>Some k\<close> returns the \<open>k\<close>-th packet held (if there
  are that many), \<open>None\<close> asks for one.\<close>

primrec client :: "nat option list \<Rightarrow> 'p \<times> 'r list \<Rightarrow> ('p \<times> 'r list) option" where
  "client [] po = Some po"
| "client (a # as) po =
     (let (p, out) = po in
      case a of
        None \<Rightarrow> Option.bind (get p)
                  (\<lambda>(r, p'). client as (p', case r of None \<Rightarrow> out | Some r \<Rightarrow> r # out))
      | Some k \<Rightarrow>
          (if k < length out
           then Option.bind (put (Some (out ! k)) p)
                  (\<lambda>(res, p'). if res = eIasAvbProcOK then client as (p', remove1 (out ! k) out) else None)
           else client as po))"

lemma client_ok:
  "ok p out \<Longrightarrow> \<exists>p' out'. client as (p, out) = Some (p', out') \<and> ok p' out' \<and>
     length (free p') + length out' = length (free p) + length out"
proof (induction as arbitrary: p out)
  case Nil
  then show ?case by auto
next
  case (Cons a as)
  show ?case
  proof (cases a)
    case None
    show ?thesis
    proof (cases "free p = []")
      case True
      with Cons.IH [OF Cons.prems] None show ?thesis using get_empty [OF Cons.prems True] by simp
    next
      case False
      with get_free [OF Cons.prems] obtain p' where p': "get p = Some (Some (last (free p)), p')"
        "free p' = butlast (free p)" "ok p' (last (free p) # out)" by blast
      have "Suc (length (butlast (free p))) = length (free p)" using False by simp
      with Cons.IH [OF p'(3)] p' None show ?thesis by auto
    qed
  next
    case (Some k)
    show ?thesis
    proof (cases "k < length out")
      case True
      then have mem: "out ! k \<in> set out" by simp
      with put_held [OF Cons.prems] obtain p' where p': "put (Some (out ! k)) p = Some (eIasAvbProcOK, p')"
        "free p' = free p @ [out ! k]" "ok p' (remove1 (out ! k) out)" by blast
      have "Suc (length (remove1 (out ! k) out)) = length out"
        using mem True by (simp add: length_remove1)
      with Cons.IH [OF p'(3)] p' Some True show ?thesis by auto
    next
      case False
      with Cons Some show ?thesis by simp
    qed
  qed
qed

end

interpretation pool: packet_source getPacket returnPacket mFreeBufferStack pool_ok
proof
  show "getPacket p = Some (None, p)" if "pool_ok p out" "mFreeBufferStack p = []" for p out
    using that by (simp add: getPacket_def)
qed (metis getPacket_Some, metis returnPacket_ok, simp add: pool_ok_def)

section \<open>Initialisation yields a well-formed pool\<close>

lemma init_packet_simps [simp]:
  "isValid (init_packet this ps page k packet_new)"
  "mHome (init_packet this ps page k packet_new) = Some this"
  "offset (init_packet this ps page k packet_new) = of_nat (k * ps)"
  "vaddr (init_packet this ps page k packet_new) = dma_vaddr page + ucast (of_nat (k * ps) :: u32)"
  by (simp_all add: init_packet_def setHomePool_def packet_new_def isValid_def Let_def)

lemma pages_suffice: "0 < (ppp::nat) \<Longrightarrow> n \<le> (n + (ppp - 1)) div ppp * ppp"
proof -
  assume p: "0 < ppp"
  have "n + (ppp - 1) < (n + (ppp - 1)) div ppp * ppp + ppp"
    using p by (metis div_mult_mod_eq add_less_cancel_left mod_less_divisor)
  then show ?thesis using p by simp
qed

lemma pool_init_run:
  assumes size: "0 < ps" "ps \<le> cMaxBufferSize" and n: "0 < n" "n \<le> cMaxPoolSize"
    and env: "env_new_packets env" "env_igbDevice env" "\<And>j. env_new_page env j"
      "\<And>j. env_malloc_page env j = Some (pg j)"
    and ppp: "ppp = unat (mmap_size (pg 0)) div ps" "0 < ppp"
  obtains p' where "pool_init ps n env (pool_new this) = Some (eIasAvbProcOK, p')"
    and "partial_init pg ppp ((n + (ppp - 1)) div ppp) p'"
    and "mPoolSize p' = n" "mPacketSize p' = ps" "mThis p' = this"
proof -
  let ?k = "(n + (ppp - 1)) div ppp"
  let ?p2 = "(pool_new this)\<lparr>mBase := Some (replicate n packet_new), mBaseId := Suc 0, mPoolSize := n,
      mPacketSize := ps\<rparr>"
  have k: "0 < ?k" using ppp(2) n(1) by (simp add: div_greater_zero_iff)
  have start: "partial_init pg ppp 0 ?p2"
    by (simp add: partial_init_def pool_new_def)
  obtain p1 where p1: "initPage (pg 0) ppp (min (0 * ppp) (mPoolSize ?p2), ?p2)
      = Some (min (Suc 0 * ppp) (mPoolSize ?p2), p1)" "partial_init pg ppp (Suc 0) p1" "same_pool ?p2 p1"
    by (rule initPage_partial [OF ppp(2) start])
  obtain p' where p': "initPages_loop (?k - 1) (Suc 0) ppp env (min (Suc 0 * ppp) (mPoolSize p1), p1)
      = Some (eIasAvbProcOK, p')" "partial_init pg ppp (Suc 0 + (?k - 1)) p'" "same_pool p1 p'"
    by (rule initPages_partial [OF ppp(2) p1(2) env(3,4)])
  have "pool_init ps n env (pool_new this) = Some (eIasAvbProcOK, p')"
    using size n env p1 p' ppp
    by (simp add: pool_init_def pool_init_alloc_def Let_def pool_new_def same_pool_def)
  moreover have "Suc 0 + (?k - 1) = ?k" using k by simp
  ultimately show thesis
    using that p'(2,3) p1(3) by (simp add: same_pool_def pool_new_def)
qed

lemma partial_init_ok:
  assumes "partial_init pg ppp k p" and "mPoolSize p \<le> k * ppp"
  shows "pool_ok p []"
proof -
  from assms(1) obtain base where base: "mBase p = Some base" "length base = mPoolSize p"
    "\<forall>i < mPoolSize p. base ! i = (if i < k * ppp
       then init_packet (mThis p) (mPacketSize p) (pg (i div ppp)) (i mod ppp) packet_new else packet_new)"
    unfolding partial_init_def by blast
  have "\<forall>pk \<in> set base. isValid pk \<and> mHome pk = Some (mThis p)"
    using base assms(2) by (auto simp: in_set_conv_nth)
  moreover have "mFreeBufferStack p = map (Pair (mBaseId p)) [0..<mPoolSize p]"
    using assms by (auto simp: partial_init_def min_def)
  ultimately show ?thesis
    using base by (auto simp: pool_ok_def distinct_map inj_on_def)
qed

lemma pool_init_ok:
  assumes size: "0 < ps" "ps \<le> cMaxBufferSize" and n: "0 < n" "n \<le> cMaxPoolSize"
    and env: "env_new_packets env" "env_igbDevice env" "\<And>j. env_new_page env j"
      "\<And>j. env_malloc_page env j = Some (pg j)"
    and ppp: "0 < unat (mmap_size (pg 0)) div ps"
  shows "\<exists>p. pool_init ps n env (pool_new this) = Some (eIasAvbProcOK, p) \<and> pool_ok p [] \<and>
    mPoolSize p = n \<and> mPacketSize p = ps"
proof -
  let ?ppp = "unat (mmap_size (pg 0)) div ps"
  obtain p where p: "pool_init ps n env (pool_new this) = Some (eIasAvbProcOK, p)"
    "partial_init pg ?ppp ((n + (?ppp - 1)) div ?ppp) p" "mPoolSize p = n" "mPacketSize p = ps"
    by (rule pool_init_run [OF size n env refl ppp, of this])
  moreover have "pool_ok p []"
    by (rule partial_init_ok [OF p(2)]) (unfold p(3), rule pages_suffice [OF ppp])
  ultimately show ?thesis by blast
qed

lemma initPages_deref:
  assumes "partial_init pg ppp k p" and "mPoolSize p \<le> k * ppp" and "i < mPoolSize p"
  shows "deref p (mBaseId p, i) =
    Some (init_packet (mThis p) (mPacketSize p) (pg (i div ppp)) (i mod ppp) packet_new)"
  using assms by (auto simp: partial_init_def deref_def mem_simps)

section \<open>Properties\<close>

text \<open>Initialising a pool with \<open>n\<close> packets of \<open>ps\<close> bytes from DMA pages of \<open>M\<close> bytes
  succeeds, never touches memory outside the packet array, uses \<open>\<lceil>n / (M div ps)\<rceil>\<close> pages, and puts
  every packet once on the free stack; each packet owns a section of \<open>ps\<close> bytes inside its page
  and sections of one page do not overlap.\<close>

theorem pool_init_sections:
  assumes size: "0 < ps" "ps \<le> cMaxBufferSize" and n: "0 < n" "n \<le> cMaxPoolSize"
    and env: "env_new_packets env" "env_igbDevice env" "\<And>j. env_new_page env j"
      "\<And>j. env_malloc_page env j = Some (pg j)"
    and page: "unat (mmap_size (pg 0)) = M" "ps \<le> M"
  shows "\<exists>p'. pool_init ps n env (pool_new this) = Some (eIasAvbProcOK, p') \<and> pool_ok p' [] \<and>
    length (mFreeBufferStack p') = n \<and> length (mDmaPages p') = (n + (M div ps - 1)) div (M div ps) \<and>
    (\<forall>i < n. \<exists>pk. deref p' (mBaseId p', i) = Some pk \<and>
       vaddr pk = dma_vaddr (mDmaPages p' ! (i div (M div ps))) + ucast (offset pk) \<and>
       unat (offset pk) = i mod (M div ps) * ps \<and> unat (offset pk) + ps \<le> M)"
proof -
  let ?ppp = "M div ps"
  have ppp: "0 < ?ppp" using page(2) size(1) by (simp add: div_greater_zero_iff)
  obtain p' where p': "pool_init ps n env (pool_new this) = Some (eIasAvbProcOK, p')"
    "partial_init pg ?ppp ((n + (?ppp - 1)) div ?ppp) p'"
    "mPoolSize p' = n" "mPacketSize p' = ps" "mThis p' = this"
    by (rule pool_init_run [OF size n env, of ?ppp]) (use page ppp in auto)
  note enough = pages_suffice [OF ppp, of n]
  have ok: "pool_ok p' []" by (rule partial_init_ok [OF p'(2)]) (use enough p'(3) in simp)
  have pages: "mDmaPages p' = map pg [0..<(n + (?ppp - 1)) div ?ppp]"
    using p'(2) by (simp add: partial_init_def)
  have sect: "\<exists>pk. deref p' (mBaseId p', i) = Some pk \<and>
       vaddr pk = dma_vaddr (mDmaPages p' ! (i div ?ppp)) + ucast (offset pk) \<and>
       unat (offset pk) = i mod ?ppp * ps \<and> unat (offset pk) + ps \<le> M" if i: "i < n" for i
  proof -
    have "i mod ?ppp < ?ppp" using ppp by simp
    then have "Suc (i mod ?ppp) * ps \<le> ?ppp * ps" by (intro mult_le_mono1) simp
    then have fit: "i mod ?ppp * ps + ps \<le> M"
      using le_trans [OF _ div_times_less_eq_dividend [of M ps]] by (simp add: add.commute)
    have "M < 2 ^ 32" using page(1) unat_lt [of "mmap_size (pg 0)"] by simp
    with fit have off: "unat (of_nat (i mod ?ppp * ps) :: u32) = i mod ?ppp * ps"
      by (simp add: unat_of_nat take_bit_nat_eq_self del: of_nat_mult)
    have "i div ?ppp < (n + (?ppp - 1)) div ?ppp"
      using i enough by (simp add: less_mult_imp_div_less)
    moreover have "deref p' (mBaseId p', i) =
        Some (init_packet this ps (pg (i div ?ppp)) (i mod ?ppp) packet_new)"
      using initPages_deref [OF p'(2), of i] enough i p'(3-5) by simp
    ultimately show ?thesis
      using off fit by (simp add: pages del: of_nat_mult)
  qed
  show ?thesis
    using p'(1,3) ok sect pool_ok_stack_length [OF ok] by (auto simp: pages)
qed

definition example_env :: pool_env where
  "example_env = \<lparr>env_new_packets = True, env_igbDevice = True, env_new_page = (\<lambda>_. True),
     env_malloc_page = (\<lambda>j. Some \<lparr>dma_vaddr = 4096 * of_nat (Suc j), dma_paddr = 0, mmap_size = 4096\<rparr>)\<rparr>"

theorem pool_init_sections_witness:
  "\<exists>p'. pool_init 1536 5 example_env (pool_new 7) = Some (eIasAvbProcOK, p') \<and>
     length (mFreeBufferStack p') = 5 \<and> length (mDmaPages p') = 3"
  using pool_init_sections [of 1536 5 example_env
      "\<lambda>j. \<lparr>dma_vaddr = 4096 * of_nat (Suc j), dma_paddr = 0, mmap_size = 4096\<rparr>" 4096 7]
  by (auto simp: example_env_def cMaxBufferSize_def cMaxPoolSize_def)

text \<open>C2. A stream that only returns packets it holds can take and return packets in any order:
  no operation fails or touches a foreign packet, the pool stays well-formed, so no packet is ever
  handed out twice, and free and held packets always add up to the size of the pool.\<close>

theorem pool_client_safe:
  assumes "pool_ok p []"
  shows "\<exists>p' held. pool.client script (p, []) = Some (p', held) \<and> pool_ok p' held \<and>
    distinct held \<and> length (mFreeBufferStack p') + length held = length (mFreeBufferStack p)"
  using pool.client_ok [OF assms, of script] pool.disjoint by fastforce

lemma example_pool:
  obtains p where "pool_init 1536 5 example_env (pool_new 7) = Some (eIasAvbProcOK, p)"
    and "pool_ok p []" and "length (mFreeBufferStack p) = 5"
proof -
  obtain p where p: "pool_init 1536 5 example_env (pool_new 7) = Some (eIasAvbProcOK, p)"
    "partial_init (\<lambda>j. \<lparr>dma_vaddr = 4096 * of_nat (Suc j), dma_paddr = 0, mmap_size = 4096\<rparr>) 2
       ((5 + (2 - 1)) div 2) p" "mPoolSize p = 5"
    by (rule pool_init_run [of 1536 5 example_env
          "\<lambda>j. \<lparr>dma_vaddr = 4096 * of_nat (Suc j), dma_paddr = 0, mmap_size = 4096\<rparr>" 2 7])
      (simp_all add: cMaxBufferSize_def cMaxPoolSize_def example_env_def)
  have "pool_ok p []" by (rule partial_init_ok [OF p(2)]) (simp add: p(3))
  with p(1,3) pool_ok_stack_length [OF this] that show thesis by simp
qed

theorem pool_client_safe_witness:
  "\<exists>p p' held. pool_init 1536 5 example_env (pool_new 7) = Some (eIasAvbProcOK, p) \<and>
     pool.client [None, None, Some 1, None] (p, []) = Some (p', held) \<and>
     length (mFreeBufferStack p') + length held = 5"
proof -
  obtain p where p: "pool_init 1536 5 example_env (pool_new 7) = Some (eIasAvbProcOK, p)"
    "pool_ok p []" "length (mFreeBufferStack p) = 5"
    by (rule example_pool)
  with pool_client_safe [OF p(2), of "[None, None, Some 1, None]"] show ?thesis by auto
qed

end
