(* ===== verification/Local_Audio_Buffer.thy ===== *)
theory Local_Audio_Buffer
  imports Prelude "HOL-Library.Monad_Syntax"
begin

text \<open>
  \<^verbatim>\<open>IasLocalAudioBuffer\<close> (\<^verbatim>\<open>IasLocalAudioBuffer.hpp/.cpp\<close>): the sample ring buffer of one channel
  between a local stream and its client. Indices and sizes are 32-bit words with the source's
  wrap-around; the caller's memory is the list of samples from the passed pointer on; the result
  \<open>None\<close> of an operation is an access outside an array or through a NULL pointer. The lock makes
  every operation atomic. Log output is left out.
\<close>

type_synonym AudioData = "16 word"

datatype IasAudioBufferState =
    eIasAudioBufferStateInit
  | eIasAudioBufferStateOk
  | eIasAudioBufferStateUnderrun
  | eIasAudioBufferStateOverrun

record DiagData =
  numOverrun :: u32
  numUnderrun :: u32
  numOverrunTotal :: u32
  numUnderrunTotal :: u32
  numReset :: u32

record IasLocalAudioBuffer =
  mReadIndex :: u32
  mWriteIndex :: u32
  mReadCnt :: u32
  mWriteCnt :: u32
  mTotalSize :: u32
  mReferenceFill :: u32
  mBufferState :: IasAudioBufferState
  mBufferStateLast :: IasAudioBufferState
  mDoAnalysis :: bool
  mReadIndexLastWriteCall :: u32
  mBuffer :: "AudioData list option"
  mLastRead :: u32
  mDiagData :: DiagData
  mReadReady :: bool
  mReadThreshold :: u32
  mMonotonicReadIndex :: u64
  mMonotonicWriteIndex :: u64

definition DiagData_new :: DiagData where
  "DiagData_new =
     \<lparr>numOverrun = 0, numUnderrun = 0, numOverrunTotal = 0, numUnderrunTotal = 0, numReset = 0\<rparr>"

definition lab_new :: IasLocalAudioBuffer where
  "lab_new =
     \<lparr>mReadIndex = 0, mWriteIndex = 0, mReadCnt = 0, mWriteCnt = 0, mTotalSize = 0,
      mReferenceFill = 0, mBufferState = eIasAudioBufferStateInit,
      mBufferStateLast = eIasAudioBufferStateInit, mDoAnalysis = False,
      mReadIndexLastWriteCall = 0, mBuffer = None, mLastRead = 0, mDiagData = DiagData_new,
      mReadReady = False, mReadThreshold = 0, mMonotonicReadIndex = 0, mMonotonicWriteIndex = 0\<rparr>"

definition getFillLevel :: "IasLocalAudioBuffer \<Rightarrow> u32" where
  "getFillLevel b =
     (let ret = mWriteIndex b - mReadIndex b in
      if ret > mTotalSize b then ret + mTotalSize b else ret)"

definition getRelativeFillLevel :: "IasLocalAudioBuffer \<Rightarrow> int" where
  "getRelativeFillLevel b =
     (if mReferenceFill b \<noteq> 0 then sint (getFillLevel b - mReferenceFill b) else 0)"

definition setReadThreshold ::
  "u32 \<Rightarrow> IasLocalAudioBuffer \<Rightarrow> IasAvbProcessingResult \<times> IasLocalAudioBuffer" where
  "setReadThreshold fillLevel b =
     (if fillLevel \<le> mTotalSize b then (eIasAvbProcOK, b\<lparr>mReadThreshold := fillLevel\<rparr>)
      else (eIasAvbProcInvalidParam, b))"

text \<open>\<^verbatim>\<open>init\<close>: \<open>mem\<close> is what \<^verbatim>\<open>new (nothrow) AudioData[mTotalSize]\<close> returned, uninitialised samples.\<close>

definition lab_init ::
  "u32 \<Rightarrow> bool \<Rightarrow> AudioData list option \<Rightarrow> IasLocalAudioBuffer \<Rightarrow> IasAvbProcessingResult \<times> IasLocalAudioBuffer"
where
  "lab_init totalSize doAnalysis mem b =
     (let b = b\<lparr>mTotalSize := totalSize, mDoAnalysis := doAnalysis, mBuffer := mem\<rparr> in
      (if mBuffer b = None then eIasAvbProcNotEnoughMemory else eIasAvbProcOK, b))"

definition lab_cleanup :: "IasLocalAudioBuffer \<Rightarrow> IasLocalAudioBuffer" where
  "lab_cleanup b = b\<lparr>mBuffer := None\<rparr>"

section \<open>Accesses to the sample memory\<close>

text \<open>\<^verbatim>\<open>memset(mBuffer + off, 0, n * sizeof (AudioData))\<close>\<close>

definition clear_samples :: "nat \<Rightarrow> nat \<Rightarrow> IasLocalAudioBuffer \<Rightarrow> IasLocalAudioBuffer option" where
  "clear_samples off n b =
     (case mBuffer b of
        None \<Rightarrow> if off = 0 \<and> n = 0 then Some b else None
      | Some buf \<Rightarrow> map_option (\<lambda>buf'. b\<lparr>mBuffer := Some buf'\<rparr>) (blit buf off (replicate n 0)))"

text \<open>\<^verbatim>\<open>avb_safe_memcpy(mBuffer + off, size, src, size)\<close> and \<^verbatim>\<open>avb_safe_memcpy(dst, size, mBuffer + off, size)\<close>:
  a NULL pointer makes it return without copying.\<close>

definition copy_in :: "nat \<Rightarrow> AudioData list \<Rightarrow> IasLocalAudioBuffer \<Rightarrow> IasLocalAudioBuffer option" where
  "copy_in off src b =
     (case mBuffer b of
        None \<Rightarrow> if off = 0 then Some b else None
      | Some buf \<Rightarrow> map_option (\<lambda>buf'. b\<lparr>mBuffer := Some buf'\<rparr>) (blit buf off src))"

definition copy_out ::
  "AudioData list \<Rightarrow> nat \<Rightarrow> nat \<Rightarrow> nat \<Rightarrow> IasLocalAudioBuffer \<Rightarrow> AudioData list option" where
  "copy_out dst pos off n b =
     (case mBuffer b of
        None \<Rightarrow> if off = 0 then Some dst else None
      | Some buf \<Rightarrow> do { d \<leftarrow> slice buf off n; blit dst pos d })"

text \<open>\<^verbatim>\<open>*(mBuffer + off) = x\<close> and \<^verbatim>\<open>*(mBuffer + off)\<close>\<close>

definition put_sample :: "nat \<Rightarrow> AudioData \<Rightarrow> IasLocalAudioBuffer \<Rightarrow> IasLocalAudioBuffer option" where
  "put_sample off x b =
     do { buf \<leftarrow> mBuffer b; buf' \<leftarrow> store buf off x; Some (b\<lparr>mBuffer := Some buf'\<rparr>) }"

definition get_sample :: "nat \<Rightarrow> IasLocalAudioBuffer \<Rightarrow> AudioData option" where
  "get_sample off b = do { buf \<leftarrow> mBuffer b; fetch buf off }"

section \<open>Reset\<close>

definition lab_reset ::
  "u32 \<Rightarrow> IasLocalAudioBuffer \<Rightarrow> (IasAvbProcessingResult \<times> IasLocalAudioBuffer) option" where
  "lab_reset optimalFillLevel b =
     (let newReadIndex = mWriteIndex b - optimalFillLevel;
          newReadIndex = (if newReadIndex > mTotalSize b then newReadIndex + mTotalSize b else newReadIndex)
      in do {
        b \<leftarrow> (if getFillLevel b < optimalFillLevel
              then if newReadIndex < mReadIndex b
                   then clear_samples (unat newReadIndex) (unat (mReadIndex b - newReadIndex)) b
                   else do {
                     b \<leftarrow> clear_samples (unat newReadIndex) (unat (mTotalSize b - newReadIndex)) b;
                     clear_samples 0 (unat (mReadIndex b)) b
                   }
              else Some b);
        Some (eIasAvbProcOK,
              b\<lparr>mReadIndex := newReadIndex, mBufferState := eIasAudioBufferStateOk,
                mBufferStateLast := eIasAudioBufferStateOk, mReferenceFill := 0,
                mDiagData := (mDiagData b)\<lparr>numOverrun := 0, numUnderrun := 0,
                                            numReset := numReset (mDiagData b) + 1\<rparr>,
                mReadReady := False, mMonotonicReadIndex := 0, mMonotonicWriteIndex := 0\<rparr>)
      })"

section \<open>Writing\<close>

text \<open>The check of the remaining space both write functions start with.\<close>

definition write_limit :: "u32 \<Rightarrow> IasLocalAudioBuffer \<Rightarrow> u32 \<times> IasLocalAudioBuffer" where
  "write_limit nrSamples b =
     (let remaining = mTotalSize b - getFillLevel b - 1 in
      if nrSamples > remaining
      then (remaining, b\<lparr>mDiagData := (mDiagData b)\<lparr>numOverrun := numOverrun (mDiagData b) + 1,
                                                    numOverrunTotal := numOverrunTotal (mDiagData b) + 1\<rparr>\<rparr>)
      else (nrSamples, b))"

definition note_reference :: "IasLocalAudioBuffer \<Rightarrow> IasLocalAudioBuffer" where
  "note_reference b = (if 0 = mReferenceFill b then b\<lparr>mReferenceFill := getFillLevel b\<rparr> else b)"

definition write_chunk :: "AudioData list \<Rightarrow> u32 \<Rightarrow> IasLocalAudioBuffer \<Rightarrow> IasLocalAudioBuffer option" where
  "write_chunk buffer nrSamples b =
     do {
       d \<leftarrow> slice buffer 0 (unat nrSamples);
       b \<leftarrow> copy_in (unat (mWriteIndex b)) d b;
       Some (b\<lparr>mWriteIndex := mWriteIndex b + nrSamples\<rparr>)
     }"

definition write_block :: "AudioData list \<Rightarrow> u32 \<Rightarrow> IasLocalAudioBuffer \<Rightarrow> IasLocalAudioBuffer option" where
  "write_block buffer nrSamples b =
     (let beforeWrap = mTotalSize b - mWriteIndex b in
      if nrSamples > beforeWrap
      then do {
        d \<leftarrow> slice buffer 0 (unat beforeWrap);
        b \<leftarrow> copy_in (unat (mWriteIndex b)) d b;
        write_chunk (drop (unat beforeWrap) buffer) (nrSamples - beforeWrap) (b\<lparr>mWriteIndex := 0\<rparr>)
      }
      else write_chunk buffer nrSamples b)"

text \<open>The loop of the interleaved write: the first argument counts the samples left, \<open>step\<close> is
  \<^verbatim>\<open>stride/sizeof(AudioData)\<close> and \<open>pos\<close> how far \<^verbatim>\<open>buffer\<close> has moved.\<close>

primrec write_loop ::
  "nat \<Rightarrow> nat \<Rightarrow> nat \<Rightarrow> AudioData list \<Rightarrow> IasLocalAudioBuffer \<Rightarrow> IasLocalAudioBuffer option" where
  "write_loop 0 step pos buffer b = Some b"
| "write_loop (Suc n) step pos buffer b =
     do {
       x \<leftarrow> fetch buffer pos;
       b \<leftarrow> put_sample (unat (mWriteIndex b)) x b;
       let beforeWrap = mTotalSize b - mWriteIndex b;
       let b = b\<lparr>mWriteIndex := (if 1 = beforeWrap then 0 else mWriteIndex b + 1)\<rparr>;
       write_loop n step (pos + step) buffer (note_reference b)
     }"

definition write_finish :: "u32 \<Rightarrow> IasLocalAudioBuffer \<Rightarrow> IasLocalAudioBuffer" where
  "write_finish samplesWritten b =
     (let b = b\<lparr>mMonotonicWriteIndex := mMonotonicWriteIndex b + ucast samplesWritten\<rparr> in
      if \<not> mReadReady b \<and> getFillLevel b \<ge> mReadThreshold b then b\<lparr>mReadReady := True\<rparr> else b)"

definition lab_write ::
  "AudioData list \<Rightarrow> u32 \<Rightarrow> IasLocalAudioBuffer \<Rightarrow> (u32 \<times> IasLocalAudioBuffer) option" where
  "lab_write buffer nrSamples b =
     (let (nrSamples, b) = write_limit nrSamples b in
      do {
        b \<leftarrow> write_block buffer nrSamples b;
        Some (nrSamples, write_finish nrSamples (note_reference b))
      })"

definition lab_write_stride ::
  "AudioData list \<Rightarrow> u32 \<Rightarrow> u32 \<Rightarrow> IasLocalAudioBuffer \<Rightarrow> (u32 \<times> IasLocalAudioBuffer) option" where
  "lab_write_stride buffer nrSamples stride b =
     (let (nrSamples, b) = write_limit nrSamples b in
      do {
        b \<leftarrow> (if 2 = stride then map_option note_reference (write_block buffer nrSamples b)
              else write_loop (unat nrSamples) (unat stride div 2) 0 buffer b);
        Some (nrSamples, write_finish nrSamples b)
      })"

section \<open>Reading\<close>

definition read_limit :: "u32 \<Rightarrow> IasLocalAudioBuffer \<Rightarrow> u32" where
  "read_limit nrSamples b = (if nrSamples > getFillLevel b then getFillLevel b else nrSamples)"

definition read_block ::
  "AudioData list \<Rightarrow> u32 \<Rightarrow> IasLocalAudioBuffer \<Rightarrow> (AudioData list \<times> IasLocalAudioBuffer) option" where
  "read_block buffer nrSamples b =
     (let beforeWrap = mTotalSize b - mReadIndex b in
      if nrSamples > beforeWrap
      then do {
        buffer \<leftarrow> copy_out buffer 0 (unat (mReadIndex b)) (unat beforeWrap) b;
        buffer \<leftarrow> copy_out buffer (unat beforeWrap) 0 (unat (nrSamples - beforeWrap)) b;
        Some (buffer, b\<lparr>mReadIndex := nrSamples - beforeWrap\<rparr>)
      }
      else do {
        buffer \<leftarrow> copy_out buffer 0 (unat (mReadIndex b)) (unat nrSamples) b;
        Some (buffer, b\<lparr>mReadIndex := mReadIndex b + nrSamples\<rparr>)
      })"

primrec read_loop ::
  "nat \<Rightarrow> nat \<Rightarrow> nat \<Rightarrow> AudioData list \<Rightarrow> IasLocalAudioBuffer \<Rightarrow> (AudioData list \<times> IasLocalAudioBuffer) option"
where
  "read_loop 0 step pos buffer b = Some (buffer, b)"
| "read_loop (Suc n) step pos buffer b =
     do {
       x \<leftarrow> get_sample (unat (mReadIndex b)) b;
       buffer \<leftarrow> store buffer pos x;
       let beforeWrap = mTotalSize b - mReadIndex b;
       read_loop n step (pos + step) buffer
         (b\<lparr>mReadIndex := (if 1 = beforeWrap then 0 else mReadIndex b + 1)\<rparr>)
     }"

definition read_finish :: "u32 \<Rightarrow> IasLocalAudioBuffer \<Rightarrow> IasLocalAudioBuffer" where
  "read_finish samplesRead b =
     (let b = b\<lparr>mMonotonicReadIndex := mMonotonicReadIndex b + ucast samplesRead\<rparr> in
      if mDoAnalysis b
      then b\<lparr>mLastRead := (if mReadCnt b mod 32000 = 0 \<or> samplesRead \<noteq> mLastRead b
                           then samplesRead else mLastRead b),
             mReadCnt := mReadCnt b + 1\<rparr>
      else b)"

definition lab_read ::
  "AudioData list \<Rightarrow> u32 \<Rightarrow> IasLocalAudioBuffer \<Rightarrow> (u32 \<times> AudioData list \<times> IasLocalAudioBuffer) option" where
  "lab_read buffer nrSamples b =
     (let nrSamples = read_limit nrSamples b in
      do {
        (buffer, b) \<leftarrow> read_block buffer nrSamples b;
        Some (nrSamples, buffer, read_finish nrSamples b)
      })"

definition lab_read_stride ::
  "AudioData list \<Rightarrow> u32 \<Rightarrow> u32 \<Rightarrow> IasLocalAudioBuffer \<Rightarrow>
     (u32 \<times> AudioData list \<times> IasLocalAudioBuffer) option" where
  "lab_read_stride buffer nrSamples stride b =
     (let nrSamples = read_limit nrSamples b in
      do {
        (buffer, b) \<leftarrow> (if 2 = stride then read_block buffer nrSamples b
                        else read_loop (unat nrSamples) (unat stride div 2) 0 buffer b);
        Some (nrSamples, buffer, read_finish nrSamples b)
      })"

section \<open>The ring invariant\<close>

abbreviation "cap b \<equiv> unat (mTotalSize b)"
abbreviation "rd b \<equiv> unat (mReadIndex b)"
abbreviation "wr b \<equiv> unat (mWriteIndex b)"

definition fill :: "IasLocalAudioBuffer \<Rightarrow> nat" where
  "fill b = (if rd b \<le> wr b then wr b - rd b else cap b + wr b - rd b)"

definition content :: "IasLocalAudioBuffer \<Rightarrow> AudioData list" where
  "content b = (case mBuffer b of None \<Rightarrow> [] | Some buf \<Rightarrow> ring buf (rd b) (fill b))"

text \<open>An index may equal the size: the block functions leave it there until the next wrap. The
  functions that move sample by sample need it below the size (\<open>lab_strict\<close>).\<close>

definition lab_ok :: "IasLocalAudioBuffer \<Rightarrow> bool" where
  "lab_ok b \<longleftrightarrow> map_option length (mBuffer b) = Some (cap b) \<and>
     0 < cap b \<and> cap b < 2 ^ 31 \<and> rd b \<le> cap b \<and> wr b \<le> cap b \<and> fill b < cap b"

definition lab_strict :: "IasLocalAudioBuffer \<Rightarrow> bool" where
  "lab_strict b \<longleftrightarrow> lab_ok b \<and> rd b < cap b \<and> wr b < cap b"

lemma lab_okE:
  assumes "lab_ok b"
  obtains buf where "mBuffer b = Some buf" "length buf = cap b" "0 < cap b" "cap b < 2 ^ 31"
    "rd b \<le> cap b" "wr b \<le> cap b" "fill b < cap b" "content b = ring buf (rd b) (fill b)"
  using assms by (cases "mBuffer b") (auto simp: lab_ok_def content_def)

lemma length_content: "lab_ok b \<Longrightarrow> length (content b) = fill b"
  by (erule lab_okE) simp

lemma unat_distance:
  fixes w r T :: u32
  assumes bounds: "unat T < 2 ^ 31" "unat r \<le> unat T" "unat w \<le> unat T"
  shows "unat (if w - r > T then w - r + T else w - r) =
    (if unat r \<le> unat w then unat w - unat r else unat T + unat w - unat r)"
proof (cases "unat r \<le> unat w")
  case True
  then have "unat (w - r) = unat w - unat r" by (rule unat_sub_small)
  moreover from this bounds have "\<not> w - r > T" by (simp add: word_less_nat_alt)
  ultimately show ?thesis using True by simp
next
  case False
  then have diff: "unat (w - r) = 2 ^ 32 + unat w - unat r"
    using unat_sub_wrap [of w r] by simp
  with False bounds have "w - r > T" by (simp add: word_less_nat_alt)
  moreover have "(2 ^ 32 + unat w - unat r + unat T) mod 2 ^ 32 = unat T + unat w - unat r"
  proof -
    have "2 ^ 32 + unat w - unat r + unat T = (unat T + unat w - unat r) + 2 ^ 32"
      using bounds by simp
    moreover have "unat T + unat w - unat r < 2 ^ 32" using bounds False by simp
    ultimately show ?thesis by (simp only: mod_add_self2 mod_less)
  qed
  then have "unat (w - r + T) = unat T + unat w - unat r"
    using diff by (simp add: unat_word_ariths)
  ultimately show ?thesis using False by simp
qed

lemma unat_getFillLevel: "lab_ok b \<Longrightarrow> unat (getFillLevel b) = fill b"
  using unat_distance [of "mTotalSize b" "mReadIndex b" "mWriteIndex b"]
  by (auto simp: getFillLevel_def fill_def Let_def elim: lab_okE)

lemma unat_remaining:
  assumes "lab_ok b"
  shows "unat (mTotalSize b - getFillLevel b - 1) = cap b - fill b - 1"
proof -
  have fill: "unat (getFillLevel b) = fill b" "fill b < cap b"
    using unat_getFillLevel [OF assms] assms by (auto elim: lab_okE)
  then have "unat (mTotalSize b - getFillLevel b) = cap b - fill b"
    using unat_sub_small [of "getFillLevel b" "mTotalSize b"] by simp
  with fill show ?thesis
    using unat_sub_small [of 1 "mTotalSize b - getFillLevel b"] by simp
qed

lemma write_limit_ok:
  assumes "lab_ok b"
  obtains m d where "write_limit n b = (m, b\<lparr>mDiagData := d\<rparr>)"
    and "unat m = min (unat n) (cap b - fill b - 1)"
    and "d = (if unat n > cap b - fill b - 1
              then (mDiagData b)\<lparr>numOverrun := numOverrun (mDiagData b) + 1,
                                 numOverrunTotal := numOverrunTotal (mDiagData b) + 1\<rparr>
              else mDiagData b)"
proof -
  show thesis
    by (rule that [of "fst (write_limit n b)" "mDiagData (snd (write_limit n b))"])
      (use unat_remaining [OF assms] in \<open>auto simp: write_limit_def Let_def word_less_nat_alt\<close>)
qed

lemma unat_read_limit: "lab_ok b \<Longrightarrow> unat (read_limit n b) = min (unat n) (fill b)"
  by (simp add: read_limit_def unat_getFillLevel word_less_nat_alt)

text \<open>Fields that play no part in the ring.\<close>

definition ring_fields :: "IasLocalAudioBuffer \<Rightarrow> u32 \<times> u32 \<times> u32 \<times> AudioData list option" where
  "ring_fields b = (mReadIndex b, mWriteIndex b, mTotalSize b, mBuffer b)"

lemma ring_cong:
  assumes "ring_fields b = ring_fields b'"
  shows "fill b = fill b'" "content b = content b'" "lab_ok b = lab_ok b'" "lab_strict b = lab_strict b'"
  using assms
  by (simp_all add: ring_fields_def fill_def content_def lab_ok_def lab_strict_def split: option.split)

lemma ring_fields_simps [simp]:
  "ring_fields (b\<lparr>mDiagData := d\<rparr>) = ring_fields b"
  "ring_fields (note_reference b) = ring_fields b"
  "ring_fields (write_finish n b) = ring_fields b"
  "ring_fields (read_finish n b) = ring_fields b"
  by (simp_all add: ring_fields_def note_reference_def write_finish_def read_finish_def Let_def)

lemma ring_invisible [simp]:
  "fill (b\<lparr>mDiagData := d\<rparr>) = fill b" "content (b\<lparr>mDiagData := d\<rparr>) = content b"
  "lab_ok (b\<lparr>mDiagData := d\<rparr>) = lab_ok b" "lab_strict (b\<lparr>mDiagData := d\<rparr>) = lab_strict b"
  "fill (note_reference b) = fill b" "content (note_reference b) = content b"
  "lab_ok (note_reference b) = lab_ok b" "lab_strict (note_reference b) = lab_strict b"
  "fill (write_finish n b) = fill b" "content (write_finish n b) = content b"
  "lab_ok (write_finish n b) = lab_ok b" "lab_strict (write_finish n b) = lab_strict b"
  "fill (read_finish n b) = fill b" "content (read_finish n b) = content b"
  "lab_ok (read_finish n b) = lab_ok b" "lab_strict (read_finish n b) = lab_strict b"
  by (rule ring_cong; simp)+

lemma cap_invisible [simp]:
  "mTotalSize (note_reference b) = mTotalSize b" "mTotalSize (write_finish n b) = mTotalSize b"
  "mTotalSize (read_finish n b) = mTotalSize b"
  by (simp_all add: note_reference_def write_finish_def read_finish_def Let_def)

section \<open>Block transfers\<close>

lemma content_written:
  assumes ok: "lab_ok b" "mBuffer b = Some buf" and room: "fill b + length xs < cap b"
    and len: "length buf' = length buf"
    and new: "\<And>j. j < length xs \<Longrightarrow> buf' ! ((wr b + j) mod cap b) = xs ! j"
    and old: "\<And>k. k < cap b \<Longrightarrow> (\<And>j. j < length xs \<Longrightarrow> k \<noteq> (wr b + j) mod cap b) \<Longrightarrow> buf' ! k = buf ! k"
    and w: "unat w \<le> cap b" "unat w = wr b + length xs \<or> unat w + cap b = wr b + length xs"
  shows "fill (b\<lparr>mBuffer := Some buf', mWriteIndex := w\<rparr>) = fill b + length xs"
    and "content (b\<lparr>mBuffer := Some buf', mWriteIndex := w\<rparr>) = content b @ xs"
    and "lab_ok (b\<lparr>mBuffer := Some buf', mWriteIndex := w\<rparr>)"
proof -
  let ?b' = "b\<lparr>mBuffer := Some buf', mWriteIndex := w\<rparr>"
  from ok have T: "length buf = cap b" "0 < cap b" "cap b < 2 ^ 31" "rd b \<le> cap b" "wr b \<le> cap b"
    by (auto elim: lab_okE)
  have "(if rd b \<le> unat w then unat w - rd b else cap b + unat w - rd b) = fill b + length xs"
    using w(2) w(1) room T(4,5) unfolding fill_def by (cases "rd b \<le> wr b"; cases "rd b \<le> unat w"; simp; arith)
  moreover have "fill ?b' = (if rd b \<le> unat w then unat w - rd b else cap b + unat w - rd b)"
    by (simp add: fill_def)
  ultimately show fill: "fill ?b' = fill b + length xs" by (rule trans [rotated])
  have pos: "(rd b + fill b + j) mod cap b = (wr b + j) mod cap b" for j
  proof -
    have "rd b + fill b = wr b \<or> rd b + fill b = wr b + cap b" using T(4) by (simp add: fill_def)
    moreover have "(wr b + cap b + j) mod cap b = (wr b + j) mod cap b"
      using mod_add_self2 [of "wr b + j" "cap b"] by (simp only: ac_simps)
    ultimately show ?thesis by auto
  qed
  have "ring buf' (rd b) (fill b + length xs) = ring buf (rd b) (fill b) @ xs"
    by (rule ring_append) (use T room len new old in \<open>auto simp: pos\<close>)
  with fill ok show "content ?b' = content b @ xs" by (simp add: content_def)
  from T fill room len w(1) show "lab_ok ?b'" by (simp add: lab_ok_def)
qed

lemma copy_in_blit:
  assumes "mBuffer b = Some buf" and "off + length xs \<le> length buf"
  obtains buf' where "copy_in off xs b = Some (b\<lparr>mBuffer := Some buf'\<rparr>)" "length buf' = length buf"
    "\<And>i. i < length buf \<Longrightarrow>
       buf' ! i = (if off \<le> i \<and> i < off + length xs then xs ! (i - off) else buf ! i)"
proof -
  obtain buf' where buf': "blit buf off xs = Some buf'" using assms(2) by (simp add: mem_simps)
  show thesis
    by (rule that [of buf']) (use assms buf' length_blit [OF buf'] nth_blit [OF buf'] in \<open>simp_all add: copy_in_def\<close>)
qed

lemma write_chunk_blit:
  assumes "mBuffer b = Some buf" and "wr b + unat n \<le> length buf" and "unat n \<le> length src"
  obtains buf' where "write_chunk src n b = Some (b\<lparr>mBuffer := Some buf', mWriteIndex := mWriteIndex b + n\<rparr>)"
    "length buf' = length buf"
    "\<And>i. i < length buf \<Longrightarrow>
       buf' ! i = (if wr b \<le> i \<and> i < wr b + unat n then src ! (i - wr b) else buf ! i)"
proof -
  obtain buf' where buf': "copy_in (wr b) (take (unat n) src) b = Some (b\<lparr>mBuffer := Some buf'\<rparr>)"
    "length buf' = length buf"
    "\<And>i. i < length buf \<Longrightarrow>
       buf' ! i = (if wr b \<le> i \<and> i < wr b + unat n then take (unat n) src ! (i - wr b) else buf ! i)"
    by (rule copy_in_blit [of b buf "wr b" "take (unat n) src"]) (use assms in auto)
  show thesis
    by (rule that [of buf']) (use assms(3) buf' in \<open>auto simp: write_chunk_def mem_simps\<close>)
qed

text \<open>What a successful write of \<open>xs\<close> leaves behind, beside the samples: only the ring has changed.\<close>

lemma write_block_ok:
  assumes ok: "lab_ok b" and room: "fill b + unat n < cap b" and src: "unat n \<le> length src"
  obtains buf' w where "write_block src n b = Some (b\<lparr>mBuffer := Some buf', mWriteIndex := w\<rparr>)"
    and "fill (b\<lparr>mBuffer := Some buf', mWriteIndex := w\<rparr>) = fill b + unat n"
    and "content (b\<lparr>mBuffer := Some buf', mWriteIndex := w\<rparr>) = content b @ take (unat n) src"
    and "lab_ok (b\<lparr>mBuffer := Some buf', mWriteIndex := w\<rparr>)"
proof -
  from ok obtain buf where buf: "mBuffer b = Some buf" "length buf = cap b" "0 < cap b" "cap b < 2 ^ 31"
    "wr b \<le> cap b" by (auto elim: lab_okE)
  have before: "unat (mTotalSize b - mWriteIndex b) = cap b - wr b"
    using buf by (intro unat_sub_small) simp
  let ?k = "cap b - wr b"
  show thesis
  proof (cases "n > mTotalSize b - mWriteIndex b")
    case False
    then have n: "wr b + unat n \<le> cap b" using before buf by (simp add: word_less_nat_alt)
    obtain buf' where buf': "write_chunk src n b = Some (b\<lparr>mBuffer := Some buf', mWriteIndex := mWriteIndex b + n\<rparr>)"
      "length buf' = length buf" "\<And>i. i < length buf \<Longrightarrow>
       buf' ! i = (if wr b \<le> i \<and> i < wr b + unat n then src ! (i - wr b) else buf ! i)"
      by (rule write_chunk_blit [OF buf(1) _ src]) (use n buf in auto)
    have pos: "(wr b + j) mod cap b = wr b + j" if "j < unat n" for j using that n by simp
    have w: "unat (mWriteIndex b + n) = wr b + unat n"
      using n buf by (simp add: unat_add_small)
    have len: "length (take (unat n) src) = unat n" using src by simp
    have new: "buf' ! ((wr b + j) mod cap b) = take (unat n) src ! j" if "j < unat n" for j
      using that pos [OF that] n buf by (simp add: buf'(3))
    have old: "buf' ! k = buf ! k" if "k < cap b" "\<And>j. j < unat n \<Longrightarrow> k \<noteq> (wr b + j) mod cap b" for k
      using that(1) that(2) [of "k - wr b"] pos [of "k - wr b"] buf by (auto simp: buf'(3) less_diff_conv2)
    note step = content_written [where xs = "take (unat n) src" and buf' = buf' and w = "mWriteIndex b + n", OF ok buf(1)]
    show thesis
      by (rule that [where buf' = buf' and w = "mWriteIndex b + n"])
        (use step room buf buf'(1,2) w len n False new old in \<open>simp_all add: write_block_def Let_def\<close>)
  next
    case True
    then have n: "cap b < wr b + unat n" using before buf by (simp add: word_less_nat_alt)
    obtain buf1 where buf1: "copy_in (wr b) (take ?k src) b = Some (b\<lparr>mBuffer := Some buf1\<rparr>)"
      "length buf1 = length buf" "\<And>i. i < length buf \<Longrightarrow>
       buf1 ! i = (if wr b \<le> i \<and> i < wr b + length (take ?k src) then take ?k src ! (i - wr b) else buf ! i)"
      by (rule copy_in_blit [of b buf "wr b" "take ?k src"]) (use buf n src in auto)
    let ?b1 = "b\<lparr>mBuffer := Some buf1, mWriteIndex := 0\<rparr>" let ?m = "n - (mTotalSize b - mWriteIndex b)"
    have m: "unat ?m = unat n - ?k"
      using True before by (simp add: unat_sub_small word_less_nat_alt)
    have small: "unat n < cap b" using room by simp
    have "wr ?b1 + unat ?m \<le> length buf1" using m small buf(2) buf1(2) by simp
    moreover have "unat ?m \<le> length (drop ?k src)" using m src by simp
    ultimately obtain buf' where buf': "write_chunk (drop ?k src) ?m ?b1
        = Some (?b1\<lparr>mBuffer := Some buf', mWriteIndex := mWriteIndex ?b1 + ?m\<rparr>)"
      "length buf' = length buf1" "\<And>i. i < length buf1 \<Longrightarrow>
       buf' ! i = (if wr ?b1 \<le> i \<and> i < wr ?b1 + unat ?m then drop ?k src ! (i - wr ?b1) else buf1 ! i)"
      by (rule write_chunk_blit [of ?b1 buf1 ?m "drop ?k src", rotated]) simp_all
    have len: "length (take (unat n) src) = unat n" "length (take ?k src) = ?k" using src n by auto
    have glued: "buf' ! i = (if i < unat n - ?k then src ! (i + ?k)
        else if wr b \<le> i then src ! (i - wr b) else buf ! i)" if "i < cap b" for i
      using that src m buf(2) buf1(2) buf'(3) [of i] buf1(3) [of i] len(2) by (auto simp: add.commute)
    have run: "write_block src n b = Some (b\<lparr>mBuffer := Some buf', mWriteIndex := ?m\<rparr>)"
      using True src n before buf buf1 buf'(1) by (simp add: write_block_def Let_def mem_simps)
    have pos: "(wr b + j) mod cap b = (if j < ?k then wr b + j else j - ?k)" if "j < unat n" for j
      using that buf(5) small by (auto simp: mod_if)
    have new: "buf' ! ((wr b + j) mod cap b) = take (unat n) src ! j" if "j < unat n" for j
    proof (cases "j < ?k")
      case True
      moreover have "\<not> wr b + j < unat n - ?k" using small buf(5) by arith
      ultimately show ?thesis using that by (simp add: pos [OF that] glued)
    next
      case False
      then have "j - ?k < unat n - ?k" "j - ?k + ?k = j" "j - ?k < cap b"
        using that small buf(5) by arith+
      with False that show ?thesis by (simp add: pos [OF that] glued)
    qed
    have old: "buf' ! k = buf ! k" if "k < cap b" "\<And>j. j < unat n \<Longrightarrow> k \<noteq> (wr b + j) mod cap b" for k
    proof -
      have "\<not> k < unat n - ?k"
      proof
        assume "k < unat n - ?k"
        then have "k + ?k < unat n" "\<not> k + ?k < ?k" "k + ?k - ?k = k" by arith+
        then have "(wr b + (k + ?k)) mod cap b = k" using pos [of "k + ?k"] by simp
        with \<open>k + ?k < unat n\<close> that(2) [of "k + ?k"] show False by simp
      qed
      moreover have "k < wr b"
      proof (rule ccontr)
        assume "\<not> k < wr b"
        then have "k - wr b < unat n" "k - wr b < ?k" "wr b + (k - wr b) = k"
          using that(1) n by arith+
        with pos [of "k - wr b"] that(2) [of "k - wr b"] show False by simp
      qed
      ultimately show ?thesis using that(1) by (simp add: glued)
    qed
    have w: "unat ?m \<le> cap b" "unat ?m + cap b = wr b + unat n"
      using n m buf room by auto
    note step = content_written [where xs = "take (unat n) src" and buf' = buf' and w = ?m, OF ok buf(1)]
    show thesis
      by (rule that [OF run])
        (use step room buf(2) buf1(2) buf'(2) w len new old in simp_all)
  qed
qed

lemma content_read:
  assumes ok: "lab_ok b" and n: "n \<le> fill b"
    and r: "unat r \<le> cap b" "unat r = rd b + n \<or> unat r + cap b = rd b + n \<and> (0 < unat r \<or> wr b < cap b)"
  shows "fill (b\<lparr>mReadIndex := r\<rparr>) = fill b - n"
    and "content (b\<lparr>mReadIndex := r\<rparr>) = drop n (content b)"
    and "lab_ok (b\<lparr>mReadIndex := r\<rparr>)"
proof -
  let ?b' = "b\<lparr>mReadIndex := r\<rparr>"
  from ok obtain buf where buf: "mBuffer b = Some buf" "length buf = cap b" "0 < cap b"
    "rd b \<le> cap b" "wr b \<le> cap b" "fill b < cap b" "content b = ring buf (rd b) (fill b)"
    by (auto elim: lab_okE)
  have "(if unat r \<le> wr b then wr b - unat r else cap b + wr b - unat r) = fill b - n"
  proof (cases "rd b \<le> wr b")
    case True
    with n r buf(4,5) show ?thesis by (auto simp: fill_def)
  next
    case False
    with n r buf(4,5) show ?thesis by (auto simp: fill_def)
  qed
  moreover have "fill ?b' = (if unat r \<le> wr b then wr b - unat r else cap b + wr b - unat r)"
    by (simp add: fill_def)
  ultimately show fill: "fill ?b' = fill b - n" by (rule trans [rotated])
  have "ring buf (unat r) k = ring buf (rd b + n) k" for k
  proof -
    have "unat r mod length buf = (rd b + n) mod length buf"
      using r(2) buf(2) by (metis mod_add_self2)
    then show ?thesis by (metis ring_mod)
  qed
  with fill buf(1,7) ring_drop [OF n, of buf "rd b"] show "content ?b' = drop n (content b)"
    by (simp add: content_def)
  from buf fill r(1) show "lab_ok ?b'"
    using ok by (auto simp: lab_ok_def)
qed

lemma copy_out_blit:
  assumes "mBuffer b = Some buf" and "off + n \<le> length buf" and "pos + n \<le> length dst"
  shows "copy_out dst pos off n b = Some (take pos dst @ take n (drop off buf) @ drop (pos + n) dst)"
  using assms by (simp add: copy_out_def mem_simps)

lemma ring_slice: "r + n \<le> length buf \<Longrightarrow> ring buf r n = take n (drop r buf)"
  by (rule nth_equalityI) (simp_all add: nth_ring)

lemma ring_split:
  assumes "r \<le> length buf" "length buf \<le> r + n" "n \<le> length buf"
  shows "ring buf r n = drop r buf @ take (n - (length buf - r)) buf"
proof (rule nth_equalityI)
  show "length (ring buf r n) = length (drop r buf @ take (n - (length buf - r)) buf)"
    using assms by simp
  fix i
  assume "i < length (ring buf r n)"
  then show "ring buf r n ! i = (drop r buf @ take (n - (length buf - r)) buf) ! i"
    using assms by (auto simp: nth_ring nth_append mod_if less_diff_conv add.commute)
qed

lemma read_block_ok:
  assumes ok: "lab_ok b" and n: "unat n \<le> fill b" and dst: "unat n \<le> length dst"
  obtains r where
    "read_block dst n b = Some (take (unat n) (content b) @ drop (unat n) dst, b\<lparr>mReadIndex := r\<rparr>)"
    and "fill (b\<lparr>mReadIndex := r\<rparr>) = fill b - unat n"
    and "content (b\<lparr>mReadIndex := r\<rparr>) = drop (unat n) (content b)"
    and "lab_ok (b\<lparr>mReadIndex := r\<rparr>)"
proof -
  from ok obtain buf where buf: "mBuffer b = Some buf" "length buf = cap b" "cap b < 2 ^ 31"
    "rd b \<le> cap b" "fill b < cap b" "content b = ring buf (rd b) (fill b)"
    by (auto elim: lab_okE)
  let ?k = "cap b - rd b"
  have before: "unat (mTotalSize b - mReadIndex b) = ?k"
    using buf by (intro unat_sub_small) simp
  have prefix: "take (unat n) (content b) = ring buf (rd b) (unat n)"
    using ring_take [OF n, of buf "rd b"] buf(6) by simp
  show thesis
  proof (cases "n > mTotalSize b - mReadIndex b")
    case False
    then have fits: "rd b + unat n \<le> cap b" using before buf(4) by (simp add: word_less_nat_alt)
    have "unat (mReadIndex b + n) = rd b + unat n" using fits buf(3) by (simp add: unat_add_small)
    moreover have "read_block dst n b
        = Some (take (unat n) (content b) @ drop (unat n) dst, b\<lparr>mReadIndex := mReadIndex b + n\<rparr>)"
      using False fits buf(1,2) dst
      by (simp add: read_block_def Let_def copy_out_blit prefix ring_slice)
    ultimately show thesis using that content_read [OF ok n, of "mReadIndex b + n"] fits by simp
  next
    case True
    let ?m = "n - (mTotalSize b - mReadIndex b)"
    have wraps: "cap b < rd b + unat n" using True before buf(4) by (simp add: word_less_nat_alt)
    have m: "unat ?m = unat n - ?k" using True before by (simp add: unat_sub_small word_less_nat_alt)
    have all: "ring buf (rd b) (unat n) = drop (rd b) buf @ take (unat n - ?k) buf"
      using ring_split [of "rd b" buf "unat n"] buf(2,4,5) n wraps by simp
    have "read_block dst n b
        = Some (take (unat n) (content b) @ drop (unat n) dst, b\<lparr>mReadIndex := ?m\<rparr>)"
      using True wraps buf(1,2,4,5) n dst before m
      by (simp add: read_block_def Let_def copy_out_blit prefix all)
    moreover have "unat ?m + cap b = rd b + unat n" "0 < unat ?m" "unat ?m \<le> cap b"
      using wraps m buf(4,5) n by auto
    ultimately show thesis using that content_read [OF ok n, of ?m] by simp
  qed
qed

section \<open>Sample-wise transfers\<close>

text \<open>The \<open>n\<close> samples at the positions \<open>pos\<close>, \<open>pos + step\<close>, ... of the caller's memory, and that
  memory with samples stored there.\<close>

primrec strided :: "nat \<Rightarrow> nat \<Rightarrow> nat \<Rightarrow> 'a list \<Rightarrow> 'a list" where
  "strided step pos 0 buffer = []"
| "strided step pos (Suc n) buffer = buffer ! pos # strided step (pos + step) n buffer"

primrec scatter :: "nat \<Rightarrow> nat \<Rightarrow> 'a list \<Rightarrow> 'a list \<Rightarrow> 'a list" where
  "scatter step pos [] buffer = buffer"
| "scatter step pos (x # xs) buffer = scatter step (pos + step) xs (buffer[pos := x])"

definition span :: "nat \<Rightarrow> nat \<Rightarrow> nat \<Rightarrow> nat" where
  "span step pos n = (if n = 0 then 0 else Suc (pos + (n - 1) * step))"

lemma span_Suc: "span step pos (Suc n) \<le> L \<Longrightarrow> pos < L \<and> span step (pos + step) n \<le> L"
  by (cases n) (auto simp: span_def)

lemma length_strided [simp]: "length (strided step pos n buffer) = n"
  by (induction n arbitrary: pos) auto

lemma length_scatter [simp]: "length (scatter step pos xs buffer) = length buffer"
  by (induction xs arbitrary: pos buffer) auto

lemma nth_scatter_before: "i < pos \<Longrightarrow> 0 < step \<Longrightarrow> scatter step pos xs buffer ! i = buffer ! i"
  by (induction xs arbitrary: pos buffer) auto

lemma strided_scatter:
  "0 < step \<Longrightarrow> span step pos (length xs) \<le> length buffer \<Longrightarrow>
     strided step pos (length xs) (scatter step pos xs buffer) = xs"
proof (induction xs arbitrary: pos buffer)
  case Nil
  then show ?case by simp
next
  case (Cons x xs)
  then have "pos < length buffer" "span step (pos + step) (length xs) \<le> length buffer"
    using span_Suc [of step pos "length xs"] by auto
  with Cons show ?case by (simp add: nth_scatter_before)
qed

lemma strided_one: "pos + n \<le> length buffer \<Longrightarrow> strided 1 pos n buffer = take n (drop pos buffer)"
  by (induction n arbitrary: pos) (simp_all add: Cons_nth_drop_Suc [symmetric])

lemma put_sample_ok:
  assumes strict: "lab_strict b" and room: "fill b + 1 < cap b"
  obtains b1 w where "put_sample (wr b) x b = Some b1"
    and "w = (if 1 = mTotalSize b1 - mWriteIndex b1 then 0 else mWriteIndex b1 + 1)"
    and "fill (b1\<lparr>mWriteIndex := w\<rparr>) = fill b + 1"
    and "content (b1\<lparr>mWriteIndex := w\<rparr>) = content b @ [x]"
    and "lab_strict (b1\<lparr>mWriteIndex := w\<rparr>)" and "mTotalSize b1 = mTotalSize b"
proof -
  from strict have ok: "lab_ok b" and lt: "wr b < cap b" "rd b < cap b" by (auto simp: lab_strict_def)
  from ok obtain buf where buf: "mBuffer b = Some buf" "length buf = cap b" "cap b < 2 ^ 31"
    by (auto elim: lab_okE)
  let ?buf' = "buf[wr b := x]" let ?b1 = "b\<lparr>mBuffer := Some ?buf'\<rparr>"
  let ?w = "if 1 = mTotalSize b - mWriteIndex b then 0 else mWriteIndex b + 1"
  have "unat (mTotalSize b - mWriteIndex b) = cap b - wr b" using lt by (simp add: unat_sub_small)
  then have last: "1 = mTotalSize b - mWriteIndex b \<longleftrightarrow> Suc (wr b) = cap b"
    using lt by (auto simp: word_unat_eq_iff)
  have "unat (mWriteIndex b + 1) = wr b + 1" using lt buf(3) by (simp add: unat_add_small)
  then have w: "unat ?w = (if Suc (wr b) = cap b then 0 else wr b + 1)" by (simp add: last)
  have "unat ?w < cap b" "unat ?w = wr b + length [x] \<or> unat ?w + cap b = wr b + length [x]"
    using w lt by auto
  note step = content_written [OF ok buf(1), where buf' = ?buf' and xs = "[x]" and w = ?w,
      OF _ _ _ _ less_imp_le [OF this(1)] this(2)]
  show thesis
  proof (rule that [of ?b1 ?w])
    show "lab_strict (?b1\<lparr>mWriteIndex := ?w\<rparr>)"
      unfolding lab_strict_def using step(3) room lt buf w by auto
  qed (use step(1,2) room lt buf in \<open>auto simp: put_sample_def mem_simps\<close>)
qed

lemma write_loop_ok:
  "lab_strict b \<Longrightarrow> fill b + n < cap b \<Longrightarrow> span step pos n \<le> length buffer \<Longrightarrow>
     \<exists>b'. write_loop n step pos buffer b = Some b' \<and> lab_strict b' \<and> mTotalSize b' = mTotalSize b \<and>
       content b' = content b @ strided step pos n buffer"
proof (induction n arbitrary: b pos)
  case 0
  then show ?case by simp
next
  case (Suc n)
  from Suc.prems(2) have "fill b + 1 < cap b" by simp
  then obtain b1 w where b1: "put_sample (wr b) (buffer ! pos) b = Some b1"
    "w = (if 1 = mTotalSize b1 - mWriteIndex b1 then 0 else mWriteIndex b1 + 1)"
    "fill (b1\<lparr>mWriteIndex := w\<rparr>) = fill b + 1"
    "content (b1\<lparr>mWriteIndex := w\<rparr>) = content b @ [buffer ! pos]"
    "lab_strict (b1\<lparr>mWriteIndex := w\<rparr>)" "mTotalSize b1 = mTotalSize b"
    by (rule put_sample_ok [OF Suc.prems(1)])
  let ?b2 = "note_reference (b1\<lparr>mWriteIndex := w\<rparr>)"
  have pos: "pos < length buffer" "span step (pos + step) n \<le> length buffer"
    using span_Suc [OF Suc.prems(3)] by auto
  have "\<exists>b'. write_loop n step (pos + step) buffer ?b2 = Some b' \<and> lab_strict b' \<and>
      mTotalSize b' = mTotalSize ?b2 \<and> content b' = content ?b2 @ strided step (pos + step) n buffer"
    by (rule Suc.IH) (use b1 pos Suc.prems(2) in simp_all)
  with b1 pos show ?case by (auto simp: mem_simps Let_def)
qed

lemma get_sample_ok:
  assumes strict: "lab_strict b" and some: "content b = x # xs"
  obtains r where "get_sample (rd b) b = Some x"
    and "r = (if 1 = mTotalSize b - mReadIndex b then 0 else mReadIndex b + 1)"
    and "content (b\<lparr>mReadIndex := r\<rparr>) = xs" and "lab_strict (b\<lparr>mReadIndex := r\<rparr>)"
proof -
  from strict have ok: "lab_ok b" and lt: "wr b < cap b" "rd b < cap b" by (auto simp: lab_strict_def)
  from ok obtain buf where buf: "mBuffer b = Some buf" "length buf = cap b" "cap b < 2 ^ 31"
    "content b = ring buf (rd b) (fill b)" by (auto elim: lab_okE)
  have one: "1 \<le> fill b" using some length_content [OF ok] by simp
  let ?r = "if 1 = mTotalSize b - mReadIndex b then 0 else mReadIndex b + 1"
  have "unat (mTotalSize b - mReadIndex b) = cap b - rd b" using lt by (simp add: unat_sub_small)
  then have last: "1 = mTotalSize b - mReadIndex b \<longleftrightarrow> Suc (rd b) = cap b"
    using lt by (auto simp: word_unat_eq_iff)
  have "unat (mReadIndex b + 1) = rd b + 1" using lt buf(3) by (simp add: unat_add_small)
  then have r: "unat ?r = (if Suc (rd b) = cap b then 0 else rd b + 1)" by (simp add: last)
  have "unat ?r < cap b" "unat ?r = rd b + 1 \<or> unat ?r + cap b = rd b + 1 \<and> (0 < unat ?r \<or> wr b < cap b)"
    using r lt by auto
  note step = content_read [OF ok one less_imp_le [OF this(1)] this(2)]
  have x: "buf ! rd b = x"
    using some buf(2,4) one lt nth_ring [of 0 "fill b" buf "rd b"] by simp
  show thesis
  proof (rule that [of ?r])
    show "lab_strict (b\<lparr>mReadIndex := ?r\<rparr>)"
      unfolding lab_strict_def using step(3) lt r by auto
  qed (use step(2) lt buf(1,2) some x in \<open>auto simp: get_sample_def mem_simps\<close>)
qed

lemma read_loop_ok:
  "lab_strict b \<Longrightarrow> n \<le> length (content b) \<Longrightarrow> span step pos n \<le> length buffer \<Longrightarrow>
     \<exists>b'. read_loop n step pos buffer b = Some (scatter step pos (take n (content b)) buffer, b') \<and>
       lab_strict b' \<and> mTotalSize b' = mTotalSize b \<and> content b' = drop n (content b)"
proof (induction n arbitrary: b pos buffer)
  case 0
  then show ?case by simp
next
  case (Suc n)
  from Suc.prems(2) obtain x xs where xs: "content b = x # xs" by (cases "content b") auto
  obtain r where r: "get_sample (rd b) b = Some x"
    "r = (if 1 = mTotalSize b - mReadIndex b then 0 else mReadIndex b + 1)"
    "content (b\<lparr>mReadIndex := r\<rparr>) = xs" "lab_strict (b\<lparr>mReadIndex := r\<rparr>)"
    by (rule get_sample_ok [OF Suc.prems(1) xs])
  have pos: "pos < length buffer" "span step (pos + step) n \<le> length (buffer[pos := x])"
    using span_Suc [OF Suc.prems(3)] by auto
  have "\<exists>b'. read_loop n step (pos + step) (buffer[pos := x]) (b\<lparr>mReadIndex := r\<rparr>) =
      Some (scatter step (pos + step) (take n (content (b\<lparr>mReadIndex := r\<rparr>))) (buffer[pos := x]), b') \<and>
      lab_strict b' \<and> mTotalSize b' = mTotalSize (b\<lparr>mReadIndex := r\<rparr>) \<and>
      content b' = drop n (content (b\<lparr>mReadIndex := r\<rparr>))"
    by (rule Suc.IH) (use r pos Suc.prems(2) xs in simp_all)
  with r pos xs show ?case by (auto simp: mem_simps Let_def)
qed

section \<open>The operations\<close>

definition room :: "IasLocalAudioBuffer \<Rightarrow> nat" where
  "room b = cap b - length (content b) - 1"

lemma room_fill: "lab_ok b \<Longrightarrow> room b = cap b - fill b - 1"
  by (simp add: room_def length_content)

text \<open>The two bookkeeping parts of a write.\<close>

definition overrun_counters :: "nat \<Rightarrow> IasLocalAudioBuffer \<Rightarrow> DiagData" where
  "overrun_counters n b =
     (if room b < n
      then (mDiagData b)\<lparr>numOverrun := numOverrun (mDiagData b) + 1,
                         numOverrunTotal := numOverrunTotal (mDiagData b) + 1\<rparr>
      else mDiagData b)"

lemma write_limit_counters:
  assumes "lab_ok b"
  obtains m where "write_limit n b = (m, b\<lparr>mDiagData := overrun_counters (unat n) b\<rparr>)"
    and "unat m = min (unat n) (room b)" and "m = of_nat (min (unat n) (room b))"
proof -
  obtain m d where md: "write_limit n b = (m, b\<lparr>mDiagData := d\<rparr>)" "unat m = min (unat n) (cap b - fill b - 1)"
    "d = (if unat n > cap b - fill b - 1
          then (mDiagData b)\<lparr>numOverrun := numOverrun (mDiagData b) + 1,
                             numOverrunTotal := numOverrunTotal (mDiagData b) + 1\<rparr>
          else mDiagData b)"
    by (rule write_limit_ok [OF assms])
  have "of_nat (unat m) = m" by simp
  then have "m = of_nat (min (unat n) (room b))" using md(2) room_fill [OF assms] by metis
  with md show thesis
    by (intro that) (simp_all add: overrun_counters_def room_fill [OF assms])
qed

lemma write_bookkeeping [simp]:
  "mDiagData (note_reference b) = mDiagData b" "mDiagData (write_finish n b) = mDiagData b"
  "mMonotonicWriteIndex (note_reference b) = mMonotonicWriteIndex b"
  "mMonotonicWriteIndex (write_finish n b) = mMonotonicWriteIndex b + ucast n"
  "mReadThreshold (note_reference b) = mReadThreshold b" "mReadThreshold (write_finish n b) = mReadThreshold b"
  "mReferenceFill (write_finish n b) = mReferenceFill b" "mReadReady (note_reference b) = mReadReady b"
  "mReferenceFill (note_reference b) = (if mReferenceFill b = 0 then getFillLevel b else mReferenceFill b)"
  "getFillLevel (write_finish n b) = getFillLevel b" "getFillLevel (note_reference b) = getFillLevel b"
  "mReadReady (write_finish n b) = (mReadReady b \<or> mReadThreshold b \<le> getFillLevel b)"
  by (simp_all add: note_reference_def write_finish_def getFillLevel_def Let_def)

lemma room_less: "lab_ok b \<Longrightarrow> k \<le> room b \<Longrightarrow> fill b + k < cap b"
  by (elim lab_okE) (simp add: room_def)

lemma lab_write_ok:
  assumes ok: "lab_ok b" and src: "min (unat n) (room b) \<le> length src"
  obtains b' where "lab_write src n b = Some (of_nat (min (unat n) (room b)), b')"
    and "lab_ok b'" and "content b' = content b @ take (min (unat n) (room b)) src"
    and "mTotalSize b' = mTotalSize b" and "mDiagData b' = overrun_counters (unat n) b"
    and "mMonotonicWriteIndex b' = mMonotonicWriteIndex b + of_nat (min (unat n) (room b))"
    and "mReferenceFill b' = (if mReferenceFill b = 0 then getFillLevel b' else mReferenceFill b)"
    and "mReadReady b' = (mReadReady b \<or> mReadThreshold b \<le> getFillLevel b')"
proof -
  obtain m where m: "write_limit n b = (m, b\<lparr>mDiagData := overrun_counters (unat n) b\<rparr>)"
    "unat m = min (unat n) (room b)" "m = of_nat (min (unat n) (room b))"
    by (rule write_limit_counters [OF ok])
  let ?b = "b\<lparr>mDiagData := overrun_counters (unat n) b\<rparr>"
  obtain buf' w where w: "write_block src m ?b = Some (?b\<lparr>mBuffer := Some buf', mWriteIndex := w\<rparr>)"
    "content (?b\<lparr>mBuffer := Some buf', mWriteIndex := w\<rparr>) = content ?b @ take (unat m) src"
    "lab_ok (?b\<lparr>mBuffer := Some buf', mWriteIndex := w\<rparr>)"
    by (rule write_block_ok [of ?b m src]) (use ok src m(2) room_less [OF ok, of "unat m"] in simp_all)
  let ?c = "?b\<lparr>mBuffer := Some buf', mWriteIndex := w\<rparr>"
  have "lab_write src n b = Some (m, write_finish m (note_reference ?c))"
    using m(1) w(1) by (simp add: lab_write_def)
  moreover have "ucast m = (of_nat (unat m) :: u64)" by simp
  then have "ucast m = (of_nat (min (unat n) (room b)) :: u64)" by (simp only: m(2))
  ultimately show thesis
    using that [of "write_finish m (note_reference ?c)"] w(2,3) m(2,3) by simp
qed

lemma lab_read_ok:
  assumes ok: "lab_ok b" and dst: "min (unat n) (length (content b)) \<le> length dst"
  obtains b' where "lab_read dst n b = Some (of_nat (min (unat n) (length (content b))),
      take (unat n) (content b) @ drop (min (unat n) (length (content b))) dst, b')"
    and "lab_ok b'" and "content b' = drop (unat n) (content b)" and "mTotalSize b' = mTotalSize b"
proof -
  let ?m = "read_limit n b"
  have m: "unat ?m = min (unat n) (length (content b))"
    by (simp add: unat_read_limit [OF ok] length_content [OF ok])
  have m': "?m = of_nat (min (unat n) (length (content b)))"
    using arg_cong [OF m, of "of_nat :: nat \<Rightarrow> u32"] by simp
  obtain r where r: "read_block dst ?m b =
      Some (take (unat ?m) (content b) @ drop (unat ?m) dst, b\<lparr>mReadIndex := r\<rparr>)"
    "content (b\<lparr>mReadIndex := r\<rparr>) = drop (unat ?m) (content b)" "lab_ok (b\<lparr>mReadIndex := r\<rparr>)"
    by (rule read_block_ok [OF ok, of ?m dst]) (use m dst length_content [OF ok] in simp_all)
  have cut: "take (unat ?m) (content b) = take (unat n) (content b)"
    "drop (unat ?m) (content b) = drop (unat n) (content b)"
    by (simp_all add: m min_def)
  have "lab_read dst n b = Some (?m, take (unat ?m) (content b) @ drop (unat ?m) dst,
      read_finish ?m (b\<lparr>mReadIndex := r\<rparr>))"
    using r(1) by (simp add: lab_read_def Let_def)
  then have "lab_read dst n b = Some (of_nat (min (unat n) (length (content b))),
      take (unat n) (content b) @ drop (min (unat n) (length (content b))) dst,
      read_finish ?m (b\<lparr>mReadIndex := r\<rparr>))"
    unfolding cut by (simp only: m m' [symmetric])
  then show thesis
    by (rule that) (use r(2,3) cut in simp_all)
qed

lemma lab_write_stride_ok:
  assumes strict: "lab_strict b" and stride: "2 \<noteq> stride"
    and src: "span (unat stride div 2) 0 (min (unat n) (room b)) \<le> length src"
  obtains b' where "lab_write_stride src n stride b = Some (of_nat (min (unat n) (room b)), b')"
    and "lab_strict b'" and "mTotalSize b' = mTotalSize b"
    and "content b' = content b @ strided (unat stride div 2) 0 (min (unat n) (room b)) src"
proof -
  from strict have ok: "lab_ok b" by (simp add: lab_strict_def)
  obtain m where m: "write_limit n b = (m, b\<lparr>mDiagData := overrun_counters (unat n) b\<rparr>)"
    "unat m = min (unat n) (room b)" "m = of_nat (min (unat n) (room b))"
    by (rule write_limit_counters [OF ok])
  let ?b = "b\<lparr>mDiagData := overrun_counters (unat n) b\<rparr>"
  have "\<exists>b'. write_loop (unat m) (unat stride div 2) 0 src ?b = Some b' \<and> lab_strict b' \<and>
      mTotalSize b' = mTotalSize ?b \<and> content b' = content ?b @ strided (unat stride div 2) 0 (unat m) src"
    by (rule write_loop_ok) (use strict src m(2) room_less [OF ok, of "unat m"] in simp_all)
  then obtain b' where b': "write_loop (unat m) (unat stride div 2) 0 src ?b = Some b'" "lab_strict b'"
    "mTotalSize b' = mTotalSize b" "content b' = content b @ strided (unat stride div 2) 0 (unat m) src"
    by auto
  have "lab_write_stride src n stride b = Some (m, write_finish m b')"
    using m(1) b'(1) stride by (simp add: lab_write_stride_def)
  then show thesis using that [of "write_finish m b'"] b'(2-4) m(2,3) by simp
qed

lemma lab_read_stride_ok:
  assumes strict: "lab_strict b" and stride: "2 \<noteq> stride"
    and dst: "span (unat stride div 2) 0 (min (unat n) (length (content b))) \<le> length dst"
  obtains b' where "lab_read_stride dst n stride b = Some (of_nat (min (unat n) (length (content b))),
      scatter (unat stride div 2) 0 (take (unat n) (content b)) dst, b')"
    and "lab_strict b'" and "mTotalSize b' = mTotalSize b" and "content b' = drop (unat n) (content b)"
proof -
  let ?m = "read_limit n b" let ?step = "unat stride div 2"
  from strict have ok: "lab_ok b" by (simp add: lab_strict_def)
  have m: "unat ?m = min (unat n) (length (content b))"
    by (simp add: unat_read_limit [OF ok] length_content [OF ok])
  have m': "?m = of_nat (min (unat n) (length (content b)))"
    using arg_cong [OF m, of "of_nat :: nat \<Rightarrow> u32"] by simp
  have "\<exists>b'. read_loop (unat ?m) ?step 0 dst b =
      Some (scatter ?step 0 (take (unat ?m) (content b)) dst, b') \<and> lab_strict b' \<and>
      mTotalSize b' = mTotalSize b \<and> content b' = drop (unat ?m) (content b)"
    by (rule read_loop_ok) (use strict dst m in simp_all)
  moreover have cut: "take (unat ?m) (content b) = take (unat n) (content b)"
    "drop (unat ?m) (content b) = drop (unat n) (content b)"
    by (simp_all add: m min_def)
  ultimately obtain b' where b': "read_loop (unat ?m) ?step 0 dst b =
      Some (scatter ?step 0 (take (unat n) (content b)) dst, b')" "lab_strict b'"
    "mTotalSize b' = mTotalSize b" "content b' = drop (unat n) (content b)"
    by auto
  have "lab_read_stride dst n stride b =
      Some (?m, scatter ?step 0 (take (unat n) (content b)) dst, read_finish ?m b')"
    using b'(1) stride by (simp add: lab_read_stride_def Let_def)
  then have "lab_read_stride dst n stride b = Some (of_nat (min (unat n) (length (content b))),
      scatter ?step 0 (take (unat n) (content b)) dst, read_finish ?m b')"
    by (simp only: m')
  then show thesis by (rule that) (use b'(2-4) in simp_all)
qed

lemma lab_init_ok:
  assumes "0 < unat totalSize" "unat totalSize < 2 ^ 31" "length mem = unat totalSize"
  obtains b where "lab_init totalSize doAnalysis (Some mem) lab_new = (eIasAvbProcOK, b)"
    and "lab_strict b" and "content b = []" and "mTotalSize b = totalSize" and "room b = unat totalSize - 1"
  by (rule that [of "snd (lab_init totalSize doAnalysis (Some mem) lab_new)"])
    (use assms in \<open>simp_all add: lab_init_def lab_new_def lab_strict_def lab_ok_def fill_def content_def room_def Let_def\<close>)

section \<open>Reset\<close>

lemma clear_samples_blit:
  assumes "mBuffer b = Some buf" and "off + n \<le> length buf"
  obtains buf' where "clear_samples off n b = Some (b\<lparr>mBuffer := Some buf'\<rparr>)" "length buf' = length buf"
    "\<forall>i < length buf. buf' ! i = (if off \<le> i \<and> i < off + n then 0 else buf ! i)"
proof -
  obtain buf' where buf': "blit buf off (replicate n 0) = Some buf'" using assms(2) by (simp add: mem_simps)
  show thesis
    by (rule that [of buf'])
      (use assms buf' length_blit [OF buf'] nth_blit [OF buf'] in \<open>auto simp: clear_samples_def\<close>)
qed

text \<open>The read index \<^verbatim>\<open>reset\<close> moves to.\<close>

definition reset_index :: "u32 \<Rightarrow> IasLocalAudioBuffer \<Rightarrow> u32" where
  "reset_index n b =
     (let i = mWriteIndex b - n in if i > mTotalSize b then i + mTotalSize b else i)"

lemma unat_reset_index:
  assumes "lab_ok b" and "unat n < cap b"
  shows "unat (reset_index n b) = (if unat n \<le> wr b then wr b - unat n else cap b + wr b - unat n)"
  using unat_distance [of "mTotalSize b" n "mWriteIndex b"] assms
  by (auto simp: reset_index_def Let_def elim: lab_okE)

lemma ring_nth_eqI:
  assumes "length xs = n" and "\<And>i. i < n \<Longrightarrow> buf ! ((r + i) mod length buf) = xs ! i"
  shows "ring buf r n = xs"
  by (rule nth_equalityI) (use assms in \<open>simp_all add: nth_ring\<close>)

text \<open>The content after a reset to \<open>n\<close> samples: the newest \<open>n\<close> samples, with zeros in front where
  there are fewer.\<close>

definition refilled :: "nat \<Rightarrow> AudioData list \<Rightarrow> AudioData list" where
  "refilled n xs = replicate (n - length xs) 0 @ drop (length xs - n) xs"

lemma length_refilled [simp]: "length (refilled n xs) = n"
  by (simp add: refilled_def)

text \<open>\<^verbatim>\<open>reset\<close> clears the positions from the new read index up to the old one.\<close>

lemma reset_clears:
  assumes ok: "lab_ok b" "mBuffer b = Some buf" and n: "unat n < cap b" and low: "fill b < unat n"
  obtains buf' where
    "(if reset_index n b < mReadIndex b
      then clear_samples (unat (reset_index n b)) (unat (mReadIndex b - reset_index n b)) b
      else do {
        b \<leftarrow> clear_samples (unat (reset_index n b)) (unat (mTotalSize b - reset_index n b)) b;
        clear_samples 0 (unat (mReadIndex b)) b
      }) = Some (b\<lparr>mBuffer := Some buf'\<rparr>)"
    and "length buf' = length buf"
    and "\<And>i. i < unat n \<Longrightarrow> buf' ! ((unat (reset_index n b) + i) mod cap b) =
          (if i < unat n - fill b then 0 else buf ! ((unat (reset_index n b) + i) mod cap b))"
proof -
  let ?q = "unat (reset_index n b)" let ?d = "unat n - fill b"
  from ok have T: "length buf = cap b" "0 < cap b" "rd b \<le> cap b" "wr b \<le> cap b" "fill b < cap b"
    by (auto elim: lab_okE)
  note q = unat_reset_index [OF ok(1) n]
  have q_le: "?q < cap b" using q low n T(4) by auto
  have gap: "?q + ?d = rd b \<or> ?q + ?d = rd b + cap b"
    using q low n T(3,4) unfolding fill_def
    by (cases "rd b \<le> wr b"; cases "unat n \<le> wr b"; simp; arith)
  have pos: "(?q + i) mod cap b = (if ?q + i < cap b then ?q + i else ?q + i - cap b)" if "i < unat n" for i
    using that n q_le by (simp add: mod_if)
  show thesis
  proof (cases "reset_index n b < mReadIndex b")
    case True
    then have lt: "?q < rd b" by (simp add: word_less_nat_alt)
    then have len: "unat (mReadIndex b - reset_index n b) = rd b - ?q" by (simp add: unat_sub_small)
    have le: "?q + (rd b - ?q) \<le> length buf" using lt T(1,3) by simp
    obtain buf' where buf': "clear_samples ?q (rd b - ?q) b = Some (b\<lparr>mBuffer := Some buf'\<rparr>)"
      "length buf' = length buf"
      "\<forall>i < length buf. buf' ! i = (if ?q \<le> i \<and> i < ?q + (rd b - ?q) then 0 else buf ! i)"
      by (rule clear_samples_blit [OF ok(2) le])
    have d: "?q + ?d = rd b" using gap lt n low T(3) by arith
    show thesis
    proof (rule that [of buf'])
      fix i
      assume i: "i < unat n"
      show "buf' ! ((?q + i) mod cap b) = (if i < ?d then 0 else buf ! ((?q + i) mod cap b))"
      proof (cases "?q + i < cap b")
        case True
        with pos [OF i] d buf'(3) T(1) show ?thesis by auto
      next
        case False
        then have "\<not> i < ?d" "?q + i - cap b < ?q" using d T(3) i n by auto
        with False pos [OF i] buf'(3) T(1) q_le show ?thesis by simp
      qed
    qed (use True len buf'(1,2) in simp_all)
  next
    case False
    then have ge: "rd b \<le> ?q" by (simp add: word_less_nat_alt)
    have len: "unat (mTotalSize b - reset_index n b) = cap b - ?q" using q_le by (simp add: unat_sub_small)
    have le: "?q + (cap b - ?q) \<le> length buf" using q_le T(1) by simp
    obtain buf1 where buf1: "clear_samples ?q (cap b - ?q) b = Some (b\<lparr>mBuffer := Some buf1\<rparr>)"
      "length buf1 = length buf"
      "\<forall>i < length buf. buf1 ! i = (if ?q \<le> i \<and> i < ?q + (cap b - ?q) then 0 else buf ! i)"
      by (rule clear_samples_blit [OF ok(2) le])
    have le1: "0 + rd b \<le> length buf1" and some1: "mBuffer (b\<lparr>mBuffer := Some buf1\<rparr>) = Some buf1"
      using T(1,3) buf1(2) by simp_all
    obtain buf' where buf': "clear_samples 0 (rd b) (b\<lparr>mBuffer := Some buf1\<rparr>)
        = Some (b\<lparr>mBuffer := Some buf1, mBuffer := Some buf'\<rparr>)" "length buf' = length buf1"
      "\<forall>i < length buf1. buf' ! i = (if 0 \<le> i \<and> i < 0 + rd b then 0 else buf1 ! i)"
      by (rule clear_samples_blit [OF some1 le1])
    have d: "?q + ?d = rd b + cap b" using gap ge low by arith
    have val: "buf' ! ((?q + i) mod cap b) = (if i < ?d then 0 else buf ! ((?q + i) mod cap b))"
      if "i < unat n" for i
    proof (cases "?q + i < cap b")
      case True
      with d T(3) have "i < ?d" by simp
      with True that pos [OF that] show ?thesis using T(1) buf1 buf' by simp
    next
      case False
      then have "?q + i - cap b < rd b \<longleftrightarrow> i < ?d" using d by auto
      moreover have "?q + i - cap b < ?q" "?q + i - cap b < cap b" using that n q_le False by auto
      ultimately show ?thesis using that False pos [OF that] T(1) buf1(2,3) buf'(2,3) by simp
    qed
    show thesis
      by (rule that [of buf']) (use False len buf1(1,2) buf'(1,2) val in simp_all)
  qed
qed

lemma refilled_ring:
  assumes ok: "lab_ok b" "mBuffer b = Some buf" and n: "unat n < cap b"
    and buf': "length buf' = length buf"
      "\<And>i. i < unat n \<Longrightarrow> buf' ! ((unat (reset_index n b) + i) mod cap b) =
          (if i < unat n - fill b then 0 else buf ! ((unat (reset_index n b) + i) mod cap b))"
  shows "ring buf' (unat (reset_index n b)) (unat n) = refilled (unat n) (content b)"
proof (rule ring_nth_eqI)
  let ?q = "unat (reset_index n b)"
  from ok have T: "length buf = cap b" "rd b \<le> cap b" "wr b \<le> cap b" "fill b < cap b"
    "content b = ring buf (rd b) (fill b)" by (auto elim: lab_okE)
  note q = unat_reset_index [OF ok(1) n]
  have shift: "(?q + i) mod cap b = (rd b + (i + fill b - unat n)) mod cap b"
    if "i < unat n" "unat n \<le> i + fill b" for i
  proof -
    have "?q + i = rd b + (i + fill b - unat n) \<or> ?q + i = rd b + (i + fill b - unat n) + cap b \<or>
        ?q + i + cap b = rd b + (i + fill b - unat n)"
      using that q n T(2,3) unfolding fill_def by (auto split: if_splits)
    then show ?thesis by (metis mod_add_self2)
  qed
  fix i
  assume i: "i < unat n"
  show "buf' ! ((?q + i) mod length buf') = refilled (unat n) (content b) ! i"
  proof (cases "i < unat n - fill b")
    case True
    with i buf' T show ?thesis by (simp add: refilled_def nth_append)
  next
    case False
    then have "refilled (unat n) (content b) ! i = content b ! (i + fill b - unat n)"
      using i T(5) by (auto simp: refilled_def nth_append intro: arg_cong [of _ _ "(!) _"])
    also have "\<dots> = buf ! ((?q + i) mod cap b)"
      using False i shift [OF i] T by (simp add: nth_ring)
    also have "\<dots> = buf' ! ((?q + i) mod length buf')"
      using False i buf' T(1) by simp
    finally show ?thesis by simp
  qed
qed simp

lemma lab_reset_ok:
  assumes ok: "lab_ok b" and n: "unat n < cap b"
  obtains b' where "lab_reset n b = Some (eIasAvbProcOK, b')" and "lab_ok b'"
    and "lab_strict b \<Longrightarrow> lab_strict b'" and "content b' = refilled (unat n) (content b)"
    and "mTotalSize b' = mTotalSize b" and "mReferenceFill b' = 0" and "\<not> mReadReady b'"
    and "mMonotonicReadIndex b' = 0" and "mMonotonicWriteIndex b' = 0"
    and "mBufferState b' = eIasAudioBufferStateOk"
proof -
  from ok obtain buf where buf: "mBuffer b = Some buf" "length buf = cap b" "0 < cap b" "cap b < 2 ^ 31"
    "rd b \<le> cap b" "wr b \<le> cap b" "fill b < cap b" by (auto elim: lab_okE)
  let ?q = "reset_index n b"
  let ?d = "(mDiagData b)\<lparr>numOverrun := 0, numUnderrun := 0, numReset := numReset (mDiagData b) + 1\<rparr>"
  have level: "getFillLevel b < n \<longleftrightarrow> fill b < unat n"
    by (simp add: word_less_nat_alt unat_getFillLevel [OF ok])
  obtain buf' where buf': "length buf' = length buf"
      "\<And>i. i < unat n \<Longrightarrow> buf' ! ((unat ?q + i) mod cap b) =
          (if i < unat n - fill b then 0 else buf ! ((unat ?q + i) mod cap b))"
      "(if getFillLevel b < n
        then if ?q < mReadIndex b then clear_samples (unat ?q) (unat (mReadIndex b - ?q)) b
             else do { b \<leftarrow> clear_samples (unat ?q) (unat (mTotalSize b - ?q)) b;
                       clear_samples 0 (unat (mReadIndex b)) b }
        else Some b) = Some (b\<lparr>mBuffer := Some buf'\<rparr>)"
  proof (cases "fill b < unat n")
    case True
    then show ?thesis
      by (rule reset_clears [OF ok buf(1) n]) (use that True level in auto)
  next
    case False
    show ?thesis by (rule that [of buf]) (use False level buf(1) in auto)
  qed
  note samples = refilled_ring [OF ok buf(1) n buf'(1,2)]
  note q = unat_reset_index [OF ok n]
  let ?b' = "b\<lparr>mBuffer := Some buf', mReadIndex := ?q, mBufferState := eIasAudioBufferStateOk,
      mBufferStateLast := eIasAudioBufferStateOk, mReferenceFill := 0, mDiagData := ?d, mReadReady := False,
      mMonotonicReadIndex := 0, mMonotonicWriteIndex := 0\<rparr>"
  have fill: "fill ?b' = unat n" using q n buf(6) by (auto simp: fill_def)
  have "unat ?q \<le> cap b" using q n buf(6) by auto
  then have "lab_ok ?b'" using fill buf buf'(1) n by (simp add: lab_ok_def)
  moreover from this have "lab_strict ?b'" if "lab_strict b"
    using that q n by (auto simp: lab_strict_def)
  moreover have "content ?b' = refilled (unat n) (content b)"
    using fill samples by (simp add: content_def)
  moreover have "lab_reset n b = Some (eIasAvbProcOK, ?b')"
    using buf'(3) unfolding lab_reset_def Let_def reset_index_def by simp
  ultimately show thesis using that by simp
qed

section \<open>The buffer as a bounded queue\<close>

text \<open>The contract between the writer and the reader of a channel: samples are accepted as far as
  there is room and delivered once, in order.\<close>

datatype 'x fifo_request = Put "'x list" | Get nat

locale sample_fifo =
  fixes put :: "'x list \<Rightarrow> 's \<Rightarrow> (nat \<times> 's) option"
    and get :: "nat \<Rightarrow> 's \<Rightarrow> ('x list \<times> 's) option"
    and queue :: "'s \<Rightarrow> 'x list"
    and space :: "'s \<Rightarrow> nat"
    and ok :: "'s \<Rightarrow> bool"
  assumes put_queue: "ok s \<Longrightarrow> \<exists>s'. put xs s = Some (min (length xs) (space s), s') \<and> ok s' \<and>
      queue s' = queue s @ take (space s) xs \<and> space s' + length (queue s') = space s + length (queue s)"
    and get_queue: "ok s \<Longrightarrow> \<exists>s'. get n s = Some (take n (queue s), s') \<and> ok s' \<and>
      queue s' = drop n (queue s) \<and> space s' + length (queue s') = space s + length (queue s)"
begin

text \<open>The samples accepted and the samples delivered by a sequence of requests.\<close>

primrec run :: "'x fifo_request list \<Rightarrow> 's \<Rightarrow> ('x list \<times> 'x list \<times> 's) option" where
  "run [] s = Some ([], [], s)"
| "run (q # qs) s =
     (case q of
        Put xs \<Rightarrow> do {
          (k, s) \<leftarrow> put xs s;
          (ins, outs, s) \<leftarrow> run qs s;
          Some (take k xs @ ins, outs, s)
        }
      | Get n \<Rightarrow> do {
          (ys, s) \<leftarrow> get n s;
          (ins, outs, s) \<leftarrow> run qs s;
          Some (ins, ys @ outs, s)
        })"

lemma run_queue:
  "ok s \<Longrightarrow> \<exists>ins outs s'. run qs s = Some (ins, outs, s') \<and> ok s' \<and>
     queue s @ ins = outs @ queue s' \<and> space s' + length (queue s') = space s + length (queue s)"
proof (induction qs arbitrary: s)
  case Nil
  then show ?case by simp
next
  case (Cons q qs)
  show ?case
  proof (cases q)
    case (Put xs)
    obtain s1 where s1: "put xs s = Some (min (length xs) (space s), s1)" "ok s1"
      "queue s1 = queue s @ take (space s) xs" "space s1 + length (queue s1) = space s + length (queue s)"
      using put_queue [OF Cons.prems] by blast
    obtain ins outs s' where run: "run qs s1 = Some (ins, outs, s')" "ok s'"
      "queue s1 @ ins = outs @ queue s'" "space s' + length (queue s') = space s1 + length (queue s1)"
      using Cons.IH [OF s1(2)] by blast
    have "take (min (length xs) (space s)) xs = take (space s) xs" by (simp add: min_def)
    with Put s1 run show ?thesis by simp
  next
    case (Get n)
    obtain s1 where s1: "get n s = Some (take n (queue s), s1)" "ok s1"
      "queue s1 = drop n (queue s)" "space s1 + length (queue s1) = space s + length (queue s)"
      using get_queue [OF Cons.prems] by blast
    obtain ins outs s' where run: "run qs s1 = Some (ins, outs, s')" "ok s'"
      "queue s1 @ ins = outs @ queue s'" "space s' + length (queue s') = space s1 + length (queue s1)"
      using Cons.IH [OF s1(2)] by blast
    have "queue s @ ins = take n (queue s) @ outs @ queue s'"
      using s1(3) run(3) by (metis append.assoc append_take_drop_id)
    with Get s1 run show ?thesis by simp
  qed
qed

end

text \<open>The requests a caller makes with a count of type \<^verbatim>\<open>uint32_t\<close>: a block of consecutive samples, or
  one of the \<open>c + 2\<close> channels of interleaved frames.\<close>

definition count :: "nat \<Rightarrow> nat" where "count n = min n (2 ^ 32 - 1)"

definition block_put :: "AudioData list \<Rightarrow> IasLocalAudioBuffer \<Rightarrow> (nat \<times> IasLocalAudioBuffer) option" where
  "block_put xs b = map_option (map_prod unat id) (lab_write xs (of_nat (count (length xs))) b)"

definition block_get :: "nat \<Rightarrow> IasLocalAudioBuffer \<Rightarrow> (AudioData list \<times> IasLocalAudioBuffer) option" where
  "block_get n b =
     map_option (\<lambda>(k, d, b). (take (unat k) d, b)) (lab_read (replicate (count n) 0) (of_nat (count n)) b)"

definition channels :: "u8 \<Rightarrow> nat" where "channels c = unat c + 2"

definition frames :: "nat \<Rightarrow> AudioData list \<Rightarrow> AudioData list" where
  "frames step xs = concat (map (\<lambda>x. x # replicate (step - 1) 0) xs)"

definition channel_put ::
  "u8 \<Rightarrow> AudioData list \<Rightarrow> IasLocalAudioBuffer \<Rightarrow> (nat \<times> IasLocalAudioBuffer) option" where
  "channel_put c xs b =
     map_option (map_prod unat id)
       (lab_write_stride (frames (channels c) xs) (of_nat (count (length xs))) (of_nat (2 * channels c)) b)"

definition channel_get ::
  "u8 \<Rightarrow> nat \<Rightarrow> IasLocalAudioBuffer \<Rightarrow> (AudioData list \<times> IasLocalAudioBuffer) option" where
  "channel_get c n b =
     map_option (\<lambda>(k, d, b). (strided (channels c) 0 (unat k) d, b))
       (lab_read_stride (replicate (count n * channels c) 0) (of_nat (count n)) (of_nat (2 * channels c)) b)"

lemma unat_count [simp]: "unat (of_nat (count n) :: u32) = count n"
  by (simp add: count_def unat_of_nat take_bit_nat_eq_self)

lemma content_small: "lab_ok b \<Longrightarrow> length (content b) + room b + 1 = cap b"
  by (erule lab_okE) (simp add: room_def)

lemma count_room:
  assumes "lab_ok b"
  shows "min (count n) (room b) = min n (room b)" "min (count n) (length (content b)) = min n (length (content b))"
    "take (count n) (content b) = take n (content b)" "drop (count n) (content b) = drop n (content b)"
    "k \<le> room b \<Longrightarrow> unat (of_nat k :: u32) = k"
    "k \<le> length (content b) \<Longrightarrow> unat (of_nat k :: u32) = k"
proof -
  have "room b < 2 ^ 31" "length (content b) < 2 ^ 31"
    using content_small [OF assms] assms by (auto elim!: lab_okE)
  then show "min (count n) (room b) = min n (room b)" "min (count n) (length (content b)) = min n (length (content b))"
    "take (count n) (content b) = take n (content b)" "drop (count n) (content b) = drop n (content b)"
    "k \<le> room b \<Longrightarrow> unat (of_nat k :: u32) = k"
    "k \<le> length (content b) \<Longrightarrow> unat (of_nat k :: u32) = k"
    by (auto simp: count_def min_def unat_of_nat take_bit_nat_eq_self)
qed

lemma take_min_length: "take (min (length xs) k) xs = take k xs" "take (min k (length xs)) xs = take k xs"
  by (simp_all add: min_def)

lemma same_space:
  assumes "lab_ok b" "lab_ok b'" "mTotalSize b' = mTotalSize b"
  shows "room b' + length (content b') = room b + length (content b)"
  using content_small [OF assms(1)] content_small [OF assms(2)] assms(3) by simp

interpretation block: sample_fifo block_put block_get content room lab_ok
proof
  fix xs b
  assume ok: "lab_ok b"
  note counts = count_room [OF ok]
  obtain b' where "lab_write xs (of_nat (count (length xs))) b =
      Some (of_nat (min (unat (of_nat (count (length xs)) :: u32)) (room b)), b')" "lab_ok b'"
    "content b' = content b @ take (min (unat (of_nat (count (length xs)) :: u32)) (room b)) xs"
    "mTotalSize b' = mTotalSize b"
    by (rule lab_write_ok [OF ok, of "of_nat (count (length xs))" xs])
      (simp_all add: counts)
  then show "\<exists>b'. block_put xs b = Some (min (length xs) (room b), b') \<and> lab_ok b' \<and>
      content b' = content b @ take (room b) xs \<and>
      room b' + length (content b') = room b + length (content b)"
    using same_space [OF ok, of b'] by (simp add: block_put_def counts take_min_length)
next
  fix n b
  assume ok: "lab_ok b"
  note counts = count_room [OF ok]
  let ?n = "of_nat (count n) :: u32"
  obtain b' where "lab_read (replicate (count n) 0) ?n b =
      Some (of_nat (min (unat ?n) (length (content b))),
        take (unat ?n) (content b) @ drop (min (unat ?n) (length (content b))) (replicate (count n) 0), b')"
    "lab_ok b'" "content b' = drop (unat ?n) (content b)" "mTotalSize b' = mTotalSize b"
    by (rule lab_read_ok [OF ok, of ?n "replicate (count n) 0"]) simp_all
  then show "\<exists>b'. block_get n b = Some (take n (content b), b') \<and> lab_ok b' \<and>
      content b' = drop n (content b) \<and> room b' + length (content b') = room b + length (content b)"
    using same_space [OF ok, of b'] by (simp add: block_get_def counts take_min_length)
qed

lemma channels_stride:
  "unat (of_nat (2 * channels c) :: u32) div 2 = channels c" "(2 :: u32) \<noteq> of_nat (2 * channels c)"
  "0 < channels c"
proof -
  have "2 * channels c < 2 ^ 32" using unat_lt [of c] by (simp add: channels_def)
  then have stride: "unat (of_nat (2 * channels c) :: u32) = 2 * channels c"
    by (simp add: unat_of_nat take_bit_nat_eq_self del: of_nat_mult)
  then show "unat (of_nat (2 * channels c) :: u32) div 2 = channels c" by (simp del: of_nat_mult)
  show "(2 :: u32) \<noteq> of_nat (2 * channels c)"
  proof
    assume "(2 :: u32) = of_nat (2 * channels c)"
    from arg_cong [OF this, of unat] show False by (simp only: stride) (simp add: channels_def)
  qed
  show "0 < channels c" by (simp add: channels_def)
qed

lemma span_le:
  assumes "0 < step" and "k \<le> n"
  shows "span step 0 k \<le> n * step"
proof (cases k)
  case 0
  then show ?thesis by (simp add: span_def)
next
  case (Suc j)
  have "Suc (j * step) \<le> k * step" using Suc assms(1) by simp
  also have "\<dots> \<le> n * step" using assms(2) by (rule mult_le_mono1)
  finally show ?thesis using Suc by (simp add: span_def)
qed

lemma length_frames [simp]: "0 < step \<Longrightarrow> length (frames step xs) = length xs * step"
  by (induction xs) (simp_all add: frames_def)

lemma strided_frames:
  "0 < step \<Longrightarrow> n \<le> length xs \<Longrightarrow> strided step (length pre) n (pre @ frames step xs) = take n xs"
proof (induction n arbitrary: pre xs)
  case 0
  then show ?case by simp
next
  case (Suc n)
  then obtain x xs' where xs: "xs = x # xs'" by (cases xs) auto
  with Suc.IH [of xs' "pre @ x # replicate (step - 1) 0"] Suc.prems show ?case
    by (simp add: frames_def nth_append)
qed

interpretation channel: sample_fifo "channel_put c" "channel_get c" content room lab_strict for c
proof
  fix xs :: "AudioData list" and b
  assume strict: "lab_strict b"
  then have ok: "lab_ok b" by (simp add: lab_strict_def)
  note counts = count_room [OF ok] and ch = channels_stride [of c]
  let ?n = "of_nat (count (length xs)) :: u32" let ?s = "of_nat (2 * channels c) :: u32"
  have "span (unat ?s div 2) 0 (min (unat ?n) (room b)) \<le> length (frames (channels c) xs)"
    unfolding ch(1) using ch(3) by (simp add: counts span_le)
  then obtain b' where b': "lab_write_stride (frames (channels c) xs) ?n ?s b =
      Some (of_nat (min (unat ?n) (room b)), b')" "lab_strict b'" "mTotalSize b' = mTotalSize b"
    "content b' = content b @ strided (unat ?s div 2) 0 (min (unat ?n) (room b)) (frames (channels c) xs)"
    by (rule lab_write_stride_ok [OF strict ch(2)])
  have "strided (channels c) 0 (min (length xs) (room b)) (frames (channels c) xs) = take (room b) xs"
    using strided_frames [OF ch(3), of "min (length xs) (room b)" xs "[]"] by (simp add: take_min_length)
  moreover have "lab_ok b'" using b'(2) by (simp add: lab_strict_def)
  ultimately show "\<exists>b'. channel_put c xs b = Some (min (length xs) (room b), b') \<and> lab_strict b' \<and>
      content b' = content b @ take (room b) xs \<and>
      room b' + length (content b') = room b + length (content b)"
    using b' same_space [OF ok, of b'] unfolding ch(1) by (simp add: channel_put_def counts)
next
  fix n b
  assume strict: "lab_strict b"
  then have ok: "lab_ok b" by (simp add: lab_strict_def)
  note counts = count_room [OF ok] and ch = channels_stride [of c]
  let ?n = "of_nat (count n) :: u32" let ?s = "of_nat (2 * channels c) :: u32"
  let ?dst = "replicate (count n * channels c) 0 :: AudioData list" let ?k = "min n (length (content b))"
  have span: "span (channels c) 0 ?k \<le> length ?dst"
    using span_le [OF ch(3), of ?k "count n"] min.cobounded1 [of "count n" "length (content b)"]
    unfolding counts(2) [of n] by simp
  then have "span (unat ?s div 2) 0 (min (unat ?n) (length (content b))) \<le> length ?dst"
    unfolding ch(1) by (simp add: counts)
  then obtain b' where b': "lab_read_stride ?dst ?n ?s b = Some (of_nat (min (unat ?n) (length (content b))),
      scatter (unat ?s div 2) 0 (take (unat ?n) (content b)) ?dst, b')"
    "lab_strict b'" "mTotalSize b' = mTotalSize b" "content b' = drop (unat ?n) (content b)"
    by (rule lab_read_stride_ok [OF strict ch(2)])
  have "strided (channels c) 0 ?k (scatter (channels c) 0 (take n (content b)) ?dst) = take n (content b)"
    using strided_scatter [OF ch(3), of 0 "take n (content b)" ?dst] span by (simp add: min.commute)
  moreover have "lab_ok b'" using b'(2) by (simp add: lab_strict_def)
  ultimately show "\<exists>b'. channel_get c n b = Some (take n (content b), b') \<and> lab_strict b' \<and>
      content b' = drop n (content b) \<and> room b' + length (content b') = room b + length (content b)"
    using b' same_space [OF ok, of b'] unfolding ch(1) by (simp add: channel_get_def counts)
qed

section \<open>Properties\<close>

text \<open>C26. A block write appends the samples that fit to the content of the ring, whatever the
  positions of the indices, touches no memory outside it, returns their number, counts an overrun
  exactly when samples had to be dropped, advances the monotonic write index, notes the fill level
  after the first write behind a reset, and raises the ready flag once the threshold is reached.\<close>

theorem audio_write:
  assumes ok: "lab_ok b" and src: "unat n \<le> length src"
  shows "\<exists>b'. lab_write src n b = Some (of_nat (min (unat n) (room b)), b') \<and> lab_ok b' \<and>
    content b' = content b @ take (min (unat n) (room b)) src \<and>
    mDiagData b' = (if room b < unat n
      then (mDiagData b)\<lparr>numOverrun := numOverrun (mDiagData b) + 1,
                         numOverrunTotal := numOverrunTotal (mDiagData b) + 1\<rparr>
      else mDiagData b) \<and>
    mMonotonicWriteIndex b' = mMonotonicWriteIndex b + of_nat (min (unat n) (room b)) \<and>
    mReferenceFill b' = (if mReferenceFill b = 0 then getFillLevel b' else mReferenceFill b) \<and>
    mReadReady b' = (mReadReady b \<or> mReadThreshold b \<le> getFillLevel b')"
proof -
  have "min (unat n) (room b) \<le> length src" using src by simp
  then show ?thesis
    by (rule lab_write_ok [OF ok]) (auto simp: overrun_counters_def)
qed

definition example_buffer :: IasLocalAudioBuffer where
  "example_buffer = snd (lab_init 4 False (Some [0, 0, 0, 0]) lab_new)"

lemma example_buffer_ok:
  "lab_strict example_buffer" "lab_ok example_buffer" "content example_buffer = []"
  "cap example_buffer = 4" "room example_buffer = 3"
  by (simp_all add: example_buffer_def lab_init_def lab_new_def lab_strict_def lab_ok_def fill_def
      content_def room_def Let_def)

theorem audio_write_witness:
  "\<exists>b'. lab_write [1, 2, 3, 4, 5] 5 example_buffer = Some (3, b') \<and> content b' = [1, 2, 3] \<and>
     numOverrun (mDiagData b') = 1"
proof -
  have "\<exists>b'. lab_write [1, 2, 3, 4, 5] 5 example_buffer = Some (3, b') \<and> content b' = [1, 2, 3] \<and>
      mDiagData b' = (mDiagData example_buffer)\<lparr>numOverrun := numOverrun (mDiagData example_buffer) + 1,
        numOverrunTotal := numOverrunTotal (mDiagData example_buffer) + 1\<rparr>"
    using audio_write [of example_buffer 5 "[1, 2, 3, 4, 5]"] example_buffer_ok by auto
  moreover have "numOverrun (mDiagData example_buffer) = 0"
    by (simp add: example_buffer_def lab_init_def lab_new_def DiagData_new_def Let_def)
  ultimately show ?thesis by auto
qed

text \<open>A reset to \<open>n\<close> samples leaves the newest \<open>n\<close> samples in the ring, filled up with zeros in
  front where there were fewer, clears nothing else, and resets the reference fill level, the
  ready flag and the monotonic indices.\<close>

theorem audio_reset:
  assumes "lab_ok b" and "unat n < unat (mTotalSize b)"
  shows "\<exists>b'. lab_reset n b = Some (eIasAvbProcOK, b') \<and> lab_ok b' \<and>
    content b' = replicate (unat n - length (content b)) 0 @ drop (length (content b) - unat n) (content b) \<and>
    mReferenceFill b' = 0 \<and> \<not> mReadReady b' \<and> mMonotonicReadIndex b' = 0 \<and> mMonotonicWriteIndex b' = 0"
  by (rule lab_reset_ok [OF assms]) (auto simp: refilled_def)

theorem audio_reset_witness:
  "\<exists>b'. lab_reset 2 example_buffer = Some (eIasAvbProcOK, b') \<and> content b' = replicate 2 0"
  using audio_reset [of example_buffer 2] example_buffer_ok by auto

text \<open>C7. Block transfers: over any sequence of writes and reads the samples delivered followed by
  those still in the ring are the samples held at first followed by those accepted: no sample is
  lost after it was accepted, repeated or reordered, and no access leaves the ring.\<close>

theorem audio_block_fifo:
  assumes "lab_ok b"
  shows "\<exists>ins outs b'. block.run requests b = Some (ins, outs, b') \<and> lab_ok b' \<and>
    content b @ ins = outs @ content b' \<and> room b' + length (content b') = room b + length (content b)"
  using block.run_queue [OF assms] by simp

theorem audio_block_fifo_witness:
  "\<exists>ins outs b'. block.run [Put [1, 2, 3], Get 2, Put [4, 5], Get 9] example_buffer = Some (ins, outs, b') \<and>
     ins = outs @ content b'"
  using audio_block_fifo [of example_buffer "[Put [1, 2, 3], Get 2, Put [4, 5], Get 9]"] example_buffer_ok
  by auto

text \<open>C25. The same for transfers of one channel of interleaved frames of two or more channels, which
  move the indices sample by sample, from a ring whose indices are below its size.\<close>

theorem audio_channel_fifo:
  assumes "lab_strict b"
  shows "\<exists>ins outs b'. channel.run c requests b = Some (ins, outs, b') \<and> lab_strict b' \<and>
    content b @ ins = outs @ content b' \<and> room b' + length (content b') = room b + length (content b)"
  using channel.run_queue [OF assms] by simp

theorem audio_channel_fifo_witness:
  "\<exists>ins outs b'. channel.run 6 [Put [1, 2, 3], Get 2, Put [4, 5], Get 9] example_buffer = Some (ins, outs, b') \<and>
     ins = outs @ content b'"
  using audio_channel_fifo [of example_buffer 6 "[Put [1, 2, 3], Get 2, Put [4, 5], Get 9]"] example_buffer_ok
  by auto


end
