(* ===== verification/Audio_Buffer_Desc.thy ===== *)
theory Audio_Buffer_Desc
  imports Registry "HOL-Library.Sublist"
begin

text \<open>
  \<^verbatim>\<open>IasLocalAudioBufferDesc\<close> (\<^verbatim>\<open>IasLocalAudioBufferDesc.hpp/.cpp\<close>): the queue of time stamps that
  accompanies the sample rings of a local audio stream. The vector holds the newest descriptor at
  its front; a full queue drops the oldest. \<open>None\<close> is \<^verbatim>\<open>pop_back\<close> on an empty vector. The recursive
  mutex makes every operation atomic.
\<close>

record AudioBufferDesc =
  timeStamp :: u64
  bufIndex :: u64
  sampleCnt :: u32

datatype AudioBufferDescMode =
    eIasAudioBufferDescModeOff
  | eIasAudioBufferDescModeFailSafe
  | eIasAudioBufferDescModeHard
  | eIasAudioBufferDescModeLast

record IasLocalAudioBufferDesc =
  mDescQ :: "AudioBufferDesc list"
  mDescQsz :: u32
  mResetRequest :: bool
  mDbgPresentationWarningTime :: u64
  mAlsaRxSyncStart :: bool

definition cAlsaSyncRxReadStart :: string where "cAlsaSyncRxReadStart = ''alsa.sync.rx.read.start''"

definition desc_new :: "registry option \<Rightarrow> u32 \<Rightarrow> IasLocalAudioBufferDesc" where
  "desc_new reg qSize =
     \<lparr>mDescQ = [], mDescQsz = qSize, mResetRequest = False, mDbgPresentationWarningTime = 0,
      mAlsaRxSyncStart = snd (getConfigValue (\<lambda>v. v \<noteq> 0) reg cAlsaSyncRxReadStart False)\<rparr>"

definition desc_cleanup :: "IasLocalAudioBufferDesc \<Rightarrow> IasLocalAudioBufferDesc" where
  "desc_cleanup q = q\<lparr>mDescQ := []\<rparr>"

definition enqueue :: "AudioBufferDesc \<Rightarrow> IasLocalAudioBufferDesc \<Rightarrow> IasLocalAudioBufferDesc option" where
  "enqueue desc q =
     (if length (mDescQ q) \<ge> unat (mDescQsz q)
      then if mDescQ q = [] then None else Some (q\<lparr>mDescQ := desc # butlast (mDescQ q)\<rparr>)
      else Some (q\<lparr>mDescQ := desc # mDescQ q\<rparr>))"

text \<open>The descriptor passed by reference is written only on success.\<close>

definition dequeue ::
  "AudioBufferDesc \<Rightarrow> IasLocalAudioBufferDesc \<Rightarrow>
     IasAvbProcessingResult \<times> AudioBufferDesc \<times> IasLocalAudioBufferDesc" where
  "dequeue desc q =
     (if mDescQ q \<noteq> []
      then (eIasAvbProcOK, last (mDescQ q), q\<lparr>mDescQ := butlast (mDescQ q)\<rparr>)
      else (eIasAvbProcErr, desc, q))"

definition peekX ::
  "AudioBufferDesc \<Rightarrow> u32 \<Rightarrow> IasLocalAudioBufferDesc \<Rightarrow> IasAvbProcessingResult \<times> AudioBufferDesc" where
  "peekX desc index q =
     (let qSize = length (mDescQ q) in
      if unat index < qSize then (eIasAvbProcOK, mDescQ q ! (qSize - 1 - unat index))
      else (eIasAvbProcErr, desc))"

definition peek :: "AudioBufferDesc \<Rightarrow> IasLocalAudioBufferDesc \<Rightarrow> IasAvbProcessingResult \<times> AudioBufferDesc"
where
  "peek desc q = peekX desc 0 q"

definition setResetRequest :: "IasLocalAudioBufferDesc \<Rightarrow> IasLocalAudioBufferDesc" where
  "setResetRequest q = q\<lparr>mResetRequest := True\<rparr>"

definition getResetRequest :: "IasLocalAudioBufferDesc \<Rightarrow> bool \<times> IasLocalAudioBufferDesc" where
  "getResetRequest q = (mResetRequest q, q\<lparr>mResetRequest := False\<rparr>)"

definition desc_reset :: "IasLocalAudioBufferDesc \<Rightarrow> IasLocalAudioBufferDesc" where
  "desc_reset q = setResetRequest (desc_cleanup q)"

definition setDbgPresentationWarningTime :: "u64 \<Rightarrow> IasLocalAudioBufferDesc \<Rightarrow> IasLocalAudioBufferDesc" where
  "setDbgPresentationWarningTime time q = q\<lparr>mDbgPresentationWarningTime := time\<rparr>"

definition setAlsaRxSyncStartMode :: "bool \<Rightarrow> IasLocalAudioBufferDesc \<Rightarrow> IasLocalAudioBufferDesc" where
  "setAlsaRxSyncStartMode on q = q\<lparr>mAlsaRxSyncStart := on\<rparr>"

definition getAudioBufferDescModeString :: "AudioBufferDescMode \<Rightarrow> string" where
  "getAudioBufferDescModeString mode =
     (case mode of
        eIasAudioBufferDescModeOff \<Rightarrow> ''off''
      | eIasAudioBufferDescModeFailSafe \<Rightarrow> ''fail-safe''
      | eIasAudioBufferDescModeHard \<Rightarrow> ''hard''
      | eIasAudioBufferDescModeLast \<Rightarrow> ''invalid'')"

section \<open>The queue, oldest descriptor first\<close>

definition pending :: "IasLocalAudioBufferDesc \<Rightarrow> AudioBufferDesc list" where
  "pending q = rev (mDescQ q)"

definition desc_ok :: "IasLocalAudioBufferDesc \<Rightarrow> bool" where
  "desc_ok q \<longleftrightarrow> 0 < unat (mDescQsz q) \<and> length (mDescQ q) \<le> unat (mDescQsz q)"

lemma enqueue_pending:
  assumes "desc_ok q"
  obtains q' where "enqueue d q = Some q'" and "desc_ok q'" and "mDescQsz q' = mDescQsz q"
    and "pending q' = drop (length (pending q) + 1 - unat (mDescQsz q)) (pending q @ [d])"
proof (cases "length (mDescQ q) \<ge> unat (mDescQsz q)")
  case True
  with assms have full: "length (mDescQ q) = unat (mDescQsz q)" "mDescQ q \<noteq> []"
    by (auto simp: desc_ok_def)
  then obtain xs x where xs: "mDescQ q = xs @ [x]" by (cases "mDescQ q" rule: rev_cases) auto
  show thesis
    by (rule that [of "q\<lparr>mDescQ := d # xs\<rparr>"])
      (use True full xs assms in \<open>auto simp: enqueue_def desc_ok_def pending_def\<close>)
next
  case False
  with assms show thesis
    by (intro that [of "q\<lparr>mDescQ := d # mDescQ q\<rparr>"]) (auto simp: enqueue_def desc_ok_def pending_def)
qed

lemma dequeue_pending:
  "dequeue d q = (case pending q of
       [] \<Rightarrow> (eIasAvbProcErr, d, q)
     | x # xs \<Rightarrow> (eIasAvbProcOK, x, q\<lparr>mDescQ := rev xs\<rparr>))"
  by (cases "mDescQ q" rule: rev_cases) (simp_all add: dequeue_def pending_def)

lemma peekX_pending:
  "peekX d i q = (if unat i < length (pending q) then (eIasAvbProcOK, pending q ! unat i)
                  else (eIasAvbProcErr, d))"
  by (simp add: peekX_def pending_def rev_nth Let_def)

datatype desc_request = Enqueue AudioBufferDesc | Dequeue

text \<open>The descriptors handed out by a sequence of requests, and the queue behind it.\<close>

primrec desc_run ::
  "desc_request list \<Rightarrow> IasLocalAudioBufferDesc \<Rightarrow> (AudioBufferDesc list \<times> IasLocalAudioBufferDesc) option"
where
  "desc_run [] q = Some ([], q)"
| "desc_run (r # rs) q =
     (case r of
        Enqueue d \<Rightarrow> Option.bind (enqueue d q) (desc_run rs)
      | Dequeue \<Rightarrow>
          (let (ret, d, q) = dequeue \<lparr>timeStamp = 0, bufIndex = 0, sampleCnt = 0\<rparr> q in
           map_option (map_prod (\<lambda>ds. if ret = eIasAvbProcOK then d # ds else ds) id) (desc_run rs q)))"

definition enqueued :: "desc_request list \<Rightarrow> AudioBufferDesc list" where
  "enqueued rs = concat (map (\<lambda>r. case r of Enqueue d \<Rightarrow> [d] | Dequeue \<Rightarrow> []) rs)"

lemma subseq_drop_middle: "subseq (outs @ rest) (drop k xs @ ys) \<Longrightarrow> subseq (outs @ rest) (xs @ ys)"
  by (metis (no_types, lifting) append.assoc append_take_drop_id subseq_order.trans
      list_emb_append2 subseq_order.order_refl)

lemma desc_run_pending:
  "desc_ok q \<Longrightarrow> \<exists>outs q'. desc_run rs q = Some (outs, q') \<and> desc_ok q' \<and> mDescQsz q' = mDescQsz q \<and>
     subseq (outs @ pending q') (pending q @ enqueued rs) \<and> suffix (pending q') (pending q @ enqueued rs)"
proof (induction rs arbitrary: q)
  case Nil
  then show ?case by (simp add: enqueued_def)
next
  case (Cons r rs)
  show ?case
  proof (cases r)
    case (Enqueue d)
    obtain q1 where q1: "enqueue d q = Some q1" "desc_ok q1" "mDescQsz q1 = mDescQsz q"
      "pending q1 = drop (length (pending q) + 1 - unat (mDescQsz q)) (pending q @ [d])"
      by (rule enqueue_pending [OF Cons.prems])
    obtain outs q' where q': "desc_run rs q1 = Some (outs, q')" "desc_ok q'" "mDescQsz q' = mDescQsz q1"
      "subseq (outs @ pending q') (pending q1 @ enqueued rs)" "suffix (pending q') (pending q1 @ enqueued rs)"
      using Cons.IH [OF q1(2)] by blast
    have all: "pending q @ enqueued (r # rs) = (pending q @ [d]) @ enqueued rs"
      by (simp add: Enqueue enqueued_def)
    have "suffix (pending q1 @ enqueued rs) ((pending q @ [d]) @ enqueued rs)"
      unfolding q1(4) by (metis append.assoc append_take_drop_id suffixI)
    then have "suffix (pending q') ((pending q @ [d]) @ enqueued rs)"
      using q'(5) suffix_order.trans by blast
    moreover have "subseq (outs @ pending q') ((pending q @ [d]) @ enqueued rs)"
      using q'(4) unfolding q1(4) by (rule subseq_drop_middle)
    ultimately show ?thesis using Enqueue q1 q' all by simp
  next
    case Dequeue
    show ?thesis
    proof (cases "pending q")
      case Nil
      have "enqueued (r # rs) = enqueued rs" by (simp add: Dequeue enqueued_def)
      with Cons.IH [OF Cons.prems] Nil Dequeue show ?thesis by (auto simp: dequeue_pending)
    next
      case (Cons x xs)
      let ?q1 = "q\<lparr>mDescQ := rev xs\<rparr>"
      have "length xs < length (mDescQ q)"
        using Cons by (metis length_Cons length_rev lessI pending_def)
      then have "desc_ok ?q1" using Cons.prems by (simp add: desc_ok_def)
      then obtain outs q' where q': "desc_run rs ?q1 = Some (outs, q')" "desc_ok q'"
        "mDescQsz q' = mDescQsz ?q1" "subseq (outs @ pending q') (pending ?q1 @ enqueued rs)"
        "suffix (pending q') (pending ?q1 @ enqueued rs)"
        using Cons.IH by blast
      have p1: "pending ?q1 = xs" by (simp add: pending_def)
      have "suffix (xs @ enqueued rs) (x # xs @ enqueued rs)" by (simp add: suffix_ConsI)
      with q'(5) p1 have "suffix (pending q') (x # xs @ enqueued rs)" using suffix_order.trans by metis
      with q' p1 Dequeue Cons show ?thesis by (simp add: dequeue_pending enqueued_def)
    qed
  qed
qed

section \<open>Properties\<close>


definition example_desc :: "u64 \<Rightarrow> AudioBufferDesc" where
  "example_desc t = \<lparr>timeStamp = t, bufIndex = 0, sampleCnt = 8\<rparr>"


end
