(* ===== verification/Video_Ring_Buffer.thy ===== *)
theory Video_Ring_Buffer
  imports Prelude
begin

text \<open>
  \<^verbatim>\<open>IasAvbVideoRingBufferShm\<close> (\<^verbatim>\<open>IasAvbVideoRingBufferShm.hpp/.cpp\<close>): the ring of packet buffers in
  shared memory between one writer and up to 32 reader processes. Each call is one atomic step of
  the model; \<open>now\<close> is the value \<^verbatim>\<open>clock_gettime\<close> yields in it. Pointer arguments are values of
  option type (\<open>None\<close> for NULL) and the values behind them are part of the result. Mutexes,
  broadcasts and log output do not show in the state.
\<close>

datatype IasVideoRingBufferResult =
    eIasRingBuffOk
  | eIasRingBuffInvalidParam
  | eIasRingBuffNotInitialized
  | eIasRingBuffNullPtrAccess
  | eIasRingBuffAlsaSuspendError
  | eIasRingBuffNotAllowed
  | eIasRingBuffInvalidSampleSize
  | eIasRingBuffTimeOut
  | eIasRingBuffProbeError
  | eIasRingBuffCondWaitFailed
  | eIasRingBuffTooManyReaders

datatype IasRingBufferAccess =
    eIasRingBufferAccessUndef
  | eIasRingBufferAccessRead
  | eIasRingBufferAccessWrite

record RingBufferReader =
  pid :: int
  offset :: u32
  allowedToRead :: u32
  lastAccess :: u64

record IasAvbVideoRingBufferShm =
  mBufferSize :: u32
  mNumBuffers :: u32
  mReadOffset :: u32
  mWriteOffset :: u32
  mBufferLevel :: u32
  mShared :: bool
  mInitialized :: bool
  mWriteInProgress :: bool
  mDataBuf :: "u64 option"
  mReadWaitLevel :: u32
  mWriteWaitLevel :: u32
  mAllowedToWrite :: u32
  mWriterLastAccess :: u64
  mReaders :: "RingBufferReader list"

definition cIasVideoRingBufferShmMaxReaders :: nat where "cIasVideoRingBufferShmMaxReaders = 32"

definition READER_TIMEOUT_NS :: u64 where "READER_TIMEOUT_NS = 2 * 1000000000"

definition reader_none :: RingBufferReader where
  "reader_none = \<lparr>pid = 0, offset = 0, allowedToRead = 0, lastAccess = 0\<rparr>"

definition video_ring_new :: IasAvbVideoRingBufferShm where
  "video_ring_new =
     \<lparr>mBufferSize = 0, mNumBuffers = 0, mReadOffset = 0, mWriteOffset = 0, mBufferLevel = 0,
      mShared = False, mInitialized = False, mWriteInProgress = False, mDataBuf = None,
      mReadWaitLevel = 0, mWriteWaitLevel = 0, mAllowedToWrite = 0, mWriterLastAccess = 0,
      mReaders = replicate cIasVideoRingBufferShmMaxReaders reader_none\<rparr>"

definition video_ring_init ::
  "u32 \<Rightarrow> u32 \<Rightarrow> u64 option \<Rightarrow> bool \<Rightarrow> IasAvbVideoRingBufferShm \<Rightarrow>
     IasVideoRingBufferResult \<times> IasAvbVideoRingBufferShm" where
  "video_ring_init packetSize numBuffers dataBuf shared s =
     (let s = s\<lparr>mShared := shared\<rparr> in
      if 0 = packetSize \<or> 0 = numBuffers \<or> dataBuf = None then (eIasRingBuffInvalidParam, s)
      else (eIasRingBuffOk,
            s\<lparr>mBufferSize := packetSize, mNumBuffers := numBuffers, mDataBuf := dataBuf,
              mInitialized := True\<rparr>))"

definition findReader :: "int \<Rightarrow> IasAvbVideoRingBufferShm \<Rightarrow> nat option" where
  "findReader p s =
     (if p > 0
      then case filter (\<lambda>i. pid (mReaders s ! i) = p) [0..<length (mReaders s)] of
             [] \<Rightarrow> None
           | i # _ \<Rightarrow> Some i
      else None)"

definition update_reader ::
  "nat \<Rightarrow> (RingBufferReader \<Rightarrow> RingBufferReader) \<Rightarrow> IasAvbVideoRingBufferShm \<Rightarrow> IasAvbVideoRingBufferShm" where
  "update_reader i f s = s\<lparr>mReaders := (mReaders s)[i := f (mReaders s ! i)]\<rparr>"

definition updateReaderAccess :: "u64 \<Rightarrow> RingBufferReader \<Rightarrow> RingBufferReader" where
  "updateReaderAccess now reader = reader\<lparr>lastAccess := now\<rparr>"

definition calculateReaderBufferLevel :: "RingBufferReader \<Rightarrow> IasAvbVideoRingBufferShm \<Rightarrow> u32" where
  "calculateReaderBufferLevel reader s =
     (let writeOffset = mWriteOffset s in
      if writeOffset \<ge> offset reader then writeOffset - offset reader
      else mNumBuffers s - offset reader + writeOffset)"

definition updateAvailable ::
  "IasRingBufferAccess \<Rightarrow> int \<Rightarrow> u32 option \<Rightarrow> IasAvbVideoRingBufferShm \<Rightarrow>
     IasVideoRingBufferResult \<times> u32 option" where
  "updateAvailable access p numBuffers s =
     (if numBuffers = None \<or> access = eIasRingBufferAccessUndef then (eIasRingBuffInvalidParam, numBuffers)
      else if \<not> mInitialized s then (eIasRingBuffNotInitialized, numBuffers)
      else if access = eIasRingBufferAccessRead
      then case findReader p s of
             None \<Rightarrow> (eIasRingBuffInvalidParam, numBuffers)
           | Some i \<Rightarrow> (eIasRingBuffOk, Some (calculateReaderBufferLevel (mReaders s ! i) s))
      else (eIasRingBuffOk, Some (mNumBuffers s - mBufferLevel s)))"

text \<open>The number of buffers granted to a reader and to the writer.\<close>

definition read_grant :: "u32 \<Rightarrow> RingBufferReader \<Rightarrow> IasAvbVideoRingBufferShm \<Rightarrow> u32" where
  "read_grant n reader s =
     (let bufferLevel = calculateReaderBufferLevel reader s;
          n = (if n > bufferLevel then bufferLevel else n)
      in if offset reader + n \<ge> mNumBuffers s then mNumBuffers s - offset reader else n)"

definition write_grant :: "u32 \<Rightarrow> IasAvbVideoRingBufferShm \<Rightarrow> u32" where
  "write_grant n s =
     (let bufferLevel = mBufferLevel s;
          n = (if n > mNumBuffers s - bufferLevel then mNumBuffers s - bufferLevel else n);
          n = (if mWriteOffset s + n \<ge> mNumBuffers s then mNumBuffers s - mWriteOffset s else n)
      in if mWriteOffset s < mReadOffset s then mReadOffset s - mWriteOffset s - 1 else n)"

definition beginAccess ::
  "IasRingBufferAccess \<Rightarrow> int \<Rightarrow> u32 option \<Rightarrow> u32 option \<Rightarrow> u64 \<Rightarrow> IasAvbVideoRingBufferShm \<Rightarrow>
     IasVideoRingBufferResult \<times> u32 option \<times> u32 option \<times> IasAvbVideoRingBufferShm" where
  "beginAccess access p off numBuffers now s =
     (if off = None \<or> access = eIasRingBufferAccessUndef then (eIasRingBuffInvalidParam, off, numBuffers, s)
      else case numBuffers of None \<Rightarrow> (eIasRingBuffInvalidParam, off, numBuffers, s) | Some n \<Rightarrow>
      if \<not> mInitialized s then (eIasRingBuffNotInitialized, off, numBuffers, s)
      else if access = eIasRingBufferAccessRead
      then case findReader p s of
             None \<Rightarrow> (eIasRingBuffInvalidParam, off, numBuffers, s)
           | Some i \<Rightarrow>
               let reader = mReaders s ! i; n = read_grant n reader s in
               (eIasRingBuffOk, Some (offset reader), Some n,
                update_reader i (\<lambda>x. updateReaderAccess now (x\<lparr>allowedToRead := n\<rparr>)) s)
      else if mWriteInProgress s then (eIasRingBuffNotAllowed, off, numBuffers, s)
      else
        let n = write_grant n s in
        (eIasRingBuffOk, Some (mWriteOffset s), Some n,
         s\<lparr>mWriteInProgress := True, mAllowedToWrite := n, mWriterLastAccess := now\<rparr>))"

text \<open>\<^verbatim>\<open>updateSmallerReaderOffset\<close>: the smallest offset of the registered readers, \<^verbatim>\<open>UINT32_MAX\<close> without
  readers; when every reader stands at the end of the ring all are moved to its start.\<close>

definition smaller_offset :: "RingBufferReader list \<Rightarrow> u32" where
  "smaller_offset readers =
     fold (\<lambda>x m. if pid x \<noteq> 0 \<and> offset x < m then offset x else m) readers 0xFFFFFFFF"

definition updateSmallerReaderOffset :: "IasAvbVideoRingBufferShm \<Rightarrow> u32 \<times> IasAvbVideoRingBufferShm" where
  "updateSmallerReaderOffset s =
     (let smallerOffset = smaller_offset (mReaders s) in
      if smallerOffset = 0xFFFFFFFF then (smallerOffset, s)
      else (smallerOffset,
            if smallerOffset = mNumBuffers s
            then s\<lparr>mReaders := map (\<lambda>x. if pid x \<noteq> 0 then x\<lparr>offset := 0\<rparr> else x) (mReaders s)\<rparr>
            else s))"

definition aggregateReaderOffset :: "IasAvbVideoRingBufferShm \<Rightarrow> IasAvbVideoRingBufferShm" where
  "aggregateReaderOffset s =
     (let (smallerOffset, s) = updateSmallerReaderOffset s;
          s = s\<lparr>mBufferLevel := mBufferLevel s - (smallerOffset - mReadOffset s)\<rparr>
      in if smallerOffset = mNumBuffers s then s\<lparr>mReadOffset := 0\<rparr>
         else if smallerOffset < mNumBuffers s then s\<lparr>mReadOffset := smallerOffset\<rparr>
         else s)"

definition purgeUnresponsiveReaders :: "u64 \<Rightarrow> IasAvbVideoRingBufferShm \<Rightarrow> IasAvbVideoRingBufferShm" where
  "purgeUnresponsiveReaders now s =
     s\<lparr>mReaders := map (\<lambda>x. if pid x \<noteq> 0 \<and> now > lastAccess x \<and> now - lastAccess x > READER_TIMEOUT_NS
                             then reader_none else x) (mReaders s)\<rparr>"

definition endAccess ::
  "IasRingBufferAccess \<Rightarrow> int \<Rightarrow> u32 \<Rightarrow> u64 \<Rightarrow> IasAvbVideoRingBufferShm \<Rightarrow>
     IasVideoRingBufferResult \<times> IasAvbVideoRingBufferShm" where
  "endAccess access p numBuffers now s =
     (case access of
        eIasRingBufferAccessUndef \<Rightarrow> (eIasRingBuffInvalidParam, s)
      | eIasRingBufferAccessRead \<Rightarrow>
          (case findReader p s of
             None \<Rightarrow> (eIasRingBuffInvalidParam, s)
           | Some i \<Rightarrow>
               if numBuffers > allowedToRead (mReaders s ! i) then (eIasRingBuffInvalidParam, s)
               else
                 let s = update_reader i (\<lambda>x. x\<lparr>allowedToRead := 0, offset := offset x + numBuffers\<rparr>) s;
                     s = aggregateReaderOffset s
                 in (eIasRingBuffOk, update_reader i (updateReaderAccess now) s))
      | eIasRingBufferAccessWrite \<Rightarrow>
          if mWriteInProgress s
          then if numBuffers > mAllowedToWrite s then (eIasRingBuffInvalidParam, s)
               else
                 let s = s\<lparr>mAllowedToWrite := 0\<rparr> in
                 if mWriteOffset s + numBuffers > mNumBuffers s then (eIasRingBuffInvalidParam, s)
                 else
                   let w = (if mWriteOffset s + numBuffers = mNumBuffers s then 0
                            else mWriteOffset s + numBuffers) in
                   (eIasRingBuffOk,
                    purgeUnresponsiveReaders now
                      (s\<lparr>mWriteOffset := w, mBufferLevel := mBufferLevel s + numBuffers,
                         mWriteInProgress := False, mWriterLastAccess := now\<rparr>))
          else (eIasRingBuffOk, s))"

text \<open>The waiting functions: \<open>wakes\<close> lists what the condition variable returns at each wake-up with
  the ring as the other processes left it; the result is \<open>None\<close> while the caller still waits.\<close>

datatype cond_result = eIasOk | eIasTimeout | eIasError

primrec waitWrite_loop ::
  "(cond_result \<times> IasAvbVideoRingBufferShm) list \<Rightarrow> IasAvbVideoRingBufferShm \<Rightarrow>
     (IasVideoRingBufferResult \<times> IasAvbVideoRingBufferShm) option" where
  "waitWrite_loop [] s = (if mBufferLevel s > mWriteWaitLevel s then None else Some (eIasRingBuffOk, s))"
| "waitWrite_loop (wake # wakes) s =
     (if mBufferLevel s > mWriteWaitLevel s
      then let (cndres, s) = wake in
           case cndres of
             eIasTimeout \<Rightarrow>
               Some (if mBufferLevel s > mWriteWaitLevel s then eIasRingBuffTimeOut else eIasRingBuffOk, s)
           | eIasOk \<Rightarrow> waitWrite_loop wakes s
           | eIasError \<Rightarrow> Some (eIasRingBuffCondWaitFailed, s)
      else Some (eIasRingBuffOk, s))"

definition waitWrite ::
  "u32 \<Rightarrow> u32 \<Rightarrow> (cond_result \<times> IasAvbVideoRingBufferShm) list \<Rightarrow> IasAvbVideoRingBufferShm \<Rightarrow>
     (IasVideoRingBufferResult \<times> IasAvbVideoRingBufferShm) option" where
  "waitWrite numBuffers timeout_ms wakes s =
     (if numBuffers > mNumBuffers s \<or> 0 = numBuffers \<or> 0 = timeout_ms then Some (eIasRingBuffInvalidParam, s)
      else waitWrite_loop wakes (s\<lparr>mWriteWaitLevel := mNumBuffers s - numBuffers\<rparr>))"

primrec waitRead_loop ::
  "(cond_result \<times> u64 \<times> IasAvbVideoRingBufferShm) list \<Rightarrow> nat \<Rightarrow> u32 \<Rightarrow> IasAvbVideoRingBufferShm \<Rightarrow>
     (IasVideoRingBufferResult \<times> IasAvbVideoRingBufferShm) option" where
  "waitRead_loop [] i numBuffers s =
     (if calculateReaderBufferLevel (mReaders s ! i) s < numBuffers then None else Some (eIasRingBuffOk, s))"
| "waitRead_loop (wake # wakes) i numBuffers s =
     (if calculateReaderBufferLevel (mReaders s ! i) s < numBuffers
      then let (cndres, now, s) = wake; s = update_reader i (updateReaderAccess now) s in
           case cndres of
             eIasTimeout \<Rightarrow>
               Some (if calculateReaderBufferLevel (mReaders s ! i) s < numBuffers
                     then eIasRingBuffTimeOut else eIasRingBuffOk, s)
           | eIasOk \<Rightarrow> waitRead_loop wakes i numBuffers s
           | eIasError \<Rightarrow> Some (eIasRingBuffCondWaitFailed, s)
      else Some (eIasRingBuffOk, s))"

definition waitRead ::
  "int \<Rightarrow> u32 \<Rightarrow> u32 \<Rightarrow> u64 \<Rightarrow> (cond_result \<times> u64 \<times> IasAvbVideoRingBufferShm) list \<Rightarrow>
     IasAvbVideoRingBufferShm \<Rightarrow> (IasVideoRingBufferResult \<times> IasAvbVideoRingBufferShm) option" where
  "waitRead p numBuffers timeout_ms now wakes s =
     (case findReader p s of
        None \<Rightarrow> Some (eIasRingBuffInvalidParam, s)
      | Some i \<Rightarrow>
          if numBuffers > mNumBuffers s \<or> 0 = numBuffers \<or> 0 = timeout_ms then Some (eIasRingBuffInvalidParam, s)
          else waitRead_loop wakes i numBuffers
                 (update_reader i (updateReaderAccess now)
                   (if numBuffers < mReadWaitLevel s then s\<lparr>mReadWaitLevel := numBuffers\<rparr> else s)))"

definition addReader :: "int \<Rightarrow> u64 \<Rightarrow> IasAvbVideoRingBufferShm \<Rightarrow>
     IasVideoRingBufferResult \<times> IasAvbVideoRingBufferShm" where
  "addReader p now s =
     (if p \<le> 0 then (eIasRingBuffInvalidParam, s)
      else case filter (\<lambda>i. pid (mReaders s ! i) = 0) [0..<length (mReaders s)] of
             [] \<Rightarrow> (eIasRingBuffTooManyReaders, s)
           | i # _ \<Rightarrow>
               (eIasRingBuffOk,
                update_reader i (\<lambda>x. updateReaderAccess now (x\<lparr>pid := p, offset := mReadOffset s\<rparr>)) s))"

definition removeReader :: "int \<Rightarrow> IasAvbVideoRingBufferShm \<Rightarrow>
     IasVideoRingBufferResult \<times> IasAvbVideoRingBufferShm" where
  "removeReader p s =
     (if p > 0
      then (if \<exists>x \<in> set (mReaders s). pid x = p then eIasRingBuffOk else eIasRingBuffInvalidParam,
            s\<lparr>mReaders := map (\<lambda>x. if pid x = p then reader_none else x) (mReaders s)\<rparr>)
      else (eIasRingBuffInvalidParam, s))"

section \<open>The requests of the processes\<close>

text \<open>The waiting functions only touch the wait levels and access times, so they are no requests of
  their own.\<close>

datatype video_request =
    Begin_Read int u32
  | End_Read int u32
  | Begin_Write u32
  | End_Write u32
  | Add_Reader int
  | Remove_Reader int

text \<open>The offset pointer behind a request is the address of a local variable of the caller.\<close>

definition exec :: "video_request \<Rightarrow> u64 \<Rightarrow> IasAvbVideoRingBufferShm \<Rightarrow> IasAvbVideoRingBufferShm" where
  "exec q now s =
     (case q of
        Begin_Read p n \<Rightarrow> snd (snd (snd (beginAccess eIasRingBufferAccessRead p (Some 0) (Some n) now s)))
      | End_Read p n \<Rightarrow> snd (endAccess eIasRingBufferAccessRead p n now s)
      | Begin_Write n \<Rightarrow> snd (snd (snd (beginAccess eIasRingBufferAccessWrite 1 (Some 0) (Some n) now s)))
      | End_Write n \<Rightarrow> snd (endAccess eIasRingBufferAccessWrite 1 n now s)
      | Add_Reader p \<Rightarrow> snd (addReader p now s)
      | Remove_Reader p \<Rightarrow> snd (removeReader p s))"

text \<open>The states the processes can bring a ring of \<open>n\<close> buffers to.\<close>

inductive ring_reach :: "u32 \<Rightarrow> IasAvbVideoRingBufferShm \<Rightarrow> bool" for n where
  start: "video_ring_init packetSize n (Some buf) shared video_ring_new = (eIasRingBuffOk, s) \<Longrightarrow> ring_reach n s"
| step: "ring_reach n s \<Longrightarrow> ring_reach n (exec q now s)"

section \<open>The invariant\<close>

abbreviation "bufs s \<equiv> unat (mNumBuffers s)"
abbreviation "rpos s \<equiv> unat (mReadOffset s)"
abbreviation "wpos s \<equiv> unat (mWriteOffset s)"
abbreviation "level s \<equiv> unat (mBufferLevel s)"
abbreviation "grantw s \<equiv> unat (mAllowedToWrite s)"
abbreviation "opos x \<equiv> unat (offset x)"
abbreviation "grantr x \<equiv> unat (allowedToRead x)"

text \<open>The three situations of the ring: the writer is ahead in the same round, the writer has
  wrapped and is behind the readers, or the writer has filled the whole ring from its start.\<close>

definition ahead :: "IasAvbVideoRingBufferShm \<Rightarrow> bool" where
  "ahead s \<longleftrightarrow> rpos s \<le> wpos s \<and> level s = wpos s - rpos s \<and> wpos s + grantw s \<le> bufs s \<and>
     (\<forall>x \<in> set (mReaders s). pid x \<noteq> 0 \<longrightarrow> rpos s \<le> opos x \<and> opos x + grantr x \<le> wpos s)"

definition behind :: "IasAvbVideoRingBufferShm \<Rightarrow> bool" where
  "behind s \<longleftrightarrow> wpos s < rpos s \<and> level s = bufs s - rpos s + wpos s \<and> wpos s + grantw s < rpos s \<and>
     (\<forall>x \<in> set (mReaders s). pid x \<noteq> 0 \<longrightarrow> rpos s \<le> opos x \<and> opos x + grantr x \<le> bufs s)"

definition brimful :: "IasAvbVideoRingBufferShm \<Rightarrow> bool" where
  "brimful s \<longleftrightarrow> rpos s = 0 \<and> wpos s = 0 \<and> level s = bufs s \<and> grantw s = 0 \<and>
     (\<forall>x \<in> set (mReaders s). pid x \<noteq> 0 \<longrightarrow> opos x + grantr x \<le> bufs s)"

definition ring_ok :: "IasAvbVideoRingBufferShm \<Rightarrow> bool" where
  "ring_ok s \<longleftrightarrow> 0 < bufs s \<and> bufs s < 2 ^ 31 \<and> rpos s < bufs s \<and> wpos s < bufs s \<and>
     (\<not> mWriteInProgress s \<longrightarrow> grantw s = 0) \<and>
     (\<forall>x \<in> set (mReaders s). pid x = 0 \<longrightarrow> x = reader_none) \<and>
     (ahead s \<or> behind s \<or> brimful s)"

lemmas situations = ahead_def behind_def brimful_def

lemma filter_first:
  assumes "filter P xs = y # ys"
  shows "y \<in> set xs \<and> P y"
proof -
  from assms have "y \<in> set (filter P xs)" by simp
  then show ?thesis by simp
qed

lemma findReader_Some:
  "findReader p s = Some i \<Longrightarrow> i < length (mReaders s) \<and> pid (mReaders s ! i) = p \<and> p > 0"
  using filter_first [of "\<lambda>i. pid (mReaders s ! i) = p" "[0..<length (mReaders s)]" i]
  by (auto simp: findReader_def split: if_splits list.splits)

text \<open>Changes of one reader: what may be done to it without disturbing the others.\<close>

lemma ring_ok_update_reader:
  assumes ok: "ring_ok s" and i: "i < length (mReaders s)"
    and keep: "pid (f (mReaders s ! i)) = 0 \<Longrightarrow> f (mReaders s ! i) = reader_none"
    and new: "pid (f (mReaders s ! i)) \<noteq> 0 \<Longrightarrow>
      (ahead s \<longrightarrow> rpos s \<le> opos (f (mReaders s ! i)) \<and>
         opos (f (mReaders s ! i)) + grantr (f (mReaders s ! i)) \<le> wpos s) \<and>
      (behind s \<longrightarrow> rpos s \<le> opos (f (mReaders s ! i)) \<and>
         opos (f (mReaders s ! i)) + grantr (f (mReaders s ! i)) \<le> bufs s) \<and>
      (brimful s \<longrightarrow> opos (f (mReaders s ! i)) + grantr (f (mReaders s ! i)) \<le> bufs s)"
  shows "ring_ok (update_reader i f s)"
proof -
  have set: "x = f (mReaders s ! i) \<or> x \<in> set (mReaders s)"
    if "x \<in> set ((mReaders s)[i := f (mReaders s ! i)])" for x
    using that set_update_subset_insert [of "mReaders s" i] by auto
  have "ahead s \<Longrightarrow> ahead (update_reader i f s)"
    using new set by (fastforce simp: ahead_def update_reader_def)
  moreover have "behind s \<Longrightarrow> behind (update_reader i f s)"
    using new set by (fastforce simp: behind_def update_reader_def)
  moreover have "brimful s \<Longrightarrow> brimful (update_reader i f s)"
    using new set by (fastforce simp: brimful_def update_reader_def)
  moreover have "\<forall>x \<in> set (mReaders (update_reader i f s)). pid x = 0 \<longrightarrow> x = reader_none"
    using ok keep set by (fastforce simp: ring_ok_def update_reader_def)
  ultimately show ?thesis
    using ok unfolding ring_ok_def by (auto simp: update_reader_def)
qed

lemma ring_ok_map_none:
  assumes ok: "ring_ok s"
  shows "ring_ok (s\<lparr>mReaders := map (\<lambda>x. if P x then reader_none else x) (mReaders s)\<rparr>)"
proof -
  let ?s = "s\<lparr>mReaders := map (\<lambda>x. if P x then reader_none else x) (mReaders s)\<rparr>"
  have none: "pid reader_none = 0" by (simp add: reader_none_def)
  have "ahead s \<Longrightarrow> ahead ?s" "behind s \<Longrightarrow> behind ?s" "brimful s \<Longrightarrow> brimful ?s"
    using none by (auto simp: situations)
  then show ?thesis using ok by (auto simp: ring_ok_def)
qed

text \<open>The smallest offset.\<close>

lemma smaller_fold:
  "(\<forall>x \<in> set xs. pid x \<noteq> 0 \<longrightarrow> fold (\<lambda>x m. if pid x \<noteq> 0 \<and> offset x < m then offset x else m) xs m \<le> offset x) \<and>
   fold (\<lambda>x m. if pid x \<noteq> 0 \<and> offset x < m then offset x else m) xs m \<le> m \<and>
   (fold (\<lambda>x m. if pid x \<noteq> 0 \<and> offset x < m then offset x else m) xs m = m \<or>
    (\<exists>x \<in> set xs. pid x \<noteq> 0 \<and> fold (\<lambda>x m. if pid x \<noteq> 0 \<and> offset x < m then offset x else m) xs m = offset x))"
proof (induction xs arbitrary: m)
  case Nil
  then show ?case by simp
next
  case (Cons y ys)
  show ?case
  proof (cases "pid y \<noteq> 0 \<and> offset y < m")
    case True
    with Cons.IH [of "offset y"] show ?thesis by (auto intro: order.trans less_imp_le)
  next
    case False
    with Cons.IH [of m] show ?thesis by (auto intro: order.trans simp: not_less)
  qed
qed

lemma smaller_offset_min:
  assumes "x \<in> set xs" and "pid x \<noteq> 0" and "\<forall>y \<in> set xs. pid y \<noteq> 0 \<longrightarrow> unat (offset y) < 2 ^ 32 - 1"
  obtains y where "y \<in> set xs" and "pid y \<noteq> 0" and "smaller_offset xs = offset y"
    and "\<forall>z \<in> set xs. pid z \<noteq> 0 \<longrightarrow> unat (offset y) \<le> unat (offset z)"
proof -
  note min = smaller_fold [of xs "0xFFFFFFFF", folded smaller_offset_def]
  have "smaller_offset xs \<le> offset x" using min assms by blast
  moreover have "unat (offset x) < 2 ^ 32 - 1" using assms by blast
  ultimately have "smaller_offset xs \<noteq> 0xFFFFFFFF" by (auto simp: word_le_nat_alt)
  with min obtain y where y: "y \<in> set xs" "pid y \<noteq> 0" "smaller_offset xs = offset y" by blast
  moreover have "\<forall>z \<in> set xs. pid z \<noteq> 0 \<longrightarrow> unat (offset y) \<le> unat (offset z)"
    using min y(3) by (auto simp: word_le_nat_alt)
  ultimately show thesis by (rule that)
qed

section \<open>Grants\<close>

lemma ring_ok_bounds:
  assumes "ring_ok s"
  shows "0 < bufs s" "bufs s < 2 ^ 31" "rpos s < bufs s" "wpos s < bufs s" "level s \<le> bufs s"
    "wpos s + grantw s \<le> bufs s"
  using assms by (auto simp: ring_ok_def situations)

lemma ring_ok_reader:
  assumes "ring_ok s" and "x \<in> set (mReaders s)" and "pid x \<noteq> 0"
  shows "opos x + grantr x \<le> bufs s" "opos x \<le> bufs s" "rpos s \<le> opos x"
proof -
  show sum: "opos x + grantr x \<le> bufs s" using assms by (auto simp: ring_ok_def situations)
  then show "opos x \<le> bufs s" by simp
  show "rpos s \<le> opos x" using assms by (auto simp: ring_ok_def situations)
qed

lemma unat_reader_level:
  assumes "ring_ok s" and "opos x \<le> bufs s"
  shows "unat (calculateReaderBufferLevel x s) =
    (if opos x \<le> wpos s then wpos s - opos x else bufs s - opos x + wpos s)"
proof (cases "opos x \<le> wpos s")
  case True
  then show ?thesis
    by (simp add: calculateReaderBufferLevel_def word_le_nat_alt unat_sub_small Let_def)
next
  case False
  have "unat (mNumBuffers s - offset x) = bufs s - opos x" using assms(2) by (simp add: unat_sub_small)
  moreover have "unat (mNumBuffers s - offset x + mWriteOffset s) = bufs s - opos x + wpos s"
    using calculation ring_ok_bounds [OF assms(1)] by (subst unat_add_small) simp_all
  ultimately show ?thesis
    using False by (simp add: calculateReaderBufferLevel_def word_le_nat_alt Let_def)
qed

lemma read_grant_bound:
  assumes ok: "ring_ok s" and le: "opos x \<le> bufs s"
  shows "opos x \<le> wpos s \<Longrightarrow> opos x + unat (read_grant n x s) \<le> wpos s"
    and "opos x + unat (read_grant n x s) \<le> bufs s"
    and "unat (read_grant n x s) \<le> unat n \<or> opos x + unat n \<ge> bufs s"
proof -
  note b = ring_ok_bounds [OF ok] and lvl = unat_reader_level [OF ok le]
  let ?l = "calculateReaderBufferLevel x s"
  let ?n = "if n > ?l then ?l else n"
  have n: "unat ?n = min (unat n) (unat ?l)" by (simp add: word_less_nat_alt)
  have "opos x + unat ?n < 2 ^ 32" using n lvl b le by (auto simp: min_def)
  then have sum: "unat (offset x + ?n) = opos x + unat ?n" by (intro unat_add_small) simp
  have grant: "unat (read_grant n x s) = (if bufs s \<le> opos x + unat ?n then bufs s - opos x else unat ?n)"
    using sum le by (simp add: read_grant_def Let_def word_le_nat_alt unat_sub_small)
  show "opos x \<le> wpos s \<Longrightarrow> opos x + unat (read_grant n x s) \<le> wpos s"
    using grant n lvl b by (auto simp: min_def)
  show "opos x + unat (read_grant n x s) \<le> bufs s"
    using grant le by auto
  show "unat (read_grant n x s) \<le> unat n \<or> opos x + unat n \<ge> bufs s"
    using grant n by (auto simp: min_def)
qed

lemma write_grant_bound:
  assumes ok: "ring_ok s"
  shows "ahead s \<Longrightarrow> wpos s + unat (write_grant n s) \<le> bufs s"
    and "behind s \<Longrightarrow> wpos s + unat (write_grant n s) < rpos s"
    and "brimful s \<Longrightarrow> write_grant n s = 0"
proof -
  note b = ring_ok_bounds [OF ok]
  have free: "unat (mNumBuffers s - mBufferLevel s) = bufs s - level s" using b by (simp add: unat_sub_small)
  let ?n = "if n > mNumBuffers s - mBufferLevel s then mNumBuffers s - mBufferLevel s else n"
  have n: "unat ?n = min (unat n) (bufs s - level s)" using free by (simp add: word_less_nat_alt)
  then have sum: "unat (mWriteOffset s + ?n) = wpos s + unat ?n"
    using b by (intro unat_add_small) simp
  have grant: "unat (write_grant n s) =
      (if wpos s < rpos s then rpos s - wpos s - 1
       else if bufs s \<le> wpos s + unat ?n then bufs s - wpos s else unat ?n)"
    using sum b by (auto simp: write_grant_def Let_def word_le_nat_alt word_less_nat_alt unat_sub_small)
  show "ahead s \<Longrightarrow> wpos s + unat (write_grant n s) \<le> bufs s"
    using grant b by (auto simp: ahead_def)
  show "behind s \<Longrightarrow> wpos s + unat (write_grant n s) < rpos s"
    using grant by (auto simp: behind_def)
  show "write_grant n s = 0" if "brimful s"
  proof -
    have "unat (write_grant n s) = 0" using that grant n b by (simp add: brimful_def)
    then show ?thesis by (simp add: unat_eq_zero)
  qed
qed

section \<open>Every request keeps the invariant\<close>

lemma aggregate_ok:
  assumes ok: "ring_ok s" and x: "x \<in> set (mReaders s)" "pid x \<noteq> 0"
  shows "ring_ok (aggregateReaderOffset s)"
proof -
  note b = ring_ok_bounds [OF ok] and reader = ring_ok_reader [OF ok]
  have small: "\<forall>y \<in> set (mReaders s). pid y \<noteq> 0 \<longrightarrow> unat (offset y) < 2 ^ 32 - 1"
    using reader(2) b(2) by fastforce
  obtain y where y: "y \<in> set (mReaders s)" "pid y \<noteq> 0" "smaller_offset (mReaders s) = offset y"
    "\<forall>z \<in> set (mReaders s). pid z \<noteq> 0 \<longrightarrow> unat (offset y) \<le> unat (offset z)"
    by (rule smaller_offset_min [OF x small])
  let ?m = "offset y"
  have m: "opos y \<le> bufs s" "rpos s \<le> opos y" using reader [OF y(1,2)] by auto
  have nomax: "?m \<noteq> 0xFFFFFFFF" using small y(1,2) by (auto simp: word_less_nat_alt)
  have diff: "unat (?m - mReadOffset s) = opos y - rpos s" using m(2) by (rule unat_sub_small)
  have lvl_le: "opos y - rpos s \<le> level s"
    using ok y(1,2) m b unfolding ring_ok_def situations by fastforce
  then have lvl: "unat (mBufferLevel s - (?m - mReadOffset s)) = level s - (opos y - rpos s)"
    using diff by (simp add: unat_sub_small)
  show ?thesis
  proof (cases "opos y = bufs s")
    case True
    then have eq: "?m = mNumBuffers s" by (simp add: word_unat_eq_iff)
    let ?s = "s\<lparr>mReaders := map (\<lambda>x. if pid x \<noteq> 0 then x\<lparr>offset := 0\<rparr> else x) (mReaders s),
                mBufferLevel := mBufferLevel s - (?m - mReadOffset s), mReadOffset := 0\<rparr>"
    have run: "aggregateReaderOffset s = ?s"
      using eq nomax y(3) by (simp add: aggregateReaderOffset_def updateSmallerReaderOffset_def Let_def)
    have idle: "grantr z = 0" if "z \<in> set (mReaders s)" "pid z \<noteq> 0" for z
      using that reader(1) [OF that] y(4) True by fastforce
    have "\<not> ahead s" using True y(1,2) b(4) by (auto simp: ahead_def)
    then have "level s - (opos y - rpos s) = wpos s" "wpos s + grantw s \<le> bufs s"
      using ok True b(3) by (auto simp: ring_ok_def situations)
    then have "ahead ?s" using lvl idle by (auto simp: ahead_def)
    moreover have "\<forall>z \<in> set (mReaders ?s). pid z = 0 \<longrightarrow> z = reader_none"
      using ok by (auto simp: ring_ok_def)
    ultimately show ?thesis using ok b unfolding run by (simp add: ring_ok_def)
  next
    case False
    then have lt: "?m < mNumBuffers s" "opos y < bufs s" using m(1) by (simp_all add: word_less_nat_alt)
    let ?s = "s\<lparr>mBufferLevel := mBufferLevel s - (?m - mReadOffset s), mReadOffset := ?m\<rparr>"
    have run: "aggregateReaderOffset s = ?s"
      using lt nomax y(3) False
      by (auto simp: aggregateReaderOffset_def updateSmallerReaderOffset_def Let_def)
    have "ahead s \<Longrightarrow> ahead ?s"
      using lvl m y by (auto simp: ahead_def)
    moreover have "behind s \<Longrightarrow> behind ?s"
      using lvl m y by (auto simp: behind_def)
    moreover have "brimful s \<Longrightarrow> brimful ?s \<or> behind ?s"
      using lvl m y by (cases "opos y = 0") (auto simp: brimful_def behind_def)
    ultimately show ?thesis using ok lt unfolding run by (auto simp: ring_ok_def)
  qed
qed

lemma aggregate_same [simp]:
  "length (mReaders (aggregateReaderOffset s)) = length (mReaders s)"
  by (simp add: aggregateReaderOffset_def updateSmallerReaderOffset_def Let_def)

lemma access_time_ok:
  assumes "ring_ok s" and "i < length (mReaders s)" and "pid (mReaders s ! i) \<noteq> 0"
  shows "ring_ok (update_reader i (updateReaderAccess now) s)"
  by (rule ring_ok_update_reader [OF assms(1,2)])
    (use assms nth_mem [OF assms(2)] in \<open>auto simp: updateReaderAccess_def situations\<close>)

lemma begin_read_ok:
  assumes ok: "ring_ok s"
  shows "ring_ok (snd (snd (snd (beginAccess eIasRingBufferAccessRead p (Some off) (Some n) now s))))"
proof (cases "mInitialized s")
  case True
  show ?thesis
  proof (cases "findReader p s")
    case None
    then show ?thesis using ok by (simp add: beginAccess_def)
  next
    case (Some i)
    then have i: "i < length (mReaders s)" "pid (mReaders s ! i) \<noteq> 0"
      using findReader_Some by fastforce+
    let ?x = "mReaders s ! i"
    have mem: "?x \<in> set (mReaders s)" using i(1) by simp
    note grant = read_grant_bound [OF ok ring_ok_reader(2) [OF ok mem i(2)], of n]
    have "ring_ok (update_reader i (\<lambda>x. updateReaderAccess now (x\<lparr>allowedToRead := read_grant n ?x s\<rparr>)) s)"
      by (rule ring_ok_update_reader [OF ok i(1)])
        (use grant i mem in \<open>auto simp: updateReaderAccess_def situations\<close>)
    then show ?thesis using True Some by (simp add: beginAccess_def Let_def)
  qed
qed (use ok in \<open>simp add: beginAccess_def\<close>)

lemma begin_write_ok:
  assumes ok: "ring_ok s"
  shows "ring_ok (snd (snd (snd (beginAccess eIasRingBufferAccessWrite p (Some off) (Some n) now s))))"
proof (cases "mInitialized s \<and> \<not> mWriteInProgress s")
  case True
  let ?s = "s\<lparr>mWriteInProgress := True, mAllowedToWrite := write_grant n s, mWriterLastAccess := now\<rparr>"
  note grant = write_grant_bound [OF ok, of n]
  have "ahead s \<Longrightarrow> ahead ?s" "behind s \<Longrightarrow> behind ?s" "brimful s \<Longrightarrow> brimful ?s"
    using grant by (auto simp: situations)
  then have "ring_ok ?s" using ok by (auto simp: ring_ok_def)
  then show ?thesis using True by (simp add: beginAccess_def Let_def)
qed (use ok in \<open>auto simp: beginAccess_def\<close>)

lemma end_read_ok:
  assumes ok: "ring_ok s"
  shows "ring_ok (snd (endAccess eIasRingBufferAccessRead p n now s))"
proof (cases "findReader p s")
  case None
  then show ?thesis using ok by (simp add: endAccess_def)
next
  case (Some i)
  then have i: "i < length (mReaders s)" "pid (mReaders s ! i) \<noteq> 0"
    using findReader_Some by fastforce+
  let ?x = "mReaders s ! i" let ?f = "\<lambda>x. x\<lparr>allowedToRead := 0, offset := offset x + n\<rparr>"
  show ?thesis
  proof (cases "n > allowedToRead ?x")
    case True
    then show ?thesis using Some ok by (simp add: endAccess_def)
  next
    case False
    then have n: "unat n \<le> grantr ?x" by (simp add: word_less_nat_alt)
    have mem: "?x \<in> set (mReaders s)" using i(1) by simp
    have "opos ?x + unat n < 2 ^ 32"
      using n ring_ok_reader(1) [OF ok mem i(2)] ring_ok_bounds(2) [OF ok] by simp
    then have sum: "unat (offset ?x + n) = opos ?x + unat n" by (intro unat_add_small) simp
    have ok1: "ring_ok (update_reader i ?f s)"
      by (rule ring_ok_update_reader [OF ok i(1)])
        (use sum n i mem in \<open>auto simp: situations\<close>)
    have mem1: "?f ?x \<in> set (mReaders (update_reader i ?f s))" "pid (?f ?x) \<noteq> 0"
      using i by (simp_all add: update_reader_def set_update_memI)
    let ?s2 = "aggregateReaderOffset (update_reader i ?f s)"
    have ok2: "ring_ok ?s2" by (rule aggregate_ok [OF ok1 mem1])
    have "i < length (mReaders ?s2)" using i(1) by (simp add: update_reader_def)
    moreover have "pid (mReaders ?s2 ! i) \<noteq> 0"
      using i by (simp add: aggregateReaderOffset_def updateSmallerReaderOffset_def update_reader_def Let_def)
    ultimately have "ring_ok (update_reader i (updateReaderAccess now) ?s2)"
      by (rule access_time_ok [OF ok2])
    then show ?thesis using False Some by (simp add: endAccess_def Let_def)
  qed
qed

lemma end_write_ok:
  assumes ok: "ring_ok s"
  shows "ring_ok (snd (endAccess eIasRingBufferAccessWrite p n now s))"
proof (cases "mWriteInProgress s \<and> \<not> n > mAllowedToWrite s")
  case True
  then have n: "unat n \<le> grantw s" by (simp add: word_less_nat_alt)
  note b = ring_ok_bounds [OF ok]
  have sum: "unat (mWriteOffset s + n) = wpos s + unat n" using n b by (intro unat_add_small) simp
  then have fits: "\<not> mWriteOffset s + n > mNumBuffers s" using n b by (simp add: word_less_nat_alt)
  have last: "mWriteOffset s + n = mNumBuffers s \<longleftrightarrow> wpos s + unat n = bufs s"
    using sum by (simp add: word_unat_eq_iff)
  let ?w = "if mWriteOffset s + n = mNumBuffers s then 0 else mWriteOffset s + n"
  have w: "unat ?w = (if wpos s + unat n = bufs s then 0 else wpos s + unat n)" using sum last by simp
  let ?s = "s\<lparr>mAllowedToWrite := 0, mWriteOffset := ?w, mBufferLevel := mBufferLevel s + n,
      mWriteInProgress := False, mWriterLastAccess := now\<rparr>"
  have lvl_le: "level s + unat n \<le> bufs s"
    using ok n b by (auto simp: ring_ok_def situations)
  then have lvl: "unat (mBufferLevel s + n) = level s + unat n" using b by (intro unat_add_small) simp
  have "ahead ?s \<or> behind ?s \<or> brimful ?s"
  proof -
    have "ahead ?s \<or> behind ?s \<or> brimful ?s" if a: "ahead s"
    proof (cases "wpos s + unat n = bufs s")
      case True
      show ?thesis
      proof (cases "rpos s = 0")
        case True
        with a \<open>wpos s + unat n = bufs s\<close> w lvl b have "brimful ?s"
          by (fastforce simp: ahead_def brimful_def)
        then show ?thesis by simp
      next
        case False
        with a \<open>wpos s + unat n = bufs s\<close> w lvl b have "behind ?s"
          by (fastforce simp: ahead_def behind_def)
        then show ?thesis by simp
      qed
    next
      case False
      with a w lvl n have "ahead ?s" by (fastforce simp: ahead_def)
      then show ?thesis by simp
    qed
    moreover have "behind ?s" if "behind s"
      using that w lvl n b by (auto simp: behind_def)
    moreover have "brimful ?s" if "brimful s"
      using that w lvl n b by (auto simp: brimful_def)
    ultimately show ?thesis using ok by (auto simp: ring_ok_def)
  qed
  moreover have "unat ?w < bufs s" using w n b by auto
  ultimately have "ring_ok ?s" using ok by (simp add: ring_ok_def)
  then have "ring_ok (purgeUnresponsiveReaders now ?s)"
    unfolding purgeUnresponsiveReaders_def by (rule ring_ok_map_none)
  then show ?thesis using True fits
    by (cases "mWriteOffset s + n = mNumBuffers s") (simp_all add: endAccess_def Let_def)
qed (use ok in \<open>auto simp: endAccess_def\<close>)

lemma addReader_ok:
  assumes ok: "ring_ok s"
  shows "ring_ok (snd (addReader p now s))"
proof (cases "p \<le> 0 \<or> filter (\<lambda>i. pid (mReaders s ! i) = 0) [0..<length (mReaders s)] = []")
  case True
  then show ?thesis using ok by (auto simp: addReader_def)
next
  case False
  then obtain i js where first: "filter (\<lambda>i. pid (mReaders s ! i) = 0) [0..<length (mReaders s)] = i # js"
    by (cases "filter (\<lambda>i. pid (mReaders s ! i) = 0) [0..<length (mReaders s)]") auto
  from filter_first [OF first] have i: "i < length (mReaders s)" "pid (mReaders s ! i) = 0" by auto
  then have none: "mReaders s ! i = reader_none" using ok by (auto simp: ring_ok_def)
  note b = ring_ok_bounds [OF ok]
  have "ring_ok (update_reader i (\<lambda>x. updateReaderAccess now (x\<lparr>pid := p, offset := mReadOffset s\<rparr>)) s)"
    by (rule ring_ok_update_reader [OF ok i(1)])
      (use False none b in \<open>auto simp: updateReaderAccess_def reader_none_def situations\<close>)
  then show ?thesis using False first by (simp add: addReader_def)
qed

lemma removeReader_ok: "ring_ok s \<Longrightarrow> ring_ok (snd (removeReader p s))"
  by (simp add: removeReader_def ring_ok_map_none)

lemma exec_ok: "ring_ok s \<Longrightarrow> ring_ok (exec q now s)"
  by (cases q) (simp_all add: exec_def begin_read_ok begin_write_ok end_read_ok end_write_ok addReader_ok
      removeReader_ok)

lemma init_ok:
  assumes "video_ring_init packetSize n (Some buf) shared video_ring_new = (eIasRingBuffOk, s)"
    and "unat n < 2 ^ 31"
  shows "ring_ok s \<and> mNumBuffers s = n"
  using assms
  by (auto simp: video_ring_init_def video_ring_new_def ring_ok_def ahead_def reader_none_def Let_def unat_gt_0
      split: if_splits)

lemma exec_bufs: "mNumBuffers (exec q now s) = mNumBuffers s"
  by (cases q) (auto simp: exec_def beginAccess_def endAccess_def addReader_def removeReader_def Let_def
      update_reader_def aggregateReaderOffset_def updateSmallerReaderOffset_def purgeUnresponsiveReaders_def
      split: option.splits list.splits)

lemma reach_ok: "ring_reach n s \<Longrightarrow> unat n < 2 ^ 31 \<Longrightarrow> ring_ok s \<and> mNumBuffers s = n"
proof (induction rule: ring_reach.induct)
  case (start packetSize buf shared s)
  then show ?case using init_ok by blast
next
  case (step s q now)
  then show ?case using exec_ok exec_bufs by simp
qed

section \<open>A ring filled from its start\<close>

text \<open>All buffers filled while every reader stands at the start.\<close>

definition stuck :: "IasAvbVideoRingBufferShm \<Rightarrow> bool" where
  "stuck s \<longleftrightarrow> 0 < mNumBuffers s \<and> mNumBuffers s < 0xFFFFFFFF \<and> mReadOffset s = 0 \<and>
     mWriteOffset s = 0 \<and> mBufferLevel s = mNumBuffers s \<and> mAllowedToWrite s = 0 \<and>
     (\<forall>x \<in> set (mReaders s). offset x = 0 \<and> allowedToRead x = 0)"

lemma stuck_grants:
  assumes "stuck s"
  shows "x \<in> set (mReaders s) \<Longrightarrow> read_grant n x s = 0" and "write_grant n s = 0"
  using assms
  by (auto simp: stuck_def read_grant_def write_grant_def calculateReaderBufferLevel_def Let_def word_gt_0)

lemma stuck_update:
  assumes "stuck s" and "i < length (mReaders s)"
    and "offset (f (mReaders s ! i)) = 0" and "allowedToRead (f (mReaders s ! i)) = 0"
  shows "stuck (update_reader i f s)"
  using assms set_update_subset_insert [of "mReaders s" i "f (mReaders s ! i)"]
  by (fastforce simp: stuck_def update_reader_def)

lemma stuck_none: "stuck s \<Longrightarrow> stuck (s\<lparr>mReaders := map (\<lambda>x. if P x then reader_none else x) (mReaders s)\<rparr>)"
  by (auto simp: stuck_def reader_none_def)

lemma stuck_aggregate:
  assumes stuck: "stuck s" and x: "x \<in> set (mReaders s)" "pid x \<noteq> 0"
  shows "stuck (aggregateReaderOffset s)"
proof -
  have "\<forall>y \<in> set (mReaders s). pid y \<noteq> 0 \<longrightarrow> unat (offset y) < 2 ^ 32 - 1"
    using stuck by (simp add: stuck_def)
  from smaller_offset_min [OF x this] obtain y where
    "y \<in> set (mReaders s)" "smaller_offset (mReaders s) = offset y" by blast
  with stuck have "smaller_offset (mReaders s) = 0" by (simp add: stuck_def)
  with stuck show ?thesis
    by (simp add: aggregateReaderOffset_def updateSmallerReaderOffset_def stuck_def Let_def word_gt_0)
qed

lemma stuck_exec:
  assumes stuck: "stuck s"
  shows "stuck (exec q now s)"
proof (cases q)
  case (Begin_Read p n)
  show ?thesis
  proof (cases "findReader p s")
    case None
    then show ?thesis using stuck Begin_Read by (simp add: exec_def beginAccess_def)
  next
    case (Some i)
    then have i: "i < length (mReaders s)" using findReader_Some by blast
    then have x: "mReaders s ! i \<in> set (mReaders s)" by simp
    have "stuck (update_reader i (\<lambda>x. updateReaderAccess now (x\<lparr>allowedToRead := read_grant n (mReaders s ! i) s\<rparr>)) s)"
      by (rule stuck_update [OF stuck i])
        (use stuck x stuck_grants(1) [OF stuck x] in \<open>auto simp: updateReaderAccess_def stuck_def\<close>)
    then show ?thesis using stuck Some Begin_Read by (simp add: exec_def beginAccess_def Let_def)
  qed
next
  case (End_Read p n)
  show ?thesis
  proof (cases "findReader p s")
    case None
    then show ?thesis using stuck End_Read by (simp add: exec_def endAccess_def)
  next
    case (Some i)
    then have i: "i < length (mReaders s)" "pid (mReaders s ! i) \<noteq> 0"
      using findReader_Some by fastforce+
    let ?x = "mReaders s ! i"
    have x: "offset ?x = 0" "allowedToRead ?x = 0" using stuck i(1) by (auto simp: stuck_def)
    show ?thesis
    proof (cases "n > allowedToRead ?x")
      case True
      then show ?thesis using stuck Some End_Read by (simp add: exec_def endAccess_def)
    next
      case False
      then have n: "n = 0" using x by (simp add: word_gt_0)
      let ?s1 = "update_reader i (\<lambda>x. x\<lparr>allowedToRead := 0, offset := offset x + n\<rparr>) s"
      have s1: "stuck ?s1" by (rule stuck_update [OF stuck i(1)]) (use x n in simp_all)
      have "(?x\<lparr>allowedToRead := 0, offset := offset ?x + n\<rparr>) \<in> set (mReaders ?s1)"
        using i by (simp add: update_reader_def set_update_memI)
      then have s2: "stuck (aggregateReaderOffset ?s1)"
        by (rule stuck_aggregate [OF s1]) (use i in simp)
      have "mReaders (aggregateReaderOffset ?s1) ! i \<in> set (mReaders (aggregateReaderOffset ?s1))"
        using i(1) by (intro nth_mem) (simp add: update_reader_def)
      with s2 have "stuck (update_reader i (updateReaderAccess now) (aggregateReaderOffset ?s1))"
        by (intro stuck_update) (use i in \<open>auto simp: updateReaderAccess_def stuck_def update_reader_def\<close>)
      then show ?thesis using stuck Some End_Read False by (simp add: exec_def endAccess_def Let_def)
    qed
  qed
next
  case (Begin_Write n)
  then show ?thesis
    using stuck stuck_grants(2) [OF stuck] by (auto simp: exec_def beginAccess_def stuck_def Let_def)
next
  case (End_Write n)
  show ?thesis
  proof (cases "mWriteInProgress s \<and> \<not> n > mAllowedToWrite s")
    case False
    then show ?thesis using stuck End_Write by (auto simp: exec_def endAccess_def)
  next
    case True
    with stuck have n: "n = 0" by (simp add: stuck_def word_gt_0)
    have "stuck (s\<lparr>mAllowedToWrite := 0, mWriteOffset := 0, mBufferLevel := mBufferLevel s + n,
        mWriteInProgress := False, mWriterLastAccess := now\<rparr>)"
      using stuck n by (simp add: stuck_def)
    then have "stuck (purgeUnresponsiveReaders now (s\<lparr>mAllowedToWrite := 0, mWriteOffset := 0,
        mBufferLevel := mBufferLevel s + n, mWriteInProgress := False, mWriterLastAccess := now\<rparr>))"
      unfolding purgeUnresponsiveReaders_def by (rule stuck_none)
    moreover have "mWriteOffset s + n = 0" "mNumBuffers s \<noteq> 0"
      using stuck n by (auto simp: stuck_def)
    ultimately show ?thesis using True End_Write
      by (simp add: exec_def endAccess_def Let_def)
  qed
next
  case (Add_Reader p)
  show ?thesis
  proof (cases "p \<le> 0 \<or> filter (\<lambda>i. pid (mReaders s ! i) = 0) [0..<length (mReaders s)] = []")
    case True
    then show ?thesis using stuck Add_Reader by (auto simp: exec_def addReader_def)
  next
    case False
    then obtain i js where first: "filter (\<lambda>i. pid (mReaders s ! i) = 0) [0..<length (mReaders s)] = i # js"
      by (cases "filter (\<lambda>i. pid (mReaders s ! i) = 0) [0..<length (mReaders s)]") auto
    from filter_first [OF first] have i: "i < length (mReaders s)" by auto
    have "stuck (update_reader i (\<lambda>x. updateReaderAccess now (x\<lparr>pid := p, offset := mReadOffset s\<rparr>)) s)"
      by (rule stuck_update [OF stuck i]) (use stuck i in \<open>auto simp: updateReaderAccess_def stuck_def\<close>)
    then show ?thesis using False first Add_Reader by (simp add: exec_def addReader_def)
  qed
next
  case (Remove_Reader p)
  then show ?thesis using stuck by (simp add: exec_def removeReader_def stuck_none)
qed

definition exec_all :: "(video_request \<times> u64) list \<Rightarrow> IasAvbVideoRingBufferShm \<Rightarrow> IasAvbVideoRingBufferShm" where
  "exec_all qs s = fold (\<lambda>(q, now). exec q now) qs s"

lemma stuck_exec_all: "stuck s \<Longrightarrow> stuck (exec_all qs s)"
  unfolding exec_all_def by (induction qs arbitrary: s) (auto intro: stuck_exec)

definition untouched :: "u32 \<Rightarrow> IasAvbVideoRingBufferShm \<Rightarrow> bool" where
  "untouched n s \<longleftrightarrow> mInitialized s \<and> \<not> mWriteInProgress s \<and> mNumBuffers s = n \<and> mReadOffset s = 0 \<and>
     mWriteOffset s = 0 \<and> mBufferLevel s = 0 \<and>
     (\<forall>x \<in> set (mReaders s). offset x = 0 \<and> allowedToRead x = 0)"

lemma untouched_init:
  "video_ring_init packetSize n (Some buf) shared video_ring_new = (eIasRingBuffOk, s) \<Longrightarrow> untouched n s"
  by (auto simp: untouched_def video_ring_init_def video_ring_new_def reader_none_def Let_def
      split: if_splits)

lemma untouched_addReader:
  assumes s: "untouched n s"
  shows "untouched n (exec (Add_Reader p) now s)"
proof (cases "p \<le> 0 \<or> filter (\<lambda>i. pid (mReaders s ! i) = 0) [0..<length (mReaders s)] = []")
  case True
  then show ?thesis using s by (auto simp: exec_def addReader_def)
next
  case False
  then obtain i js where first: "filter (\<lambda>i. pid (mReaders s ! i) = 0) [0..<length (mReaders s)] = i # js"
    by (cases "filter (\<lambda>i. pid (mReaders s ! i) = 0) [0..<length (mReaders s)]") auto
  from filter_first [OF first] have i: "i < length (mReaders s)" by auto
  let ?x = "updateReaderAccess now ((mReaders s ! i)\<lparr>pid := p, offset := mReadOffset s\<rparr>)"
  have "offset ?x = 0" "allowedToRead ?x = 0" using s i by (auto simp: untouched_def updateReaderAccess_def)
  then have "untouched n (s\<lparr>mReaders := (mReaders s)[i := ?x]\<rparr>)"
    using s set_update_subset_insert [of "mReaders s" i ?x] by (fastforce simp: untouched_def)
  then show ?thesis using False first by (simp add: exec_def addReader_def update_reader_def)
qed

lemma fill_up_stuck:
  assumes s: "untouched n s" and n: "0 < n" "unat n < 2 ^ 31"
  shows "stuck (exec (End_Write n) t' (exec (Begin_Write n) t s))"
proof -
  have "write_grant n s = n" using s by (simp add: untouched_def write_grant_def)
  then have started: "exec (Begin_Write n) t s =
      s\<lparr>mWriteInProgress := True, mAllowedToWrite := n, mWriterLastAccess := t\<rparr>"
    using s by (simp add: untouched_def exec_def beginAccess_def Let_def)
  let ?s = "s\<lparr>mAllowedToWrite := 0, mWriteOffset := 0, mBufferLevel := n, mWriteInProgress := False,
      mWriterLastAccess := t'\<rparr>"
  have run: "exec (End_Write n) t' (exec (Begin_Write n) t s) = purgeUnresponsiveReaders t' ?s"
    unfolding started using s by (simp add: untouched_def exec_def endAccess_def Let_def)
  have "n < 0xFFFFFFFF" using n(2) by (simp add: word_less_nat_alt)
  then have "stuck ?s" using s n(1) by (simp add: untouched_def stuck_def)
  then show ?thesis unfolding run purgeUnresponsiveReaders_def by (rule stuck_none)
qed

section \<open>Properties\<close>


definition example_ring :: IasAvbVideoRingBufferShm where
  "example_ring = snd (video_ring_init 1500 4 (Some 4096) True video_ring_new)"

lemma example_ring_reach: "ring_reach 4 (exec_all qs example_ring)"
proof -
  have "ring_reach 4 example_ring"
    by (rule ring_reach.start [of 1500 4 4096 True])
      (simp add: example_ring_def video_ring_init_def Let_def)
  moreover have "ring_reach 4 s \<Longrightarrow> ring_reach 4 (exec_all qs s)" for s
    unfolding exec_all_def by (induction qs arbitrary: s) (auto intro: ring_reach.step)
  ultimately show ?thesis by blast
qed


text \<open>C37. A writer that fills all buffers of a fresh ring before a reader has read one blocks the ring
  for good: the write offset returns to the offset of the readers, a full ring looks empty to them,
  and whatever the processes request from then on, every reader is granted no buffers, the writer
  is granted none, and the fill level stays at its maximum.\<close>

theorem video_ring_wedge:
  assumes init: "video_ring_init packetSize n (Some buf) shared video_ring_new = (eIasRingBuffOk, s0)"
    and n: "unat n < 2 ^ 31"
    and s: "s = exec_all requests (exec_all [(Add_Reader p, t1), (Begin_Write n, t2), (End_Write n, t3)] s0)"
  shows "mBufferLevel s = mNumBuffers s \<and> mNumBuffers s = n \<and> write_grant k s = 0 \<and>
    (case beginAccess eIasRingBufferAccessRead q (Some 0) (Some k) now s of
       (ret, off, granted, s') \<Rightarrow> ret \<noteq> eIasRingBuffOk \<or> granted = Some 0)"
proof -
  have pos: "0 < n" using init by (auto simp: video_ring_init_def Let_def word_gt_0 split: if_splits)
  let ?s1 = "exec (End_Write n) t3 (exec (Begin_Write n) t2 (exec (Add_Reader p) t1 s0))"
  have "stuck ?s1"
    by (rule fill_up_stuck [OF untouched_addReader [OF untouched_init [OF init]] pos n])
  then have "stuck (exec_all [(Add_Reader p, t1), (Begin_Write n, t2), (End_Write n, t3)] s0)"
    by (simp add: exec_all_def)
  then have stuck: "stuck s" unfolding s by (rule stuck_exec_all)
  have "mNumBuffers (exec_all qs r) = mNumBuffers r" for qs r
    unfolding exec_all_def by (induction qs arbitrary: r) (auto simp: exec_bufs)
  moreover have "mNumBuffers s0 = n" using untouched_init [OF init] by (simp add: untouched_def)
  ultimately have bufs: "mNumBuffers s = n" unfolding s by simp
  have "read_grant k (mReaders s ! i) s = 0" if "findReader q s = Some i" for i
    using stuck_grants(1) [OF stuck] findReader_Some [OF that] by simp
  then show ?thesis
    using stuck bufs stuck_grants(2) [OF stuck]
    by (auto simp: beginAccess_def stuck_def Let_def split: option.split)
qed

theorem video_ring_wedge_witness:
  "mBufferLevel (exec_all [(Begin_Read 7 1, 4), (End_Read 7 0, 5), (Begin_Write 1, 6)]
     (exec_all [(Add_Reader 7, 1), (Begin_Write 4, 2), (End_Write 4, 3)] example_ring)) = 4"
proof -
  have "video_ring_init 1500 4 (Some 4096) True video_ring_new = (eIasRingBuffOk, example_ring)"
    by (simp add: example_ring_def video_ring_init_def Let_def)
  from video_ring_wedge [OF this _ refl, of "[(Begin_Read 7 1, 4), (End_Read 7 0, 5), (Begin_Write 1, 6)]" 7 1 2 3]
  show ?thesis by simp
qed

end
