(* ===== verification/Avb_Stream.thy ===== *)
theory Avb_Stream
  imports Stream_Id T_Spec Packet_Pool
begin

text \<open>
  \<^verbatim>\<open>IasAvbStream\<close> (\<^verbatim>\<open>IasAvbStream.hpp\<close>, \<^verbatim>\<open>IasAvbStream.cpp\<close>): the base class of the AVB streams. The
  record is extensible, as the class is: a derived class adds its members to it, and its virtual
  functions are the fields of \<open>stream_vtable\<close>. The answers of \<^verbatim>\<open>operator new\<close>, the DMA driver and
  the MAC address of the interface are the record \<open>stream_env\<close>. The static tables of \<^verbatim>\<open>IasAvbTSpec\<close>
  are its field \<open>env_tables\<close>. A clock domain pointer is a number, with \<open>None\<close> for NULL. The result
  \<open>None\<close> is a NULL dereference or an access outside a buffer.
\<close>

section \<open>Diagnostics\<close>

record IasAvbStreamDiagnostics =
  mediaLocked :: u32
  mediaUnlocked :: u32
  streamInterrupted :: u32
  seqNumMismatch :: u32
  mediaReset :: u32
  timestampUncertain :: u32
  timestampValid :: u32
  timestampNotValid :: u32
  unsupportedFormat :: u32
  lateTimestamp :: u32
  earlyTimestamp :: u32
  framesRx :: u32
  framesTx :: u32
  resetCount :: u32

definition diag_zero :: IasAvbStreamDiagnostics where
  "diag_zero =
     \<lparr>mediaLocked = 0, mediaUnlocked = 0, streamInterrupted = 0, seqNumMismatch = 0, mediaReset = 0,
      timestampUncertain = 0, timestampValid = 0, timestampNotValid = 0, unsupportedFormat = 0,
      lateTimestamp = 0, earlyTimestamp = 0, framesRx = 0, framesTx = 0, resetCount = 0\<rparr>"

section \<open>The stream\<close>

record IasAvbStream =
  mDiag :: IasAvbStreamDiagnostics
  mCurrentAvbLockState :: IasAvbLockState
  mStreamStateInternal :: IasAvbStreamState
  mStreamType :: IasAvbStreamType
  mDirection :: IasAvbStreamDirection
  mActive :: bool
  mStreamState :: IasAvbStreamState
  mAvbStreamId :: "IasAvbStreamId option"
  mTSpec :: "IasAvbTSpec option"
  mPacketPool :: "IasAvbPacketPool option"
  mAvbClockDomain :: "nat option"
  mDmac :: "u8 list"
  mSmac :: "u8 list"
  mVlanData :: u16
  mPresentationTimeOffset :: u32
  mPreconfigured :: bool

record 's stream_vtable =
  v_activationChanged :: "'s \<Rightarrow> 's option"
  v_derivedCleanup :: "'s \<Rightarrow> 's option"
  v_readFromAvbPacket :: "u8 list option \<Rightarrow> nat \<Rightarrow> 's \<Rightarrow> 's option"
  v_writeToAvbPacket :: "pkt_ref \<Rightarrow> u64 \<Rightarrow> 's \<Rightarrow> (bool \<times> 's) option"

record stream_env =
  env_new_tspec :: bool
  env_new_streamId :: bool
  env_new_pool :: bool
  env_pool_this :: nat
  env_pool :: pool_env
  env_sourceMac :: "u8 list"
  env_tables :: tspec_tables

text \<open>The members of a new stream; \<^verbatim>\<open>mDirection()\<close> is value initialisation, the first enumerator.\<close>

definition stream_new :: "IasAvbStreamType \<Rightarrow> IasAvbStream" where
  "stream_new streamType =
     \<lparr>mDiag = diag_zero, mCurrentAvbLockState = eIasAvbLockStateInit,
      mStreamStateInternal = eIasAvbStreamInactive, mStreamType = streamType,
      mDirection = eIasAvbTransmitToNetwork, mActive = False, mStreamState = eIasAvbStreamInactive,
      mAvbStreamId = None, mTSpec = None, mPacketPool = None, mAvbClockDomain = None,
      mDmac = replicate cIasAvbMacAddressLength 0, mSmac = replicate cIasAvbMacAddressLength 0,
      mVlanData = 0, mPresentationTimeOffset = 0, mPreconfigured = True\<rparr>"

definition isInitialized :: "'a IasAvbStream_scheme \<Rightarrow> bool" where
  "isInitialized s \<longleftrightarrow> mTSpec s \<noteq> None"

definition isTransmitStream :: "'a IasAvbStream_scheme \<Rightarrow> bool" where
  "isTransmitStream s \<longleftrightarrow> mDirection s = eIasAvbTransmitToNetwork"

definition isReceiveStream :: "'a IasAvbStream_scheme \<Rightarrow> bool" where
  "isReceiveStream s \<longleftrightarrow> mDirection s = eIasAvbReceiveFromNetwork"

definition doCleanup :: "'a IasAvbStream_scheme \<Rightarrow> 'a IasAvbStream_scheme" where
  "doCleanup s =
     s\<lparr>mPresentationTimeOffset := 0, mAvbClockDomain := None, mPacketPool := None,
       mAvbStreamId := None, mTSpec := None\<rparr>"

definition countInterruption :: "bool \<Rightarrow> 'a IasAvbStream_scheme \<Rightarrow> 'a IasAvbStream_scheme" where
  "countInterruption isError s =
     (if isError then s\<lparr>mDiag := (mDiag s)\<lparr>streamInterrupted := streamInterrupted (mDiag s) + 1\<rparr>\<rparr> else s)"

definition activate ::
  "'a IasAvbStream_scheme stream_vtable \<Rightarrow> bool \<Rightarrow> 'a IasAvbStream_scheme \<Rightarrow> 'a IasAvbStream_scheme option"
where
  "activate v isError s =
     (if \<not> mActive s
      then map_option (countInterruption isError) (v_activationChanged v (s\<lparr>mActive := True\<rparr>))
      else Some s)"

definition deactivate ::
  "'a IasAvbStream_scheme stream_vtable \<Rightarrow> bool \<Rightarrow> 'a IasAvbStream_scheme \<Rightarrow> 'a IasAvbStream_scheme option"
where
  "deactivate v isError s =
     (if mActive s
      then map_option (countInterruption isError) (v_activationChanged v (s\<lparr>mActive := False\<rparr>))
      else Some s)"

definition stream_cleanup ::
  "'a IasAvbStream_scheme stream_vtable \<Rightarrow> 'a IasAvbStream_scheme \<Rightarrow> 'a IasAvbStream_scheme option" where
  "stream_cleanup v s =
     Option.bind (deactivate v False s) (\<lambda>s. map_option doCleanup (v_derivedCleanup v s))"

definition incFramesTx :: "'a IasAvbStream_scheme \<Rightarrow> u32 \<times> 'a IasAvbStream_scheme" where
  "incFramesTx s =
     (let n = framesTx (mDiag s) + 1 in (n, s\<lparr>mDiag := (mDiag s)\<lparr>framesTx := n\<rparr>\<rparr>))"

definition setSmac :: "u8 list \<Rightarrow> 'a IasAvbStream_scheme \<Rightarrow> 'a IasAvbStream_scheme" where
  "setSmac sMac s = s\<lparr>mSmac := sMac\<rparr>"

definition vlanTag :: "u8 \<Rightarrow> u16 \<Rightarrow> u16" where
  "vlanTag priority vid = push_bit 13 (ucast priority) OR vid"

definition initCommon ::
  "stream_env \<Rightarrow> IasAvbTSpec \<Rightarrow> IasAvbStreamId \<Rightarrow> u8 list \<Rightarrow> u16 \<Rightarrow> bool \<Rightarrow>
     'a IasAvbStream_scheme \<Rightarrow> IasAvbProcessingResult \<times> 'a IasAvbStream_scheme" where
  "initCommon env tSpec streamId dmac vid preconfigured s =
     (let s = s\<lparr>mDmac := dmac\<rparr> in
      if \<not> env_new_tspec env then (eIasAvbProcNotEnoughMemory, s\<lparr>mTSpec := None\<rparr>)
      else
        let s = s\<lparr>mTSpec := Some tSpec, mPreconfigured := preconfigured,
                 mVlanData := vlanTag (getVlanPriority (env_tables env) tSpec) vid\<rparr> in
        if \<not> env_new_streamId env then (eIasAvbProcNotEnoughMemory, s\<lparr>mAvbStreamId := None\<rparr>)
        else (eIasAvbProcOK, s\<lparr>mAvbStreamId := Some streamId\<rparr>))"

definition cMaxFrameSize :: nat where "cMaxFrameSize = 1514 + 4"

definition initPool ::
  "stream_env \<Rightarrow> IasAvbTSpec \<Rightarrow> u32 \<Rightarrow> 'a IasAvbStream_scheme \<Rightarrow>
     (IasAvbProcessingResult \<times> 'a IasAvbStream_scheme) option" where
  "initPool env tSpec poolSize s =
     (if \<not> env_new_pool env then Some (eIasAvbProcNotEnoughMemory, s\<lparr>mPacketPool := None\<rparr>)
      else map_option (\<lambda>(ret, p). (ret, s\<lparr>mPacketPool := Some p\<rparr>))
             (pool_init (unat (mMaxFrameSize tSpec) + cIasAvbPerFrameOverhead) (unat poolSize) (env_pool env)
                (pool_new (env_pool_this env))))"

text \<open>The checks and the set-up of \<^verbatim>\<open>initTransmit\<close> (\<^verbatim>\<open>DIRECT_RX_DMA\<close> is on in the build files).\<close>

definition initTransmit_body ::
  "stream_env \<Rightarrow> IasAvbTSpec \<Rightarrow> IasAvbStreamId \<Rightarrow> u32 \<Rightarrow> nat option \<Rightarrow> u8 list \<Rightarrow> u16 \<Rightarrow> bool \<Rightarrow>
     'a IasAvbStream_scheme \<Rightarrow> (IasAvbProcessingResult \<times> 'a IasAvbStream_scheme) option" where
  "initTransmit_body env tSpec streamId poolSize clockDomain dmac vid preconfigured s =
     (if clockDomain = None \<or> mMaxFrameSize tSpec = 0 \<or> mMaxIntervalFrames tSpec = 0 \<or> poolSize = 0
      then Some (eIasAvbProcInvalidParam, s)
      else if cMaxFrameSize < unat (mMaxFrameSize tSpec) + cIasAvbPerFrameOverhead
      then Some (eIasAvbProcInvalidParam, s)
      else
        let s = setSmac (env_sourceMac env) s;
            (ret, s) = initCommon env tSpec streamId dmac vid preconfigured (s\<lparr>mAvbClockDomain := clockDomain\<rparr>)
        in if ret = eIasAvbProcOK then initPool env tSpec poolSize s else Some (ret, s))"

definition initTransmit ::
  "'a IasAvbStream_scheme stream_vtable \<Rightarrow> stream_env \<Rightarrow> IasAvbTSpec \<Rightarrow> IasAvbStreamId \<Rightarrow> u32 \<Rightarrow> nat option \<Rightarrow>
     u8 list \<Rightarrow> u16 \<Rightarrow> bool \<Rightarrow> 'a IasAvbStream_scheme \<Rightarrow> (IasAvbProcessingResult \<times> 'a IasAvbStream_scheme) option"
where
  "initTransmit v env tSpec streamId poolSize clockDomain dmac vid preconfigured s =
     (if isInitialized s then Some (eIasAvbProcInitializationFailed, s)
      else
        Option.bind
          (initTransmit_body env tSpec streamId poolSize clockDomain dmac vid preconfigured
             (s\<lparr>mDirection := eIasAvbTransmitToNetwork\<rparr>))
          (\<lambda>(ret, s).
             let s = s\<lparr>mPresentationTimeOffset := getPresentationTimeOffset (env_tables env) tSpec\<rparr> in
             if ret \<noteq> eIasAvbProcOK then map_option (Pair ret) (stream_cleanup v s) else Some (ret, s)))"

definition initReceive ::
  "'a IasAvbStream_scheme stream_vtable \<Rightarrow> stream_env \<Rightarrow> IasAvbTSpec \<Rightarrow> IasAvbStreamId \<Rightarrow>
     u8 list \<Rightarrow> u16 \<Rightarrow> bool \<Rightarrow> 'a IasAvbStream_scheme \<Rightarrow> (IasAvbProcessingResult \<times> 'a IasAvbStream_scheme) option"
where
  "initReceive v env tSpec streamId dmac vid preconfigured s =
     (if isInitialized s then Some (eIasAvbProcInitializationFailed, s)
      else
        let s = s\<lparr>mDirection := eIasAvbReceiveFromNetwork, mStreamState := eIasAvbStreamInactive,
                 mStreamStateInternal := eIasAvbStreamInactive\<rparr>;
            (ret, s) =
              (if mMaxFrameSize tSpec = 0 then (eIasAvbProcInvalidParam, s)
               else initCommon env tSpec streamId dmac vid preconfigured
                      (s\<lparr>mSmac := replicate cIasAvbMacAddressLength 0\<rparr>))
        in if ret \<noteq> eIasAvbProcOK then map_option (Pair ret) (stream_cleanup v s) else Some (ret, s))"

definition changeStreamId :: "IasAvbStreamId \<Rightarrow> 'a IasAvbStream_scheme \<Rightarrow> 'a IasAvbStream_scheme" where
  "changeStreamId newId s =
     (case mAvbStreamId s of None \<Rightarrow> s | Some _ \<Rightarrow> s\<lparr>mAvbStreamId := Some newId\<rparr>)"

text \<open>\<^verbatim>\<open>preparePacket\<close>: the pool of the stream is used through its pointer, so the packet goes back to the
  pool as \<^verbatim>\<open>writeToAvbPacket\<close> leaves it.\<close>

definition preparePacket ::
  "'a IasAvbStream_scheme stream_vtable \<Rightarrow> u64 \<Rightarrow> 'a IasAvbStream_scheme \<Rightarrow>
     (pkt_ref option \<times> 'a IasAvbStream_scheme) option" where
  "preparePacket v nextWindowStart s =
     (if isInitialized s \<and> isTransmitStream s then
        Option.bind (mPacketPool s) (\<lambda>pool.
        Option.bind (getPacket pool) (\<lambda>(packet, pool).
          let s = s\<lparr>mPacketPool := Some pool\<rparr> in
          case packet of
            None \<Rightarrow> Some (None, s)
          | Some r \<Rightarrow>
              Option.bind (v_writeToAvbPacket v r nextWindowStart s) (\<lambda>(written, s).
                if written then Some (Some r, s)
                else
                  Option.bind (mPacketPool s) (\<lambda>pool.
                    map_option (\<lambda>(_, pool). (None, s\<lparr>mPacketPool := Some pool\<rparr>))
                      (returnPacket (Some r) pool)))))
      else Some (None, s))"

definition countTimestamp ::
  "tspec_tables \<Rightarrow> u8 list \<Rightarrow> u64 \<Rightarrow> 'a IasAvbStream_scheme \<Rightarrow> 'a IasAvbStream_scheme option" where
  "countTimestamp t packet now s =
     Option.bind (fetch packet 1) (\<lambda>b1.
       if b1 AND 0x01 \<noteq> 0 then
         Option.bind (ntohl_at packet 12) (\<lambda>ts.
           let delta = ts - ucast now in
           if delta <s 0
           then Some (s\<lparr>mDiag := (mDiag s)\<lparr>lateTimestamp := lateTimestamp (mDiag s) + 1\<rparr>\<rparr>)
           else
             Option.bind (mTSpec s) (\<lambda>tSpec.
               if getMaxTransitTime t tSpec <s delta
               then Some (s\<lparr>mDiag := (mDiag s)\<lparr>earlyTimestamp := earlyTimestamp (mDiag s) + 1\<rparr>\<rparr>)
               else Some s))
       else Some s)"

definition dispatchPacket ::
  "'a IasAvbStream_scheme stream_vtable \<Rightarrow> tspec_tables \<Rightarrow> u8 list option \<Rightarrow> nat \<Rightarrow> u64 \<Rightarrow>
     'a IasAvbStream_scheme \<Rightarrow> 'a IasAvbStream_scheme option" where
  "dispatchPacket v t packet n now s =
     (if isInitialized s \<and> isReceiveStream s then
        Option.bind (case packet of None \<Rightarrow> Some s | Some bytes \<Rightarrow> countTimestamp t bytes now s)
          (v_readFromAvbPacket v packet n)
      else Some s)"

definition resetPacketPool ::
  "'a IasAvbStream_scheme \<Rightarrow> (IasAvbProcessingResult \<times> 'a IasAvbStream_scheme) option" where
  "resetPacketPool s =
     map_option (\<lambda>pool. let (ret, pool) = pool_reset pool in (ret, s\<lparr>mPacketPool := Some pool\<rparr>))
       (mPacketPool s)"

definition hookClockDomain ::
  "nat option \<Rightarrow> 'a IasAvbStream_scheme \<Rightarrow> IasAvbProcessingResult \<times> 'a IasAvbStream_scheme" where
  "hookClockDomain clockDomain s =
     (if \<not> isInitialized s then (eIasAvbProcNotInitialized, s)
      else if isTransmitStream s then (eIasAvbProcErr, s)
      else if clockDomain \<noteq> None \<and> mAvbClockDomain s \<noteq> None then (eIasAvbProcAlreadyInUse, s)
      else (eIasAvbProcOK, s\<lparr>mAvbClockDomain := clockDomain\<rparr>))"

definition adjustPresentationTimeOffset :: "u32 \<Rightarrow> 'a IasAvbStream_scheme \<Rightarrow> u32 \<times> 'a IasAvbStream_scheme" where
  "adjustPresentationTimeOffset stepWidth s =
     (if stepWidth \<noteq> 0 then
        let steps = (mPresentationTimeOffset s + stepWidth - 1) div stepWidth
        in (steps, s\<lparr>mPresentationTimeOffset := stepWidth * steps\<rparr>)
      else (0, s))"

section \<open>Lemmas\<close>

lemmas stream_tests = isInitialized_def isTransmitStream_def isReceiveStream_def

lemma doCleanup_clears:
  "\<not> isInitialized (doCleanup s) \<and> mPacketPool (doCleanup s) = None \<and> mAvbStreamId (doCleanup s) = None \<and>
     mAvbClockDomain (doCleanup s) = None \<and> mPresentationTimeOffset (doCleanup s) = 0"
  by (simp add: doCleanup_def isInitialized_def)

lemma stream_cleanup_clears:
  "stream_cleanup v s = Some s' \<Longrightarrow>
     \<not> isInitialized s' \<and> mPacketPool s' = None \<and> mAvbStreamId s' = None \<and>
       mAvbClockDomain s' = None \<and> mPresentationTimeOffset s' = 0"
  by (auto simp: stream_cleanup_def doCleanup_clears bind_eq_Some_conv)

lemma stream_cleanup_inactive:
  "\<not> mActive s \<Longrightarrow> v_derivedCleanup v s = Some s' \<Longrightarrow> stream_cleanup v s = Some (doCleanup s')"
  by (simp add: stream_cleanup_def deactivate_def)

text \<open>Activating twice notifies the derived class once.\<close>

lemma activate_active: "mActive s \<Longrightarrow> activate v isError s = Some s"
  by (simp add: activate_def)

lemma deactivate_inactive: "\<not> mActive s \<Longrightarrow> deactivate v isError s = Some s"
  by (simp add: deactivate_def)

text \<open>The tag carries the priority above the VLAN id when both fit their fields.\<close>

lemma vlanTag_fields:
  assumes "unat priority < 8" and "unat vid < 2 ^ 13"
  shows "drop_bit 13 (vlanTag priority vid) = ucast priority" and "take_bit 13 (vlanTag priority vid) = vid"
proof -
  have p: "n < 3" if "bit priority n" for n
  proof -
    have "priority = take_bit 3 priority"
      using assms(1) by (simp add: word_unat_eq_iff unsigned_take_bit_eq take_bit_nat_eq_self)
    then show ?thesis using that by (metis bit_take_bit_iff)
  qed
  have v: "n < 13" if "bit vid n" for n
  proof -
    have "vid = take_bit 13 vid"
      using assms(2) by (simp add: word_unat_eq_iff unsigned_take_bit_eq take_bit_nat_eq_self)
    then show ?thesis using that by (metis bit_take_bit_iff)
  qed
  show "drop_bit 13 (vlanTag priority vid) = ucast priority"
    by (rule bit_word_eqI) (auto simp: vlanTag_def bit_simps dest: p v)
  show "take_bit 13 (vlanTag priority vid) = vid"
    by (rule bit_word_eqI) (auto simp: vlanTag_def bit_simps dest: p v)
qed

lemma adjust_rounds_up:
  assumes "stepWidth \<noteq> 0" and fits: "unat (mPresentationTimeOffset s) + unat stepWidth \<le> 2 ^ 32"
    and adj: "adjustPresentationTimeOffset stepWidth s = (steps, s')"
  shows "unat (mPresentationTimeOffset s') = unat steps * unat stepWidth"
    and "unat (mPresentationTimeOffset s) \<le> unat (mPresentationTimeOffset s')"
    and "unat (mPresentationTimeOffset s') < unat (mPresentationTimeOffset s) + unat stepWidth"
proof -
  let ?o = "unat (mPresentationTimeOffset s)" and ?w = "unat stepWidth"
  have w: "0 < ?w" using assms(1) by (simp add: unat_gt_0)
  have w1: "unat (stepWidth - 1) = ?w - 1" using w by (simp add: unat_sub_small)
  have "unat (mPresentationTimeOffset s + (stepWidth - 1)) = ?o + (?w - 1)"
    unfolding w1 [symmetric] by (rule unat_add_small) (use fits w1 w in auto)
  then have sum: "unat (mPresentationTimeOffset s + stepWidth - 1) = ?o + ?w - 1"
    using w by (simp add: add_diff_eq)
  have steps: "unat steps = (?o + ?w - 1) div ?w"
    using adj assms(1) sum by (auto simp: adjustPresentationTimeOffset_def Let_def unat_div)
  have div: "(?o + ?w - 1) div ?w * ?w + (?o + ?w - 1) mod ?w = ?o + ?w - 1" by simp
  have mod: "(?o + ?w - 1) mod ?w < ?w" using w by simp
  have "?w * ((?o + ?w - 1) div ?w) \<le> ?o + ?w - 1" by simp
  then have "unat stepWidth * unat steps < 2 ^ 32" unfolding steps using fits w by linarith
  then show eq: "unat (mPresentationTimeOffset s') = unat steps * unat stepWidth"
    using adj assms(1)
    by (auto simp: adjustPresentationTimeOffset_def Let_def unat_mult_small mult.commute)
  show "?o \<le> unat (mPresentationTimeOffset s')" unfolding eq steps using div mod w by linarith
  show "unat (mPresentationTimeOffset s') < ?o + ?w" unfolding eq steps using div w by linarith
qed

text \<open>The signed 32-bit difference of two times that are less than \<open>2 ^ 31\<close> ns apart.\<close>

lemma sint_time_difference:
  fixes T N :: int
  assumes "- (2 ^ 31) \<le> T - N" and "T - N < 2 ^ 31"
  shows "sint (of_int T - of_int N :: u32) = T - N"
proof -
  have "of_int T - of_int N = (of_int (T - N) :: u32)" by simp
  moreover have "signed_take_bit 31 (T - N) = T - N"
    using assms by (simp add: signed_take_bit_int_eq_self)
  ultimately show ?thesis by (simp only: signed_of_int) simp
qed

section \<open>Properties\<close>

text \<open>C17. A received packet with a valid time stamp is counted late exactly when its presentation time
  lies before now, and early exactly when it lies further ahead than the maximum transit time of
  its class, for times that are less than \<open>2 ^ 31\<close> ns apart and across every wrap-around of the 32-bit
  time stamp; then the packet is handed to the derived class.\<close>

theorem timestamp_classified:
  fixes T N :: int
  assumes rx: "isReceiveStream s" and tspec: "mTSpec s = Some tSpec"
    and tv: "fetch packet 1 = Some b1" "b1 AND 1 \<noteq> 0"
    and ts: "ntohl_at packet 12 = Some (of_int T)" and now: "now = of_int N"
    and near: "- (2 ^ 31) \<le> T - N" "T - N < 2 ^ 31"
    and transit: "uint (getMaxTransitTime t tSpec) < 2 ^ 31"
  shows "dispatchPacket v t (Some packet) n now s =
    v_readFromAvbPacket v (Some packet) n
      (s\<lparr>mDiag := (mDiag s)
         \<lparr>lateTimestamp := lateTimestamp (mDiag s) + of_bool (T < N),
          earlyTimestamp := earlyTimestamp (mDiag s) + of_bool (N + uint (getMaxTransitTime t tSpec) < T)\<rparr>\<rparr>)"
proof -
  let ?M = "getMaxTransitTime t tSpec"
  have "ucast (of_int N :: u64) = (of_int N :: u32)"
    by (rule bit_word_eqI) (simp add: bit_simps)
  then have delta: "sint (of_int T - ucast now :: u32) = T - N"
    using sint_time_difference [OF near] now by simp
  have pos: "0 \<le> uint ?M" by simp
  then have "- (2 ^ 31) \<le> uint ?M" by (rule order_trans [rotated]) simp
  then have M: "sint ?M = uint ?M"
    using transit by (simp add: sint_uint signed_take_bit_int_eq_self)
  have init: "isInitialized s" using tspec by (simp add: isInitialized_def)
  consider "T < N" "\<not> N + uint ?M < T" | "\<not> T < N" "\<not> N + uint ?M < T" | "\<not> T < N" "N + uint ?M < T"
    using pos by linarith
  then have "countTimestamp t packet now s =
      Some (s\<lparr>mDiag := (mDiag s)
         \<lparr>lateTimestamp := lateTimestamp (mDiag s) + of_bool (T < N),
          earlyTimestamp := earlyTimestamp (mDiag s) + of_bool (N + uint ?M < T)\<rparr>\<rparr>)"
    by cases (simp_all add: countTimestamp_def tv [unfolded One_nat_def] ts tspec word_sless_alt delta M)
  then show ?thesis using rx init by (simp add: dispatchPacket_def)
qed

definition example_read_vtable :: "IasAvbStream stream_vtable" where
  "example_read_vtable =
     \<lparr>v_activationChanged = Some, v_derivedCleanup = Some, v_readFromAvbPacket = (\<lambda>_ _. Some),
      v_writeToAvbPacket = (\<lambda>_ _ s. Some (True, s))\<rparr>"

definition example_rx_stream :: IasAvbStream where
  "example_rx_stream = (stream_new eIasAvbAudioStream)
     \<lparr>mDirection := eIasAvbReceiveFromNetwork,
      mTSpec := Some \<lparr>mMaxFrameSize = 224, mClass = eIasAvbSrClassHigh, mMaxIntervalFrames = 1\<rparr>\<rparr>"

text \<open>A packet for 1 ms after the 32-bit time wrapped, received 500 us before the wrap, is in time.\<close>

theorem timestamp_classified_witness:
  "dispatchPacket example_read_vtable default_tables
     (Some ([0, 0x81] @ replicate 10 0 @ htonl_bytes (of_int (2 ^ 32 + 1000000)))) 16
     (of_int (2 ^ 32 - 500000)) example_rx_stream = Some example_rx_stream"
  by (subst timestamp_classified [of _ "\<lparr>mMaxFrameSize = 224, mClass = eIasAvbSrClassHigh, mMaxIntervalFrames = 1\<rparr>"
        _ "0x81" "2 ^ 32 + 1000000" _ "2 ^ 32 - 500000" default_tables])
    (simp_all add: example_rx_stream_def example_read_vtable_def stream_new_def diag_zero_def isReceiveStream_def
      fetch_def ntohl_htonl [of "[0, 0x81] @ replicate 10 0" _ "[]", simplified] getMaxTransitTime_def
      getPresentationTimeOffset_def default_tables_def by_class_def)


definition example_stream_env :: stream_env where
  "example_stream_env =
     \<lparr>env_new_tspec = True, env_new_streamId = True, env_new_pool = True, env_pool_this = 7,
      env_pool = example_env, env_sourceMac = [2, 0, 0, 0, 0, 1], env_tables = default_tables\<rparr>"

definition example_tspec :: IasAvbTSpec where
  "example_tspec = \<lparr>mMaxFrameSize = 1500, mClass = eIasAvbSrClassHigh, mMaxIntervalFrames = 1\<rparr>"



definition example_refuse_vtable :: "IasAvbStream stream_vtable" where
  "example_refuse_vtable = example_read_vtable\<lparr>v_writeToAvbPacket := (\<lambda>_ _ s. Some (False, s))\<rparr>"


section \<open>What identifies a stream\<close>

definition same_stream :: "'a IasAvbStream_scheme \<Rightarrow> 'a IasAvbStream_scheme \<Rightarrow> bool" where
  "same_stream s s' \<longleftrightarrow>
     mAvbStreamId s' = mAvbStreamId s \<and> mStreamType s' = mStreamType s \<and> mDirection s' = mDirection s \<and>
     mDmac s' = mDmac s \<and> mSmac s' = mSmac s \<and> mTSpec s' = mTSpec s"

lemma same_stream_refl [simp]: "same_stream s s"
  by (simp add: same_stream_def)

lemma same_stream_trans: "same_stream s s' \<Longrightarrow> same_stream s' s'' \<Longrightarrow> same_stream s s''"
  by (simp add: same_stream_def)

lemma same_stream_diag: "same_stream s (s\<lparr>IasAvbStream.mDiag := d\<rparr>)"
  by (simp add: same_stream_def)

end
