(* ===== verification/Binary64.thy ===== *)
theory Binary64
  imports Complex_Main "HOL-Library.Log_Nat" Prelude
begin

text \<open>
  The C++ type \<^verbatim>\<open>double\<close>: IEEE 754 binary64 with rounding to nearest, ties to even. A finite double is
  the rational number it stands for; \<open>fl\<close> rounds an exact result to it, with 53 bits of precision and
  the smallest exponent of subnormal numbers. No computation of the modelled code comes near the
  largest finite double, so overflow is not modelled; division by zero and a conversion to an integer
  type that cannot hold the value (undefined behaviour of the source) are \<open>None\<close>.
\<close>

type_synonym double = rat

text \<open>\<open>rne y\<close> is the integer nearest to \<open>y\<close>, the even one of two.\<close>

definition rne :: "rat \<Rightarrow> int" where
  "rne y =
     (let f = \<lfloor>y\<rfloor>; d = y - of_int f in
      if d < 1 / 2 then f else if d > 1 / 2 then f + 1 else if even f then f else f + 1)"

text \<open>\<open>2 powi binade x \<le> \<bar>x\<bar> < 2 powi (binade x + 1)\<close> for \<open>x \<noteq> 0\<close>.\<close>

definition binade :: "rat \<Rightarrow> int" where
  "binade x =
     (if 1 \<le> \<bar>x\<bar> then int (floorlog 2 (nat \<lfloor>\<bar>x\<bar>\<rfloor>)) - 1
      else - int (floorlog 2 (nat (\<lceil>1 / \<bar>x\<bar>\<rceil> - 1))))"

definition ulp :: "rat \<Rightarrow> rat" where
  "ulp x = 2 powi max (binade x - 52) (- 1074)"

definition fl :: "rat \<Rightarrow> double" where
  "fl x = (if x = 0 then 0 else of_int (rne (x / ulp x)) * ulp x)"

definition dmul :: "double \<Rightarrow> double \<Rightarrow> double" where "dmul x y = fl (x * y)"
definition dadd :: "double \<Rightarrow> double \<Rightarrow> double" where "dadd x y = fl (x + y)"
definition dsub :: "double \<Rightarrow> double \<Rightarrow> double" where "dsub x y = fl (x - y)"
definition ddiv :: "double \<Rightarrow> double \<Rightarrow> double option" where
  "ddiv x y = (if y = 0 then None else Some (fl (x / y)))"

definition double_of_u32 :: "u32 \<Rightarrow> double" where "double_of_u32 w = fl (of_nat (unat w))"
definition double_of_u64 :: "u64 \<Rightarrow> double" where "double_of_u64 w = fl (of_nat (unat w))"

definition double_of_s32 :: "s32 \<Rightarrow> double" where "double_of_s32 w = fl (of_int (sint w))"
definition double_of_s64 :: "s64 \<Rightarrow> double" where "double_of_s64 w = fl (of_int (sint w))"

text \<open>Conversion to an integer truncates towards zero.\<close>

definition trunc :: "double \<Rightarrow> int" where
  "trunc x = (if 0 \<le> x then \<lfloor>x\<rfloor> else - \<lfloor>- x\<rfloor>)"

definition u32_of_double :: "double \<Rightarrow> u32 option" where
  "u32_of_double x = (if 0 \<le> trunc x \<and> trunc x < 2 ^ 32 then Some (of_int (trunc x)) else None)"

definition u64_of_double :: "double \<Rightarrow> u64 option" where
  "u64_of_double x = (if 0 \<le> trunc x \<and> trunc x < 2 ^ 64 then Some (of_int (trunc x)) else None)"

text \<open>The results of a conversion to a signed type, as the bits of the two's complement.\<close>

definition s32_of_double :: "double \<Rightarrow> s32 option" where
  "s32_of_double x = (if - (2 ^ 31) \<le> trunc x \<and> trunc x < 2 ^ 31 then Some (of_int (trunc x)) else None)"

definition s64_of_double :: "double \<Rightarrow> s64 option" where
  "s64_of_double x = (if - (2 ^ 63) \<le> trunc x \<and> trunc x < 2 ^ 63 then Some (of_int (trunc x)) else None)"

section \<open>Rounding to an integer\<close>

lemma rne_of_int [simp]: "rne (of_int k) = k"
  by (simp add: rne_def)

lemma rne_error: "\<bar>of_int (rne y) - y\<bar> \<le> 1 / 2"
proof -
  have "of_int \<lfloor>y\<rfloor> \<le> y" "y < of_int \<lfloor>y\<rfloor> + 1" by linarith+
  then show ?thesis by (auto simp: rne_def Let_def abs_le_iff)
qed

lemma rne_mono: "x \<le> y \<Longrightarrow> rne x \<le> rne y"
proof -
  assume le: "x \<le> y"
  show ?thesis
  proof (cases "\<lfloor>x\<rfloor> = \<lfloor>y\<rfloor>")
    case True
    then show ?thesis using le by (simp add: rne_def Let_def)
  next
    case False
    then have "\<lfloor>x\<rfloor> + 1 \<le> \<lfloor>y\<rfloor>" using floor_mono [OF le] by linarith
    moreover have "rne x \<le> \<lfloor>x\<rfloor> + 1" "\<lfloor>y\<rfloor> \<le> rne y" by (simp_all add: rne_def Let_def)
    ultimately show ?thesis by linarith
  qed
qed

section \<open>The binade\<close>

lemma binade_bounds:
  assumes "x \<noteq> 0"
  shows "2 powi binade x \<le> \<bar>x\<bar>" and "\<bar>x\<bar> < 2 powi (binade x + 1)"
proof -
  have "2 powi binade x \<le> \<bar>x\<bar> \<and> \<bar>x\<bar> < 2 powi (binade x + 1)"
  proof (cases "1 \<le> \<bar>x\<bar>")
    case True
    let ?n = "nat \<lfloor>\<bar>x\<bar>\<rfloor>"
    have n: "0 < ?n" "of_nat ?n \<le> \<bar>x\<bar>" "\<bar>x\<bar> < of_nat ?n + 1" using True by linarith+
    have l: "0 < floorlog 2 ?n" using n(1) by (simp add: floorlog_eq_zero_iff zero_less_iff_neq_zero)
    have b: "2 ^ (floorlog 2 ?n - 1) \<le> ?n" "?n < 2 ^ floorlog 2 ?n"
      using floorlog_bounds [of ?n 2] n(1) by auto
    have "(2 :: rat) ^ (floorlog 2 ?n - 1) \<le> of_nat ?n" "of_nat ?n + 1 \<le> (2 :: rat) ^ floorlog 2 ?n"
      using b by (metis of_nat_le_iff of_nat_numeral of_nat_power,
          metis Suc_leI add.commute of_nat_Suc of_nat_le_iff of_nat_numeral of_nat_power)
    moreover have "2 powi binade x = (2 :: rat) ^ (floorlog 2 ?n - 1)" "2 powi (binade x + 1) = (2 :: rat) ^ floorlog 2 ?n"
      using True l by (simp_all add: binade_def power_int_def nat_diff_distrib)
    ultimately show ?thesis using n by linarith
  next
    case False
    let ?n = "nat (\<lceil>1 / \<bar>x\<bar>\<rceil> - 1)" and ?y = "1 / \<bar>x\<bar>"
    have y: "1 < ?y" using False assms by simp
    then have n: "0 < ?n" "of_nat ?n < ?y" "?y \<le> of_nat ?n + 1" by linarith+
    have b: "2 ^ (floorlog 2 ?n - 1) \<le> ?n" "?n < 2 ^ floorlog 2 ?n"
      using floorlog_bounds [of ?n 2] n(1) by auto
    have l: "0 < floorlog 2 ?n" using n(1) by (simp add: floorlog_eq_zero_iff zero_less_iff_neq_zero)
    have "(2 :: rat) ^ (floorlog 2 ?n - 1) \<le> of_nat ?n" "of_nat ?n + 1 \<le> (2 :: rat) ^ floorlog 2 ?n"
      using b by (metis of_nat_le_iff of_nat_numeral of_nat_power,
          metis Suc_leI add.commute of_nat_Suc of_nat_le_iff of_nat_numeral of_nat_power)
    then have "(2 :: rat) ^ (floorlog 2 ?n - 1) < ?y" "?y \<le> (2 :: rat) ^ floorlog 2 ?n" using n by linarith+
    then have "inverse ((2 :: rat) ^ floorlog 2 ?n) \<le> inverse ?y" "inverse ?y < inverse ((2 :: rat) ^ (floorlog 2 ?n - 1))"
      using y by (auto intro!: le_imp_inverse_le less_imp_inverse_less simp del: inverse_divide)
    moreover have "2 powi binade x = inverse ((2 :: rat) ^ floorlog 2 ?n)"
      using False by (simp add: binade_def power_int_minus)
    moreover have "binade x + 1 = - int (floorlog 2 ?n - 1)"
      using False l by (simp add: binade_def of_nat_diff)
    then have "2 powi (binade x + 1) = inverse ((2 :: rat) ^ (floorlog 2 ?n - 1))"
      by (simp add: power_int_minus)
    ultimately show ?thesis by simp
  qed
  then show "2 powi binade x \<le> \<bar>x\<bar>" and "\<bar>x\<bar> < 2 powi (binade x + 1)" by simp_all
qed

lemma powi_mono: "i \<le> j \<Longrightarrow> (2 :: rat) powi i \<le> 2 powi j"
  by (simp add: power_int_increasing)

lemma powi_less_cancel: "(2 :: rat) powi i < 2 powi j \<Longrightarrow> i < j"
  by (meson linorder_not_less powi_mono)

lemma binade_mono: "0 < x \<Longrightarrow> x \<le> y \<Longrightarrow> binade x \<le> binade y"
  using binade_bounds [of x] binade_bounds [of y] powi_less_cancel [of "binade x" "binade y + 1"] by fastforce

lemma ulp_pos: "0 < ulp x"
  by (simp add: ulp_def)

lemma powi_multiple:
  assumes "k \<le> j"
  obtains m :: int where "(2 :: rat) powi j = of_int m * 2 powi k"
proof
  have "(2 :: rat) powi j = 2 powi (j - k) * 2 powi k" by (simp add: power_int_add [symmetric])
  then show "(2 :: rat) powi j = of_int (2 ^ nat (j - k)) * 2 powi k"
    using assms by (simp add: power_int_def [of _ "j - k"])
qed

section \<open>Rounding to a double\<close>

lemma fl_0 [simp]: "fl 0 = 0"
  by (simp add: fl_def)

lemma fl_nonneg: "0 \<le> x \<Longrightarrow> 0 \<le> fl x"
  using rne_mono [of 0 "x / ulp x"] rne_of_int [of 0] ulp_pos [of x]
  by (simp add: fl_def divide_nonneg_pos)

text \<open>A multiple of a power of two that spans at most 53 bits is a double.\<close>

lemma fl_exact:
  assumes "x = of_int m * 2 powi k" and "\<bar>m\<bar> < 2 ^ 53" and "- 1074 \<le> k"
  shows "fl x = x"
proof (cases "x = 0")
  case False
  have "(of_int \<bar>m\<bar> :: rat) < of_int (2 ^ 53)" using assms(2) by (simp only: of_int_less_iff)
  then have "\<bar>x\<bar> < 2 ^ 53 * 2 powi k" using assms(1) by (simp add: abs_mult)
  also have "2 ^ 53 * 2 powi k = (2 :: rat) powi (53 + k)" by (simp add: power_int_add)
  finally have "2 powi binade x < (2 :: rat) powi (53 + k)" using binade_bounds(1) [OF False] by simp
  then have "binade x - 52 \<le> k" using powi_less_cancel by fastforce
  then obtain j :: int where j: "2 powi k = of_int j * ulp x"
    using powi_multiple [of "max (binade x - 52) (- 1074)" k] assms(3) by (auto simp: ulp_def)
  then have "x / ulp x = of_int (m * j)" using assms(1) ulp_pos [of x] by (simp add: field_simps)
  then have "rne (x / ulp x) = m * j" by (metis rne_of_int)
  then have "fl x = of_int (m * j) * ulp x" using False by (simp add: fl_def)
  also have "\<dots> = of_int m * (of_int j * ulp x)" by simp
  also have "\<dots> = x" by (simp only: j [symmetric] assms(1) [symmetric])
  finally show ?thesis .
qed simp

lemma fl_of_nat:
  assumes "n < 2 ^ 53"
  shows "fl (of_nat n) = of_nat n"
proof (rule fl_exact)
  show "(of_nat n :: rat) = of_int (int n) * 2 powi 0" by simp
  have "int n < int (2 ^ 53)" using assms by (simp only: of_nat_less_iff)
  then show "\<bar>int n\<bar> < 2 ^ 53" by (simp only: of_nat_power of_nat_numeral abs_of_nat)
qed simp

lemma fl_mono:
  assumes "0 \<le> x" and "x \<le> y"
  shows "fl x \<le> fl y"
proof (cases "x = 0")
  case True
  then show ?thesis using fl_nonneg assms by simp
next
  case False
  then have pos: "0 < x" "0 < y" using assms by auto
  show ?thesis
  proof (cases "ulp x = ulp y")
    case True
    have "rne (x / ulp y) \<le> rne (y / ulp y)"
      using assms ulp_pos [of y] by (intro rne_mono divide_right_mono) auto
    then show ?thesis using True pos ulp_pos [of y] by (simp add: fl_def)
  next
    case False
    then have "max (binade x - 52) (- 1074) \<noteq> max (binade y - 52) (- 1074)" by (auto simp: ulp_def)
    then have b: "binade x + 1 \<le> binade y" "max (binade x - 52) (- 1074) \<le> binade y"
        "max (binade y - 52) (- 1074) = binade y - 52"
      using binade_mono [OF pos(1) assms(2)] by linarith+
    let ?p = "(2 :: rat) powi binade y"
    obtain m where m: "?p = of_int m * ulp x"
      using powi_multiple [OF b(2)] by (auto simp: ulp_def)
    have "x < ?p" using binade_bounds(2) [of x] pos powi_mono [OF b(1)] by simp
    then have "x / ulp x \<le> of_int m" using m ulp_pos [of x] by (simp add: field_simps)
    then have "rne (x / ulp x) \<le> m" using rne_mono rne_of_int by metis
    then have "fl x \<le> ?p" using m pos ulp_pos [of x] by (simp add: fl_def)
    moreover have p: "?p = of_int (2 ^ 52) * ulp y"
      using b(3) by (simp add: ulp_def power_int_diff)
    have "?p \<le> y" using binade_bounds(1) [of y] pos by simp
    then have "of_int (2 ^ 52) \<le> y / ulp y" using p ulp_pos [of y] by (simp add: field_simps)
    then have "2 ^ 52 \<le> rne (y / ulp y)" using rne_mono rne_of_int by metis
    then have "of_int (2 ^ 52) * ulp y \<le> fl y"
      using pos ulp_pos [of y] by (simp only: fl_def of_int_le_iff mult_le_cancel_right) simp
    ultimately show ?thesis using p by simp
  qed
qed

lemma fl_error: "\<bar>fl x - x\<bar> \<le> ulp x / 2"
proof (cases "x = 0")
  case False
  have "fl x - x = (of_int (rne (x / ulp x)) - x / ulp x) * ulp x"
    using False ulp_pos [of x] by (simp add: fl_def field_simps)
  then have "\<bar>fl x - x\<bar> = \<bar>of_int (rne (x / ulp x)) - x / ulp x\<bar> * ulp x"
    using ulp_pos [of x] by (simp add: abs_mult)
  then show ?thesis
    using rne_error [of "x / ulp x"] ulp_pos [of x] by (simp add: mult_right_mono [of _ "1/2"])
qed (use ulp_pos [of 0] in simp)

lemma fl_relative_error:
  assumes "2 powi (- 1022) \<le> \<bar>x\<bar>"
  shows "\<bar>fl x - x\<bar> \<le> \<bar>x\<bar> / 2 ^ 53"
proof -
  have x: "x \<noteq> 0" using assms by auto
  have "(2 :: rat) powi (- 1022) < 2 powi (binade x + 1)" using assms binade_bounds(2) [OF x] by simp
  then have "- 1022 < binade x + 1" by (rule powi_less_cancel)
  then have "ulp x = 2 powi binade x / 2 ^ 52" by (simp add: ulp_def power_int_diff)
  then have "ulp x \<le> \<bar>x\<bar> / 2 ^ 52" using binade_bounds(1) [OF x] by (simp add: divide_right_mono)
  then show ?thesis using fl_error [of x] by simp
qed

section \<open>Interpolation\<close>

lemma fl_upper:
  assumes "x = 0 \<or> 1 / 2 ^ 64 \<le> x"
  shows "fl x \<le> x * (1 + 1 / 2 ^ 53)"
proof (cases "x = 0")
  case False
  then have x: "1 / 2 ^ 64 \<le> x" using assms by simp
  then have pos: "0 < x" by (rule less_le_trans [rotated]) simp
  have "(2 :: rat) powi (- 1022) \<le> 2 powi (- 64)" by (rule powi_mono) simp
  also have "\<dots> = 1 / 2 ^ 64" by (simp add: power_int_minus)
  finally have "2 powi (- 1022) \<le> \<bar>x\<bar>" using x pos by linarith
  then have "fl x - x \<le> x / 2 ^ 53" using fl_relative_error [of x] pos by linarith
  then show ?thesis by (simp add: algebra_simps)
qed simp

lemma double_of_u32 [simp]: "double_of_u32 w = of_nat (unat w)"
proof -
  have "unat w < 2 ^ 53" using unat_lt [of w] by simp
  then show ?thesis by (simp only: double_of_u32_def fl_of_nat)
qed

text \<open>A share \<open>k / b\<close> of a whole \<open>A\<close>, computed with two roundings.\<close>

lemma fl_share:
  fixes A :: rat and b k :: nat
  assumes A: "A = 0 \<or> 1 \<le> A" and b: "0 < b" "b < 2 ^ 64" and k: "k \<le> b"
  shows "0 \<le> fl (fl (A / of_nat b) * of_nat k)"
    and "fl (fl (A / of_nat b) * of_nat k) \<le> A * (1 + 1 / 2 ^ 53) * (1 + 1 / 2 ^ 53)"
proof -
  let ?e = "1 + 1 / 2 ^ 53 :: rat" and ?y = "fl (A / of_nat b) * of_nat k"
  have nonneg: "0 \<le> A / of_nat b" using A by auto
  then have y: "0 \<le> ?y" by (simp add: fl_nonneg)
  then show "0 \<le> fl ?y" by (rule fl_nonneg)
  show "fl ?y \<le> A * ?e * ?e"
  proof (cases "A = 0")
    case False
    have "(of_nat b :: rat) \<le> of_nat (2 ^ 64)" using b(2) by (simp only: of_nat_le_iff)
    then have "1 / 2 ^ 64 \<le> A / of_nat b" using A False b(1) by (intro frac_le) simp_all
    then have "fl (A / of_nat b) \<le> A / of_nat b * ?e" by (intro fl_upper) simp
    then have "?y \<le> A / of_nat b * ?e * of_nat k" by (intro mult_right_mono) auto
    also have "\<dots> = A * ?e * (of_nat k / of_nat b)" by simp
    also have "\<dots> \<le> A * ?e * 1" using k b(1) A by (intro mult_left_mono) auto
    finally have "?y \<le> A * ?e" by simp
    then have "fl ?y \<le> fl (A * ?e)" by (rule fl_mono [OF y])
    also have "\<dots> \<le> A * ?e * ?e" using A False by (intro fl_upper disjI2 order_trans [OF _ mult_mono [of 1 A 1]]) auto
    finally show ?thesis .
  qed simp
qed

lemma double_of_u64_bounds:
  assumes "unat a < 2 ^ 62"
  shows "double_of_u64 a = 0 \<or> 1 \<le> double_of_u64 a" and "double_of_u64 a \<le> 2 ^ 62"
    and "unat a < 2 ^ 53 \<Longrightarrow> double_of_u64 a = of_nat (unat a)"
proof -
  show exact: "double_of_u64 a = of_nat (unat a)" if "unat a < 2 ^ 53"
    using that by (simp only: double_of_u64_def fl_of_nat)
  have one: "fl 1 = 1" using fl_of_nat [of 1] by simp
  have "fl 1 \<le> fl (of_nat (unat a))" if "unat a \<noteq> 0"
  proof (rule fl_mono)
    have "1 \<le> unat a" using that by simp
    then have "(of_nat 1 :: rat) \<le> of_nat (unat a)" by (simp only: of_nat_le_iff)
    then show "1 \<le> (of_nat (unat a) :: rat)" by (simp only: of_nat_1)
  qed simp
  then show "double_of_u64 a = 0 \<or> 1 \<le> double_of_u64 a"
    unfolding double_of_u64_def one by (cases "unat a = 0") auto
  have top: "fl (2 ^ 62) = 2 ^ 62" by (rule fl_exact [of _ 1 62]) simp_all
  have "of_nat (unat a) \<le> (of_nat (2 ^ 62) :: rat)" using assms by (simp only: of_nat_le_iff)
  then have "fl (of_nat (unat a)) \<le> fl (2 ^ 62)" by (intro fl_mono of_nat_0_le_iff) simp
  then show "double_of_u64 a \<le> 2 ^ 62" unfolding double_of_u64_def top .
qed

text \<open>The two roundings of an interpolated time offset never carry it beyond the whole, as long as the
  whole is below \<open>2 ^ 51\<close> ns (26 days); below \<open>2 ^ 62\<close> ns the conversion is defined.\<close>

lemma interpolate:
  assumes a: "unat a < 2 ^ 62" and b: "0 < b" "b < 2 ^ 64" and k: "k \<le> b"
  obtains r where "Option.bind (ddiv (double_of_u64 a) (of_nat b)) (\<lambda>t. u64_of_double (dmul t (of_nat k))) = Some r"
    and "unat r < 2 ^ 63" and "unat a < 2 ^ 51 \<Longrightarrow> unat r \<le> unat a"
    and "unat r = nat \<lfloor>fl (fl (double_of_u64 a / of_nat b) * of_nat k)\<rfloor>"
proof -
  let ?A = "double_of_u64 a" and ?e = "1 + 1 / 2 ^ 53 :: rat"
  let ?t = "fl (fl (?A / of_nat b) * of_nat k)"
  note A = double_of_u64_bounds [OF a]
  note t = fl_share [OF A(1) b k]
  have "?A * ?e * ?e \<le> 2 ^ 62 * ?e * ?e" using A(2) by (intro mult_right_mono) auto
  also have "\<dots> < 2 ^ 63" by simp
  finally have "?t < 2 ^ 63" using t(2) by linarith
  then have lt: "\<lfloor>?t\<rfloor> < 2 ^ 63" by (simp add: floor_less_iff)
  have ge: "0 \<le> \<lfloor>?t\<rfloor>" using t(1) by simp
  have trunc: "trunc ?t = \<lfloor>?t\<rfloor>" using t(1) by (simp add: trunc_def)
  let ?r = "of_int \<lfloor>?t\<rfloor> :: u64"
  have r: "unat ?r = nat \<lfloor>?t\<rfloor>" using lt ge by (simp add: unat_eq_nat_uint uint_word_of_int)
  show thesis
  proof (rule that [of ?r])
    show "Option.bind (ddiv ?A (of_nat b)) (\<lambda>t. u64_of_double (dmul t (of_nat k))) = Some ?r"
      using b lt ge by (simp add: ddiv_def dmul_def u64_of_double_def trunc)
    show "unat ?r = nat \<lfloor>?t\<rfloor>" by (rule r)
    show "unat ?r < 2 ^ 63" unfolding r nat_less_iff [OF ge] using lt by simp
    assume small: "unat a < 2 ^ 51"
    then have "?A = of_nat (unat a)" using A(3) by simp
    then have "?t \<le> of_nat (unat a) * ?e * ?e" using t(2) by simp
    also have "\<dots> < of_nat (unat a) + 1"
    proof -
      have "(of_nat (unat a) :: rat) < of_nat (2 ^ 51)" using small by (simp only: of_nat_less_iff)
      then show ?thesis by (simp add: field_simps)
    qed
    finally have "\<lfloor>?t\<rfloor> < int (unat a) + 1"
      by (simp only: floor_less_iff of_int_add of_int_of_nat_eq of_int_1)
    then show "unat ?r \<le> unat a" using r ge by linarith
  qed
qed

section \<open>Evaluation\<close>

lemma binade_unique:
  assumes "2 powi e \<le> \<bar>x\<bar>" and "\<bar>x\<bar> < 2 powi (e + 1)"
  shows "binade x = e"
proof -
  have "(0 :: rat) < 2 powi e" by simp
  then have "x \<noteq> 0" using assms(1) by linarith
  from binade_bounds [OF this] assms have "2 powi e < (2 :: rat) powi (binade x + 1)"
    "2 powi binade x < (2 :: rat) powi (e + 1)" by linarith+
  then have "e < binade x + 1" "binade x < e + 1" by (auto dest: powi_less_cancel)
  then show ?thesis by simp
qed

definition rne_quot :: "int \<Rightarrow> int \<Rightarrow> int" where
  "rne_quot a b =
     (let q = a div b; r = a mod b in
      if 2 * r < b then q else if 2 * r > b then q + 1 else if even q then q else q + 1)"

lemma rne_divide: "0 < b \<Longrightarrow> rne (of_int a / of_int b) = rne_quot a b"
proof -
  assume b: "0 < b"
  have floor: "\<lfloor>of_int a / of_int b :: rat\<rfloor> = a div b" by (rule floor_divide_of_int_eq)
  have "of_int (a div b) * of_int b + of_int (a mod b) = (of_int a :: rat)"
    by (metis div_mult_mod_eq of_int_add of_int_mult)
  then have "of_int a / of_int b - of_int (a div b) = (of_int (a mod b) / of_int b :: rat)"
    using b by (simp add: field_simps)
  moreover have "(of_int r / of_int b < (1 / 2 :: rat)) = (2 * r < b)" "((1 / 2 :: rat) < of_int r / of_int b) = (b < 2 * r)"
    for r
    using b by (simp_all add: field_simps) (metis of_int_less_iff of_int_mult of_int_numeral mult.commute)+
  ultimately show ?thesis unfolding rne_def rne_quot_def Let_def floor by presburger
qed

lemma fl_eval:
  assumes x: "x = of_int a / of_int b * 2 powi (e - 52)" and b: "0 < b"
    and a: "2 ^ 52 * b \<le> a" "a < 2 ^ 53 * b" and e: "- 1022 \<le> e"
  shows "fl x = of_int (rne_quot a b) * 2 powi (e - 52)"
proof -
  have p: "(0 :: rat) < 2 powi (e - 52)" by simp
  have "of_int (2 ^ 52 * b) \<le> (of_int a :: rat)" "(of_int a :: rat) < of_int (2 ^ 53 * b)"
    using a by (simp_all only: of_int_le_iff of_int_less_iff)
  then have ab: "2 ^ 52 \<le> (of_int a / of_int b :: rat)" "(of_int a / of_int b :: rat) < 2 ^ 53"
    using b by (simp_all add: field_simps)
  have "2 powi e = (2 :: rat) ^ 52 * 2 powi (e - 52)" "2 powi (e + 1) = (2 :: rat) ^ 53 * 2 powi (e - 52)"
    by (simp_all add: power_int_diff power_int_add)
  then have x_bounds: "2 powi e \<le> x" "x < 2 powi (e + 1)"
    using ab p unfolding x by (simp_all only: mult_right_mono less_imp_le mult_strict_right_mono)
  have "(0 :: rat) < 2 powi e" by simp
  with x_bounds have pos: "0 < x" by linarith
  then have "binade x = e" using x_bounds by (intro binade_unique) auto
  moreover have "max (e - 52) (- 1074) = e - 52" using e by linarith
  ultimately have u: "ulp x = 2 powi (e - 52)" by (simp only: ulp_def)
  have "x / ulp x = x / 2 powi (e - 52)" by (simp only: u)
  also have "\<dots> = of_int a / of_int b" using p by (simp add: x)
  finally have "x / ulp x = of_int a / of_int b" .
  then show ?thesis using pos b u by (simp add: fl_def rne_divide)
qed

lemma trunc_divide: "0 \<le> a \<Longrightarrow> 0 < b \<Longrightarrow> trunc (of_int a / of_int b) = a div b"
  by (simp add: trunc_def floor_divide_of_int_eq)

section \<open>Rounding of negative numbers\<close>

lemma rne_minus: "rne (- y) = - rne y"
proof -
  let ?f = "\<lfloor>y\<rfloor>" and ?d = "y - of_int \<lfloor>y\<rfloor>"
  have d: "0 \<le> ?d" "?d < 1" by linarith+
  show ?thesis
  proof (cases "?d = 0")
    case True
    then have "y = of_int ?f" by simp
    then show ?thesis by (metis of_int_minus rne_of_int)
  next
    case False
    with d have "\<lfloor>- y\<rfloor> = - ?f - 1" by linarith
    then have *: "\<lfloor>- y\<rfloor> = - ?f - 1" "- y - of_int \<lfloor>- y\<rfloor> = 1 - ?d" by simp_all
    show ?thesis unfolding rne_def Let_def * by auto
  qed
qed

lemma fl_minus: "fl (- x) = - fl x"
proof -
  have "ulp (- x) = ulp x" by (simp add: ulp_def binade_def)
  then show ?thesis by (simp add: fl_def rne_minus)
qed

lemma fl_bounded:
  assumes "\<bar>x\<bar> \<le> b" "fl b = b"
  shows "\<bar>fl x\<bar> \<le> b"
proof (cases "0 \<le> x")
  case True
  with assms fl_mono [of x b] fl_nonneg [of x] show ?thesis by simp
next
  case False
  with assms fl_mono [of "- x" b] fl_nonneg [of "- x"] show ?thesis by (simp add: fl_minus)
qed

lemma fl_bounded_below:
  assumes "b \<le> \<bar>x\<bar>" "fl b = b" "0 \<le> b"
  shows "b \<le> \<bar>fl x\<bar>"
proof (cases "0 \<le> x")
  case True
  with assms fl_mono [of b x] fl_nonneg [of x] show ?thesis by simp
next
  case False
  with assms fl_mono [of b "- x"] fl_nonneg [of "- x"] show ?thesis by (simp add: fl_minus)
qed

lemma fl_int: "\<bar>k\<bar> < 2 ^ 53 \<Longrightarrow> fl (of_int k) = of_int k"
  by (rule fl_exact [of _ k 0]) simp_all

end
