(* ===== verification/Local_Audio_Stream.thy ===== *)
theory Local_Audio_Stream
  imports Binary64 Registry Local_Audio_Buffer Audio_Buffer_Desc
begin

text \<open>
  \<^verbatim>\<open>IasLocalAudioStream\<close> (\<^verbatim>\<open>IasLocalAudioStream.hpp/.cpp\<close>): one sample ring per channel, and in the
  time-aware mode a queue of time stamps, between the ALSA side and an AVB stream. The client of the
  stream is called back from inside its operations and may call it again, so the operations that
  call back work on the pair of the client's and the stream's state; \<open>stream_client\<close> holds the
  functions of \<^verbatim>\<open>IasLocalAudioStreamClientInterface\<close> and the pure virtual \<^verbatim>\<open>resetBuffers\<close>. The PTP
  daemon library answers with a \<open>ptp_time\<close>. The result \<open>None\<close> is undefined behaviour: a NULL
  dereference, an access outside an array, a division by zero.
\<close>

definition cAudioBaseFillMultiplierTx :: string where
  "cAudioBaseFillMultiplierTx = ''audio.basefill.multiplier.tx''"

section \<open>State\<close>

datatype ClientState = eIasNotConnected | eIasIdle | eIasActive

datatype DiscontinuityEvent = eIasUnspecific | eIasOverrun | eIasUnderrun

record IasLocalAudioStreamDiagnostics =
  basePeriod :: u32
  baseFreq :: u32
  baseFillMultiplier :: u32
  baseFillMultiplierTx :: u32
  cycleWait :: u32
  totalBufferSize :: u32
  bufferReadThreshold :: u32
  resetBuffersCount :: u32
  deviationOutOfBounds :: u32

record IasLocalAudioStream =
  mDirection :: IasAvbStreamDirection
  mType :: IasLocalStreamType
  mStreamId :: u16
  mChannelLayout :: u8
  mNumChannels :: u16
  mSampleFrequency :: u32
  mHasSideChannel :: bool
  mChannelBuffers :: "IasLocalAudioBuffer list"
  mClientState :: ClientState
  mClient :: bool
  mBufferDescQ :: "IasLocalAudioBufferDesc option"
  mDescMode :: AudioBufferDescMode
  mPtpProxy :: bool
  mEpoch :: u32
  mLastTimeStamp :: u64
  mLastSampleCnt :: u32
  mLaunchTimeDelay :: u32
  mAudioRxDelay :: u32
  mPeriodSz :: u32
  mWorkerRunning :: bool
  mPendingSamples :: u32
  mNullData :: "AudioData list option"
  mPendingDesc :: AudioBufferDesc
  mDiag :: IasLocalAudioStreamDiagnostics
  mAlsaRxSyncStart :: bool

text \<open>The pointers \<^verbatim>\<open>mClient\<close> and \<^verbatim>\<open>mPtpProxy\<close> are modelled by whether they are set.\<close>

record ptp_time =
  ptp_epochCounter :: u32
  ptp_localTime :: u64

record ('c, 's) stream_client =
  c_signalDiscontinuity :: "DiscontinuityEvent \<Rightarrow> u32 \<Rightarrow> 'c \<times> 's \<Rightarrow> (bool \<times> 'c \<times> 's) option"
  c_getMaxTransmitTime :: "'c \<Rightarrow> u32 option"
  c_getMinTransmitBufferSize :: "u32 \<Rightarrow> 'c \<Rightarrow> u32 option"
  c_resetBuffers :: "'c \<times> 's \<Rightarrow> ('c \<times> 's) option"

definition no_desc :: AudioBufferDesc where
  "no_desc = \<lparr>timeStamp = 0, bufIndex = 0, sampleCnt = 0\<rparr>"

definition local_stream_new :: "IasAvbStreamDirection \<Rightarrow> IasLocalStreamType \<Rightarrow> u16 \<Rightarrow> IasLocalAudioStream"
where
  "local_stream_new direction type streamId =
     \<lparr>mDirection = direction, mType = type, mStreamId = streamId, mChannelLayout = 0, mNumChannels = 0,
      mSampleFrequency = 0, mHasSideChannel = False, mChannelBuffers = [],
      mClientState = eIasNotConnected, mClient = False, mBufferDescQ = None,
      mDescMode = eIasAudioBufferDescModeOff, mPtpProxy = False, mEpoch = 0, mLastTimeStamp = 0,
      mLastSampleCnt = 0, mLaunchTimeDelay = 0, mAudioRxDelay = 0, mPeriodSz = 0, mWorkerRunning = True,
      mPendingSamples = 0, mNullData = None, mPendingDesc = no_desc,
      mDiag = \<lparr>basePeriod = 0, baseFreq = 0, baseFillMultiplier = 0, baseFillMultiplierTx = 0,
               cycleWait = 0, totalBufferSize = 0, bufferReadThreshold = 0, resetBuffersCount = 0,
               deviationOutOfBounds = 0\<rparr>,
      mAlsaRxSyncStart = False\<rparr>"

definition hasBufferDesc :: "'a IasLocalAudioStream_scheme \<Rightarrow> bool" where
  "hasBufferDesc s \<longleftrightarrow> mDescMode s = eIasAudioBufferDescModeFailSafe \<or> mDescMode s = eIasAudioBufferDescModeHard"

definition local_isInitialized :: "'a IasLocalAudioStream_scheme \<Rightarrow> bool" where
  "local_isInitialized s \<longleftrightarrow> mSampleFrequency s \<noteq> 0"

definition isReadReady :: "'a IasLocalAudioStream_scheme \<Rightarrow> bool option" where
  "isReadReady s =
     (if hasBufferDesc s then map_option mReadReady (fetch (mChannelBuffers s) 0) else Some True)"

definition setChannelLayout ::
  "u8 \<Rightarrow> 'a IasLocalAudioStream_scheme \<Rightarrow> IasAvbProcessingResult \<times> 'a IasLocalAudioStream_scheme" where
  "setChannelLayout layout s =
     (if mHasSideChannel s then (eIasAvbProcErr, s) else (eIasAvbProcOK, s\<lparr>mChannelLayout := layout\<rparr>))"

definition local_cleanup :: "'a IasLocalAudioStream_scheme \<Rightarrow> 'a IasLocalAudioStream_scheme" where
  "local_cleanup s =
     s\<lparr>mBufferDescQ := None, mNullData := None, mChannelBuffers := [], mNumChannels := 0, mSampleFrequency := 0\<rparr>"

text \<open>Access to one ring and to the descriptor queue through their pointers.\<close>

definition on_ring ::
  "nat \<Rightarrow> (IasLocalAudioBuffer \<Rightarrow> ('r \<times> IasLocalAudioBuffer) option) \<Rightarrow> 'a IasLocalAudioStream_scheme \<Rightarrow>
     ('r \<times> 'a IasLocalAudioStream_scheme) option" where
  "on_ring i f s =
     do {
       b \<leftarrow> fetch (mChannelBuffers s) i;
       (r, b) \<leftarrow> f b;
       Some (r, s\<lparr>mChannelBuffers := (mChannelBuffers s)[i := b]\<rparr>)
     }"

definition on_descQ ::
  "(IasLocalAudioBufferDesc \<Rightarrow> ('r \<times> IasLocalAudioBufferDesc) option) \<Rightarrow> 'a IasLocalAudioStream_scheme \<Rightarrow>
     ('r \<times> 'a IasLocalAudioStream_scheme) option" where
  "on_descQ f s =
     do {
       q \<leftarrow> mBufferDescQ s;
       (r, q) \<leftarrow> f q;
       Some (r, s\<lparr>mBufferDescQ := Some q\<rparr>)
     }"

text \<open>The loops that call \<^verbatim>\<open>reset(0u)\<close> on the rings from \<open>i\<close> on, \<open>n\<close> of them, and on the queue.\<close>

primrec reset_rings ::
  "nat \<Rightarrow> nat \<Rightarrow> 'a IasLocalAudioStream_scheme \<Rightarrow> 'a IasLocalAudioStream_scheme option" where
  "reset_rings 0 i s = Some s"
| "reset_rings (Suc n) i s = do { (_, s) \<leftarrow> on_ring i (lab_reset 0) s; reset_rings n (Suc i) s }"

definition flush_all :: "'a IasLocalAudioStream_scheme \<Rightarrow> 'a IasLocalAudioStream_scheme option" where
  "flush_all s =
     do {
       s \<leftarrow> reset_rings (unat (mNumChannels s)) 0 s;
       (_, s) \<leftarrow> on_descQ (\<lambda>q. Some ((), desc_reset q)) s;
       Some s
     }"

section \<open>Initialisation\<close>

text \<open>\<^verbatim>\<open>static_cast<AudioBufferDescMode>\<close>: all numbers from 3 on are invalid entries.\<close>

definition cast_desc_mode :: "u64 \<Rightarrow> AudioBufferDescMode" where
  "cast_desc_mode v =
     (if v = 0 then eIasAudioBufferDescModeOff else if v = 1 then eIasAudioBufferDescModeFailSafe
      else if v = 2 then eIasAudioBufferDescModeHard else eIasAudioBufferDescModeLast)"

record local_env =
  env_registry :: "registry option"
  env_ptpProxy :: "ptp_time option"
  env_new_descQ :: bool
  env_new_nullData :: bool
  env_new_buffer :: "nat \<Rightarrow> bool"
  env_samples :: "nat \<Rightarrow> AudioData list option"

definition config_u32 :: "local_env \<Rightarrow> string \<Rightarrow> u32 \<Rightarrow> u32" where
  "config_u32 env key def = snd (getConfigValue ucast (env_registry env) key def)"

text \<open>\<^verbatim>\<open>uint32_t(::ceil(a / b)) * c\<close> and \<^verbatim>\<open>uint32_t(double(samples) / double(frequency) * 1e9)\<close>\<close>

definition ceil_quot_times :: "double \<Rightarrow> double \<Rightarrow> u32 \<Rightarrow> u32 option" where
  "ceil_quot_times a b c =
     do { q \<leftarrow> ddiv a b; n \<leftarrow> u32_of_double (of_int \<lceil>q\<rceil>); Some (n * c) }"

definition samples_ns :: "u32 \<Rightarrow> u32 \<Rightarrow> u32 option" where
  "samples_ns samples frequency =
     do { q \<leftarrow> ddiv (double_of_u32 samples) (double_of_u32 frequency); u32_of_double (dmul q 1000000000) }"

text \<open>\<^verbatim>\<open>mPeriodSz\<close>: the ALSA period is reduced to the base period if it is a multiple of it.\<close>

definition reduced_period :: "local_env \<Rightarrow> u32 \<Rightarrow> u32 \<Rightarrow> u32 option" where
  "reduced_period env alsaPeriodSize sampleFrequency =
     (let baseFreq = config_u32 env cAlsaBaseFreq 48000;
          basePeriod = config_u32 env cAlsaBasePeriod 128;
          p = (ucast alsaPeriodSize * ucast baseFreq :: u64);
          q = (ucast (basePeriod * sampleFrequency) :: u64)
      in if q = 0 then None
         else Some (if p mod q = 0 then
                      let cycle = (ucast (p div q) :: u32) in
                      if cycle \<noteq> 0 then alsaPeriodSize div cycle else alsaPeriodSize
                    else alsaPeriodSize))"

text \<open>The read thresholds \<^verbatim>\<open>(readThresholdRx, readThresholdTx)\<close>.\<close>

definition read_thresholds :: "local_env \<Rightarrow> u32 \<Rightarrow> u32 \<Rightarrow> (u32 \<times> u32) option" where
  "read_thresholds env multiplier period =
     do {
       let rx = multiplier * period div 10;
       tx \<leftarrow> ceil_quot_times (double_of_u32 rx) (double_of_u32 period) period;
       let (found, multiplierTx) = getConfigValue (ucast :: u64 \<Rightarrow> u32) (env_registry env) cAudioBaseFillMultiplierTx 0;
       tx \<leftarrow> (if found then ceil_quot_times (double_of_u32 multiplierTx) 10 period else Some tx);
       Some (rx, tx)
     }"

text \<open>The queue, the null samples and the time proxy; the first component is \<^verbatim>\<open>error\<close>.\<close>

definition init_descQ ::
  "local_env \<Rightarrow> u32 \<Rightarrow> 'a IasLocalAudioStream_scheme \<Rightarrow> IasAvbProcessingResult \<times> 'a IasLocalAudioStream_scheme" where
  "init_descQ env descQsz s =
     (if \<not> env_new_descQ env then (eIasAvbProcNotEnoughMemory, s\<lparr>mBufferDescQ := None\<rparr>)
      else
        let q = desc_new (env_registry env) (descQsz + 1);
            s = s\<lparr>mBufferDescQ := Some q\<rparr>;
            s = (if mDirection s = eIasAvbReceiveFromNetwork
                 then s\<lparr>mAlsaRxSyncStart := IasLocalAudioBufferDesc.mAlsaRxSyncStart q\<rparr> else s)
        in if \<not> env_new_nullData env then (eIasAvbProcNotEnoughMemory, s\<lparr>mNullData := None\<rparr>)
           else
             let s = s\<lparr>mNullData := Some (replicate (unat (mPeriodSz s)) 0)\<rparr> in
             case env_ptpProxy env of
               None \<Rightarrow> (eIasAvbProcInitializationFailed, s\<lparr>mPtpProxy := False\<rparr>)
             | Some t \<Rightarrow> (eIasAvbProcOK, s\<lparr>mPtpProxy := True, mEpoch := ptp_epochCounter t\<rparr>))"

text \<open>The set-up of the time-aware mode; the result is \<^verbatim>\<open>error\<close> and \<^verbatim>\<open>readThreshold\<close>.\<close>

definition init_desc ::
  "local_env \<Rightarrow> u32 \<Rightarrow> u32 \<Rightarrow> 'a IasLocalAudioStream_scheme \<Rightarrow>
     (IasAvbProcessingResult \<times> u32 \<times> 'a IasLocalAudioStream_scheme) option" where
  "init_desc env totalSize alsaPeriodSize s =
     do {
       period \<leftarrow> reduced_period env alsaPeriodSize (mSampleFrequency s);
       let multiplier = config_u32 env cAudioBaseFillMultiplier 15;
       (rx, tx) \<leftarrow> read_thresholds env multiplier period;
       let (found, multiplierTx) = getConfigValue ucast (env_registry env) cAudioBaseFillMultiplierTx 0;
       delayRx \<leftarrow> samples_ns rx (mSampleFrequency s);
       delayTx \<leftarrow> samples_ns tx (mSampleFrequency s);
       let wait = config_u32 env cRxCycleWait 2000000;
       let s = s\<lparr>mPeriodSz := period,
                 mDiag := (mDiag s)
                   \<lparr>baseFillMultiplier := multiplier, cycleWait := wait,
                    baseFillMultiplierTx := (if found then multiplierTx else baseFillMultiplierTx (mDiag s))\<rparr>,
                 mLaunchTimeDelay := delayTx, mAudioRxDelay := wait + delayRx\<rparr>;
       descQsz \<leftarrow> (if period = 0 then None else Some ((totalSize + (period - 1)) div period));
       let (error, s) = init_descQ env descQsz s;
       Some (error, if mDirection s = eIasAvbTransmitToNetwork then tx else rx, s)
     }"

text \<open>The loop that creates the rings; \<open>n\<close> counts the channels left.\<close>

primrec init_rings ::
  "nat \<Rightarrow> nat \<Rightarrow> local_env \<Rightarrow> u32 \<Rightarrow> u32 \<Rightarrow> bool \<Rightarrow> IasAvbProcessingResult \<times> 'a IasLocalAudioStream_scheme \<Rightarrow>
     IasAvbProcessingResult \<times> 'a IasLocalAudioStream_scheme" where
  "init_rings 0 i env totalSize readThreshold doAnalysis es = es"
| "init_rings (Suc n) i env totalSize readThreshold doAnalysis es =
     (let s = snd es in
      if \<not> env_new_buffer env i then (eIasAvbProcNotEnoughMemory, s)
      else
        let (error, b) = lab_init (totalSize + 1) doAnalysis (env_samples env i) lab_new in
        if error \<noteq> eIasAvbProcOK then (error, s)
        else
          let (error, b) = setReadThreshold readThreshold b;
              s = s\<lparr>mChannelBuffers := mChannelBuffers s @ [b],
                    mDiag := (mDiag s)\<lparr>bufferReadThreshold := readThreshold\<rparr>\<rparr>
          in if error \<noteq> eIasAvbProcOK then (error, s)
             else init_rings n (Suc i) env totalSize readThreshold False (error, s))"

definition local_init ::
  "local_env \<Rightarrow> u8 \<Rightarrow> u16 \<Rightarrow> bool \<Rightarrow> u32 \<Rightarrow> u32 \<Rightarrow> u32 \<Rightarrow> 'a IasLocalAudioStream_scheme \<Rightarrow>
     (IasAvbProcessingResult \<times> 'a IasLocalAudioStream_scheme) option" where
  "local_init env channelLayout numChannels sideChannel totalSize sampleFrequency alsaPeriodSize s =
     (if sampleFrequency = 0 \<or> numChannels = 0 \<or> numChannels = 1 \<and> sideChannel
      then Some (eIasAvbProcInvalidParam, s)
      else if local_isInitialized s then Some (eIasAvbProcInitializationFailed, s)
      else
        let s = s\<lparr>mNumChannels := numChannels, mChannelLayout := channelLayout,
                  mHasSideChannel := sideChannel, mSampleFrequency := sampleFrequency\<rparr> in
        if totalSize = 0 then Some (eIasAvbProcOK, s)
        else do {
          let s = s\<lparr>mDiag := (mDiag s)\<lparr>totalBufferSize := totalSize\<rparr>\<rparr>;
          let s = (if mType s = eIasAlsaStream
                   then s\<lparr>mDescMode := snd (getConfigValue cast_desc_mode (env_registry env) cAudioTstampBuffer (mDescMode s))\<rparr>
                   else s);
          (error, readThreshold, s) \<leftarrow>
            (if mType s = eIasAlsaStream \<and> hasBufferDesc s then init_desc env totalSize alsaPeriodSize s
             else Some (eIasAvbProcOK, 0, s));
          let (error, s) = init_rings (unat numChannels) 0 env totalSize readThreshold True (error, s);
          Some (error, if error \<noteq> eIasAvbProcOK then local_cleanup s else s)
        })"

section \<open>Time stamps\<close>

definition updateRxTimestamp ::
  "ptp_time \<Rightarrow> u32 \<Rightarrow> 'a IasLocalAudioStream_scheme \<Rightarrow> 'a IasLocalAudioStream_scheme option" where
  "updateRxTimestamp ptp timestamp s =
     (if \<not> mPtpProxy s then None
      else
        let epoch = ptp_epochCounter ptp; high = (0xFFFFFFFF00000000 :: u64) in
        Some (if mLastTimeStamp s = 0 \<or> epoch \<noteq> mEpoch s then
                let now = ptp_localTime ptp;
                    t = (now AND high) + ucast timestamp
                in s\<lparr>mEpoch := epoch,
                     mLastTimeStamp := (if 0 <s timestamp - ucast now \<and> timestamp < ucast now
                                        then t + 0x100000000 else t)\<rparr>
              else if ucast (mLastTimeStamp s) < timestamp then
                s\<lparr>mLastTimeStamp := (mLastTimeStamp s AND high) + ucast timestamp\<rparr>
              else
                s\<lparr>mLastTimeStamp := ((mLastTimeStamp s + 0x100000000) AND high) + ucast timestamp\<rparr>))"

text \<open>The offset of a read position inside a descriptor: interpolated towards the next descriptor, or
  estimated from the sample frequency.\<close>

definition tstampOffset ::
  "AudioBufferDesc \<Rightarrow> u64 \<Rightarrow> 'a IasLocalAudioStream_scheme \<Rightarrow> u64 option" where
  "tstampOffset desc samplesSent s =
     do {
       q \<leftarrow> mBufferDescQ s;
       let (ret, descY) = peekX no_desc 1 q;
       if ret = eIasAvbProcOK \<and> timeStamp descY > timeStamp desc \<and> bufIndex descY > bufIndex desc
       then do {
         timePerSample \<leftarrow> ddiv (double_of_u64 (timeStamp descY - timeStamp desc))
                            (double_of_u64 (bufIndex descY - bufIndex desc));
         u64_of_double (dmul timePerSample (double_of_u64 samplesSent))
       }
       else do {
         seconds \<leftarrow> ddiv (double_of_u64 samplesSent) (double_of_u32 (mSampleFrequency s));
         u64_of_double (dmul seconds 1000000000)
       }
     }"

definition getCurrentTimestamp :: "'a IasLocalAudioStream_scheme \<Rightarrow> u64 option" where
  "getCurrentTimestamp s =
     (if \<not> hasBufferDesc s then Some 0
      else do {
        q \<leftarrow> mBufferDescQ s;
        let (ret, desc) = peek no_desc q;
        if ret \<noteq> eIasAvbProcOK then Some 0
        else do {
          ringBuf \<leftarrow> fetch (mChannelBuffers s) 0;
          let t = timeStamp desc + ucast (mLaunchTimeDelay s);
          let readIndex = mMonotonicReadIndex ringBuf;
          if readIndex \<noteq> bufIndex desc
          then map_option ((+) t) (tstampOffset desc (readIndex - bufIndex desc) s)
          else Some t
        }
      })"

section \<open>Writing\<close>

text \<open>\<^verbatim>\<open>mClient->signalDiscontinuity\<close>, and the reset if the client asks for it.\<close>

definition signal_reset ::
  "('c, 'a IasLocalAudioStream_scheme) stream_client \<Rightarrow> DiscontinuityEvent \<Rightarrow> u32 \<Rightarrow>
     'c \<times> 'a IasLocalAudioStream_scheme \<Rightarrow> ('c \<times> 'a IasLocalAudioStream_scheme) option" where
  "signal_reset client event numSamples cs =
     do {
       (reset, cs) \<leftarrow> c_signalDiscontinuity client event numSamples cs;
       if reset then do {
         (c, s) \<leftarrow> c_resetBuffers client cs;
         Some (c, s\<lparr>mDiag := (mDiag s)\<lparr>resetBuffersCount := resetBuffersCount (mDiag s) + 1\<rparr>\<rparr>)
       }
       else Some cs
     }"

text \<open>The check for room on channel 0 and the reset request of the queue.\<close>

definition write_prepare ::
  "('c, 'a IasLocalAudioStream_scheme) stream_client \<Rightarrow> u32 \<Rightarrow> 'c \<times> 'a IasLocalAudioStream_scheme \<Rightarrow>
     ('c \<times> 'a IasLocalAudioStream_scheme) option" where
  "write_prepare client bufferSize cs =
     do {
       ringBuf \<leftarrow> fetch (mChannelBuffers (snd cs)) 0;
       let remaining = (ucast (mTotalSize ringBuf - getFillLevel ringBuf - 1) :: u16);
       cs \<leftarrow> (if bufferSize > ucast remaining \<and> mClient (snd cs) \<and> mClientState (snd cs) = eIasActive
              then signal_reset client eIasOverrun (bufferSize - ucast remaining) cs else Some cs);
       (requested, s) \<leftarrow> on_descQ (\<lambda>q. Some (getResetRequest q)) (snd cs);
       Some (fst cs,
             if requested
             then s\<lparr>mEpoch := 0, mLastTimeStamp := 0, mLastSampleCnt := 0, mPendingSamples := 0,
                    mPendingDesc := no_desc\<rparr>
             else s)
     }"

text \<open>The pending descriptor takes up the samples just written, \<open>writeIndex\<close> being the monotonic index
  behind them.\<close>

definition extend_pending ::
  "ptp_time \<Rightarrow> u32 \<Rightarrow> u64 \<Rightarrow> u16 \<Rightarrow> 'a IasLocalAudioStream_scheme \<Rightarrow> 'a IasLocalAudioStream_scheme option" where
  "extend_pending ptp timestamp writeIndex samplesWritten s =
     (let d = mPendingDesc s in
      if timeStamp d = 0 then do {
        let prev = mLastTimeStamp s;
        s \<leftarrow> updateRxTimestamp ptp timestamp s;
        let now = mLastTimeStamp s;
        if sampleCnt d = 0 then
          Some (s\<lparr>mPendingDesc := \<lparr>timeStamp = now + ucast (mAudioRxDelay s),
                                   bufIndex = writeIndex - ucast samplesWritten,
                                   sampleCnt = ucast samplesWritten\<rparr>\<rparr>)
        else do {
          timeOffset \<leftarrow>
            (if now > prev \<and> mLastSampleCnt s > sampleCnt d then do {
               timePerSample \<leftarrow> ddiv (double_of_u64 (now - prev)) (double_of_u32 (mLastSampleCnt s));
               u64_of_double (dmul timePerSample (double_of_u32 (mLastSampleCnt s - sampleCnt d)))
             }
             else Some 0);
          Some (s\<lparr>mPendingDesc := d\<lparr>timeStamp := prev + timeOffset + ucast (mAudioRxDelay s),
                                    sampleCnt := sampleCnt d + ucast samplesWritten\<rparr>\<rparr>)
        }
      }
      else Some (s\<lparr>mPendingDesc := d\<lparr>sampleCnt := sampleCnt d + ucast samplesWritten\<rparr>\<rparr>))"

text \<open>A full period is enqueued; the samples beyond it start the next descriptor.\<close>

definition enqueue_period ::
  "ptp_time \<Rightarrow> u32 \<Rightarrow> u64 \<Rightarrow> u32 \<Rightarrow> 'a IasLocalAudioStream_scheme \<Rightarrow> 'a IasLocalAudioStream_scheme option" where
  "enqueue_period ptp timestamp writeIndex bufferSize s =
     (let s = s\<lparr>mPendingSamples := mPendingSamples s + bufferSize\<rparr> in
      if mPendingSamples s \<ge> mPeriodSz s then do {
        let overflow = mPendingSamples s - mPeriodSz s;
        (_, s) \<leftarrow> on_descQ (\<lambda>q. map_option (Pair ()) (enqueue ((mPendingDesc s)\<lparr>sampleCnt := mPeriodSz s\<rparr>) q)) s;
        let s = s\<lparr>mPendingDesc := no_desc, mPendingSamples := 0, mLastSampleCnt := 0\<rparr>;
        if overflow \<noteq> 0 then do {
          s \<leftarrow> updateRxTimestamp ptp timestamp (s\<lparr>mPendingSamples := overflow, mLastSampleCnt := bufferSize\<rparr>);
          Some (s\<lparr>mPendingDesc := \<lparr>timeStamp = 0, bufIndex = writeIndex - ucast overflow, sampleCnt = overflow\<rparr>\<rparr>)
        }
        else Some s
      }
      else Some s)"

text \<open>\<^verbatim>\<open>writeLocalAudioBuffer\<close>: \<open>ptp\<close> are the answers to the first and the second time query.\<close>

definition writeLocalAudioBuffer ::
  "('c, 'a IasLocalAudioStream_scheme) stream_client \<Rightarrow> ptp_time \<times> ptp_time \<Rightarrow> u16 \<Rightarrow> AudioData list option \<Rightarrow>
     u32 \<Rightarrow> u16 \<Rightarrow> u32 \<Rightarrow> 'c \<times> 'a IasLocalAudioStream_scheme \<Rightarrow>
     (IasAvbProcessingResult \<times> u16 \<times> 'c \<times> 'a IasLocalAudioStream_scheme) option" where
  "writeLocalAudioBuffer client ptp channelIdx buffer bufferSize samplesWritten timestamp cs =
     (let s = snd cs in
      if \<not> local_isInitialized s then Some (eIasAvbProcNotInitialized, samplesWritten, cs)
      else if channelIdx \<ge> mNumChannels s \<or> buffer = None \<or> bufferSize = 0
      then Some (eIasAvbProcInvalidParam, samplesWritten, cs)
      else if \<not> mWorkerRunning s then Some (eIasAvbProcOK, samplesWritten, cs)
      else do {
        let useDesc = hasBufferDesc s;
        cs \<leftarrow> (if useDesc \<and> channelIdx = 0 then write_prepare client bufferSize cs else Some cs);
        (n, s) \<leftarrow> on_ring (unat channelIdx) (lab_write (the buffer) bufferSize) (snd cs);
        let samplesWritten = (ucast n :: u16);
        if bufferSize \<noteq> ucast samplesWritten \<and> mClient s \<and> mClientState s = eIasActive
        then do {
          cs \<leftarrow> signal_reset client eIasOverrun (bufferSize - ucast samplesWritten) (fst cs, s);
          Some (eIasAvbProcOK, samplesWritten, cs)
        }
        else if useDesc \<and> samplesWritten \<noteq> 0 \<and> unat channelIdx = unat (mNumChannels s) - 1
        then do {
          ringBuf \<leftarrow> fetch (mChannelBuffers s) (unat channelIdx);
          s \<leftarrow> extend_pending (fst ptp) timestamp (mMonotonicWriteIndex ringBuf) samplesWritten s;
          s \<leftarrow> enqueue_period (snd ptp) timestamp (mMonotonicWriteIndex ringBuf) bufferSize s;
          Some (eIasAvbProcOK, samplesWritten, fst cs, s)
        }
        else Some (eIasAvbProcOK, samplesWritten, fst cs, s)
      })"

section \<open>Reading\<close>

text \<open>The loop that removes the descriptors read completely; \<open>n\<close> bounds its rounds.\<close>

primrec drop_used :: "nat \<Rightarrow> u64 \<Rightarrow> AudioBufferDesc \<Rightarrow> IasLocalAudioBufferDesc \<Rightarrow> IasLocalAudioBufferDesc" where
  "drop_used 0 curReadIndex desc q = q"
| "drop_used (Suc n) curReadIndex desc q =
     (if bufIndex desc + ucast (sampleCnt desc) \<le> curReadIndex then
        let (_, desc, q) = dequeue desc q; (ret, desc) = peek desc q
        in if ret = eIasAvbProcOK then drop_used n curReadIndex desc q else q
      else q)"

text \<open>Reading with descriptors: the number of samples, the memory of the caller and the time stamp.\<close>

definition read_with_desc ::
  "u16 \<Rightarrow> AudioData list \<Rightarrow> u32 \<Rightarrow> u16 \<Rightarrow> u64 \<Rightarrow> 'a IasLocalAudioStream_scheme \<Rightarrow>
     (u16 \<times> AudioData list \<times> u64 \<times> 'a IasLocalAudioStream_scheme) option" where
  "read_with_desc channelIdx buffer bufferSize samplesRead stamp s =
     do {
       q \<leftarrow> mBufferDescQ s;
       let (ret, desc) = peek no_desc q;
       if ret \<noteq> eIasAvbProcOK then Some (samplesRead, buffer, stamp, s)
       else do {
         ringBuf \<leftarrow> fetch (mChannelBuffers s) (unat channelIdx);
         let readIndex = mMonotonicReadIndex ringBuf;
         ((n, buffer), s) \<leftarrow> on_ring (unat channelIdx)
           (\<lambda>b. map_option (\<lambda>(n, buffer, b). ((n, buffer), b)) (lab_read buffer bufferSize b)) s;
         ringBuf \<leftarrow> fetch (mChannelBuffers s) (unat channelIdx);
         let lastChannel = (unat channelIdx = unat (mNumChannels s) - 1);
         if bufIndex desc \<le> readIndex \<and> readIndex < bufIndex desc + ucast (sampleCnt desc) then do {
           let t = timeStamp desc + ucast (mLaunchTimeDelay s);
           t \<leftarrow> (if readIndex \<noteq> bufIndex desc
                 then map_option ((+) t) (tstampOffset desc (readIndex - bufIndex desc) s)
                 else Some t);
           Some (ucast n, buffer, t,
                 if lastChannel
                 then s\<lparr>mBufferDescQ := Some (drop_used (length (mDescQ q)) (mMonotonicReadIndex ringBuf) desc q)\<rparr>
                 else s)
         }
         else
           Some (ucast n, buffer, stamp,
                 if lastChannel then s\<lparr>mBufferDescQ := Some (snd (snd (dequeue desc q)))\<rparr> else s)
       }
     }"

definition readLocalAudioBuffer ::
  "('c, 'a IasLocalAudioStream_scheme) stream_client \<Rightarrow> u16 \<Rightarrow> AudioData list option \<Rightarrow> u32 \<Rightarrow> u16 \<Rightarrow> u64 \<Rightarrow>
     'c \<times> 'a IasLocalAudioStream_scheme \<Rightarrow>
     (IasAvbProcessingResult \<times> AudioData list option \<times> u16 \<times> u64 \<times> 'c \<times> 'a IasLocalAudioStream_scheme) option"
where
  "readLocalAudioBuffer client channelIdx buffer bufferSize samplesRead stamp cs =
     (let s = snd cs in
      if \<not> local_isInitialized s then Some (eIasAvbProcNotInitialized, buffer, samplesRead, stamp, cs)
      else if channelIdx \<ge> mNumChannels s \<or> buffer = None \<or> bufferSize = 0
      then Some (eIasAvbProcInvalidParam, buffer, samplesRead, stamp, cs)
      else do {
        ringBuf \<leftarrow> fetch (mChannelBuffers s) (unat channelIdx);
        if hasBufferDesc s \<and> \<not> mReadReady ringBuf then Some (eIasAvbProcOK, buffer, 0, stamp, cs)
        else do {
          (samplesRead, mem, stamp, s) \<leftarrow>
            (if hasBufferDesc s then read_with_desc channelIdx (the buffer) bufferSize samplesRead stamp s
             else do {
               ((n, mem), s) \<leftarrow> on_ring (unat channelIdx)
                 (\<lambda>b. map_option (\<lambda>(n, mem, b). ((n, mem), b)) (lab_read (the buffer) bufferSize b)) s;
               Some (ucast n, mem, 0, s)
             });
          cs \<leftarrow> (if samplesRead = 0 \<and> mClient s \<and> mClientState s = eIasActive
                 then signal_reset client eIasUnderrun (bufferSize - ucast samplesRead) (fst cs, s)
                 else Some (fst cs, s));
          Some (eIasAvbProcOK, Some mem, samplesRead, stamp, cs)
        }
      })"

text \<open>The smallest fill level of the channels from \<open>i\<close> on.\<close>

primrec min_fill :: "nat \<Rightarrow> nat \<Rightarrow> u32 \<Rightarrow> 'a IasLocalAudioStream_scheme \<Rightarrow> u32 option" where
  "min_fill 0 i lowest s = Some lowest"
| "min_fill (Suc n) i lowest s =
     do { b \<leftarrow> fetch (mChannelBuffers s) i; min_fill n (Suc i) (min lowest (getFillLevel b)) s }"

primrec dump_loop ::
  "nat \<Rightarrow> nat \<Rightarrow> ('c, 'a IasLocalAudioStream_scheme) stream_client \<Rightarrow> u16 \<Rightarrow> 'c \<times> 'a IasLocalAudioStream_scheme \<Rightarrow>
     ('c \<times> 'a IasLocalAudioStream_scheme) option" where
  "dump_loop 0 i client numSamples cs = Some cs"
| "dump_loop (Suc n) i client numSamples cs =
     do {
       (_, _, _, _, cs) \<leftarrow> readLocalAudioBuffer client (of_nat i) (Some (replicate (unat numSamples) 0))
                              (ucast numSamples) 0 0 cs;
       dump_loop n (Suc i) client numSamples cs
     }"

definition dumpFromLocalAudioBuffer ::
  "('c, 'a IasLocalAudioStream_scheme) stream_client \<Rightarrow> u16 \<Rightarrow> 'c \<times> 'a IasLocalAudioStream_scheme \<Rightarrow>
     (IasAvbProcessingResult \<times> u16 \<times> 'c \<times> 'a IasLocalAudioStream_scheme) option" where
  "dumpFromLocalAudioBuffer client numSamples cs =
     (let s = snd cs in
      if \<not> local_isInitialized s \<or> mChannelBuffers s = [] then Some (eIasAvbProcNotInitialized, numSamples, cs)
      else do {
        b \<leftarrow> fetch (mChannelBuffers s) 0;
        fill \<leftarrow> min_fill (unat (mNumChannels s) - 1) 1 (getFillLevel b) s;
        let numSamples = (if fill < ucast numSamples then ucast fill else numSamples);
        cs \<leftarrow> dump_loop (unat (mNumChannels s)) 0 client numSamples cs;
        Some (eIasAvbProcOK, numSamples, cs)
      })"

section \<open>Connection and activity\<close>

text \<open>\<^verbatim>\<open>uint32_t(double(a) * double(b) / 1e9)\<close>\<close>

definition scaled_1e9 :: "u32 \<Rightarrow> u32 \<Rightarrow> u32 option" where
  "scaled_1e9 a b = do { q \<leftarrow> ddiv (dmul (double_of_u32 a) (double_of_u32 b)) 1000000000; u32_of_double q }"

text \<open>The loop that raises the read thresholds and resets the rings; \<open>n\<close> counts the channels left.\<close>

primrec raise_thresholds ::
  "nat \<Rightarrow> nat \<Rightarrow> u32 \<Rightarrow> 'a IasLocalAudioStream_scheme \<Rightarrow> 'a IasLocalAudioStream_scheme option" where
  "raise_thresholds 0 i threshold s = Some s"
| "raise_thresholds (Suc n) i threshold s =
     do {
       (_, s) \<leftarrow> on_ring i (\<lambda>b. lab_reset 0 (snd (setReadThreshold threshold b))) s;
       raise_thresholds n (Suc i) threshold (s\<lparr>mDiag := (mDiag s)\<lparr>bufferReadThreshold := threshold\<rparr>\<rparr>)
     }"

definition raise_tx_threshold ::
  "('c, 'a IasLocalAudioStream_scheme) stream_client \<Rightarrow> 'c \<Rightarrow> 'a IasLocalAudioStream_scheme \<Rightarrow>
     (u32 \<times> 'a IasLocalAudioStream_scheme) option" where
  "raise_tx_threshold client c s =
     do {
       periodCycle \<leftarrow> samples_ns (mPeriodSz s) (mSampleFrequency s);
       clientMin \<leftarrow> c_getMinTransmitBufferSize client periodCycle c;
       minTxBufSz \<leftarrow> ceil_quot_times (double_of_u32 clientMin)
                       (double_of_u32 (mPeriodSz s)) (mPeriodSz s);
       delayTx \<leftarrow> samples_ns minTxBufSz (mSampleFrequency s);
       ringBuf \<leftarrow> fetch (mChannelBuffers s) 0;
       s \<leftarrow> (if mReadThreshold ringBuf < minTxBufSz then do {
               s \<leftarrow> raise_thresholds (unat (mNumChannels s)) 0 minTxBufSz s;
               (_, s) \<leftarrow> on_descQ (\<lambda>q. Some ((), desc_reset q)) s;
               Some (s\<lparr>mLaunchTimeDelay := delayTx\<rparr>)
             }
             else Some s);
       Some (minTxBufSz, s)
     }"

text \<open>\<^verbatim>\<open>connect\<close>: the buffer size computed at the end is only compared with the size of the rings for a
  warning. Its conversions are kept, since they are undefined for a period of 0.\<close>

definition local_connect ::
  "('c, 'a IasLocalAudioStream_scheme) stream_client \<Rightarrow> 'c option \<Rightarrow> 'a IasLocalAudioStream_scheme \<Rightarrow>
     (IasAvbProcessingResult \<times> 'a IasLocalAudioStream_scheme) option" where
  "local_connect client c s =
     (case c of
        None \<Rightarrow> Some (eIasAvbProcInvalidParam, s)
      | Some c \<Rightarrow>
          if mClient s then Some (eIasAvbProcAlreadyInUse, s)
          else
            let s = s\<lparr>mClient := True, mClientState := eIasIdle\<rparr> in
            if \<not> hasBufferDesc s then Some (eIasAvbProcOK, s)
            else do {
              _ \<leftarrow> fetch (mChannelBuffers s) 0;
              maxTransmitTime \<leftarrow> c_getMaxTransmitTime client c;
              minRxBufSz \<leftarrow> scaled_1e9 (maxTransmitTime + mAudioRxDelay s) (mSampleFrequency s);
              (minTxBufSz, s) \<leftarrow> (if mDirection s = eIasAvbTransmitToNetwork then raise_tx_threshold client c s
                                   else Some (0, s));
              q \<leftarrow> ddiv (double_of_u32 (max minTxBufSz minRxBufSz)) (double_of_u32 (mPeriodSz s));
              _ \<leftarrow> u32_of_double (dmul (dadd (of_int \<lceil>q\<rceil>) 1) (double_of_u32 (mPeriodSz s)));
              Some (eIasAvbProcOK, s)
            })"

definition local_disconnect ::
  "'a IasLocalAudioStream_scheme \<Rightarrow> IasAvbProcessingResult \<times> 'a IasLocalAudioStream_scheme" where
  "local_disconnect s = (eIasAvbProcOK, s\<lparr>mClientState := eIasNotConnected, mClient := False\<rparr>)"

text \<open>The runtime value of the synchronous start mode is read again from the queue.\<close>

definition recheck_sync_start :: "'a IasLocalAudioStream_scheme \<Rightarrow> 'a IasLocalAudioStream_scheme option" where
  "recheck_sync_start s =
     (if IasLocalAudioStream.mAlsaRxSyncStart s \<and> hasBufferDesc s \<and> mDirection s = eIasAvbReceiveFromNetwork
      then map_option (\<lambda>q. s\<lparr>IasLocalAudioStream.mAlsaRxSyncStart := IasLocalAudioBufferDesc.mAlsaRxSyncStart q\<rparr>)
             (mBufferDescQ s)
      else Some s)"

definition local_setClientActive ::
  "('c, 'a IasLocalAudioStream_scheme) stream_client \<Rightarrow> bool \<Rightarrow> 'c \<times> 'a IasLocalAudioStream_scheme \<Rightarrow>
     ('c \<times> 'a IasLocalAudioStream_scheme) option" where
  "local_setClientActive client active cs =
     (if \<not> mClient (snd cs) then Some cs
      else do {
        s \<leftarrow> recheck_sync_start (snd cs);
        if active then
          if mClientState s \<noteq> eIasActive then do {
            let s = s\<lparr>mClientState := eIasActive\<rparr>;
            cs \<leftarrow> (if IasLocalAudioStream.mAlsaRxSyncStart s then Some (fst cs, s) else c_resetBuffers client (fst cs, s));
            let s = (snd cs)\<lparr>mLastTimeStamp := 0, mEpoch := 0\<rparr>;
            s \<leftarrow> (if hasBufferDesc s \<and> mDirection s = eIasAvbTransmitToNetwork then flush_all s else Some s);
            Some (fst cs, s)
          }
          else Some (fst cs, s)
        else do {
          let s = s\<lparr>mClientState := eIasIdle\<rparr>;
          s \<leftarrow> (if IasLocalAudioStream.mAlsaRxSyncStart s then flush_all s else Some s);
          Some (fst cs, s)
        }
      })"

definition local_setWorkerActive ::
  "bool \<Rightarrow> 'a IasLocalAudioStream_scheme \<Rightarrow> 'a IasLocalAudioStream_scheme option" where
  "local_setWorkerActive active s =
     (if \<not> hasBufferDesc s then Some s
      else
        let s = s\<lparr>mWorkerRunning := active\<rparr> in
        if \<not> mWorkerRunning s \<and> mDirection s = eIasAvbReceiveFromNetwork then flush_all s else Some s)"

end
