(* ===== verification/Stream_Timing.thy ===== *)
theory Stream_Timing
  imports Local_Audio_Stream
begin

text \<open>
  The time stamps of a local audio stream (\<^verbatim>\<open>IasLocalAudioStream.cpp\<close>): the expansion of the 32-bit
  presentation times of received packets, the descriptors that record them for every period of
  samples, and the interpolated times handed to the transmitter.
\<close>

section \<open>The 64-bit time stamps\<close>

lemma eq_of_nat: "unat x = n \<Longrightarrow> x = of_nat n"
  by auto

lemma split_time:
  obtains a r :: nat where "T = a * 4294967296 + r" "r < 4294967296" "T div 2 ^ 32 = a" "T mod 2 ^ 32 = r"
  by (rule that [of "T div 2 ^ 32" "T mod 2 ^ 32"]) simp_all

lemma unat_high_low:
  fixes x :: u64 and t :: u32
  shows "unat ((x AND 0xFFFFFFFF00000000) + ucast t) = unat x div 2 ^ 32 * 2 ^ 32 + unat t"
proof -
  have "(0xFFFFFFFF00000000 :: u64) = NOT (mask 32)" by (simp add: mask_eq_exp_minus_1)
  moreover have "x AND NOT (mask 32) = push_bit 32 (drop_bit 32 x)"
    by (rule bit_word_eqI) (auto simp: bit_simps)
  ultimately have "x AND 0xFFFFFFFF00000000 = x div 2 ^ 32 * 2 ^ 32"
    by (simp add: push_bit_eq_mult drop_bit_eq_div)
  moreover have d: "unat x div 2 ^ 32 < 2 ^ 32" using unat_lt [of x] by (simp add: less_mult_imp_div_less)
  ultimately have "unat (x AND 0xFFFFFFFF00000000) = unat x div 2 ^ 32 * 2 ^ 32"
    by (simp add: unat_mult_small unat_div)
  moreover have "unat (ucast t :: u64) = unat t" by (simp add: unat_ucast_up)
  moreover have "unat x div 2 ^ 32 * 2 ^ 32 + unat t < 2 ^ 64"
    using d unat_lt [of t] by simp
  ultimately show ?thesis by (simp add: unat_add_small)
qed

lemma unat_high_low_wrap:
  fixes x :: u64 and t :: u32
  assumes "unat x + 2 ^ 32 < 2 ^ 64"
  shows "unat (((x + 0x100000000) AND 0xFFFFFFFF00000000) + ucast t) = (unat x div 2 ^ 32 + 1) * 2 ^ 32 + unat t"
proof -
  have "unat (x + 0x100000000) = unat x + 2 ^ 32" using assms by (simp add: unat_add_small)
  then show ?thesis using unat_high_low [of "x + 0x100000000" t] by simp
qed

lemma signed_later:
  fixes T N :: nat
  assumes "T < N + 2 ^ 31" "N < T + 2 ^ 31"
  shows "0 <s (of_nat T - of_nat N :: u32) \<longleftrightarrow> N < T"
proof -
  let ?d = "int T - int N"
  have "(of_nat T - of_nat N :: u32) = of_int ?d" by simp
  moreover have "signed_take_bit 31 ?d = ?d"
    using assms by (intro signed_take_bit_int_eq_self) auto
  ultimately have "sint (of_nat T - of_nat N :: u32) = ?d" by (simp only: signed_of_int) simp
  then show ?thesis by (simp add: word_sless_alt)
qed

text \<open>A packet with presentation time \<open>T\<close> less than \<open>2 ^ 31\<close> ns away from now.\<close>

lemma updateRxTimestamp_first:
  fixes T N :: nat
  assumes ptp: "mPtpProxy s" "ptp_localTime p = of_nat N"
    and first: "mLastTimeStamp s = 0 \<or> ptp_epochCounter p \<noteq> mEpoch s"
    and near: "T < N + 2 ^ 31" "N < T + 2 ^ 31" and range: "N < 2 ^ 63"
  shows "updateRxTimestamp p (of_nat T) s =
    Some (s\<lparr>mEpoch := ptp_epochCounter p,
            mLastTimeStamp := of_nat (if T div 2 ^ 32 < N div 2 ^ 32 then T + 2 ^ 32 else T)\<rparr>)"
proof -
  let ?ts = "of_nat T :: u32" and ?now = "of_nat N :: u64"
  let ?x = "(?now AND 0xFFFFFFFF00000000) + ucast ?ts" and ?y = "N div 2 ^ 32 * 2 ^ 32 + T mod 2 ^ 32"
  have N: "unat ?now = N" using range by (simp add: unat_of_nat)
  have low: "ucast ?now = (of_nat N :: u32)" by (rule bit_word_eqI) (simp add: bit_simps)
  have lt: "(?ts < of_nat N) = (T mod 2 ^ 32 < N mod 2 ^ 32)"
    by (simp add: word_less_nat_alt unat_of_nat)
  have "unat ?x = ?y" using unat_high_low [of ?now ?ts] N by (simp add: unat_of_nat)
  then have x: "?x = of_nat ?y" by (rule eq_of_nat)
  have wrap: "0x100000000 = (of_nat (2 ^ 32) :: u64)" by simp
  obtain a r where T: "T = a * 4294967296 + r" "r < 4294967296" "T div 2 ^ 32 = a" "T mod 2 ^ 32 = r"
    by (rule split_time)
  obtain b q where Nq: "N = b * 4294967296 + q" "q < 4294967296" "N div 2 ^ 32 = b" "N mod 2 ^ 32 = q"
    by (rule split_time)
  have pow: "(2 :: nat) ^ 32 = 4294967296" by simp
  have near': "T < N + 2147483648" "N < T + 2147483648" using near by simp_all
  consider "N \<le> T" "a = b" | "T < N" "a = b" | "N < T" "a = b + 1" | "T < N" "b = a + 1"
    using near' T(1,2) Nq(1,2) by linarith
  then have "(if N < T \<and> r < q then b * 4294967296 + r + 4294967296 else b * 4294967296 + r)
      = (if a < b then T + 4294967296 else T)"
  proof cases
    case 3
    then have "r < q" using near' T Nq by linarith
    then show ?thesis using 3 T(1) by simp
  qed (use T(1) Nq(1) in auto)
  then have "(if N < T \<and> T mod 2 ^ 32 < N mod 2 ^ 32 then ?y + 2 ^ 32 else ?y)
      = (if T div 2 ^ 32 < N div 2 ^ 32 then T + 2 ^ 32 else T)"
    unfolding T(3,4) Nq(3,4) unfolding pow .
  from arg_cong [OF this, of "of_nat :: nat \<Rightarrow> u64"]
  have eq: "(if N < T \<and> T mod 2 ^ 32 < N mod 2 ^ 32 then ?x + 0x100000000 else ?x)
      = of_nat (if T div 2 ^ 32 < N div 2 ^ 32 then T + 2 ^ 32 else T)"
    unfolding x wrap of_nat_add [symmetric] by (simp only: if_distrib [of "of_nat :: nat \<Rightarrow> u64"])
  have "(0 <s ?ts - ucast ?now \<and> ?ts < ucast ?now) = (N < T \<and> T mod 2 ^ 32 < N mod 2 ^ 32)"
    by (simp only: low lt signed_later [OF near])
  with first eq show ?thesis
    unfolding updateRxTimestamp_def Let_def ptp(2) by (simp only: ptp(1) simp_thms if_True if_False)
qed

text \<open>A later packet.\<close>

lemma updateRxTimestamp_next:
  fixes T :: nat
  assumes ptp: "mPtpProxy s" "ptp_epochCounter p = mEpoch s" and later: "mLastTimeStamp s \<noteq> 0"
    "unat (mLastTimeStamp s) < T" "T \<le> unat (mLastTimeStamp s) + 2 ^ 32" and range: "T < 2 ^ 63"
  shows "updateRxTimestamp p (of_nat T) s = Some (s\<lparr>mLastTimeStamp := of_nat T\<rparr>)"
proof -
  let ?L = "unat (mLastTimeStamp s)"
  have ts: "unat (of_nat T :: u32) = T mod 2 ^ 32" by (simp add: unat_of_nat)
  have low: "unat (ucast (mLastTimeStamp s) :: u32) = ?L mod 2 ^ 32" by (simp add: unat_ucast_mod)
  obtain a r where T: "T = a * 4294967296 + r" "r < 4294967296" "T div 2 ^ 32 = a" "T mod 2 ^ 32 = r"
    by (rule split_time)
  obtain b q where L: "?L = b * 4294967296 + q" "q < 4294967296" "?L div 2 ^ 32 = b" "?L mod 2 ^ 32 = q"
    by (rule split_time)
  have later': "?L < T" "T \<le> ?L + 4294967296" using later by simp_all
  show ?thesis
  proof (cases "?L mod 2 ^ 32 < T mod 2 ^ 32")
    case True
    then have "q < r" unfolding T(4) L(4) .
    then have "a = b" using later' T(1,2) L(1,2) by linarith
    then have "unat ((mLastTimeStamp s AND 0xFFFFFFFF00000000) + ucast (of_nat T :: u32)) = T"
      using unat_high_low [of "mLastTimeStamp s" "of_nat T"] ts T(1) unfolding L(3) T(4) by simp
    then have "(mLastTimeStamp s AND 0xFFFFFFFF00000000) + ucast (of_nat T :: u32) = of_nat T"
      by (rule eq_of_nat)
    then show ?thesis
      using True ptp later by (simp add: updateRxTimestamp_def word_less_nat_alt ts low)
  next
    case False
    then have "r \<le> q" unfolding T(4) L(4) by simp
    then have "a = b + 1" using later' T(1,2) L(1,2) by linarith
    then have "unat (((mLastTimeStamp s + 0x100000000) AND 0xFFFFFFFF00000000) + ucast (of_nat T :: u32)) = T"
      using unat_high_low_wrap [of "mLastTimeStamp s" "of_nat T"] ts T(1) range later unfolding L(3) T(4) by simp
    then have "((mLastTimeStamp s + 0x100000000) AND 0xFFFFFFFF00000000) + ucast (of_nat T :: u32) = of_nat T"
      by (rule eq_of_nat)
    then show ?thesis
      using False ptp later by (simp add: updateRxTimestamp_def word_less_nat_alt ts low)
  qed
qed

section \<open>Descriptors tile the sample stream\<close>

definition desc_tiles :: "u64 \<Rightarrow> 'a IasLocalAudioStream_scheme \<Rightarrow> bool" where
  "desc_tiles W s \<longleftrightarrow> sampleCnt (mPendingDesc s) = mPendingSamples s \<and>
     unat (mPendingSamples s) < unat (mPeriodSz s) \<and> unat (mPeriodSz s) < 2 ^ 31 \<and>
     (if mPendingSamples s = 0 then mPendingDesc s = no_desc
      else bufIndex (mPendingDesc s) = W - ucast (mPendingSamples s))"

lemma updateRxTimestamp_Some:
  assumes ptp: "mPtpProxy s" and bound: "unat (mLastTimeStamp s) < B" "unat (ptp_localTime p) < B" "B \<le> 2 ^ 63"
  obtains e t where "updateRxTimestamp p ts s = Some (s\<lparr>mEpoch := e, mLastTimeStamp := t\<rparr>)"
    and "unat t < B + 2 ^ 33"
proof -
  have pow: "(2 :: nat) ^ 32 \<le> 2 ^ 33" by simp
  have m: "unat x div 2 ^ 32 * 2 ^ 32 + unat ts < unat x + 2 ^ 32" for x :: u64
    using unat_lt [of ts] by (intro add_le_less_mono) simp_all
  show thesis
  proof (cases "mLastTimeStamp s = 0 \<or> ptp_epochCounter p \<noteq> mEpoch s")
    case True
    let ?t = "(ptp_localTime p AND 0xFFFFFFFF00000000) + ucast ts"
    have t: "unat ?t < B + 2 ^ 32" using m [of "ptp_localTime p"] bound unfolding unat_high_low by linarith
    then have "unat (?t + 0x100000000) = unat ?t + 2 ^ 32" using bound by (subst unat_add_small) simp_all
    then have "unat (if c then ?t + 0x100000000 else ?t) < B + 2 ^ 33" for c using t by simp
    with ptp True show thesis
      by (intro that [where e = "ptp_epochCounter p"]) (simp_all only: updateRxTimestamp_def Let_def simp_thms if_True if_False)
  next
    case False
    have t: "unat ((mLastTimeStamp s AND 0xFFFFFFFF00000000) + ucast ts) < B + 2 ^ 33"
      using m [of "mLastTimeStamp s"] bound pow unfolding unat_high_low by linarith
    have "unat (mLastTimeStamp s) + 2 ^ 32 < 2 ^ 64" using bound by simp
    then have t': "unat (((mLastTimeStamp s + 0x100000000) AND 0xFFFFFFFF00000000) + ucast ts) < B + 2 ^ 33"
      using m [of "mLastTimeStamp s"] bound by (simp only: unat_high_low_wrap add_mult_distrib) (use pow in simp)
    show thesis
    proof (cases "ucast (mLastTimeStamp s) < ts")
      case True
      with ptp False t show thesis
        by (intro that [where e = "mEpoch s"]) (simp_all add: updateRxTimestamp_def Let_def)
    next
      case neg: False
      with ptp False t' show thesis
        by (intro that [where e = "mEpoch s"]) (simp_all add: updateRxTimestamp_def Let_def)
    qed
  qed
qed

lemma extend_pending_Some:
  assumes tiles: "desc_tiles W s" and ptp: "mPtpProxy s"
    and bound: "unat (mLastTimeStamp s) < 2 ^ 60" "unat (ptp_localTime p) < 2 ^ 60" and n: "n \<noteq> 0"
  obtains e t d where "extend_pending p ts (W + ucast n) n s =
      Some (s\<lparr>mEpoch := e, mLastTimeStamp := t, mPendingDesc := d\<rparr>)"
    and "unat t < 2 ^ 60 + 2 ^ 33" and "sampleCnt d = mPendingSamples s + ucast n"
    and "bufIndex d = W - ucast (mPendingSamples s)"
    and "timeStamp (mPendingDesc s) = 0 \<Longrightarrow> updateRxTimestamp p ts s = Some (s\<lparr>mEpoch := e, mLastTimeStamp := t\<rparr>)"
proof (cases "timeStamp (mPendingDesc s) = 0")
  case False
  then have "mPendingSamples s \<noteq> 0" using tiles by (auto simp: desc_tiles_def no_desc_def)
  then show thesis
    using False tiles bound
    by (intro that [where e = "mEpoch s" and t = "mLastTimeStamp s"
          and d = "(mPendingDesc s)\<lparr>sampleCnt := mPendingSamples s + ucast n\<rparr>"])
      (simp_all add: extend_pending_def desc_tiles_def Let_def)
next
  case True
  obtain e t where u: "updateRxTimestamp p ts s = Some (s\<lparr>mEpoch := e, mLastTimeStamp := t\<rparr>)"
    "unat t < 2 ^ 60 + 2 ^ 33"
    by (rule updateRxTimestamp_Some [OF ptp bound]) simp
  show thesis
  proof (cases "mPendingSamples s = 0")
    case zero: True
    then have "mPendingDesc s = no_desc" using tiles by (simp add: desc_tiles_def)
    then show thesis
      using u zero
      by (intro that [where e = e and t = t and d = "\<lparr>timeStamp = t + ucast (mAudioRxDelay s), bufIndex = W, sampleCnt = ucast n\<rparr>"])
        (simp_all add: extend_pending_def Let_def no_desc_def)
  next
    case nz: False
    let ?prev = "mLastTimeStamp s" and ?last = "mLastSampleCnt s" and ?cnt = "mPendingSamples s"
    have pend: "sampleCnt (mPendingDesc s) = ?cnt" "bufIndex (mPendingDesc s) = W - ucast ?cnt"
      using tiles nz by (simp_all add: desc_tiles_def)
    let ?d = "\<lambda>off. (mPendingDesc s)\<lparr>timeStamp := ?prev + off + ucast (mAudioRxDelay s), sampleCnt := ?cnt + ucast n\<rparr>"
    show thesis
    proof (cases "t > ?prev \<and> ?last > ?cnt")
      case c: True
      then have "unat (t - ?prev) \<le> unat t" by (simp add: unat_sub_small word_less_nat_alt)
      moreover have "unat t < 2 ^ 62" using u(2) by simp
      ultimately have a: "unat (t - ?prev) < 2 ^ 62" by linarith
      have b: "0 < unat ?last" "unat ?last < 2 ^ 64" "unat (?last - ?cnt) \<le> unat ?last"
        using c unat_lt [of ?last] by (simp_all add: word_less_nat_alt unat_sub_small)
      obtain off where "Option.bind (ddiv (double_of_u64 (t - ?prev)) (double_of_u32 ?last))
          (\<lambda>x. u64_of_double (dmul x (double_of_u32 (?last - ?cnt)))) = Some off"
        by (rule interpolate [OF a b]) (simp only: double_of_u32)
      then obtain x where x: "ddiv (double_of_u64 (t - ?prev)) (double_of_u32 ?last) = Some x"
        "u64_of_double (dmul x (double_of_u32 (?last - ?cnt))) = Some off"
        by (auto simp: bind_eq_Some_conv simp del: double_of_u32)
      show thesis
        by (rule that [where e = e and t = t and d = "?d off"])
          (use True u nz pend c x in \<open>simp_all add: extend_pending_def Let_def del: double_of_u32\<close>)
    next
      case c: False
      show thesis
        by (rule that [where e = e and t = t and d = "?d 0"])
          (use True u nz pend c in \<open>auto simp: extend_pending_def Let_def\<close>)
    qed
  qed
qed

lemma ucast_add_small:
  fixes a b :: u32
  assumes "unat a + unat b < 2 ^ 32"
  shows "(ucast (a + b) :: u64) = ucast a + ucast b"
proof (rule iffD2 [OF word_unat_eq_iff])
  have "unat a < 2 ^ 32" "unat b < 2 ^ 32" using assms by linarith+
  then have "unat (ucast a + ucast b :: u64) = unat a + unat b"
    using assms by (subst unat_add_small) (simp_all add: unat_ucast_up)
  then show "unat (ucast (a + b) :: u64) = unat (ucast a + ucast b :: u64)"
    using assms by (simp add: unat_ucast_up unat_add_small)
qed

lemma updateRxTimestamp_time:
  assumes "updateRxTimestamp p ts s = Some u" and "mPtpProxy s' = mPtpProxy s"
    and "mLastTimeStamp s' = mLastTimeStamp s" and "mEpoch s' = mEpoch s"
  shows "\<exists>u'. updateRxTimestamp p ts s' = Some u' \<and> mLastTimeStamp u' = mLastTimeStamp u \<and>
    mEpoch u' = mEpoch u \<and> mPtpProxy u' = mPtpProxy u"
  using assms by (auto simp: updateRxTimestamp_def Let_def split: if_splits)

lemma enqueue_period_Some:
  fixes bs :: u32
  assumes desc: "sampleCnt (mPendingDesc s) = mPendingSamples s + bs"
      "bufIndex (mPendingDesc s) = W - ucast (mPendingSamples s)"
    and sizes: "unat (mPendingSamples s) < unat (mPeriodSz s)" "unat (mPeriodSz s) < 2 ^ 31"
      "0 < unat bs" "unat bs \<le> unat (mPeriodSz s)"
    and ptp: "mPtpProxy s" "unat (mLastTimeStamp s) < 2 ^ 61" "unat (ptp_localTime p) < 2 ^ 61"
    and q: "mBufferDescQ s = Some q" "desc_ok q"
  obtains s' q' where "enqueue_period p ts (W + ucast bs) bs s = Some s'" and "desc_tiles (W + ucast bs) s'"
    and "mChannelBuffers s' = mChannelBuffers s" and "mBufferDescQ s' = Some q'" and "desc_ok q'"
    and "unat (mPendingSamples s) + unat bs < unat (mPeriodSz s) \<Longrightarrow> q' = q"
    and "unat (mPeriodSz s) \<le> unat (mPendingSamples s) + unat bs \<Longrightarrow>
      pending q' = drop (length (pending q) + 1 - unat (mDescQsz q))
        (pending q @ [(mPendingDesc s)\<lparr>sampleCnt := mPeriodSz s\<rparr>])"
    and "unat (mPeriodSz s) < unat (mPendingSamples s) + unat bs \<Longrightarrow>
      \<exists>u. updateRxTimestamp p ts s = Some u \<and> mLastTimeStamp s' = mLastTimeStamp u"
proof -
  let ?M = "mPendingSamples s" and ?P = "mPeriodSz s" and ?d = "mPendingDesc s"
  have sum: "unat (?M + bs) = unat ?M + unat bs" using sizes by (intro unat_add_small) simp
  have wide: "(ucast (?M + bs) :: u64) = ucast ?M + ucast bs" using sizes by (intro ucast_add_small) simp
  show thesis
  proof (cases "unat ?M + unat bs < unat ?P")
    case True
    then have lt: "\<not> ?M + bs \<ge> ?P" by (simp add: word_le_nat_alt sum)
    let ?s = "s\<lparr>mPendingSamples := ?M + bs\<rparr>"
    have "?M + bs \<noteq> 0" using sum sizes(3) by (auto simp: unat_eq_0 simp flip: unat_eq_0)
    then have tiles: "desc_tiles (W + ucast bs) ?s"
      using desc sizes True by (simp add: desc_tiles_def sum wide)
    show thesis
      by (rule that [of ?s q]) (use lt tiles q True in \<open>simp_all add: enqueue_period_def Let_def\<close>)
  next
    case False
    then have ge: "?M + bs \<ge> ?P" by (simp add: word_le_nat_alt sum)
    let ?o = "?M + bs - ?P"
    have o: "unat ?o = unat ?M + unat bs - unat ?P" using False sum by (subst unat_sub_small) simp_all
    obtain q' where q': "enqueue (?d\<lparr>sampleCnt := ?P\<rparr>) q = Some q'" "desc_ok q'"
      "pending q' = drop (length (pending q) + 1 - unat (mDescQsz q)) (pending q @ [?d\<lparr>sampleCnt := ?P\<rparr>])"
      by (rule enqueue_pending [OF q(2)])
    let ?s = "s\<lparr>mPendingSamples := 0, mBufferDescQ := Some q', mPendingDesc := no_desc, mLastSampleCnt := 0\<rparr>"
    show thesis
    proof (cases "?o = 0")
      case True
      have "desc_tiles (W + ucast bs) ?s" using sizes by (simp add: desc_tiles_def no_desc_def)
      moreover have "unat ?M + unat bs = unat ?P" using True o False by (simp add: unat_eq_0 [symmetric])
      ultimately show thesis
        by (intro that [of ?s q'])
          (use ge True q q' False in \<open>simp_all add: enqueue_period_def Let_def on_descQ_def\<close>)
    next
      case nz: False
      let ?s1 = "?s\<lparr>mPendingSamples := ?o, mLastSampleCnt := bs\<rparr>"
      have "mPtpProxy ?s1" "unat (mLastTimeStamp ?s1) < 2 ^ 61" using ptp by simp_all
      then obtain e t where u: "updateRxTimestamp p ts ?s1 = Some (?s1\<lparr>mEpoch := e, mLastTimeStamp := t\<rparr>)"
        by (rule updateRxTimestamp_Some [OF _ _ ptp(3)]) simp_all
      let ?s2 = "?s1\<lparr>mEpoch := e, mLastTimeStamp := t,
          mPendingDesc := \<lparr>timeStamp = 0, bufIndex = W + ucast bs - ucast ?o, sampleCnt = ?o\<rparr>\<rparr>"
      have "desc_tiles (W + ucast bs) ?s2"
        using sizes nz o by (simp add: desc_tiles_def)
      moreover have "\<exists>v. updateRxTimestamp p ts s = Some v \<and> mLastTimeStamp ?s2 = mLastTimeStamp v"
        using updateRxTimestamp_time [OF u, of s] by auto
      ultimately show thesis
        by (intro that [of ?s2 q'])
          (use ge nz q q' False u in \<open>simp_all add: enqueue_period_def Let_def on_descQ_def\<close>)
    qed
  qed
qed

section \<open>A write to the last channel\<close>

lemma write_last_channel:
  fixes n :: u32
  assumes ready: "local_isInitialized s" "mWorkerRunning s" "hasBufferDesc s"
    and ch: "unat ch + 1 = unat (mNumChannels s)" "ch \<noteq> 0" "length (mChannelBuffers s) = unat (mNumChannels s)"
    and ring: "lab_ok (mChannelBuffers s ! unat ch)" "unat n \<le> room (mChannelBuffers s ! unat ch)"
    and n: "0 < unat n" "unat n < 2 ^ 16" "unat n \<le> length buf"
  obtains b' where "lab_ok b'" and "content b' = content (mChannelBuffers s ! unat ch) @ take (unat n) buf"
    and "mMonotonicWriteIndex b' = mMonotonicWriteIndex (mChannelBuffers s ! unat ch) + ucast n"
    and "writeLocalAudioBuffer client ptp ch (Some buf) n sw ts (c, s) =
      do {
        s \<leftarrow> extend_pending (fst ptp) ts (mMonotonicWriteIndex b') (ucast n)
               (s\<lparr>mChannelBuffers := (mChannelBuffers s)[unat ch := b']\<rparr>);
        s \<leftarrow> enqueue_period (snd ptp) ts (mMonotonicWriteIndex b') n s;
        Some (eIasAvbProcOK, ucast n, c, s)
      }"
proof -
  let ?b = "mChannelBuffers s ! unat ch"
  have min: "min (unat n) (room ?b) = unat n" using ring(2) by simp
  have src: "min (unat n) (room ?b) \<le> length buf" using n(3) by simp
  obtain b' where b': "lab_write buf n ?b = Some (of_nat (min (unat n) (room ?b)), b')" "lab_ok b'"
    "content b' = content ?b @ take (min (unat n) (room ?b)) buf"
    "mMonotonicWriteIndex b' = mMonotonicWriteIndex ?b + of_nat (min (unat n) (room ?b))"
    by (rule lab_write_ok [OF ring(1) src]) blast
  have idx: "unat ch < length (mChannelBuffers s)" "\<not> ch \<ge> mNumChannels s"
    using ch by (simp_all add: word_le_nat_alt)
  have w: "mMonotonicWriteIndex b' = mMonotonicWriteIndex ?b + ucast n" "lab_write buf n ?b = Some (n, b')"
    using b'(1,4) min by simp_all
  have full: "ucast (ucast n :: u16) = n" "ucast n \<noteq> (0 :: u16)"
  proof -
    have u: "unat (ucast n :: u16) = unat n" using n(2) by (intro unat_ucast_small) simp
    then have "unat (ucast (ucast n :: u16) :: u32) = unat n" by (simp add: unat_ucast_up)
    then show "ucast (ucast n :: u16) = n" by (simp only: word_unat_eq_iff)
    show "ucast n \<noteq> (0 :: u16)" using u n(1) by auto
  qed
  have nz: "n \<noteq> 0" using n(1) by auto
  have last: "unat ch = unat (mNumChannels s) - 1" using ch(1) by simp
  have content: "content b' = content ?b @ take (unat n) buf" using b'(3) min by simp
  have "writeLocalAudioBuffer client ptp ch (Some buf) n sw ts (c, s) =
      do {
        s \<leftarrow> extend_pending (fst ptp) ts (mMonotonicWriteIndex b') (ucast n)
               (s\<lparr>mChannelBuffers := (mChannelBuffers s)[unat ch := b']\<rparr>);
        s \<leftarrow> enqueue_period (snd ptp) ts (mMonotonicWriteIndex b') n s;
        Some (eIasAvbProcOK, ucast n, c, s)
      }"
    using ready ch(2) idx full nz last w(2)
    by (simp add: writeLocalAudioBuffer_def Let_def on_ring_def fetch_Some)
  then show thesis by (rule that [OF b'(2) content w(1)])
qed

lemma write_last_step:
  fixes n :: u32
  assumes ready: "local_isInitialized s" "mWorkerRunning s" "hasBufferDesc s" "mPtpProxy s"
    and ch: "unat ch + 1 = unat (mNumChannels s)" "ch \<noteq> 0" "length (mChannelBuffers s) = unat (mNumChannels s)"
    and ring: "mChannelBuffers s ! unat ch = b" "lab_ok b" "unat n \<le> room b"
    and n: "0 < unat n" "unat n < 2 ^ 16" "unat n \<le> length buf" "unat n \<le> unat (mPeriodSz s)"
    and tiles: "desc_tiles (mMonotonicWriteIndex b) s" and q: "mBufferDescQ s = Some q" "desc_ok q"
    and time: "unat (mLastTimeStamp s) < 2 ^ 60" "unat (ptp_localTime p1) < 2 ^ 60" "unat (ptp_localTime p2) < 2 ^ 60"
  obtains s' q' where "writeLocalAudioBuffer client (p1, p2) ch (Some buf) n sw ts (c, s) =
      Some (eIasAvbProcOK, ucast n, c, s')"
    and "content (mChannelBuffers s' ! unat ch) = content b @ take (unat n) buf"
    and "desc_tiles (mMonotonicWriteIndex (mChannelBuffers s' ! unat ch)) s'"
    and "mBufferDescQ s' = Some q'" and "desc_ok q'"
    and "unat (mPendingSamples s) + unat n < unat (mPeriodSz s) \<Longrightarrow> q' = q"
    and "unat (mPeriodSz s) \<le> unat (mPendingSamples s) + unat n \<Longrightarrow>
      \<exists>d. pending q' = drop (length (pending q) + 1 - unat (mDescQsz q)) (pending q @ [d]) \<and>
          bufIndex d = mMonotonicWriteIndex b - ucast (mPendingSamples s) \<and> sampleCnt d = mPeriodSz s"
    and "timeStamp (mPendingDesc s) = 0 \<Longrightarrow> unat (mPeriodSz s) < unat (mPendingSamples s) + unat n \<Longrightarrow>
      \<exists>u v. updateRxTimestamp p1 ts s = Some u \<and> updateRxTimestamp p2 ts u = Some v \<and>
        mLastTimeStamp s' = mLastTimeStamp v"
proof -
  obtain b' where b': "lab_ok b'" "content b' = content b @ take (unat n) buf"
    "mMonotonicWriteIndex b' = mMonotonicWriteIndex b + ucast n"
    and run: "writeLocalAudioBuffer client (p1, p2) ch (Some buf) n sw ts (c, s) =
      do {
        s \<leftarrow> extend_pending p1 ts (mMonotonicWriteIndex b') (ucast n)
               (s\<lparr>mChannelBuffers := (mChannelBuffers s)[unat ch := b']\<rparr>);
        s \<leftarrow> enqueue_period p2 ts (mMonotonicWriteIndex b') n s;
        Some (eIasAvbProcOK, ucast n, c, s)
      }"
    by (rule write_last_channel [OF ready(1-3) ch, of n buf client "(p1, p2)" sw ts c]) (use ring n in auto)
  let ?W = "mMonotonicWriteIndex b" and ?s = "s\<lparr>mChannelBuffers := (mChannelBuffers s)[unat ch := b']\<rparr>"
  have small: "unat (ucast n :: u16) = unat n" using n(2) by (intro unat_ucast_small) simp
  have wide: "(ucast (ucast n :: u16) :: u64) = ucast n" "(ucast (ucast n :: u16) :: u32) = n"
    by (simp_all only: word_unat_eq_iff) (simp_all add: unat_ucast_up small)
  have "ucast n \<noteq> (0 :: u16)" using small n(1) by auto
  moreover have "desc_tiles ?W ?s" "mPtpProxy ?s" "unat (mLastTimeStamp ?s) < 2 ^ 60"
    using tiles ready(4) time(1) by (simp_all add: desc_tiles_def)
  ultimately obtain e t d where ext: "extend_pending p1 ts (?W + ucast (ucast n :: u16)) (ucast n) ?s =
      Some (?s\<lparr>mEpoch := e, mLastTimeStamp := t, mPendingDesc := d\<rparr>)"
    "unat t < 2 ^ 60 + 2 ^ 33" "sampleCnt d = mPendingSamples ?s + ucast (ucast n :: u16)"
    "bufIndex d = ?W - ucast (mPendingSamples ?s)"
    "timeStamp (mPendingDesc ?s) = 0 \<Longrightarrow> updateRxTimestamp p1 ts ?s = Some (?s\<lparr>mEpoch := e, mLastTimeStamp := t\<rparr>)"
    by (rule_tac extend_pending_Some [of ?W ?s p1 "ucast n" ts]) (use time(2) in auto)
  let ?s2 = "?s\<lparr>mEpoch := e, mLastTimeStamp := t, mPendingDesc := d\<rparr>"
  have t: "unat t < 2 ^ 61" "unat (ptp_localTime p2) < 2 ^ 61" using ext(2) time(3) by simp_all
  obtain s' q' where enq: "enqueue_period p2 ts (?W + ucast n) n ?s2 = Some s'" "desc_tiles (?W + ucast n) s'"
    "mChannelBuffers s' = mChannelBuffers ?s2" "mBufferDescQ s' = Some q'" "desc_ok q'"
    "unat (mPendingSamples ?s2) + unat n < unat (mPeriodSz ?s2) \<Longrightarrow> q' = q"
    "unat (mPeriodSz ?s2) \<le> unat (mPendingSamples ?s2) + unat n \<Longrightarrow>
       pending q' = drop (length (pending q) + 1 - unat (mDescQsz q))
         (pending q @ [(mPendingDesc ?s2)\<lparr>sampleCnt := mPeriodSz ?s2\<rparr>])"
    "unat (mPeriodSz ?s2) < unat (mPendingSamples ?s2) + unat n \<Longrightarrow>
      \<exists>u. updateRxTimestamp p2 ts ?s2 = Some u \<and> mLastTimeStamp s' = mLastTimeStamp u"
    by (rule enqueue_period_Some [of ?s2 n ?W p2 q ts])
      (use ext tiles n ready(4) t q in \<open>simp_all add: desc_tiles_def wide\<close>)
  have result: "writeLocalAudioBuffer client (p1, p2) ch (Some buf) n sw ts (c, s) = Some (eIasAvbProcOK, ucast n, c, s')"
    using ext(1) enq(1) by (simp add: run b'(3) wide)
  have ring': "mChannelBuffers s' ! unat ch = b'" using enq(3) ch(1,3) by simp
  have twice: "\<exists>u v. updateRxTimestamp p1 ts s = Some u \<and> updateRxTimestamp p2 ts u = Some v \<and>
      mLastTimeStamp s' = mLastTimeStamp v"
    if fresh: "timeStamp (mPendingDesc s) = 0" and over: "unat (mPeriodSz s) < unat (mPendingSamples s) + unat n"
  proof -
    have "\<exists>u. updateRxTimestamp p1 ts s = Some u \<and> mLastTimeStamp u = t \<and> mEpoch u = e \<and>
        mPtpProxy u = mPtpProxy ?s2"
      using updateRxTimestamp_time [OF ext(5), of s] fresh by simp
    then obtain u where u: "updateRxTimestamp p1 ts s = Some u" "mLastTimeStamp u = t" "mEpoch u = e"
      "mPtpProxy u = mPtpProxy ?s2" by blast
    obtain w where w: "updateRxTimestamp p2 ts ?s2 = Some w" "mLastTimeStamp s' = mLastTimeStamp w"
      using enq(8) over by auto
    then obtain v where "updateRxTimestamp p2 ts u = Some v" "mLastTimeStamp v = mLastTimeStamp w"
      using updateRxTimestamp_time [OF w(1), of u] u by auto
    with u w show ?thesis by auto
  qed
  show thesis
  proof (rule that [OF result _ _ enq(4,5) _ _ twice])
    show "content (mChannelBuffers s' ! unat ch) = content b @ take (unat n) buf" using b'(2) ring' by simp
    show "desc_tiles (mMonotonicWriteIndex (mChannelBuffers s' ! unat ch)) s'" using b'(3) ring' enq(2) by simp
    show "q' = q" if "unat (mPendingSamples s) + unat n < unat (mPeriodSz s)" using enq(6) that by simp
    show "\<exists>d. pending q' = drop (length (pending q) + 1 - unat (mDescQsz q)) (pending q @ [d]) \<and>
          bufIndex d = ?W - ucast (mPendingSamples s) \<and> sampleCnt d = mPeriodSz s"
      if "unat (mPeriodSz s) \<le> unat (mPendingSamples s) + unat n"
      using enq(7) ext(4) that by (intro exI [of _ "d\<lparr>sampleCnt := mPeriodSz s\<rparr>"]) simp
  qed
qed

section \<open>Initialisation\<close>

lemma samples_ns_Some:
  assumes f: "f \<noteq> 0" and x: "unat x \<le> 4 * unat f"
  obtains r where "samples_ns x f = Some r"
proof -
  let ?x = "of_nat (unat x) :: rat" and ?f = "of_nat (unat f) :: rat" and ?e = "1 + 1 / 2 ^ 53 :: rat"
  have f_pos: "0 < unat f" using f by (simp add: unat_gt_0)
  then have fr: "0 < ?f" by (simp only: of_nat_0_less_iff)
  have "?x \<le> of_nat (4 * unat f)" using x by (simp only: of_nat_le_iff)
  then have quot: "?x / ?f \<le> 4" "0 \<le> ?x / ?f" using fr by (simp add: divide_le_eq)
    (rule divide_nonneg_pos [OF of_nat_0_le_iff fr])
  have q: "0 \<le> fl (?x / ?f)" "fl (?x / ?f) \<le> 4"
  proof -
    show "0 \<le> fl (?x / ?f)" using quot(2) by (rule fl_nonneg)
    have "fl (?x / ?f) \<le> fl (of_nat 4)" using quot by (intro fl_mono) simp_all
    then show "fl (?x / ?f) \<le> 4" using fl_of_nat [of 4] by simp
  qed
  let ?t = "fl (fl (?x / ?f) * 1000000000)"
  have "?t \<le> fl (of_nat 4000000000)" using q by (intro fl_mono) simp_all
  then have t: "0 \<le> ?t" "?t \<le> 4000000000"
    using fl_of_nat [of 4000000000] q(1) by (simp_all add: fl_nonneg)
  then have "\<lfloor>?t\<rfloor> < 2 ^ 32" "0 \<le> \<lfloor>?t\<rfloor>" by (simp_all add: floor_less_iff)
  then have "samples_ns x f = Some (of_int \<lfloor>?t\<rfloor>)"
    using t(1) fr f_pos by (simp add: samples_ns_def ddiv_def dmul_def u32_of_double_def trunc_def)
  then show thesis by (rule that)
qed

lemma init_rings_OK:
  assumes "\<And>i. env_new_buffer env i" "\<And>i. env_samples env i \<noteq> None" and "thr \<le> totalSize + 1" and "0 < n"
  shows "\<exists>s'. init_rings n i env totalSize thr a es = (eIasAvbProcOK, s') \<and> mPtpProxy s' = mPtpProxy (snd es) \<and>
    mSampleFrequency s' = mSampleFrequency (snd es) \<and> mDescMode s' = mDescMode (snd es)"
  using assms(4)
proof (induction n arbitrary: i a es)
  case (Suc n)
  obtain mem where mem: "env_samples env i = Some mem" using assms(2) by blast
  let ?b = "lab_new\<lparr>mTotalSize := totalSize + 1, mDoAnalysis := a, mBuffer := Some mem, mReadThreshold := thr\<rparr>"
  let ?s = "(snd es)\<lparr>mChannelBuffers := mChannelBuffers (snd es) @ [?b],
      mDiag := (mDiag (snd es))\<lparr>bufferReadThreshold := thr\<rparr>\<rparr>"
  have step: "init_rings (Suc n) i env totalSize thr a es
      = init_rings n (Suc i) env totalSize thr False (eIasAvbProcOK, ?s)"
    using assms mem by (simp add: lab_init_def setReadThreshold_def Let_def)
  show ?case
  proof (cases "n = 0")
    case True
    then show ?thesis unfolding step by simp
  next
    case False
    then show ?thesis unfolding step using Suc.IH [of "Suc i" False "(eIasAvbProcOK, ?s)"] by simp
  qed
qed simp

section \<open>Examples\<close>

definition example_local_stream :: IasLocalAudioStream where
  "example_local_stream = (local_stream_new eIasAvbReceiveFromNetwork eIasAlsaStream 1)
     \<lparr>mNumChannels := 2, mSampleFrequency := 48000,
      mChannelBuffers := replicate 2 (snd (lab_init 17 False (Some (replicate 17 0)) lab_new)),
      mBufferDescQ := Some (desc_new None 4), mDescMode := eIasAudioBufferDescModeFailSafe, mPtpProxy := True,
      mLastTimeStamp := 5000000000, mPeriodSz := 8\<rparr>"

definition example_ptp :: ptp_time where
  "example_ptp = \<lparr>ptp_epochCounter = 0, ptp_localTime = 5000000500\<rparr>"

lemmas example_local =
  example_local_stream_def local_stream_new_def lab_init_def lab_new_def local_isInitialized_def
  hasBufferDesc_def desc_tiles_def no_desc_def

lemma example_ring:
  "lab_ok (snd (lab_init 17 False (Some (replicate 17 0)) lab_new))"
  "room (snd (lab_init 17 False (Some (replicate 17 0)) lab_new)) = 16"
  by (simp_all add: lab_ok_def room_def content_def fill_def lab_init_def lab_new_def)

section \<open>Properties\<close>

text \<open>C18. The 32-bit presentation time of a received packet is expanded to 64 bits: for the first packet
  relative to the local time, right for a packet that is not late or whose time lies in the current
  period of \<open>2 ^ 32\<close> ns, but \<open>2 ^ 32\<close> ns too high for a late packet across a wrap-around; for every later
  packet relative to the one before, right for times that grow by at most \<open>2 ^ 32\<close> ns.\<close>

theorem rx_timestamp_expansion:
  fixes T N :: nat
  assumes ptp: "mPtpProxy s" and range: "T < 2 ^ 63" "N < 2 ^ 63" "ptp_localTime p = of_nat N"
  shows "((mLastTimeStamp s = 0 \<or> ptp_epochCounter p \<noteq> mEpoch s) \<and> T < N + 2 ^ 31 \<and> N < T + 2 ^ 31 \<longrightarrow>
      updateRxTimestamp p (of_nat T) s =
        Some (s\<lparr>mEpoch := ptp_epochCounter p,
                mLastTimeStamp := of_nat (if T div 2 ^ 32 < N div 2 ^ 32 then T + 2 ^ 32 else T)\<rparr>)) \<and>
    (ptp_epochCounter p = mEpoch s \<and> mLastTimeStamp s \<noteq> 0 \<and> unat (mLastTimeStamp s) < T \<and>
      T \<le> unat (mLastTimeStamp s) + 2 ^ 32 \<longrightarrow>
      updateRxTimestamp p (of_nat T) s = Some (s\<lparr>mLastTimeStamp := of_nat T\<rparr>))"
  using updateRxTimestamp_first [OF ptp range(3) _ _ _ range(2)] updateRxTimestamp_next [OF ptp _ _ _ _ range(1)]
  by blast


text \<open>C39. If the first packet of a descriptor also completes its period and leaves samples over, the
  64-bit time is expanded twice from the same time stamp, and the second expansion takes the equal
  time stamp for a wrap-around: the stream's time runs ahead of the packet's time \<open>T\<close> by \<open>2 ^ 32\<close> ns.\<close>

theorem rx_time_jumps:
  fixes n :: u32
  assumes ready: "local_isInitialized s" "mWorkerRunning s" "hasBufferDesc s" "mPtpProxy s"
    and ch: "unat ch + 1 = unat (mNumChannels s)" "ch \<noteq> 0" "length (mChannelBuffers s) = unat (mNumChannels s)"
    and ring: "mChannelBuffers s ! unat ch = b" "lab_ok b" "unat n \<le> room b"
    and n: "0 < unat n" "unat n < 2 ^ 16" "unat n \<le> length buf" "unat n \<le> unat (mPeriodSz s)"
    and tiles: "desc_tiles (mMonotonicWriteIndex b) s" and q: "mBufferDescQ s = Some q" "desc_ok q"
    and time: "unat (mLastTimeStamp s) < 2 ^ 60" "unat (ptp_localTime p1) < 2 ^ 60" "unat (ptp_localTime p2) < 2 ^ 60"
    and packet: "ptp_epochCounter p1 = mEpoch s" "ptp_epochCounter p2 = mEpoch s" "mLastTimeStamp s \<noteq> 0"
      "unat (mLastTimeStamp s) < T" "T \<le> unat (mLastTimeStamp s) + 2 ^ 32" "ts = of_nat T"
    and short: "timeStamp (mPendingDesc s) = 0" "unat (mPeriodSz s) < unat (mPendingSamples s) + unat n"
  shows "\<exists>s'. writeLocalAudioBuffer client (p1, p2) ch (Some buf) n sw ts (c, s) =
      Some (eIasAvbProcOK, ucast n, c, s') \<and> unat (mLastTimeStamp s') = T + 2 ^ 32"
proof -
  obtain s' u v where run: "writeLocalAudioBuffer client (p1, p2) ch (Some buf) n sw ts (c, s) =
      Some (eIasAvbProcOK, ucast n, c, s')"
    and uv: "updateRxTimestamp p1 ts s = Some u" "updateRxTimestamp p2 ts u = Some v"
      "mLastTimeStamp s' = mLastTimeStamp v"
    by (rule write_last_step [OF ready ch ring n tiles q time, of client sw ts c]) (use short in blast)
  have T: "T < 2 ^ 61" using packet(5) time(1) by simp
  then have u: "u = s\<lparr>mLastTimeStamp := of_nat T\<rparr>"
    using uv(1) updateRxTimestamp_next [OF ready(4) packet(1,3,4,5)] packet(6) by simp
  have unat_T: "unat (of_nat T :: u64) = T" using T by (simp add: unat_of_nat)
  have "updateRxTimestamp p2 (of_nat (T + 2 ^ 32)) u = Some (u\<lparr>mLastTimeStamp := of_nat (T + 2 ^ 32)\<rparr>)"
  proof (rule updateRxTimestamp_next)
    show "mLastTimeStamp u \<noteq> 0" using unat_T packet(4) by (auto simp: u simp flip: unat_eq_0)
  qed (use ready(4) packet(2) unat_T T u in simp_all)
  moreover have "(of_nat (T + 2 ^ 32) :: u32) = ts" using packet(6) by simp
  ultimately have "mLastTimeStamp s' = of_nat (T + 2 ^ 32)" using uv(2,3) by simp
  moreover have "unat (of_nat (T + 2 ^ 32) :: u64) = T + 2 ^ 32" using T by (simp only: unat_of_nat) simp
  ultimately show ?thesis using run by auto
qed

text \<open>A failure to set up the time-aware mode is lost, because creating the sample rings overwrites the
  error: without the time proxy \<^verbatim>\<open>init\<close> returns OK and leaves a stream that works with descriptors, and
  the first time stamp it receives goes through the NULL proxy.\<close>

theorem init_loses_error:
  assumes fresh: "\<not> local_isInitialized s" "mType s = eIasAlsaStream"
    and params: "sampleFrequency \<noteq> 0" "numChannels \<noteq> 0" "\<not> (numChannels = 1 \<and> sideChannel)" "totalSize \<noteq> 0"
    and mode: "snd (getConfigValue cast_desc_mode (env_registry env) cAudioTstampBuffer (mDescMode s))
      = eIasAudioBufferDescModeFailSafe"
    and period: "reduced_period env alsaPeriodSize sampleFrequency = Some period" "period \<noteq> 0"
    and thresholds: "read_thresholds env (config_u32 env cAudioBaseFillMultiplier 15) period = Some (rx, tx)"
      "unat rx \<le> 4 * unat sampleFrequency" "unat tx \<le> 4 * unat sampleFrequency"
      "rx \<le> totalSize + 1" "tx \<le> totalSize + 1"
    and memory: "\<And>i. env_new_buffer env i" "\<And>i. env_samples env i \<noteq> None" "env_new_descQ env" "env_new_nullData env"
    and no_proxy: "env_ptpProxy env = None"
  shows "\<exists>s'. local_init env channelLayout numChannels sideChannel totalSize sampleFrequency alsaPeriodSize s
      = Some (eIasAvbProcOK, s') \<and> local_isInitialized s' \<and> hasBufferDesc s' \<and>
    (\<forall>p ts. updateRxTimestamp p ts s' = None)"
proof -
  obtain dr dt where d: "samples_ns rx sampleFrequency = Some dr" "samples_ns tx sampleFrequency = Some dt"
    using samples_ns_Some [OF params(1) thresholds(2)] samples_ns_Some [OF params(1) thresholds(3)] by metis
  let ?s1 = "s\<lparr>mNumChannels := numChannels, mChannelLayout := channelLayout, mHasSideChannel := sideChannel,
      mSampleFrequency := sampleFrequency, mDiag := (mDiag s)\<lparr>totalBufferSize := totalSize\<rparr>,
      mDescMode := eIasAudioBufferDescModeFailSafe\<rparr>"
  have "\<exists>thr s2. init_desc env totalSize alsaPeriodSize ?s1 = Some (eIasAvbProcInitializationFailed, thr, s2) \<and>
      thr \<le> totalSize + 1 \<and> \<not> mPtpProxy s2 \<and> mSampleFrequency s2 = sampleFrequency \<and>
      mDescMode s2 = eIasAudioBufferDescModeFailSafe"
    using period thresholds d memory(3,4) no_proxy
    by (simp add: init_desc_def init_descQ_def Let_def split_beta split del: if_split) simp
  then obtain thr s2 where s2: "init_desc env totalSize alsaPeriodSize ?s1 = Some (eIasAvbProcInitializationFailed, thr, s2)"
    "thr \<le> totalSize + 1" "\<not> mPtpProxy s2" "mSampleFrequency s2 = sampleFrequency"
    "mDescMode s2 = eIasAudioBufferDescModeFailSafe" by blast
  have "0 < unat numChannels" using params(2) by (simp add: unat_gt_0)
  from init_rings_OK [OF memory(1,2) s2(2) this, of 0 True "(eIasAvbProcInitializationFailed, s2)"]
  obtain s' where s': "init_rings (unat numChannels) 0 env totalSize thr True (eIasAvbProcInitializationFailed, s2)
      = (eIasAvbProcOK, s')" "\<not> mPtpProxy s'" "mSampleFrequency s' = sampleFrequency"
    "mDescMode s' = eIasAudioBufferDescModeFailSafe"
    using s2 by auto
  have "local_init env channelLayout numChannels sideChannel totalSize sampleFrequency alsaPeriodSize s
      = Some (eIasAvbProcOK, s')"
    using fresh params mode s2(1) s'(1) by (simp add: local_init_def hasBufferDesc_def Let_def)
  then show ?thesis
    using s' params(1) by (simp add: local_isInitialized_def hasBufferDesc_def updateRxTimestamp_def)
qed

text \<open>C19. Inside the oldest descriptor the time stamps handed to the transmitter grow with the read position
  and never pass the time stamp of the next descriptor, in spite of two roundings of doubles, for
  descriptors less than \<open>2 ^ 51\<close> ns apart.\<close>

theorem tx_timestamps_interpolated:
  assumes q: "mBufferDescQ s = Some q" "pending q = x # y # rest"
    and order: "timeStamp x < timeStamp y" "bufIndex x < bufIndex y"
    and near: "unat (timeStamp y - timeStamp x) < 2 ^ 51" "unat (bufIndex y - bufIndex x) < 2 ^ 53"
    and inside: "k1 \<le> k2" "k2 \<le> bufIndex y - bufIndex x"
  shows "\<exists>o1 o2. tstampOffset x k1 s = Some o1 \<and> tstampOffset x k2 s = Some o2 \<and>
    o1 \<le> o2 \<and> o2 \<le> timeStamp y - timeStamp x"
proof -
  let ?a = "timeStamp y - timeStamp x" and ?b = "bufIndex y - bufIndex x"
  have peek: "peekX no_desc 1 q = (eIasAvbProcOK, y)" by (simp add: peekX_pending q)
  have a: "unat ?a < 2 ^ 62" using near(1) by simp
  have b: "0 < unat ?b" "unat ?b < 2 ^ 64"
    using order(2) near(2) by (simp_all add: unat_gt_0 word_less_nat_alt unat_sub_small)
  have k: "unat k1 \<le> unat k2" "unat k2 \<le> unat ?b" using inside by (simp_all add: word_le_nat_alt)
  then have k1: "unat k1 \<le> unat ?b" by simp
  have exact: "double_of_u64 w = of_nat (unat w)" if "unat w \<le> unat ?b" for w
  proof -
    have "unat w < 2 ^ 53" using that near(2) by linarith
    then show ?thesis by (simp only: double_of_u64_def fl_of_nat)
  qed
  have offset: "tstampOffset x w s = Option.bind (ddiv (double_of_u64 ?a) (of_nat (unat ?b)))
      (\<lambda>t. u64_of_double (dmul t (of_nat (unat w))))" if "unat w \<le> unat ?b" for w
    unfolding tstampOffset_def q(1) bind.bind_lunit peek Let_def split_conv exact [OF that] exact [OF order_refl]
    using order by simp
  let ?r = "\<lambda>w. fl (fl (double_of_u64 ?a / of_nat (unat ?b)) * of_nat (unat w))"
  obtain o1 where o1: "tstampOffset x k1 s = Some o1" "unat o1 = nat \<lfloor>?r k1\<rfloor>"
    by (rule interpolate [OF a b k1]) (simp only: offset [OF k1])
  obtain o2 where o2: "tstampOffset x k2 s = Some o2" "unat o2 = nat \<lfloor>?r k2\<rfloor>" "unat o2 \<le> unat ?a"
    by (rule interpolate [OF a b k(2)]) (use near(1) in \<open>simp only: offset [OF k(2)]\<close>)
  have "0 \<le> double_of_u64 ?a" using double_of_u64_bounds(1) [OF a] by linarith
  then have "0 \<le> fl (double_of_u64 ?a / of_nat (unat ?b))"
    by (intro fl_nonneg divide_nonneg_nonneg of_nat_0_le_iff)
  then have "?r k1 \<le> ?r k2"
    using k(1) by (intro fl_mono mult_left_mono mult_nonneg_nonneg of_nat_mono of_nat_0_le_iff)
  then have "unat o1 \<le> unat o2" using o1(2) o2(2) by (simp add: nat_mono floor_mono)
  then show ?thesis using o1(1) o2 by (auto simp: word_le_nat_alt)
qed

theorem rx_timestamp_expansion_witness:
  "updateRxTimestamp example_ptp (of_nat 5000001000) example_local_stream
     = Some (example_local_stream\<lparr>mLastTimeStamp := 5000001000\<rparr>)"
  using rx_timestamp_expansion [of example_local_stream 5000001000 5000000500 example_ptp]
  by (simp add: example_local example_ptp_def)

definition example_client :: "(unit, IasLocalAudioStream) stream_client" where
  "example_client =
     \<lparr>c_signalDiscontinuity = (\<lambda>_ _ cs. Some (False, cs)), c_getMaxTransmitTime = (\<lambda>_. Some 2000000),
      c_getMinTransmitBufferSize = (\<lambda>_ _. Some 256), c_resetBuffers = Some\<rparr>"


definition example_short_stream :: IasLocalAudioStream where
  "example_short_stream = example_local_stream
     \<lparr>mChannelBuffers := replicate 2 ((snd (lab_init 17 False (Some (replicate 17 0)) lab_new))\<lparr>mMonotonicWriteIndex := 4\<rparr>),
      mPendingSamples := 4, mPendingDesc := \<lparr>timeStamp = 0, bufIndex = 0, sampleCnt = 4\<rparr>\<rparr>"

lemma example_short_ring:
  "lab_ok ((snd (lab_init 17 False (Some (replicate 17 0)) lab_new))\<lparr>mMonotonicWriteIndex := 4\<rparr>)"
  "room ((snd (lab_init 17 False (Some (replicate 17 0)) lab_new))\<lparr>mMonotonicWriteIndex := 4\<rparr>) = 16"
  by (simp_all add: lab_ok_def room_def content_def fill_def lab_init_def lab_new_def)

theorem rx_time_jumps_witness:
  "\<exists>s'. writeLocalAudioBuffer example_client (example_ptp, example_ptp) 1 (Some [1, 2, 3, 4, 5, 6]) 6 0 (of_nat 5000001000)
      ((), example_short_stream) = Some (eIasAvbProcOK, 6, (), s') \<and> unat (mLastTimeStamp s') = 5000001000 + 2 ^ 32"
proof -
  have "\<exists>s'. writeLocalAudioBuffer example_client (example_ptp, example_ptp) 1 (Some [1, 2, 3, 4, 5, 6]) 6 0 (of_nat 5000001000)
      ((), example_short_stream) = Some (eIasAvbProcOK, ucast (6 :: u32), (), s') \<and>
      unat (mLastTimeStamp s') = 5000001000 + 2 ^ 32"
    by (rule rx_time_jumps [where b = "(snd (lab_init 17 False (Some (replicate 17 0)) lab_new))\<lparr>mMonotonicWriteIndex := 4\<rparr>"
          and q = "desc_new None 4"])
      (use example_short_ring in \<open>simp_all add: example_short_stream_def example_local example_ptp_def desc_new_def desc_ok_def\<close>)
  then show ?thesis by simp
qed

theorem tx_timestamps_interpolated_witness:
  "\<exists>o1 o2. tstampOffset \<lparr>timeStamp = 7000000000, bufIndex = 0, sampleCnt = 8\<rparr> 3 (example_local_stream
      \<lparr>mBufferDescQ := Some ((desc_new None 4)\<lparr>mDescQ := [\<lparr>timeStamp = 7000166667, bufIndex = 8, sampleCnt = 8\<rparr>,
         \<lparr>timeStamp = 7000000000, bufIndex = 0, sampleCnt = 8\<rparr>]\<rparr>)\<rparr>) = Some o1 \<and>
    tstampOffset \<lparr>timeStamp = 7000000000, bufIndex = 0, sampleCnt = 8\<rparr> 5 (example_local_stream
      \<lparr>mBufferDescQ := Some ((desc_new None 4)\<lparr>mDescQ := [\<lparr>timeStamp = 7000166667, bufIndex = 8, sampleCnt = 8\<rparr>,
         \<lparr>timeStamp = 7000000000, bufIndex = 0, sampleCnt = 8\<rparr>]\<rparr>)\<rparr>) = Some o2 \<and> o1 \<le> o2 \<and> o2 \<le> 166667"
  using tx_timestamps_interpolated [of "example_local_stream
      \<lparr>mBufferDescQ := Some ((desc_new None 4)\<lparr>mDescQ := [\<lparr>timeStamp = 7000166667, bufIndex = 8, sampleCnt = 8\<rparr>,
         \<lparr>timeStamp = 7000000000, bufIndex = 0, sampleCnt = 8\<rparr>]\<rparr>)\<rparr>"
      "(desc_new None 4)\<lparr>mDescQ := [\<lparr>timeStamp = 7000166667, bufIndex = 8, sampleCnt = 8\<rparr>,
         \<lparr>timeStamp = 7000000000, bufIndex = 0, sampleCnt = 8\<rparr>]\<rparr>"
      "\<lparr>timeStamp = 7000000000, bufIndex = 0, sampleCnt = 8\<rparr>" "\<lparr>timeStamp = 7000166667, bufIndex = 8, sampleCnt = 8\<rparr>" "[]" 3 5]
  by (simp add: pending_def)

definition example_local_env :: local_env where
  "example_local_env =
     \<lparr>env_registry = Some (registry_empty\<lparr>mRegistryNumeric := [cAudioTstampBuffer \<mapsto> 1]\<rparr>), env_ptpProxy = None, env_new_descQ = True,
      env_new_nullData = True, env_new_buffer = (\<lambda>_. True), env_samples = (\<lambda>_. Some (replicate 1025 0))\<rparr>"

lemmas registry_eval =
  config_u32_def getConfigValue_def doGetConfigValue_def registry_empty_def
  cAlsaBaseFreq_def cAlsaBasePeriod_def cAudioBaseFillMultiplier_def cAudioTstampBuffer_def
  cAudioBaseFillMultiplierTx_def cRxCycleWait_def

theorem init_loses_error_witness:
  "\<exists>s'. local_init example_local_env 0 2 False 1024 48000 128
      (local_stream_new eIasAvbReceiveFromNetwork eIasAlsaStream 1) = Some (eIasAvbProcOK, s') \<and>
     hasBufferDesc s' \<and> updateRxTimestamp example_ptp 1 s' = None"
proof -
  let ?s = "local_stream_new eIasAvbReceiveFromNetwork eIasAlsaStream 1"
  have half: "fl (3 / 2) = (3 / 2 :: rat)"
    by (rule fl_exact [of _ 3 "- 1"]) (simp_all add: power_int_minus)
  have up: "\<lceil>3 / 2 :: rat\<rceil> = 2" by (rule ceiling_unique) simp_all
  have ceil: "ceil_quot_times (double_of_u32 192) (double_of_u32 128) 128 = Some 256"
    by (simp add: ceil_quot_times_def ddiv_def half up u32_of_double_def trunc_def)
  have mult: "config_u32 example_local_env cAudioBaseFillMultiplier 15 = 15"
    by (simp add: example_local_env_def registry_eval)
  have unset: "getConfigValue ucast (env_registry example_local_env) cAudioBaseFillMultiplierTx (0 :: u32) = (False, 0)"
    by (simp add: example_local_env_def registry_eval)
  have rx: "(15 :: u32) * 128 div 10 = 192" by simp
  have thresholds: "read_thresholds example_local_env (config_u32 example_local_env cAudioBaseFillMultiplier 15) 128
      = Some (192, 256)"
    unfolding read_thresholds_def mult unset Let_def rx ceil by simp
  have period: "reduced_period example_local_env 128 48000 = Some 128"
    by (simp add: reduced_period_def example_local_env_def registry_eval)
  have "\<exists>s'. local_init example_local_env 0 2 False 1024 48000 128 ?s = Some (eIasAvbProcOK, s') \<and>
      local_isInitialized s' \<and> hasBufferDesc s' \<and> (\<forall>p ts. updateRxTimestamp p ts s' = None)"
    by (rule init_loses_error [OF _ _ _ _ _ _ _ period _ thresholds])
      (simp_all add: example_local_env_def local_stream_new_def local_isInitialized_def registry_eval cast_desc_mode_def)
  then show ?thesis by blast
qed

end
