(* ===== verification/Clock_Domain.thy ===== *)
theory Clock_Domain
  imports Binary64 T_Spec "HOL-Library.Monad_Syntax"
begin

text \<open>
  The clock domains: \<^verbatim>\<open>IasAvbClockDomain\<close> with its filters and lock states, and the derived
  \<^verbatim>\<open>IasAvbSwClockDomain\<close>, \<^verbatim>\<open>IasAvbRxStreamClockDomain\<close>, \<^verbatim>\<open>IasAvbPtpClockDomain\<close>,
  \<^verbatim>\<open>IasAvbRawClockDomain\<close> and \<^verbatim>\<open>IasAlsaClockDomain\<close>. The client of a domain is a number, and what
  it is notified of is the first component of the results, in order. The function \<^verbatim>\<open>std::exp\<close>, the
  readings of the PTP library and the conversion \<^verbatim>\<open>rawToPtp\<close> are arguments. Members that are only
  logged (\<^verbatim>\<open>mDebug...\<close>) are left out. The locale \<open>lock_source\<close> states what a client of a domain
  relies on.
\<close>

datatype IasAvbClockDomainType =
    eIasAvbClockDomainPtp
  | eIasAvbClockDomainHw
  | eIasAvbClockDomainSw
  | eIasAvbClockDomainRx
  | eIasAvbClockDomainRaw
  | eIasAVbClockDomainAlsa

record IasAvbClockDomain =
  mType :: IasAvbClockDomainType
  mTimeConstant :: double
  mAvgCallsPerSec :: u32
  mRateRatio :: double
  mCompensation :: double
  mEventCount :: u64
  mEventRate :: u32
  mEventTimeStamp :: u64
  mRateRatioSlow :: double
  mRateRatioFast :: double
  mCoeffSlowLocked :: double
  mCoeffSlowUnlocked :: double
  mCoeffFastLocked :: double
  mCoeffFastUnlocked :: double
  mThresholdSlowLow :: double
  mThresholdSlowHigh :: double
  mThresholdFastLow :: double
  mThresholdFastHigh :: double
  mInitialValue :: double
  mDerivationFactorUnlock :: double
  mDerivationFactorLongTerm :: double
  mLockState :: IasAvbLockState
  mClient :: "nat option"
  mResetRequest :: bool
  mClockId :: u32

definition clock_new :: "IasAvbClockDomainType \<Rightarrow> IasAvbClockDomain" where
  "clock_new type =
     \<lparr>mType = type, mTimeConstant = 0, mAvgCallsPerSec = 1, mRateRatio = 1, mCompensation = 1,
      mEventCount = 0, mEventRate = 0, mEventTimeStamp = 0, mRateRatioSlow = 1, mRateRatioFast = 1,
      mCoeffSlowLocked = 0, mCoeffSlowUnlocked = 0, mCoeffFastLocked = 0, mCoeffFastUnlocked = 0,
      mThresholdSlowLow = 0, mThresholdSlowHigh = 0, mThresholdFastLow = 0, mThresholdFastHigh = 0,
      mInitialValue = 1, mDerivationFactorUnlock = 1, mDerivationFactorLongTerm = 1,
      mLockState = eIasAvbLockStateInit, mClient = None, mResetRequest = False, mClockId = - 1\<rparr>"

datatype clock_event =
    NotifyUpdateRatio
  | NotifyUpdateLockState IasAvbLockState

definition notify :: "clock_event \<Rightarrow> 'a IasAvbClockDomain_scheme \<Rightarrow> clock_event list" where
  "notify e s = (if mClient s \<noteq> None then [e] else [])"

section \<open>Event counter\<close>

definition setEventCount :: "u64 \<Rightarrow> u64 \<Rightarrow> 'a IasAvbClockDomain_scheme \<Rightarrow> 'a IasAvbClockDomain_scheme" where
  "setEventCount newValue timestamp s = s\<lparr>mEventCount := newValue, mEventTimeStamp := timestamp\<rparr>"

definition setEventRate :: "u32 \<Rightarrow> 'a IasAvbClockDomain_scheme \<Rightarrow> 'a IasAvbClockDomain_scheme" where
  "setEventRate eventRate s = s\<lparr>mEventRate := eventRate\<rparr>"

definition incrementEventCount :: "u64 \<Rightarrow> u64 \<Rightarrow> 'a IasAvbClockDomain_scheme \<Rightarrow> 'a IasAvbClockDomain_scheme" where
  "incrementEventCount increment timestamp s =
     s\<lparr>mEventCount := mEventCount s + increment, mEventTimeStamp := timestamp\<rparr>"

text \<open>\<^verbatim>\<open>getEventCount\<close>: \<open>onGetEventCount\<close> is the virtual function of the derived class.\<close>

definition getEventCount ::
  "('a IasAvbClockDomain_scheme \<Rightarrow> clock_event list \<times> 'a IasAvbClockDomain_scheme) \<Rightarrow>
     'a IasAvbClockDomain_scheme \<Rightarrow> (u64 \<times> u64) \<times> clock_event list \<times> 'a IasAvbClockDomain_scheme" where
  "getEventCount onGetEventCount s =
     (let (ev, s) = onGetEventCount s in ((mEventCount s, mEventTimeStamp s), ev, s))"

definition clock_setResetRequest :: "'a IasAvbClockDomain_scheme \<Rightarrow> 'a IasAvbClockDomain_scheme" where
  "clock_setResetRequest s = s\<lparr>mResetRequest := True\<rparr>"

definition clock_getResetRequest :: "'a IasAvbClockDomain_scheme \<Rightarrow> bool \<times> 'a IasAvbClockDomain_scheme" where
  "clock_getResetRequest s = (mResetRequest s, s\<lparr>mResetRequest := False\<rparr>)"

section \<open>Rate ratio and lock state\<close>

definition smooth :: "double \<Rightarrow> double \<Rightarrow> double \<Rightarrow> double" where
  "smooth stateBuf newVal coeff = dadd (dmul coeff stateBuf) (dmul (dsub 1 coeff) newVal)"

definition smooth_ratios :: "double \<Rightarrow> 'a IasAvbClockDomain_scheme \<Rightarrow> 'a IasAvbClockDomain_scheme" where
  "smooth_ratios newRatio s =
     (if mLockState s = eIasAvbLockStateLocked
      then s\<lparr>mRateRatioSlow := smooth (mRateRatioSlow s) newRatio (mCoeffSlowLocked s),
             mRateRatioFast := smooth (mRateRatioFast s) newRatio (mCoeffFastLocked s)\<rparr>
      else s\<lparr>mRateRatioSlow := smooth (mRateRatioSlow s) newRatio (mCoeffSlowUnlocked s),
             mRateRatioFast := smooth (mRateRatioFast s) newRatio (mCoeffFastUnlocked s)\<rparr>)"

definition lockStateChanged :: "'a IasAvbClockDomain_scheme \<Rightarrow> clock_event list" where
  "lockStateChanged s = notify (NotifyUpdateLockState (mLockState s)) s"

text \<open>The \<^verbatim>\<open>switch (mLockState)\<close> with its fall-through cases.\<close>

definition lock_step ::
  "bool \<Rightarrow> bool \<Rightarrow> 'a IasAvbClockDomain_scheme \<Rightarrow> clock_event list \<times> 'a IasAvbClockDomain_scheme" where
  "lock_step locked1 locked2 s =
     (if mLockState s = eIasAvbLockStateLocked then
        if \<not> locked2 then
          let s = s\<lparr>mLockState := eIasAvbLockStateUnlocked\<rparr> in (lockStateChanged s, s)
        else ([], s)
      else
        let s = (if mLockState s = eIasAvbLockStateInit
                 then s\<lparr>mRateRatioSlow := mInitialValue s, mRateRatioFast := mInitialValue s\<rparr> else s);
            s = s\<lparr>mLockState := eIasAvbLockStateLocking\<rparr>
        in if locked1 \<and> locked2 then
             let s = s\<lparr>mLockState := eIasAvbLockStateLocked\<rparr> in (lockStateChanged s, s)
           else ([], s))"

definition updateRateRatio ::
  "double \<Rightarrow> 'a IasAvbClockDomain_scheme \<Rightarrow> clock_event list \<times> 'a IasAvbClockDomain_scheme" where
  "updateRateRatio newRatio s =
     (if newRatio < 0 \<or> newRatio > 10 then ([], s)
      else
        let locked1 = (newRatio < dmul (mThresholdFastHigh s) (mRateRatioFast s) \<and>
                       newRatio > dmul (mThresholdFastLow s) (mRateRatioFast s));
            s = smooth_ratios newRatio s;
            rateRatioMax = dmul (mThresholdSlowHigh s) (mRateRatioSlow s);
            rateRatioMin = dmul (mThresholdSlowLow s) (mRateRatioSlow s);
            locked2 = (mRateRatioFast s < rateRatioMax \<and> mRateRatioFast s > rateRatioMin);
            ev1 = notify NotifyUpdateRatio s;
            (ev2, s) = lock_step locked1 locked2 s;
            ratio = (if mRateRatioFast s > rateRatioMax then rateRatioMax
                     else if mRateRatioFast s < rateRatioMin then rateRatioMin else mRateRatioFast s)
        in (ev1 @ ev2, s\<lparr>mRateRatio := dmul ratio (mCompensation s)\<rparr>))"

text \<open>\<open>ppm1\<close> is the literal \<^verbatim>\<open>1e-6\<close>, rounded to a double.\<close>

definition ppm1 :: double where "ppm1 = fl (1 / 1000000)"

definition setDriftCompensation ::
  "s32 \<Rightarrow> 'a IasAvbClockDomain_scheme \<Rightarrow> (IasAvbProcessingResult \<times> 'a IasAvbClockDomain_scheme) option" where
  "setDriftCompensation val s =
     (if 0 \<le>s val \<and> val \<le>s 1000000 then
        map_option (\<lambda>c. (eIasAvbProcOK, s\<lparr>mCompensation := c\<rparr>))
          (ddiv 1 (dadd 1 (dmul (double_of_s32 val) ppm1)))
      else if val <s 0 \<and> - 1000000 \<le>s val
      then Some (eIasAvbProcOK, s\<lparr>mCompensation := dadd 1 (dmul (double_of_s32 (- val)) ppm1)\<rparr>)
      else Some (eIasAvbProcInvalidParam, s))"

section \<open>Set-up\<close>

definition setInitialValue :: "double \<Rightarrow> 'a IasAvbClockDomain_scheme \<Rightarrow> 'a IasAvbClockDomain_scheme" where
  "setInitialValue initVal s = (if initVal \<ge> 0 then s\<lparr>mInitialValue := initVal\<rparr> else s)"

definition calculateCoefficient :: "(double \<Rightarrow> double) \<Rightarrow> double \<Rightarrow> double" where
  "calculateCoefficient std_exp timeConstant =
     (case ddiv (- 1) timeConstant of None \<Rightarrow> 0 | Some q \<Rightarrow> std_exp q)"

definition setFilter ::
  "(double \<Rightarrow> double) \<Rightarrow> double \<Rightarrow> u32 \<Rightarrow> 'a IasAvbClockDomain_scheme \<Rightarrow>
     clock_event list \<times> 'a IasAvbClockDomain_scheme" where
  "setFilter std_exp timeConstant avgCallsPerSec s =
     (if timeConstant \<ge> 0 then
        let tc = dmul timeConstant (double_of_u32 avgCallsPerSec);
            s = s\<lparr>mTimeConstant := timeConstant, mAvgCallsPerSec := avgCallsPerSec,
                  mCoeffFastLocked := calculateCoefficient std_exp tc,
                  mCoeffFastUnlocked := calculateCoefficient std_exp (dmul tc (mDerivationFactorUnlock s)),
                  mCoeffSlowLocked := calculateCoefficient std_exp (dmul tc (mDerivationFactorLongTerm s)),
                  mCoeffSlowUnlocked := calculateCoefficient std_exp
                    (dmul (dmul tc (mDerivationFactorLongTerm s)) (mDerivationFactorUnlock s))\<rparr>
        in if mLockState s = eIasAvbLockStateLocking \<or> mLockState s = eIasAvbLockStateLocked then
             let s = s\<lparr>mLockState := eIasAvbLockStateUnlocked\<rparr> in (lockStateChanged s, s)
           else ([], s)
      else ([], s))"

definition setDerivationFactors ::
  "(double \<Rightarrow> double) \<Rightarrow> double \<Rightarrow> double \<Rightarrow> 'a IasAvbClockDomain_scheme \<Rightarrow>
     clock_event list \<times> 'a IasAvbClockDomain_scheme" where
  "setDerivationFactors std_exp factorLongTerm factorUnlock s =
     (let s = s\<lparr>mDerivationFactorLongTerm := factorLongTerm, mDerivationFactorUnlock := factorUnlock\<rparr>
      in setFilter std_exp (mTimeConstant s) (mAvgCallsPerSec s) s)"

text \<open>The divisor of the lower threshold is at least 1, so the division is defined.\<close>

definition setLockThreshold1 :: "u32 \<Rightarrow> 'a IasAvbClockDomain_scheme \<Rightarrow> 'a IasAvbClockDomain_scheme option" where
  "setLockThreshold1 ppm s =
     (if ppm > 0 then
        let high = dadd 1 (dmul ppm1 (double_of_u32 ppm)) in
        map_option (\<lambda>low. s\<lparr>mThresholdFastHigh := high, mThresholdFastLow := low\<rparr>) (ddiv 1 high)
      else Some s)"

definition setLockThreshold2 :: "u32 \<Rightarrow> 'a IasAvbClockDomain_scheme \<Rightarrow> 'a IasAvbClockDomain_scheme option" where
  "setLockThreshold2 ppm s =
     (if ppm > 0 then
        let high = dadd 1 (dmul ppm1 (double_of_u32 ppm)) in
        map_option (\<lambda>low. s\<lparr>mThresholdSlowHigh := high, mThresholdSlowLow := low\<rparr>) (ddiv 1 high)
      else Some s)"

definition clock_registerClient ::
  "nat option \<Rightarrow> 'a IasAvbClockDomain_scheme \<Rightarrow> IasAvbProcessingResult \<times> 'a IasAvbClockDomain_scheme" where
  "clock_registerClient client s =
     (if client = None then (eIasAvbProcInvalidParam, s)
      else if mClient s \<noteq> None then (eIasAvbProcAlreadyInUse, s)
      else (eIasAvbProcOK, s\<lparr>mClient := client\<rparr>))"

definition clock_unregisterClient ::
  "nat option \<Rightarrow> 'a IasAvbClockDomain_scheme \<Rightarrow> IasAvbProcessingResult \<times> 'a IasAvbClockDomain_scheme" where
  "clock_unregisterClient client s =
     (if client = mClient s then (eIasAvbProcOK, s\<lparr>mClient := None\<rparr>) else (eIasAvbProcInvalidParam, s))"

section \<open>Software clock domain\<close>

definition cClkSwTimeConstant :: string where "cClkSwTimeConstant = ''clockdomain.sw.timeconstant''"
definition cClkSwDeviationUnlock :: string where "cClkSwDeviationUnlock = ''clockdomain.sw.deviation.unlock''"
definition cClkSwDeviationLongterm :: string where "cClkSwDeviationLongterm = ''clockdomain.sw.deviation.longterm''"
definition cClkSwLockTreshold1 :: string where "cClkSwLockTreshold1 = ''clockdomain.sw.lock.threshold1''"
definition cClkSwLockTreshold2 :: string where "cClkSwLockTreshold2 = ''clockdomain.sw.lock.threshold2''"
definition cClkRxTimeConstant :: string where "cClkRxTimeConstant = ''clockdomain.rx.timeconstant''"
definition cClkRxDeviationUnlock :: string where "cClkRxDeviationUnlock = ''clockdomain.rx.deviation.unlock''"
definition cClkRxDeviationLongterm :: string where "cClkRxDeviationLongterm = ''clockdomain.rx.deviation.longterm''"
definition cClkRxLockTreshold1 :: string where "cClkRxLockTreshold1 = ''clockdomain.rx.lock.threshold1''"
definition cClkRxLockTreshold2 :: string where "cClkRxLockTreshold2 = ''clockdomain.rx.lock.threshold2''"

text \<open>The registry value in thousandths, or the built-in factor. \<open>milli\<close> is the literal \<^verbatim>\<open>0.001\<close>.\<close>

definition milli :: double where "milli = fl (1 / 1000)"

definition config_milli :: "registry option \<Rightarrow> string \<Rightarrow> double \<Rightarrow> double" where
  "config_milli reg key def =
     (let (found, val) = doGetConfigValue reg key 0 in if found then dmul (double_of_u64 val) milli else def)"

record IasAvbSwClockDomain = IasAvbClockDomain +
  mResetPending :: bool
  mLastTsc :: u64
  mPtpProxy :: bool
  mFactorLong :: double
  mFactorUnlock :: double
  mThreshold1 :: u32
  mThreshold2 :: u32

definition sw_clock_new :: "(double \<Rightarrow> double) \<Rightarrow> registry option \<Rightarrow> bool \<Rightarrow> IasAvbSwClockDomain" where
  "sw_clock_new std_exp reg ptpProxy =
     (let val = snd (doGetConfigValue reg cClkSwTimeConstant 20000);
          s = snd (setFilter std_exp (dmul (double_of_u64 val) milli) 1 (clock_new eIasAvbClockDomainSw))
      in IasAvbClockDomain.extend s
           (IasAvbSwClockDomain.fields True 0 ptpProxy
              (config_milli reg cClkSwDeviationLongterm 50) (config_milli reg cClkSwDeviationUnlock (1 / 2))
              (snd (getConfigValue ucast reg cClkSwLockTreshold1 1000000))
              (snd (getConfigValue ucast reg cClkSwLockTreshold2 100))))"

text \<open>\<^verbatim>\<open>advance(events, elapsed, elapsedTSC)\<close>: \<open>now\<close> is the answer of \<^verbatim>\<open>getLocalTime\<close>.\<close>

definition sw_advance ::
  "u64 \<Rightarrow> u64 \<Rightarrow> u32 \<Rightarrow> u32 \<Rightarrow> IasAvbSwClockDomain \<Rightarrow> (clock_event list \<times> IasAvbSwClockDomain) option" where
  "sw_advance now events elapsed elapsedTSC s =
     (if \<not> mPtpProxy s then None
      else if mResetPending s then Some ([], setEventCount 0 now (s\<lparr>mResetPending := False\<rparr>))
      else map_option (\<lambda>ratio. updateRateRatio ratio (incrementEventCount events now s))
             (ddiv (double_of_u32 elapsedTSC) (double_of_u32 elapsed)))"

definition sw_advance_live ::
  "u64 \<times> u64 \<Rightarrow> u64 \<Rightarrow> u32 \<Rightarrow> IasAvbSwClockDomain \<Rightarrow> (clock_event list \<times> IasAvbSwClockDomain) option" where
  "sw_advance_live now events elapsed s =
     (if \<not> mPtpProxy s then None
      else map_option (\<lambda>(ev, s). (ev, s\<lparr>mLastTsc := fst now\<rparr>))
             (sw_advance (snd now) events elapsed (ucast (fst now - mLastTsc s)) s))"

definition updateRelative :: "double \<Rightarrow> IasAvbSwClockDomain \<Rightarrow> clock_event list \<times> IasAvbSwClockDomain" where
  "updateRelative relErr s = updateRateRatio (dmul (mRateRatio s) relErr) s"

text \<open>The filter set-up at the end of the \<^verbatim>\<open>reset\<close> functions of both derived classes.\<close>

definition restart_filter ::
  "(double \<Rightarrow> double) \<Rightarrow> u32 \<Rightarrow> double \<Rightarrow> double \<Rightarrow> u32 \<Rightarrow> u32 \<Rightarrow> 'a IasAvbClockDomain_scheme \<Rightarrow>
     (clock_event list \<times> 'a IasAvbClockDomain_scheme) option" where
  "restart_filter std_exp callsPerSec factorLong factorUnlock threshold1 threshold2 s =
     (let (ev1, s) = setFilter std_exp (mTimeConstant s) callsPerSec s;
          (ev2, s) = setDerivationFactors std_exp factorLong factorUnlock s
      in map_option (Pair (ev1 @ ev2))
           (Option.bind (setLockThreshold1 threshold1 s) (setLockThreshold2 threshold2)))"

definition sw_reset ::
  "(double \<Rightarrow> double) \<Rightarrow> u32 \<Rightarrow> IasAvbSwClockDomain \<Rightarrow> (clock_event list \<times> IasAvbSwClockDomain) option" where
  "sw_reset std_exp avgCallsPerSec s =
     restart_filter std_exp avgCallsPerSec (mFactorLong s) (mFactorUnlock s) (mThreshold1 s) (mThreshold2 s)
       (s\<lparr>mResetPending := True\<rparr>)"

section \<open>Clock domain of a received stream\<close>

record IasAvbRxStreamClockDomain = IasAvbClockDomain +
  mPtpProxy :: bool
  mPacketRate :: IasAvbSwClockDomain
  mFactorLong :: double
  mFactorUnlock :: double
  mThreshold1 :: u32
  mThreshold2 :: u32
  mLastTimeStamp :: u64
  mEpoch :: u32

text \<open>The answers of the PTP library during one call: the epoch, \<^verbatim>\<open>getRealLocalTime\<close> and the two calls
  of \<^verbatim>\<open>getLocalTime\<close> that update the packet rate.\<close>

record ptp_answers =
  ans_epoch :: u32
  ans_realLocalTime :: u64
  ans_localTimes :: "u64 \<times> u64"

definition rx_clock_new ::
  "(double \<Rightarrow> double) \<Rightarrow> registry option \<Rightarrow> bool \<Rightarrow> clock_event list \<times> IasAvbRxStreamClockDomain" where
  "rx_clock_new std_exp reg ptpProxy =
     (let val = snd (doGetConfigValue reg cClkRxTimeConstant 100);
          (ev, s) = setFilter std_exp (dmul (double_of_u64 val) milli) 1 (clock_new eIasAvbClockDomainRx)
      in (ev, IasAvbClockDomain.extend s
           (IasAvbRxStreamClockDomain.fields ptpProxy (sw_clock_new std_exp reg ptpProxy)
              (config_milli reg cClkRxDeviationLongterm 10) (config_milli reg cClkRxDeviationUnlock 1)
              (snd (getConfigValue ucast reg cClkRxLockTreshold1 10000))
              (snd (getConfigValue ucast reg cClkRxLockTreshold2 100)) 0 0)))"

definition initLastTimeStamp ::
  "ptp_answers \<Rightarrow> u32 \<Rightarrow> IasAvbRxStreamClockDomain \<Rightarrow> IasAvbRxStreamClockDomain option" where
  "initLastTimeStamp ptp timestamp s =
     (if \<not> mPtpProxy s then None
      else
        let now = ans_realLocalTime ptp; t = (now AND 0xFFFFFFFF00000000) + ucast timestamp
        in Some (s\<lparr>mLastTimeStamp := (if 0 <s timestamp - ucast now \<and> timestamp < ucast now
                                      then t + 0x100000000 else t)\<rparr>))"

definition rx_reset64 ::
  "(double \<Rightarrow> double) \<Rightarrow> registry option \<Rightarrow> tspec_tables \<Rightarrow> ptp_answers \<Rightarrow> IasAvbSrClass \<Rightarrow> u64 \<Rightarrow> u32 \<Rightarrow>
     IasAvbRxStreamClockDomain \<Rightarrow> (clock_event list \<times> IasAvbRxStreamClockDomain) option" where
  "rx_reset64 std_exp reg t ptp cl timestamp eventRate s =
     (let (found, skipTime) = getConfigValue (ucast :: u64 \<Rightarrow> u32) reg cRxClkUpdateInterval 0;
          callsPerSecond = (if found \<and> skipTime \<noteq> 0 then (1000000 + (skipTime - 1)) div skipTime
                            else getPacketsPerSecondByClass t cl)
      in if \<not> mPtpProxy s then None
         else do {
           (ev, s) \<leftarrow>
             restart_filter std_exp callsPerSecond (mFactorLong s) (mFactorUnlock s) (mThreshold1 s) (mThreshold2 s)
               (setEventRate eventRate (setEventCount 0 timestamp
                  (s\<lparr>mEpoch := ans_epoch ptp, mLastTimeStamp := timestamp\<rparr>)));
           (_, rate) \<leftarrow> sw_reset std_exp callsPerSecond (mPacketRate s);
           Some (ev, s\<lparr>mPacketRate := rate\<rparr>)
         })"

definition rx_reset32 ::
  "(double \<Rightarrow> double) \<Rightarrow> registry option \<Rightarrow> tspec_tables \<Rightarrow> ptp_answers \<Rightarrow> IasAvbSrClass \<Rightarrow> u32 \<Rightarrow> u32 \<Rightarrow>
     IasAvbRxStreamClockDomain \<Rightarrow> (clock_event list \<times> IasAvbRxStreamClockDomain) option" where
  "rx_reset32 std_exp reg t ptp cl timestamp eventRate s =
     Option.bind (initLastTimeStamp ptp timestamp s)
       (\<lambda>s. rx_reset64 std_exp reg t ptp cl (mLastTimeStamp s) eventRate s)"

definition rx_update64 ::
  "ptp_answers \<Rightarrow> u64 \<Rightarrow> u64 \<Rightarrow> u32 \<Rightarrow> u64 \<Rightarrow> IasAvbRxStreamClockDomain \<Rightarrow>
     (clock_event list \<times> IasAvbRxStreamClockDomain) option" where
  "rx_update64 ptp events timestamp deltaMediaClock deltaWallClock s =
     (let s = (incrementEventCount events timestamp s)\<lparr>mLastTimeStamp := timestamp\<rparr> in
      if deltaMediaClock > 0 then do {
        ratio \<leftarrow> ddiv (double_of_u64 deltaWallClock) (double_of_u32 deltaMediaClock);
        let (ev, s) = updateRateRatio ratio s;
        (_, rate) \<leftarrow> sw_advance_live (ans_localTimes ptp) events deltaMediaClock (mPacketRate s);
        Some (ev, s\<lparr>mPacketRate := rate\<rparr>)
      }
      else Some ([], s))"

definition rx_update32 ::
  "ptp_answers \<Rightarrow> u64 \<Rightarrow> u32 \<Rightarrow> u32 \<Rightarrow> u32 \<Rightarrow> IasAvbRxStreamClockDomain \<Rightarrow>
     (clock_event list \<times> IasAvbRxStreamClockDomain) option" where
  "rx_update32 ptp events timestamp deltaMediaClock deltaWallClock s =
     (if \<not> mPtpProxy s then None
      else if ans_epoch ptp \<noteq> mEpoch s then
        Option.bind (initLastTimeStamp ptp timestamp (s\<lparr>mEpoch := ans_epoch ptp\<rparr>))
          (\<lambda>s. rx_update64 ptp events (mLastTimeStamp s) 0 (ucast deltaWallClock) s)
      else
        let high = (0xFFFFFFFF00000000 :: u64);
            s = s\<lparr>mLastTimeStamp :=
                    (if ucast (mLastTimeStamp s) < timestamp then (mLastTimeStamp s AND high) + ucast timestamp
                     else ((mLastTimeStamp s + 0x100000000) AND high) + ucast timestamp)\<rparr>
        in rx_update64 ptp events (mLastTimeStamp s) deltaMediaClock (ucast deltaWallClock) s)"

definition rx_invalidate ::
  "(double \<Rightarrow> double) \<Rightarrow> IasAvbRxStreamClockDomain \<Rightarrow> clock_event list \<times> IasAvbRxStreamClockDomain" where
  "rx_invalidate std_exp s = setFilter std_exp (mTimeConstant s) 1 s"

section \<open>PTP and raw clock domains\<close>

definition cGranularity :: u64 where "cGranularity = 125000"

text \<open>The start-up shared by the constructors of the three domains synchronous to a system clock.\<close>

definition synchronous_clock :: "IasAvbClockDomainType \<Rightarrow> IasAvbClockDomain option" where
  "synchronous_clock type =
     do {
       s \<leftarrow> setLockThreshold1 100000 (setInitialValue 1 (setEventRate 48000 (clock_new type)));
       s \<leftarrow> setLockThreshold2 100000 s;
       Some (snd (updateRateRatio 1 (snd (updateRateRatio 1 s))))
     }"

record IasAlsaClockDomain = IasAvbClockDomain +
  mStartTime :: u64
  mLastUpdate :: u64

definition alsa_clock_new :: "IasAlsaClockDomain option" where
  "alsa_clock_new =
     map_option (\<lambda>s. IasAvbClockDomain.extend s (IasAlsaClockDomain.fields 0 0))
       (synchronous_clock eIasAVbClockDomainAlsa)"

record IasAvbRawClockDomain = IasAvbClockDomain +
  mStartTime :: u64
  mLastUpdate :: u64
  mLastPtp :: u64
  mLastRaw :: u64

definition raw_clock_new :: "IasAvbRawClockDomain option" where
  "raw_clock_new =
     map_option (\<lambda>s. IasAvbClockDomain.extend s (IasAvbRawClockDomain.fields 0 0 0 0))
       (synchronous_clock eIasAvbClockDomainRaw)"

text \<open>The PTP proxy is the pair of \<^verbatim>\<open>getRaw\<close>'s answer and the function \<^verbatim>\<open>rawToPtp\<close>. The rate is undefined
  when two calls see the same raw time after the granularity has passed.\<close>

definition raw_onGetEventCount ::
  "(u64 \<times> (u64 \<Rightarrow> u64)) option \<Rightarrow> IasAvbRawClockDomain \<Rightarrow>
     (clock_event list \<times> IasAvbRawClockDomain) option" where
  "raw_onGetEventCount ptp s =
     (case ptp of
        None \<Rightarrow> Some ([], s)
      | Some (rawNow, rawToPtp) \<Rightarrow> do {
          let remain = rawNow mod cGranularity;
          let s = (if mStartTime s = 0
                   then s\<lparr>mStartTime := rawNow - remain\<rparr> else s);
          (ev, s) \<leftarrow>
            (if rawNow - mLastUpdate s > cGranularity then do {
               let s = s\<lparr>mLastUpdate := rawNow - remain\<rparr>;
               let events = (mLastUpdate s - mStartTime s) div 62500 * 3;
               let ptpTime = rawToPtp (mLastUpdate s);
               ratio \<leftarrow> (if mLastRaw s = 0 \<or> mLastPtp s = 0 then Some 1
                         else ddiv (double_of_u64 (rawToPtp rawNow - mLastPtp s))
                                (double_of_u64 (rawNow - mLastRaw s)));
               Some (updateRateRatio ratio (setEventCount events ptpTime s))
             }
             else Some ([], s));
          Some (ev, s\<lparr>mLastRaw := rawNow, mLastPtp := rawToPtp rawNow\<rparr>)
        })"

record IasAvbPtpClockDomain = IasAvbClockDomain +
  mStartTime :: u64
  mLastUpdate :: u64

definition ptp_clock_new :: "IasAvbPtpClockDomain option" where
  "ptp_clock_new =
     map_option (\<lambda>s. IasAvbClockDomain.extend s (IasAvbPtpClockDomain.fields 0 0))
       (synchronous_clock eIasAvbClockDomainPtp)"

text \<open>\<open>now\<close> is the answer of \<^verbatim>\<open>getPtpTime\<close>, or \<open>None\<close> if there is no PTP proxy.\<close>

definition ptp_onGetEventCount ::
  "u64 option \<Rightarrow> IasAvbPtpClockDomain \<Rightarrow> clock_event list \<times> IasAvbPtpClockDomain" where
  "ptp_onGetEventCount ptp s =
     (case ptp of
        None \<Rightarrow> ([], s)
      | Some now \<Rightarrow>
          let s = (if mStartTime s = 0 then s\<lparr>mStartTime := now - now mod cGranularity\<rparr> else s)
          in if now - mLastUpdate s > cGranularity then
               let s = s\<lparr>mLastUpdate := now - now mod cGranularity\<rparr>;
                   events = (mLastUpdate s - mStartTime s) div 62500 * 3
               in ([], setEventCount events (mLastUpdate s) s)
             else ([], s))"

section \<open>What the client is told\<close>

text \<open>The lock state as the client knows it from the notifications.\<close>

definition told :: "bool \<Rightarrow> clock_event list \<Rightarrow> bool" where
  "told locked ev =
     fold (\<lambda>e l. case e of NotifyUpdateRatio \<Rightarrow> l | NotifyUpdateLockState st \<Rightarrow> st = eIasAvbLockStateLocked) ev locked"

lemma told_simps [simp]:
  "told l [] = l"
  "told l (NotifyUpdateRatio # ev) = told l ev"
  "told l (NotifyUpdateLockState st # ev) = told (st = eIasAvbLockStateLocked) ev"
  "told l (ev1 @ ev2) = told (told l ev1) ev2"
  by (simp_all add: told_def)

text \<open>A sequence of requests, with the notifications of all of them in order.\<close>

primrec run_requests ::
  "('q \<Rightarrow> 's \<Rightarrow> (clock_event list \<times> 's) option) \<Rightarrow> 'q list \<Rightarrow> 's \<Rightarrow> (clock_event list \<times> 's) option" where
  "run_requests step [] s = Some ([], s)"
| "run_requests step (q # qs) s =
     Option.bind (step q s) (\<lambda>(ev, s). map_option (\<lambda>(ev', s). (ev @ ev', s)) (run_requests step qs s))"

locale lock_source =
  fixes step :: "'q \<Rightarrow> 's \<Rightarrow> (clock_event list \<times> 's) option"
    and lock :: "'s \<Rightarrow> IasAvbLockState"
    and listening :: "'s \<Rightarrow> bool"
  assumes tells: "step q s = Some (ev, s') \<Longrightarrow> listening s \<Longrightarrow>
      told (lock s = eIasAvbLockStateLocked) ev = (lock s' = eIasAvbLockStateLocked)"
    and listens: "step q s = Some (ev, s') \<Longrightarrow> listening s \<Longrightarrow> listening s'"
begin

lemma run_tells:
  "run_requests step qs s = Some (ev, s') \<Longrightarrow> listening s \<Longrightarrow>
     told (lock s = eIasAvbLockStateLocked) ev = (lock s' = eIasAvbLockStateLocked)"
proof (induction qs arbitrary: s ev)
  case Nil
  then show ?case by simp
next
  case (Cons q qs)
  then obtain ev1 s1 ev2 where 1: "step q s = Some (ev1, s1)" "run_requests step qs s1 = Some (ev2, s')" "ev = ev1 @ ev2"
    by (auto simp: bind_eq_Some_conv)
  with tells [OF 1(1)] listens [OF 1(1)] Cons.IH [OF 1(2)] Cons.prems(2) show ?case by simp
qed

end

text \<open>An operation is transparent if it keeps the client and tells it of every change.\<close>

definition transparent :: "'a IasAvbClockDomain_scheme \<Rightarrow> clock_event list \<Rightarrow> 'b IasAvbClockDomain_scheme \<Rightarrow> bool"
where
  "transparent s ev s' \<longleftrightarrow>
     mClient s' = mClient s \<and>
     (mClient s \<noteq> None \<longrightarrow>
        told (mLockState s = eIasAvbLockStateLocked) ev = (mLockState s' = eIasAvbLockStateLocked))"

named_theorems clock_frame

lemma transparent_same [clock_frame]:
  "mClient s' = mClient s \<Longrightarrow> mLockState s' = mLockState s \<Longrightarrow> transparent s [] s'"
  by (simp add: transparent_def)

lemma transparent_trans:
  "transparent s ev1 s1 \<Longrightarrow> transparent s1 ev2 s2 \<Longrightarrow> transparent s (ev1 @ ev2) s2"
  by (auto simp: transparent_def)

lemma smooth_ratios_frame [simp]:
  "mClient (smooth_ratios r s) = mClient s" "mLockState (smooth_ratios r s) = mLockState s"
  "mThresholdSlowHigh (smooth_ratios r s) = mThresholdSlowHigh s"
  "mThresholdSlowLow (smooth_ratios r s) = mThresholdSlowLow s"
  "mCompensation (smooth_ratios r s) = mCompensation s"
  by (simp_all add: smooth_ratios_def)

lemma lock_step_transparent:
  "lock_step l1 l2 s = (ev, s') \<Longrightarrow> transparent s ev s'"
  by (auto simp: lock_step_def transparent_def lockStateChanged_def notify_def Let_def split: if_splits)

lemma updateRateRatio_transparent: "updateRateRatio r s = (ev, s') \<Longrightarrow> transparent s ev s'"
proof (cases "r < 0 \<or> r > 10")
  case True
  moreover assume "updateRateRatio r s = (ev, s')"
  ultimately show ?thesis by (simp add: updateRateRatio_def clock_frame split: if_splits)
next
  case False
  let ?s = "smooth_ratios r s"
  assume "updateRateRatio r s = (ev, s')"
  with False obtain l1 l2 ev2 s2 ratio where *: "lock_step l1 l2 ?s = (ev2, s2)"
    "ev = notify NotifyUpdateRatio ?s @ ev2" "s' = s2\<lparr>mRateRatio := ratio\<rparr>"
    by (simp add: updateRateRatio_def Let_def split: prod.splits) blast
  from lock_step_transparent [OF *(1)] show ?thesis
    by (simp add: transparent_def * notify_def)
qed

lemma setFilter_transparent: "setFilter e tc n s = (ev, s') \<Longrightarrow> transparent s ev s'"
  by (auto simp: setFilter_def transparent_def lockStateChanged_def notify_def Let_def split: if_splits)

lemma setDerivationFactors_transparent: "setDerivationFactors e f g s = (ev, s') \<Longrightarrow> transparent s ev s'"
  by (auto simp: setDerivationFactors_def transparent_def dest: setFilter_transparent)

lemma setLockThreshold_frame [clock_frame]:
  "setLockThreshold1 ppm s = Some s' \<Longrightarrow> mClient s' = mClient s \<and> mLockState s' = mLockState s"
  "setLockThreshold2 ppm s = Some s' \<Longrightarrow> mClient s' = mClient s \<and> mLockState s' = mLockState s"
  by (auto simp: setLockThreshold1_def setLockThreshold2_def Let_def split: if_splits)

lemma restart_filter_transparent:
  assumes "restart_filter e n lo un t1 t2 s = Some (ev, s')"
  shows "transparent s ev s'"
proof -
  from assms obtain ev1 s1 ev2 s2 s3 where
    *: "setFilter e (mTimeConstant s) n s = (ev1, s1)" "setDerivationFactors e lo un s1 = (ev2, s2)"
      "setLockThreshold1 t1 s2 = Some s3" "setLockThreshold2 t2 s3 = Some s'" "ev = ev1 @ ev2"
    by (auto simp: restart_filter_def bind_eq_Some_conv split: prod.splits)
  have "transparent s2 [] s'" using setLockThreshold_frame(1) [OF *(3)] setLockThreshold_frame(2) [OF *(4)]
    by (simp add: transparent_same)
  with setFilter_transparent [OF *(1)] setDerivationFactors_transparent [OF *(2)] show ?thesis
    unfolding *(5) by (metis append_Nil2 transparent_trans)
qed

text \<open>The requests to the domain of a received stream.\<close>

datatype rx_request =
    Rx_Reset ptp_answers IasAvbSrClass u32 u32
  | Rx_Update ptp_answers u64 u32 u32 u32
  | Rx_Invalidate
  | Rx_Drift s32
  | Rx_ResetRequest bool

fun rx_step ::
  "(double \<Rightarrow> double) \<Rightarrow> registry option \<Rightarrow> tspec_tables \<Rightarrow> rx_request \<Rightarrow> IasAvbRxStreamClockDomain \<Rightarrow>
     (clock_event list \<times> IasAvbRxStreamClockDomain) option" where
  "rx_step e reg t (Rx_Reset ptp cl timestamp eventRate) s = rx_reset32 e reg t ptp cl timestamp eventRate s"
| "rx_step e reg t (Rx_Update ptp events timestamp media wall) s = rx_update32 ptp events timestamp media wall s"
| "rx_step e reg t Rx_Invalidate s = Some (rx_invalidate e s)"
| "rx_step e reg t (Rx_Drift val) s = map_option (\<lambda>(_, s). ([], s)) (setDriftCompensation val s)"
| "rx_step e reg t (Rx_ResetRequest raise) s =
     Some ([], if raise then clock_setResetRequest s else snd (clock_getResetRequest s))"

lemma transparent_pre:
  "transparent s0 ev s' \<Longrightarrow> mClient s0 = mClient s \<Longrightarrow> mLockState s0 = mLockState s \<Longrightarrow> transparent s ev s'"
  by (simp add: transparent_def)

lemma transparent_post:
  "transparent s ev s0 \<Longrightarrow> mClient s' = mClient s0 \<Longrightarrow> mLockState s' = mLockState s0 \<Longrightarrow> transparent s ev s'"
  by (simp add: transparent_def)

lemma packetRate_frame [simp]:
  fixes s :: IasAvbRxStreamClockDomain
  shows "mClient (s\<lparr>mPacketRate := r\<rparr>) = mClient s" and "mLockState (s\<lparr>mPacketRate := r\<rparr>) = mLockState s"
  by (cases s; simp)+

lemma rx_update64_transparent:
  assumes "rx_update64 ptp events timestamp media wall s = Some (ev, s')"
  shows "transparent s ev s'"
proof -
  let ?s = "(incrementEventCount events timestamp s)\<lparr>mLastTimeStamp := timestamp\<rparr>"
  have same: "mClient ?s = mClient s" "mLockState ?s = mLockState s"
    by (simp_all add: incrementEventCount_def)
  show ?thesis
  proof (cases "media > 0")
    case True
    with assms obtain r where
      r: "(case updateRateRatio r ?s of (ev, s) \<Rightarrow>
             do { (_, rate) \<leftarrow> sw_advance_live (ans_localTimes ptp) events media (mPacketRate s);
                  Some (ev, s\<lparr>mPacketRate := rate\<rparr>) }) = Some (ev, s')"
      by (auto simp: rx_update64_def Let_def bind_eq_Some_conv)
    obtain ev1 s1 where "updateRateRatio r ?s = (ev1, s1)" by (cases "updateRateRatio r ?s")
    with r obtain rate where "updateRateRatio r ?s = (ev, s1)" "s' = s1\<lparr>mPacketRate := rate\<rparr>"
      by (auto simp: bind_eq_Some_conv)
    then have "transparent ?s ev s'"
      by (intro transparent_post [OF updateRateRatio_transparent]) auto
    then show ?thesis using same by (rule transparent_pre)
  next
    case False
    with assms same show ?thesis by (simp add: rx_update64_def Let_def transparent_same)
  qed
qed

lemma rx_reset64_transparent:
  assumes "rx_reset64 e reg t ptp cl timestamp rate s = Some (ev, s')"
  shows "transparent s ev s'"
proof -
  from assms obtain n s0 s1 r where *: "restart_filter e n (mFactorLong s) (mFactorUnlock s) (mThreshold1 s) (mThreshold2 s) s0 = Some (ev, s1)"
    "s' = s1\<lparr>mPacketRate := r\<rparr>" "mClient s0 = mClient s" "mLockState s0 = mLockState s"
    by (auto simp: rx_reset64_def Let_def bind_eq_Some_conv setEventRate_def setEventCount_def split: prod.splits if_splits)
  have "transparent s0 ev s'"
    by (rule transparent_post [OF restart_filter_transparent [OF *(1)]]) (simp_all add: *(2))
  then show ?thesis by (rule transparent_pre) (simp_all add: *)
qed

lemma initLastTimeStamp_frame:
  "initLastTimeStamp ptp timestamp s = Some s' \<Longrightarrow> mClient s' = mClient s \<and> mLockState s' = mLockState s"
  by (auto simp: initLastTimeStamp_def Let_def split: if_splits)

lemma rx_step_transparent: "rx_step e reg t q s = Some (ev, s') \<Longrightarrow> transparent s ev s'"
proof (cases q)
  case (Rx_Reset ptp cl timestamp rate)
  assume "rx_step e reg t q s = Some (ev, s')"
  with Rx_Reset obtain s0 where "initLastTimeStamp ptp timestamp s = Some s0"
    "rx_reset64 e reg t ptp cl (mLastTimeStamp s0) rate s0 = Some (ev, s')"
    by (auto simp: rx_reset32_def bind_eq_Some_conv)
  then show ?thesis using rx_reset64_transparent initLastTimeStamp_frame transparent_pre by metis
next
  case (Rx_Update ptp events timestamp media wall)
  assume "rx_step e reg t q s = Some (ev, s')"
  then have up: "rx_update32 ptp events timestamp media wall s = Some (ev, s')" using Rx_Update by simp
  have "\<exists>s0 m. mClient s0 = mClient s \<and> mLockState s0 = mLockState s \<and>
      rx_update64 ptp events (mLastTimeStamp s0) m (ucast wall) s0 = Some (ev, s')"
  proof (cases "ans_epoch ptp = mEpoch s")
    case True
    with up show ?thesis
      by (auto simp: rx_update32_def Let_def simp del: mult_1 split: if_splits intro!: exI [of _ "s\<lparr>mLastTimeStamp := _\<rparr>"] exI [of _ media])
  next
    case False
    with up obtain s0 where "initLastTimeStamp ptp timestamp (s\<lparr>mEpoch := ans_epoch ptp\<rparr>) = Some s0"
      "rx_update64 ptp events (mLastTimeStamp s0) 0 (ucast wall) s0 = Some (ev, s')"
      by (auto simp: rx_update32_def bind_eq_Some_conv split: if_splits)
    then show ?thesis using initLastTimeStamp_frame by fastforce
  qed
  then show ?thesis using rx_update64_transparent transparent_pre by metis
next
  case Rx_Invalidate
  assume "rx_step e reg t q s = Some (ev, s')"
  then show ?thesis using Rx_Invalidate setFilter_transparent by (simp add: rx_invalidate_def)
next
  case (Rx_Drift val)
  assume "rx_step e reg t q s = Some (ev, s')"
  then show ?thesis using Rx_Drift
    by (auto simp: setDriftCompensation_def transparent_same split: if_splits)
next
  case (Rx_ResetRequest raise)
  assume "rx_step e reg t q s = Some (ev, s')"
  then show ?thesis using Rx_ResetRequest
    by (auto simp: clock_setResetRequest_def clock_getResetRequest_def transparent_same split: if_splits)
qed

interpretation rx_domain: lock_source "rx_step e reg t" mLockState "\<lambda>s. mClient s \<noteq> None"
  by unfold_locales (auto simp: transparent_def dest!: rx_step_transparent)

section \<open>The 48 kHz grid\<close>

text \<open>After a reading \<open>now\<close> the counter stands at the last update, a multiple of the granularity at most
  one granule ago, and has counted 3 events per 62.5 us since the start.\<close>

definition on_grid :: "nat \<Rightarrow> nat \<Rightarrow> IasAvbPtpClockDomain \<Rightarrow> bool" where
  "on_grid start now s \<longleftrightarrow>
     (let u = unat (mEventTimeStamp s) in
      mStartTime s \<noteq> 0 \<and> unat (mStartTime s) = start \<and> mEventTimeStamp s = mLastUpdate s \<and> 125000 dvd start \<and> 125000 dvd u \<and>
      start \<le> u \<and> u \<le> now \<and> now \<le> u + 125000 \<and> unat (mEventCount s) * 62500 = 3 * (u - start))"

lemma grid_time: "unat (now - now mod cGranularity) = unat now - unat now mod 125000"
proof -
  have "unat (now mod cGranularity) = unat now mod 125000"
    by (simp add: unat_mod cGranularity_def)
  moreover have "unat now mod 125000 \<le> unat now" by simp
  ultimately show ?thesis by (simp add: unat_sub_small)
qed

lemma grid_events:
  fixes u start :: u64
  assumes "unat start \<le> unat u" "125000 dvd unat start" "125000 dvd unat u"
  shows "unat ((u - start) div 62500 * 3) * 62500 = 3 * (unat u - unat start)"
proof -
  let ?d = "unat u - unat start"
  have "125000 dvd ?d" using assms by (simp add: dvd_diff_nat)
  then obtain k where k: "?d = 125000 * k" by (elim dvdE)
  have d: "unat (u - start) = ?d" using assms(1) by (simp add: unat_sub_small)
  then have "unat ((u - start) div 62500) = 2 * k" by (simp add: unat_div k)
  moreover have "2 * k * 3 < 2 ^ 64"
    using unat_lt [of "u - start"] unfolding d k by simp
  ultimately have "unat ((u - start) div 62500 * 3) = 2 * k * 3"
    by (subst unat_mult_small) simp_all
  then show ?thesis unfolding k by simp
qed

lemma ptp_update_on_grid:
  assumes "mStartTime s \<noteq> 0" "unat (mStartTime s) = start" "125000 dvd start" "start \<le> unat now" "unat (now - mLastUpdate s) > 125000"
  shows "on_grid start (unat now) (snd (ptp_onGetEventCount (Some now) s))"
proof -
  let ?u = "now - now mod cGranularity"
  have u: "unat ?u = unat now - unat now mod 125000" by (rule grid_time)
  have dvd: "125000 dvd unat ?u" unfolding u by simp
  have "start \<le> unat ?u"
  proof -
    have "start div 125000 \<le> unat now div 125000" using assms(4) by (rule div_le_mono)
    then have "start \<le> unat now div 125000 * 125000" using assms(3) by auto
    then show ?thesis unfolding u by (simp add: minus_mod_eq_div_mult)
  qed
  moreover have "cGranularity < now - mLastUpdate s"
    using assms(5) by (simp add: word_less_nat_alt cGranularity_def)
  moreover have "unat now \<le> unat ?u + 125000" "unat ?u \<le> unat now"
    unfolding u using mod_less_divisor [of 125000 "unat now"] by linarith+
  ultimately show ?thesis
    using assms(1,2,3) dvd grid_events [of "mStartTime s" ?u]
    by (simp add: on_grid_def ptp_onGetEventCount_def setEventCount_def Let_def)
qed

lemma ptp_step_on_grid:
  assumes "on_grid start t s" and "t \<le> unat now"
  shows "on_grid start (unat now) (snd (ptp_onGetEventCount (Some now) s))"
proof (cases "now - mLastUpdate s > cGranularity")
  case True
  then show ?thesis using assms
    by (intro ptp_update_on_grid) (auto simp: on_grid_def Let_def word_less_nat_alt cGranularity_def)
next
  case False
  have "mLastUpdate s = mEventTimeStamp s" "unat (mEventTimeStamp s) \<le> unat now"
    using assms by (auto simp: on_grid_def Let_def)
  moreover from this have "unat (now - mLastUpdate s) = unat now - unat (mEventTimeStamp s)"
    by (simp add: unat_sub_small)
  moreover have "unat (now - mLastUpdate s) \<le> 125000"
    using False by (simp add: word_less_nat_alt cGranularity_def)
  ultimately show ?thesis
    using assms False by (auto simp: on_grid_def ptp_onGetEventCount_def Let_def)
qed

definition ptp_readings :: "u64 list \<Rightarrow> IasAvbPtpClockDomain \<Rightarrow> IasAvbPtpClockDomain" where
  "ptp_readings nows s = fold (\<lambda>now s. snd (ptp_onGetEventCount (Some now) s)) nows s"

lemma readings_on_grid:
  "on_grid start t s \<Longrightarrow> sorted (t # map unat nows) \<Longrightarrow>
     on_grid start (last (t # map unat nows)) (ptp_readings nows s)"
proof (induction nows arbitrary: t s)
  case Nil
  then show ?case by (simp add: ptp_readings_def)
next
  case (Cons now nows)
  then have "on_grid start (unat now) (snd (ptp_onGetEventCount (Some now) s))"
    by (intro ptp_step_on_grid [OF Cons.prems(1)]) simp_all
  then have "on_grid start (last (unat now # map unat nows)) (ptp_readings nows (snd (ptp_onGetEventCount (Some now) s)))"
    using Cons.prems(2) by (intro Cons.IH) simp_all
  then show ?case by (simp add: ptp_readings_def)
qed

section \<open>Properties\<close>

text \<open>C14. The client of the clock domain of a received stream always knows whether the domain is locked:
  after any sequence of resets, measurements, invalidations and drift corrections, the last lock
  notification says locked exactly if the domain is locked, and without one nothing has changed.\<close>

theorem lock_notifications_complete:
  assumes "run_requests (rx_step e reg t) qs s = Some (ev, s')" and "mClient s \<noteq> None"
  shows "told (mLockState s = eIasAvbLockStateLocked) ev \<longleftrightarrow> mLockState s' = eIasAvbLockStateLocked"
  using rx_domain.run_tells [OF assms] by simp

definition example_rx_clock :: IasAvbRxStreamClockDomain where
  "example_rx_clock =
     (snd (rx_clock_new (\<lambda>_. 0) None True))
       \<lparr>mClient := Some 0, mTimeConstant := 0, mLockState := eIasAvbLockStateLocked\<rparr>"

theorem lock_notifications_complete_witness:
  "\<exists>s'. run_requests (rx_step (\<lambda>_. 0) None default_tables) [Rx_Invalidate] example_rx_clock
        = Some ([NotifyUpdateLockState eIasAvbLockStateUnlocked], s') \<and>
      (told (mLockState example_rx_clock = eIasAvbLockStateLocked) [NotifyUpdateLockState eIasAvbLockStateUnlocked]
         \<longleftrightarrow> mLockState s' = eIasAvbLockStateLocked)"
proof -
  obtain s' where s': "run_requests (rx_step (\<lambda>_. 0) None default_tables) [Rx_Invalidate] example_rx_clock
      = Some ([NotifyUpdateLockState eIasAvbLockStateUnlocked], s')"
    by (simp add: rx_invalidate_def setFilter_def example_rx_clock_def lockStateChanged_def notify_def
        dmul_def calculateCoefficient_def ddiv_def Let_def)
  moreover have "mClient example_rx_clock \<noteq> None" by (simp add: example_rx_clock_def)
  ultimately show ?thesis using lock_notifications_complete [OF s'] by blast
qed

text \<open>C15. The PTP clock domain is an exact 48 kHz counter: however often and at whatever times it is read, as
  long as the PTP time does not run backwards, the event count is 3 per 62.5 us since the start of the
  first granule, its time stamp is the time of that count, and it is at most 125 us old.\<close>

theorem ptp_clock_exact:
  assumes new: "ptp_clock_new = Some s" and sorted: "sorted (map unat nows)" and late: "nows \<noteq> []" "250000 \<le> unat (hd nows)"
  defines "s' \<equiv> ptp_readings nows s" and "start \<equiv> unat (hd nows) div 125000 * 125000"
  shows "unat (mEventCount s') * 62500 = 3 * (unat (mEventTimeStamp s') - start) \<and>
    125000 dvd unat (mEventTimeStamp s') \<and> start \<le> unat (mEventTimeStamp s') \<and>
    unat (mEventTimeStamp s') \<le> unat (last nows) \<and> unat (last nows) \<le> unat (mEventTimeStamp s') + 125000"
proof -
  obtain now rest where nows: "nows = now # rest" using late by (cases nows) auto
  from new obtain s0 where "s = IasAvbClockDomain.extend s0 (IasAvbPtpClockDomain.fields 0 0)"
    by (auto simp: ptp_clock_new_def)
  then have s: "mStartTime s = 0" "mLastUpdate s = 0"
    by (simp_all add: IasAvbClockDomain.defs IasAvbPtpClockDomain.defs)
  have start: "unat (now - now mod cGranularity) = start"
    unfolding grid_time by (simp add: start_def nows minus_mod_eq_div_mult)
  have pos: "0 < start"
    using late div_le_mono [of 250000 "unat now" 125000] by (simp add: start_def nows)
  let ?s = "s\<lparr>mStartTime := now - now mod cGranularity\<rparr>"
  have "on_grid start (unat now) (snd (ptp_onGetEventCount (Some now) ?s))"
  proof (rule ptp_update_on_grid)
    show "mStartTime ?s \<noteq> 0" using start pos by auto
    show "start \<le> unat now" by (simp add: start_def nows)
  qed (use s start late in \<open>simp_all add: start_def nows\<close>)
  moreover have "snd (ptp_onGetEventCount (Some now) s) = snd (ptp_onGetEventCount (Some now) ?s)"
    using s start pos by (auto simp: ptp_onGetEventCount_def Let_def)
  ultimately have "on_grid start (last (unat now # map unat rest)) (ptp_readings rest (snd (ptp_onGetEventCount (Some now) s)))"
    using sorted by (intro readings_on_grid) (simp_all add: nows)
  moreover have "last (unat now # map unat rest) = unat (last nows)" by (simp add: nows last_map)
  moreover have "ptp_readings rest (snd (ptp_onGetEventCount (Some now) s)) = s'"
    by (simp add: s'_def nows ptp_readings_def)
  ultimately have "on_grid start (unat (last nows)) s'" by (simp only:)
  then show ?thesis unfolding on_grid_def Let_def by blast
qed

text \<open>The rate ratio is 1, so the constructor computes with exact doubles only.\<close>

lemma ptp_clock_exists: "\<exists>s. ptp_clock_new = Some s"
proof -
  have "ppm1 \<ge> 0" by (simp add: ppm1_def fl_nonneg)
  then have "1 \<le> dadd 1 (dmul ppm1 (double_of_u32 100000))"
    unfolding dadd_def dmul_def using fl_mono [of 1 "1 + fl (ppm1 * double_of_u32 100000)"] fl_exact [of 1 1 0]
    by (simp add: fl_nonneg)
  then show ?thesis
    by (auto simp: ptp_clock_new_def synchronous_clock_def setLockThreshold1_def setLockThreshold2_def ddiv_def Let_def)
qed

theorem ptp_clock_exact_witness:
  "\<exists>s. ptp_clock_new = Some s \<and>
     unat (mEventCount (ptp_readings [1000000, 1000500, 7300000] s)) * 62500 =
       3 * (unat (mEventTimeStamp (ptp_readings [1000000, 1000500, 7300000] s)) - 1000000) \<and>
     7175000 \<le> unat (mEventTimeStamp (ptp_readings [1000000, 1000500, 7300000] s))"
proof -
  obtain s where s: "ptp_clock_new = Some s" using ptp_clock_exists by blast
  from ptp_clock_exact [OF s, of "[1000000, 1000500, 7300000]"] s show ?thesis by auto
qed

end
