(* ===== verification/Audio_Stream.thy ===== *)
theory Audio_Stream
  imports Avb_Stream Clock_Domain Local_Audio_Stream
begin

text \<open>
  \<^verbatim>\<open>IasAvbAudioStream\<close> (\<^verbatim>\<open>IasAvbAudioStream.hpp/.cpp\<close>): an AVB stream that carries 16-bit samples
  between the network and a local audio stream. The record extends \<open>IasAvbStream\<close>, and its virtual
  functions fill a \<open>stream_vtable\<close>. What the stream reaches through pointers is its field \<open>heap\<close>: the
  local streams, the clock domains of received streams and the memory of the packets. The pointer
  \<^verbatim>\<open>mLocalStream\<close> is the number of a local stream. Members that are only logged are left out.

  \<open>audio_env\<close> holds the answers from outside: the registry, allocation, the MAC address, the time,
  and \<^verbatim>\<open>resetBuffers\<close> of the class derived from the local stream. What other threads do to the
  clock domain of a transmit stream is seen through \<open>ae_clock\<close>, the readings in the order in which
  one operation takes them. The result \<open>None\<close> is undefined behaviour, and for the loop that discards
  old samples also that it does not end.
\<close>

definition cCompatibilityAudio :: string where "cCompatibilityAudio = ''compatibility.audio''"
definition cAudioClockTimeout :: string where "cAudioClockTimeout = ''audio.clock.timeout''"
definition cBendCtrlStream :: string where "cBendCtrlStream = ''clock.bend.stream''"
definition cAudioBendRate :: string where "cAudioBendRate = ''clock.bendrate''"
definition cAudioMaxBend :: string where "cAudioMaxBend = ''clock.maxbend''"
definition cAudioFloatGain :: string where "cAudioFloatGain = ''audio.tx.floatconversiongain''"
definition cAudioSaturate :: string where "cAudioSaturate = ''audio.tx.saturate''"
definition cClkRawXTimestamp :: string where "cClkRawXTimestamp = ''clockdomain.raw.xtstamp''"
definition cXmitClkUpdateInterval :: string where "cXmitClkUpdateInterval = ''transmit.clock.updateinterval''"
definition cRxExcessPayload :: string where "cRxExcessPayload = ''receive.excess.payload''"
definition cAudioSparseTS :: string where "cAudioSparseTS = ''audio.tx.sparsetimestamp''"

definition cValidateNever :: u32 where "cValidateNever = 0"
definition cValidateOnce :: u32 where "cValidateOnce = 1"
definition cValidateAlways :: u32 where "cValidateAlways = 2"
definition cAvtpHeaderSize :: nat where "cAvtpHeaderSize = 24"
definition cFillLevelFifoSize :: nat where "cFillLevelFifoSize = 64"

section \<open>State\<close>

record 'l audio_heap =
  h_locals :: "nat \<Rightarrow> 'l"
  h_rxClocks :: "nat \<Rightarrow> IasAvbRxStreamClockDomain option"
  h_memory :: dma_memory

record 'l IasAvbAudioStream = IasAvbStream +
  mCompatibilityModeAudio :: IasAvbCompatibility
  mAudioFormat :: IasAvbAudioFormat
  mAudioFormatCode :: u8
  mMaxNumChannels :: u16
  mLocalStream :: "nat option"
  mSampleFrequency :: u32
  mSampleFrequencyCode :: u8
  mRefPlaneSampleCount :: u64
  mRefPlaneSampleOffset :: s64
  mRefPlaneSampleTime :: u64
  mMasterCount :: u64
  mLastMasterCount :: u64
  mMasterTime :: u64
  mLastMasterTime :: u64
  mMasterTimeout :: u64
  mDummySamplesSent :: u32
  mDumpCount :: u32
  mPacketLaunchTime :: u64
  mSamplesPerChannelPerPacket :: u16
  mStride :: u16
  mSeqNum :: u8
  mTempBuffer :: "AudioData list option"
  mConversionGain :: AudioData
  mUseSaturation :: bool
  mSampleIntervalNs :: double
  mWaitForData :: bool
  mRatioBendRate :: double
  mRatioBendLimit :: s32
  mAccumulatedFillLevel :: s32
  mFillLevelIndex :: u32
  mFillLevelFifo :: "s32 list option"
  mValidationMode :: u32
  mNumSkippedPackets :: u32
  mNumPacketsToSkip :: u32
  mValidationThreshold :: u32
  mValidationCount :: u32
  mExcessSamples :: u32
  mLocalStreamReadSampleCount :: u64
  mLocalStreamSampleOffset :: u64
  mLastRefPlaneSampleTime :: u64
  mMasterTimeUpdateMinInterval :: u64
  heap :: "'l audio_heap"

record clock_reading =
  r_eventCount :: u64
  r_eventTime :: u64
  r_eventRate :: u32
  r_rateRatio :: double
  r_lockState :: IasAvbLockState

record 'l audio_env =
  ae_registry :: "registry option"
  ae_stream :: stream_env
  ae_sourceMac :: "u8 list option"
  ae_tempBuffer :: "nat \<Rightarrow> AudioData list option"
  ae_fifo :: "s32 list option"
  ae_clockType :: IasAvbClockDomainType
  ae_clock :: "nat \<Rightarrow> clock_reading"
  ae_exp :: "double \<Rightarrow> double"
  ae_ptp_clock :: ptp_answers
  ae_ptp_local :: "nat \<Rightarrow> ptp_time \<times> ptp_time"
  ae_resetBuffers :: "'l \<Rightarrow> 'l option"

text \<open>The audio streams over local streams that extend \<open>IasLocalAudioStream\<close> by \<open>'a\<close>.\<close>

type_synonym 'a local_stream = "'a IasLocalAudioStream_scheme"
type_synonym 'a audio_stream = "'a IasLocalAudioStream_scheme IasAvbAudioStream"

text \<open>The constructor leaves \<^verbatim>\<open>mMasterTimeout\<close> uninitialised; \<open>initTransmit\<close> sets it.\<close>

definition audio_new :: "u64 \<Rightarrow> 'l audio_heap \<Rightarrow> 'l IasAvbAudioStream" where
  "audio_new timeout h = IasAvbStream.extend (stream_new eIasAvbAudioStream)
     (IasAvbAudioStream.fields eIasAvbCompLatest eIasAvbAudioFormatSaf16 0 0 None 0 0 0 0 0 0 0 0 0 timeout 0 0 0 0 0 0
        None 0x7FFF True 0 False 0 0 0 0 None cValidateOnce 0 0 0 0 0 0 0 0 0 h)"

definition isConnected :: "'l IasAvbAudioStream \<Rightarrow> bool" where
  "isConnected a \<longleftrightarrow> mLocalStream a \<noteq> None"

section \<open>Formats\<close>

definition sampleRateTable :: "u32 list" where
  "sampleRateTable = [0, 8000, 16000, 32000, 44100, 48000, 88200, 96000, 176400, 192000, 24000]"

text \<open>The search from the end of the table; index 0 means not found.\<close>

primrec rate_index :: "nat \<Rightarrow> u32 \<Rightarrow> nat" where
  "rate_index 0 sampleFrequency = 0"
| "rate_index (Suc n) sampleFrequency =
     (if sampleFrequency = sampleRateTable ! Suc n then Suc n else rate_index n sampleFrequency)"

definition getSampleFrequencyCode :: "registry option \<Rightarrow> u32 \<Rightarrow> u8" where
  "getSampleFrequencyCode reg sampleFrequency =
     (let (found, comp) = getConfigValue_text reg cCompatibilityAudio [] in
      if found \<and> comp = ''SAF'' then (if sampleFrequency = 48000 then 9 else 0)
      else if found \<and> comp = ''d6_1722a'' then (if sampleFrequency = 48000 then 5 else 0)
      else of_nat (rate_index (length sampleRateTable - 1) sampleFrequency))"

definition getCompatibilityModeAudio :: "registry option \<Rightarrow> IasAvbCompatibility" where
  "getCompatibilityModeAudio reg =
     (let compModeStr = snd (getConfigValue_text reg cCompatibilityAudio []) in
      if compModeStr = ''SAF'' then eIasAvbCompSaf
      else if compModeStr = ''d6_1722a'' then eIasAvbCompD6
      else eIasAvbCompLatest)"

fun cSampleSize :: "IasAvbAudioFormat \<Rightarrow> u16" where
  "cSampleSize eIasAvbAudioFormatIec61883 = 4"
| "cSampleSize eIasAvbAudioFormatSaf16 = 2"
| "cSampleSize eIasAvbAudioFormatSaf24 = 3"
| "cSampleSize eIasAvbAudioFormatSaf32 = 4"
| "cSampleSize eIasAvbAudioFormatSafFloat = 4"

definition cHeaderSize :: "IasAvbAudioFormat \<Rightarrow> u16" where
  "cHeaderSize format = (if format = eIasAvbAudioFormatIec61883 then 24 + 8 else 24)"

text \<open>The size of the packet is computed in \<^verbatim>\<open>int\<close> and truncated to 16 bits.\<close>

definition audio_getPacketSize :: "IasAvbAudioFormat \<Rightarrow> u16 \<Rightarrow> u16" where
  "audio_getPacketSize format numSamples = cHeaderSize format + cSampleSize format * numSamples"

definition getSampleSize :: "IasAvbAudioFormat \<Rightarrow> u16" where
  "getSampleSize format = cSampleSize format"

fun cFormatCode :: "IasAvbAudioFormat \<Rightarrow> u8" where
  "cFormatCode eIasAvbAudioFormatSaf16 = 4"
| "cFormatCode eIasAvbAudioFormatSaf24 = 3"
| "cFormatCode eIasAvbAudioFormatSaf32 = 2"
| "cFormatCode eIasAvbAudioFormatSafFloat = 1"
| "cFormatCode eIasAvbAudioFormatIec61883 = 0"

definition getFormatCode :: "registry option \<Rightarrow> IasAvbAudioFormat \<Rightarrow> u8" where
  "getFormatCode reg format =
     (let (found, comp) = getConfigValue_text reg cCompatibilityAudio [] in
      if found \<and> comp = ''SAF'' then (if format = eIasAvbAudioFormatSaf16 then 2 else 0)
      else cFormatCode format)"

section \<open>The client of the local stream\<close>

definition put_local :: "nat \<Rightarrow> 'l \<Rightarrow> 'l IasAvbAudioStream \<Rightarrow> 'l IasAvbAudioStream" where
  "put_local i l a = a\<lparr>heap := (heap a)\<lparr>h_locals := (h_locals (heap a))(i := l)\<rparr>\<rparr>"

text \<open>A call through \<^verbatim>\<open>mLocalStream\<close>.\<close>

definition on_local ::
  "('l IasAvbAudioStream \<times> 'l \<Rightarrow> ('r \<times> 'l IasAvbAudioStream \<times> 'l) option) \<Rightarrow> 'l IasAvbAudioStream \<Rightarrow>
     ('r \<times> 'l IasAvbAudioStream) option" where
  "on_local f a =
     do {
       i \<leftarrow> mLocalStream a;
       (r, a, l) \<leftarrow> f (a, h_locals (heap a) i);
       Some (r, put_local i l a)
     }"

text \<open>\<^verbatim>\<open>setClientActive\<close> calls back only \<^verbatim>\<open>resetBuffers\<close>.\<close>

definition reset_client :: "'l audio_env \<Rightarrow> ('l IasAvbAudioStream, 'l) stream_client" where
  "reset_client env =
     \<lparr>c_signalDiscontinuity = (\<lambda>_ _ _. None), c_getMaxTransmitTime = (\<lambda>_. None),
      c_getMinTransmitBufferSize = (\<lambda>_ _. None),
      c_resetBuffers = (\<lambda>(a, l). map_option (Pair a) (ae_resetBuffers env l))\<rparr>"

definition audio_setClientActive ::
  "'a local_stream audio_env \<Rightarrow> bool \<Rightarrow> 'a audio_stream \<times> 'a local_stream \<Rightarrow>
     ('a audio_stream \<times> 'a local_stream) option" where
  "audio_setClientActive env active = local_setClientActive (reset_client env) active"

definition signalDiscontinuity ::
  "'a local_stream audio_env \<Rightarrow> DiscontinuityEvent \<Rightarrow> u32 \<Rightarrow> 'a audio_stream \<times> 'a local_stream \<Rightarrow>
     (bool \<times> 'a audio_stream \<times> 'a local_stream) option" where
  "signalDiscontinuity env event numSamples al =
     (if isReceiveStream (fst al) then
        (case event of
           eIasOverrun \<Rightarrow> Some (True, al)
         | eIasUnderrun \<Rightarrow>
             let a = (fst al)\<lparr>mStreamState := eIasAvbStreamNoData, mWaitForData := True\<rparr> in
             if mLocalStream a \<noteq> None then map_option (Pair False) (audio_setClientActive env False (a, snd al))
             else Some (False, a, snd al)
         | eIasUnspecific \<Rightarrow> Some (False, al))
      else Some (False, al))"

definition getMaxTransmitTime :: "'l audio_env \<Rightarrow> 'l IasAvbAudioStream \<Rightarrow> u32 option" where
  "getMaxTransmitTime env a =
     (let maxTransmitTime = mPresentationTimeOffset a in
      if maxTransmitTime = 0 then map_option (getPresentationTimeOffset (env_tables (ae_stream env))) (mTSpec a)
      else Some maxTransmitTime)"

definition getMinTransmitBufferSize :: "'l audio_env \<Rightarrow> u32 \<Rightarrow> 'l IasAvbAudioStream \<Rightarrow> u32 option" where
  "getMinTransmitBufferSize env periodCycle a =
     do {
       let txWindowWidth = snd (getConfigValue id (ae_registry env) cXmitWndWidth (24 * 125000));
       let txWindowPitch = snd (getConfigValue id (ae_registry env) cXmitWndPitch (16 * 125000));
       tSpec \<leftarrow> mTSpec a;
       let packetsPerSecond = getPacketsPerSecond (env_tables (ae_stream env)) tSpec;
       w \<leftarrow> ddiv (dmul (double_of_u64 txWindowWidth) (double_of_u32 packetsPerSecond)) 1000000000;
       p \<leftarrow> ddiv (double_of_u32 periodCycle) (double_of_u64 txWindowPitch);
       maxPackets \<leftarrow> u32_of_double (dadd (of_int \<lceil>w\<rceil>) (of_int \<lfloor>p\<rfloor>));
       Some ((maxPackets + 1) * ucast (mSamplesPerChannelPerPacket a))
     }"

definition audio_client ::
  "'a local_stream audio_env \<Rightarrow> ('a audio_stream, 'a local_stream) stream_client" where
  "audio_client env =
     \<lparr>c_signalDiscontinuity = signalDiscontinuity env, c_getMaxTransmitTime = getMaxTransmitTime env,
      c_getMinTransmitBufferSize = getMinTransmitBufferSize env,
      c_resetBuffers = c_resetBuffers (reset_client env)\<rparr>"

section \<open>Drift compensation\<close>

text \<open>The result is the value passed to \<^verbatim>\<open>setDriftCompensation\<close> of the clock domain, if it is called.\<close>

definition updateRelativeFillLevel ::
  "s32 \<Rightarrow> 'l IasAvbAudioStream \<Rightarrow> (s32 option \<times> 'l IasAvbAudioStream) option" where
  "updateRelativeFillLevel relFillLevel a =
     (if mRatioBendRate a \<noteq> 0 \<and> mAvbClockDomain a \<noteq> None then do {
        fifo \<leftarrow> mFillLevelFifo a;
        let i = unat (mFillLevelIndex a);
        oldest \<leftarrow> fetch fifo i;
        fifo \<leftarrow> store fifo i relFillLevel;
        let accumulated = mAccumulatedFillLevel a - oldest + relFillLevel;
        let a = a\<lparr>mAccumulatedFillLevel := accumulated, mFillLevelFifo := Some fifo,
                  mFillLevelIndex := (if cFillLevelFifoSize = Suc i then 0 else mFillLevelIndex a + 1)\<rparr>;
        bendRaw \<leftarrow> ddiv (dmul (mRatioBendRate a) (double_of_s32 accumulated)) (of_nat cFillLevelFifoSize);
        bend \<leftarrow> s32_of_double (dmul (dmul bendRaw bendRaw) bendRaw);
        let bend = (if mRatioBendLimit a <s bend then mRatioBendLimit a
                    else if bend <s - mRatioBendLimit a then - mRatioBendLimit a else bend);
        Some (Some bend, a)
      }
      else Some (None, a))"

section \<open>Connection and activation\<close>

definition reset_fifo :: "'l IasAvbAudioStream \<Rightarrow> 'l IasAvbAudioStream" where
  "reset_fifo a =
     a\<lparr>mAccumulatedFillLevel := 0, mFillLevelIndex := 0,
       mFillLevelFifo := map_option (\<lambda>_. replicate cFillLevelFifoSize 0) (mFillLevelFifo a)\<rparr>"

text \<open>The number of audio channels of a local stream, without its side channel.\<close>

definition audioChannels :: "'a local_stream \<Rightarrow> u16" where
  "audioChannels l =
     (if mHasSideChannel l \<and> mNumChannels l > 0 then mNumChannels l - 1 else mNumChannels l)"

definition connect_local ::
  "'a local_stream audio_env \<Rightarrow> nat \<Rightarrow> 'a audio_stream \<Rightarrow> (IasAvbProcessingResult \<times> 'a audio_stream) option" where
  "connect_local env i a =
     (let l = h_locals (heap a) i; numChannels = audioChannels l in
      if numChannels = 0 \<or> numChannels > mMaxNumChannels a \<or>
         IasAvbAudioStream.mSampleFrequency a \<noteq> IasLocalAudioStream.mSampleFrequency l \<or>
         IasAvbStream.mDirection a \<noteq> IasLocalAudioStream.mDirection l
      then Some (eIasAvbProcInvalidParam, a)
      else do {
        (result, l) \<leftarrow> local_connect (audio_client env) (Some a) l;
        if result \<noteq> eIasAvbProcOK then Some (result, put_local i l a)
        else do {
          (a, l) \<leftarrow> audio_setClientActive env (isTransmitStream a \<and> mActive a) (a, l);
          let a = put_local i l a;
          Some (eIasAvbProcOK,
                (reset_fifo a)
                  \<lparr>mLocalStream := Some i, mStride := numChannels * getSampleSize (mAudioFormat a),
                   mRefPlaneSampleCount := 0, mDummySamplesSent := 0, mDumpCount := 0, mRefPlaneSampleTime := 0,
                   mLocalStreamReadSampleCount := 0, mLocalStreamSampleOffset := 0\<rparr>)
        }
      })"

definition connectTo ::
  "'a local_stream audio_env \<Rightarrow> nat option \<Rightarrow> 'a audio_stream \<Rightarrow> (IasAvbProcessingResult \<times> 'a audio_stream) option" where
  "connectTo env localStream a =
     (if \<not> isInitialized a then Some (eIasAvbProcNotInitialized, a)
      else if localStream = mLocalStream a then Some (eIasAvbProcOK, a)
      else
        let a = (case mLocalStream a of
                   None \<Rightarrow> a
                 | Some i \<Rightarrow> (put_local i (snd (local_disconnect (h_locals (heap a) i))) a)
                              \<lparr>mLocalStream := None, mStride := 0\<rparr>)
        in case localStream of
             None \<Rightarrow> Some (eIasAvbProcOK, a)
           | Some i \<Rightarrow> connect_local env i a)"

definition audio_activationChanged ::
  "'a local_stream audio_env \<Rightarrow> 'a audio_stream \<Rightarrow> 'a audio_stream option" where
  "audio_activationChanged env a =
     (let a = (if mActive a
               then (reset_fifo a)
                      \<lparr>mWaitForData := True, mRefPlaneSampleTime := 0, mRefPlaneSampleCount := 0,
                       mRefPlaneSampleOffset := 0, mDummySamplesSent := 0, mDumpCount := 0,
                       mLocalStreamReadSampleCount := 0, mLocalStreamSampleOffset := 0\<rparr>
               else a)
      in if isConnected a
         then map_option snd (on_local (\<lambda>al. map_option (Pair ()) (audio_setClientActive env (mActive a) al)) a)
         else Some a)"

definition audio_derivedCleanup ::
  "'a local_stream audio_env \<Rightarrow> 'a audio_stream \<Rightarrow> 'a audio_stream option" where
  "audio_derivedCleanup env a =
     do {
       a \<leftarrow> (if isConnected a then map_option snd (connectTo env None a) else Some a);
       Some (a\<lparr>mMaxNumChannels := 0, mSampleFrequency := 48000,
               mSampleFrequencyCode := getSampleFrequencyCode (ae_registry env) 48000,
               mAudioFormat := eIasAvbAudioFormatSaf16,
               mAudioFormatCode := getFormatCode (ae_registry env) eIasAvbAudioFormatSaf16,
               mCompatibilityModeAudio := eIasAvbCompLatest, mTempBuffer := None, mFillLevelFifo := None\<rparr>)
     }"

section \<open>The packet template\<close>

text \<open>The header of the reference packet; the gaps are filled in per packet.\<close>

definition write_template ::
  "'l audio_env \<Rightarrow> u8 list \<Rightarrow> 'l IasAvbAudioStream \<Rightarrow> u8 list \<Rightarrow> (nat \<times> u8 list) option" where
  "write_template env sourceMac a bytes =
     (let latest = (mCompatibilityModeAudio a = eIasAvbCompLatest);
          (found, sparse) = getConfigValue (\<lambda>v. v \<noteq> 0) (ae_registry env) cAudioSparseTS False
      in do {
        bytes \<leftarrow> blit bytes 0 (take cIasAvbMacAddressLength (mDmac a));
        bytes \<leftarrow> blit bytes 6 (take cIasAvbMacAddressLength sourceMac);
        bytes \<leftarrow> blit bytes 12 [0x81, 0x00];
        bytes \<leftarrow> blit bytes 14 (htons_bytes (mVlanData a));
        bytes \<leftarrow> blit bytes 16 [0x22, 0xF0];
        bytes \<leftarrow> put8 0 (if mAudioFormat a = eIasAvbAudioFormatIec61883 then 0x00 else 0x02) bytes;
        bytes \<leftarrow> put8 1 0x81 bytes;
        bytes \<leftarrow> put8 3 0x00 bytes;
        streamId \<leftarrow> mAvbStreamId a;
        bytes \<leftarrow> copyStreamId_loop 8 (avtpBase + 4) (IasAvbStreamId.mStreamId streamId) bytes;
        bytes \<leftarrow> put8 16 (mAudioFormatCode a) bytes;
        bytes \<leftarrow> (if latest then Some bytes else put8 18 (mSampleFrequencyCode a) bytes);
        bytes \<leftarrow> put8 19 16 bytes;
        bytes \<leftarrow> put8 22 (if latest \<and> found \<and> sparse then 0x10 else 0x00) bytes;
        bytes \<leftarrow> (if latest then put8 23 0x00 bytes else Some bytes);
        Some (avtpBase + (if latest then 24 else 23), bytes)
      })"

definition prepareAllPackets ::
  "'l audio_env \<Rightarrow> 'l IasAvbAudioStream \<Rightarrow> (IasAvbProcessingResult \<times> 'l IasAvbAudioStream) option" where
  "prepareAllPackets env a =
     do {
       pool \<leftarrow> mPacketPool a;
       (referencePacket, pool) \<leftarrow> getPacket pool;
       let a = a\<lparr>mPacketPool := Some pool\<rparr>;
       case (referencePacket, ae_sourceMac env) of
         (Some r, Some sourceMac) \<Rightarrow> do {
           pk \<leftarrow> deref pool r;
           let mem = h_memory (heap a);
           (n, bytes) \<leftarrow> write_template env sourceMac a (load_packet mem (vaddr pk) (mPacketSize pool));
           let mem = save_packet (vaddr pk) bytes mem;
           pool \<leftarrow> update_packet (\<lambda>pk. pk\<lparr>len := of_nat n\<rparr>) r pool;
           (result, pool, mem) \<leftarrow> initAllPacketsFromTemplate (deref pool r) (pool, mem);
           (_, pool) \<leftarrow> returnPacket (Some r) pool;
           Some (result, a\<lparr>mPacketPool := Some pool, heap := (heap a)\<lparr>h_memory := mem\<rparr>\<rparr>)
         }
       | _ \<Rightarrow> Some (eIasAvbProcInitializationFailed, a)
     }"

section \<open>Transmission\<close>

text \<open>\<^verbatim>\<open>uint32_t(ceil(double(t) / mSampleIntervalNs))\<close> and
  \<^verbatim>\<open>uint64_t(double(n) * mSampleIntervalNs * rateRatio)\<close>\<close>

definition samples_until :: "u64 \<Rightarrow> 'l IasAvbAudioStream \<Rightarrow> u32 option" where
  "samples_until t a =
     do { q \<leftarrow> ddiv (double_of_u64 t) (mSampleIntervalNs a); u32_of_double (of_int \<lceil>q\<rceil>) }"

definition samples_duration :: "u32 \<Rightarrow> double \<Rightarrow> 'l IasAvbAudioStream \<Rightarrow> u64 option" where
  "samples_duration n rateRatio a =
     u64_of_double (dmul (dmul (double_of_u32 n) (mSampleIntervalNs a)) rateRatio)"

definition resetTime ::
  "'l audio_env \<Rightarrow> u64 \<Rightarrow> 'l IasAvbAudioStream \<Rightarrow> (bool \<times> 'l IasAvbAudioStream) option" where
  "resetTime env nextWindowStart a =
     do {
       _ \<leftarrow> mAvbClockDomain a;
       let clock = ae_clock env 0;
       let masterTime = (if r_eventRate clock = 0 then 0 else r_eventTime clock);
       let masterCount = (if r_eventRate clock = 0 then r_eventCount clock
                          else r_eventCount clock * ucast (IasAvbAudioStream.mSampleFrequency a) div ucast (r_eventRate clock));
       let a = a\<lparr>mMasterTime := masterTime, mMasterCount := masterCount\<rparr>;
       (ret, a) \<leftarrow>
         (if masterTime = 0 then
            Some (False, a\<lparr>mRefPlaneSampleCount := 0, mRefPlaneSampleTime := 0, mPacketLaunchTime := nextWindowStart,
                           mRefPlaneSampleOffset := (if mRefPlaneSampleOffset a = 0 then 1 else mRefPlaneSampleOffset a)\<rparr>)
          else do {
            skip \<leftarrow> (if nextWindowStart > masterTime then samples_until (nextWindowStart - masterTime) a else Some 0);
            skip \<leftarrow> (if mLastRefPlaneSampleTime a > masterTime
                     then map_option (max skip) (samples_until (mLastRefPlaneSampleTime a - masterTime) a)
                     else Some skip);
            t \<leftarrow> samples_duration skip (r_rateRatio clock) a;
            Some (True, a\<lparr>mRefPlaneSampleOffset := mRefPlaneSampleCount a - masterCount,
                          mRefPlaneSampleCount := mRefPlaneSampleCount a + ucast skip,
                          mRefPlaneSampleTime := masterTime + t, mPacketLaunchTime := masterTime + t\<rparr>)
          });
       Some (ret, a\<lparr>mLastMasterCount := 0, mLastMasterTime := 0, mLastRefPlaneSampleTime := 0\<rparr>)
     }"

text \<open>Time stamp, sparse time stamping and sequence number.\<close>

definition write_header ::
  "'l IasAvbAudioStream \<Rightarrow> u8 list \<Rightarrow> (u8 list \<times> 'l IasAvbAudioStream) option" where
  "write_header a bytes =
     do {
       bytes \<leftarrow> put32 12 (ucast (mRefPlaneSampleTime a + ucast (mPresentationTimeOffset a))) bytes;
       info \<leftarrow> get8 22 bytes;
       flags \<leftarrow> get8 1 bytes;
       bytes \<leftarrow> (if info AND 0x10 \<noteq> 0
                 then put8 1 (if mSeqNum a mod 8 = 0 then flags OR 0x01 else flags AND NOT 0x01) bytes
                 else Some bytes);
       bytes \<leftarrow> put8 2 (mSeqNum a) bytes;
       Some (bytes, a\<lparr>mSeqNum := mSeqNum a + 1\<rparr>)
     }"

text \<open>The disposal of samples in exchange for dummy samples sent. The first component tells whether the
  stream asks for a reset.\<close>

definition balance_dummies ::
  "'a local_stream audio_env \<Rightarrow> 'a audio_stream \<Rightarrow> (bool \<times> 'a audio_stream) option" where
  "balance_dummies env a =
     (if mDummySamplesSent a > 0 then do {
        (dump, a) \<leftarrow> on_local (\<lambda>al. map_option (\<lambda>(_, n, al). (n, al))
          (dumpFromLocalAudioBuffer (audio_client env) (ucast (mDummySamplesSent a)) al)) a;
        let a = a\<lparr>mDummySamplesSent := mDummySamplesSent a - ucast dump\<rparr>;
        if dump > 0 then
          let a = a\<lparr>mDumpCount := mDumpCount a + 1\<rparr> in
          if mDumpCount a > 10 \<or> mDummySamplesSent a > 1000
          then Some (True, a\<lparr>mLastRefPlaneSampleTime := mRefPlaneSampleTime a\<rparr>)
          else Some (False, a)
        else Some (False, a)
      }
      else Some (False, a))"

text \<open>The loop that discards the samples behind the reference plane.\<close>

partial_function (option) discard_old ::
  "'a local_stream audio_env \<Rightarrow> u64 \<Rightarrow> 'a audio_stream \<Rightarrow> (u64 \<times> 'a audio_stream) option" where
  "discard_old env t0 a =
     (if t0 \<noteq> 0 \<and> t0 < mRefPlaneSampleTime a then
        Option.bind (on_local (\<lambda>al. map_option (\<lambda>(_, _, al). ((), al))
            (dumpFromLocalAudioBuffer (audio_client env) (mSamplesPerChannelPerPacket a) al)) a)
          (\<lambda>(_, a). Option.bind (on_local (\<lambda>(a, l). map_option (\<lambda>t. (t, a, l)) (getCurrentTimestamp l)) a)
             (\<lambda>(t, a). discard_old env t a))
      else Some (t0, a))"

text \<open>The alignment of the local time stamps to the reference plane when reading begins.\<close>

definition align_local ::
  "'a local_stream audio_env \<Rightarrow> 'a audio_stream \<Rightarrow> 'a audio_stream option" where
  "align_local env a =
     do {
       (t, a) \<leftarrow> on_local (\<lambda>(a, l). map_option (\<lambda>t. (t, a, l)) (getCurrentTimestamp l)) a;
       (t, a) \<leftarrow> discard_old env t a;
       if t \<noteq> 0 then do {
         _ \<leftarrow> mAvbClockDomain a;
         skip \<leftarrow> samples_until (t - mRefPlaneSampleTime a) a;
         d \<leftarrow> samples_duration skip (r_rateRatio (ae_clock env 1)) a;
         Some (a\<lparr>mLocalStreamSampleOffset := mRefPlaneSampleTime a + d - t\<rparr>)
       }
       else Some a
     }"

text \<open>\<^verbatim>\<open>readLocalAudioBuffer\<close> into \<^verbatim>\<open>mTempBuffer\<close>: the samples written and the time stamp.\<close>

definition read_local ::
  "'a local_stream audio_env \<Rightarrow> u16 \<Rightarrow> u16 \<Rightarrow> 'a audio_stream \<Rightarrow> ((u16 \<times> u64) \<times> 'a audio_stream) option" where
  "read_local env ch written a =
     do {
       ((mem, written, t), a) \<leftarrow> on_local (\<lambda>al. map_option (\<lambda>(_, mem, n, t, al). ((mem, n, t), al))
         (readLocalAudioBuffer (audio_client env) ch (mTempBuffer a) (ucast (mSamplesPerChannelPerPacket a))
            written 0 al)) a;
       Some ((written, t), a\<lparr>mTempBuffer := mem\<rparr>)
     }"

text \<open>The samples of one channel: read, or zeros. The result is the number of samples to send.\<close>

definition fetch_channel ::
  "'a local_stream audio_env \<Rightarrow> bool \<Rightarrow> u16 \<Rightarrow> u16 \<Rightarrow> 'a audio_stream \<Rightarrow> (u16 \<times> 'a audio_stream) option" where
  "fetch_channel env ready ch written a =
     do {
       (written, a) \<leftarrow>
         (if mDummySamplesSent a > 0 \<or> \<not> ready then Some (0, a)
          else do {
            ((written, t), a) \<leftarrow> read_local env ch written a;
            Some (written,
                  if ch = 0 \<and> written \<noteq> 0 \<and> t \<noteq> 0
                  then a\<lparr>mLocalStreamReadSampleCount := mLocalStreamReadSampleCount a + ucast written\<rparr> else a)
          });
       if written = 0 then do {
         let a = (if ch = 0 \<and> ready
                  then a\<lparr>mWaitForData := True,
                         mDummySamplesSent := mDummySamplesSent a + ucast (mSamplesPerChannelPerPacket a)\<rparr>
                  else a);
         mem \<leftarrow> mTempBuffer a;
         mem \<leftarrow> blit mem 0 (replicate (unat (mSamplesPerChannelPerPacket a)) 0);
         Some (mSamplesPerChannelPerPacket a, a\<lparr>mTempBuffer := Some mem\<rparr>)
       }
       else Some (written, if ch = 0 \<and> mWaitForData a then a\<lparr>mWaitForData := False\<rparr> else a)
     }"

text \<open>The copy of the samples into the packet; the conversions of both branches of \<^verbatim>\<open>mUseSaturation\<close> yield
  the same 16 bits.\<close>

primrec put_samples :: "AudioData list \<Rightarrow> nat \<Rightarrow> nat \<Rightarrow> u8 list \<Rightarrow> u8 list option" where
  "put_samples [] pBase stride bytes = Some bytes"
| "put_samples (x # xs) pBase stride bytes =
     do { bytes \<leftarrow> put16 pBase x bytes; put_samples xs (pBase + stride) stride bytes }"

text \<open>The loop over the channels from \<open>ch\<close> on; \<open>n\<close> counts those left.\<close>

primrec write_channels ::
  "nat \<Rightarrow> u16 \<Rightarrow> 'a local_stream audio_env \<Rightarrow> bool \<Rightarrow> u16 \<Rightarrow> u8 list \<Rightarrow> 'a audio_stream \<Rightarrow>
     (u16 \<times> u8 list \<times> 'a audio_stream) option" where
  "write_channels 0 ch env ready written bytes a = Some (written, bytes, a)"
| "write_channels (Suc n) ch env ready written bytes a =
     do {
       (written, a) \<leftarrow> fetch_channel env ready ch written a;
       mem \<leftarrow> mTempBuffer a;
       xs \<leftarrow> slice mem 0 (unat written);
       bytes \<leftarrow> put_samples xs (24 + unat (getSampleSize (mAudioFormat a)) * unat ch) (unat (mStride a)) bytes;
       write_channels n (ch + 1) env ready written bytes a
     }"

text \<open>The channel layout: from the side channel, which is the last one, or static. The union of the sample
  with its bytes is little endian.\<close>

definition get_layout ::
  "'a local_stream audio_env \<Rightarrow> u16 \<Rightarrow> 'a audio_stream \<Rightarrow> (u8 \<times> 'a audio_stream) option" where
  "get_layout env ch a =
     do {
       i \<leftarrow> mLocalStream a;
       if mHasSideChannel (h_locals (heap a) i) then do {
         ((samplesWritten, _), a) \<leftarrow> read_local env ch 0 a;
         if samplesWritten > 0 then do { mem \<leftarrow> mTempBuffer a; x \<leftarrow> fetch mem 0; Some (ucast x, a) }
         else Some (0, a)
       }
       else Some (mChannelLayout (h_locals (heap a) i), a)
     }"

text \<open>The payload of a connected stream: the reset request, the number of channels, the samples per channel
  and the packet.\<close>

definition write_payload ::
  "'a local_stream audio_env \<Rightarrow> u8 list \<Rightarrow> 'a audio_stream \<Rightarrow>
     (bool \<times> u16 \<times> u16 \<times> u8 list \<times> 'a audio_stream) option" where
  "write_payload env bytes a =
     do {
       i \<leftarrow> mLocalStream a;
       let l = h_locals (heap a) i;
       let numChannels = (if mHasSideChannel l then mNumChannels l - 1 else mNumChannels l);
       (reset, a) \<leftarrow> balance_dummies env a;
       ready \<leftarrow> isReadReady (h_locals (heap a) i);
       a \<leftarrow> (if hasBufferDesc (h_locals (heap a) i) \<and> ready \<and> mLocalStreamReadSampleCount a = 0
             then align_local env a else Some a);
       (written, bytes, a) \<leftarrow> write_channels (unat numChannels) 0 env ready 0 bytes a;
       (layout, a) \<leftarrow> get_layout env numChannels a;
       bytes \<leftarrow> (if mCompatibilityModeAudio a = eIasAvbCompSaf \<or> mCompatibilityModeAudio a = eIasAvbCompD6
                 then put8 17 layout bytes
                 else do { info \<leftarrow> get8 22 bytes; put8 22 ((info AND 0xF0) OR (layout AND 0x0F)) bytes });
       Some (reset, numChannels, written, bytes, a)
     }"

text \<open>The reference plane of the next packet.\<close>

definition advance_plane ::
  "'l audio_env \<Rightarrow> u16 \<Rightarrow> 'l IasAvbAudioStream \<Rightarrow> 'l IasAvbAudioStream option" where
  "advance_plane env written a =
     do {
       let clock = ae_clock env 2;
       let t = r_eventTime clock;
       n \<leftarrow> (if r_eventRate clock = 0 then None
             else Some (r_eventCount clock * ucast (IasAvbAudioStream.mSampleFrequency a) div ucast (r_eventRate clock)));
       let a = (if t \<noteq> mMasterTime a then
                  if t - mMasterTime a > mMasterTimeout a \<or> \<not> n > mMasterCount a
                  then a\<lparr>mRefPlaneSampleTime := 0, mRefPlaneSampleCount := 0, mMasterTime := 0\<rparr>
                  else if mMasterTimeUpdateMinInterval a \<noteq> 0 \<and> t - mMasterTime a < mMasterTimeUpdateMinInterval a
                  then a
                  else a\<lparr>mLastMasterTime := mMasterTime a, mMasterTime := t,
                         mLastMasterCount := mMasterCount a, mMasterCount := n\<rparr>
                else a);
       if mMasterTime a \<noteq> 0 then do {
         sampleDuration \<leftarrow>
           (if mLastMasterTime a = 0
            then ddiv (dmul 1000000000 (r_rateRatio clock)) (double_of_u32 (IasAvbAudioStream.mSampleFrequency a))
            else ddiv (double_of_u64 (mMasterTime a - mLastMasterTime a))
                   (double_of_u64 (mMasterCount a - mLastMasterCount a)));
         let count = mRefPlaneSampleCount a + ucast written;
         d \<leftarrow> s64_of_double (dmul sampleDuration (double_of_s64 (count - (mMasterCount a + mRefPlaneSampleOffset a))));
         let time = mMasterTime a + d;
         Some (a\<lparr>mRefPlaneSampleCount := count, mRefPlaneSampleTime := time, mPacketLaunchTime := time\<rparr>)
       }
       else Some a
     }"

text \<open>The number of channels, the lengths and the uncertainty of the time stamp.\<close>

definition finish_packet ::
  "'l audio_env \<Rightarrow> bool \<Rightarrow> u16 \<Rightarrow> u16 \<Rightarrow> IasAvbPacket \<times> u8 list \<Rightarrow> 'l IasAvbAudioStream \<Rightarrow>
     (IasAvbPacket \<times> u8 list) option" where
  "finish_packet env reset numChannels written pb a =
     do {
       let pk = (if reset then (fst pb)\<lparr>attime := 0\<rparr> else fst pb);
       bytes \<leftarrow> (if mCompatibilityModeAudio a = eIasAvbCompLatest then do {
                   bytes \<leftarrow> put8 17 (push_bit 4 (mSampleFrequencyCode a) OR ucast (drop_bit 8 numChannels AND 3)) (snd pb);
                   put8 18 (ucast (numChannels AND 0xFF)) bytes
                 }
                 else put16 22 numChannels (snd pb));
       let streamDataLength = written * numChannels * getSampleSize (mAudioFormat a);
       bytes \<leftarrow> put16 20 streamDataLength bytes;
       _ \<leftarrow> mAvbClockDomain a;
       bytes \<leftarrow> put8 3 (if r_lockState (ae_clock env 2) = eIasAvbLockStateLocked then 0x00 else 0x01) bytes;
       Some (pk\<lparr>len := ucast streamDataLength + 24 + of_nat cIasAvbPerFrameOverhead\<rparr>, bytes)
     }"

text \<open>\<^verbatim>\<open>writeToAvbPacket\<close> on the packet and its bytes.\<close>

definition write_packet ::
  "'a local_stream audio_env \<Rightarrow> u64 \<Rightarrow> IasAvbPacket \<times> u8 list \<Rightarrow> 'a audio_stream \<Rightarrow>
     ((IasAvbPacket \<times> u8 list) \<times> 'a audio_stream) option" where
  "write_packet env nextWindowStart pb a =
     do {
       (valid, a) \<leftarrow> (if mRefPlaneSampleCount a = 0 \<and> mRefPlaneSampleTime a = 0
                      then resetTime env nextWindowStart a else Some (True, a));
       if \<not> valid then
         Some (((makeDummyPacket (fst pb))\<lparr>attime := mPacketLaunchTime a + 10000000\<rparr>, snd pb), a)
       else do {
         let pk = (fst pb)\<lparr>attime := mPacketLaunchTime a\<rparr>;
         (bytes, a) \<leftarrow> write_header a (snd pb);
         (reset, numChannels, written, bytes, a) \<leftarrow>
           (if isConnected a then write_payload env bytes a
            else Some (False, 0, mSamplesPerChannelPerPacket a, bytes, a));
         pb \<leftarrow> finish_packet env reset numChannels written (pk, bytes) a;
         a \<leftarrow> advance_plane env written a;
         Some (pb, a)
       }
     }"

definition writeToAvbPacket ::
  "'a local_stream audio_env \<Rightarrow> pkt_ref \<Rightarrow> u64 \<Rightarrow> 'a audio_stream \<Rightarrow> (bool \<times> 'a audio_stream) option" where
  "writeToAvbPacket env r nextWindowStart a =
     (if \<not> isInitialized a \<or> \<not> mActive a \<or> \<not> isTransmitStream a then Some (False, a)
      else do {
        pool \<leftarrow> mPacketPool a;
        pk \<leftarrow> deref pool r;
        ((pk, bytes), a) \<leftarrow>
          write_packet env nextWindowStart (pk, load_packet (h_memory (heap a)) (vaddr pk) (mPacketSize pool)) a;
        pool \<leftarrow> update_packet (\<lambda>_. pk) r pool;
        Some (True, a\<lparr>mPacketPool := Some pool,
                      heap := (heap a)\<lparr>h_memory := save_packet (vaddr pk) bytes (h_memory (heap a))\<rparr>\<rparr>)
      })"

section \<open>Reception\<close>

text \<open>The clock domain of the stream, if it is one that recovers the clock of a received stream.\<close>

definition rxClock :: "'l IasAvbAudioStream \<Rightarrow> IasAvbRxStreamClockDomain option" where
  "rxClock a = (case mAvbClockDomain a of None \<Rightarrow> None | Some k \<Rightarrow> h_rxClocks (heap a) k)"

definition put_rxClock :: "IasAvbRxStreamClockDomain \<Rightarrow> 'l IasAvbAudioStream \<Rightarrow> 'l IasAvbAudioStream" where
  "put_rxClock rxc a =
     (case mAvbClockDomain a of
        None \<Rightarrow> a
      | Some k \<Rightarrow> a\<lparr>heap := (heap a)\<lparr>h_rxClocks := (h_rxClocks (heap a))(k := Some rxc)\<rparr>\<rparr>)"

definition count_diag ::
  "(IasAvbStreamDiagnostics \<Rightarrow> IasAvbStreamDiagnostics) \<Rightarrow> 'l IasAvbAudioStream \<Rightarrow> 'l IasAvbAudioStream" where
  "count_diag f a = a\<lparr>IasAvbStream.mDiag := f (IasAvbStream.mDiag a)\<rparr>"

text \<open>The validation of the header: whether it is valid, the length of the payload, and whether the format is
  counted as unsupported.\<close>

definition validate_header :: "'l IasAvbAudioStream \<Rightarrow> u8 list \<Rightarrow> nat \<Rightarrow> (bool \<times> nat \<times> bool) option" where
  "validate_header a bytes packetLength =
     (if packetLength < cAvtpHeaderSize \<or> mAudioFormat a = eIasAvbAudioFormatIec61883 then Some (False, 0, False)
      else do {
        subtype \<leftarrow> fetch bytes 0;
        format \<leftarrow> fetch bytes 16;
        b17 \<leftarrow> fetch bytes 17;
        b18 \<leftarrow> fetch bytes 18;
        dataLength \<leftarrow> ntohs_at bytes 20;
        let sampleFrequencyCode = (if mCompatibilityModeAudio a = eIasAvbCompLatest
                                   then drop_bit 4 b17 AND 0x0F else b18 AND 0x0F);
        Some (if subtype \<noteq> 0x02 then (False, 0, True)
              else if format \<noteq> mAudioFormatCode a then (False, 0, True)
              else if sampleFrequencyCode \<noteq> mSampleFrequencyCode a then (False, 0, False)
              else (unat dataLength \<le> packetLength - cAvtpHeaderSize, unat dataLength, False))
      })"

text \<open>Whether the packet is valid, the length of its payload, and the counted format errors.\<close>

definition validate_packet ::
  "u8 list \<Rightarrow> nat \<Rightarrow> 'l IasAvbAudioStream \<Rightarrow> (bool \<times> nat \<times> 'l IasAvbAudioStream) option" where
  "validate_packet bytes packetLength a =
     (if mValidationMode a = cValidateAlways \<or> mStreamState a \<noteq> eIasAvbStreamValid
      then map_option
             (\<lambda>(valid, n, unsupported).
                (valid, n, if unsupported
                           then count_diag (\<lambda>d. d\<lparr>unsupportedFormat := unsupportedFormat d + 1\<rparr>) a else a))
             (validate_header a bytes packetLength)
      else Some (False, 0, a))"

text \<open>The check of the sequence number, which replaces the result of the validation.\<close>

definition check_sequence ::
  "u8 list \<Rightarrow> u8 \<Rightarrow> bool \<Rightarrow> nat \<Rightarrow> 'l IasAvbAudioStream \<Rightarrow>
     (IasAvbStreamState \<times> nat \<times> 'l IasAvbAudioStream) option" where
  "check_sequence bytes seqNum valid payloadLength a =
     (if mStreamStateInternal a = eIasAvbStreamValid then
        map_option
          (\<lambda>n. if seqNum = mSeqNum a + 1 then (eIasAvbStreamValid, unat n, a)
                else (eIasAvbStreamInvalidData, unat n,
                      count_diag (\<lambda>d. d\<lparr>seqNumMismatch := seqNumMismatch d + 1\<rparr>) a))
          (ntohs_at bytes 20)
      else Some (if valid then eIasAvbStreamValid else eIasAvbStreamInvalidData, payloadLength, a))"

text \<open>The new state and the length of the payload.\<close>

definition check_packet ::
  "u8 list \<Rightarrow> nat \<Rightarrow> 'l IasAvbAudioStream \<Rightarrow> (IasAvbStreamState \<times> nat \<times> 'l IasAvbAudioStream) option" where
  "check_packet bytes packetLength a =
     do {
       let a = count_diag (\<lambda>d. d\<lparr>framesRx := framesRx d + 1\<rparr>) a;
       seqNum \<leftarrow> fetch bytes 2;
       (newState, payloadLength, a) \<leftarrow>
         (if mValidationMode a = cValidateNever
          then map_option (\<lambda>n. (eIasAvbStreamValid, unat n, a)) (ntohs_at bytes 20)
          else do {
            (valid, payloadLength, a) \<leftarrow> validate_packet bytes packetLength a;
            check_sequence bytes seqNum valid payloadLength a
          });
       Some (newState, payloadLength, a\<lparr>mSeqNum := seqNum\<rparr>)
     }"

definition set_client_active ::
  "'a local_stream audio_env \<Rightarrow> bool \<Rightarrow> 'a audio_stream \<Rightarrow> 'a audio_stream option" where
  "set_client_active env active a =
     (if isConnected a
      then map_option snd (on_local (\<lambda>al. map_option (Pair ()) (audio_setClientActive env active al)) a)
      else Some a)"

text \<open>The change of the stream state.\<close>

definition change_state ::
  "'a local_stream audio_env \<Rightarrow> IasAvbStreamState \<Rightarrow> 'a audio_stream \<Rightarrow> 'a audio_stream option" where
  "change_state env newState a =
     (let oldState = mStreamStateInternal a in
      do {
        a \<leftarrow> (if newState = eIasAvbStreamValid \<and> mValidationCount a > 0 then
                let a = a\<lparr>mValidationCount := mValidationCount a - 1\<rparr> in
                if mValidationCount a = 0 then set_client_active env True (a\<lparr>mStreamState := newState\<rparr>)
                else Some a
              else Some a);
        if newState = oldState then Some a
        else
          let a = a\<lparr>mStreamStateInternal := newState\<rparr> in
          if newState = eIasAvbStreamValid then Some (a\<lparr>mWaitForData := True\<rparr>)
          else if oldState = eIasAvbStreamValid then do {
            let a = (if newState = eIasAvbStreamNoData
                     then count_diag (\<lambda>d. d\<lparr>streamInterrupted := streamInterrupted d + 1\<rparr>) a else a);
            a \<leftarrow> set_client_active env False
                   (a\<lparr>mValidationCount := mValidationThreshold a, mStreamState := newState\<rparr>);
            Some (case rxClock a of
                    None \<Rightarrow> a
                  | Some rxc \<Rightarrow> put_rxClock (snd (rx_invalidate (ae_exp env) rxc)) a)
          }
          else Some a
      })"

definition decode_channels :: "'l IasAvbAudioStream \<Rightarrow> u8 list \<Rightarrow> u16 option" where
  "decode_channels a bytes =
     (if mCompatibilityModeAudio a = eIasAvbCompLatest then do {
        b17 \<leftarrow> fetch bytes 17;
        b18 \<leftarrow> fetch bytes 18;
        Some ((ucast b17 AND 0x0003) OR ucast b18)
      }
      else map_option (\<lambda>w. w AND 0x03FF) (ntohs_at bytes 22))"

text \<open>The samples of one channel from position \<open>pos\<close> on.\<close>

primrec get_samples :: "nat \<Rightarrow> nat \<Rightarrow> nat \<Rightarrow> u8 list \<Rightarrow> AudioData list option" where
  "get_samples 0 pos stride bytes = Some []"
| "get_samples (Suc n) pos stride bytes =
     do { x \<leftarrow> ntohs_at bytes pos; xs \<leftarrow> get_samples n (pos + stride) stride bytes; Some (x # xs) }"

definition write_local ::
  "'a local_stream audio_env \<Rightarrow> u16 \<Rightarrow> u16 \<Rightarrow> u16 \<Rightarrow> u32 \<Rightarrow> 'a audio_stream \<Rightarrow> (u16 \<times> 'a audio_stream) option" where
  "write_local env ch numSamples written timestamp a =
     on_local (\<lambda>al. map_option (\<lambda>(_, n, al). (n, al))
       (writeLocalAudioBuffer (audio_client env) (ae_ptp_local env (unat ch)) ch (mTempBuffer a) (ucast numSamples)
          written timestamp al)) a"

primrec read_channels ::
  "nat \<Rightarrow> u16 \<Rightarrow> 'a local_stream audio_env \<Rightarrow> u8 list \<Rightarrow> u16 \<Rightarrow> u16 \<Rightarrow> u32 \<Rightarrow> u16 \<Rightarrow> 'a audio_stream \<Rightarrow>
     (u16 \<times> 'a audio_stream) option" where
  "read_channels 0 ch env bytes stride numSamples timestamp written a = Some (written, a)"
| "read_channels (Suc n) ch env bytes stride numSamples timestamp written a =
     do {
       xs \<leftarrow> get_samples (unat numSamples) (24 + unat (getSampleSize (mAudioFormat a)) * unat ch) (unat stride) bytes;
       mem \<leftarrow> mTempBuffer a;
       mem \<leftarrow> blit mem 0 xs;
       (written, a) \<leftarrow> write_local env ch numSamples written timestamp (a\<lparr>mTempBuffer := Some mem\<rparr>);
       read_channels n (ch + 1) env bytes stride numSamples timestamp written a
     }"

text \<open>The local channels without a channel in the packet.\<close>

primrec fill_channels ::
  "nat \<Rightarrow> u16 \<Rightarrow> 'a local_stream audio_env \<Rightarrow> u16 \<Rightarrow> u32 \<Rightarrow> u16 \<Rightarrow> 'a audio_stream \<Rightarrow> (u16 \<times> 'a audio_stream) option"
where
  "fill_channels 0 ch env numSamples timestamp written a = Some (written, a)"
| "fill_channels (Suc n) ch env numSamples timestamp written a =
     do {
       (written, a) \<leftarrow> write_local env ch numSamples written timestamp a;
       fill_channels n (ch + 1) env numSamples timestamp written a
     }"

definition deliver_payload ::
  "'a local_stream audio_env \<Rightarrow> u8 list \<Rightarrow> u32 \<Rightarrow> bool \<Rightarrow> u16 \<Rightarrow> u16 \<Rightarrow> u16 \<Rightarrow> u16 \<Rightarrow> 'a audio_stream \<Rightarrow>
     'a audio_stream option" where
  "deliver_payload env bytes timestamp first numChannels numLocalChannels stride numSamples a =
     do {
       i \<leftarrow> mLocalStream a;
       let l = h_locals (heap a) i;
       a \<leftarrow> (if hasBufferDesc l \<and> first then map_option (\<lambda>l. put_local i l a) (flush_all l) else Some a);
       (written, a) \<leftarrow> read_channels (unat numChannels) 0 env bytes stride numSamples timestamp 0 a;
       mem \<leftarrow> mTempBuffer a;
       mem \<leftarrow> blit mem 0 (replicate (unat (ucast (mSamplesPerChannelPerPacket a) + mExcessSamples a)) 0);
       (written, a) \<leftarrow> fill_channels (unat numLocalChannels - unat numChannels) numChannels env numSamples timestamp
                        written (a\<lparr>mTempBuffer := Some mem\<rparr>);
       if mHasSideChannel l then do {
         layout \<leftarrow> (if mCompatibilityModeAudio a = eIasAvbCompLatest
                    then map_option (\<lambda>b. b AND 0x0F) (fetch bytes 22) else fetch bytes 17);
         mem \<leftarrow> mTempBuffer a;
         mem \<leftarrow> blit mem 0 (replicate (unat numSamples) (ucast layout));
         (_, a) \<leftarrow> write_local env numLocalChannels numSamples written timestamp (a\<lparr>mTempBuffer := Some mem\<rparr>);
         Some a
       }
       else Some a
     }"

definition count_flags :: "u8 list \<Rightarrow> 'l IasAvbAudioStream \<Rightarrow> 'l IasAvbAudioStream option" where
  "count_flags bytes a =
     do {
       b1 \<leftarrow> fetch bytes 1;
       b3 \<leftarrow> fetch bytes 3;
       Some (count_diag
         (\<lambda>d. d\<lparr>mediaReset := mediaReset d + (if b1 AND 0x08 \<noteq> 0 then 1 else 0),
                timestampValid := timestampValid d + (if b1 AND 0x01 \<noteq> 0 then 1 else 0),
                timestampNotValid := timestampNotValid d + (if b1 AND 0x01 \<noteq> 0 then 0 else 1),
                timestampUncertain := timestampUncertain d + (if b3 AND 0x01 \<noteq> 0 then 1 else 0)\<rparr>) a)
     }"

definition u16_of_double :: "double \<Rightarrow> u16 option" where
  "u16_of_double x = (if 0 \<le> trunc x \<and> trunc x < 2 ^ 16 then Some (of_int (trunc x)) else None)"

text \<open>The samples per packet of a stream without channels.\<close>

definition null_samples :: "'l audio_env \<Rightarrow> 'l IasAvbAudioStream \<Rightarrow> u16 option" where
  "null_samples env a =
     do {
       tSpec \<leftarrow> mTSpec a;
       t \<leftarrow> ddiv 1000000000 (double_of_u32 (getPacketsPerSecond (env_tables (ae_stream env)) tSpec));
       n \<leftarrow> ddiv t (mSampleIntervalNs a);
       u16_of_double (dadd n (1 / 2))
     }"

definition update_lock_diag :: "IasAvbLockState \<Rightarrow> 'l IasAvbAudioStream \<Rightarrow> 'l IasAvbAudioStream" where
  "update_lock_diag lockState a =
     (if mCurrentAvbLockState a \<noteq> lockState then
        count_diag
          (\<lambda>d. if lockState = eIasAvbLockStateUnlocked then d\<lparr>mediaUnlocked := mediaUnlocked d + 1\<rparr>
               else if lockState = eIasAvbLockStateLocked then d\<lparr>mediaLocked := mediaLocked d + 1\<rparr> else d)
          (a\<lparr>mCurrentAvbLockState := lockState\<rparr>)
      else a)"

text \<open>The update of the clock domain; the notifications of its client are left out.\<close>

definition update_clock ::
  "'l audio_env \<Rightarrow> IasAvbRxStreamClockDomain \<Rightarrow> u8 list \<Rightarrow> u32 \<Rightarrow> u16 \<Rightarrow> u16 \<Rightarrow> 'l IasAvbAudioStream \<Rightarrow>
     'l IasAvbAudioStream option" where
  "update_clock env rxc bytes timestamp numChannels numSamples a =
     do {
       numSamples \<leftarrow> (if numChannels = 0 then null_samples env a else Some numSamples);
       b1 \<leftarrow> fetch bytes 1;
       a \<leftarrow>
         (if b1 AND 0x01 \<noteq> 0 \<and> mNumSkippedPackets a \<ge> mNumPacketsToSkip a then do {
            deltaMediaClock \<leftarrow> u32_of_double (dmul (double_of_u64 (mRefPlaneSampleCount a)) (mSampleIntervalNs a));
            tSpec \<leftarrow> mTSpec a;
            let (request, rxc) = (if mWaitForData a then (True, rxc) else clock_getResetRequest rxc);
            (_, rxc) \<leftarrow>
              (if request
               then rx_reset32 (ae_exp env) (ae_registry env) (env_tables (ae_stream env)) (ae_ptp_clock env)
                      (mClass tSpec) timestamp (IasAvbAudioStream.mSampleFrequency a) rxc
               else rx_update32 (ae_ptp_clock env) (mRefPlaneSampleCount a) timestamp deltaMediaClock
                      (timestamp - ucast (mRefPlaneSampleTime a)) rxc);
            let a = put_rxClock rxc (if request then a\<lparr>mWaitForData := False\<rparr> else a);
            Some ((update_lock_diag (mLockState rxc) a)
                    \<lparr>mRefPlaneSampleTime := ucast timestamp, mRefPlaneSampleCount := 0, mNumSkippedPackets := 1\<rparr>)
          }
          else Some (a\<lparr>mNumSkippedPackets := mNumSkippedPackets a + 1\<rparr>));
       Some (a\<lparr>mRefPlaneSampleCount := mRefPlaneSampleCount a + ucast numSamples\<rparr>)
     }"

definition read_payload ::
  "'a local_stream audio_env \<Rightarrow> u8 list \<Rightarrow> bool \<Rightarrow> nat \<Rightarrow> 'a audio_stream \<Rightarrow> 'a audio_stream option" where
  "read_payload env bytes first payloadLength a =
     do {
       timestamp \<leftarrow> ntohl_at bytes 12;
       numChannels \<leftarrow> decode_channels a bytes;
       let numLocalChannels = (case mLocalStream a of None \<Rightarrow> 0 | Some i \<Rightarrow> audioChannels (h_locals (heap a) i));
       let stride = getSampleSize (mAudioFormat a) * numChannels;
       let numSamples = (if stride = 0 then 0 else of_nat (payloadLength div unat stride) :: u16);
       let limit = (ucast (mSamplesPerChannelPerPacket a) + mExcessSamples a :: u32);
       let numSamples = (if ucast numSamples > limit then ucast limit else numSamples);
       let numChannels = (if numChannels > numLocalChannels then numLocalChannels else numChannels);
       a \<leftarrow> (if isConnected a \<and> numChannels > 0
             then deliver_payload env bytes timestamp first numChannels numLocalChannels stride numSamples a
             else Some a);
       a \<leftarrow> count_flags bytes a;
       case rxClock a of
         None \<Rightarrow> Some a
       | Some rxc \<Rightarrow> update_clock env rxc bytes timestamp numChannels numSamples a
     }"

definition readFromAvbPacket ::
  "'a local_stream audio_env \<Rightarrow> u8 list option \<Rightarrow> nat \<Rightarrow> 'a audio_stream \<Rightarrow> 'a audio_stream option" where
  "readFromAvbPacket env packet packetLength a =
     (if isInitialized a \<and> isReceiveStream a then
        let oldState = mStreamStateInternal a in
        case packet of
          None \<Rightarrow> change_state env eIasAvbStreamNoData (a\<lparr>mWaitForData := True\<rparr>)
        | Some bytes \<Rightarrow> do {
            (newState, payloadLength, a) \<leftarrow> check_packet bytes packetLength a;
            a \<leftarrow> change_state env newState a;
            if newState = eIasAvbStreamValid
            then read_payload env bytes (oldState \<noteq> eIasAvbStreamValid) payloadLength a else Some a
          }
      else Some a)"

section \<open>Initialisation\<close>

definition audio_vtable :: "'a local_stream audio_env \<Rightarrow> 'a audio_stream stream_vtable" where
  "audio_vtable env =
     \<lparr>v_activationChanged = audio_activationChanged env, v_derivedCleanup = audio_derivedCleanup env,
      v_readFromAvbPacket = readFromAvbPacket env, v_writeToAvbPacket = writeToAvbPacket env\<rparr>"

text \<open>The checks of the parameters shared by both directions.\<close>

definition check_format :: "u16 \<Rightarrow> u32 \<Rightarrow> IasAvbAudioFormat \<Rightarrow> bool \<Rightarrow> IasAvbProcessingResult" where
  "check_format maxNumberChannels sampleFreq format clockMissing =
     (if maxNumberChannels = 0 \<or> sampleFreq = 0 \<or> clockMissing then eIasAvbProcInvalidParam
      else if \<not> (sampleFreq = 48000 \<or> sampleFreq = 24000) \<or> format \<noteq> eIasAvbAudioFormatSaf16
      then eIasAvbProcUnsupportedFormat
      else eIasAvbProcOK)"

definition samplesPerPacket :: "u32 \<Rightarrow> u32 \<Rightarrow> u16" where
  "samplesPerPacket sampleFreq packetsPerSec = ucast ((sampleFreq + (packetsPerSec - 1)) div packetsPerSec)"

definition audio_tspec :: "IasAvbSrClass \<Rightarrow> IasAvbAudioFormat \<Rightarrow> u16 \<Rightarrow> u16 \<Rightarrow> IasAvbTSpec" where
  "audio_tspec srClass format maxNumberChannels samplesPerChannel =
     \<lparr>mMaxFrameSize = audio_getPacketSize format (maxNumberChannels * samplesPerChannel), mClass = srClass,
      mMaxIntervalFrames = 1\<rparr>"

text \<open>The set-up of the drift control, if the stream is the one configured for it.\<close>

definition init_bend ::
  "'l audio_env \<Rightarrow> 'l IasAvbAudioStream \<Rightarrow> (IasAvbProcessingResult \<times> 'l IasAvbAudioStream) option" where
  "init_bend env a =
     (let (found, bend) = doGetConfigValue (ae_registry env) cBendCtrlStream 0 in
      if found then do {
        streamId \<leftarrow> mAvbStreamId a;
        if IasAvbStreamId.mStreamId streamId = bend then
          let rate = snd (doGetConfigValue (ae_registry env) cAudioBendRate 200);
              limit = snd (doGetConfigValue (ae_registry env) cAudioMaxBend 20);
              a = a\<lparr>mRatioBendRate := dmul (double_of_u64 rate) milli, mRatioBendLimit := ucast limit,
                    mFillLevelFifo := ae_fifo env\<rparr>
          in Some (if ae_fifo env = None then eIasAvbProcNotEnoughMemory else eIasAvbProcOK, a)
        else Some (eIasAvbProcOK, a)
      }
      else Some (eIasAvbProcOK, a))"

text \<open>The members that both directions set from the parameters.\<close>

definition set_format ::
  "'l audio_env \<Rightarrow> u16 \<Rightarrow> u32 \<Rightarrow> IasAvbAudioFormat \<Rightarrow> 'l IasAvbAudioStream \<Rightarrow> 'l IasAvbAudioStream option" where
  "set_format env maxNumberChannels sampleFreq format a =
     map_option
       (\<lambda>interval. a\<lparr>mMaxNumChannels := maxNumberChannels, mSampleFrequency := sampleFreq,
                     mSampleFrequencyCode := getSampleFrequencyCode (ae_registry env) sampleFreq,
                     mAudioFormat := format, mAudioFormatCode := getFormatCode (ae_registry env) format,
                     mSampleIntervalNs := interval\<rparr>)
       (ddiv 1000000000 (double_of_u32 sampleFreq))"

definition init_tx_config ::
  "'l audio_env \<Rightarrow> u16 \<Rightarrow> u32 \<Rightarrow> IasAvbAudioFormat \<Rightarrow> 'l IasAvbAudioStream \<Rightarrow>
     (IasAvbProcessingResult \<times> 'l IasAvbAudioStream) option" where
  "init_tx_config env maxNumberChannels sampleFreq format a =
     do {
       let (gainFound, gain) = getConfigValue (ucast :: u64 \<Rightarrow> u32) (ae_registry env) cAudioFloatGain 0x7FFF;
       let (satFound, sat) = getConfigValue (ucast :: u64 \<Rightarrow> u32) (ae_registry env) cAudioSaturate gain;
       a \<leftarrow> set_format env maxNumberChannels sampleFreq format
              (a\<lparr>mConversionGain := (if gainFound then ucast gain else mConversionGain a),
                 mUseSaturation := (if satFound then sat \<noteq> 0 else mUseSaturation a),
                 mMasterTimeout := snd (doGetConfigValue (ae_registry env) cAudioClockTimeout 2000000000)\<rparr>);
       step \<leftarrow> u32_of_double (mSampleIntervalNs a);
       (result, a) \<leftarrow> prepareAllPackets env (snd (adjustPresentationTimeOffset step a));
       let a = (if ae_clockType env = eIasAvbClockDomainRaw \<and>
                   snd (doGetConfigValue (ae_registry env) cClkRawXTimestamp 0) = 2
                then a\<lparr>mMasterTimeUpdateMinInterval :=
                         snd (doGetConfigValue (ae_registry env) cXmitClkUpdateInterval 1000000)\<rparr>
                else a);
       Some (result, a)
     }"

text \<open>\<^verbatim>\<open>result\<close> and the state before the clean-up of a failed \<open>initTransmit\<close>.\<close>

definition audio_initTransmit_body ::
  "'a local_stream audio_env \<Rightarrow> IasAvbSrClass \<Rightarrow> u16 \<Rightarrow> u32 \<Rightarrow> IasAvbAudioFormat \<Rightarrow> IasAvbStreamId \<Rightarrow> u32 \<Rightarrow>
     nat option \<Rightarrow> u8 list \<Rightarrow> bool \<Rightarrow> 'a audio_stream \<Rightarrow> (IasAvbProcessingResult \<times> 'a audio_stream) option" where
  "audio_initTransmit_body env srClass maxNumberChannels sampleFreq format streamId poolSize clockDomain dmac
       preconfigured a =
     (let t = env_tables (ae_stream env);
          packetsPerSec = getPacketsPerSecondByClass t srClass;
          result = check_format maxNumberChannels sampleFreq format (clockDomain = None)
      in if result \<noteq> eIasAvbProcOK then Some (result, a)
         else if packetsPerSec = 0
         then Some (eIasAvbProcInvalidParam, a\<lparr>mCompatibilityModeAudio := getCompatibilityModeAudio (ae_registry env)\<rparr>)
         else do {
           let spp = samplesPerPacket sampleFreq packetsPerSec;
           let tSpec = audio_tspec srClass format maxNumberChannels spp;
           (result, a) \<leftarrow> Avb_Stream.initTransmit (audio_vtable env) (ae_stream env) tSpec streamId poolSize clockDomain
                            dmac (getVlanId t tSpec) preconfigured
                            (a\<lparr>mCompatibilityModeAudio := getCompatibilityModeAudio (ae_registry env),
                               mSamplesPerChannelPerPacket := spp\<rparr>);
           if result \<noteq> eIasAvbProcOK then Some (result, a)
           else
             let a = a\<lparr>mTempBuffer := ae_tempBuffer env (unat spp)\<rparr> in
             if mTempBuffer a = None then Some (eIasAvbProcNotEnoughMemory, a)
             else do {
               (result, a) \<leftarrow> init_bend env (a\<lparr>mCompatibilityModeAudio := getCompatibilityModeAudio (ae_registry env)\<rparr>);
               if result \<noteq> eIasAvbProcOK then Some (result, a)
               else init_tx_config env maxNumberChannels sampleFreq format a
             }
         })"

definition audio_initTransmit ::
  "'a local_stream audio_env \<Rightarrow> IasAvbSrClass \<Rightarrow> u16 \<Rightarrow> u32 \<Rightarrow> IasAvbAudioFormat \<Rightarrow> IasAvbStreamId \<Rightarrow> u32 \<Rightarrow>
     nat option \<Rightarrow> u8 list \<Rightarrow> bool \<Rightarrow> 'a audio_stream \<Rightarrow> (IasAvbProcessingResult \<times> 'a audio_stream) option" where
  "audio_initTransmit env srClass maxNumberChannels sampleFreq format streamId poolSize clockDomain dmac
       preconfigured a =
     (if isInitialized a then Some (eIasAvbProcInitializationFailed, a)
      else
        Option.bind
          (audio_initTransmit_body env srClass maxNumberChannels sampleFreq format streamId poolSize clockDomain dmac
             preconfigured a)
          (\<lambda>(result, a). if result \<noteq> eIasAvbProcOK
                         then map_option (Pair result) (stream_cleanup (audio_vtable env) a)
                         else Some (result, a)))"

definition audio_initReceive_body ::
  "'a local_stream audio_env \<Rightarrow> IasAvbSrClass \<Rightarrow> u16 \<Rightarrow> u32 \<Rightarrow> IasAvbAudioFormat \<Rightarrow> IasAvbStreamId \<Rightarrow> u8 list \<Rightarrow>
     u16 \<Rightarrow> bool \<Rightarrow> 'a audio_stream \<Rightarrow> (IasAvbProcessingResult \<times> 'a audio_stream) option" where
  "audio_initReceive_body env srClass maxNumberChannels sampleFreq format streamId dmac vid preconfigured a =
     (let t = env_tables (ae_stream env); reg = ae_registry env;
          packetsPerSec = getPacketsPerSecondByClass t srClass;
          result = (if packetsPerSec = 0 then eIasAvbProcInvalidParam
                    else check_format maxNumberChannels sampleFreq format False)
      in if result \<noteq> eIasAvbProcOK then Some (result, a)
         else do {
           let spp = samplesPerPacket sampleFreq packetsPerSec;
           (result, a) \<leftarrow> Avb_Stream.initReceive (audio_vtable env) (ae_stream env)
                            (audio_tspec srClass format maxNumberChannels spp) streamId dmac vid preconfigured
                            (a\<lparr>mSamplesPerChannelPerPacket := spp\<rparr>);
           if result \<noteq> eIasAvbProcOK then Some (result, a)
           else
             let excess = snd (getConfigValue ucast reg cRxExcessPayload 1);
                 a = a\<lparr>mExcessSamples := excess, mTempBuffer := ae_tempBuffer env (unat (ucast spp + excess))\<rparr>
             in if mTempBuffer a = None then Some (eIasAvbProcNotEnoughMemory, a)
                else do {
                  a \<leftarrow> set_format env maxNumberChannels sampleFreq format
                         (a\<lparr>mCompatibilityModeAudio := getCompatibilityModeAudio reg\<rparr>);
                  let threshold = snd (getConfigValue ucast reg cRxValidationThreshold 100);
                  Some (eIasAvbProcOK,
                        a\<lparr>mValidationMode := snd (getConfigValue ucast reg cRxValidationMode (mValidationMode a)),
                          mValidationThreshold := threshold, mValidationCount := threshold,
                          mWaitForData := True, mNumSkippedPackets := 1,
                          mNumPacketsToSkip :=
                            snd (getConfigValue ucast reg cRxClkUpdateInterval 10000) * packetsPerSec div 1000000\<rparr>)
                }
         })"

definition audio_initReceive ::
  "'a local_stream audio_env \<Rightarrow> IasAvbSrClass \<Rightarrow> u16 \<Rightarrow> u32 \<Rightarrow> IasAvbAudioFormat \<Rightarrow> IasAvbStreamId \<Rightarrow> u8 list \<Rightarrow>
     u16 \<Rightarrow> bool \<Rightarrow> 'a audio_stream \<Rightarrow> (IasAvbProcessingResult \<times> 'a audio_stream) option" where
  "audio_initReceive env srClass maxNumberChannels sampleFreq format streamId dmac vid preconfigured a =
     (if isInitialized a then Some (eIasAvbProcInitializationFailed, a)
      else
        Option.bind
          (audio_initReceive_body env srClass maxNumberChannels sampleFreq format streamId dmac vid preconfigured a)
          (\<lambda>(result, a). if result \<noteq> eIasAvbProcOK
                         then map_option (Pair result) (stream_cleanup (audio_vtable env) a)
                         else Some (result, a)))"

end
