(* ===== verification/Audio_Packets.thy ===== *)
theory Audio_Packets
  imports Audio_Stream
begin

text \<open>
  The packets of audio streams: which received packets are accepted, and that the samples which one stream
  writes into a packet are the samples that another reads from it.
\<close>

section \<open>Acceptance of packets\<close>

lemma validate_header_length:
  assumes "cAvtpHeaderSize \<le> n" and "cAvtpHeaderSize \<le> n'"
  shows "map_option (\<lambda>(_, _, u). u) (validate_header a bytes n) = map_option (\<lambda>(_, _, u). u) (validate_header a bytes n')"
  using assms
  by (cases "fetch bytes 0"; cases "fetch bytes 16"; cases "fetch bytes 17"; cases "fetch bytes 18"; cases "ntohs_at bytes 20")
    (simp_all add: validate_header_def Let_def)

lemma count_diag_simps [simp]:
  "mStreamStateInternal (count_diag f a) = mStreamStateInternal a" "mValidationMode (count_diag f a) = mValidationMode a"
  "mStreamState (count_diag f a) = mStreamState a" "mSeqNum (count_diag f a) = mSeqNum a"
  by (simp_all add: count_diag_def)

lemma validate_packet_frame:
  "validate_packet bytes n a = Some (v, k, a') \<Longrightarrow>
     mStreamStateInternal a' = mStreamStateInternal a \<and> mSeqNum a' = mSeqNum a"
  by (auto simp: validate_packet_def split: if_splits)

lemma validate_packet_length:
  assumes "cAvtpHeaderSize \<le> n" "cAvtpHeaderSize \<le> n'"
  shows "map_option (\<lambda>(_, _, a). a) (validate_packet bytes n a) = map_option (\<lambda>(_, _, a). a) (validate_packet bytes n' a)"
  using validate_header_length [OF assms, of a bytes]
  by (cases "validate_header a bytes n"; cases "validate_header a bytes n'") (auto simp: validate_packet_def)

lemma check_sequence_valid:
  "mStreamStateInternal a = eIasAvbStreamValid \<Longrightarrow> check_sequence bytes q v k a = check_sequence bytes q v' k' a"
  by (simp add: check_sequence_def)

lemma check_valid_stream:
  assumes "mStreamStateInternal a = eIasAvbStreamValid" "cAvtpHeaderSize \<le> n" "cAvtpHeaderSize \<le> n'"
  shows "check_packet bytes n a = check_packet bytes n' a"
proof -
  let ?a = "count_diag (\<lambda>d. d\<lparr>framesRx := framesRx d + 1\<rparr>) a"
  have "(Option.bind (validate_packet bytes n ?a) (\<lambda>(v, k, a). check_sequence bytes q v k a)) =
      (Option.bind (validate_packet bytes n' ?a) (\<lambda>(v, k, a). check_sequence bytes q v k a))" for q
    using validate_packet_length [OF assms(2,3), of bytes ?a] validate_packet_frame [of bytes _ ?a] assms(1)
    by (cases "validate_packet bytes n ?a"; cases "validate_packet bytes n' ?a")
      (auto intro!: check_sequence_valid)
  then show ?thesis
    by (cases "fetch bytes 2") (simp_all add: check_packet_def Let_def)
qed

lemma check_valid_state:
  assumes "mStreamStateInternal a = eIasAvbStreamValid" "mValidationMode a \<noteq> cValidateNever"
    "check_packet bytes n a = Some (st, k, a')"
  shows "st = (if bytes ! 2 = mSeqNum a + 1 then eIasAvbStreamValid else eIasAvbStreamInvalidData)"
proof -
  let ?a = "count_diag (\<lambda>d. d\<lparr>framesRx := framesRx d + 1\<rparr>) a"
  from assms obtain q v m b c where "fetch bytes 2 = Some q" "validate_packet bytes n ?a = Some (v, m, b)"
    "check_sequence bytes q v m b = Some (st, k, c)"
    by (auto simp: check_packet_def Let_def bind_eq_Some_conv)
  with assms(1) validate_packet_frame [of bytes n ?a v m b] show ?thesis
    by (auto simp: check_sequence_def fetch_def split: if_splits)
qed


section \<open>Bytes\<close>

lemma put_samples_nth:
  "put_samples xs p s bytes = Some bytes' \<Longrightarrow> 2 \<le> s \<Longrightarrow>
     length bytes' = length bytes \<and>
     (\<forall>i < length xs. 19 + p + i * s < length bytes \<and>
        bytes' ! (18 + p + i * s) = ucast (drop_bit 8 (xs ! i)) \<and> bytes' ! (19 + p + i * s) = ucast (xs ! i)) \<and>
     (\<forall>q < length bytes. (\<forall>i < length xs. q \<noteq> 18 + p + i * s \<and> q \<noteq> 19 + p + i * s) \<longrightarrow> bytes' ! q = bytes ! q)"
proof (induction xs arbitrary: p bytes)
  case Nil
  then show ?case by simp
next
  case (Cons x xs)
  let ?b = "bytes[18 + p := ucast (drop_bit 8 x), 19 + p := ucast x]"
  from Cons.prems have len: "18 + p + 2 \<le> length bytes" and rest: "put_samples xs (p + s) s ?b = Some bytes'"
    by (auto simp: put16_eq split: if_splits)
  note IH = Cons.IH [OF rest Cons.prems(2)]
  have first: "bytes' ! (18 + p) = ?b ! (18 + p)" "bytes' ! (19 + p) = ?b ! (19 + p)"
    using IH len Cons.prems(2) by auto
  show ?case
  proof (intro conjI allI impI)
    show "length bytes' = length bytes" using IH by simp
    fix i assume i: "i < length (x # xs)"
    show "19 + p + i * s < length bytes" "bytes' ! (18 + p + i * s) = ucast (drop_bit 8 ((x # xs) ! i))"
      "bytes' ! (19 + p + i * s) = ucast ((x # xs) ! i)"
      using IH i len first by (cases i; auto simp: algebra_simps)+
  next
    fix q assume "q < length bytes" "\<forall>i < length (x # xs). q \<noteq> 18 + p + i * s \<and> q \<noteq> 19 + p + i * s"
    moreover from this(2) have "q \<noteq> 18 + p" "q \<noteq> 19 + p"
      "\<forall>i < length xs. q \<noteq> 18 + (p + s) + i * s \<and> q \<noteq> 19 + (p + s) + i * s"
      by (force, force, auto simp: algebra_simps dest: spec [of _ "Suc _"])
    ultimately show "bytes' ! q = bytes ! q" using IH by simp
  qed
qed

lemma get_samples_nth:
  "(\<And>i. i < length xs \<Longrightarrow> ntohs_at bytes (p + i * s) = Some (xs ! i)) \<Longrightarrow> get_samples (length xs) p s bytes = Some xs"
proof (induction xs arbitrary: p)
  case Nil
  then show ?case by simp
next
  case (Cons x xs)
  have "get_samples (length xs) (p + s) s bytes = Some xs"
    by (rule Cons.IH) (use Cons.prems [of "Suc _"] in \<open>simp add: algebra_simps\<close>)
  moreover have "ntohs_at bytes p = Some x" using Cons.prems [of 0] by simp
  ultimately show ?case by simp
qed

section \<open>The samples of a packet\<close>

text \<open>What sending a packet keeps.\<close>

definition setup_of :: "'l IasAvbAudioStream \<Rightarrow>
    u16 \<times> IasAvbAudioFormat \<times> IasAvbCompatibility \<times> u8 \<times> u8 \<times> nat option \<times> IasAvbStreamDirection" where
  "setup_of a = (mStride a, mAudioFormat a, mCompatibilityModeAudio a, mSampleFrequencyCode a, mSeqNum a, mLocalStream a,
     IasAvbStream.mDirection a)"

lemma setup_put_local [simp]: "setup_of (put_local i l a) = setup_of a"
  by (simp add: setup_of_def put_local_def)

lemma setup_tx: "setup_of a' = setup_of a \<Longrightarrow> isTransmitStream a' = isTransmitStream a"
  by (simp add: setup_of_def isTransmitStream_def)

lemma signal_tx: "isTransmitStream a \<Longrightarrow> signalDiscontinuity env e n (a, l) = Some (False, a, l)"
  by (simp add: signalDiscontinuity_def isTransmitStream_def isReceiveStream_def)

lemma signal_reset_tx: "isTransmitStream a \<Longrightarrow> signal_reset (audio_client env) e n (a, l) = Some (a, l)"
  by (simp add: signal_reset_def audio_client_def signal_tx)

lemma readLocal_tx:
  assumes "isTransmitStream a"
    and "readLocalAudioBuffer (audio_client env) ch buf sz n t (a, l) = Some (r, mem, n', t', a', l')"
  shows "a' = a"
  using assms
  by (auto simp: readLocalAudioBuffer_def signal_reset_tx bind_eq_Some_conv Let_def split: if_splits)

lemma dump_loop_tx:
  "isTransmitStream a \<Longrightarrow> dump_loop n i (audio_client env) k (a, l) = Some (a', l') \<Longrightarrow> a' = a"
proof (induction n arbitrary: i l)
  case (Suc n)
  then show ?case by (auto simp: bind_eq_Some_conv dest: readLocal_tx)
qed simp

lemma dump_tx:
  "isTransmitStream a \<Longrightarrow> dumpFromLocalAudioBuffer (audio_client env) k (a, l) = Some (r, n, a', l') \<Longrightarrow> a' = a"
  by (auto simp: dumpFromLocalAudioBuffer_def bind_eq_Some_conv Let_def dest: dump_loop_tx split: if_splits)

lemma on_local_setup:
  assumes "on_local f a = Some (r, a')" and keeps: "\<And>l r a1 l1. f (a, l) = Some (r, a1, l1) \<Longrightarrow> a1 = a"
  shows "setup_of a' = setup_of a"
proof -
  from assms(1) obtain i a1 l1 where "f (a, h_locals (heap a) i) = Some (r, a1, l1)" "a' = put_local i l1 a1"
    by (auto simp: on_local_def bind_eq_Some_conv)
  with keeps show ?thesis by (metis setup_put_local)
qed

lemma read_local_setup:
  assumes "isTransmitStream a" "read_local env ch n a = Some (r, a')"
  shows "setup_of a' = setup_of a"
proof -
  from assms(2) obtain m a1 where "on_local (\<lambda>al. map_option (\<lambda>(_, mem, n, t, al). ((mem, n, t), al))
      (readLocalAudioBuffer (audio_client env) ch (mTempBuffer a) (ucast (mSamplesPerChannelPerPacket a)) n 0 al)) a
      = Some (m, a1)" "setup_of a' = setup_of a1"
    by (auto simp: read_local_def bind_eq_Some_conv setup_of_def)
  moreover from this(1) have "setup_of a1 = setup_of a"
    by (rule on_local_setup) (use assms(1) in \<open>auto dest: readLocal_tx\<close>)
  ultimately show ?thesis by simp
qed

lemma setup_updates [simp]:
  "setup_of (a\<lparr>mTempBuffer := x\<rparr>) = setup_of a" "setup_of (a\<lparr>mWaitForData := b\<rparr>) = setup_of a"
  "setup_of (a\<lparr>mWaitForData := b, mDummySamplesSent := y\<rparr>) = setup_of a"
  "setup_of (a\<lparr>mDummySamplesSent := y\<rparr>) = setup_of a" "setup_of (a\<lparr>mDumpCount := y\<rparr>) = setup_of a"
  "setup_of (a\<lparr>mLocalStreamReadSampleCount := z\<rparr>) = setup_of a"
  "setup_of (a\<lparr>mLocalStreamSampleOffset := z\<rparr>) = setup_of a"
  "setup_of (a\<lparr>mLastRefPlaneSampleTime := z\<rparr>) = setup_of a"
  by (simp_all add: setup_of_def)

lemma fetch_channel_setup:
  assumes tx: "isTransmitStream a" and fetch: "fetch_channel env ready ch n a = Some (m, a')"
  shows "setup_of a' = setup_of a"
proof (cases "mDummySamplesSent a > 0 \<or> \<not> ready")
  case True
  with fetch show ?thesis by (auto simp: fetch_channel_def bind_eq_Some_conv Let_def split: if_splits)
next
  case False
  with fetch obtain k t a1 where read: "read_local env ch n a = Some ((k, t), a1)"
    and "setup_of a' = setup_of a1"
    by (cases "read_local env ch n a") (auto simp: fetch_channel_def bind_eq_Some_conv Let_def split: if_splits)
  with read_local_setup [OF tx read] show ?thesis by simp
qed

lemma balance_setup:
  assumes tx: "isTransmitStream a" and balance: "balance_dummies env a = Some (reset, a')"
  shows "setup_of a' = setup_of a"
proof (cases "mDummySamplesSent a > 0")
  case True
  let ?dump = "on_local (\<lambda>al. map_option (\<lambda>(_, n, al). (n, al))
      (dumpFromLocalAudioBuffer (audio_client env) (ucast (mDummySamplesSent a)) al)) a"
  from True balance obtain n a1 where dump: "?dump = Some (n, a1)" and "setup_of a' = setup_of a1"
    by (cases ?dump) (auto simp: balance_dummies_def Let_def split: if_splits)
  moreover have "setup_of a1 = setup_of a"
    by (rule on_local_setup [OF dump]) (use tx in \<open>auto dest: dump_tx\<close>)
  ultimately show ?thesis by simp
next
  case False
  with balance show ?thesis by (simp add: balance_dummies_def)
qed

lemma discard_step_setup:
  assumes "isTransmitStream a"
    and "on_local (\<lambda>al. map_option (\<lambda>(_, _, al). ((), al))
      (dumpFromLocalAudioBuffer (audio_client env) (mSamplesPerChannelPerPacket a) al)) a = Some (u, a')"
  shows "setup_of a' = setup_of a"
  by (rule on_local_setup [OF assms(2)]) (use assms(1) in \<open>auto dest: dump_tx\<close>)

lemma timestamp_setup:
  "on_local (\<lambda>(a, l). map_option (\<lambda>t. (t, a, l)) (getCurrentTimestamp l)) a = Some (t, a') \<Longrightarrow> setup_of a' = setup_of a"
  by (erule on_local_setup) auto

lemma discard_old_setup:
  fixes a :: "'b audio_stream"
  assumes "discard_old env t a = Some ta" and "isTransmitStream a"
  shows "setup_of (snd ta) = setup_of a"
proof -
  have "isTransmitStream a \<longrightarrow> setup_of (snd ta) = setup_of a"
  proof (rule discard_old.raw_induct [where P = "\<lambda>env t a ta. isTransmitStream a \<longrightarrow> setup_of (snd ta) = setup_of a", OF _ assms(1)])
    fix rec :: "'b local_stream audio_env \<Rightarrow> u64 \<Rightarrow> 'b audio_stream \<Rightarrow> (u64 \<times> 'b audio_stream) option"
      and env :: "'b local_stream audio_env" and t and a :: "'b audio_stream" and ta
    assume IH: "\<And>env t a ta. rec env t a = Some ta \<Longrightarrow> isTransmitStream a \<longrightarrow> setup_of (snd ta) = setup_of a"
    let ?dump = "\<lambda>a. on_local (\<lambda>al. map_option (\<lambda>(_, _, al). ((), al))
            (dumpFromLocalAudioBuffer (audio_client env) (mSamplesPerChannelPerPacket a) al)) a"
    let ?time = "\<lambda>a. on_local (\<lambda>(a, l). map_option (\<lambda>t. (t, a, l)) (getCurrentTimestamp l)) a"
    assume body: "(if t \<noteq> 0 \<and> t < mRefPlaneSampleTime a then
        Option.bind (?dump a) (\<lambda>(_, a). Option.bind (?time a) (\<lambda>(t, a). rec env t a))
      else Some (t, a)) = Some ta"
    show "isTransmitStream a \<longrightarrow> setup_of (snd ta) = setup_of a"
    proof (cases "t \<noteq> 0 \<and> t < mRefPlaneSampleTime a")
      case True
      with body obtain u a1 t1 a2 where "?dump a = Some (u, a1)" "?time a1 = Some (t1, a2)" "rec env t1 a2 = Some ta"
        by (auto simp: bind_eq_Some_conv)
      then show ?thesis
        using discard_step_setup [of a env u a1] timestamp_setup [of a1 t1 a2] IH [of env t1 a2 ta] setup_tx by metis
    next
      case False
      with body show ?thesis by auto
    qed
  qed
  with assms(2) show ?thesis by simp
qed

lemma align_setup:
  assumes tx: "isTransmitStream a" and align: "align_local env a = Some a'"
  shows "setup_of a' = setup_of a"
proof -
  from align obtain t a1 t1 a2 where 1: "on_local (\<lambda>(a, l). map_option (\<lambda>t. (t, a, l)) (getCurrentTimestamp l)) a = Some (t, a1)"
    "discard_old env t a1 = Some (t1, a2)" "setup_of a' = setup_of a2"
    by (auto simp: align_local_def bind_eq_Some_conv split: if_splits)
  have "setup_of a1 = setup_of a" by (rule timestamp_setup [OF 1(1)])
  with discard_old_setup [OF 1(2)] setup_tx [of a1 a] tx 1(3) show ?thesis by simp
qed

text \<open>The samples that the channels from \<open>ch\<close> on take from the local stream, and the copy of all of them into
  the packet.\<close>

primrec fetch_channels ::
  "nat \<Rightarrow> u16 \<Rightarrow> 'a local_stream audio_env \<Rightarrow> bool \<Rightarrow> u16 \<Rightarrow> 'a audio_stream \<Rightarrow>
     (AudioData list list \<times> u16 \<times> 'a audio_stream) option" where
  "fetch_channels 0 ch env ready written a = Some ([], written, a)"
| "fetch_channels (Suc n) ch env ready written a =
     do {
       (written, a) \<leftarrow> fetch_channel env ready ch written a;
       mem \<leftarrow> mTempBuffer a;
       xs \<leftarrow> slice mem 0 (unat written);
       (xss, written, a) \<leftarrow> fetch_channels n (ch + 1) env ready written a;
       Some (xs # xss, written, a)
     }"

primrec put_channels :: "AudioData list list \<Rightarrow> nat \<Rightarrow> nat \<Rightarrow> u8 list \<Rightarrow> u8 list option" where
  "put_channels [] pBase stride bytes = Some bytes"
| "put_channels (xs # xss) pBase stride bytes =
     do { bytes \<leftarrow> put_samples xs pBase stride bytes; put_channels xss (pBase + 2) stride bytes }"

lemma write_channels_split:
  assumes "isTransmitStream a" "mAudioFormat a = eIasAvbAudioFormatSaf16" "unat ch + n < 2 ^ 16"
    and "write_channels n ch env ready written bytes a = Some (k, bytes', a')"
  shows "\<exists>xss. fetch_channels n ch env ready written a = Some (xss, k, a') \<and> length xss = n \<and>
    put_channels xss (24 + 2 * unat ch) (unat (mStride a)) bytes = Some bytes' \<and> setup_of a' = setup_of a"
  using assms
proof (induction n arbitrary: ch written bytes a)
  case 0
  then show ?case by simp
next
  case (Suc n)
  from Suc.prems(4) obtain m a1 mem xs bytes1 where
    1: "fetch_channel env ready ch written a = Some (m, a1)" "mTempBuffer a1 = Some mem" "slice mem 0 (unat m) = Some xs"
      "put_samples xs (24 + unat (getSampleSize (mAudioFormat a1)) * unat ch) (unat (mStride a1)) bytes = Some bytes1"
      "write_channels n (ch + 1) env ready m bytes1 a1 = Some (k, bytes', a')"
    by (auto simp: bind_eq_Some_conv)
  have same: "setup_of a1 = setup_of a" by (rule fetch_channel_setup [OF Suc.prems(1) 1(1)])
  have ch: "unat (ch + 1) = unat ch + 1" using Suc.prems(3) by (subst unat_add_small) simp_all
  have "isTransmitStream a1" "mAudioFormat a1 = eIasAvbAudioFormatSaf16" "mStride a1 = mStride a"
    using same Suc.prems(1,2) setup_tx [OF same] by (simp_all add: setup_of_def)
  with Suc.IH [OF _ _ _ 1(5)] Suc.prems(3) ch obtain xss where
    "fetch_channels n (ch + 1) env ready m a1 = Some (xss, k, a')" "length xss = n"
    "put_channels xss (24 + 2 * (unat ch + 1)) (unat (mStride a)) bytes1 = Some bytes'" "setup_of a' = setup_of a1"
    by auto
  with 1 same \<open>mAudioFormat a1 = _\<close> \<open>mStride a1 = _\<close> show ?case
    by (auto simp: getSampleSize_def algebra_simps)
qed

lemma strides_differ:
  fixes i j s r r' :: nat
  assumes "r < s" "r' < s" "r \<noteq> r'"
  shows "r + i * s \<noteq> r' + j * s"
proof
  assume "r + i * s = r' + j * s"
  then have "(r + i * s) mod s = (r' + j * s) mod s" by simp
  with assms show False by simp
qed

text \<open>The position of sample \<open>i\<close> of channel \<open>c\<close>, from the start of the packet.\<close>

definition sample_pos :: "nat \<Rightarrow> nat \<Rightarrow> nat \<Rightarrow> nat \<Rightarrow> nat" where
  "sample_pos p s c i = 18 + p + 2 * c + i * s"

definition samples_in :: "AudioData list list \<Rightarrow> nat \<Rightarrow> nat \<Rightarrow> u8 list \<Rightarrow> bool" where
  "samples_in xss p s bytes \<longleftrightarrow>
     (\<forall>c < length xss. \<forall>i < length (xss ! c). sample_pos p s c i + 1 < length bytes \<and>
        bytes ! sample_pos p s c i = ucast (drop_bit 8 (xss ! c ! i)) \<and>
        bytes ! (sample_pos p s c i + 1) = ucast (xss ! c ! i))"

lemma put_channels_nth:
  "put_channels xss p s bytes = Some bytes' \<Longrightarrow> 2 * length xss \<le> s \<Longrightarrow>
     length bytes' = length bytes \<and> samples_in xss p s bytes' \<and>
     (\<forall>q < length bytes. (\<forall>c < length xss. \<forall>i. q \<noteq> sample_pos p s c i \<and> q \<noteq> sample_pos p s c i + 1) \<longrightarrow>
        bytes' ! q = bytes ! q)"
proof (induction xss arbitrary: p bytes)
  case Nil
  then show ?case by (simp add: samples_in_def)
next
  case (Cons xs xss)
  from Cons.prems obtain b1 where 1: "put_samples xs p s bytes = Some b1" "put_channels xss (p + 2) s b1 = Some bytes'"
    by (auto simp: bind_eq_Some_conv)
  have s: "2 \<le> s" using Cons.prems(2) by simp
  note A = put_samples_nth [OF 1(1) s]
  have B: "length bytes' = length b1 \<and> samples_in xss (p + 2) s bytes' \<and>
     (\<forall>q < length b1. (\<forall>c < length xss. \<forall>i. q \<noteq> sample_pos (p + 2) s c i \<and> q \<noteq> sample_pos (p + 2) s c i + 1) \<longrightarrow>
        bytes' ! q = b1 ! q)"
    using Cons.IH [OF 1(2)] Cons.prems(2) by simp
  have shift: "sample_pos p s (Suc c) i = sample_pos (p + 2) s c i" for c i by (simp add: sample_pos_def)
  have apart: "sample_pos p s 0 i \<noteq> sample_pos (p + 2) s c j" "sample_pos p s 0 i \<noteq> sample_pos (p + 2) s c j + 1"
    "sample_pos p s 0 i + 1 \<noteq> sample_pos (p + 2) s c j" "sample_pos p s 0 i + 1 \<noteq> sample_pos (p + 2) s c j + 1"
    if "c < length xss" for c i j
    using that Cons.prems(2) strides_differ [of 0 s "2 + 2 * c" i j] strides_differ [of 0 s "3 + 2 * c" i j]
      strides_differ [of 1 s "2 + 2 * c" i j] strides_differ [of 1 s "3 + 2 * c" i j]
    by (auto simp: sample_pos_def)
  have first: "bytes' ! sample_pos p s 0 i = b1 ! sample_pos p s 0 i"
    "bytes' ! (sample_pos p s 0 i + 1) = b1 ! (sample_pos p s 0 i + 1)" if "i < length xs" for i
    using A B apart that by (auto simp: sample_pos_def)
  show ?case
  proof (intro conjI)
    show "length bytes' = length bytes" using A B by simp
    show "samples_in (xs # xss) p s bytes'"
      unfolding samples_in_def
    proof (intro allI impI)
      fix c i assume ci: "c < length (xs # xss)" "i < length ((xs # xss) ! c)"
      show "sample_pos p s c i + 1 < length bytes' \<and>
        bytes' ! sample_pos p s c i = ucast (drop_bit 8 ((xs # xss) ! c ! i)) \<and>
        bytes' ! (sample_pos p s c i + 1) = ucast ((xs # xss) ! c ! i)"
      proof (cases c)
        case 0
        have e: "sample_pos p s 0 i = 18 + p + i * s" "sample_pos p s 0 i + 1 = 19 + p + i * s"
          by (simp_all add: sample_pos_def)
        from 0 ci have "i < length xs" by simp
        with A B have "19 + p + i * s < length bytes'" "b1 ! (18 + p + i * s) = ucast (drop_bit 8 (xs ! i))"
          "b1 ! (19 + p + i * s) = ucast (xs ! i)" by simp_all
        with first [OF \<open>i < length xs\<close>] show ?thesis unfolding 0 e by (simp add: add.assoc)
      next
        case (Suc d)
        from B have "samples_in xss (p + 2) s bytes'" by simp
        with ci show ?thesis by (simp add: samples_in_def shift Suc)
      qed
    qed
    show "\<forall>q < length bytes. (\<forall>c < length (xs # xss). \<forall>i. q \<noteq> sample_pos p s c i \<and> q \<noteq> sample_pos p s c i + 1) \<longrightarrow>
        bytes' ! q = bytes ! q"
    proof (intro allI impI)
      fix q assume q: "q < length bytes"
        "\<forall>c < length (xs # xss). \<forall>i. q \<noteq> sample_pos p s c i \<and> q \<noteq> sample_pos p s c i + 1"
      have "\<forall>c < length xss. \<forall>i. q \<noteq> sample_pos (p + 2) s c i \<and> q \<noteq> sample_pos (p + 2) s c i + 1"
        using q(2) shift by (metis Suc_less_eq length_Cons)
      moreover have "\<forall>i. q \<noteq> 18 + p + i * s \<and> q \<noteq> 19 + p + i * s"
        using q(2) [rule_format, of 0] by (simp add: sample_pos_def add.assoc)
      ultimately show "bytes' ! q = bytes ! q" using A B q(1) by simp
    qed
  qed
qed

lemma get_channel:
  assumes "samples_in xss 24 s bytes" "c < length xss"
  shows "get_samples (length (xss ! c)) (24 + 2 * c) s (drop 18 bytes) = Some (xss ! c)"
proof (rule get_samples_nth)
  fix i assume "i < length (xss ! c)"
  with assms have "sample_pos 24 s c i + 1 < length bytes"
    "bytes ! sample_pos 24 s c i = ucast (drop_bit 8 (xss ! c ! i))" "bytes ! (sample_pos 24 s c i + 1) = ucast (xss ! c ! i)"
    by (auto simp: samples_in_def)
  then show "ntohs_at (drop 18 bytes) (24 + 2 * c + i * s) = Some (xss ! c ! i)"
    by (intro ntohs_at_nth) (simp_all add: sample_pos_def algebra_simps)
qed

text \<open>The samples that a connected stream takes from its local stream for one packet, channel by channel.\<close>

definition sent_samples :: "'a local_stream audio_env \<Rightarrow> 'a audio_stream \<Rightarrow> AudioData list list option" where
  "sent_samples env a =
     do {
       i \<leftarrow> mLocalStream a;
       let numChannels = audioChannels (h_locals (heap a) i);
       (_, a) \<leftarrow> balance_dummies env a;
       ready \<leftarrow> isReadReady (h_locals (heap a) i);
       a \<leftarrow> (if hasBufferDesc (h_locals (heap a) i) \<and> ready \<and> mLocalStreamReadSampleCount a = 0
             then align_local env a else Some a);
       (xss, _, _) \<leftarrow> fetch_channels (unat numChannels) 0 env ready 0 a;
       Some xss
     }"

lemma slice_length: "slice xs i n = Some ys \<Longrightarrow> length ys = n"
  by (auto simp: slice_def split: if_splits)

lemma fetch_channels_last:
  "fetch_channels n ch env ready w a = Some (xss, k, a') \<Longrightarrow>
     length xss = n \<and> (if n = 0 then k = w else length (last xss) = unat k)"
proof (induction n arbitrary: ch w a xss)
  case 0
  then show ?case by simp
next
  case (Suc n)
  then obtain m a1 mem xs yss where 1: "slice mem 0 (unat m) = Some xs"
    "fetch_channels n (ch + 1) env ready m a1 = Some (yss, k, a')" "xss = xs # yss"
    by (auto simp: bind_eq_Some_conv)
  from Suc.IH [OF 1(2)] slice_length [OF 1(1)] show ?case by (auto simp: 1(3))
qed

lemma samples_in_update: "q < 42 \<Longrightarrow> samples_in xss 24 s (bytes[q := b]) = samples_in xss 24 s bytes"
  by (auto simp: samples_in_def sample_pos_def)

lemma write_header_eq:
  assumes "write_header a bytes = Some (bytes', a')"
  shows "length bytes' = length bytes \<and> 42 \<le> length bytes + 1 \<and> a' = a\<lparr>mSeqNum := mSeqNum a + 1\<rparr> \<and>
    bytes' ! 20 = mSeqNum a \<and> bytes' ! 18 = bytes ! 18 \<and> bytes' ! 34 = bytes ! 34"
  using assms
  by (auto simp: write_header_def put8_eq put32_eq get8_def fetch_def avtpBase_def bind_eq_Some_conv nth_list_update
      split: if_splits)

lemma audioChannels_pos:
  "audioChannels l \<noteq> 0 \<Longrightarrow> (if mHasSideChannel l then mNumChannels l - 1 else mNumChannels l) = audioChannels l"
  by (auto simp: audioChannels_def word_gt_0 split: if_splits)

lemma get_layout_setup:
  assumes "isTransmitStream a" "get_layout env ch a = Some (layout, a')"
  shows "setup_of a' = setup_of a"
  using assms(2) read_local_setup [OF assms(1)]
  by (auto simp: get_layout_def bind_eq_Some_conv split: if_splits)

lemma write_payload_split:
  assumes tx: "isTransmitStream a" "mAudioFormat a = eIasAvbAudioFormatSaf16" "mCompatibilityModeAudio a = eIasAvbCompLatest"
    and conn: "mLocalStream a = Some i" "n = audioChannels (h_locals (heap a) i)" "n \<noteq> 0"
    and stride: "2 * unat n \<le> unat (mStride a)"
    and payload: "write_payload env bytes a = Some (reset, m, w, bytes', a')"
  shows "\<exists>xss. sent_samples env a = Some xss \<and> length xss = unat n \<and> length (last xss) = unat w \<and> m = n \<and>
    samples_in xss 24 (unat (mStride a)) bytes' \<and> length bytes' = length bytes \<and> 41 \<le> length bytes \<and>
    (\<forall>q < 40. bytes' ! q = bytes ! q) \<and> setup_of a' = setup_of a"
proof -
  let ?local = "\<lambda>a. h_locals (heap a) i"
  from payload conn obtain a1 ready a2 b1 a3 layout where
    1: "balance_dummies env a = Some (reset, a1)" "isReadReady (?local a1) = Some ready"
      "(if hasBufferDesc (?local a1) \<and> ready \<and> mLocalStreamReadSampleCount a1 = 0
        then align_local env a1 else Some a1) = Some a2"
      "write_channels (unat n) 0 env ready 0 bytes a2 = Some (w, b1, a3)" "get_layout env n a3 = Some (layout, a')" "m = n"
    and b': "(if mCompatibilityModeAudio a' = eIasAvbCompSaf \<or> mCompatibilityModeAudio a' = eIasAvbCompD6
        then put8 17 layout b1 else Option.bind (get8 22 b1) (\<lambda>info. put8 22 ((info AND 0xF0) OR (layout AND 0x0F)) b1)) = Some bytes'"
    by (auto simp: write_payload_def Let_def audioChannels_pos bind_eq_Some_conv)
  have s1: "setup_of a1 = setup_of a" by (rule balance_setup [OF tx(1) 1(1)])
  have s2: "setup_of a2 = setup_of a"
    using align_setup [of a1 env a2] setup_tx [OF s1] tx(1) s1 1(3) by (auto split: if_splits)
  have a2: "isTransmitStream a2" "mAudioFormat a2 = eIasAvbAudioFormatSaf16" "mStride a2 = mStride a"
    using setup_tx [OF s2] s2 tx by (auto simp: setup_of_def)
  from write_channels_split [OF a2(1,2) _ 1(4)] unat_lt [of n] obtain xss where
    xss: "fetch_channels (unat n) 0 env ready 0 a2 = Some (xss, w, a3)" "length xss = unat n"
      "put_channels xss 24 (unat (mStride a)) bytes = Some b1" "setup_of a3 = setup_of a2"
    by (auto simp: a2(3))
  have "setup_of a' = setup_of a3"
    using get_layout_setup [OF _ 1(5)] setup_tx [OF xss(4)] a2(1) by simp
  then have s: "setup_of a' = setup_of a" using xss(4) s2 by simp
  have sent: "sent_samples env a = Some xss"
    using conn 1 xss(1) by (simp add: sent_samples_def Let_def)
  have last: "length (last xss) = unat w"
    using fetch_channels_last [OF xss(1)] conn(3) by (simp add: unat_eq_0)
  note put = put_channels_nth [OF xss(3)]
  have "mCompatibilityModeAudio a' = eIasAvbCompLatest" using s tx(3) by (simp add: setup_of_def)
  with b' obtain v where v: "40 < length b1" "bytes' = b1[40 := v]"
    by (auto simp: put8_eq bind_eq_Some_conv split: if_splits)
  have "\<forall>q < 40. bytes' ! q = bytes ! q"
    using put stride xss(2) v by (auto simp: sample_pos_def)
  with sent xss(2) last put stride v s 1(6) show ?thesis
    by (auto simp: samples_in_update)
qed

lemma advance_plane_seqNum: "advance_plane env w a = Some a' \<Longrightarrow> mSeqNum a' = mSeqNum a"
  by (auto simp: advance_plane_def Let_def bind_eq_Some_conv split: if_splits)

lemma small_bits: "unat (w :: 'a::len word) < 2 ^ m \<Longrightarrow> bit w k \<Longrightarrow> k < m"
proof (rule ccontr)
  assume w: "unat w < 2 ^ m" "bit w k" "\<not> k < m"
  have "2 ^ m \<le> (2 :: nat) ^ k" using w(3) by simp
  with w(1) have "unat w < 2 ^ k" by linarith
  then have "\<not> bit (unat w) k" by (simp add: bit_iff_odd)
  with w(2) show False by (simp add: bit_unsigned_iff)
qed

lemma and_masks:
  "(n :: u16) AND 0xFF = take_bit 8 n" "(n :: u16) AND 3 = take_bit 2 n" "(f :: u8) AND 0x0F = take_bit 4 f"
  by (simp_all add: take_bit_eq_mask mask_eq_exp_minus_1)

lemma channel_bytes:
  fixes n :: u16
  assumes "unat n < 256"
  shows "ucast (drop_bit 8 n AND 3) = (0 :: u8)" "(ucast (push_bit 4 f :: u8) AND 3) OR ucast (ucast (n AND 0xFF) :: u8) = n"
proof -
  have bits: "bit n k \<Longrightarrow> k < 8" for k using small_bits [of n 8] assms by simp
  show "ucast (drop_bit 8 n AND 3) = (0 :: u8)"
    unfolding and_masks by (rule bit_word_eqI) (use bits in \<open>auto simp: bit_simps\<close>)
  show "(ucast (push_bit 4 f :: u8) AND 3) OR ucast (ucast (n AND 0xFF) :: u8) = n"
    unfolding and_masks by (rule bit_word_eqI) (use bits in \<open>auto simp: bit_simps\<close>)
qed

lemma freq_code:
  fixes f :: u8
  assumes "unat f < 16"
  shows "drop_bit 4 (push_bit 4 f) AND 0x0F = f"
proof -
  have bits: "bit f k \<Longrightarrow> k < 4" for k using small_bits [of f 4] assms by simp
  show ?thesis unfolding and_masks by (rule bit_word_eqI) (use bits in \<open>auto simp: bit_simps\<close>)
qed

lemma finish_packet_eq:
  assumes "finish_packet env reset n k (pk, bytes) a = Some (pk', bytes')" "mCompatibilityModeAudio a = eIasAvbCompLatest"
  defines "dataLen \<equiv> k * n * getSampleSize (mAudioFormat a)"
  shows "len pk' = ucast dataLen + 42 \<and>
    bytes' = bytes[35 := push_bit 4 (mSampleFrequencyCode a) OR ucast (drop_bit 8 n AND 3), 36 := ucast (n AND 0xFF),
                   38 := ucast (drop_bit 8 dataLen), 39 := ucast dataLen,
                   21 := (if r_lockState (ae_clock env 2) = eIasAvbLockStateLocked then 0x00 else 0x01)]"
  using assms
  by (auto simp: finish_packet_def bind_eq_Some_conv Let_def put8_eq put16_eq cIasAvbPerFrameOverhead_def split: if_splits)

lemma write_packet_split:
  assumes "write_packet env w (pk, bytes) a = Some ((pk', bytes'), a')"
    and "mRefPlaneSampleCount a \<noteq> 0 \<or> mRefPlaneSampleTime a \<noteq> 0" "isConnected a"
  shows "\<exists>b1 reset n k b2 a2 pk1. write_header a bytes = Some (b1, a\<lparr>mSeqNum := mSeqNum a + 1\<rparr>) \<and>
    write_payload env b1 (a\<lparr>mSeqNum := mSeqNum a + 1\<rparr>) = Some (reset, n, k, b2, a2) \<and>
    finish_packet env reset n k (pk1, b2) a2 = Some (pk', bytes') \<and> advance_plane env k a2 = Some a'"
proof -
  let ?a = "a\<lparr>mSeqNum := mSeqNum a + 1\<rparr>"
  obtain b1 where 1: "write_header a bytes = Some (b1, ?a)"
    using assms(1,2) write_header_eq [of a bytes]
    by (cases "write_header a bytes") (auto simp: write_packet_def Let_def)
  have conn: "isConnected ?a" using assms(3) by (simp add: isConnected_def)
  obtain reset n k b2 a2 where 2: "write_payload env b1 ?a = Some (reset, n, k, b2, a2)"
    using assms(1,2) 1 conn by (cases "write_payload env b1 ?a") (auto simp: write_packet_def Let_def)
  with assms(1,2) 1 conn show ?thesis
    by (auto simp: write_packet_def Let_def bind_eq_Some_conv)
qed

lemma unat_payload_size:
  fixes k n :: u16
  assumes "2 * unat n * unat k < 2 ^ 16"
  shows "unat (k * n * 2) = 2 * unat n * unat k"
proof -
  have kn: "unat (k * n) = unat k * unat n"
    by (rule unat_mult_small) (use assms in \<open>simp add: mult.commute\<close>)
  have two: "unat (2 :: u16) = 2" by simp
  have eq: "unat (k * n) * unat (2 :: u16) = 2 * unat n * unat k" unfolding kn two by simp
  have "unat (k * n * 2) = unat (k * n) * unat (2 :: u16)"
    by (rule unat_mult_small) (use assms in \<open>simp only: eq len_of_numeral_defs, simp\<close>)
  then show ?thesis by (simp only: eq)
qed

text \<open>C6. What a running transmit stream puts into a packet is what a receive stream of the same format gets
  out of it: for up to 255 channels the packet passes the validation of the header, the number of
  channels and the sequence number are read back, and the samples of every channel are those
  that the sender took from its local stream.\<close>

theorem packet_round_trip:
  assumes sent: "write_packet env w (pk, bytes) a = Some ((pk', bytes'), a')"
    and running: "mRefPlaneSampleCount a \<noteq> 0 \<or> mRefPlaneSampleTime a \<noteq> 0"
    and tx: "isTransmitStream a" "mAudioFormat a = eIasAvbAudioFormatSaf16" "mCompatibilityModeAudio a = eIasAvbCompLatest"
      "unat (mSampleFrequencyCode a) < 16"
    and conn: "mLocalStream a = Some i" "n = audioChannels (h_locals (heap a) i)" "n \<noteq> 0" "unat n < 256"
      "mStride a = 2 * n"
    and template: "bytes ! 18 = 2" "bytes ! 34 = mAudioFormatCode b"
    and full: "\<And>xss. sent_samples env (a\<lparr>mSeqNum := mSeqNum a + 1\<rparr>) = Some xss \<Longrightarrow> \<forall>xs \<in> set xss. length xs = k"
    and fits: "2 * unat n * k < 2 ^ 16"
    and rx: "mAudioFormat b = eIasAvbAudioFormatSaf16" "mCompatibilityModeAudio b = eIasAvbCompLatest"
      "mSampleFrequencyCode b = mSampleFrequencyCode a"
  shows "\<exists>xss. sent_samples env (a\<lparr>mSeqNum := mSeqNum a + 1\<rparr>) = Some xss \<and> length xss = unat n \<and>
    validate_header b (drop 18 bytes') (unat (len pk') - 18) = Some (True, 2 * unat n * k, False) \<and>
    decode_channels b (drop 18 bytes') = Some n \<and>
    bytes' ! 20 = mSeqNum a \<and> mSeqNum a' = mSeqNum a + 1 \<and>
    (\<forall>c < unat n. get_samples k (24 + 2 * c) (2 * unat n) (drop 18 bytes') = Some (xss ! c))"
proof -
  let ?a = "a\<lparr>mSeqNum := mSeqNum a + 1\<rparr>"
  have "isConnected a" using conn by (simp add: isConnected_def)
  from write_packet_split [OF sent running this] obtain b1 reset m j b2 a2 pk1 where
    hd: "write_header a bytes = Some (b1, ?a)" and pl: "write_payload env b1 ?a = Some (reset, m, j, b2, a2)"
    and fin: "finish_packet env reset m j (pk1, b2) a2 = Some (pk', bytes')" and adv: "advance_plane env j a2 = Some a'"
    by blast
  note H = write_header_eq [OF hd]
  have stride: "unat (mStride ?a) = 2 * unat n" using conn(4,5) by (simp add: unat_mult_small)
  from write_payload_split [OF _ _ _ _ _ _ _ pl, of i n] tx conn stride obtain xss where
    xss: "sent_samples env ?a = Some xss" "length xss = unat n" "length (last xss) = unat j" "m = n"
      "samples_in xss 24 (2 * unat n) b2" "length b2 = length b1" "41 \<le> length b1" "\<forall>q < 40. b2 ! q = b1 ! q"
      "setup_of a2 = setup_of ?a"
    by (auto simp: isTransmitStream_def)
  have "xss \<noteq> []" using xss(2) conn(3) by (auto simp: unat_eq_0)
  with full [OF xss(1)] xss(3) have j: "unat j = k" by (metis last_in_set)
  have a2: "mCompatibilityModeAudio a2 = eIasAvbCompLatest" "mAudioFormat a2 = eIasAvbAudioFormatSaf16"
    "mSampleFrequencyCode a2 = mSampleFrequencyCode a" "mSeqNum a2 = mSeqNum a + 1"
    using xss(9) tx by (simp_all add: setup_of_def)
  let ?size = "j * n * 2"
  have size: "unat ?size = 2 * unat n * k" using unat_payload_size [of n j] fits j by simp
  from finish_packet_eq [OF fin a2(1)] a2 xss(4) have F: "len pk' = ucast ?size + 42"
    "bytes' = b2[35 := push_bit 4 (mSampleFrequencyCode a) OR ucast (drop_bit 8 n AND 3), 36 := ucast (n AND 0xFF),
                   38 := ucast (drop_bit 8 ?size), 39 := ucast ?size,
                   21 := (if r_lockState (ae_clock env 2) = eIasAvbLockStateLocked then 0x00 else 0x01)]"
    by (simp_all add: getSampleSize_def)
  have len: "41 \<le> length bytes'" "length bytes' = length b2" using xss F by simp_all
  have "unat (len pk') = 2 * unat n * k + 42"
    unfolding F(1) using fits size by (subst unat_add_small) (simp_all add: unat_ucast_up)
  then have pkLen: "unat (len pk') - 18 = 2 * unat n * k + 24" by simp
  have at: "bytes' ! 18 = 2" "bytes' ! 34 = mAudioFormatCode b" "bytes' ! 20 = mSeqNum a"
    "bytes' ! 35 = push_bit 4 (mSampleFrequencyCode a)" "bytes' ! 36 = ucast (n AND 0xFF)"
    "bytes' ! 38 = ucast (drop_bit 8 ?size)" "bytes' ! 39 = ucast ?size"
    using F(2) xss H template channel_bytes(1) [OF conn(4)] by (simp_all add: nth_list_update)
  have dataLength: "ntohs_at (drop 18 bytes') 20 = Some ?size"
    by (rule ntohs_at_nth) (use at len in simp_all)
  have valid: "validate_header b (drop 18 bytes') (unat (len pk') - 18) = Some (True, 2 * unat n * k, False)"
    using rx at len dataLength size freq_code [OF tx(4)] unfolding pkLen
    by (simp add: validate_header_def fetch_def cAvtpHeaderSize_def)
  have channels: "decode_channels b (drop 18 bytes') = Some n"
    using rx at len channel_bytes(2) [OF conn(4), of "mSampleFrequencyCode a"] by (simp add: decode_channels_def fetch_def)
  have "samples_in xss 24 (2 * unat n) bytes'" unfolding F(2) using xss(5) by (simp add: samples_in_update)
  then have "get_samples k (24 + 2 * c) (2 * unat n) (drop 18 bytes') = Some (xss ! c)" if "c < unat n" for c
    using get_channel [of xss "2 * unat n" bytes' c] that xss(2) full [OF xss(1)] by simp
  moreover have "mSeqNum a' = mSeqNum a + 1" using advance_plane_seqNum [OF adv] a2 by simp
  ultimately show ?thesis using xss(1,2) valid channels at(3) by blast
qed

section \<open>Examples\<close>

definition example_tx_local :: IasLocalAudioStream where
  "example_tx_local = (local_stream_new eIasAvbTransmitToNetwork eIasAlsaStream 1)
     \<lparr>mNumChannels := 2, IasLocalAudioStream.mSampleFrequency := 48000,
      mChannelBuffers := [lab_new\<lparr>mBuffer := Some [1, 2, 0, 0], mTotalSize := 4, mWriteIndex := 2\<rparr>,
                          lab_new\<lparr>mBuffer := Some [3, 4, 0, 0], mTotalSize := 4, mWriteIndex := 2\<rparr>]\<rparr>"

definition example_audio_env :: "IasLocalAudioStream audio_env" where
  "example_audio_env =
     \<lparr>ae_registry = None, ae_stream = example_stream_env, ae_sourceMac = Some [2, 0, 0, 0, 0, 1],
      ae_tempBuffer = (\<lambda>n. Some (replicate n 0)), ae_fifo = Some (replicate 64 0), ae_clockType = eIasAvbClockDomainPtp,
      ae_clock = (\<lambda>_. \<lparr>r_eventCount = 0, r_eventTime = 5, r_eventRate = 48000, r_rateRatio = 1,
                        r_lockState = eIasAvbLockStateLocked\<rparr>),
      ae_exp = (\<lambda>_. 0), ae_ptp_clock = \<lparr>ans_epoch = 0, ans_realLocalTime = 0, ans_localTimes = (0, 0)\<rparr>,
      ae_ptp_local = (\<lambda>_. (\<lparr>ptp_epochCounter = 0, ptp_localTime = 0\<rparr>, \<lparr>ptp_epochCounter = 0, ptp_localTime = 0\<rparr>)),
      ae_resetBuffers = Some\<rparr>"

definition example_heap :: "IasLocalAudioStream audio_heap" where
  "example_heap = \<lparr>h_locals = (\<lambda>_. example_tx_local), h_rxClocks = (\<lambda>_. None), h_memory = (\<lambda>_. 0)\<rparr>"

definition example_audio_tx :: "IasLocalAudioStream IasAvbAudioStream" where
  "example_audio_tx = (audio_new 0 example_heap)
     \<lparr>mTSpec := Some example_tspec, mAvbClockDomain := Some 0, mLocalStream := Some 0, mStride := 4,
      mSamplesPerChannelPerPacket := 2, mTempBuffer := Some [0, 0], mSampleFrequencyCode := 5, mAudioFormatCode := 4,
      mSeqNum := 255, mRefPlaneSampleTime := 1, mMasterTime := 1\<rparr>"

definition example_template :: "u8 list" where
  "example_template = (replicate 60 0)[18 := 2, 34 := 4]"

definition example_audio_rx :: "IasLocalAudioStream IasAvbAudioStream" where
  "example_audio_rx = (audio_new 0 example_heap)
     \<lparr>IasAvbStream.mDirection := eIasAvbReceiveFromNetwork, mTSpec := Some example_tspec, mSampleFrequencyCode := 5,
      mAudioFormatCode := 4, mValidationMode := cValidateAlways, mSeqNum := 8,
      mStreamStateInternal := eIasAvbStreamValid, mStreamState := eIasAvbStreamValid\<rparr>"

lemma example_sent:
  "sent_samples example_audio_env (example_audio_tx\<lparr>mSeqNum := mSeqNum example_audio_tx + 1\<rparr>) = Some [[1, 2], [3, 4]]"
  by code_simp

lemma example_written:
  "case write_packet example_audio_env 0 (packet_new, example_template) example_audio_tx of
     None \<Rightarrow> False | Some _ \<Rightarrow> True"
  by code_simp

lemma example_tx_facts:
  "isTransmitStream example_audio_tx" "mAudioFormat example_audio_tx = eIasAvbAudioFormatSaf16"
  "mCompatibilityModeAudio example_audio_tx = eIasAvbCompLatest" "mSampleFrequencyCode example_audio_tx = 5"
  "mLocalStream example_audio_tx = Some 0" "audioChannels (h_locals (heap example_audio_tx) 0) = 2"
  "mStride example_audio_tx = 4" "mRefPlaneSampleTime example_audio_tx = 1"
  "example_template ! 18 = 2" "example_template ! 34 = 4"
  "mAudioFormatCode example_audio_rx = 4" "mAudioFormat example_audio_rx = eIasAvbAudioFormatSaf16"
  "mCompatibilityModeAudio example_audio_rx = eIasAvbCompLatest" "mSampleFrequencyCode example_audio_rx = 5"
  "mStreamStateInternal example_audio_rx = eIasAvbStreamValid"
  by code_simp+

theorem packet_round_trip_witness:
  "\<exists>pk bytes a. write_packet example_audio_env 0 (packet_new, example_template) example_audio_tx = Some ((pk, bytes), a) \<and>
     decode_channels example_audio_rx (drop 18 bytes) = Some 2 \<and>
     get_samples 2 24 4 (drop 18 bytes) = Some [1, 2] \<and> get_samples 2 26 4 (drop 18 bytes) = Some [3, 4]"
proof -
  obtain pk bytes a where w: "write_packet example_audio_env 0 (packet_new, example_template) example_audio_tx
      = Some ((pk, bytes), a)"
    using example_written by (auto split: option.splits)
  from packet_round_trip [OF w, where n = 2 and k = 2 and b = example_audio_rx and i = 0] show ?thesis
    using w by (auto simp: example_tx_facts example_sent dest: spec [of _ 0] spec [of _ 1])
qed


end
