(* ===== verification/Audio_Control.thy ===== *)
theory Audio_Control
  imports Audio_Stream
begin

text \<open>
  Properties of the control functions of audio streams: the drift compensation by the average fill
  level, the validation of received streams over time, and connections.
\<close>

section \<open>The average fill level\<close>

text \<open>A sequence of measurements; the result is the last value given to the clock domain.\<close>

primrec fill_run :: "s32 list \<Rightarrow> s32 option \<Rightarrow> 'l IasAvbAudioStream \<Rightarrow> (s32 option \<times> 'l IasAvbAudioStream) option" where
  "fill_run [] d a = Some (d, a)"
| "fill_run (x # xs) d a = Option.bind (updateRelativeFillLevel x a) (\<lambda>(d, a). fill_run xs d a)"

text \<open>The queue holds the levels \<open>h\<close>, the oldest at the index, and the sum of them is accumulated.\<close>

definition averaging :: "int list \<Rightarrow> 'l IasAvbAudioStream \<Rightarrow> bool" where
  "averaging h a \<longleftrightarrow>
     (\<exists>fifo. mFillLevelFifo a = Some fifo \<and> length fifo = 64 \<and> unat (mFillLevelIndex a) < 64 \<and>
        map sint (ring fifo (unat (mFillLevelIndex a)) 64) = h \<and> mAccumulatedFillLevel a = of_int (sum_list h) \<and>
        (\<forall>x \<in> set h. \<bar>x\<bar> \<le> 1290) \<and> mAvbClockDomain a \<noteq> None \<and>
        0 < mRatioBendRate a \<and> mRatioBendRate a \<le> 1 \<and> 0 \<le>s mRatioBendLimit a)"

lemma ring_shift:
  assumes "r < length fifo"
  shows "ring (fifo[r := x]) (Suc r mod length fifo) (length fifo) = tl (ring fifo r (length fifo)) @ [x]"
proof (rule nth_equalityI)
  let ?n = "length fifo"
  have n: "0 < ?n" using assms by auto
  show "length (ring (fifo[r := x]) (Suc r mod ?n) ?n) = length (tl (ring fifo r ?n) @ [x])" using n by simp
  fix i assume "i < length (ring (fifo[r := x]) (Suc r mod ?n) ?n)"
  then have i: "i < ?n" by simp
  have pos: "(Suc r mod ?n + i) mod ?n = (r + Suc i) mod ?n" by (simp add: mod_add_left_eq)
  have hit: "(r + Suc i) mod ?n = r \<longleftrightarrow> Suc i = ?n"
  proof
    assume "(r + Suc i) mod ?n = r"
    then have "(r + Suc i) mod ?n = (r + 0) mod ?n" using assms by simp
    then show "Suc i = ?n" using mod_add_inj [of r "Suc i" ?n 0] i n by (cases "Suc i < ?n") auto
  next
    assume "Suc i = ?n"
    then show "(r + Suc i) mod ?n = r" using assms by simp
  qed
  have lt: "(r + Suc i) mod ?n < ?n" using n by simp
  show "ring (fifo[r := x]) (Suc r mod ?n) ?n ! i = (tl (ring fifo r ?n) @ [x]) ! i"
    using i hit lt by (auto simp: nth_ring pos nth_append nth_tl nth_list_update)
qed

lemma sum_bound: "(\<forall>x \<in> set h. \<bar>x\<bar> \<le> b) \<Longrightarrow> \<bar>sum_list h\<bar> \<le> of_nat (length h) * (b :: int)"
  by (induction h) (auto simp: algebra_simps)

lemma sint_of_small: "- (2 ^ 31) \<le> k \<Longrightarrow> k < 2 ^ 31 \<Longrightarrow> sint (of_int k :: s32) = k"
  by (simp only: signed_of_int) (simp add: signed_take_bit_int_eq_self)

lemma fl_num_bounds: "fl 82560 = 82560" "fl 1290 = 1290" "fl 1664100 = 1664100" "fl 2146689000 = 2146689000"
  using fl_int [of 82560] fl_int [of 1290] fl_int [of 1664100] fl_int [of 2146689000] by simp_all

lemma abs_mult_bound: "\<bar>x\<bar> \<le> a \<Longrightarrow> \<bar>y\<bar> \<le> b \<Longrightarrow> \<bar>x * y\<bar> \<le> a * (b :: rat)"
  unfolding abs_mult by (intro mult_mono) auto

lemma s32_of_bounded: "\<bar>x\<bar> \<le> 2146689000 \<Longrightarrow> \<exists>w. s32_of_double x = Some w"
proof -
  assume x: "\<bar>x\<bar> \<le> 2146689000"
  have "- 2147483648 \<le> trunc x \<and> trunc x < 2147483648"
    unfolding trunc_def using x by (cases "0 \<le> x") (simp_all, linarith+)
  then show ?thesis by (simp add: s32_of_double_def)
qed

text \<open>The computation of the bend cannot overflow for an average fill level of at most 1290 samples.\<close>

lemma bend_defined:
  assumes "\<bar>S\<bar> \<le> 82560" "0 \<le> rate" "rate \<le> 1"
  shows "\<exists>raw bend. ddiv (dmul rate (of_int S)) 64 = Some raw \<and> s32_of_double (dmul (dmul raw raw) raw) = Some bend"
proof -
  have "\<bar>rate * of_int S\<bar> \<le> 1 * 82560"
    by (rule abs_mult_bound) (use assms in \<open>simp_all flip: of_int_abs\<close>)
  then have 1: "\<bar>dmul rate (of_int S)\<bar> \<le> 82560"
    unfolding dmul_def by (intro fl_bounded) (simp_all add: fl_num_bounds)
  let ?raw = "fl (dmul rate (of_int S) / 64)"
  have raw: "\<bar>?raw\<bar> \<le> 1290" by (rule fl_bounded) (use 1 in \<open>simp_all add: fl_num_bounds\<close>)
  have sq: "\<bar>dmul ?raw ?raw\<bar> \<le> 1664100"
    unfolding dmul_def [of ?raw ?raw] by (rule fl_bounded) (use abs_mult_bound [OF raw raw] in \<open>simp_all add: fl_num_bounds\<close>)
  have "\<bar>dmul (dmul ?raw ?raw) ?raw\<bar> \<le> 2146689000"
    unfolding dmul_def [of "dmul ?raw ?raw"]
    by (rule fl_bounded) (use abs_mult_bound [OF sq raw] in \<open>simp_all add: fl_num_bounds\<close>)
  from s32_of_bounded [OF this] show ?thesis by (auto simp: ddiv_def)
qed

lemma clamp_bounds:
  fixes limit bend :: s32
  assumes "0 \<le>s limit"
  shows "\<bar>sint (if limit <s bend then limit else if bend <s - limit then - limit else bend)\<bar> \<le> sint limit"
proof -
  have l: "0 \<le> sint limit" using assms by (simp add: word_sle_eq)
  have "sint (- limit) = - sint limit"
  proof -
    have "- limit = of_int (- sint limit)" by simp
    moreover have "sint limit < 2 ^ 31" using sint_lt [of limit] by simp
    ultimately show ?thesis using sint_of_small [of "- sint limit"] l by simp
  qed
  with l show ?thesis by (auto simp: word_sless_alt)
qed

lemma averaging_step:
  assumes avg: "averaging h a" and x: "\<bar>sint x\<bar> \<le> 1290"
  shows "\<exists>d a'. updateRelativeFillLevel x a = Some (Some d, a') \<and> averaging (tl h @ [sint x]) a' \<and>
    \<bar>sint d\<bar> \<le> sint (mRatioBendLimit a) \<and> mRatioBendLimit a' = mRatioBendLimit a"
proof -
  let ?r = "unat (mFillLevelIndex a)" and ?h = "tl h @ [sint x]"
  from avg obtain fifo where fifo: "mFillLevelFifo a = Some fifo" "length fifo = 64" "?r < 64"
    "map sint (ring fifo ?r 64) = h" "mAccumulatedFillLevel a = of_int (sum_list h)" "\<forall>x \<in> set h. \<bar>x\<bar> \<le> 1290"
    and cfg: "mAvbClockDomain a \<noteq> None" "0 < mRatioBendRate a" "mRatioBendRate a \<le> 1" "0 \<le>s mRatioBendLimit a"
    by (auto simp: averaging_def)
  have h: "h = sint (fifo ! ?r) # tl h" "length h = 64"
    using fifo(2,3,4) by (auto simp: ring_def upt_conv_Cons)
  have bounded: "\<forall>x \<in> set ?h. \<bar>x\<bar> \<le> 1290"
    using fifo(6) x h(1) by (metis Un_iff empty_iff empty_set insertE list.set(2) list.set_intros(2) set_append)
  have len: "length ?h = 64" using h(2) by simp
  have "sum_list h = sint (fifo ! ?r) + sum_list (tl h)" by (subst h(1)) simp
  then have acc: "of_int (sum_list h) - fifo ! ?r + x = of_int (sum_list ?h)" by simp
  have sum: "\<bar>sum_list ?h\<bar> \<le> 82560" using sum_bound [OF bounded] len by simp
  obtain S where S: "S = sum_list ?h" by simp
  note acc = acc [folded S] and sum = sum [folded S]
  have "sint (of_int S :: s32) = S"
    using sum by (intro sint_of_small) (simp_all only: abs_le_iff, simp_all)
  then have dbl: "double_of_s32 (of_int S) = of_int S"
    unfolding double_of_s32_def using fl_int [of S] sum by simp
  obtain raw bend where b: "ddiv (dmul (mRatioBendRate a) (of_int S)) 64 = Some raw"
    "s32_of_double (dmul (dmul raw raw) raw) = Some bend"
    using bend_defined [OF sum, of "mRatioBendRate a"] cfg(2,3) by auto
  let ?d = "if mRatioBendLimit a <s bend then mRatioBendLimit a
            else if bend <s - mRatioBendLimit a then - mRatioBendLimit a else bend"
  let ?a = "a\<lparr>mAccumulatedFillLevel := of_int S, mFillLevelFifo := Some (fifo[?r := x]),
              mFillLevelIndex := (if 64 = Suc ?r then 0 else mFillLevelIndex a + 1)\<rparr>"
  have run: "updateRelativeFillLevel x a = Some (Some ?d, ?a)"
    using fifo(1-3) cfg b dbl
    by (simp add: updateRelativeFillLevel_def Let_def fifo(5) fetch_def store_def cFillLevelFifoSize_def acc)
  have idx: "unat (mFillLevelIndex ?a) = Suc ?r mod 64"
  proof (cases "64 = Suc ?r")
    case True
    then show ?thesis by (simp only: if_True) (simp flip: True)
  next
    case False
    then have "unat (mFillLevelIndex a + 1) = ?r + 1"
      using fifo(3) by (subst unat_add_small) simp_all
    with False fifo(3) show ?thesis by simp
  qed
  have "map sint (ring (fifo[?r := x]) (Suc ?r mod 64) 64) = ?h"
    using ring_shift [of ?r fifo x] fifo by (simp add: map_tl)
  then have "averaging ?h ?a"
    using cfg bounded fifo(2) unfolding averaging_def idx by (simp add: S)
  with run clamp_bounds [OF cfg(4), of bend] show ?thesis by auto
qed

lemma fill_run_averaging:
  "averaging h a \<Longrightarrow> \<forall>x \<in> set xs. \<bar>sint x\<bar> \<le> 1290 \<Longrightarrow>
     \<exists>d' a'. fill_run xs d a = Some (d', a') \<and> averaging (drop (length xs) (h @ map sint xs)) a' \<and>
       mRatioBendLimit a' = mRatioBendLimit a \<and>
       (xs \<noteq> [] \<longrightarrow> (\<exists>v. d' = Some v \<and> \<bar>sint v\<bar> \<le> sint (mRatioBendLimit a)))"
proof (induction xs arbitrary: h d a)
  case Nil
  then show ?case by simp
next
  case (Cons x xs)
  from averaging_step [OF Cons.prems(1), of x] Cons.prems(2) obtain v a1 where
    1: "updateRelativeFillLevel x a = Some (Some v, a1)" "averaging (tl h @ [sint x]) a1"
      "\<bar>sint v\<bar> \<le> sint (mRatioBendLimit a)" "mRatioBendLimit a1 = mRatioBendLimit a" by auto
  have "length h = 64" using Cons.prems(1) by (auto simp: averaging_def)
  then have "drop (length xs) ((tl h @ [sint x]) @ map sint xs) = drop (length (x # xs)) (h @ map sint (x # xs))"
    by (cases h) simp_all
  with Cons.IH [OF 1(2), of "Some v"] Cons.prems(2) 1 show ?case by (cases "xs = []") auto
qed

text \<open>C30. The stream that steers the drift compensation gives its clock domain a value computed from the
  average of the last 64 fill levels. From activation on and after any number of measurements of at
  most 1290 samples the accumulated value is exactly the sum of the last 64 (missing ones count as
  0), nothing overflows, and the value given stays within the configured limit.\<close>

theorem fill_level_average:
  assumes fresh: "mFillLevelFifo a = Some (replicate 64 0)" "mFillLevelIndex a = 0" "mAccumulatedFillLevel a = 0"
    and config: "mAvbClockDomain a \<noteq> None" "0 < mRatioBendRate a" "mRatioBendRate a \<le> 1" "0 \<le>s mRatioBendLimit a"
    and levels: "xs \<noteq> []" "\<forall>x \<in> set xs. \<bar>sint x\<bar> \<le> 1290"
  shows "\<exists>v a'. fill_run xs None a = Some (Some v, a') \<and> \<bar>sint v\<bar> \<le> sint (mRatioBendLimit a) \<and>
    sint (mAccumulatedFillLevel a') = sum_list (drop (length xs) (replicate 64 0 @ map sint xs))"
proof -
  have "ring (replicate 64 (0 :: s32)) 0 64 = replicate 64 0"
    by (rule nth_equalityI) (simp_all add: nth_ring)
  then have "averaging (replicate 64 0) a"
    using fresh config by (simp add: averaging_def sum_list_replicate)
  from fill_run_averaging [OF this levels(2), of None] levels(1) obtain v a' where
    run: "fill_run xs None a = Some (Some v, a')" "\<bar>sint v\<bar> \<le> sint (mRatioBendLimit a)"
      "averaging (drop (length xs) (replicate 64 0 @ map sint xs)) a'" by auto
  let ?h = "drop (length xs) (replicate 64 0 @ map sint xs)"
  from run(3) have "mAccumulatedFillLevel a' = of_int (sum_list ?h)" "\<forall>x \<in> set ?h. \<bar>x\<bar> \<le> 1290" by (auto simp: averaging_def)
  moreover have "\<bar>sum_list ?h\<bar> \<le> 82560"
    using sum_bound [OF calculation(2)] by simp
  ultimately have "sint (mAccumulatedFillLevel a') = sum_list ?h"
    by (simp only:) (intro sint_of_small, simp_all only: abs_le_iff, simp_all)
  with run show ?thesis by blast
qed

definition example_bend_heap :: "unit audio_heap" where
  "example_bend_heap = \<lparr>h_locals = (\<lambda>_. ()), h_rxClocks = (\<lambda>_. None), h_memory = (\<lambda>_. 0)\<rparr>"

definition example_bend :: "unit IasAvbAudioStream" where
  "example_bend = (audio_new 0 example_bend_heap)
     \<lparr>mAvbClockDomain := Some 0, mFillLevelFifo := Some (replicate 64 0), mRatioBendRate := 1 / 2, mRatioBendLimit := 20\<rparr>"

lemma example_bend_facts:
  "mFillLevelFifo example_bend = Some (replicate 64 0)" "mFillLevelIndex example_bend = 0"
  "mAccumulatedFillLevel example_bend = 0" "mAvbClockDomain example_bend \<noteq> None"
  "mRatioBendRate example_bend = 1 / 2" "mRatioBendLimit example_bend = 20"
  by (simp_all add: example_bend_def audio_new_def IasAvbStream.defs IasAvbAudioStream.defs)

theorem fill_level_average_witness:
  "\<exists>v a'. fill_run [1000, - 200, 300] None example_bend = Some (Some v, a') \<and> \<bar>sint v\<bar> \<le> 20 \<and>
     sint (mAccumulatedFillLevel a') = 1100"
  using fill_level_average [of example_bend "[1000, - 200, 300]"]
  by (simp add: example_bend_facts word_sle_eq sum_list_replicate)

text \<open>An average fill level of 2600 samples at the rate 0.5 gives a bend of 2197000000, which the
  conversion to \<^verbatim>\<open>int32_t\<close> cannot represent.\<close>

lemma bend_overflow:
  assumes "mAccumulatedFillLevel a = 0" "mFillLevelFifo a = Some (replicate 64 0)" "mFillLevelIndex a = 0"
    "mAvbClockDomain a \<noteq> None" "mRatioBendRate a = 1 / 2"
  shows "updateRelativeFillLevel (64 * 2600) a = None"
proof -
  have d: "double_of_s32 (64 * 2600) = of_int (64 * 2600)"
    unfolding double_of_s32_def using fl_int [of "64 * 2600"] by simp
  have 1: "dmul (mRatioBendRate a) (of_int (64 * 2600)) = 83200"
    unfolding dmul_def assms(5) using fl_int [of 83200] by simp
  have 2: "ddiv 83200 (of_nat 64) = Some 1300" unfolding ddiv_def using fl_int [of 1300] by simp
  have 3: "dmul (dmul 1300 1300) 1300 = 2197000000"
    unfolding dmul_def using fl_int [of 1690000] fl_int [of 2197000000] by simp
  have 4: "s32_of_double 2197000000 = None" by (simp add: s32_of_double_def trunc_def)
  have acc: "mAccumulatedFillLevel a - 0 + 64 * 2600 = 64 * 2600" using assms by simp
  show ?thesis
    unfolding updateRelativeFillLevel_def Let_def using assms
    by (simp add: fetch_def store_def cFillLevelFifoSize_def d [simplified] 1 [simplified] 2 [simplified] 3 [simplified] 4)
qed

end
