(* ===== verification/Transmit_Sequencer.thy ===== *)
theory Transmit_Sequencer
  imports Avb_Stream Binary64 "HOL-Library.Monad_Syntax"
begin

text \<open>
  \<^verbatim>\<open>IasAvbTransmitSequencer\<close> (\<^verbatim>\<open>IasAvbTransmitSequencer.hpp/.cpp\<close>): the thread that collects the packets
  of the transmit streams of one SR class and hands them to the network driver, ordered by launch
  time and window by window. A stream pointer is a number; the streams themselves and the calls made
  to the driver are the fields \<open>streams\<close> and \<open>igb\<close> of the sequencer. \<^verbatim>\<open>std::list\<close> with an iterator
  is a list with an index, whose value \<open>length xs\<close> is \<^verbatim>\<open>end()\<close>.

  \<open>tx_env\<close> holds the answers from outside: the virtual functions of the streams, the registry, the
  driver (\<open>te_xmit n\<close> answers the call number \<open>n\<close>), the thread library and the watchdog. The member
  \<open>te_freed\<close> is what is read from a list node after it was erased, see \<open>serviceStream\<close>. The result
  \<open>None\<close> is undefined behaviour, and for the loops \<open>fetch_loop\<close> and \<open>service_window\<close> also that
  they do not end. Members that are only logged are left out.
\<close>

section \<open>Constants\<close>

definition cXmitCueThresh :: string where "cXmitCueThresh = ''transmit.window.threshold.cue''"
definition cXmitResetThresh :: string where "cXmitResetThresh = ''transmit.window.threshold.reset''"
definition cXmitPrefetchThresh :: string where "cXmitPrefetchThresh = ''transmit.window.threshold.prefetch''"
definition cXmitResetMaxCount :: string where "cXmitResetMaxCount = ''transmit.window.maxcount.reset''"
definition cXmitDropMaxCount :: string where "cXmitDropMaxCount = ''transmit.window.maxcount.drop''"
definition cXmitDelay :: string where "cXmitDelay = ''transmit.timing.delay''"
definition cTxMaxBw :: string where "cTxMaxBw = ''tx.maxbandwidth.''"
definition cXmitUseShaper :: string where "cXmitUseShaper = ''transmit.shaper.enable''"
definition cDebugXmitShaperBwRate :: string where "cDebugXmitShaperBwRate = ''debug.transmit.shaper.bwrate.''"
definition cXmitStrictPktOrder :: string where "cXmitStrictPktOrder = ''transmit.pktorder.enable''"

definition cMinTxWindowPitch :: u64 where "cMinTxWindowPitch = 125000"
definition cMinTxWindowWidth :: u64 where "cMinTxWindowWidth = 250000"
definition cFlagEndThread :: u32 where "cFlagEndThread = 1"
definition cFlagRestartThread :: u32 where "cFlagRestartThread = 2"
definition cTxMaxInterferenceSize :: u32 where "cTxMaxInterferenceSize = 1522"

definition TQAVCTRL :: u32 where "TQAVCTRL = 0x03570"
definition TQAVHC :: "u32 \<Rightarrow> u32" where "TQAVHC n = 0x0300C + n * 0x40"
definition TQAVCC :: "u32 \<Rightarrow> u32" where "TQAVCC n = 0x03004 + n * 0x40"
definition TQAVCH_ZERO_CREDIT :: u32 where "TQAVCH_ZERO_CREDIT = 0x80000000"
definition TQAVCC_LINKRATE :: u32 where "TQAVCC_LINKRATE = 0x7735"
definition TQAVCC_QUEUEMODE :: u32 where "TQAVCC_QUEUEMODE = 0x80000000"
definition TQAVCTRL_TX_ARB :: u32 where "TQAVCTRL_TX_ARB = 0x00000100"

section \<open>State\<close>

datatype DoneState = eNotDone | eEndOfWindow | eDry | eWindowAdjust | eTxError

record StreamData =
  sd_stream :: nat
  sd_packet :: "pkt_ref option"
  sd_launchTime :: u64
  sd_done :: DoneState

record tx_config =
  txWindowWidthInit :: u64
  txWindowWidth :: u64
  txWindowPitchInit :: u64
  txWindowPitch :: u64
  txWindowCueThreshold :: u64
  txWindowResetThreshold :: u64
  txWindowPrefetchThreshold :: u64
  txWindowMaxResetCount :: u64
  txWindowMaxDropCount :: u64
  txDelay :: u64
  txMaxBandwidth :: u64

record tx_diag =
  d_sent :: u32
  d_dropped :: u32
  d_reordered :: u32
  d_outputCount :: u32
  d_skipCount :: u32
  d_timingViolation :: u32
  d_lastLaunchTime :: u64

text \<open>A call of the driver: a packet of a stream with its launch time, or a register.\<close>

datatype igb_call = Xmit nat pkt_ref u64 | WriteReg u32 u32

text \<open>\<^verbatim>\<open>mTransmitThread\<close> is \<open>None\<close> for NULL, and else tells whether the thread runs.\<close>

record 'a IasAvbTransmitSequencer =
  mThreadControl :: u32
  mTransmitThread :: "bool option"
  mQueueIndex :: u32
  mClass :: IasAvbSrClass
  mRequestCount :: s32
  mResponseCount :: s32
  mCurrentBandwidth :: u32
  mCurrentMaxIntervalFrames :: u32
  mMaxFrameSizeHigh :: u32
  mUseShaper :: bool
  mShaperBwRate :: u32
  mSequence :: "StreamData list"
  mActiveStreams :: "nat set"
  mDoReclaim :: bool
  mDiag :: tx_diag
  mConfig :: tx_config
  mEventInterface :: "nat option"
  mStrictPktOrderEn :: bool
  streams :: "nat \<Rightarrow> 'a IasAvbStream_scheme"
  igb :: "igb_call list"

type_synonym 'a sequencer = "'a IasAvbTransmitSequencer"

record 'a tx_env =
  te_vtable :: "nat \<Rightarrow> 'a IasAvbStream_scheme stream_vtable"
  te_registry :: "registry option"
  te_tables :: tspec_tables
  te_xmit :: "nat \<Rightarrow> int"
  te_readReg :: "u32 \<Rightarrow> u32"
  te_ringSize :: u32
  te_linkSpeed :: int
  te_newThread :: bool
  te_watchdogFails :: bool
  te_threadStart :: bool
  te_threadStop :: bool
  te_freed :: "DoneState \<Rightarrow> DoneState"

definition config_new :: tx_config where
  "config_new =
     \<lparr>txWindowWidthInit = 24 * 125000, txWindowWidth = 24 * 125000, txWindowPitchInit = 16 * 125000,
      txWindowPitch = 16 * 125000, txWindowCueThreshold = 8 * 125000, txWindowResetThreshold = 32 * 125000,
      txWindowPrefetchThreshold = 1000000000, txWindowMaxResetCount = 1, txWindowMaxDropCount = 8000,
      txDelay = 100000, txMaxBandwidth = 70000\<rparr>"

definition diag_new :: tx_diag where
  "diag_new =
     \<lparr>d_sent = 0, d_dropped = 0, d_reordered = 0, d_outputCount = 0, d_skipCount = 0, d_timingViolation = 0,
      d_lastLaunchTime = 0\<rparr>"

definition sequencer_new :: "(nat \<Rightarrow> 'a IasAvbStream_scheme) \<Rightarrow> 'a sequencer" where
  "sequencer_new ss =
     \<lparr>mThreadControl = 0, mTransmitThread = None, mQueueIndex = - 1, mClass = eIasAvbSrClassHigh,
      mRequestCount = 0, mResponseCount = 0, mCurrentBandwidth = 0, mCurrentMaxIntervalFrames = 0,
      mMaxFrameSizeHigh = 0, mUseShaper = False, mShaperBwRate = 100, mSequence = [], mActiveStreams = {},
      mDoReclaim = False, mDiag = diag_new, mConfig = config_new, mEventInterface = None,
      mStrictPktOrderEn = True, streams = ss, igb = []\<rparr>"

definition sequencer_isInitialized :: "'a sequencer \<Rightarrow> bool" where
  "sequencer_isInitialized t \<longleftrightarrow> mTransmitThread t \<noteq> None"

section \<open>Streams and packets\<close>

text \<open>A call on the stream \<open>i\<close>.\<close>

definition on_stream ::
  "('a IasAvbStream_scheme \<Rightarrow> ('r \<times> 'a IasAvbStream_scheme) option) \<Rightarrow> nat \<Rightarrow> 'a sequencer \<Rightarrow>
     ('r \<times> 'a sequencer) option" where
  "on_stream f i t = map_option (\<lambda>(r, s). (r, t\<lparr>streams := (streams t)(i := s)\<rparr>)) (f (streams t i))"

definition packet_of :: "nat \<Rightarrow> pkt_ref \<Rightarrow> 'a sequencer \<Rightarrow> IasAvbPacket option" where
  "packet_of i r t = Option.bind (mPacketPool (streams t i)) (\<lambda>pool. deref pool r)"

text \<open>\<^verbatim>\<open>IasAvbPacketPool::returnPacket\<close>, whose result the sequencer ignores.\<close>

definition give_back :: "nat \<Rightarrow> pkt_ref \<Rightarrow> 'a sequencer \<Rightarrow> 'a sequencer option" where
  "give_back i r t =
     map_option snd (on_stream
       (\<lambda>s. do {
          pool \<leftarrow> mPacketPool s;
          (result, pool) \<leftarrow> returnPacket (Some r) pool;
          Some (result, s\<lparr>mPacketPool := Some pool\<rparr>)
        }) i t)"

definition set_attime :: "nat \<Rightarrow> pkt_ref \<Rightarrow> u64 \<Rightarrow> 'a sequencer \<Rightarrow> 'a sequencer option" where
  "set_attime i r time t =
     map_option snd (on_stream
       (\<lambda>s. do {
          pool \<leftarrow> mPacketPool s;
          pool \<leftarrow> update_packet (\<lambda>pk. pk\<lparr>attime := time\<rparr>) r pool;
          Some ((), s\<lparr>mPacketPool := Some pool\<rparr>)
        }) i t)"

text \<open>A stream is deactivated and activated to make it start over.\<close>

definition toggle :: "'a tx_env \<Rightarrow> bool \<Rightarrow> nat \<Rightarrow> 'a sequencer \<Rightarrow> 'a sequencer option" where
  "toggle env isError i t =
     map_option snd (on_stream
       (\<lambda>s. do {
          s \<leftarrow> deactivate (te_vtable env i) isError s;
          s \<leftarrow> activate (te_vtable env i) isError s;
          Some ((), s)
        }) i t)"

primrec toggle_all :: "'a tx_env \<Rightarrow> nat list \<Rightarrow> 'a sequencer \<Rightarrow> 'a sequencer option" where
  "toggle_all env [] t = Some t"
| "toggle_all env (i # is') t = do { t \<leftarrow> toggle env False i t; toggle_all env is' t }"

primrec give_back_all :: "(nat \<times> pkt_ref) list \<Rightarrow> 'a sequencer \<Rightarrow> 'a sequencer option" where
  "give_back_all [] t = Some t"
| "give_back_all (x # xs) t = do { t \<leftarrow> give_back (fst x) (snd x) t; give_back_all xs t }"

section \<open>The sequence\<close>

definition next_it :: "'x list \<Rightarrow> nat \<Rightarrow> nat" where
  "next_it xs n = (if Suc n = length xs then 0 else Suc n)"

definition prev_it :: "'x list \<Rightarrow> nat \<Rightarrow> nat" where
  "prev_it xs n = (if n = length xs then n else if n = 0 then length xs - 1 else n - 1)"

text \<open>The loop backwards from \<open>backward\<close> to a stream that is sent earlier than the one at \<open>n\<close>; the first
  argument bounds the steps.\<close>

primrec search_back :: "nat \<Rightarrow> StreamData list \<Rightarrow> nat \<Rightarrow> nat \<Rightarrow> nat" where
  "search_back 0 xs n backward = backward"
| "search_back (Suc k) xs n backward =
     (let backward = prev_it xs backward in
      if sd_launchTime (xs ! backward) \<noteq> 0 \<and> sd_launchTime (xs ! n) > sd_launchTime (xs ! backward)
      then backward
      else if n \<noteq> backward then search_back k xs n backward else backward)"

text \<open>\<^verbatim>\<open>insert\<close> of a copy before \<open>b\<close>, then \<^verbatim>\<open>erase\<close> at \<open>n\<close>, with the wrap-around of the iterator.\<close>

definition move_before :: "'x list \<Rightarrow> nat \<Rightarrow> nat \<Rightarrow> nat \<times> 'x list" where
  "move_before xs n b =
     (let ys = take b xs @ xs ! n # drop b xs;
          n' = (if b \<le> n then Suc n else n);
          zs = take n' ys @ drop (Suc n') ys
      in (if n' = length zs then 0 else n', zs))"

text \<open>The first component of the result tells whether the node of the stream was erased.\<close>

definition sortByLaunchTime :: "nat \<Rightarrow> 'a sequencer \<Rightarrow> bool \<times> nat \<times> 'a sequencer" where
  "sortByLaunchTime n t =
     (let xs = mSequence t; backward = search_back (length xs) xs n n in
      if n \<noteq> backward then
        let backward = next_it xs backward in
        if n \<noteq> backward then
          let (n', ys) = move_before xs n backward
          in (True, n', t\<lparr>mSequence := ys, mDiag := (mDiag t)\<lparr>d_reordered := d_reordered (mDiag t) + 1\<rparr>\<rparr>)
        else (False, next_it xs n, t)
      else (False, n, t))"

text \<open>The search for a stream that is not done, at most once around; the number of steps is counted.\<close>

primrec skip_done :: "nat \<Rightarrow> StreamData list \<Rightarrow> nat \<Rightarrow> nat \<Rightarrow> nat \<times> nat" where
  "skip_done 0 xs start n = (n, 0)"
| "skip_done (Suc k) xs start n =
     (if sd_done (xs ! n) \<noteq> eNotDone then
        let n = next_it xs n in
        if start = n then (n, 1) else (\<lambda>(n, c). (n, Suc c)) (skip_done k xs start n)
      else (n, 0))"

section \<open>Synchronisation with the active streams\<close>

text \<open>The loop that erases the streams no longer active; the first argument counts the elements left, \<open>s\<close> is
  the iterator of the loop and \<open>n\<close> is \<^verbatim>\<open>nextStreamToService\<close>.\<close>

primrec erase_obsolete ::
  "nat \<Rightarrow> nat \<Rightarrow> nat set \<Rightarrow> nat \<Rightarrow> 'a sequencer \<Rightarrow> (nat set \<times> nat \<times> 'a sequencer) option" where
  "erase_obsolete 0 s temp n t = Some (temp, n, t)"
| "erase_obsolete (Suc k) s temp n t =
     (let d = mSequence t ! s in
      if sd_stream d \<notin> temp then do {
        t \<leftarrow> (case sd_packet d of None \<Rightarrow> Some t | Some r \<Rightarrow> give_back (sd_stream d) r t);
        let n = (if n = s then next_it (mSequence t) n else n);
        let xs = take s (mSequence t) @ drop (Suc s) (mSequence t);
        erase_obsolete k s temp (if xs = [] then 0 else if s < n then n - 1 else n) (t\<lparr>mSequence := xs\<rparr>)
      }
      else erase_obsolete k (Suc s) (temp - {sd_stream d}) n t)"

definition new_data :: "nat \<Rightarrow> StreamData" where
  "new_data i = \<lparr>sd_stream = i, sd_packet = None, sd_launchTime = 0, sd_done = eNotDone\<rparr>"

text \<open>A new stream is put in front, and the stream to service is sorted in again.\<close>

definition insert_stream :: "nat \<Rightarrow> nat \<times> 'a sequencer \<Rightarrow> nat \<times> 'a sequencer" where
  "insert_stream i nt =
     (let (n, t) = nt;
          xs = new_data i # mSequence t;
          n = (if Suc n = length xs then 0 else Suc n)
      in snd (sortByLaunchTime n (t\<lparr>mSequence := xs\<rparr>)))"

text \<open>One response to a request. The lock is held but for the last assignment.\<close>

definition sync_streams :: "nat \<Rightarrow> 'a sequencer \<Rightarrow> (nat \<times> 'a sequencer) option" where
  "sync_streams n t =
     do {
       (temp, n, t) \<leftarrow> erase_obsolete (length (mSequence t)) 0 (mActiveStreams t) n t;
       Some (fold insert_stream (sorted_list_of_set temp) (n, t))
     }"

definition respond :: "'a sequencer \<Rightarrow> 'a sequencer" where
  "respond t = t\<lparr>mResponseCount := mResponseCount t + 1\<rparr>"

primrec sync_rounds :: "nat \<Rightarrow> nat \<Rightarrow> 'a sequencer \<Rightarrow> (nat \<times> 'a sequencer) option" where
  "sync_rounds 0 n t = Some (n, t)"
| "sync_rounds (Suc k) n t = do { (n, t) \<leftarrow> sync_streams n t; sync_rounds k n (respond t) }"

text \<open>\<^verbatim>\<open>updateSequence\<close> when no request arrives while it runs.\<close>

definition updateSequence :: "nat \<Rightarrow> 'a sequencer \<Rightarrow> (nat \<times> 'a sequencer) option" where
  "updateSequence n t =
     (let k = nat (sint (mRequestCount t - mResponseCount t)) in do {
        (n, t') \<leftarrow> sync_rounds k n t;
        Some (n, if k > 0 \<and> length (mSequence t') < length (mSequence t)
                 then t'\<lparr>mConfig := (mConfig t')\<lparr>txWindowWidth := txWindowWidthInit (mConfig t'),
                                                txWindowPitch := txWindowPitchInit (mConfig t')\<rparr>\<rparr>
                 else t')
      })"

section \<open>Servicing a stream\<close>

text \<open>The packet at hand is given to the driver: whether to fetch the next one, the data of the stream and the
  state. The answers of \<^verbatim>\<open>igb_xmit\<close> that the code distinguishes are \<open>- EINVAL\<close>, \<open>- ENXIO\<close>, 0 and \<open>ENOSPC\<close>.\<close>

definition send_packet ::
  "'a tx_env \<Rightarrow> StreamData \<Rightarrow> pkt_ref \<Rightarrow> 'a sequencer \<Rightarrow> (bool \<times> StreamData \<times> 'a sequencer) option" where
  "send_packet env d r t =
     do {
       let i = sd_stream d;
       let time = sd_launchTime d + txDelay (mConfig t);
       t \<leftarrow> set_attime i r time t;
       let t = t\<lparr>mDiag := (mDiag t)\<lparr>d_timingViolation := d_timingViolation (mDiag t) +
                                        (if time < d_lastLaunchTime (mDiag t) then 1 else 0),
                                     d_lastLaunchTime := time\<rparr>\<rparr>;
       let result = te_xmit env (length (igb t));
       let t = t\<lparr>igb := igb t @ [Xmit i r time]\<rparr>;
       if result = - 22 \<or> result = - 6
       then do { t \<leftarrow> give_back i r t; Some (False, d\<lparr>sd_done := eTxError\<rparr>, t) }
       else if result = 0
       then do {
         (_, t) \<leftarrow> on_stream (\<lambda>s. Some (incFramesTx s)) i t;
         Some (True, d, t\<lparr>mDiag := (mDiag t)\<lparr>d_sent := d_sent (mDiag t) + 1\<rparr>\<rparr>)
       }
       else if result = 28
       then Some (True, d, if mUseShaper t \<and> mShaperBwRate t \<noteq> 100 then t
                           else t\<lparr>mThreadControl := mThreadControl t OR cFlagRestartThread\<rparr>)
       else Some (False, d, t)
     }"

text \<open>What is to be done with the iterator after the fetch loop.\<close>

datatype fetch_end = Stay | Advance | Resort

definition reset_late ::
  "'a tx_env \<Rightarrow> pkt_ref \<Rightarrow> u64 \<Rightarrow> StreamData \<Rightarrow> 'a sequencer \<Rightarrow>
     ((bool \<times> fetch_end) \<times> u64 \<times> StreamData \<times> 'a sequencer) option" where
  "reset_late env r resetCnt d t =
     do {
       t \<leftarrow> give_back (sd_stream d) r t;
       t \<leftarrow> toggle env False (sd_stream d) t;
       let resetCnt = resetCnt + 1;
       Some (if resetCnt \<le> txWindowMaxResetCount (mConfig t)
             then ((True, Stay), resetCnt, d\<lparr>sd_packet := None\<rparr>, t)
             else ((False, Stay), resetCnt, d\<lparr>sd_packet := None, sd_done := eDry\<rparr>, t))
     }"

definition drop_late ::
  "'a tx_env \<Rightarrow> pkt_ref \<Rightarrow> u32 \<Rightarrow> u64 \<Rightarrow> StreamData \<Rightarrow> 'a sequencer \<Rightarrow>
     ((bool \<times> fetch_end) \<times> u64 \<times> StreamData \<times> 'a sequencer) option" where
  "drop_late env r droppedOld resetCnt d t =
     do {
       t \<leftarrow> give_back (sd_stream d) r t;
       let t = t\<lparr>mDiag := (mDiag t)\<lparr>d_dropped := d_dropped (mDiag t) + 1\<rparr>\<rparr>;
       if ucast (d_dropped (mDiag t) - droppedOld) \<ge> txWindowMaxDropCount (mConfig t)
       then do {
         t \<leftarrow> toggle env True (sd_stream d) t;
         Some ((False, Stay), resetCnt, d\<lparr>sd_packet := None, sd_done := eDry\<rparr>, t)
       }
       else Some ((True, Stay), resetCnt, d\<lparr>sd_packet := None\<rparr>, t)
     }"

text \<open>One round of the fetch loop: whether another one follows.\<close>

definition fetch_step ::
  "'a tx_env \<Rightarrow> u64 \<Rightarrow> u32 \<Rightarrow> u64 \<Rightarrow> StreamData \<Rightarrow> 'a sequencer \<Rightarrow>
     ((bool \<times> fetch_end) \<times> u64 \<times> StreamData \<times> 'a sequencer) option" where
  "fetch_step env windowStart droppedOld resetCnt d t =
     do {
       let i = sd_stream d;
       (p, t) \<leftarrow> on_stream (preparePacket (te_vtable env i) (windowStart + txWindowPitch (mConfig t))) i t;
       case p of
         None \<Rightarrow> Some ((False, Advance), resetCnt, d\<lparr>sd_packet := None, sd_launchTime := 0, sd_done := eDry\<rparr>, t)
       | Some r \<Rightarrow> do {
           pk \<leftarrow> packet_of i r t;
           let timeFromWindowStart = (attime pk - windowStart :: s64);
           let d = d\<lparr>sd_packet := Some r, sd_launchTime := attime pk\<rparr>;
           let c = mConfig t;
           if txWindowWidth c <s timeFromWindowStart then
             if txWindowPrefetchThreshold c \<noteq> 0 \<and> txWindowPrefetchThreshold c <s timeFromWindowStart
             then reset_late env r resetCnt d t
             else Some ((False, Advance), resetCnt, d\<lparr>sd_done := eEndOfWindow\<rparr>, t)
           else if timeFromWindowStart <s - txWindowResetThreshold c then reset_late env r resetCnt d t
           else if timeFromWindowStart <s - txWindowCueThreshold c then drop_late env r droppedOld resetCnt d t
           else Some ((False, Resort), resetCnt, d, t)
         }
     }"

partial_function (option) fetch_loop ::
  "'a tx_env \<Rightarrow> u64 \<Rightarrow> u32 \<Rightarrow> u64 \<Rightarrow> StreamData \<Rightarrow> 'a sequencer \<Rightarrow> (fetch_end \<times> StreamData \<times> 'a sequencer) option"
where
  "fetch_loop env windowStart droppedOld resetCnt d t =
     Option.bind (fetch_step env windowStart droppedOld resetCnt d t)
       (\<lambda>((again, e), resetCnt, d, t).
          if again then fetch_loop env windowStart droppedOld resetCnt d t else Some (e, d, t))"

text \<open>What is done with the packet at hand: whether to fetch the next one, and else whether the iterator
  advances.\<close>

definition use_packet ::
  "'a tx_env \<Rightarrow> u64 \<Rightarrow> StreamData \<Rightarrow> 'a sequencer \<Rightarrow> ((bool \<times> bool) \<times> StreamData \<times> 'a sequencer) option" where
  "use_packet env windowStart d t =
     (case sd_packet d of
        None \<Rightarrow> Some ((True, False), d, t)
      | Some r \<Rightarrow> do {
          pk \<leftarrow> packet_of (sd_stream d) r t;
          if attime pk > windowStart + txWindowWidth (mConfig t)
          then Some ((False, True), d\<lparr>sd_done := eEndOfWindow\<rparr>, t)
          else if mDummyFlag pk
          then do { t \<leftarrow> give_back (sd_stream d) r t; Some ((True, False), d\<lparr>sd_packet := None\<rparr>, t) }
          else do { (again, d, t) \<leftarrow> send_packet env d r t; Some ((again, False), d, t) }
        })"

text \<open>The result is the state of the stream, read through a reference to its list node, the iterator and the
  sequencer. When \<^verbatim>\<open>sortByLaunchTime\<close> has erased the node this is a read of freed memory, answered by
  \<open>te_freed\<close>.\<close>

definition serviceStream ::
  "'a tx_env \<Rightarrow> u64 \<Rightarrow> nat \<Rightarrow> 'a sequencer \<Rightarrow> (DoneState \<times> nat \<times> 'a sequencer) option" where
  "serviceStream env windowStart n t =
     do {
       d \<leftarrow> fetch (mSequence t) n;
       ((again, advance), d, t) \<leftarrow> use_packet env windowStart d t;
       (e, d, t) \<leftarrow> (if again then fetch_loop env windowStart (d_dropped (mDiag t)) 0 d t
                     else Some (if advance then Advance else Stay, d, t));
       let t = t\<lparr>mSequence := (mSequence t)[n := d]\<rparr>;
       let (freed, n, t) = (case e of
                              Stay \<Rightarrow> (False, n, t)
                            | Advance \<Rightarrow> (False, next_it (mSequence t) n, t)
                            | Resort \<Rightarrow> sortByLaunchTime n t);
       let (n, k) = skip_done (length (mSequence t)) (mSequence t) n n;
       Some (if freed then te_freed env (sd_done d) else sd_done d, n,
             t\<lparr>mDiag := (mDiag t)\<lparr>d_skipCount := d_skipCount (mDiag t) + of_nat k\<rparr>\<rparr>)
     }"

text \<open>The streams are serviced until \<open>left\<close> of them have nothing more to send in the window.\<close>

partial_function (option) service_window ::
  "'a tx_env \<Rightarrow> u64 \<Rightarrow> nat \<Rightarrow> nat \<Rightarrow> 'a sequencer \<Rightarrow> (nat \<times> 'a sequencer) option" where
  "service_window env windowStart left n t =
     (if mThreadControl t = 0 \<and> left > 0 then
        Option.bind (serviceStream env windowStart n t)
          (\<lambda>(d, n, t).
             service_window env windowStart
               (if d = eNotDone then left else if d = eEndOfWindow \<or> d = eDry then left - 1 else 0) n t)
      else Some (n, t))"

declare fetch_loop.simps [code] service_window.simps [code]

text \<open>One transmit window: all streams are serviced, the sequence is sorted, the window advances.\<close>

definition run_window :: "'a tx_env \<Rightarrow> u64 \<Rightarrow> nat \<Rightarrow> 'a sequencer \<Rightarrow> (u64 \<times> nat \<times> 'a sequencer) option" where
  "run_window env windowStart n t =
     do {
       (n, t) \<leftarrow> service_window env windowStart (length (mSequence t)) n
                   (t\<lparr>mSequence := map (\<lambda>d. d\<lparr>sd_done := eNotDone\<rparr>) (mSequence t)\<rparr>);
       let (n, t) = (if mStrictPktOrderEn t then (0, t\<lparr>mSequence := sort_key sd_launchTime (mSequence t)\<rparr>) else (n, t));
       Some (windowStart + txWindowPitch (mConfig t), n, t)
     }"

section \<open>The worker thread\<close>

text \<open>The link state and whether the event interface is notified of it.\<close>

definition checkLinkStatus :: "bool \<Rightarrow> bool \<Rightarrow> bool \<Rightarrow> 'a sequencer \<Rightarrow> bool \<times> bool option" where
  "checkLinkStatus linkUp ptpReady linkState t =
     (let linkIsUp = (if linkUp \<and> \<not> linkState then ptpReady else linkUp)
      in (linkIsUp, if linkState \<noteq> linkIsUp \<and> mEventInterface t \<noteq> None then Some linkIsUp else None))"

text \<open>\<^verbatim>\<open>igb_clean\<close> answers the packets that the driver has done with.\<close>

definition reclaimPackets :: "(nat \<times> pkt_ref) list \<Rightarrow> 'a sequencer \<Rightarrow> (u32 \<times> 'a sequencer) option" where
  "reclaimPackets packetList t =
     (if mDoReclaim t then map_option (Pair (of_nat (length packetList))) (give_back_all packetList t)
      else Some (0, t))"

text \<open>The counters of \<^verbatim>\<open>logOutput\<close>.\<close>

definition logOutput :: "'a sequencer \<Rightarrow> 'a sequencer" where
  "logOutput t =
     (let dg = mDiag t;
          dg = (if d_outputCount dg = 400
                then dg\<lparr>d_outputCount := 0, d_reordered := 0, d_dropped := 0, d_skipCount := 0, d_timingViolation := 0\<rparr>
                else dg\<lparr>d_outputCount := d_outputCount dg + 1\<rparr>)
      in t\<lparr>mDiag := dg\<lparr>d_sent := 0\<rparr>\<rparr>)"

text \<open>What the thread sees in one round of its loop.\<close>

record cycle_answers =
  ca_linkUp :: bool
  ca_ptpReady :: bool
  ca_epochChanged :: bool
  ca_sleepFailed :: bool
  ca_watchdogFails :: bool
  ca_reclaimed :: "(nat \<times> pkt_ref) list"

definition run_cycle ::
  "'a tx_env \<Rightarrow> cycle_answers \<Rightarrow> bool \<times> u64 \<times> nat \<times> 'a sequencer \<Rightarrow> (bool \<times> u64 \<times> nat \<times> 'a sequencer) option" where
  "run_cycle env ca st =
     (let (oldLink, windowStart, n, t) = st;
          linkState = fst (checkLinkStatus (ca_linkUp ca) (ca_ptpReady ca) oldLink t)
      in do {
        (n, t) \<leftarrow> updateSequence n t;
        if \<not> linkState then do {
          (_, t) \<leftarrow> reclaimPackets (ca_reclaimed ca) t;
          Some (linkState, windowStart, n, t)
        }
        else
          let t = (if oldLink \<noteq> linkState then t\<lparr>mThreadControl := mThreadControl t OR cFlagRestartThread\<rparr> else t) in
          if mThreadControl t \<noteq> 0 then Some (linkState, windowStart, n, t)
          else do {
            let t = (if mSequence t \<noteq> [] \<and> ca_watchdogFails ca
                     then t\<lparr>mThreadControl := mThreadControl t OR cFlagEndThread\<rparr> else t);
            (windowStart, n, t) \<leftarrow> run_window env windowStart n t;
            if ca_epochChanged ca
            then Some (linkState, windowStart, n, t\<lparr>mThreadControl := mThreadControl t OR cFlagRestartThread\<rparr>)
            else do {
              let t = (if ca_sleepFailed ca then t\<lparr>mThreadControl := mThreadControl t OR cFlagEndThread\<rparr> else t);
              (_, t) \<leftarrow> reclaimPackets (ca_reclaimed ca) t;
              Some (linkState, windowStart, n, logOutput t)
            }
          }
      })"

text \<open>The restart of the thread, and what it does when its inner loop is left.\<close>

definition run_begin :: "'a tx_env \<Rightarrow> u64 \<Rightarrow> 'a sequencer \<Rightarrow> (u64 \<times> nat \<times> 'a sequencer) option" where
  "run_begin env now t =
     Some (now, length (mSequence t),
           t\<lparr>mConfig := (mConfig t)\<lparr>txWindowWidth := txWindowWidthInit (mConfig t),
                                    txWindowPitch := txWindowPitchInit (mConfig t)\<rparr>,
             mDiag := (mDiag t)\<lparr>d_lastLaunchTime := 0\<rparr>\<rparr>)"

definition run_restart :: "'a tx_env \<Rightarrow> 'a sequencer \<Rightarrow> 'a sequencer option" where
  "run_restart env t =
     do {
       t \<leftarrow> toggle_all env (sorted_list_of_set (mActiveStreams t))
              (t\<lparr>mThreadControl := mThreadControl t AND NOT cFlagRestartThread\<rparr>);
       Some (t\<lparr>mResponseCount := mResponseCount t - 1, mDiag := (mDiag t)\<lparr>d_lastLaunchTime := 0\<rparr>\<rparr>)
     }"

definition held_packets :: "StreamData list \<Rightarrow> (nat \<times> pkt_ref) list" where
  "held_packets xs =
     concat (map (\<lambda>d. case sd_packet d of None \<Rightarrow> [] | Some r \<Rightarrow> [(sd_stream d, r)]) xs)"

definition run_leave :: "(nat \<times> pkt_ref) list \<Rightarrow> 'a sequencer \<Rightarrow> (nat \<times> 'a sequencer) option" where
  "run_leave reclaimed t =
     do {
       (_, t) \<leftarrow> reclaimPackets reclaimed t;
       t \<leftarrow> give_back_all (held_packets (mSequence t)) t;
       Some (0, t\<lparr>mSequence := []\<rparr>)
     }"

definition beforeRun :: "'a sequencer \<Rightarrow> 'a sequencer" where
  "beforeRun t = t\<lparr>mThreadControl := 0\<rparr>"

definition shutDown :: "'a sequencer \<Rightarrow> 'a sequencer" where
  "shutDown t = t\<lparr>mThreadControl := cFlagEndThread\<rparr>"

section \<open>The traffic shaper\<close>

definition idle_slope :: "'a tx_env \<Rightarrow> 'a sequencer \<Rightarrow> int option" where
  "idle_slope env t =
     (let share = double_of_u32 (mCurrentBandwidth t * mShaperBwRate t div 100) in
      if te_linkSpeed env = 100 \<or> te_linkSpeed env = 1000 then do {
        bandWidth \<leftarrow> ddiv (dmul share 1000) (if te_linkSpeed env = 100 then 100000000 else 1000000000);
        slope \<leftarrow> u32_of_double
          (dadd (dmul (dmul bandWidth (if te_linkSpeed env = 100 then fl (1 / 5) else 2))
                  (double_of_u32 TQAVCC_LINKRATE)) (1 / 2));
        Some (sint (slope :: s32))
      }
      else Some (- 1))"

definition hi_credit :: "'a tx_env \<Rightarrow> int \<Rightarrow> 'a sequencer \<Rightarrow> u32" where
  "hi_credit env idleSlope t =
     (let plain = TQAVCH_ZERO_CREDIT + of_int idleSlope * cTxMaxInterferenceSize div TQAVCC_LINKRATE in
      if mQueueIndex t = 0 then plain
      else
        let idleSlopeClassA = te_readReg env (TQAVHC 0) XOR TQAVCC_QUEUEMODE in
        if idleSlopeClassA = 0 \<or> (ucast idleSlopeClassA :: u16) = 0xFFFF then plain
        else if 0 <s TQAVCC_LINKRATE - idleSlopeClassA
        then TQAVCH_ZERO_CREDIT +
               of_int idleSlope * (cTxMaxInterferenceSize + (mMaxFrameSizeHigh t + 43))
                 div (TQAVCC_LINKRATE - idleSlopeClassA)
        else 0)"

text \<open>The credit and control registers; 0 when they are not to be written.\<close>

definition shaper_registers :: "'a tx_env \<Rightarrow> int \<Rightarrow> 'a sequencer \<Rightarrow> u32 \<times> u32" where
  "shaper_registers env idleSlope t =
     (if idleSlope = 0 then (TQAVCH_ZERO_CREDIT, TQAVCC_QUEUEMODE)
      else if 0 < idleSlope \<and> (of_int idleSlope :: u32) < TQAVCC_LINKRATE
      then (hi_credit env idleSlope t, TQAVCC_QUEUEMODE OR of_int idleSlope)
      else (0, 0))"

definition updateShaper :: "'a tx_env \<Rightarrow> 'a sequencer \<Rightarrow> 'a sequencer option" where
  "updateShaper env t =
     map_option
       (\<lambda>idleSlope.
          let (tqavhcReg, tqavccReg) = shaper_registers env idleSlope t
          in if tqavhcReg \<noteq> 0 \<and> tqavccReg \<noteq> 0
             then t\<lparr>igb := igb t @ [WriteReg (TQAVHC (mQueueIndex t)) tqavhcReg, WriteReg (TQAVCC (mQueueIndex t)) tqavccReg,
                                    WriteReg TQAVCTRL (te_readReg env TQAVCTRL OR TQAVCTRL_TX_ARB)]\<rparr>
             else t)
       (idle_slope env t)"

section \<open>Set-up and control\<close>

definition sequencer_cleanup :: "'a sequencer \<Rightarrow> 'a sequencer" where
  "sequencer_cleanup t =
     (let t = (if mTransmitThread t = Some True then shutDown t else t) in t\<lparr>mTransmitThread := None\<rparr>)"

definition read_config :: "registry option \<Rightarrow> string \<Rightarrow> tx_config \<Rightarrow> tx_config" where
  "read_config reg suffix c =
     (let get = (\<lambda>key old. snd (doGetConfigValue reg key old)) in
      c\<lparr>txWindowWidthInit := get cXmitWndWidth (txWindowWidthInit c),
        txWindowPitchInit := get cXmitWndPitch (txWindowPitchInit c),
        txWindowCueThreshold := get cXmitCueThresh (txWindowCueThreshold c),
        txWindowResetThreshold := get cXmitResetThresh (txWindowResetThreshold c),
        txWindowMaxResetCount := get cXmitResetMaxCount (txWindowMaxResetCount c),
        txWindowMaxDropCount := get cXmitDropMaxCount (txWindowMaxDropCount c),
        txWindowPrefetchThreshold := get cXmitPrefetchThresh (txWindowPrefetchThreshold c),
        txDelay := get cXmitDelay (txDelay c),
        txMaxBandwidth := get (cTxMaxBw @ suffix) (txMaxBandwidth c)\<rparr>)"

definition bad_window :: "tx_config \<Rightarrow> bool" where
  "bad_window c \<longleftrightarrow>
     txWindowWidthInit c < txWindowPitchInit c \<or> txWindowWidthInit c < cMinTxWindowWidth \<or>
     txWindowPitchInit c < cMinTxWindowPitch"

definition sequencer_init ::
  "'a tx_env \<Rightarrow> u32 \<Rightarrow> IasAvbSrClass \<Rightarrow> bool \<Rightarrow> 'a sequencer \<Rightarrow> IasAvbProcessingResult \<times> 'a sequencer" where
  "sequencer_init env queueIndex qavClass doReclaim t =
     (let reg = te_registry env; suffix = getClassSuffix qavClass;
          (result, t) =
            (if queueIndex > 1 then (eIasAvbProcInvalidParam, t)
             else if sequencer_isInitialized t then (eIasAvbProcInitializationFailed, t)
             else if \<not> te_newThread env then (eIasAvbProcNotEnoughMemory, t)
             else
               let c = read_config reg suffix (mConfig t);
                   rate = snd (doGetConfigValue reg (cDebugXmitShaperBwRate @ suffix) (ucast (mShaperBwRate t)))
               in (if bad_window c then eIasAvbProcInitializationFailed
                   else if snd (doGetConfigValue reg cUseWatchdog 0) \<noteq> 0 \<and> te_watchdogFails env
                   then eIasAvbProcInitializationFailed
                   else eIasAvbProcOK,
                   t\<lparr>mTransmitThread := Some False, mClass := qavClass, mQueueIndex := queueIndex,
                     mDoReclaim := doReclaim, mConfig := c,
                     mUseShaper := snd (doGetConfigValue reg cXmitUseShaper 0) \<noteq> 0,
                     mShaperBwRate := (if 100 < rate then mShaperBwRate t else ucast rate)\<rparr>));
          t = t\<lparr>mStrictPktOrderEn := snd (getConfigValue (\<lambda>v. v \<noteq> 0) reg cXmitStrictPktOrder (mStrictPktOrderEn t))\<rparr>
      in (result, if result \<noteq> eIasAvbProcOK then sequencer_cleanup t else t))"

definition registerEventInterface :: "nat option \<Rightarrow> 'a sequencer \<Rightarrow> IasAvbProcessingResult \<times> 'a sequencer" where
  "registerEventInterface eventInterface t =
     (if mTransmitThread t = None then (eIasAvbProcNotInitialized, t)
      else if eventInterface = None then (eIasAvbProcInvalidParam, t)
      else if mEventInterface t \<noteq> None then (eIasAvbProcAlreadyInUse, t)
      else (eIasAvbProcOK, t\<lparr>mEventInterface := eventInterface\<rparr>))"

definition unregisterEventInterface :: "nat option \<Rightarrow> 'a sequencer \<Rightarrow> IasAvbProcessingResult \<times> 'a sequencer" where
  "unregisterEventInterface eventInterface t =
     (if mTransmitThread t = None then (eIasAvbProcNotInitialized, t)
      else if eventInterface = None \<or> mEventInterface t \<noteq> eventInterface then (eIasAvbProcInvalidParam, t)
      else (eIasAvbProcOK, t\<lparr>mEventInterface := None\<rparr>))"

text \<open>A thread that is started twice counts as started. \<open>te_threadStart\<close> and \<open>te_threadStop\<close> tell whether the
  thread library succeeds.\<close>

definition sequencer_start :: "'a tx_env \<Rightarrow> 'a sequencer \<Rightarrow> IasAvbProcessingResult \<times> 'a sequencer" where
  "sequencer_start env t =
     (case mTransmitThread t of
        None \<Rightarrow> (eIasAvbProcNotInitialized, t)
      | Some running \<Rightarrow>
          (if running \<or> te_threadStart env then eIasAvbProcOK else eIasAvbProcThreadStartFailed,
           t\<lparr>mTransmitThread := Some (running \<or> te_threadStart env), mRequestCount := mRequestCount t + 1\<rparr>))"

definition sequencer_stop :: "'a tx_env \<Rightarrow> 'a sequencer \<Rightarrow> (IasAvbProcessingResult \<times> 'a sequencer) option" where
  "sequencer_stop env t =
     (case mTransmitThread t of
        None \<Rightarrow> Some (eIasAvbProcNotInitialized, t)
      | Some running \<Rightarrow>
          if running then do {
            t \<leftarrow> toggle_all env (sorted_list_of_set (mActiveStreams t))
                   (if te_threadStop env then (shutDown t)\<lparr>mTransmitThread := Some False\<rparr> else t);
            Some (if te_threadStop env then eIasAvbProcOK else eIasAvbProcThreadStopFailed, t)
          }
          else Some (eIasAvbProcOK, t))"

text \<open>The ring of the driver that a number of frames per interval needs.\<close>

definition required_ring :: "tspec_tables \<Rightarrow> u32 \<Rightarrow> 'a sequencer \<Rightarrow> u64" where
  "required_ring tables frames t =
     ucast (getPacketsPerSecondByClass tables (mClass t)) * ucast frames * txWindowWidth (mConfig t) div 1000000000
       * 2 * 130 div 100"

definition addStreamToTransmitList ::
  "'a tx_env \<Rightarrow> nat option \<Rightarrow> 'a sequencer \<Rightarrow> (IasAvbProcessingResult \<times> 'a sequencer) option" where
  "addStreamToTransmitList env stream t =
     (case stream of
        None \<Rightarrow> Some (eIasAvbProcInvalidParam, t)
      | Some i \<Rightarrow> do {
          tSpec \<leftarrow> mTSpec (streams t i);
          if IasAvbTSpec.mClass tSpec \<noteq> mClass t then Some (eIasAvbProcInvalidParam, t)
          else if \<not> sequencer_isInitialized t then Some (eIasAvbProcNotInitialized, t)
          else
            let newTotal = mCurrentBandwidth t + getRequiredBandwidth (te_tables env) tSpec;
                newFrames = mCurrentMaxIntervalFrames t + ucast (mMaxIntervalFrames tSpec)
            in if ucast newTotal > txMaxBandwidth (mConfig t) then Some (eIasAvbProcNoSpaceLeft, t)
               else if required_ring (te_tables env) newFrames t > ucast (te_ringSize env)
               then Some (eIasAvbProcNoSpaceLeft, t)
               else do {
                 let t = t\<lparr>mCurrentBandwidth := newTotal, mCurrentMaxIntervalFrames := newFrames\<rparr>;
                 t \<leftarrow> (if mUseShaper t
                       then updateShaper env
                              (if mClass t = eIasAvbSrClassHigh \<and> mMaxFrameSizeHigh t < ucast (mMaxFrameSize tSpec)
                               then t\<lparr>mMaxFrameSizeHigh := ucast (mMaxFrameSize tSpec)\<rparr> else t)
                       else Some t);
                 Some (eIasAvbProcOK,
                       t\<lparr>mActiveStreams := insert i (mActiveStreams t), mRequestCount := mRequestCount t + 1\<rparr>)
               }
        })"

text \<open>The largest frame of the active streams; NULL specifications are undefined.\<close>

primrec max_frame :: "nat list \<Rightarrow> 'a sequencer \<Rightarrow> u32 \<Rightarrow> u32 option" where
  "max_frame [] t m = Some m"
| "max_frame (i # is') t m =
     do {
       tSpec \<leftarrow> mTSpec (streams t i);
       max_frame is' t (if m < ucast (mMaxFrameSize tSpec) then ucast (mMaxFrameSize tSpec) else m)
     }"

text \<open>The request to remove a stream. \<open>worker\<close> is what the thread does while the caller waits for its response,
  for at most one second.\<close>

definition remove_request ::
  "('a sequencer \<Rightarrow> 'a sequencer option) \<Rightarrow> nat \<Rightarrow> 'a sequencer \<Rightarrow> (IasAvbProcessingResult \<times> 'a sequencer) option"
where
  "remove_request worker i t =
     do {
       let t = t\<lparr>mActiveStreams := mActiveStreams t - {i}, mRequestCount := mRequestCount t + 1\<rparr>;
       if mTransmitThread t = Some True then do {
         t \<leftarrow> worker t;
         Some (if mRequestCount t \<noteq> mResponseCount t
               then (eIasAvbProcErr,
                     t\<lparr>mActiveStreams := insert i (mActiveStreams t), mRequestCount := mRequestCount t + 1\<rparr>)
               else (eIasAvbProcOK, t))
       }
       else Some (eIasAvbProcOK, t)
     }"

definition removeStreamFromTransmitList ::
  "'a tx_env \<Rightarrow> ('a sequencer \<Rightarrow> 'a sequencer option) \<Rightarrow> nat option \<Rightarrow> 'a sequencer \<Rightarrow>
     (IasAvbProcessingResult \<times> 'a sequencer) option" where
  "removeStreamFromTransmitList env worker stream t =
     (case stream of
        None \<Rightarrow> Some (if sequencer_isInitialized t then eIasAvbProcInvalidParam else eIasAvbProcNotInitialized, t)
      | Some i \<Rightarrow> do {
          tSpec \<leftarrow> mTSpec (streams t i);
          if \<not> sequencer_isInitialized t then Some (eIasAvbProcNotInitialized, t)
          else if IasAvbTSpec.mClass tSpec \<noteq> mClass t then Some (eIasAvbProcInvalidParam, t)
          else do {
            (result, t) \<leftarrow> remove_request worker i t;
            if result \<noteq> eIasAvbProcOK then Some (result, t)
            else do {
              let t = t\<lparr>mCurrentBandwidth := mCurrentBandwidth t - getRequiredBandwidth (te_tables env) tSpec,
                        mCurrentMaxIntervalFrames := mCurrentMaxIntervalFrames t - ucast (mMaxIntervalFrames tSpec)\<rparr>;
              if mUseShaper t then do {
                m \<leftarrow> (if mClass t = eIasAvbSrClassHigh \<and> mMaxFrameSizeHigh t \<le> ucast (mMaxFrameSize tSpec)
                      then max_frame (sorted_list_of_set (mActiveStreams t)) t 0 else Some (mMaxFrameSizeHigh t));
                t \<leftarrow> updateShaper env (t\<lparr>mMaxFrameSizeHigh := m\<rparr>);
                Some (eIasAvbProcOK, t)
              }
              else Some (eIasAvbProcOK, t)
            }
          }
        })"

primrec reset_pools :: "nat list \<Rightarrow> 'a sequencer \<Rightarrow> 'a sequencer option" where
  "reset_pools [] t = Some t"
| "reset_pools (i # is') t = do { (_, t) \<leftarrow> on_stream resetPacketPool i t; reset_pools is' t }"

definition resetPoolsOfActiveStreams :: "'a sequencer \<Rightarrow> 'a sequencer option" where
  "resetPoolsOfActiveStreams t = reset_pools (sorted_list_of_set (mActiveStreams t)) t"

end
