(* ===== verification/Sequencer_Order.thy ===== *)
theory Sequencer_Order
  imports Transmit_Sequencer
begin

text \<open>
  The order of the transmit sequence: \<open>sortByLaunchTime\<close> on the list with its iterator is an insertion
  into the round that begins at the iterator.
\<close>

section \<open>Rounds\<close>

lemma next_it_mod: "n < length xs \<Longrightarrow> next_it xs n = Suc n mod length xs"
  by (auto simp: next_it_def)

lemma prev_it_mod:
  assumes "1 \<le> p" "p \<le> length xs" "n < length xs"
  shows "prev_it xs ((n + p) mod length xs) = (n + (p - 1)) mod length xs"
proof -
  obtain q where q: "p = Suc q" using assms(1) by (cases p) auto
  have L: "0 < length xs" using assms by linarith
  show ?thesis
  proof (cases "Suc ((n + q) mod length xs) = length xs")
    case True
    then have "(n + q) mod length xs = length xs - 1" by simp
    with L True q show ?thesis by (simp add: prev_it_def mod_Suc)
  next
    case False
    with L q show ?thesis by (simp add: prev_it_def mod_Suc)
  qed
qed

text \<open>A stream that is sent before the one at hand.\<close>

definition earlier :: "StreamData \<Rightarrow> StreamData \<Rightarrow> bool" where
  "earlier d c \<longleftrightarrow> sd_launchTime d \<noteq> 0 \<and> sd_launchTime d < sd_launchTime c"

lemma rotate_split: "n < length xs \<Longrightarrow> rotate n xs = xs ! n # drop (Suc n) xs @ take n xs"
  by (simp add: rotate_drop_take Cons_nth_drop_Suc)

lemma rest_nth:
  assumes "rotate n xs = c # rest" "n < length xs" "i < length rest"
  shows "rest ! i = xs ! ((n + Suc i) mod length xs)"
proof -
  have "length xs = Suc (length rest)" using arg_cong [OF assms(1), of length] by simp
  then have "rotate n xs ! Suc i = xs ! ((n + Suc i) mod length xs)" using assms(3) by (intro nth_rotate) simp
  with assms(1) show ?thesis by simp
qed

lemma search_back_eq:
  assumes rot: "rotate n xs = c # rest" and n: "n < length xs"
  shows "1 \<le> p \<Longrightarrow> p \<le> length xs \<Longrightarrow> p \<le> k \<Longrightarrow>
    search_back k xs n ((n + p) mod length xs)
      = (n + length (dropWhile (\<lambda>d. \<not> earlier d c) (rev (take (p - 1) rest)))) mod length xs"
proof (induction p arbitrary: k)
  case 0
  then show ?case by simp
next
  case (Suc p)
  have len: "length xs = Suc (length rest)" using arg_cong [OF rot, of length] by simp
  have c: "xs ! n = c" using rot rotate_split [OF n] by simp
  obtain k' where k: "k = Suc k'" "p \<le> k'" using Suc.prems(3) by (cases k) auto
  have prev: "prev_it xs ((n + Suc p) mod length xs) = (n + p) mod length xs"
    using prev_it_mod [of "Suc p" xs n] Suc.prems n by simp
  show ?case
  proof (cases p)
    case 0
    with prev n k c show ?thesis by (simp add: Let_def)
  next
    case (Suc q)
    then have q: "q < length rest" using Suc.prems(2) len by simp
    have d: "xs ! ((n + p) mod length xs) = rest ! q"
      using rest_nth [OF rot n q] Suc by simp
    have neq: "(n + p) mod length xs \<noteq> n"
    proof
      assume "(n + p) mod length xs = n"
      then have "(n + p) mod length xs = (n + 0) mod length xs" using n by simp
      then have "p = 0" by (rule mod_add_inj) (use Suc q len in simp_all)
      with Suc show False by simp
    qed
    have take: "rev (take p rest) = rest ! q # rev (take q rest)"
      using Suc q by (simp add: take_Suc_conv_app_nth)
    have IH: "search_back k' xs n ((n + p) mod length xs)
        = (n + length (dropWhile (\<lambda>d. \<not> earlier d c) (rev (take q rest)))) mod length xs"
      using Suc.IH [of k'] k Suc q len by simp
    show ?thesis
      using k prev neq c d IH take Suc q by (simp add: Let_def earlier_def)
  qed
qed

lemma move_forward:
  "move_before (as @ c # us @ vs) (length as) (length as + Suc (length us)) = (length as, as @ us @ c # vs)"
  if "us \<noteq> []"
  using that by (simp add: move_before_def Let_def)

lemma move_backward:
  "move_before (as @ bs @ c # cs) (length as + length bs) (length as)
     = (if cs = [] then 0 else Suc (length as + length bs), as @ c # bs @ cs)"
  by (simp add: move_before_def Let_def)

text \<open>The round from the iterator on after the element at hand was moved.\<close>

lemma move_round:
  assumes rot: "rotate n xs = c # us @ vs" and n: "n < length xs" and ne: "us \<noteq> []" "vs \<noteq> []"
    and move: "move_before xs n ((n + Suc (length us)) mod length xs) = (n', ys)"
  shows "rotate n' ys = us @ c # vs" and "n' < length ys" and "mset ys = mset xs"
proof -
  define as where "as = take n xs"
  define bs where "bs = drop (Suc n) xs"
  have xs: "xs = as @ c # bs" and la: "length as = n"
    using n rot rotate_split [OF n] id_take_nth_drop [OF n] by (auto simp: as_def bs_def)
  have round: "bs @ as = us @ vs"
    using rot rotate_split [OF n] by (simp add: as_def bs_def)
  from round consider
      ws where "bs = us @ ws" "vs = ws @ as"
    | ws where "us = bs @ ws" "as = ws @ vs"
    by (auto simp: append_eq_append_conv2)
  then have "rotate n' ys = us @ c # vs \<and> n' < length ys \<and> mset ys = mset xs"
  proof cases
    case 1
    show ?thesis
    proof (cases "ws = []")
      case True
      then have "(n + Suc (length us)) mod length xs = 0" using xs la 1 by simp
      with move xs la 1 True ne have "(n', ys) = (Suc n, c # as @ us)"
        using move_backward [of "[]" as c us] by (simp split: if_splits)
      then have "n' = length (c # as)" "ys = (c # as) @ us" using la by simp_all
      then have "rotate n' ys = us @ c # as" "n' < length ys" "mset ys = mset xs"
        using ne xs 1 True by (simp_all only: rotate_append) (auto simp: xs)
      with 1 True show ?thesis by simp
    next
      case False
      then have "(n + Suc (length us)) mod length xs = length as + Suc (length us)" using xs la 1 by simp
      with move xs la 1 ne have "n' = length as" "ys = as @ us @ c # ws"
        using move_forward [of us as c ws] by simp_all
      with 1 la show ?thesis by (auto simp: rotate_append xs)
    qed
  next
    case 2
    have "n + Suc (length us) = length ws + length xs" and "length ws < length xs"
      using xs la 2 by simp_all
    then have "(n + Suc (length us)) mod length xs = length ws" by simp
    with move xs la 2 have m: "(n', ys) = (if bs = [] then 0 else Suc n, ws @ c # vs @ bs)"
      using move_backward [of ws vs c bs] by (auto simp: add.commute)
    then show ?thesis
      using 2 la xs rotate_append [of "ws @ c # vs" bs] by (auto split: if_splits)
  qed
  then show "rotate n' ys = us @ c # vs" "n' < length ys" "mset ys = mset xs" by blast+
qed


section \<open>The sort step\<close>

text \<open>The reference definition: an element moves in front of the longest tail of the others in which none is
  sent earlier. When that are all the others, it stays first.\<close>

definition later_tail :: "StreamData \<Rightarrow> StreamData list \<Rightarrow> StreamData list" where
  "later_tail c ds = rev (takeWhile (\<lambda>d. \<not> earlier d c) (rev ds))"

definition earlier_part :: "StreamData \<Rightarrow> StreamData list \<Rightarrow> StreamData list" where
  "earlier_part c ds = rev (dropWhile (\<lambda>d. \<not> earlier d c) (rev ds))"

definition reinsert :: "StreamData \<Rightarrow> StreamData list \<Rightarrow> StreamData list" where
  "reinsert c ds = earlier_part c ds @ c # later_tail c ds"

lemma parts: "earlier_part c ds @ later_tail c ds = ds"
proof -
  have "rev (earlier_part c ds @ later_tail c ds) = rev ds" by (simp add: earlier_part_def later_tail_def)
  then show ?thesis by (simp only: rev_is_rev_conv)
qed

lemma sort_round:
  assumes n: "n < length (mSequence t)" and rot: "rotate n (mSequence t) = c # ds"
    and sort: "sortByLaunchTime n t = (freed, n', t')"
  shows "rotate n' (mSequence t') = reinsert c ds" and "n' < length (mSequence t')"
    and "mset (mSequence t') = mset (mSequence t)"
    and "\<exists>dg. t' = t\<lparr>mSequence := mSequence t', mDiag := dg\<rparr>"
proof -
  let ?xs = "mSequence t"
  define us where "us = earlier_part c ds"
  define vs where "vs = later_tail c ds"
  have ds: "ds = us @ vs" using parts [of c ds] by (simp add: us_def vs_def)
  have re: "reinsert c ds = us @ c # vs" by (simp add: reinsert_def us_def vs_def)
  have len: "length ?xs = Suc (length ds)" using arg_cong [OF rot, of length] by simp
  have rot': "rotate n ?xs = c # us @ vs" using rot ds by simp
  have start: "(n + length ?xs) mod length ?xs = n" using n by simp
  have "search_back (length ?xs) ?xs n ((n + length ?xs) mod length ?xs)
      = (n + length (dropWhile (\<lambda>d. \<not> earlier d c) (rev (take (length ?xs - 1) ds)))) mod length ?xs"
    by (rule search_back_eq [OF rot n]) (use len in simp_all)
  then have hb: "search_back (length ?xs) ?xs n n = (n + length us) mod length ?xs"
    unfolding start using len by (simp add: us_def earlier_part_def del: search_back.simps)
  have lt: "(n + length us) mod length ?xs < length ?xs" using len by simp
  have stay: "(n + length us) mod length ?xs = n \<longleftrightarrow> us = []"
  proof
    assume "(n + length us) mod length ?xs = n"
    then have "(n + length us) mod length ?xs = (n + 0) mod length ?xs" using n by simp
    then have "length us = 0" by (rule mod_add_inj) (use len ds in simp_all)
    then show "us = []" by simp
  qed (use n in simp)
  have nxt: "next_it ?xs ((n + length us) mod length ?xs) = (n + Suc (length us)) mod length ?xs"
    using lt by (simp add: next_it_mod mod_Suc_eq)
  have around: "(n + Suc (length us)) mod length ?xs = n \<longleftrightarrow> vs = []" if "us \<noteq> []"
  proof
    assume "(n + Suc (length us)) mod length ?xs = n"
    then have "(n + Suc (length us)) mod length ?xs = (n + 0) mod length ?xs" using n by simp
    then have "\<not> Suc (length us) < length ?xs" using mod_add_inj [of n "Suc (length us)" "length ?xs" 0] len by auto
    then show "vs = []" using len ds by simp
  next
    assume "vs = []"
    then have "Suc (length us) = length ?xs" using len ds by simp
    then show "(n + Suc (length us)) mod length ?xs = n" using start by simp
  qed
  have *: "rotate n' (mSequence t') = reinsert c ds \<and> n' < length (mSequence t') \<and>
      mset (mSequence t') = mset ?xs \<and> (\<exists>dg. t' = t\<lparr>mSequence := mSequence t', mDiag := dg\<rparr>)"
  proof (cases "us = []")
    case True
    with sort hb stay n have "n' = n" "t' = t" by (simp_all add: sortByLaunchTime_def Let_def)
    with rot' n True show ?thesis by (auto simp: re intro: exI [of _ "mDiag t"])
  next
    case us: False
    show ?thesis
    proof (cases "vs = []")
      case True
      with sort hb stay us nxt around have "n' = next_it ?xs n" "t' = t"
        by (auto simp: sortByLaunchTime_def Let_def)
      moreover have "rotate (next_it ?xs n) ?xs = us @ [c]"
      proof -
        have "rotate (Suc n) ?xs = us @ [c]" using rot' True by (simp add: rotate_def rotate1_def)
        then show ?thesis using n by (simp add: next_it_mod rotate_conv_mod [symmetric])
      qed
      moreover have "next_it ?xs n < length ?xs" using n by (auto simp: next_it_def)
      ultimately show ?thesis
        using True by (auto simp: re intro: exI [of _ "mDiag t"])
    next
      case vs: False
      obtain m ys where my: "move_before ?xs n ((n + Suc (length us)) mod length ?xs) = (m, ys)" by fastforce
      from sort hb stay us nxt around vs my have "n' = m" "mSequence t' = ys"
        "\<exists>dg. t' = t\<lparr>mSequence := mSequence t', mDiag := dg\<rparr>"
        by (auto simp: sortByLaunchTime_def Let_def)
      with move_round [OF rot' n us vs my] show ?thesis
        by (simp add: re)
    qed
  qed
  then show "rotate n' (mSequence t') = reinsert c ds" "n' < length (mSequence t')"
    "mset (mSequence t') = mset (mSequence t)" "\<exists>dg. t' = t\<lparr>mSequence := mSequence t', mDiag := dg\<rparr>" by blast+
qed


lemma reinsert_sorted:
  assumes sorted: "sorted (map sd_launchTime ds)" and timed: "\<forall>d \<in> set ds. sd_launchTime d \<noteq> 0"
  shows "sorted (map sd_launchTime (reinsert c ds))"
proof -
  let ?P = "\<lambda>d. \<not> earlier d c"
  have tail: "sd_launchTime c \<le> sd_launchTime d" if "d \<in> set (later_tail c ds)" for d
  proof -
    from that have d: "d \<in> set (takeWhile ?P (rev ds))" by (simp add: later_tail_def)
    then have "d \<in> set ds" using set_takeWhileD by fastforce
    with timed set_takeWhileD [OF d] show ?thesis by (auto simp: earlier_def)
  qed
  have front: "sd_launchTime d \<le> sd_launchTime c" if "d \<in> set (earlier_part c ds)" for d
  proof -
    from that obtain e es where e: "dropWhile ?P (rev ds) = e # es"
      by (cases "dropWhile ?P (rev ds)") (auto simp: earlier_part_def)
    then have "earlier e c" using hd_dropWhile [of ?P "rev ds"] by simp
    moreover have "sorted (map sd_launchTime (earlier_part c ds))"
      using sorted parts [of c ds] by (metis map_append sorted_append)
    then have "sorted (map sd_launchTime (rev es @ [e]))" using e by (simp add: earlier_part_def)
    then have "sd_launchTime d \<le> sd_launchTime e"
      using that e by (auto simp: earlier_part_def sorted_append)
    ultimately show ?thesis by (auto simp: earlier_def)
  qed
  have "sorted (map sd_launchTime (earlier_part c ds @ later_tail c ds))" using sorted by (simp only: parts)
  with tail front show ?thesis by (auto simp: reinsert_def sorted_append)
qed

text \<open>C20. \<open>sortByLaunchTime\<close>, which works backwards through the list with wrap-around, inserts a copy and erases
  the original, is one insertion step: seen as a round that begins at the iterator, the stream at the
  iterator moves in front of the longest tail of streams not sent earlier. No stream is lost or
  duplicated, the iterator stays inside the list, and a round whose other streams are in the order of
  their launch times is in that order afterwards, with the stream to be sent first at the iterator.\<close>

theorem sort_is_insertion:
  assumes "n < length (mSequence t)" "sortByLaunchTime n t = (freed, n', t')"
    and "others = tl (rotate n (mSequence t))"
  shows "rotate n' (mSequence t') = reinsert (mSequence t ! n) others \<and> n' < length (mSequence t') \<and>
    mset (mSequence t') = mset (mSequence t) \<and>
    (sorted (map sd_launchTime others) \<and> (\<forall>d \<in> set others. sd_launchTime d \<noteq> 0) \<longrightarrow>
       sorted (map sd_launchTime (rotate n' (mSequence t'))))"
  using sort_round [OF assms(1) _ assms(2), of "mSequence t ! n" others] rotate_split [OF assms(1)] assms(3)
  by (auto intro: reinsert_sorted)

definition example_data :: "nat \<Rightarrow> u64 \<Rightarrow> StreamData" where
  "example_data i time = \<lparr>sd_stream = i, sd_packet = None, sd_launchTime = time, sd_done = eNotDone\<rparr>"

definition example_order :: "unit sequencer" where
  "example_order = (sequencer_new (\<lambda>_. stream_new eIasAvbAudioStream))
     \<lparr>mSequence := [example_data 1 300, example_data 2 250, example_data 3 200]\<rparr>"

lemma example_order_others:
  "mSequence example_order ! 1 = example_data 2 250"
  "tl (rotate 1 (mSequence example_order)) = [example_data 3 200, example_data 1 300]"
  by (simp_all add: example_order_def)

theorem sort_is_insertion_witness:
  "\<exists>n' t'. sortByLaunchTime 1 example_order = (True, n', t') \<and>
     rotate n' (mSequence t') = [example_data 3 200, example_data 2 250, example_data 1 300]"
proof -
  obtain freed n' t' where s: "sortByLaunchTime 1 example_order = (freed, n', t')"
    by (metis prod_cases3)
  have len: "1 < length (mSequence example_order)" by (simp add: example_order_def)
  have "fst (sortByLaunchTime 1 example_order)" by code_simp
  moreover have "rotate n' (mSequence t') = reinsert (mSequence example_order ! 1)
      [example_data 3 200, example_data 1 300]"
    using sort_is_insertion [OF len s example_order_others(2) [symmetric]] by blast
  moreover have "reinsert (example_data 2 250) [example_data 3 200, example_data 1 300]
      = [example_data 3 200, example_data 2 250, example_data 1 300]" by code_simp
  ultimately show ?thesis using s by (simp only: example_order_others) simp
qed

end
