(* ===== verification/Sequencer_Window.thy ===== *)
theory Sequencer_Window
  imports Sequencer_Order
begin

text \<open>
  The transmit window: which packets \<open>run_window\<close> hands to the driver, that the loop that fetches the
  next packet of a stream ends, and what becomes of a packet that the driver refuses.
\<close>

section \<open>Frames\<close>

text \<open>Only the stream \<open>i\<close> and the counters have changed.\<close>

definition only_stream :: "nat \<Rightarrow> 'a sequencer \<Rightarrow> 'a sequencer \<Rightarrow> bool" where
  "only_stream i t t' \<longleftrightarrow>
     (\<forall>j. j \<noteq> i \<longrightarrow> streams t' j = streams t j) \<and> mSequence t' = mSequence t \<and> mConfig t' = mConfig t \<and>
     mStrictPktOrderEn t' = mStrictPktOrderEn t \<and> mActiveStreams t' = mActiveStreams t \<and>
     mRequestCount t' = mRequestCount t \<and> mResponseCount t' = mResponseCount t"

lemma only_stream_refl [simp]: "only_stream i t t"
  by (simp add: only_stream_def)

lemma only_stream_trans: "only_stream i t t' \<Longrightarrow> only_stream i t' t'' \<Longrightarrow> only_stream i t t''"
  by (simp add: only_stream_def)

lemma only_stream_updates [simp]:
  "only_stream i t (t'\<lparr>mDiag := dg\<rparr>) \<longleftrightarrow> only_stream i t t'"
  "only_stream i t (t'\<lparr>igb := g\<rparr>) \<longleftrightarrow> only_stream i t t'"
  "only_stream i t (t'\<lparr>mThreadControl := c\<rparr>) \<longleftrightarrow> only_stream i t t'"
  by (simp_all add: only_stream_def)

lemma on_stream_Some:
  "on_stream f i t = Some (r, t') \<longleftrightarrow> (\<exists>s. f (streams t i) = Some (r, s) \<and> t' = t\<lparr>streams := (streams t)(i := s)\<rparr>)"
  by (auto simp: on_stream_def)

lemma only_stream_update: "only_stream i t (t\<lparr>streams := (streams t)(i := s)\<rparr>)"
  by (simp add: only_stream_def)

text \<open>The calls on one stream: what they leave alone.\<close>

lemma on_stream_frame:
  assumes "on_stream f i t = Some (r, t')"
  shows "only_stream i t t'" "igb t' = igb t" "mDiag t' = mDiag t" "mThreadControl t' = mThreadControl t"
  using assms by (auto simp: on_stream_Some only_stream_update)

lemma give_back_Some:
  "give_back i r t = Some t' \<longleftrightarrow>
     (\<exists>pool ret pool'. mPacketPool (streams t i) = Some pool \<and> returnPacket (Some r) pool = Some (ret, pool') \<and>
        t' = t\<lparr>streams := (streams t)(i := (streams t i)\<lparr>mPacketPool := Some pool'\<rparr>)\<rparr>)"
  by (auto simp: give_back_def on_stream_def bind_eq_Some_conv)

lemma give_back_frame:
  assumes "give_back i r t = Some t'"
  shows "only_stream i t t'" "igb t' = igb t" "mDiag t' = mDiag t" "mThreadControl t' = mThreadControl t"
  using assms by (auto simp: give_back_Some only_stream_update)

lemma toggle_frame:
  assumes "toggle env e i t = Some t'"
  shows "only_stream i t t'" "igb t' = igb t" "mDiag t' = mDiag t" "mThreadControl t' = mThreadControl t"
  using assms by (auto simp: toggle_def dest: on_stream_frame)

lemma set_attime_Some:
  "set_attime i r time t = Some t' \<longleftrightarrow>
     (\<exists>pool pool'. mPacketPool (streams t i) = Some pool \<and>
        update_packet (\<lambda>pk. pk\<lparr>attime := time\<rparr>) r pool = Some pool' \<and>
        t' = t\<lparr>streams := (streams t)(i := (streams t i)\<lparr>mPacketPool := Some pool'\<rparr>)\<rparr>)"
  by (auto simp: set_attime_def on_stream_def bind_eq_Some_conv)

lemma set_attime_frame:
  assumes "set_attime i r time t = Some t'"
  shows "only_stream i t t'" "igb t' = igb t" "mDiag t' = mDiag t" "mThreadControl t' = mThreadControl t"
  using assms by (auto simp: set_attime_Some only_stream_update)

lemma packet_of_updates [simp]:
  "packet_of i r (t\<lparr>mDiag := dg\<rparr>) = packet_of i r t"
  "packet_of i r (t\<lparr>igb := g\<rparr>) = packet_of i r t"
  "packet_of i r (t\<lparr>mThreadControl := c\<rparr>) = packet_of i r t"
  "packet_of i r (t\<lparr>mSequence := xs\<rparr>) = packet_of i r t"
  by (simp_all add: packet_of_def)

text \<open>Packets of a pool after updates of that pool.\<close>

lemma deref_update:
  "update_packet f r pool = Some pool' \<Longrightarrow>
     \<exists>pk. deref pool r = Some pk \<and> deref pool' r = Some (f pk)"
  by (cases "mBase pool")
    (auto simp: update_packet_def deref_def fetch_def split: if_splits)

lemma deref_return:
  assumes "returnPacket (Some r) pool = Some (ret, pool')" "deref pool r = Some pk"
  shows "\<exists>pk'. deref pool' r = Some pk' \<and> attime pk' = attime pk"
proof (cases "\<not> isValid pk \<or> mBase pool = None")
  case True
  moreover have "mBase pool \<noteq> None" using assms(2) by (auto simp: deref_def split: option.splits)
  ultimately show ?thesis using assms by (auto simp: returnPacket_def)
next
  case False
  then obtain p' where p': "update_packet (\<lambda>pk. pk\<lparr>mDummyFlag := False\<rparr>) r pool = Some p'"
    and pool': "pool' = (if length (mFreeBufferStack p') \<le> mPoolSize p'
                         then p'\<lparr>mFreeBufferStack := mFreeBufferStack p' @ [r]\<rparr> else p')"
    using assms by (auto simp: returnPacket_def doReturnPacket_def)
  have "deref pool' r = deref p' r" by (simp add: pool' deref_def split: option.split)
  with deref_update [OF p'] assms(2) show ?thesis by auto
qed

section \<open>The fetch loop ends\<close>

lemma reset_late_Some:
  assumes "reset_late env r c d t = Some ((again, e), c', d', t')"
  shows "only_stream (sd_stream d) t t'" "igb t' = igb t" "mDiag t' = mDiag t"
    "c' = c + 1" "again \<Longrightarrow> c' \<le> txWindowMaxResetCount (mConfig t)" "sd_packet d' = None" "sd_stream d' = sd_stream d"
    "e = Stay"
proof -
  from assms obtain t1 t2 where 1: "give_back (sd_stream d) r t = Some t1" and 2: "toggle env False (sd_stream d) t1 = Some t2"
    and 3: "((again, e), c', d', t') =
      (if c + 1 \<le> txWindowMaxResetCount (mConfig t2)
       then ((True, Stay), c + 1, d\<lparr>sd_packet := None\<rparr>, t2)
       else ((False, Stay), c + 1, d\<lparr>sd_packet := None, sd_done := eDry\<rparr>, t2))"
    by (auto simp: reset_late_def bind_eq_Some_conv Let_def)
  note f = give_back_frame [OF 1] toggle_frame [OF 2]
  show "only_stream (sd_stream d) t t'" "igb t' = igb t" "mDiag t' = mDiag t"
    "c' = c + 1" "sd_packet d' = None" "sd_stream d' = sd_stream d" "e = Stay"
    using 3 f by (auto split: if_splits intro: only_stream_trans)
  show "c' \<le> txWindowMaxResetCount (mConfig t)" if again
    using 3 f that by (auto simp: only_stream_def split: if_splits)
qed

lemma drop_late_Some:
  assumes "drop_late env r old c d t = Some ((again, e), c', d', t')"
  shows "only_stream (sd_stream d) t t'" "igb t' = igb t" "d_dropped (mDiag t') = d_dropped (mDiag t) + 1"
    "c' = c" "again \<Longrightarrow> ucast (d_dropped (mDiag t') - old) < txWindowMaxDropCount (mConfig t)" "sd_packet d' = None"
    "sd_stream d' = sd_stream d" "e = Stay"
proof -
  from assms obtain t1 where 1: "give_back (sd_stream d) r t = Some t1" by (auto simp: drop_late_def bind_eq_Some_conv)
  define t2 where "t2 = t1\<lparr>mDiag := (mDiag t1)\<lparr>d_dropped := d_dropped (mDiag t1) + 1\<rparr>\<rparr>"
  note f = give_back_frame [OF 1]
  have t2: "only_stream (sd_stream d) t t2" "igb t2 = igb t" "d_dropped (mDiag t2) = d_dropped (mDiag t) + 1"
    using f by (simp_all add: t2_def)
  have eq: "(if txWindowMaxDropCount (mConfig t2) \<le> ucast (d_dropped (mDiag t2) - old)
      then Option.bind (toggle env True (sd_stream d) t2)
             (\<lambda>t. Some ((False, Stay), c, d\<lparr>sd_packet := None, sd_done := eDry\<rparr>, t))
      else Some ((True, Stay), c, d\<lparr>sd_packet := None\<rparr>, t2)) = Some ((again, e), c', d', t')"
    using assms 1 by (auto simp: drop_late_def t2_def Let_def split: if_splits)
  have cfg: "mConfig t2 = mConfig t" using t2(1) by (simp add: only_stream_def)
  have "only_stream (sd_stream d) t t' \<and> igb t' = igb t \<and> d_dropped (mDiag t') = d_dropped (mDiag t) + 1 \<and>
      c' = c \<and> sd_packet d' = None \<and> sd_stream d' = sd_stream d \<and> e = Stay \<and>
      (again \<longrightarrow> ucast (d_dropped (mDiag t') - old) < txWindowMaxDropCount (mConfig t))"
  proof (cases "txWindowMaxDropCount (mConfig t2) \<le> ucast (d_dropped (mDiag t2) - old)")
    case True
    with eq obtain t3 where t3: "toggle env True (sd_stream d) t2 = Some t3"
      "((False, Stay), c, d\<lparr>sd_packet := None, sd_done := eDry\<rparr>, t3) = ((again, e), c', d', t')"
      by (auto simp: bind_eq_Some_conv)
    from t3(2) toggle_frame [OF t3(1)] t2 show ?thesis by (auto intro: only_stream_trans)
  next
    case False
    with eq t2 cfg show ?thesis by auto
  qed
  then show "only_stream (sd_stream d) t t'" "igb t' = igb t" "d_dropped (mDiag t') = d_dropped (mDiag t) + 1"
    "c' = c" "again \<Longrightarrow> ucast (d_dropped (mDiag t') - old) < txWindowMaxDropCount (mConfig t)" "sd_packet d' = None"
    "sd_stream d' = sd_stream d" "e = Stay" by blast+
qed

lemma fetch_step_again:
  assumes "fetch_step env ws old c d t = Some ((True, e), c', d', t')"
  shows "mConfig t' = mConfig t \<and>
    (c' = c + 1 \<and> c' \<le> txWindowMaxResetCount (mConfig t) \<and> d_dropped (mDiag t') = d_dropped (mDiag t) \<or>
     c' = c \<and> d_dropped (mDiag t') = d_dropped (mDiag t) + 1 \<and>
       ucast (d_dropped (mDiag t') - old) < txWindowMaxDropCount (mConfig t))"
proof -
  from assms obtain t1 r pk where 1: "on_stream (preparePacket (te_vtable env (sd_stream d))
      (ws + txWindowPitch (mConfig t))) (sd_stream d) t = Some (Some r, t1)"
    and 2: "packet_of (sd_stream d) r t1 = Some pk"
    and 3: "reset_late env r c (d\<lparr>sd_packet := Some r, sd_launchTime := attime pk\<rparr>) t1 = Some ((True, e), c', d', t') \<or>
            drop_late env r old c (d\<lparr>sd_packet := Some r, sd_launchTime := attime pk\<rparr>) t1 = Some ((True, e), c', d', t')"
    by (auto simp: fetch_step_def bind_eq_Some_conv Let_def split: option.splits if_splits)
  note f = on_stream_frame [OF 1]
  from 3 show ?thesis
  proof
    assume *: "reset_late env r c (d\<lparr>sd_packet := Some r, sd_launchTime := attime pk\<rparr>) t1 = Some ((True, e), c', d', t')"
    show ?thesis using reset_late_Some [OF *] f by (auto simp: only_stream_def)
  next
    assume *: "drop_late env r old c (d\<lparr>sd_packet := Some r, sd_launchTime := attime pk\<rparr>) t1 = Some ((True, e), c', d', t')"
    show ?thesis using drop_late_Some [OF *] f by (auto simp: only_stream_def)
  qed
qed

text \<open>The state after \<open>k\<close> rounds, all of which ask for another one.\<close>

primrec fetch_again ::
  "nat \<Rightarrow> 'a tx_env \<Rightarrow> u64 \<Rightarrow> u32 \<Rightarrow> u64 \<times> StreamData \<times> 'a sequencer \<Rightarrow> (u64 \<times> StreamData \<times> 'a sequencer) option"
where
  "fetch_again 0 env ws old x = Some x"
| "fetch_again (Suc k) env ws old x =
     (case fetch_step env ws old (fst x) (fst (snd x)) (snd (snd x)) of
        Some ((True, e), y) \<Rightarrow> fetch_again k env ws old y
      | _ \<Rightarrow> None)"

lemma fetch_again_bound:
  assumes "fetch_again k env ws old (c, d, t) = Some y"
    and R: "unat (txWindowMaxResetCount (mConfig t)) = R" "R < 2 ^ 64 - 1"
    and D: "unat (txWindowMaxDropCount (mConfig t)) = D" "D < 2 ^ 32"
    and "unat c \<le> R" "unat (d_dropped (mDiag t) - old) \<le> D - 1"
  shows "unat c + unat (d_dropped (mDiag t) - old) + k \<le> R + D"
  using assms
proof (induction k arbitrary: c d t)
  case 0
  then show ?case by simp
next
  case (Suc k)
  from Suc.prems(1) obtain e c' d' t' where step: "fetch_step env ws old c d t = Some ((True, e), c', d', t')"
    and rest: "fetch_again k env ws old (c', d', t') = Some y"
    by (auto split: option.splits prod.splits bool.splits)
  from fetch_step_again [OF step] have cfg: "mConfig t' = mConfig t" by simp
  from fetch_step_again [OF step] consider
      (reset) "c' = c + 1" "c' \<le> txWindowMaxResetCount (mConfig t)" "d_dropped (mDiag t') = d_dropped (mDiag t)"
    | (drop) "c' = c" "d_dropped (mDiag t') = d_dropped (mDiag t) + 1"
        "ucast (d_dropped (mDiag t') - old) < txWindowMaxDropCount (mConfig t)"
    by blast
  then show ?case
  proof cases
    case reset
    have c: "unat c' = Suc (unat c)" using reset(1) Suc.prems(3,6) by (simp add: unat_add_small)
    have "unat c' \<le> R" using reset(2) Suc.prems(2) by (simp add: word_le_nat_alt)
    then show ?thesis
      using Suc.IH [OF rest] c reset cfg Suc.prems by simp
  next
    case drop
    let ?x = "d_dropped (mDiag t) - old"
    have eq: "d_dropped (mDiag t') - old = ?x + 1" using drop(2) by simp
    have "unat (ucast (?x + 1) :: u64) < D"
      using drop(3) Suc.prems(4) eq by (simp add: word_less_nat_alt)
    then have lt: "unat (?x + 1) < D" by (simp add: unat_ucast_up)
    have le: "unat ?x \<le> D - 1" by fact
    have x: "unat (?x + 1) = Suc (unat ?x)"
    proof (rule ccontr)
      assume ne: "unat (?x + 1) \<noteq> Suc (unat ?x)"
      have "unat ?x + unat (1 :: u32) < 2 ^ LENGTH(32)" using le lt Suc.prems(5) by simp
      from unat_add_small [OF this] ne show False by simp
    qed
    from Suc.IH [OF rest] drop(1) cfg Suc.prems lt eq
    have "unat c + unat (?x + 1) + k \<le> R + D" by simp
    with x drop(1) show ?thesis by simp
  qed
qed

lemma fetch_loop_again:
  "fetch_again k env ws old (c, d, t) = None \<Longrightarrow>
     (\<exists>r. fetch_loop env ws old c d t = Some r) \<or>
     (\<exists>j < k. \<exists>c' d' t'. fetch_again j env ws old (c, d, t) = Some (c', d', t') \<and> fetch_step env ws old c' d' t' = None)"
proof (induction k arbitrary: c d t)
  case 0
  then show ?case by simp
next
  case (Suc k)
  show ?case
  proof (cases "fetch_step env ws old c d t")
    case None
    then show ?thesis by (intro disjI2 exI [of _ 0]) simp
  next
    case (Some res)
    obtain again e c' d' t' where res: "res = ((again, e), c', d', t')" by (cases res) auto
    show ?thesis
    proof (cases again)
      case False
      with Some res show ?thesis by (subst fetch_loop.simps) simp
    next
      case True
      with Suc.prems Some res have "fetch_again k env ws old (c', d', t') = None" by simp
      from Suc.IH [OF this] show ?thesis
      proof
        assume "\<exists>r. fetch_loop env ws old c' d' t' = Some r"
        with Some res True show ?thesis by (subst fetch_loop.simps) simp
      next
        assume "\<exists>j < k. \<exists>c'' d'' t''. fetch_again j env ws old (c', d', t') = Some (c'', d'', t'') \<and>
          fetch_step env ws old c'' d'' t'' = None"
        then obtain j where "j < k" "\<exists>c'' d'' t''. fetch_again j env ws old (c', d', t') = Some (c'', d'', t'') \<and>
          fetch_step env ws old c'' d'' t'' = None" by blast
        with Some res True show ?thesis by (intro disjI2 exI [of _ "Suc j"]) simp
      qed
    qed
  qed
qed



section \<open>Packets at hand\<close>

text \<open>The packet at hand of a stream carries its launch time, or after an attempt to send it that time plus the
  transmission delay.\<close>

definition holds :: "nat \<Rightarrow> 'a sequencer \<Rightarrow> StreamData \<Rightarrow> bool" where
  "holds delay t d \<longleftrightarrow>
     (\<forall>r. sd_packet d = Some r \<longrightarrow>
        (\<exists>pk. packet_of (sd_stream d) r t = Some pk \<and>
           (attime pk = sd_launchTime d \<or> unat (attime pk) = unat (sd_launchTime d) + delay) \<and>
           unat (sd_launchTime d) + delay < 2 ^ 63))"

definition all_hold :: "'a sequencer \<Rightarrow> bool" where
  "all_hold t \<longleftrightarrow>
     distinct (map sd_stream (mSequence t)) \<and>
     (\<forall>d \<in> set (mSequence t). holds (unat (txDelay (mConfig t))) t d)"

text \<open>The time of the window is far from both ends of the 64-bit range.\<close>

definition sane_time :: "tx_config \<Rightarrow> u64 \<Rightarrow> bool" where
  "sane_time c ws \<longleftrightarrow>
     txWindowPrefetchThreshold c \<noteq> 0 \<and> unat (txWindowResetThreshold c) \<le> unat ws \<and>
     unat ws + unat (txWindowWidth c) + unat (txWindowPrefetchThreshold c) + unat (txDelay c) < 2 ^ 63"

lemma holds_none [simp]: "sd_packet d = None \<Longrightarrow> holds delay t d"
  by (simp add: holds_def)

lemma holds_other:
  "only_stream i t t' \<Longrightarrow> sd_stream d \<noteq> i \<Longrightarrow> holds delay t' d = holds delay t d"
  by (simp add: holds_def packet_of_def only_stream_def)

lemma holds_updates [simp]:
  "holds delay (t\<lparr>mDiag := dg\<rparr>) d = holds delay t d"
  "holds delay (t\<lparr>mSequence := xs\<rparr>) d = holds delay t d"
  "holds delay t (d\<lparr>sd_done := x\<rparr>) = holds delay t d"
  by (simp_all add: holds_def)

lemma sint_in_range: "- (2 ^ 63) \<le> k \<Longrightarrow> k < 2 ^ 63 \<Longrightarrow> sint (word_of_int k :: 64 word) = k"
  using signed_take_bit_int_eq_self [of 63 k] by (simp add: signed_of_int)

lemma uint_small:
  assumes "unat (x :: 64 word) < 2 ^ 63"
  shows "uint x < 2 ^ 63"
proof -
  have "int (unat x) < int (2 ^ 63)" using assms by (simp only: of_nat_less_iff)
  then show ?thesis by simp
qed

lemma sint_small: "sint x = int (unat x)" and sint_neg_small: "sint (- x) = - int (unat x)"
  if "unat (x :: 64 word) < 2 ^ 63"
proof -
  have "0 \<le> uint x" by simp
  with uint_small [OF that] have "- (2 ^ 63) \<le> uint x" "uint x < 2 ^ 63" "- (2 ^ 63) \<le> - uint x" "- uint x < 2 ^ 63"
    by linarith+
  from sint_in_range [OF this(1,2)] sint_in_range [OF this(3,4)]
  show "sint x = int (unat x)" "sint (- x) = - int (unat x)" by simp_all
qed

text \<open>A launch time that is not too far from the begin of the window does not wrap around.\<close>

lemma launch_bound:
  fixes time ws :: u64
  assumes "- int (unat ws) \<le> sint (time - ws)" "int (unat ws) + sint (time - ws) < 2 ^ 63"
  shows "int (unat time) = int (unat ws) + sint (time - ws)"
proof -
  have "time = word_of_int (int (unat ws) + sint (time - ws))" by simp
  moreover have "uint (word_of_int k :: u64) = k mod 2 ^ 64" for k by (simp add: uint_word_of_int)
  ultimately have "uint time = (int (unat ws) + sint (time - ws)) mod 2 ^ 64" by metis
  also have "\<dots> = int (unat ws) + sint (time - ws)"
    using assms by (intro mod_pos_pos_trivial) auto
  finally show ?thesis by simp
qed

lemma reset_late_holds:
  "reset_late env r c d t = Some ((again, e), c', d', t') \<Longrightarrow> holds delay t' d'"
  using reset_late_Some(6) by (rule holds_none)

lemma fetch_step_holds:
  assumes step: "fetch_step env ws old c d t = Some ((again, e), c', d', t')"
  shows "only_stream (sd_stream d) t t' \<and> igb t' = igb t \<and> sd_stream d' = sd_stream d \<and>
    (again \<longrightarrow> sd_packet d' = None) \<and> (sane_time (mConfig t) ws \<longrightarrow> holds (unat (txDelay (mConfig t))) t' d')"
proof -
  let ?i = "sd_stream d" and ?c = "mConfig t"
  from step obtain p t1 where 1: "on_stream (preparePacket (te_vtable env ?i) (ws + txWindowPitch ?c)) ?i t = Some (p, t1)"
    by (auto simp: fetch_step_def bind_eq_Some_conv Let_def)
  note f = on_stream_frame [OF 1]
  have cfg: "mConfig t1 = ?c" using f by (simp add: only_stream_def)
  show ?thesis
  proof (cases p)
    case None
    with step 1 f show ?thesis by (auto simp: fetch_step_def Let_def)
  next
    case (Some r)
    with step 1 obtain pk where pk: "packet_of ?i r t1 = Some pk"
      by (auto simp: fetch_step_def bind_eq_Some_conv Let_def)
    define l where "l = attime pk - ws"
    define d1 where "d1 = d\<lparr>sd_packet := Some r, sd_launchTime := attime pk\<rparr>"
    have d1: "sd_stream d1 = ?i" by (simp add: d1_def)
    have eq: "(if txWindowWidth ?c <s l
         then if txWindowPrefetchThreshold ?c \<noteq> 0 \<and> txWindowPrefetchThreshold ?c <s l
              then reset_late env r c d1 t1 else Some ((False, Advance), c, d1\<lparr>sd_done := eEndOfWindow\<rparr>, t1)
         else if l <s - txWindowResetThreshold ?c then reset_late env r c d1 t1
         else if l <s - txWindowCueThreshold ?c then drop_late env r old c d1 t1
         else Some ((False, Resort), c, d1, t1)) = Some ((again, e), c', d', t')"
      using step 1 Some pk unfolding fetch_step_def l_def d1_def Let_def by (simp add: cfg split del: if_split cong: if_cong)
    have in_range: "holds (unat (txDelay ?c)) t1 d1"
      if "\<not> txWindowPrefetchThreshold ?c <s l \<or> \<not> txWindowWidth ?c <s l" "\<not> l <s - txWindowResetThreshold ?c"
        and sane: "sane_time ?c ws"
    proof -
      have R: "unat (txWindowResetThreshold ?c) < 2 ^ 63" and P: "unat (txWindowPrefetchThreshold ?c) < 2 ^ 63"
        and W: "unat (txWindowWidth ?c) < 2 ^ 63"
        using sane by (auto simp: sane_time_def)
      note sane' = sane [unfolded sane_time_def]
      have zify: "int n < 2 ^ 63 \<longleftrightarrow> n < 2 ^ 63" for n by simp
      have "int (unat ws + unat (txWindowWidth ?c) + unat (txWindowPrefetchThreshold ?c) + unat (txDelay ?c)) < 2 ^ 63"
        unfolding zify using sane' by blast
      then have total: "int (unat ws) + int (unat (txWindowWidth ?c)) + int (unat (txWindowPrefetchThreshold ?c)) +
        int (unat (txDelay ?c)) < 2 ^ 63" by (simp only: of_nat_add)
      have "- int (unat (txWindowResetThreshold ?c)) \<le> sint l"
        using that(2) unfolding word_sless_alt sint_neg_small [OF R] by linarith
      then have low: "- int (unat ws) \<le> sint l" using sane' by linarith
      have "sint l \<le> int (unat (txWindowPrefetchThreshold ?c)) \<or> sint l \<le> int (unat (txWindowWidth ?c))"
        using that(1) unfolding word_sless_alt sint_small [OF P] sint_small [OF W] by linarith
      then have high: "int (unat ws) + sint l + int (unat (txDelay ?c)) < 2 ^ 63"
        using total by (elim disjE) linarith+
      have "int (unat (attime pk)) = int (unat ws) + sint l"
        using launch_bound [of ws "attime pk"] low high unfolding l_def by linarith
      with high have "int (unat (attime pk) + unat (txDelay ?c)) < 2 ^ 63" by (simp only: of_nat_add)
      then have "unat (attime pk) + unat (txDelay ?c) < 2 ^ 63" by (simp only: zify)
      then show ?thesis using pk by (simp add: holds_def d1_def)
    qed
    have neg: "\<not> l <s - txWindowResetThreshold ?c" if "txWindowWidth ?c <s l" and sane: "sane_time ?c ws"
    proof -
      have R: "unat (txWindowResetThreshold ?c) < 2 ^ 63" and W: "unat (txWindowWidth ?c) < 2 ^ 63"
        using sane by (auto simp: sane_time_def)
      show ?thesis using that(1) unfolding word_sless_alt sint_neg_small [OF R] sint_small [OF W] by linarith
    qed
    consider (reset) "reset_late env r c d1 t1 = Some ((again, e), c', d', t')"
      | (drop) "drop_late env r old c d1 t1 = Some ((again, e), c', d', t')"
      | (keep) "\<not> again" "d' = d1 \<or> d' = d1\<lparr>sd_done := eEndOfWindow\<rparr>" "t' = t1"
          "sane_time ?c ws \<longrightarrow> (\<not> txWindowPrefetchThreshold ?c <s l \<or> \<not> txWindowWidth ?c <s l) \<and>
             \<not> l <s - txWindowResetThreshold ?c"
      using eq neg by (auto simp: sane_time_def split: if_splits)
    then show ?thesis
    proof cases
      case reset
      show ?thesis using reset_late_Some [OF reset] f d1 by (auto intro: only_stream_trans)
    next
      case drop
      show ?thesis using drop_late_Some [OF drop] f d1 by (auto intro: only_stream_trans)
    next
      case keep
      have "sane_time ?c ws \<longrightarrow> holds (unat (txDelay ?c)) t1 d1" using keep(4) in_range by blast
      then show ?thesis using keep(1-3) f(1,2) d1 by (elim disjE) simp_all
    qed
  qed
qed

lemma fetch_loop_holds:
  assumes "fetch_loop env ws old c d t = Some (e, d', t')"
  shows "only_stream (sd_stream d) t t' \<and> igb t' = igb t \<and> sd_stream d' = sd_stream d \<and>
    (sane_time (mConfig t) ws \<longrightarrow> holds (unat (txDelay (mConfig t))) t' d')"
proof -
  have "\<forall>e d' t'. x = (e, d', t') \<longrightarrow> only_stream (sd_stream d) t t' \<and> igb t' = igb t \<and>
      sd_stream d' = sd_stream d \<and> (sane_time (mConfig t) ws \<longrightarrow> holds (unat (txDelay (mConfig t))) t' d')"
    if "fetch_loop env ws old c d t = Some x" for x
  proof (rule fetch_loop.raw_induct [OF _ that])
    fix loop :: "'a tx_env \<Rightarrow> u64 \<Rightarrow> u32 \<Rightarrow> u64 \<Rightarrow> StreamData \<Rightarrow> 'a sequencer \<Rightarrow> (fetch_end \<times> StreamData \<times> 'a sequencer) option"
    fix env ws old c d t x
    assume IH: "\<And>env ws old c d t x. loop env ws old c d t = Some x \<Longrightarrow>
        \<forall>e d' t'. x = (e, d', t') \<longrightarrow> only_stream (sd_stream d) t t' \<and> igb t' = igb t \<and>
          sd_stream d' = sd_stream d \<and> (sane_time (mConfig t) ws \<longrightarrow> holds (unat (txDelay (mConfig t))) t' d')"
      and body: "Option.bind (fetch_step env ws old c d t)
        (\<lambda>((again, e), resetCnt, d, t). if again then loop env ws old resetCnt d t else Some (e, d, t)) = Some x"
    from body obtain again e c1 d1 t1 where step: "fetch_step env ws old c d t = Some ((again, e), c1, d1, t1)"
      and rest: "(if again then loop env ws old c1 d1 t1 else Some (e, d1, t1)) = Some x"
      by (auto simp: bind_eq_Some_conv)
    note s = fetch_step_holds [OF step]
    then have cfg: "mConfig t1 = mConfig t" by (simp add: only_stream_def)
    show "\<forall>e d' t'. x = (e, d', t') \<longrightarrow> only_stream (sd_stream d) t t' \<and> igb t' = igb t \<and>
          sd_stream d' = sd_stream d \<and> (sane_time (mConfig t) ws \<longrightarrow> holds (unat (txDelay (mConfig t))) t' d')"
    proof (cases again)
      case True
      with rest have "loop env ws old c1 d1 t1 = Some x" by simp
      from IH [OF this] s show ?thesis unfolding cfg by (metis only_stream_trans)
    next
      case False
      with rest have "x = (e, d1, t1)" by simp
      with s show ?thesis by simp
    qed
  qed
  with assms show ?thesis by blast
qed

section \<open>What is sent\<close>

text \<open>A packet handed to the driver is due: its launch time is at most \<open>b\<close>.\<close>

definition due :: "nat \<Rightarrow> igb_call \<Rightarrow> bool" where
  "due b call = (case call of Xmit i r time \<Rightarrow> unat time \<le> b | WriteReg _ _ \<Rightarrow> True)"

definition sends_due :: "nat \<Rightarrow> 'a sequencer \<Rightarrow> 'a sequencer \<Rightarrow> bool" where
  "sends_due b t t' \<longleftrightarrow> (\<exists>new. igb t' = igb t @ new \<and> (\<forall>call \<in> set new. due b call))"

lemma sends_due_refl [intro]: "igb t' = igb t \<Longrightarrow> sends_due b t t'"
  by (simp add: sends_due_def)

lemma sends_due_trans: "sends_due b t t' \<Longrightarrow> sends_due b t' t'' \<Longrightarrow> sends_due b t t''"
  by (fastforce simp: sends_due_def)

definition last_launch :: "tx_config \<Rightarrow> u64 \<Rightarrow> nat" where
  "last_launch c ws = unat ws + unat (txWindowWidth c) + unat (txDelay c)"

text \<open>The owners of the packet after a call of the driver.\<close>

lemma send_packet_Some:
  assumes send: "send_packet env d r t = Some (again, d', t')"
    and pool: "mPacketPool (streams t (sd_stream d)) = Some pool"
  obtains p1 p2 where
    "update_packet (\<lambda>pk. pk\<lparr>attime := sd_launchTime d + txDelay (mConfig t)\<rparr>) r pool = Some p1"
    "mPacketPool (streams t' (sd_stream d)) = Some p2" "only_stream (sd_stream d) t t'"
    "igb t' = igb t @ [Xmit (sd_stream d) r (sd_launchTime d + txDelay (mConfig t))]"
    "te_xmit env (length (igb t)) \<in> {- 22, - 6} \<Longrightarrow>
       \<not> again \<and> d' = d\<lparr>sd_done := eTxError\<rparr> \<and> (\<exists>ret. returnPacket (Some r) p1 = Some (ret, p2))"
    "te_xmit env (length (igb t)) \<notin> {- 22, - 6} \<Longrightarrow>
       again = (te_xmit env (length (igb t)) \<in> {0, 28}) \<and> d' = d \<and> p2 = p1"
proof -
  let ?i = "sd_stream d" and ?time = "sd_launchTime d + txDelay (mConfig t)" and ?x = "te_xmit env (length (igb t))"
  from send obtain t1 where 1: "set_attime ?i r ?time t = Some t1"
    by (auto simp: send_packet_def bind_eq_Some_conv Let_def)
  from 1 pool obtain p1 where p1: "update_packet (\<lambda>pk. pk\<lparr>attime := ?time\<rparr>) r pool = Some p1"
    "mPacketPool (streams t1 ?i) = Some p1" by (auto simp: set_attime_Some)
  note f1 = set_attime_frame [OF 1]
  define t2 where "t2 = t1\<lparr>mDiag := (mDiag t1)\<lparr>d_timingViolation := d_timingViolation (mDiag t1) +
      (if ?time < d_lastLaunchTime (mDiag t1) then 1 else 0), d_lastLaunchTime := ?time\<rparr>,
      igb := igb t1 @ [Xmit ?i r ?time]\<rparr>"
  have t2: "only_stream ?i t t2" "igb t2 = igb t @ [Xmit ?i r ?time]" "mPacketPool (streams t2 ?i) = Some p1"
    using f1 p1 by (simp_all add: t2_def)
  have rest: "(if ?x = - 22 \<or> ?x = - 6
       then Option.bind (give_back ?i r t2) (\<lambda>t. Some (False, d\<lparr>sd_done := eTxError\<rparr>, t))
       else if ?x = 0
       then Option.bind (on_stream (\<lambda>s. Some (incFramesTx s)) ?i t2)
              (\<lambda>(_, t). Some (True, d, t\<lparr>mDiag := (mDiag t)\<lparr>d_sent := d_sent (mDiag t) + 1\<rparr>\<rparr>))
       else if ?x = 28
       then Some (True, d, if mUseShaper t2 \<and> mShaperBwRate t2 \<noteq> 100 then t2
                           else t2\<lparr>mThreadControl := mThreadControl t2 OR cFlagRestartThread\<rparr>)
       else Some (False, d, t2)) = Some (again, d', t')"
    using send 1 f1(2) unfolding send_packet_def t2_def Let_def by (simp split del: if_split cong: if_cong)
  show thesis
  proof (cases "?x = - 22 \<or> ?x = - 6")
    case True
    with rest obtain t3 where t3: "give_back ?i r t2 = Some t3" "again = False" "d' = d\<lparr>sd_done := eTxError\<rparr>" "t' = t3"
      by (auto simp: bind_eq_Some_conv)
    from t3(1) t2(3) obtain ret p2 where "returnPacket (Some r) p1 = Some (ret, p2)"
      "mPacketPool (streams t3 ?i) = Some p2" by (auto simp: give_back_Some)
    with True t3 t2 p1 give_back_frame [OF t3(1)] show thesis
      by (intro that [of p1 p2]) (auto intro: only_stream_trans)
  next
    case False
    have "only_stream ?i t t' \<and> igb t' = igb t2 \<and> mPacketPool (streams t' ?i) = Some p1 \<and>
        again = (?x \<in> {0, 28}) \<and> d' = d"
      using rest False t2
      by (auto simp: on_stream_def incFramesTx_def Let_def only_stream_def split: if_splits)
    with False t2 p1 show thesis by (intro that [of p1 p1]) auto
  qed
qed

lemma use_packet_frame:
  assumes use: "use_packet env ws d t = Some ((again, advance), d', t')"
  shows "only_stream (sd_stream d) t t' \<and> sd_stream d' = sd_stream d"
proof (cases "sd_packet d")
  case None
  with use show ?thesis by (auto simp: use_packet_def)
next
  case (Some r)
  with use obtain pk pool where pk: "packet_of (sd_stream d) r t = Some pk" "mPacketPool (streams t (sd_stream d)) = Some pool"
    by (auto simp: use_packet_def bind_eq_Some_conv packet_of_def)
  have send: ?thesis if "send_packet env d r t = Some (again, d', t')"
    by (rule send_packet_Some [OF that pk(2)])
      (cases "te_xmit env (length (igb t)) \<in> {- 22, - 6}"; auto)
  show ?thesis
    using use Some pk(1) send
    by (auto simp: use_packet_def bind_eq_Some_conv split: if_splits dest: give_back_frame)
qed

lemma use_packet_holds:
  assumes use: "use_packet env ws d t = Some ((again, advance), d', t')"
    and sane: "sane_time (mConfig t) ws" and held: "holds (unat (txDelay (mConfig t))) t d"
  shows "only_stream (sd_stream d) t t' \<and> sd_stream d' = sd_stream d \<and>
    sends_due (last_launch (mConfig t) ws) t t' \<and> (\<not> again \<longrightarrow> holds (unat (txDelay (mConfig t))) t' d')"
proof (cases "sd_packet d")
  case None
  with use show ?thesis by (auto simp: use_packet_def)
next
  case (Some r)
  let ?i = "sd_stream d" and ?c = "mConfig t" and ?D = "unat (txDelay (mConfig t))"
  from held Some obtain pk where pk: "packet_of ?i r t = Some pk"
    and time: "attime pk = sd_launchTime d \<or> unat (attime pk) = unat (sd_launchTime d) + ?D"
    and fits: "unat (sd_launchTime d) + ?D < 2 ^ 63" by (auto simp: holds_def)
  show ?thesis
  proof (cases "attime pk > ws + txWindowWidth ?c")
    case True
    with use Some pk have "\<not> again" "d' = d\<lparr>sd_done := eEndOfWindow\<rparr>" "t' = t" by (auto simp: use_packet_def)
    with held show ?thesis by auto
  next
    case inside: False
    show ?thesis
    proof (cases "mDummyFlag pk")
      case True
      with use Some pk inside obtain "give_back ?i r t = Some t'" "d' = d\<lparr>sd_packet := None\<rparr>"
        by (auto simp: use_packet_def bind_eq_Some_conv)
      with give_back_frame [of ?i r t t'] show ?thesis by auto
    next
      case False
      with use Some pk inside obtain send: "send_packet env d r t = Some (again, d', t')"
        by (auto simp: use_packet_def bind_eq_Some_conv)
      from pk obtain pool where pool: "mPacketPool (streams t ?i) = Some pool" "deref pool r = Some pk"
        by (auto simp: packet_of_def bind_eq_Some_conv)
      have sum: "unat (sd_launchTime d + txDelay ?c) = unat (sd_launchTime d) + ?D"
        using fits by (intro unat_add_small) simp
      have "unat (ws + txWindowWidth ?c) = unat ws + unat (txWindowWidth ?c)"
        using sane by (intro unat_add_small) (simp add: sane_time_def)
      then have "unat (attime pk) \<le> unat ws + unat (txWindowWidth ?c)"
        using inside by (simp add: word_less_nat_alt)
      then have due: "due (last_launch ?c ws) (Xmit ?i r (sd_launchTime d + txDelay ?c))"
        using time sum by (auto simp: due_def last_launch_def)
      from send_packet_Some [OF send pool(1)] obtain p1 p2 where
        p1: "update_packet (\<lambda>pk. pk\<lparr>attime := sd_launchTime d + txDelay ?c\<rparr>) r pool = Some p1"
        and p2: "mPacketPool (streams t' ?i) = Some p2" "only_stream ?i t t'"
          "igb t' = igb t @ [Xmit ?i r (sd_launchTime d + txDelay ?c)]"
        and ends: "te_xmit env (length (igb t)) \<in> {- 22, - 6} \<Longrightarrow>
            \<not> again \<and> d' = d\<lparr>sd_done := eTxError\<rparr> \<and> (\<exists>ret. returnPacket (Some r) p1 = Some (ret, p2))"
          "te_xmit env (length (igb t)) \<notin> {- 22, - 6} \<Longrightarrow>
            again = (te_xmit env (length (igb t)) \<in> {0, 28}) \<and> d' = d \<and> p2 = p1" by blast
      from deref_update [OF p1] obtain pk1 where pk1: "deref p1 r = Some pk1" "attime pk1 = sd_launchTime d + txDelay ?c"
        by auto
      have "\<exists>pk2. deref p2 r = Some pk2 \<and> attime pk2 = attime pk1"
      proof (cases "te_xmit env (length (igb t)) \<in> {- 22, - 6}")
        case True
        with ends(1) obtain ret where "returnPacket (Some r) p1 = Some (ret, p2)" by blast
        from deref_return [OF this pk1(1)] show ?thesis .
      next
        case False
        with ends(2) pk1 show ?thesis by blast
      qed
      then obtain pk2 where pk2: "deref p2 r = Some pk2" "attime pk2 = attime pk1" by blast
      have d': "sd_stream d' = ?i" "sd_packet d' = Some r" "sd_launchTime d' = sd_launchTime d"
        using ends Some by (cases "te_xmit env (length (igb t)) \<in> {- 22, - 6}"; auto)+
      have "holds ?D t' d'"
        using p2 pk2 pk1 d' sum fits by (auto simp: holds_def packet_of_def)
      with p2 due d' show ?thesis by (auto simp: sends_due_def)
    qed
  qed
qed


lemma all_hold_mset:
  assumes "mset ys = mset (mSequence t)" "all_hold t"
  shows "all_hold (t\<lparr>mSequence := ys, mDiag := dg\<rparr>)"
proof -
  have "mset (map sd_stream ys) = mset (map sd_stream (mSequence t))" using assms(1) by simp
  then have "distinct (map sd_stream ys) = distinct (map sd_stream (mSequence t))"
    by (rule mset_eq_imp_distinct_iff)
  moreover have "set ys = set (mSequence t)" using assms(1) by (rule mset_eq_setD)
  ultimately show ?thesis using assms(2) by (simp add: all_hold_def)
qed

lemma all_hold_update:
  assumes hold: "all_hold t" and n: "n < length (mSequence t)" "mSequence t ! n = d"
    and only: "only_stream (sd_stream d) t t'" and d': "sd_stream d' = sd_stream d" "holds (unat (txDelay (mConfig t))) t' d'"
  shows "all_hold (t'\<lparr>mSequence := (mSequence t')[n := d']\<rparr>)"
proof -
  let ?xs = "mSequence t"
  have xs: "mSequence t' = ?xs" "mConfig t' = mConfig t" using only by (simp_all add: only_stream_def)
  have map: "map sd_stream (?xs[n := d']) = map sd_stream ?xs"
    using n d'(1) by (simp add: map_update list_update_same_conv)
  have "holds (unat (txDelay (mConfig t))) t' e" if e: "e \<in> set (?xs[n := d'])" for e
  proof -
    from e obtain k where k: "k < length ?xs" "e = ?xs[n := d'] ! k" by (auto simp: in_set_conv_nth)
    show ?thesis
    proof (cases "k = n")
      case True
      with k n d' show ?thesis by simp
    next
      case False
      have "map sd_stream ?xs ! k \<noteq> map sd_stream ?xs ! n"
        using hold k(1) n(1) False by (simp only: all_hold_def nth_eq_iff_index_eq length_map) simp
      then have "sd_stream e \<noteq> sd_stream d" using k n False by simp
      moreover have "holds (unat (txDelay (mConfig t))) t e" using hold k False by (simp add: all_hold_def)
      ultimately show ?thesis using holds_other [OF only] by simp
    qed
  qed
  with hold map xs show ?thesis by (simp add: all_hold_def)
qed

lemma skip_done_bound: "n < length xs \<Longrightarrow> fst (skip_done k xs start n) < length xs"
proof (induction k arbitrary: n)
  case (Suc k)
  then have "next_it xs n < length xs" by (auto simp: next_it_def)
  with Suc show ?case by (simp add: Let_def case_prod_beta)
qed simp

text \<open>What servicing leaves alone.\<close>

definition same_streams :: "'a sequencer \<Rightarrow> 'a sequencer \<Rightarrow> bool" where
  "same_streams t t' \<longleftrightarrow>
     mset (map sd_stream (mSequence t')) = mset (map sd_stream (mSequence t)) \<and> mConfig t' = mConfig t \<and>
     mStrictPktOrderEn t' = mStrictPktOrderEn t \<and> mActiveStreams t' = mActiveStreams t \<and>
     mRequestCount t' = mRequestCount t \<and> mResponseCount t' = mResponseCount t"

lemma same_streams_trans: "same_streams t t' \<Longrightarrow> same_streams t' t'' \<Longrightarrow> same_streams t t''"
  by (simp add: same_streams_def)

lemma serviceStream_due:
  assumes run: "serviceStream env ws n t = Some (res, n', t')"
  shows "same_streams t t' \<and> n' < length (mSequence t') \<and>
    (all_hold t \<and> sane_time (mConfig t) ws \<longrightarrow> all_hold t' \<and> sends_due (last_launch (mConfig t) ws) t t')"
proof -
  from run obtain d where n: "n < length (mSequence t)" and d: "mSequence t ! n = d"
    by (auto simp: serviceStream_def bind_eq_Some_conv fetch_def split: if_splits)
  let ?D = "unat (txDelay (mConfig t))" and ?b = "last_launch (mConfig t) ws"
  let ?ok = "all_hold t \<and> sane_time (mConfig t) ws"
  from run n d obtain again advance d1 t1 where use: "use_packet env ws d t = Some ((again, advance), d1, t1)"
    by (auto simp: serviceStream_def fetch_Some bind_eq_Some_conv)
  have held: "all_hold t \<Longrightarrow> holds ?D t d" using n d by (auto simp: all_hold_def)
  note u = use_packet_frame [OF use]
  then have cfg: "mConfig t1 = mConfig t" by (simp add: only_stream_def)
  from run n d use obtain e d2 t2 where loop: "(if again then fetch_loop env ws (d_dropped (mDiag t1)) 0 d1 t1
      else Some (if advance then Advance else Stay, d1, t1)) = Some (e, d2, t2)"
    by (auto simp: serviceStream_def fetch_Some bind_eq_Some_conv simp del: fetch_loop.simps)
  have l: "only_stream (sd_stream d) t t2 \<and> sd_stream d2 = sd_stream d \<and> (?ok \<longrightarrow> holds ?D t2 d2 \<and> sends_due ?b t t2)"
  proof (cases again)
    case True
    with loop have "fetch_loop env ws (d_dropped (mDiag t1)) 0 d1 t1 = Some (e, d2, t2)" by simp
    from fetch_loop_holds [OF this] cfg u use_packet_holds [OF use] held show ?thesis
      by (auto intro: only_stream_trans sends_due_trans)
  next
    case False
    with loop u use_packet_holds [OF use] held show ?thesis by auto
  qed
  define t3 where "t3 = t2\<lparr>mSequence := (mSequence t2)[n := d2]\<rparr>"
  have hold3: "?ok \<Longrightarrow> all_hold t3"
    unfolding t3_def by (rule all_hold_update [OF _ n d]) (use l in auto)
  have map3: "map sd_stream (mSequence t3) = map sd_stream (mSequence t)"
    using l n d by (simp add: t3_def only_stream_def map_update list_update_same_conv)
  have t3: "same_streams t t3" "mConfig t3 = mConfig t" "igb t3 = igb t2" "length (mSequence t3) = length (mSequence t)"
    using l map3 by (simp_all add: t3_def only_stream_def same_streams_def)
  obtain freed n4 t4 where it: "(case e of Stay \<Rightarrow> (False, n, t3) | Advance \<Rightarrow> (False, next_it (mSequence t3) n, t3)
      | Resort \<Rightarrow> sortByLaunchTime n t3) = (freed, n4, t4)" by (metis prod_cases3)
  have hold4: "same_streams t t4 \<and> n4 < length (mSequence t4) \<and> (?ok \<longrightarrow> all_hold t4) \<and> igb t4 = igb t2"
  proof (cases e)
    case Resort
    with it have s: "sortByLaunchTime n t3 = (freed, n4, t4)" by simp
    have n3: "n < length (mSequence t3)" using n t3 by simp
    note r = sort_round [OF n3 rotate_split [OF n3] s]
    from r(4) obtain dg where dg: "t4 = t3\<lparr>mSequence := mSequence t4, mDiag := dg\<rparr>" by blast
    have "all_hold (t3\<lparr>mSequence := mSequence t4, mDiag := dg\<rparr>)" if ?ok
      by (rule all_hold_mset [OF r(3) hold3 [OF that]])
    moreover have "same_streams t3 (t3\<lparr>mSequence := mSequence t4, mDiag := dg\<rparr>)"
      using r(3) by (simp add: same_streams_def)
    ultimately have "same_streams t3 t4" "?ok \<longrightarrow> all_hold t4" using dg by simp_all
    moreover have "igb t4 = igb t3" by (subst dg) simp
    ultimately show ?thesis using r(2) t3 by (auto intro: same_streams_trans)
  next
    case Stay
    with it hold3 t3 n show ?thesis by auto
  next
    case Advance
    with it hold3 t3 n show ?thesis by (auto simp: next_it_def)
  qed
  obtain m k where skip: "skip_done (length (mSequence t4)) (mSequence t4) n4 n4 = (m, k)" by fastforce
  have "t' = t4\<lparr>mDiag := (mDiag t4)\<lparr>d_skipCount := d_skipCount (mDiag t4) + of_nat k\<rparr>\<rparr>" "n' = m"
    using run n d use loop it skip unfolding t3_def by (auto simp: serviceStream_def fetch_Some Let_def)
  moreover have "m < length (mSequence t4)"
    using skip_done_bound [of n4 "mSequence t4" "length (mSequence t4)" n4] skip hold4 by simp
  ultimately show ?thesis using hold4 l by (auto simp: all_hold_def sends_due_def same_streams_def)
qed

text \<open>The iterator points into the list, or is \<^verbatim>\<open>end()\<close> of an empty list.\<close>

definition it_ok :: "nat \<Rightarrow> 'x list \<Rightarrow> bool" where
  "it_ok n xs \<longleftrightarrow> n < length xs \<or> n = 0 \<and> xs = []"

lemma service_window_due:
  assumes "service_window env ws left n t = Some (n', t')"
  shows "same_streams t t' \<and> (it_ok n (mSequence t) \<longrightarrow> it_ok n' (mSequence t')) \<and>
    (all_hold t \<and> sane_time (mConfig t) ws \<longrightarrow> all_hold t' \<and> sends_due (last_launch (mConfig t) ws) t t')"
proof -
  have "\<forall>n' t'. x = (n', t') \<longrightarrow> same_streams t t' \<and> (it_ok n (mSequence t) \<longrightarrow> it_ok n' (mSequence t')) \<and>
      (all_hold t \<and> sane_time (mConfig t) ws \<longrightarrow> all_hold t' \<and> sends_due (last_launch (mConfig t) ws) t t')"
    if "service_window env ws left n t = Some x" for x
  proof (rule service_window.raw_induct [OF _ that])
    fix loop :: "'a tx_env \<Rightarrow> u64 \<Rightarrow> nat \<Rightarrow> nat \<Rightarrow> 'a sequencer \<Rightarrow> (nat \<times> 'a sequencer) option"
    fix env ws left n t x
    assume IH: "\<And>env ws left n t x. loop env ws left n t = Some x \<Longrightarrow>
        \<forall>n' t'. x = (n', t') \<longrightarrow> same_streams t t' \<and> (it_ok n (mSequence t) \<longrightarrow> it_ok n' (mSequence t')) \<and>
          (all_hold t \<and> sane_time (mConfig t) ws \<longrightarrow> all_hold t' \<and> sends_due (last_launch (mConfig t) ws) t t')"
      and body: "(if mThreadControl t = 0 \<and> left > 0 then
        Option.bind (serviceStream env ws n t)
          (\<lambda>(d, n, t). loop env ws
               (if d = eNotDone then left else if d = eEndOfWindow \<or> d = eDry then left - 1 else 0) n t)
        else Some (n, t)) = Some x"
    show "\<forall>n' t'. x = (n', t') \<longrightarrow> same_streams t t' \<and> (it_ok n (mSequence t) \<longrightarrow> it_ok n' (mSequence t')) \<and>
          (all_hold t \<and> sane_time (mConfig t) ws \<longrightarrow> all_hold t' \<and> sends_due (last_launch (mConfig t) ws) t t')"
    proof (cases "mThreadControl t = 0 \<and> left > 0")
      case False
      with body show ?thesis by (auto simp: same_streams_def)
    next
      case True
      with body obtain d1 n1 t1 left1 where s: "serviceStream env ws n t = Some (d1, n1, t1)"
        and l: "loop env ws left1 n1 t1 = Some x"
        by (auto simp: bind_eq_Some_conv)
      note s' = serviceStream_due [OF s]
      then have "mConfig t1 = mConfig t" "it_ok n1 (mSequence t1)" by (simp_all add: same_streams_def it_ok_def)
      with s' IH [OF l] show ?thesis by (auto intro: sends_due_trans same_streams_trans)
    qed
  qed
  with assms show ?thesis by blast
qed

lemma run_window_frame:
  assumes "run_window env ws n t = Some (ws', n', t')"
  shows "same_streams t t' \<and> (it_ok n (mSequence t) \<longrightarrow> it_ok n' (mSequence t')) \<and>
    ws' = ws + txWindowPitch (mConfig t) \<and>
    (all_hold t \<and> sane_time (mConfig t) ws \<longrightarrow> all_hold t' \<and> sends_due (last_launch (mConfig t) ws) t t')"
proof -
  define t0 where "t0 = t\<lparr>mSequence := map (\<lambda>d. d\<lparr>sd_done := eNotDone\<rparr>) (mSequence t)\<rparr>"
  have t0: "all_hold t \<Longrightarrow> all_hold t0" "mConfig t0 = mConfig t" "igb t0 = igb t" "same_streams t t0"
    "length (mSequence t0) = length (mSequence t)"
    by (simp_all add: t0_def all_hold_def o_def same_streams_def)
  obtain n1 t1 where w: "service_window env ws (length (mSequence t)) n t0 = Some (n1, t1)"
    using assms by (cases "service_window env ws (length (mSequence t)) n t0") (auto simp: run_window_def t0_def)
  with assms have fin:
    "(n', t') = (if mStrictPktOrderEn t1 then (0, t1\<lparr>mSequence := sort_key sd_launchTime (mSequence t1)\<rparr>) else (n1, t1))"
    "ws' = ws + txWindowPitch (mConfig t')"
    by (auto simp: run_window_def t0_def [symmetric] Let_def split: if_splits)
  note s = service_window_due [OF w]
  have "all_hold t1 \<Longrightarrow> all_hold (t1\<lparr>mSequence := sort_key sd_launchTime (mSequence t1), mDiag := mDiag t1\<rparr>)"
    by (rule all_hold_mset) simp_all
  moreover have "same_streams t1 (t1\<lparr>mSequence := sort_key sd_launchTime (mSequence t1)\<rparr>)"
    by (simp add: same_streams_def)
  moreover have "same_streams t t1" using s t0(4) by (blast intro: same_streams_trans)
  moreover have "it_ok 0 xs" for xs :: "StreamData list" by (auto simp: it_ok_def)
  moreover have "it_ok n (mSequence t) = it_ok n (mSequence t0)"
    using t0(5) by (auto simp: it_ok_def simp flip: length_0_conv)
  ultimately have "same_streams t t'" "it_ok n (mSequence t) \<longrightarrow> it_ok n' (mSequence t')" "igb t' = igb t1"
    "all_hold t1 \<longrightarrow> all_hold t'"
    using fin(1) s by (auto split: if_splits intro: same_streams_trans)
  with s t0 fin(2) show ?thesis by (auto simp: sends_due_def same_streams_def)
qed


section \<open>Refused packets\<close>

lemma update_packet_frame:
  "update_packet f r pool = Some pool' \<Longrightarrow>
     mFreeBufferStack pool' = mFreeBufferStack pool \<and> mPoolSize pool' = mPoolSize pool \<and>
     (mBase pool' = None \<longleftrightarrow> mBase pool = None)"
  by (auto simp: update_packet_def)

lemma returnPacket_stack:
  assumes "returnPacket (Some r) pool = Some (ret, pool')" "deref pool r = Some pk" "isValid pk"
    and "length (mFreeBufferStack pool) \<le> mPoolSize pool"
  shows "mFreeBufferStack pool' = mFreeBufferStack pool @ [r]"
proof -
  have "mBase pool \<noteq> None" using assms(2) by (auto simp: deref_def split: option.splits)
  with assms show ?thesis
    by (auto simp: returnPacket_def doReturnPacket_def dest!: update_packet_frame)
qed

lemma preparePacket_empty:
  assumes "mPacketPool s = Some pool" "mFreeBufferStack pool = []"
  shows "preparePacket v w s = Some (None, s)"
proof -
  have "s\<lparr>mPacketPool := Some pool\<rparr> = s" using assms(1) by simp
  with assms show ?thesis by (simp add: preparePacket_def getPacket_def)
qed

text \<open>What becomes of a packet that the driver refuses. After \<^verbatim>\<open>-EINVAL\<close> or \<^verbatim>\<open>-ENXIO\<close> it is returned to its
  pool but stays the packet at hand of its stream, to be sent again in the next window. After \<^verbatim>\<open>ENOSPC\<close> the
  next packet is fetched over it without returning it: when the pool has no other packet, afterwards
  the packet is neither at hand nor in the pool.\<close>

theorem refused_packet:
  assumes n: "n < length (mSequence t)" "sd_packet (mSequence t ! n) = Some r" "i = sd_stream (mSequence t ! n)"
    and pool: "mPacketPool (streams t i) = Some pool" "deref pool r = Some pk" "isValid pk"
      "length (mFreeBufferStack pool) \<le> mPoolSize pool"
    and due: "attime pk \<le> windowStart + txWindowWidth (mConfig t)" "\<not> mDummyFlag pk"
    and run: "serviceStream env windowStart n t = Some (res, n', t')"
  shows "(te_xmit env (length (igb t)) \<in> {- 22, - 6} \<longrightarrow>
      sd_packet (mSequence t' ! n) = Some r \<and>
      (\<exists>pool'. mPacketPool (streams t' i) = Some pool' \<and> mFreeBufferStack pool' = mFreeBufferStack pool @ [r])) \<and>
    (te_xmit env (length (igb t)) = 28 \<and> mFreeBufferStack pool = [] \<longrightarrow>
      sd_packet (mSequence t' ! n) = None \<and>
      (\<exists>pool'. mPacketPool (streams t' i) = Some pool' \<and> mFreeBufferStack pool' = []))"
proof -
  define d where "d = mSequence t ! n"
  have d: "sd_packet d = Some r" "sd_stream d = i" using n by (simp_all add: d_def)
  have "packet_of i r t = Some pk" using pool by (simp add: packet_of_def)
  moreover have "\<not> windowStart + txWindowWidth (mConfig t) < attime pk" using due(1) by (simp only: not_less)
  ultimately have use_eq: "use_packet env windowStart d t =
      Option.bind (send_packet env d r t) (\<lambda>(again, d, t). Some ((again, False), d, t))"
    using d due by (simp add: use_packet_def)
  obtain again d1 t1 where send: "send_packet env d r t = Some (again, d1, t1)"
    using run n d_def use_eq
    by (cases "send_packet env d r t") (auto simp: serviceStream_def fetch_Some)
  have "mPacketPool (streams t (sd_stream d)) = Some pool" using pool d by simp
  from send_packet_Some [OF send this] d obtain p1 p2 where
    p1: "update_packet (\<lambda>pk. pk\<lparr>attime := sd_launchTime d + txDelay (mConfig t)\<rparr>) r pool = Some p1"
    and p2: "mPacketPool (streams t1 i) = Some p2" "only_stream i t t1"
    and ends: "te_xmit env (length (igb t)) \<in> {- 22, - 6} \<Longrightarrow>
        \<not> again \<and> d1 = d\<lparr>sd_done := eTxError\<rparr> \<and> (\<exists>ret. returnPacket (Some r) p1 = Some (ret, p2))"
      "te_xmit env (length (igb t)) \<notin> {- 22, - 6} \<Longrightarrow>
        again = (te_xmit env (length (igb t)) \<in> {0, 28}) \<and> d1 = d \<and> p2 = p1" by metis
  have seq: "mSequence t1 = mSequence t" using p2 by (simp add: only_stream_def)
  have fatal: "sd_packet (mSequence t' ! n) = Some r \<and>
      (\<exists>pool'. mPacketPool (streams t' i) = Some pool' \<and> mFreeBufferStack pool' = mFreeBufferStack pool @ [r])"
    if x: "te_xmit env (length (igb t)) \<in> {- 22, - 6}"
  proof -
    from ends(1) [OF x] obtain ret where e: "\<not> again" "d1 = d\<lparr>sd_done := eTxError\<rparr>" "returnPacket (Some r) p1 = Some (ret, p2)"
      by blast
    from deref_update [OF p1] pool have pk1: "deref p1 r = Some (pk\<lparr>attime := sd_launchTime d + txDelay (mConfig t)\<rparr>)" by simp
    have "isValid (pk\<lparr>attime := sd_launchTime d + txDelay (mConfig t)\<rparr>)" using pool by (simp add: isValid_def)
    with returnPacket_stack [OF e(3) pk1] update_packet_frame [OF p1] pool
    have stack: "mFreeBufferStack p2 = mFreeBufferStack pool @ [r]" by simp
    obtain m k where "skip_done (length (mSequence t)) ((mSequence t)[n := d1]) n n = (m, k)" by fastforce
    with run n send use_eq e(1) seq d_def have "mSequence t' = (mSequence t)[n := d1]" "streams t' = streams t1"
      by (auto simp: serviceStream_def fetch_Some Let_def)
    with n d e(2) stack p2 show ?thesis by simp
  qed
  have full: "sd_packet (mSequence t' ! n) = None \<and>
      (\<exists>pool'. mPacketPool (streams t' i) = Some pool' \<and> mFreeBufferStack pool' = [])"
    if x: "te_xmit env (length (igb t)) = 28" and empty: "mFreeBufferStack pool = []"
  proof -
    have e: "again" "d1 = d" "p2 = p1" using ends(2) x by simp_all
    have p1': "mFreeBufferStack p1 = []" using update_packet_frame [OF p1] empty by simp
    have prep: "preparePacket (te_vtable env i) w (streams t1 i) = Some (None, streams t1 i)" for w
      using preparePacket_empty [of "streams t1 i" p1] p2(1) p1' e(3) by simp
    have id: "t1\<lparr>streams := (streams t1)(i := streams t1 i)\<rparr> = t1" by simp
    have step: "fetch_step env windowStart old c d t1 =
        Some ((False, Advance), c, d\<lparr>sd_packet := None, sd_launchTime := 0, sd_done := eDry\<rparr>, t1)" for old c
      by (simp add: fetch_step_def on_stream_def d prep)
    let ?d2 = "d\<lparr>sd_packet := None, sd_launchTime := 0, sd_done := eDry\<rparr>"
    have loop: "fetch_loop env windowStart old c d t1 = Some (Advance, ?d2, t1)" for old c
      by (subst fetch_loop.simps) (simp add: step)
    obtain m k where "skip_done (length (mSequence t)) ((mSequence t)[n := ?d2])
        (next_it ((mSequence t)[n := ?d2]) n) (next_it ((mSequence t)[n := ?d2]) n) = (m, k)" by fastforce
    with run n send use_eq e loop seq d_def
    have "mSequence t' = (mSequence t)[n := ?d2]" "streams t' = streams t1"
      by (auto simp: serviceStream_def fetch_Some Let_def)
    with n p2 e p1' show ?thesis by simp
  qed
  from fatal full show ?thesis by blast
qed

section \<open>Examples\<close>

text \<open>A stream with two packets, whose every packet is launched at a fixed time.\<close>

definition example_writer :: "u64 \<Rightarrow> IasAvbStream stream_vtable" where
  "example_writer time =
     \<lparr>v_activationChanged = Some, v_derivedCleanup = Some, v_readFromAvbPacket = (\<lambda>_ _. Some),
      v_writeToAvbPacket = (\<lambda>r _ s. do {
        pool \<leftarrow> mPacketPool s;
        pool \<leftarrow> update_packet (\<lambda>pk. pk\<lparr>attime := time\<rparr>) r pool;
        Some (True, s\<lparr>mPacketPool := Some pool\<rparr>)
      })\<rparr>"

definition example_packets :: IasAvbPacketPool where
  "example_packets =
     \<lparr>mThis = 7, mPacketSize = 64, mPoolSize = 1, mFreeBufferStack = [(1, 0)],
      mBase = Some [packet_new\<lparr>mHome := Some 7, vaddr := 4096\<rparr>], mBaseId = 1, mDmaPages = []\<rparr>"

definition example_sender :: IasAvbStream where
  "example_sender = (stream_new eIasAvbAudioStream)
     \<lparr>mTSpec := Some \<lparr>mMaxFrameSize = 64, mClass = eIasAvbSrClassHigh, mMaxIntervalFrames = 1\<rparr>,
      mPacketPool := Some example_packets, mActive := True\<rparr>"

definition example_tx_env :: "u64 \<Rightarrow> int \<Rightarrow> unit tx_env" where
  "example_tx_env time answer =
     \<lparr>te_vtable = (\<lambda>_. example_writer time), te_registry = None, te_tables = default_tables, te_xmit = (\<lambda>_. answer),
      te_readReg = (\<lambda>_. 0), te_ringSize = 1024, te_linkSpeed = 1000, te_newThread = True, te_watchdogFails = False,
      te_threadStart = True, te_threadStop = True, te_freed = id\<rparr>"

definition example_sequencer :: "unit sequencer" where
  "example_sequencer = (sequencer_new (\<lambda>_. example_sender))\<lparr>mSequence := [new_data 3]\<rparr>"


definition example_late :: "unit sequencer" where
  "example_late = example_sequencer
     \<lparr>mConfig := config_new\<lparr>txWindowMaxDropCount := 1\<rparr>\<rparr>"



definition example_held :: "unit sequencer" where
  "example_held = (sequencer_new (\<lambda>_. example_sender\<lparr>mPacketPool := Some (example_packets\<lparr>mFreeBufferStack := []\<rparr>)\<rparr>))
     \<lparr>mSequence := [(new_data 3)\<lparr>sd_packet := Some (1, 0), sd_launchTime := 11000000\<rparr>]\<rparr>"

theorem refused_packet_witness:
  "\<exists>res n t pool. serviceStream (example_tx_env 11000000 (- 22)) 10000000 0 example_held = Some (res, n, t) \<and>
     sd_packet (mSequence t ! 0) = Some (1, 0) \<and> mPacketPool (streams t 3) = Some pool \<and>
     mFreeBufferStack pool = [(1, 0)]"
proof -
  let ?env = "example_tx_env 11000000 (- 22)"
  have "\<not> Option.is_none (serviceStream ?env 10000000 0 example_held)" by code_simp
  then obtain res n t where run: "serviceStream ?env 10000000 0 example_held = Some (res, n, t)"
    by (auto simp: Option.is_none_def)
  have answer: "te_xmit ?env k = - 22" for k by (simp add: example_tx_env_def)
  let ?pool = "example_packets\<lparr>mFreeBufferStack := []\<rparr>" and ?pk = "packet_new\<lparr>mHome := Some 7, vaddr := 4096\<rparr>"
  have seq: "0 < length (mSequence example_held)" "sd_packet (mSequence example_held ! 0) = Some (1, 0)"
    "(3 :: nat) = sd_stream (mSequence example_held ! 0)"
    by (simp_all add: example_held_def new_data_def)
  have pool: "mPacketPool (streams example_held 3) = Some ?pool" "deref ?pool (1, 0) = Some ?pk" "isValid ?pk"
    "length (mFreeBufferStack ?pool) \<le> mPoolSize ?pool" "\<not> mDummyFlag ?pk"
    by (simp_all add: example_held_def sequencer_new_def example_packets_def deref_def fetch_def isValid_def packet_new_def)
  have due: "attime ?pk \<le> 10000000 + txWindowWidth (mConfig example_held)"
    by (simp add: packet_new_def)
  from refused_packet [OF seq pool(1-4) due pool(5) run] run answer
  show ?thesis by auto
qed

end
