(* ===== verification/Sequencer_Sync.thy ===== *)
theory Sequencer_Sync
  imports Sequencer_Window
begin

text \<open>
  The cooperation of the transmit sequencer with its clients: what \<open>updateSequence\<close> does to the
  sequence, the handshake by which a stream is removed before it is destroyed, and the accounts of
  the bandwidth.
\<close>

section \<open>The update of the sequence\<close>

definition stream_set :: "'a sequencer \<Rightarrow> nat set" where
  "stream_set t = set (map sd_stream (mSequence t))"

text \<open>What an update leaves alone.\<close>

definition same_requests :: "'a sequencer \<Rightarrow> 'a sequencer \<Rightarrow> bool" where
  "same_requests t t' \<longleftrightarrow>
     mActiveStreams t' = mActiveStreams t \<and> mRequestCount t' = mRequestCount t \<and>
     mResponseCount t' = mResponseCount t \<and> mConfig t' = mConfig t"

lemma same_requests_trans: "same_requests t t' \<Longrightarrow> same_requests t' t'' \<Longrightarrow> same_requests t t''"
  by (simp add: same_requests_def)

lemma erase_obsolete_ok:
  assumes "erase_obsolete k s temp n t = Some (temp', n', t')"
    and "s + k = length (mSequence t)" "distinct (map sd_stream (take s (mSequence t)))"
    and "set (map sd_stream (take s (mSequence t))) \<subseteq> A" "temp = A - set (map sd_stream (take s (mSequence t)))"
    and "it_ok n (mSequence t)"
  shows "distinct (map sd_stream (mSequence t')) \<and> stream_set t' \<subseteq> A \<and> temp' = A - stream_set t' \<and>
    set (mSequence t') \<subseteq> set (mSequence t) \<and> it_ok n' (mSequence t') \<and> same_requests t t'"
  using assms
proof (induction k arbitrary: s temp n t)
  case 0
  then show ?case by (auto simp: stream_set_def same_requests_def)
next
  case (Suc k)
  let ?xs = "mSequence t" and ?d = "mSequence t ! s"
  have s: "s < length ?xs" using Suc.prems(2) by simp
  show ?case
  proof (cases "sd_stream ?d \<in> temp")
    case True
    have "take (Suc s) ?xs = take s ?xs @ [?d]" using s by (simp add: take_Suc_conv_app_nth)
    with True Suc.prems show ?thesis
      by (intro Suc.IH [of "Suc s" "temp - {sd_stream ?d}" n t]) auto
  next
    case False
    from False Suc.prems(1) obtain t1 where gb:
        "(case sd_packet ?d of None \<Rightarrow> Some t | Some r \<Rightarrow> give_back (sd_stream ?d) r t) = Some t1"
      and rest: "erase_obsolete k s temp
          (if take s (mSequence t1) @ drop (Suc s) (mSequence t1) = [] then 0
           else if s < (if n = s then next_it (mSequence t1) n else n)
                then (if n = s then next_it (mSequence t1) n else n) - 1
                else (if n = s then next_it (mSequence t1) n else n))
          (t1\<lparr>mSequence := take s (mSequence t1) @ drop (Suc s) (mSequence t1)\<rparr>) = Some (temp', n', t')"
      by (auto simp: bind_eq_Some_conv Let_def split: option.splits)
    from gb have t1: "mSequence t1 = ?xs" "same_requests t t1"
      by (auto simp: give_back_Some same_requests_def split: option.splits)
    let ?ys = "take s ?xs @ drop (Suc s) ?xs"
    have len: "length ?ys = length ?xs - 1" using s by simp
    have it: "it_ok (if ?ys = [] then 0
           else if s < (if n = s then next_it ?xs n else n) then (if n = s then next_it ?xs n else n) - 1
                else (if n = s then next_it ?xs n else n)) ?ys"
    proof (cases "?ys = []")
      case False
      then have "1 < length ?xs" using len s by (cases ?xs; cases "tl ?xs") (auto simp del: length_0_conv)
      moreover have "n < length ?xs" using Suc.prems(6) s by (auto simp: it_ok_def)
      ultimately show ?thesis using False s len by (auto simp: it_ok_def next_it_def)
    qed (simp add: it_ok_def)
    have pre: "take s ?ys = take s ?xs" using s by simp
    have "distinct (map sd_stream (mSequence t')) \<and> stream_set t' \<subseteq> A \<and> temp' = A - stream_set t' \<and>
        set (mSequence t') \<subseteq> set ?ys \<and> it_ok n' (mSequence t') \<and> same_requests (t1\<lparr>mSequence := ?ys\<rparr>) t'"
      using Suc.IH [OF rest [unfolded t1(1)]] Suc.prems pre it len by (simp del: take_append)
    moreover have "set ?ys \<subseteq> set ?xs" by (auto dest: in_set_takeD in_set_dropD)
    ultimately show ?thesis using t1(2) by (auto simp: same_requests_def)
  qed
qed

lemma insert_stream_ok:
  assumes "insert_stream i (n, t) = (n', t')" "it_ok n (mSequence t)"
  shows "mset (mSequence t') = add_mset (new_data i) (mset (mSequence t)) \<and> it_ok n' (mSequence t') \<and> same_requests t t'"
proof -
  let ?xs = "new_data i # mSequence t" and ?n = "if Suc n = length (new_data i # mSequence t) then 0 else Suc n"
  let ?t = "t\<lparr>mSequence := ?xs\<rparr>"
  have n: "?n < length (mSequence ?t)" using assms(2) by (auto simp: it_ok_def)
  obtain freed where s: "sortByLaunchTime ?n ?t = (freed, n', t')"
    using assms(1) by (cases "sortByLaunchTime ?n ?t") (auto simp: insert_stream_def Let_def)
  note r = sort_round [OF n rotate_split [OF n] s]
  from r(4) obtain dg where dg: "t' = ?t\<lparr>mSequence := mSequence t', mDiag := dg\<rparr>" by blast
  have "same_requests t (?t\<lparr>mSequence := mSequence t', mDiag := dg\<rparr>)" by (simp add: same_requests_def)
  with dg have "same_requests t t'" by simp
  with r show ?thesis by (auto simp: it_ok_def)
qed

lemma insert_streams_ok:
  assumes "fold insert_stream is' (n, t) = (n', t')" "it_ok n (mSequence t)"
  shows "mset (mSequence t') = mset (map new_data is') + mset (mSequence t) \<and> it_ok n' (mSequence t') \<and> same_requests t t'"
  using assms
proof (induction is' arbitrary: n t)
  case Nil
  then show ?case by (simp add: same_requests_def)
next
  case (Cons i is')
  obtain n1 t1 where one: "insert_stream i (n, t) = (n1, t1)" by fastforce
  note o = insert_stream_ok [OF one Cons.prems(2)]
  with Cons.IH [of n1 t1] Cons.prems(1) one show ?case by (auto intro: same_requests_trans)
qed

text \<open>After one response the sequence holds exactly the active streams, each once; the streams that stay keep
  their packet at hand, the others are new.\<close>

lemma sync_streams_ok:
  assumes "sync_streams n t = Some (n', t')" "it_ok n (mSequence t)" "finite (mActiveStreams t)"
  shows "stream_set t' = mActiveStreams t" "distinct (map sd_stream (mSequence t'))" "it_ok n' (mSequence t')"
    "same_requests t t'" "\<forall>d \<in> set (mSequence t'). d \<in> set (mSequence t) \<or> sd_packet d = None"
proof -
  let ?A = "mActiveStreams t"
  from assms(1) obtain temp n1 t1 where e: "erase_obsolete (length (mSequence t)) 0 ?A n t = Some (temp, n1, t1)"
    and i: "fold insert_stream (sorted_list_of_set temp) (n1, t1) = (n', t')"
    by (auto simp: sync_streams_def bind_eq_Some_conv)
  have e': "distinct (map sd_stream (mSequence t1))" "stream_set t1 \<subseteq> ?A" "temp = ?A - stream_set t1"
    "set (mSequence t1) \<subseteq> set (mSequence t)" "it_ok n1 (mSequence t1)" "same_requests t t1"
    using erase_obsolete_ok [OF e, of ?A] assms(2) by auto
  note i' = insert_streams_ok [OF i e'(5)]
  have fin: "finite temp" using e'(3) assms(3) by simp
  have m: "mset (map sd_stream (mSequence t')) = mset (sorted_list_of_set temp @ map sd_stream (mSequence t1))"
  proof -
    have "mset (map sd_stream (mSequence t')) = image_mset sd_stream (mset (map new_data (sorted_list_of_set temp)) + mset (mSequence t1))"
      using i' by (metis mset_map)
    also have "\<dots> = mset (map (sd_stream \<circ> new_data) (sorted_list_of_set temp)) + mset (map sd_stream (mSequence t1))"
      by (simp add: multiset.map_comp)
    also have "sd_stream \<circ> new_data = id" by (rule ext) (simp add: new_data_def)
    finally show ?thesis by simp
  qed
  have "stream_set t' = temp \<union> stream_set t1"
    using mset_eq_setD [OF m] fin by (simp add: stream_set_def)
  then show "stream_set t' = ?A" using e'(2,3) by blast
  have "distinct (sorted_list_of_set temp @ map sd_stream (mSequence t1))"
    using e' fin by (auto simp: stream_set_def)
  then show "distinct (map sd_stream (mSequence t'))" using mset_eq_imp_distinct_iff [OF m] by simp
  show "it_ok n' (mSequence t')" "same_requests t t'" using i' e'(6) by (auto intro: same_requests_trans)
  have "set (mSequence t') = new_data ` temp \<union> set (mSequence t1)"
    using mset_eq_setD [of "mSequence t'" "map new_data (sorted_list_of_set temp) @ mSequence t1"] i' fin by simp
  then show "\<forall>d \<in> set (mSequence t'). d \<in> set (mSequence t) \<or> sd_packet d = None"
    using e'(4) by (auto simp: new_data_def)
qed


section \<open>The handshake\<close>

definition pending :: "'a sequencer \<Rightarrow> int" where
  "pending t = sint (mRequestCount t - mResponseCount t)"

text \<open>Where the client is in \<^verbatim>\<open>addStreamToTransmitList\<close> or \<^verbatim>\<open>removeStreamFromTransmitList\<close>, and the worker in
  \<^verbatim>\<open>updateSequence\<close>. The steps are those between which the other thread can be seen: the sections under
  \<^verbatim>\<open>mLock\<close> and the counter updates. Clients are serialised by the stream handler.\<close>

datatype client_pc = Idle | Inserted | Erased nat | Waiting nat

datatype worker_pc = Ready | Synced

type_synonym 'a sync_state = "client_pc \<times> worker_pc \<times> nat \<times> 'a sequencer"

inductive sync_step :: "'a tx_env \<Rightarrow> 'a sync_state \<Rightarrow> 'a sync_state \<Rightarrow> bool" for env where
  add_insert: "sync_step env (Idle, w, n, t) (Inserted, w, n, t\<lparr>mActiveStreams := insert i (mActiveStreams t)\<rparr>)"
| request: "pending t < 2 ^ 31 - 1 \<Longrightarrow>
    sync_step env (Inserted, w, n, t) (Idle, w, n, t\<lparr>mRequestCount := mRequestCount t + 1\<rparr>)"
| remove_erase: "sync_step env (Idle, w, n, t) (Erased i, w, n, t\<lparr>mActiveStreams := mActiveStreams t - {i}\<rparr>)"
| remove_request: "pending t < 2 ^ 31 - 1 \<Longrightarrow>
    sync_step env (Erased i, w, n, t) (Waiting i, w, n, t\<lparr>mRequestCount := mRequestCount t + 1\<rparr>)"
| remove_done: "mRequestCount t = mResponseCount t \<Longrightarrow> sync_step env (Waiting i, w, n, t) (Idle, w, n, t)"
| remove_timeout: "sync_step env (Waiting i, w, n, t) (Inserted, w, n, t\<lparr>mActiveStreams := insert i (mActiveStreams t)\<rparr>)"
| worker_sync: "0 < pending t \<Longrightarrow> sync_streams n t = Some (n', t') \<Longrightarrow>
    sync_step env (c, Ready, n, t) (c, Synced, n', t')"
| worker_respond: "sync_step env (c, Synced, n, t) (c, Ready, n, respond t)"
| worker_window: "run_window env ws n t = Some (ws', n', t') \<Longrightarrow> sync_step env (c, Ready, n, t) (c, Ready, n', t')"
| worker_leave: "run_leave reclaimed t = Some (n', t') \<Longrightarrow> sync_step env (c, Ready, n, t) (c, Ready, n', t')"
| worker_restart: "run_restart env t = Some t' \<Longrightarrow> pending t < 2 ^ 31 - 1 \<Longrightarrow>
    sync_step env (c, Ready, n, t) (c, Ready, n, t')"

inductive_cases sync_stepE: "sync_step env s s'"

text \<open>A stream may be in the sequence without being active only while its removal is under way and a request is
  unanswered; while the worker is between update and response, two must be.\<close>

definition handshake :: "'a sync_state \<Rightarrow> bool" where
  "handshake = (\<lambda>(c, w, n, t).
     let unanswered = (if w = Synced then 1 else 0) in
     finite (mActiveStreams t) \<and> it_ok n (mSequence t) \<and> unanswered \<le> pending t \<and>
     (case c of
        Erased i \<Rightarrow> i \<notin> mActiveStreams t \<and> stream_set t \<subseteq> insert i (mActiveStreams t)
      | Waiting i \<Rightarrow> i \<notin> mActiveStreams t \<and> stream_set t \<subseteq> insert i (mActiveStreams t) \<and>
                     (pending t = unanswered \<longrightarrow> i \<notin> stream_set t)
      | _ \<Rightarrow> stream_set t \<subseteq> mActiveStreams t))"

lemma sint_in_range32: "- (2 ^ 31) \<le> k \<Longrightarrow> k < 2 ^ 31 \<Longrightarrow> sint (word_of_int k :: 32 word) = k"
  using signed_take_bit_int_eq_self [of 31 k] by (simp add: signed_of_int)

lemma pending_range: "- (2 ^ 31) \<le> pending t" "pending t < 2 ^ 31"
  using sint_ge [of "mRequestCount t - mResponseCount t"] sint_lt [of "mRequestCount t - mResponseCount t"]
  by (simp_all add: pending_def)

lemma pending_shift:
  assumes "mRequestCount t' - mResponseCount t' = mRequestCount t - mResponseCount t + of_int k"
    and "- (2 ^ 31) \<le> pending t + k" "pending t + k < 2 ^ 31"
  shows "pending t' = pending t + k"
proof -
  have "mRequestCount t - mResponseCount t + of_int k = of_int (pending t + k)"
    by (simp add: pending_def)
  then show ?thesis using sint_in_range32 [OF assms(2,3)] assms(1) by (simp add: pending_def)
qed

lemma pending_request: "pending t < 2 ^ 31 - 1 \<Longrightarrow> pending (t\<lparr>mRequestCount := mRequestCount t + 1\<rparr>) = pending t + 1"
  using pending_range [of t] by (intro pending_shift) simp_all

lemma pending_respond: "0 < pending t \<Longrightarrow> pending (respond t) = pending t - 1"
  using pending_range [of t] pending_shift [of "respond t" t "- 1"] by (simp add: respond_def)

lemma pending_same: "same_requests t t' \<Longrightarrow> pending t' = pending t"
  by (simp add: pending_def same_requests_def)

lemma pending_simps [simp]:
  "pending (t\<lparr>mActiveStreams := a\<rparr>) = pending t" "stream_set (t\<lparr>mActiveStreams := a\<rparr>) = stream_set t"
  "stream_set (t\<lparr>mRequestCount := r\<rparr>) = stream_set t" "stream_set (respond t) = stream_set t"
  "mActiveStreams (respond t) = mActiveStreams t" "mSequence (respond t) = mSequence t"
  by (simp_all add: pending_def stream_set_def respond_def)

lemma give_back_all_same: "give_back_all xs t = Some t' \<Longrightarrow> same_requests t t' \<and> mSequence t' = mSequence t"
  by (induction xs arbitrary: t)
    (fastforce simp: bind_eq_Some_conv same_requests_def give_back_Some)+

lemma toggle_all_same: "toggle_all env is' t = Some t' \<Longrightarrow> same_requests t t' \<and> mSequence t' = mSequence t"
proof (induction is' arbitrary: t)
  case (Cons i is')
  then obtain t1 where t1: "toggle env False i t = Some t1" "toggle_all env is' t1 = Some t'"
    by (auto simp: bind_eq_Some_conv)
  have "same_requests t t1 \<and> mSequence t1 = mSequence t"
    using toggle_frame(1) [OF t1(1)] by (simp add: only_stream_def same_requests_def)
  with Cons.IH [OF t1(2)] show ?case by (auto intro: same_requests_trans)
qed (simp add: same_requests_def)

lemma run_leave_same:
  assumes "run_leave reclaimed t = Some (n', t')"
  shows "same_requests t t'" "mSequence t' = []" "n' = 0"
proof -
  from assms obtain x t1 t2 where 1: "reclaimPackets reclaimed t = Some (x, t1)"
    and 2: "give_back_all (held_packets (mSequence t1)) t1 = Some t2" and 3: "n' = 0" "t' = t2\<lparr>mSequence := []\<rparr>"
    by (auto simp: run_leave_def bind_eq_Some_conv)
  have "same_requests t t1" using 1 give_back_all_same by (auto simp: reclaimPackets_def same_requests_def split: if_splits)
  with give_back_all_same [OF 2] 3 show "same_requests t t'" "mSequence t' = []" "n' = 0"
    by (auto simp: same_requests_def)
qed

lemma run_restart_same:
  assumes "run_restart env t = Some t'" "pending t < 2 ^ 31 - 1"
  shows "mActiveStreams t' = mActiveStreams t" "mSequence t' = mSequence t" "pending t' = pending t + 1"
proof -
  from assms(1) obtain t1 where 1: "toggle_all env (sorted_list_of_set (mActiveStreams t))
      (t\<lparr>mThreadControl := mThreadControl t AND NOT cFlagRestartThread\<rparr>) = Some t1"
    and t': "t' = t1\<lparr>mResponseCount := mResponseCount t1 - 1, mDiag := (mDiag t1)\<lparr>d_lastLaunchTime := 0\<rparr>\<rparr>"
    by (auto simp: run_restart_def bind_eq_Some_conv)
  note s = toggle_all_same [OF 1]
  show "mActiveStreams t' = mActiveStreams t" "mSequence t' = mSequence t"
    using s t' by (simp_all add: same_requests_def)
  show "pending t' = pending t + 1"
    using pending_range [of t] assms(2) s t'
    by (intro pending_shift) (simp_all add: same_requests_def)
qed

lemma sync_step_handshake:
  assumes "sync_step env s s'" "handshake s"
  shows "handshake s'"
  using assms
proof cases
  case (add_insert w n t i)
  with assms(2) show ?thesis by (auto simp: handshake_def)
next
  case (request t w n)
  with assms(2) show ?thesis by (auto simp: handshake_def pending_request Let_def)
next
  case (remove_erase w n t i)
  with assms(2) show ?thesis by (auto simp: handshake_def)
next
  case (remove_request t i w n)
  with assms(2) show ?thesis by (auto simp: handshake_def pending_request Let_def)
next
  case (remove_done t i w n)
  have "pending t = 0" using remove_done(3) by (simp add: pending_def)
  with remove_done assms(2) show ?thesis by (auto simp: handshake_def Let_def split: if_splits)
next
  case (remove_timeout i w n t)
  with assms(2) show ?thesis by (auto simp: handshake_def)
next
  case (worker_sync t n n' t' c)
  have "it_ok n (mSequence t)" "finite (mActiveStreams t)" using worker_sync(1) assms(2) by (auto simp: handshake_def)
  note s = sync_streams_ok [OF worker_sync(4) this]
  have a: "mActiveStreams t' = mActiveStreams t" using s(4) by (simp add: same_requests_def)
  show ?thesis
    using worker_sync(1,2,3) assms(2) s(1,3) pending_same [OF s(4)] a
    by (auto simp: handshake_def split: client_pc.splits)
next
  case (worker_respond c n t)
  have "1 \<le> pending t" using worker_respond assms(2) by (auto simp: handshake_def)
  with worker_respond assms(2) show ?thesis
    by (auto simp: handshake_def pending_respond split: client_pc.splits)
next
  case (worker_window ws n t ws' n' t' c)
  note f = run_window_frame [OF worker_window(3)]
  have "set (map sd_stream (mSequence t')) = set (map sd_stream (mSequence t))"
    using f by (intro mset_eq_setD) (simp add: same_streams_def)
  then have "stream_set t' = stream_set t" "pending t' = pending t" "mActiveStreams t' = mActiveStreams t"
    using f by (simp_all add: stream_set_def pending_def same_streams_def)
  with worker_window(1,2) assms(2) f show ?thesis by (auto simp: handshake_def split: client_pc.splits)
next
  case (worker_leave reclaimed t n' t' c n)
  note l = run_leave_same [OF worker_leave(3)]
  have "stream_set t' = {}" "pending t' = pending t" "mActiveStreams t' = mActiveStreams t"
    using l pending_same [OF l(1)] by (simp_all add: stream_set_def same_requests_def)
  with worker_leave(1,2) assms(2) l show ?thesis by (auto simp: handshake_def it_ok_def split: client_pc.splits)
next
  case (worker_restart t t' c n)
  note r = run_restart_same [OF worker_restart(3,4)]
  with worker_restart(1,2) assms(2) show ?thesis by (auto simp: handshake_def stream_set_def split: client_pc.splits)
qed

text \<open>C3. The handshake by which a stream is removed is safe under every interleaving of the client with the
  worker thread, including restarts of the thread and timeouts of the client: when
  \<^verbatim>\<open>removeStreamFromTransmitList\<close> sees that the worker has answered all requests, the stream is
  neither active nor in the sequence, so that it can be destroyed.\<close>

theorem removed_stream_released:
  assumes "finite (mActiveStreams t0)" "mSequence t0 = []" "mRequestCount t0 = mResponseCount t0"
    and "(sync_step env)\<^sup>*\<^sup>* (Idle, Ready, 0, t0) (Waiting i, w, n, t)"
    and "mRequestCount t = mResponseCount t"
  shows "i \<notin> mActiveStreams t \<and> i \<notin> stream_set t"
proof -
  have "handshake (Idle, Ready, 0, t0)"
    using assms(1-3) by (simp add: handshake_def it_ok_def pending_def stream_set_def)
  with assms(4) have "handshake (Waiting i, w, n, t)"
    by (induction rule: rtranclp_induct) (auto intro: sync_step_handshake)
  moreover have "pending t = 0" using assms(5) by (simp add: pending_def)
  ultimately show ?thesis by (auto simp: handshake_def Let_def split: if_splits)
qed


text \<open>A run in which stream 3 is added, taken up by the worker and removed again.\<close>

definition example_added :: "unit sequencer" where
  "example_added = (sequencer_new (\<lambda>_. example_sender))\<lparr>mActiveStreams := {3}, mRequestCount := 1\<rparr>"

definition example_taken :: "nat \<times> unit sequencer" where
  "example_taken = the (sync_streams 0 example_added)"

definition example_removed :: "unit sequencer" where
  "example_removed =
     (let t = respond (snd example_taken)
      in t\<lparr>mActiveStreams := mActiveStreams t - {3}, mRequestCount := mRequestCount t + 1\<rparr>)"

definition example_released :: "nat \<times> unit sequencer" where
  "example_released = the (sync_streams (fst example_taken) example_removed)"

theorem removed_stream_released_witness:
  "\<exists>t. (sync_step (example_tx_env 0 0))\<^sup>*\<^sup>* (Idle, Ready, 0, sequencer_new (\<lambda>_. example_sender))
        (Waiting 3, Ready, fst example_released, t) \<and>
     stream_set (snd example_taken) = {3} \<and> 3 \<notin> mActiveStreams t \<and> 3 \<notin> stream_set t"
proof -
  let ?s = "sync_step (example_tx_env 0 0)" and ?t0 = "sequencer_new (\<lambda>_. example_sender)"
  let ?t1 = "?t0\<lparr>mActiveStreams := insert 3 (mActiveStreams ?t0)\<rparr>"
  let ?t2 = "snd example_taken"
  let ?t3 = "respond ?t2"
  let ?t4 = "?t3\<lparr>mActiveStreams := mActiveStreams ?t3 - {3}\<rparr>"
  let ?t5 = "respond (snd example_released)"
  have eq1: "?t1\<lparr>mRequestCount := mRequestCount ?t1 + 1\<rparr> = example_added"
    by (simp add: example_added_def sequencer_new_def)
  have eq2: "?t4\<lparr>mRequestCount := mRequestCount ?t4 + 1\<rparr> = example_removed"
    by (simp add: example_removed_def Let_def)
  have p: "pending ?t1 = 0" "0 < pending example_added" "pending ?t4 = 0" "0 < pending example_removed"
    by code_simp+
  have c: "mRequestCount ?t5 = mResponseCount ?t5" by code_simp
  have "\<not> Option.is_none (sync_streams 0 example_added)" by code_simp
  then have s1: "sync_streams 0 example_added = Some (fst example_taken, snd example_taken)"
    by (auto simp: Option.is_none_def example_taken_def)
  have "\<not> Option.is_none (sync_streams (fst example_taken) example_removed)" by code_simp
  then have s2: "sync_streams (fst example_taken) example_removed = Some (fst example_released, snd example_released)"
    by (auto simp: Option.is_none_def example_released_def)
  have "?s\<^sup>*\<^sup>* (Idle, Ready, 0, ?t0) (Inserted, Ready, 0, ?t1)"
    by (rule r_into_rtranclp) (rule add_insert)
  also have "?s (Inserted, Ready, 0, ?t1) (Idle, Ready, 0, example_added)"
    using request [of ?t1 "example_tx_env 0 0" Ready 0] p(1) eq1 by simp
  also have "?s (Idle, Ready, 0, example_added) (Idle, Synced, fst example_taken, ?t2)"
    by (rule worker_sync [OF p(2) s1])
  also have "?s (Idle, Synced, fst example_taken, ?t2) (Idle, Ready, fst example_taken, ?t3)" by (rule worker_respond)
  also have "?s (Idle, Ready, fst example_taken, ?t3) (Erased 3, Ready, fst example_taken, ?t4)" by (rule remove_erase)
  also have "?s (Erased 3, Ready, fst example_taken, ?t4) (Waiting 3, Ready, fst example_taken, example_removed)"
    using remove_request [of ?t4 "example_tx_env 0 0" 3 Ready "fst example_taken"] p(3) eq2 by simp
  also have "?s (Waiting 3, Ready, fst example_taken, example_removed) (Waiting 3, Synced, fst example_released, snd example_released)"
    by (rule worker_sync [OF p(4) s2])
  also have "?s (Waiting 3, Synced, fst example_released, snd example_released) (Waiting 3, Ready, fst example_released, ?t5)"
    by (rule worker_respond)
  finally have run: "?s\<^sup>*\<^sup>* (Idle, Ready, 0, ?t0) (Waiting 3, Ready, fst example_released, ?t5)" .
  have "stream_set ?t2 = {3}"
    using sync_streams_ok(1) [OF s1] by (simp add: example_added_def sequencer_new_def it_ok_def)
  moreover have "3 \<notin> mActiveStreams ?t5 \<and> 3 \<notin> stream_set ?t5"
    by (rule removed_stream_released [OF _ _ _ run c]) (simp_all add: sequencer_new_def)
  ultimately show ?thesis using run by blast
qed

section \<open>The accounts\<close>

definition required :: "tspec_tables \<Rightarrow> (nat \<Rightarrow> IasAvbTSpec option) \<Rightarrow> nat \<Rightarrow> nat" where
  "required tables spec i = (case spec i of None \<Rightarrow> 0 | Some s \<Rightarrow> unat (getRequiredBandwidth tables s))"

definition accounts_ok :: "tspec_tables \<Rightarrow> (nat \<Rightarrow> IasAvbTSpec option) \<Rightarrow> nat \<Rightarrow> 'a sequencer \<Rightarrow> bool" where
  "accounts_ok tables spec limit t \<longleftrightarrow>
     finite (mActiveStreams t) \<and> (\<forall>i. mTSpec (streams t i) = spec i) \<and>
     unat (txMaxBandwidth (mConfig t)) = limit \<and>
     unat (mCurrentBandwidth t) = (\<Sum>i \<in> mActiveStreams t. required tables spec i) \<and>
     unat (mCurrentBandwidth t) \<le> limit"

text \<open>What the worker thread leaves alone while a client waits for it.\<close>

definition worker_keeps :: "('a sequencer \<Rightarrow> 'a sequencer option) \<Rightarrow> bool" where
  "worker_keeps worker \<longleftrightarrow>
     (\<forall>t t'. worker t = Some t' \<longrightarrow>
        mActiveStreams t' = mActiveStreams t \<and> mCurrentBandwidth t' = mCurrentBandwidth t \<and>
        txMaxBandwidth (mConfig t') = txMaxBandwidth (mConfig t) \<and>
        (\<forall>i. mTSpec (streams t' i) = mTSpec (streams t i)))"

datatype account_request = Add nat | Remove nat

text \<open>The requests of a client; a stream is added when it is not active and removed when it is.\<close>

definition account_step ::
  "'a tx_env \<Rightarrow> ('a sequencer \<Rightarrow> 'a sequencer option) \<Rightarrow> account_request \<Rightarrow> 'a sequencer \<Rightarrow> 'a sequencer option" where
  "account_step env worker q t =
     (case q of
        Add i \<Rightarrow> if i \<in> mActiveStreams t then Some t else map_option snd (addStreamToTransmitList env (Some i) t)
      | Remove i \<Rightarrow> if i \<in> mActiveStreams t then map_option snd (removeStreamFromTransmitList env worker (Some i) t)
                    else Some t)"

primrec account_run ::
  "'a tx_env \<Rightarrow> ('a sequencer \<Rightarrow> 'a sequencer option) \<Rightarrow> account_request list \<Rightarrow> 'a sequencer \<Rightarrow> 'a sequencer option"
where
  "account_run env worker [] t = Some t"
| "account_run env worker (q # qs) t = Option.bind (account_step env worker q t) (account_run env worker qs)"

lemma updateShaper_frame: "updateShaper env t = Some t' \<Longrightarrow> \<exists>g. t' = t\<lparr>igb := g\<rparr>"
proof -
  assume u: "updateShaper env t = Some t'"
  then obtain z where z: "idle_slope env t = Some z" by (auto simp: updateShaper_def)
  obtain x y where "shaper_registers env z t = (x, y)" by fastforce
  with u z show ?thesis by (auto simp: updateShaper_def Let_def split: if_splits intro: exI [of _ "igb t"])
qed

lemma accounts_simps [simp]:
  "accounts_ok tables spec limit (t\<lparr>igb := g\<rparr>) = accounts_ok tables spec limit t"
  "accounts_ok tables spec limit (t\<lparr>mMaxFrameSizeHigh := m\<rparr>) = accounts_ok tables spec limit t"
  "accounts_ok tables spec limit (t\<lparr>mRequestCount := r\<rparr>) = accounts_ok tables spec limit t"
  "accounts_ok tables spec limit (t\<lparr>mCurrentMaxIntervalFrames := f\<rparr>) = accounts_ok tables spec limit t"
  by (simp_all add: accounts_ok_def)

lemma updateShaper_accounts:
  assumes "updateShaper env t = Some t'"
  shows "accounts_ok tables spec limit t' = accounts_ok tables spec limit t"
proof -
  from updateShaper_frame [OF assms] obtain g where "t' = t\<lparr>igb := g\<rparr>" by blast
  then show ?thesis by (simp only: accounts_simps)
qed

lemma add_accounts:
  assumes ok: "accounts_ok (te_tables env) spec limit t" and i: "i \<notin> mActiveStreams t"
    and small: "required (te_tables env) spec i + limit < 2 ^ 32"
    and run: "addStreamToTransmitList env (Some i) t = Some (res, t')"
  shows "accounts_ok (te_tables env) spec limit t'"
proof -
  from run obtain s where s: "mTSpec (streams t i) = Some s"
    by (auto simp: addStreamToTransmitList_def bind_eq_Some_conv)
  let ?new = "mCurrentBandwidth t + getRequiredBandwidth (te_tables env) s"
    and ?frames = "mCurrentMaxIntervalFrames t + ucast (mMaxIntervalFrames s)"
  define t1 where "t1 = t\<lparr>mCurrentBandwidth := ?new, mCurrentMaxIntervalFrames := ?frames\<rparr>"
  have spec: "required (te_tables env) spec i = unat (getRequiredBandwidth (te_tables env) s)"
    using ok s by (simp add: accounts_ok_def required_def)
  have sum: "unat ?new = unat (mCurrentBandwidth t) + required (te_tables env) spec i"
    unfolding spec using ok small spec by (intro unat_add_small) (simp add: accounts_ok_def)
  show ?thesis
  proof (cases "t' = t")
    case True
    with ok show ?thesis by simp
  next
    case False
    with run s obtain t2 where fits: "\<not> txMaxBandwidth (mConfig t) < ucast ?new"
      and t2: "(if mUseShaper t1
           then updateShaper env (if mClass t1 = eIasAvbSrClassHigh \<and> mMaxFrameSizeHigh t1 < ucast (mMaxFrameSize s)
                                  then t1\<lparr>mMaxFrameSizeHigh := ucast (mMaxFrameSize s)\<rparr> else t1)
           else Some t1) = Some t2"
      and t': "t' = t2\<lparr>mActiveStreams := insert i (mActiveStreams t2), mRequestCount := mRequestCount t2 + 1\<rparr>"
      unfolding addStreamToTransmitList_def t1_def Let_def
      by (auto simp: bind_eq_Some_conv split: if_split_asm)
    have "unat (ucast ?new :: u64) \<le> limit"
      using fits ok by (simp add: accounts_ok_def word_less_nat_alt)
    then have "unat ?new \<le> limit" by (simp add: unat_ucast_up)
    then have "accounts_ok (te_tables env) spec limit (t1\<lparr>mActiveStreams := insert i (mActiveStreams t1)\<rparr>)"
      using ok i sum by (simp add: accounts_ok_def t1_def)
    moreover from t2 obtain m g where "t2 = t1\<lparr>mMaxFrameSizeHigh := m, igb := g\<rparr>"
    proof -
      have id: "t1\<lparr>mMaxFrameSizeHigh := mMaxFrameSizeHigh t1, igb := igb t1\<rparr> = t1" by simp
      from t2 show thesis
      proof (cases "mUseShaper t1")
        case False
        with t2 id that show thesis by (metis option.inject)
      next
        case True
        define t0 where "t0 = (if mClass t1 = eIasAvbSrClassHigh \<and> mMaxFrameSizeHigh t1 < ucast (mMaxFrameSize s)
            then t1\<lparr>mMaxFrameSizeHigh := ucast (mMaxFrameSize s)\<rparr> else t1)"
        have t0: "t0 = t1\<lparr>mMaxFrameSizeHigh := mMaxFrameSizeHigh t0\<rparr>" by (simp add: t0_def)
        from True t2 have "updateShaper env t0 = Some t2" by (simp add: t0_def)
        then obtain g where "t2 = t0\<lparr>igb := g\<rparr>" using updateShaper_frame by blast
        then have "t2 = t1\<lparr>mMaxFrameSizeHigh := mMaxFrameSizeHigh t0, igb := g\<rparr>" using t0 by metis
        then show thesis by (rule that)
      qed
    qed
    ultimately show ?thesis unfolding t' by (simp add: accounts_ok_def)
  qed
qed

lemma remove_accounts:
  assumes ok: "accounts_ok (te_tables env) spec limit t" and i: "i \<in> mActiveStreams t" and w: "worker_keeps worker"
    and run: "removeStreamFromTransmitList env worker (Some i) t = Some (res, t')"
  shows "accounts_ok (te_tables env) spec limit t'"
proof -
  from run obtain s where s: "mTSpec (streams t i) = Some s"
    by (auto simp: removeStreamFromTransmitList_def bind_eq_Some_conv)
  let ?b = "getRequiredBandwidth (te_tables env) s"
  have spec: "required (te_tables env) spec i = unat ?b"
    using ok s by (simp add: accounts_ok_def required_def)
  have split: "(\<Sum>j \<in> mActiveStreams t. required (te_tables env) spec j)
      = unat ?b + (\<Sum>j \<in> mActiveStreams t - {i}. required (te_tables env) spec j)"
    unfolding spec [symmetric] using ok i by (intro sum.remove) (simp_all add: accounts_ok_def)
  show ?thesis
  proof (cases "t' = t")
    case True
    with ok show ?thesis by simp
  next
    case False
    with run s obtain r t1 where req: "remove_request worker i t = Some (r, t1)"
      and rest: "(if r \<noteq> eIasAvbProcOK then Some (r, t1)
          else let t = t1\<lparr>mCurrentBandwidth := mCurrentBandwidth t1 - ?b,
                          mCurrentMaxIntervalFrames := mCurrentMaxIntervalFrames t1 - ucast (mMaxIntervalFrames s)\<rparr>
               in if mUseShaper t
                  then Option.bind
                         (if mClass t = eIasAvbSrClassHigh \<and> mMaxFrameSizeHigh t \<le> ucast (mMaxFrameSize s)
                          then max_frame (sorted_list_of_set (mActiveStreams t)) t 0 else Some (mMaxFrameSizeHigh t))
                         (\<lambda>m. Option.bind (updateShaper env (t\<lparr>mMaxFrameSizeHigh := m\<rparr>)) (\<lambda>t. Some (eIasAvbProcOK, t)))
                  else Some (eIasAvbProcOK, t)) = Some (res, t')"
      unfolding removeStreamFromTransmitList_def Let_def
      by (auto simp: bind_eq_Some_conv split: if_split_asm)
    have req': "mCurrentBandwidth t1 = mCurrentBandwidth t \<and> txMaxBandwidth (mConfig t1) = txMaxBandwidth (mConfig t) \<and>
        (\<forall>j. mTSpec (streams t1 j) = mTSpec (streams t j)) \<and>
        mActiveStreams t1 = (if r = eIasAvbProcOK then mActiveStreams t - {i} else insert i (mActiveStreams t - {i}))"
    proof (cases "mTransmitThread t = Some True")
      case False
      with req show ?thesis by (auto simp: remove_request_def)
    next
      case True
      with req obtain t2 where t2: "worker (t\<lparr>mActiveStreams := mActiveStreams t - {i}, mRequestCount := mRequestCount t + 1\<rparr>) = Some t2"
        and t1: "(r, t1) = (if mRequestCount t2 \<noteq> mResponseCount t2
             then (eIasAvbProcErr, t2\<lparr>mActiveStreams := insert i (mActiveStreams t2), mRequestCount := mRequestCount t2 + 1\<rparr>)
             else (eIasAvbProcOK, t2))"
        by (auto simp: remove_request_def bind_eq_Some_conv)
      have "mActiveStreams t2 = mActiveStreams t - {i}" "mCurrentBandwidth t2 = mCurrentBandwidth t"
        "txMaxBandwidth (mConfig t2) = txMaxBandwidth (mConfig t)" "\<forall>j. mTSpec (streams t2 j) = mTSpec (streams t j)"
        using w [unfolded worker_keeps_def, rule_format, OF t2] by simp_all
      with t1 show ?thesis by (auto split: if_splits)
    qed
    show ?thesis
    proof (cases "r = eIasAvbProcOK")
      case False
      with rest have "t' = t1" by simp
      with req' False ok i show ?thesis by (simp add: accounts_ok_def insert_absorb)
    next
      case True
      let ?t = "t1\<lparr>mCurrentBandwidth := mCurrentBandwidth t1 - ?b,
                   mCurrentMaxIntervalFrames := mCurrentMaxIntervalFrames t1 - ucast (mMaxIntervalFrames s)\<rparr>"
      have le: "unat ?b \<le> unat (mCurrentBandwidth t)" using ok split by (simp add: accounts_ok_def)
      have "accounts_ok (te_tables env) spec limit ?t"
        using req' True ok split unat_sub_small [OF le] by (simp add: accounts_ok_def)
      note ok' = this
      from rest True consider "t' = ?t"
        | m t2 where "updateShaper env (?t\<lparr>mMaxFrameSizeHigh := m\<rparr>) = Some t2" "t' = t2"
        | t2 where "updateShaper env ?t = Some t2" "t' = t2"
        by (auto simp: Let_def bind_eq_Some_conv split: if_split_asm)
      then show ?thesis
      proof cases
        case 2
        from updateShaper_accounts [OF 2(1)] ok' 2(2) show ?thesis by (simp only: accounts_simps)
      next
        case 3
        from updateShaper_accounts [OF 3(1)] ok' 3(2) show ?thesis by (simp only: accounts_simps)
      qed (use ok' in simp)
    qed
  qed
qed


text \<open>Two streams are added and one is removed.\<close>

definition example_accounts :: "unit sequencer" where
  "example_accounts = (sequencer_new (\<lambda>_. example_sender))\<lparr>mTransmitThread := Some False\<rparr>"


end
