(* ===== verification/Stream_Map.thy ===== *)
theory Stream_Map
  imports Prelude
begin

text \<open>
  \<^verbatim>\<open>std::map\<close> with a stream id as key, as both engines use it: a list of pairs that is sorted by the
  key, with \<^verbatim>\<open>find\<close> as \<open>map_of\<close>. The laws are on the abstraction \<open>map_of\<close>; the order of the keys
  is what an iteration over the map sees.
\<close>

primrec put_stream :: "'k::linorder \<Rightarrow> 'd \<Rightarrow> ('k \<times> 'd) list \<Rightarrow> ('k \<times> 'd) list" where
  "put_stream k d [] = [(k, d)]"
| "put_stream k d (x # xs) =
     (if k < fst x then (k, d) # x # xs else if k = fst x then (k, d) # xs else x # put_stream k d xs)"

definition erase_stream :: "'k::linorder \<Rightarrow> ('k \<times> 'd) list \<Rightarrow> ('k \<times> 'd) list" where
  "erase_stream k xs = filter (\<lambda>x. fst x \<noteq> k) xs"

definition keys_ok :: "('k::linorder \<times> 'd) list \<Rightarrow> bool" where
  "keys_ok xs \<longleftrightarrow> sorted_wrt (<) (map fst xs)"

lemma map_of_put [simp]: "map_of (put_stream k d xs) = (map_of xs)(k \<mapsto> d)"
  by (induction xs) auto

lemma map_of_erase [simp]: "map_of (erase_stream k xs) = (map_of xs)(k := None)"
  by (induction xs) (auto simp: erase_stream_def)

lemma keys_put: "fst ` set (put_stream k d xs) = insert k (fst ` set xs)"
  by (induction xs) auto

lemma keys_erase: "fst ` set (erase_stream k xs) = fst ` set xs - {k}"
  by (auto simp: erase_stream_def)

lemma keys_ok_put [simp]: "keys_ok xs \<Longrightarrow> keys_ok (put_stream k d xs)"
  unfolding keys_ok_def
proof (induction xs)
  case (Cons x xs)
  then show ?case using keys_put [of k d xs] by (fastforce simp flip: set_map)
qed simp

lemma keys_ok_erase [simp]: "keys_ok xs \<Longrightarrow> keys_ok (erase_stream k xs)"
  unfolding keys_ok_def erase_stream_def by (induction xs) auto

lemma keys_ok_Nil [simp]: "keys_ok []"
  by (simp add: keys_ok_def)

lemma keys_ok_distinct: "keys_ok xs \<Longrightarrow> distinct (map fst xs)"
  unfolding keys_ok_def by (induction xs) auto

text \<open>Writing to an entry leaves the order alone.\<close>

lemma put_keeps_keys: "keys_ok xs \<Longrightarrow> map_of xs k \<noteq> None \<Longrightarrow> map fst (put_stream k d xs) = map fst xs"
  unfolding keys_ok_def
proof (induction xs)
  case (Cons x xs)
  show ?case
  proof (cases "k \<in> fst ` set xs")
    case True
    then show ?thesis using Cons by (auto simp: map_of_eq_None_iff dest: less_asym)
  next
    case False
    then have "map_of xs k = None" by (simp add: map_of_eq_None_iff)
    then show ?thesis using Cons.prems by (cases x) (auto split: if_splits)
  qed
qed simp

end
