(* ===== verification/Receive_Engine.thy ===== *)
theory Receive_Engine
  imports Stream_Map Avb_Stream "HOL-Library.Monad_Syntax"
begin

text \<open>
  \<^verbatim>\<open>IasAvbReceiveEngine\<close> (\<^verbatim>\<open>IasAvbReceiveEngine.hpp/.cpp\<close>, with \<^verbatim>\<open>DIRECT_RX_DMA\<close> as in the build
  files): the thread that takes received frames from the network driver and hands them to the streams.
  The map of the streams is a sorted list of pairs (theory \<open>Stream_Map\<close>); the streams are part of the engine, which
  owns them. The calls that leave the engine are recorded in it: the notifications of the event
  interface, the multicast memberships and the register writes. \<open>rx_env\<close> holds the answers from outside:
  the virtual functions of the streams by their type, the registry, sockets, the driver, the thread and
  watchdog libraries. The result \<open>None\<close> is undefined behaviour. What is only logged is left out.
\<close>

section \<open>Constants\<close>

definition cRxIgnoreStreamId :: string where "cRxIgnoreStreamId = ''receive.ignore.streamid''"
definition cRxIdleWait :: string where "cRxIdleWait = ''receive.idlewait''"
definition cRxDiscardAfter :: string where "cRxDiscardAfter = ''receive.discard.after''"
definition cRxDiscardOverrun :: string where "cRxDiscardOverrun = ''receive.discard.overrun''"
definition cRxRecoverIgbReceiver :: string where "cRxRecoverIgbReceiver = ''receive.recover.igb.receiver''"

definition ETH_P_8021Q :: u16 where "ETH_P_8021Q = 0x8100"
definition ETH_P_IEEE1722 :: u16 where "ETH_P_IEEE1722 = 0x22F0"
definition RCTL :: u32 where "RCTL = 0x00100"
definition RCTL_RXEN :: u32 where "RCTL_RXEN = 2"
definition SRRCTL :: "nat \<Rightarrow> u32" where
  "SRRCTL n = (if n < 4 then 0x0280C + of_nat n * 0x100 else 0x0C00C + of_nat n * 0x40)"
definition RXDCTL :: "nat \<Rightarrow> u32" where
  "RXDCTL n = (if n < 4 then 0x02828 + of_nat n * 0x100 else 0x0C028 + of_nat n * 0x40)"
definition cSrrCtlDropEn :: u32 where "cSrrCtlDropEn = 0x80000000"
definition cReceivePoolSize :: nat where "cReceivePoolSize = 256"
definition cReceiveBufferSize :: nat where "cReceiveBufferSize = 2048"

section \<open>State\<close>

record 's RxStreamData =
  rd_stream :: 's
  lastState :: IasAvbStreamState
  lastTimeDispatched :: u64

record 'a IasAvbReceiveEngine =
  mEndThread :: bool
  mReceiveThread :: "bool option"
  mAvbStreams :: "(u64 \<times> 'a IasAvbStream_scheme RxStreamData) list"
  mEventInterface :: "nat option"
  mReceiveSocket :: bool
  mIgnoreStreamId :: bool
  mWatchdog :: "bool option"
  mIgbDevice :: bool
  mRcvPacketPool :: "IasAvbPacketPool option"
  mPacketList :: "pkt_ref list"
  mRecoverIgbReceiver :: bool
  events :: "(u64 \<times> IasAvbStreamState) list"
  memberships :: "(bool \<times> u8 list) list"
  registers :: "(u32 \<times> u32) list"

type_synonym 'a rx_engine = "'a IasAvbReceiveEngine"

record 'a rx_env =
  re_vtable :: "IasAvbStreamType \<Rightarrow> 'a IasAvbStream_scheme stream_vtable"
  re_connectTo :: "nat option \<Rightarrow> 'a IasAvbStream_scheme \<Rightarrow> (IasAvbProcessingResult \<times> 'a IasAvbStream_scheme) option"
  re_registry :: "registry option"
  re_tables :: tspec_tables
  re_pool :: pool_env
  re_newPool :: bool
  re_newThread :: bool
  re_watchdogEnabled :: bool
  re_newWatchdog :: bool
  re_wdRegister :: bool
  re_threadStart :: bool
  re_threadStop :: bool
  re_interfaceName :: bool
  re_socket :: bool
  re_ifIndex :: bool
  re_ifFlags :: bool
  re_bind :: bool
  re_setsockopt :: "nat \<Rightarrow> bool"
  re_igbDevice :: bool
  re_refresh :: "nat \<Rightarrow> bool"
  re_igbLock :: bool
  re_flexFilter :: bool
  re_readReg :: "u32 \<Rightarrow> u32"

text \<open>\<^verbatim>\<open>mReceiveThread\<close> and \<^verbatim>\<open>mWatchdog\<close> are \<open>None\<close> for NULL; else whether the thread runs and the watchdog is
  registered. \<^verbatim>\<open>mReceiveSocket\<close> tells whether the socket is open, \<^verbatim>\<open>mIgbDevice\<close> whether the device is known.\<close>

definition engine_new :: "'a rx_engine" where
  "engine_new =
     \<lparr>mEndThread = False, mReceiveThread = None, mAvbStreams = [], mEventInterface = None, mReceiveSocket = False,
      mIgnoreStreamId = False, mWatchdog = None, mIgbDevice = False, mRcvPacketPool = None, mPacketList = [],
      mRecoverIgbReceiver = True, events = [], memberships = [], registers = []\<rparr>"

section \<open>The map of streams\<close>

definition isValidStreamId :: "u64 \<Rightarrow> 'a rx_engine \<Rightarrow> bool" where
  "isValidStreamId k e \<longleftrightarrow> map_of (mAvbStreams e) k \<noteq> None"

definition getStreamById :: "u64 \<Rightarrow> 'a rx_engine \<Rightarrow> 'a IasAvbStream_scheme option" where
  "getStreamById k e = map_option rd_stream (map_of (mAvbStreams e) k)"

definition checkStreamIdInUse :: "u64 \<Rightarrow> 'a rx_engine \<Rightarrow> IasAvbProcessingResult" where
  "checkStreamIdInUse k e = (if isValidStreamId k e then eIasAvbProcAlreadyInUse else eIasAvbProcOK)"

section \<open>Dispatching\<close>

text \<open>A change of the stream state is reported once; the result tells whether the stream is valid.\<close>

definition checkStreamState ::
  "'a IasAvbStream_scheme RxStreamData \<Rightarrow> 'a rx_engine \<Rightarrow>
     (bool \<times> 'a IasAvbStream_scheme RxStreamData \<times> 'a rx_engine) option" where
  "checkStreamState d e =
     (let newState = mStreamState (rd_stream d) in
      if lastState d \<noteq> newState then do {
        streamId \<leftarrow> mAvbStreamId (rd_stream d);
        Some (newState = eIasAvbStreamValid, d\<lparr>lastState := newState\<rparr>,
              if mEventInterface e \<noteq> None then e\<lparr>events := events e @ [(mStreamId streamId, newState)]\<rparr> else e)
      }
      else Some (newState = eIasAvbStreamValid, d, e))"

definition rx_dispatch ::
  "'a rx_env \<Rightarrow> u8 list option \<Rightarrow> nat \<Rightarrow> u64 \<Rightarrow> 'a IasAvbStream_scheme RxStreamData \<Rightarrow> 'a rx_engine \<Rightarrow>
     (bool \<times> 'a IasAvbStream_scheme RxStreamData \<times> 'a rx_engine) option" where
  "rx_dispatch env packet n now d e =
     do {
       (_, d, e) \<leftarrow> checkStreamState d e;
       s \<leftarrow> dispatchPacket (re_vtable env (mStreamType (rd_stream d))) (re_tables env) packet n now (rd_stream d);
       checkStreamState (d\<lparr>rd_stream := s, lastTimeDispatched := now\<rparr>) e
     }"

text \<open>The dispatch through an iterator, which names an entry of the map.\<close>

definition dispatch_at ::
  "'a rx_env \<Rightarrow> u8 list option \<Rightarrow> nat \<Rightarrow> u64 \<Rightarrow> u64 \<Rightarrow> 'a rx_engine \<Rightarrow> (bool \<times> 'a rx_engine) option" where
  "dispatch_at env packet n now k e =
     do {
       d \<leftarrow> map_of (mAvbStreams e) k;
       (valid, d, e) \<leftarrow> rx_dispatch env packet n now d e;
       Some (valid, e\<lparr>mAvbStreams := put_stream k d (mAvbStreams e)\<rparr>)
     }"

primrec dispatch_all :: "'a rx_env \<Rightarrow> u64 \<Rightarrow> u64 list \<Rightarrow> 'a rx_engine \<Rightarrow> 'a rx_engine option" where
  "dispatch_all env now [] e = Some e"
| "dispatch_all env now (k # ks) e = do { (_, e) \<leftarrow> dispatch_at env None 0 now k e; dispatch_all env now ks e }"

definition reset_watchdog :: "'a rx_env \<Rightarrow> 'a rx_engine \<Rightarrow> 'a rx_engine" where
  "reset_watchdog env e =
     (if mWatchdog e = Some False
      then (if re_wdRegister env then e\<lparr>mWatchdog := Some True\<rparr> else e\<lparr>mEndThread := True\<rparr>) else e)"

section \<open>Received frames\<close>

text \<open>The entry for a stream id: the stream itself, or the wildcard stream, which becomes a regular one if the
  destination address of the frame is its own, or any stream in the mode that ignores stream ids.\<close>

definition find_stream :: "u64 \<Rightarrow> u8 list \<Rightarrow> 'a rx_engine \<Rightarrow> u64 option \<times> 'a rx_engine" where
  "find_stream k dmac e =
     (let (it, e) =
            (if isValidStreamId k e then (Some k, e)
             else case map_of (mAvbStreams e) 0 of
                    None \<Rightarrow> (None, e)
                  | Some d \<Rightarrow>
                      if mDmac (rd_stream d) = dmac then
                        (Some k, e\<lparr>mAvbStreams := put_stream k (d\<lparr>rd_stream := changeStreamId (streamId_of_u64 k) (rd_stream d)\<rparr>)
                                                  (erase_stream 0 (mAvbStreams e))\<rparr>)
                      else if mDmac (rd_stream d) = replicate cIasAvbMacAddressLength 0 then (Some 0, e)
                      else (None, e))
      in (if mIgnoreStreamId e \<and> it = None
          then (case mAvbStreams e of [] \<Rightarrow> None | x # _ \<Rightarrow> Some (fst x)) else it, e))"

text \<open>Where the AVTP part of a frame begins, if it has one.\<close>

definition avtp_base :: "u8 list \<Rightarrow> nat option option" where
  "avtp_base frame =
     do {
       ethType \<leftarrow> ntohs_at frame 12;
       let off = (if ethType = ETH_P_8021Q then 16 else 12);
       ethType \<leftarrow> ntohs_at frame off;
       Some (if ethType = ETH_P_IEEE1722 then Some (off + 2) else None)
     }"

text \<open>Whether a frame is for the streams at all; \<open>discardAfter\<close> is given when late frames are discarded.\<close>

definition wanted :: "u32 option \<Rightarrow> u64 \<Rightarrow> u8 list \<Rightarrow> bool option" where
  "wanted discardAfter now avtp =
     do {
       flags \<leftarrow> fetch avtp 1;
       if flags AND 0x80 = 0 then Some False
       else case discardAfter of
              None \<Rightarrow> Some True
            | Some limit \<Rightarrow>
                if flags AND 0x01 \<noteq> 0
                then map_option (\<lambda>timestamp. \<not> limit <s ucast now - timestamp) (ntohl_at avtp 12)
                else Some True
     }"

definition setSmac_at :: "u64 \<Rightarrow> u8 list \<Rightarrow> 'a rx_engine \<Rightarrow> 'a rx_engine option" where
  "setSmac_at k sMac e =
     do {
       d \<leftarrow> map_of (mAvbStreams e) k;
       Some (e\<lparr>mAvbStreams := put_stream k (d\<lparr>rd_stream := setSmac sMac (rd_stream d)\<rparr>) (mAvbStreams e)\<rparr>)
     }"

definition dispatch_frame ::
  "'a rx_env \<Rightarrow> u64 \<Rightarrow> u8 list \<Rightarrow> s32 \<Rightarrow> nat \<Rightarrow> u64 \<Rightarrow> 'a rx_engine \<Rightarrow> 'a rx_engine option" where
  "dispatch_frame env now frame recv_length base k e =
     do {
       dmac \<leftarrow> slice frame 0 6;
       let (it, e) = find_stream k dmac e;
       case it of
         None \<Rightarrow> Some e
       | Some i \<Rightarrow> do {
           sMac \<leftarrow> slice frame 6 6;
           d \<leftarrow> map_of (mAvbStreams e) i;
           (valid, e) \<leftarrow> dispatch_at env (Some (drop base frame))
                            (unat (of_int (sint recv_length - int base) :: u64)) now i e;
           if valid
           then map_option (reset_watchdog env) (if mSmac (rd_stream d) \<noteq> sMac then setSmac_at i sMac e else Some e)
           else Some e
         }
     }"

text \<open>\<open>avbStreamId\<close> of the thread is overwritten by the eight bytes of \<^verbatim>\<open>setStreamId\<close>.\<close>

definition handle_frame ::
  "'a rx_env \<Rightarrow> u32 option \<Rightarrow> u64 \<Rightarrow> u8 list \<Rightarrow> s32 \<Rightarrow> 'a rx_engine \<Rightarrow> 'a rx_engine option" where
  "handle_frame env discardAfter now frame recv_length e =
     do {
       base \<leftarrow> avtp_base frame;
       case base of
         None \<Rightarrow> Some e
       | Some base \<Rightarrow> do {
           avbStreamId \<leftarrow> streamId_of_bytes (Some (drop (base + 4) frame));
           wanted \<leftarrow> wanted discardAfter now (drop base frame);
           if wanted then dispatch_frame env now frame recv_length base (mStreamId avbStreamId) e else Some e
         }
     }"

section \<open>The thread\<close>

text \<open>What the driver answers in one round of the receive loop: whether the buffer at hand could be put back, the
  answer of \<^verbatim>\<open>igb_receive\<close> (an error, no packet, or a packet with its length) and whether \<^verbatim>\<open>errno\<close> is
  \<^verbatim>\<open>EAGAIN\<close> or \<^verbatim>\<open>EWOULDBLOCK\<close>.\<close>

datatype igb_answer = Igb_error | Igb_nothing | Igb_packet "u8 list" s32

record rx_poll =
  rp_refresh :: bool
  rp_answer :: igb_answer
  rp_again :: bool

definition leave_polling :: "rx_poll \<Rightarrow> 'a rx_engine \<Rightarrow> 'a rx_engine" where
  "leave_polling p e = (if rp_again p then e else e\<lparr>mEndThread := True\<rparr>)"

definition recover_receiver :: "'a rx_env \<Rightarrow> 'a rx_engine \<Rightarrow> 'a rx_engine" where
  "recover_receiver env e =
     (if mRecoverIgbReceiver e \<and> re_readReg env RCTL AND RCTL_RXEN = 0
      then e\<lparr>registers := registers e @ [(RCTL, re_readReg env RCTL OR RCTL_RXEN)]\<rparr> else e)"

text \<open>The loop over the answers until there is no packet; \<open>packet\<close> tells whether a buffer is at hand. The
  elapsed time is reset by a packet.\<close>

primrec poll_loop ::
  "'a rx_env \<Rightarrow> u32 option \<Rightarrow> u64 \<Rightarrow> rx_poll list \<Rightarrow> bool \<Rightarrow> u32 \<Rightarrow> 'a rx_engine \<Rightarrow> (bool \<times> u32 \<times> 'a rx_engine) option"
where
  "poll_loop env discardAfter now [] packet elapsed e = Some (packet, elapsed, e)"
| "poll_loop env discardAfter now (p # ps) packet elapsed e =
     (if packet \<and> \<not> rp_refresh p then Some (True, elapsed, leave_polling p e)
      else case rp_answer p of
             Igb_error \<Rightarrow> Some (False, elapsed, leave_polling p (recover_receiver env e))
           | Igb_nothing \<Rightarrow> Some (False, elapsed, leave_polling p e)
           | Igb_packet frame recv_length \<Rightarrow>
               if recv_length <s 0 then Some (True, 0, leave_polling p e)
               else if recv_length = 0 then poll_loop env discardAfter now ps True 0 e
               else do {
                 e \<leftarrow> handle_frame env discardAfter now frame recv_length e;
                 poll_loop env discardAfter now ps True 0 e
               })"

record rx_options =
  ro_cycleWait :: u32
  ro_idleWait :: u32
  ro_discardAfter :: "u32 option"

definition read_options :: "'a rx_env \<Rightarrow> rx_options" where
  "read_options env =
     (let get = getConfigValue (ucast :: u64 \<Rightarrow> u32) (re_registry env);
          (idleFound, idle) = get cRxIdleWait 25000;
          (discardFound, discardAfter) = get cRxDiscardAfter 0
      in \<lparr>ro_cycleWait = snd (get cRxCycleWait 2000000), ro_idleWait = (if idleFound then idle div 1000 else idle),
          ro_discardAfter = (if discardFound then Some discardAfter else None)\<rparr>)"

text \<open>The variables of the thread.\<close>

record rx_loop =
  rl_packet :: bool
  rl_elapsed :: u32
  rl_now :: u64
  rl_lastCheck :: u64

definition overdue :: "rx_options \<Rightarrow> u64 \<Rightarrow> u64 \<Rightarrow> bool" where
  "overdue opts now t \<longleftrightarrow> now - t > ucast (ro_idleWait opts * 1000)"

definition idle_round :: "'a rx_env \<Rightarrow> rx_loop \<Rightarrow> 'a rx_engine \<Rightarrow> (rx_loop \<times> 'a rx_engine) option" where
  "idle_round env l e =
     do {
       e \<leftarrow> dispatch_all env (rl_now l) (map fst (mAvbStreams e)) e;
       Some (l\<lparr>rl_elapsed := 0\<rparr>, reset_watchdog env e)
     }"

definition check_round ::
  "'a rx_env \<Rightarrow> rx_options \<Rightarrow> rx_loop \<Rightarrow> 'a rx_engine \<Rightarrow> (rx_loop \<times> 'a rx_engine) option" where
  "check_round env opts l e =
     do {
       e \<leftarrow> dispatch_all env (rl_now l)
              (map fst (filter (\<lambda>x. overdue opts (rl_now l) (lastTimeDispatched (snd x))) (mAvbStreams e))) e;
       Some (l\<lparr>rl_lastCheck := rl_now l\<rparr>, reset_watchdog env e)
     }"

definition poll_round ::
  "'a rx_env \<Rightarrow> rx_options \<Rightarrow> rx_poll list \<Rightarrow> rx_loop \<Rightarrow> 'a rx_engine \<Rightarrow> (rx_loop \<times> 'a rx_engine) option" where
  "poll_round env opts ps l e =
     do {
       (packet, elapsed, e) \<leftarrow> poll_loop env (ro_discardAfter opts) (rl_now l) ps (rl_packet l) (rl_elapsed l) e;
       Some (l\<lparr>rl_packet := packet, rl_elapsed := elapsed\<rparr>, e)
     }"

text \<open>One round of the thread: \<open>linkDown\<close> tells whether it had to wait for the link, \<open>now\<close> is the time read at
  its end.\<close>

definition rx_round ::
  "'a rx_env \<Rightarrow> rx_options \<Rightarrow> bool \<Rightarrow> rx_poll list \<Rightarrow> u64 \<Rightarrow> rx_loop \<times> 'a rx_engine \<Rightarrow> (rx_loop \<times> 'a rx_engine) option"
where
  "rx_round env opts linkDown ps now le =
     (let (l, e) = le;
          e = (if linkDown then e\<lparr>mWatchdog := map_option (\<lambda>_. False) (mWatchdog e)\<rparr> else e)
      in do {
        (l, e) \<leftarrow>
          (if rl_elapsed l div 1000 \<ge> ro_idleWait opts then idle_round env l e
           else do {
             (l, e) \<leftarrow> (if overdue opts (rl_now l) (rl_lastCheck l) then check_round env opts l e
                        else poll_round env opts ps l e);
             Some (l\<lparr>rl_elapsed := rl_elapsed l + ro_cycleWait opts\<rparr>, e)
           });
        Some (l\<lparr>rl_now := now\<rparr>, e)
      })"

definition rx_begin :: "u64 \<Rightarrow> rx_loop" where
  "rx_begin now = \<lparr>rl_packet = False, rl_elapsed = 0, rl_now = now, rl_lastCheck = now\<rparr>"

definition rx_beforeRun :: "'a rx_engine \<Rightarrow> 'a rx_engine" where
  "rx_beforeRun e = e\<lparr>mEndThread := False\<rparr>"

definition rx_shutDown :: "'a rx_engine \<Rightarrow> 'a rx_engine" where
  "rx_shutDown e = e\<lparr>mEndThread := True\<rparr>"

section \<open>Creating, connecting and destroying streams\<close>

definition bindMcastAddr :: "'a rx_env \<Rightarrow> u8 list \<Rightarrow> bool \<Rightarrow> 'a rx_engine \<Rightarrow> IasAvbProcessingResult \<times> 'a rx_engine" where
  "bindMcastAddr env mac add e =
     (if re_setsockopt env (length (memberships e)) then eIasAvbProcOK else eIasAvbProcErr,
      e\<lparr>memberships := memberships e @ [(add, mac)]\<rparr>)"

text \<open>The creation of a receive stream, the same for the three types: \<open>outcome\<close> is \<open>None\<close> if there is no
  memory for the object, and else the result of its \<^verbatim>\<open>initReceive\<close>.\<close>

definition createReceiveStream ::
  "'a rx_env \<Rightarrow> (IasAvbProcessingResult \<times> 'a IasAvbStream_scheme) option \<Rightarrow> IasAvbStreamId \<Rightarrow> u8 list \<Rightarrow> 'a rx_engine \<Rightarrow>
     IasAvbProcessingResult \<times> 'a rx_engine" where
  "createReceiveStream env outcome streamId destMacAddr e =
     (let k = mStreamId streamId in
      if checkStreamIdInUse k e \<noteq> eIasAvbProcOK then (checkStreamIdInUse k e, e)
      else case outcome of
             None \<Rightarrow> (eIasAvbProcNotEnoughMemory, e)
           | Some (result, s) \<Rightarrow>
               if result \<noteq> eIasAvbProcOK then (result, e)
               else
                 let d = \<lparr>rd_stream = s, lastState = mStreamState s, lastTimeDispatched = 0\<rparr>;
                     (result, e) = bindMcastAddr env destMacAddr True (e\<lparr>mAvbStreams := put_stream k d (mAvbStreams e)\<rparr>)
                 in if result \<noteq> eIasAvbProcOK then (result, e\<lparr>mAvbStreams := erase_stream k (mAvbStreams e)\<rparr>)
                    else (result, e))"

definition rx_destroyAvbStream :: "'a rx_env \<Rightarrow> u64 \<Rightarrow> 'a rx_engine \<Rightarrow> IasAvbProcessingResult \<times> 'a rx_engine" where
  "rx_destroyAvbStream env k e =
     (case map_of (mAvbStreams e) k of
        None \<Rightarrow> (eIasAvbProcInvalidParam, e)
      | Some d \<Rightarrow> (eIasAvbProcOK,
                   snd (bindMcastAddr env (mDmac (rd_stream d)) False
                          (e\<lparr>mAvbStreams := erase_stream k (mAvbStreams e)\<rparr>))))"

definition connect_at ::
  "'a rx_env \<Rightarrow> u64 \<Rightarrow> nat option \<Rightarrow> 'a IasAvbStream_scheme RxStreamData \<Rightarrow> 'a rx_engine \<Rightarrow>
     (IasAvbProcessingResult \<times> 'a rx_engine) option" where
  "connect_at env k localStream d e =
     do {
       (result, s) \<leftarrow> re_connectTo env localStream (rd_stream d);
       Some (result, e\<lparr>mAvbStreams := put_stream k (d\<lparr>rd_stream := s\<rparr>) (mAvbStreams e)\<rparr>)
     }"

text \<open>\<^verbatim>\<open>connectAudioStreams\<close> and \<^verbatim>\<open>connectVideoStreams\<close>, by the type they ask for.\<close>

definition rx_connectStreams ::
  "'a rx_env \<Rightarrow> IasAvbStreamType \<Rightarrow> u64 \<Rightarrow> nat option \<Rightarrow> 'a rx_engine \<Rightarrow> (IasAvbProcessingResult \<times> 'a rx_engine) option"
where
  "rx_connectStreams env streamType k localStream e =
     (case map_of (mAvbStreams e) k of
        None \<Rightarrow> Some (eIasAvbProcInvalidParam, e)
      | Some d \<Rightarrow> if mStreamType (rd_stream d) = streamType then connect_at env k localStream d e
                  else Some (eIasAvbProcInvalidParam, e))"

definition rx_disconnectStreams ::
  "'a rx_env \<Rightarrow> u64 \<Rightarrow> 'a rx_engine \<Rightarrow> (IasAvbProcessingResult \<times> 'a rx_engine) option" where
  "rx_disconnectStreams env k e =
     (case map_of (mAvbStreams e) k of
        None \<Rightarrow> Some (eIasAvbProcInvalidParam, e)
      | Some d \<Rightarrow>
          if mStreamType (rd_stream d) = eIasAvbVideoStream \<or> mStreamType (rd_stream d) = eIasAvbAudioStream
          then connect_at env k None d e else Some (eIasAvbProcInvalidParam, e))"

section \<open>Set-up and control\<close>

definition rx_registerEventInterface :: "nat option \<Rightarrow> 'a rx_engine \<Rightarrow> IasAvbProcessingResult \<times> 'a rx_engine" where
  "rx_registerEventInterface eventInterface e =
     (if mReceiveThread e = None then (eIasAvbProcNotInitialized, e)
      else if eventInterface = None then (eIasAvbProcInvalidParam, e)
      else if mEventInterface e \<noteq> None then (eIasAvbProcAlreadyInUse, e)
      else (eIasAvbProcOK, e\<lparr>mEventInterface := eventInterface\<rparr>))"

definition rx_unregisterEventInterface :: "nat option \<Rightarrow> 'a rx_engine \<Rightarrow> IasAvbProcessingResult \<times> 'a rx_engine" where
  "rx_unregisterEventInterface eventInterface e =
     (if mReceiveThread e = None then (eIasAvbProcNotInitialized, e)
      else if eventInterface = None \<or> mEventInterface e \<noteq> eventInterface then (eIasAvbProcInvalidParam, e)
      else (eIasAvbProcOK, e\<lparr>mEventInterface := None\<rparr>))"

text \<open>The buffers handed to the driver, until the pool is empty or the driver refuses one; \<open>k\<close> counts the calls.\<close>

primrec give_buffers ::
  "nat \<Rightarrow> (nat \<Rightarrow> bool) \<Rightarrow> nat \<Rightarrow> IasAvbPacketPool \<Rightarrow> pkt_ref list \<Rightarrow> (pkt_ref list \<times> IasAvbPacketPool) option" where
  "give_buffers 0 refresh k pool packetList = Some (packetList, pool)"
| "give_buffers (Suc n) refresh k pool packetList =
     do {
       (packet, pool) \<leftarrow> getPacket pool;
       case packet of
         None \<Rightarrow> Some (packetList, pool)
       | Some r \<Rightarrow> if refresh k then give_buffers n refresh (Suc k) pool (packetList @ [r]) else Some (packetList, pool)
     }"

text \<open>The pool is deleted right after its packets have been returned to it, of which nothing is left.\<close>

definition stopIgbReceiveEngine :: "'a rx_engine \<Rightarrow> 'a rx_engine" where
  "stopIgbReceiveEngine e =
     (let e = (if mIgbDevice e then e\<lparr>registers := registers e @ [(RXDCTL 0, 0)]\<rparr> else e)
      in e\<lparr>mPacketList := [], mRcvPacketPool := None\<rparr>)"

definition setup_filter :: "'a rx_env \<Rightarrow> 'a rx_engine \<Rightarrow> IasAvbProcessingResult \<times> 'a rx_engine" where
  "setup_filter env e =
     (if \<not> re_igbLock env \<or> \<not> re_flexFilter env then (eIasAvbProcInitializationFailed, e)
      else
        let rxDiscardOverrun = snd (doGetConfigValue (re_registry env) cRxDiscardOverrun 0);
            srrCtlReg = re_readReg env (SRRCTL 0)
        in (eIasAvbProcOK,
            e\<lparr>registers := registers e @
                [(SRRCTL 0, if rxDiscardOverrun = 0 then srrCtlReg AND NOT cSrrCtlDropEn else srrCtlReg OR cSrrCtlDropEn)]\<rparr>))"

definition startIgb_body :: "'a rx_env \<Rightarrow> 'a rx_engine \<Rightarrow> (IasAvbProcessingResult \<times> 'a rx_engine) option" where
  "startIgb_body env e =
     (let e = e\<lparr>mIgbDevice := re_igbDevice env\<rparr> in
      if \<not> mIgbDevice e \<or> mRcvPacketPool e \<noteq> None then Some (eIasAvbProcInitializationFailed, e)
      else if \<not> re_newPool env then Some (eIasAvbProcNotEnoughMemory, e)
      else do {
        (result, pool) \<leftarrow> pool_init cReceiveBufferSize cReceivePoolSize (re_pool env) (pool_new 0);
        if result \<noteq> eIasAvbProcOK then Some (result, e\<lparr>mRcvPacketPool := Some pool\<rparr>)
        else do {
          (packetList, pool) \<leftarrow> give_buffers (Suc (length (mFreeBufferStack pool))) (re_refresh env) 0 pool (mPacketList e);
          let e = e\<lparr>mRcvPacketPool := Some pool, mPacketList := packetList\<rparr>;
          Some (if length packetList < cReceivePoolSize then (eIasAvbProcNotEnoughMemory, e) else setup_filter env e)
        }
      })"

definition startIgbReceiveEngine :: "'a rx_env \<Rightarrow> 'a rx_engine \<Rightarrow> (IasAvbProcessingResult \<times> 'a rx_engine) option" where
  "startIgbReceiveEngine env e =
     do {
       (result, e) \<leftarrow> startIgb_body env e;
       Some (result, if result \<noteq> eIasAvbProcOK then stopIgbReceiveEngine e else e)
     }"

definition rx_start :: "'a rx_env \<Rightarrow> 'a rx_engine \<Rightarrow> (IasAvbProcessingResult \<times> 'a rx_engine) option" where
  "rx_start env e =
     do {
       (result, e) \<leftarrow> startIgbReceiveEngine env e;
       if result \<noteq> eIasAvbProcOK then Some (result, e)
       else
         let (result, e) =
               (case mReceiveThread e of
                  None \<Rightarrow> (eIasAvbProcNullPointerAccess, e)
                | Some running \<Rightarrow>
                    if running \<or> re_threadStart env then (eIasAvbProcOK, e\<lparr>mReceiveThread := Some True\<rparr>)
                    else (eIasAvbProcThreadStartFailed, e))
         in Some (result, if result \<noteq> eIasAvbProcOK then stopIgbReceiveEngine e else e)
     }"

definition rx_stop :: "'a rx_env \<Rightarrow> 'a rx_engine \<Rightarrow> IasAvbProcessingResult \<times> 'a rx_engine" where
  "rx_stop env e =
     (case mReceiveThread e of
        None \<Rightarrow> (eIasAvbProcNullPointerAccess, e)
      | Some running \<Rightarrow>
          if running then
            (if re_threadStop env
             then (eIasAvbProcOK, stopIgbReceiveEngine ((rx_shutDown e)\<lparr>mReceiveThread := Some False\<rparr>))
             else (eIasAvbProcThreadStopFailed, e))
          else (eIasAvbProcOK, e))"

definition closeSocket :: "'a rx_engine \<Rightarrow> 'a rx_engine" where
  "closeSocket e = e\<lparr>mReceiveSocket := False\<rparr>"

text \<open>A socket that is open already is closed by the failing call.\<close>

definition openReceiveSocket :: "'a rx_env \<Rightarrow> 'a rx_engine \<Rightarrow> IasAvbProcessingResult \<times> 'a rx_engine" where
  "openReceiveSocket env e =
     (if mReceiveSocket e \<or> \<not> re_interfaceName env then (eIasAvbProcInitializationFailed, closeSocket e)
      else if \<not> re_socket env \<or> \<not> re_ifIndex env \<or> \<not> re_ifFlags env \<or> \<not> re_bind env
      then (eIasAvbProcInitializationFailed, closeSocket (e\<lparr>mReceiveSocket := re_socket env\<rparr>))
      else (eIasAvbProcOK, e\<lparr>mReceiveSocket := True\<rparr>))"

definition rx_cleanup :: "'a rx_engine \<Rightarrow> 'a rx_engine" where
  "rx_cleanup e =
     (let e = (if mReceiveThread e = Some True then rx_shutDown e else e)
      in stopIgbReceiveEngine (closeSocket (e\<lparr>mReceiveThread := None, mWatchdog := None, mAvbStreams := []\<rparr>)))"

definition rx_init :: "'a rx_env \<Rightarrow> 'a rx_engine \<Rightarrow> IasAvbProcessingResult \<times> 'a rx_engine" where
  "rx_init env e =
     (if mReceiveThread e \<noteq> None then (eIasAvbProcInitializationFailed, e)
      else
        let reg = re_registry env;
            (found, ignore) = doGetConfigValue reg cRxIgnoreStreamId 0;
            e = e\<lparr>mIgnoreStreamId := (found \<and> ignore \<noteq> 0), mReceiveThread := (if re_newThread env then Some False else None)\<rparr>;
            e = e\<lparr>mRecoverIgbReceiver := snd (getConfigValue (\<lambda>v. v \<noteq> 0) reg cRxRecoverIgbReceiver (mRecoverIgbReceiver e))\<rparr>;
            (result, e) = (if re_newThread env then openReceiveSocket env e else (eIasAvbProcInitializationFailed, e));
            (result, e) =
              (if result = eIasAvbProcOK \<and> snd (doGetConfigValue reg cUseWatchdog 0) \<noteq> 0 \<and> re_watchdogEnabled env
               then (if re_newWatchdog env then (eIasAvbProcOK, e\<lparr>mWatchdog := Some False\<rparr>)
                     else (eIasAvbProcInitializationFailed, e))
               else (result, e))
        in (result, if result \<noteq> eIasAvbProcOK then rx_cleanup e else e))"

definition emergencyShutdown :: "'a rx_env \<Rightarrow> 'a rx_engine \<Rightarrow> 'a rx_engine" where
  "emergencyShutdown env e =
     (if mIgbDevice e \<and> re_igbLock env then e\<lparr>registers := registers e @ [(RXDCTL 0, 0)]\<rparr> else e)"

end
