(* ===== verification/Receive_Frames.thy ===== *)
theory Receive_Frames
  imports Receive_Engine
begin

text \<open>
  What the receive engine relies on in the streams, as the locale \<open>receiving\<close> (over \<open>same_stream\<close> of
  theory \<open>Avb_Stream\<close>), and the lemmas on the operations of the engine: the entries of the map they change, the notifications they send, the times of the
  dispatches. The property here is that a frame reaches the stream it is meant for and no other.
\<close>

section \<open>The contract of the streams\<close>

lemma countTimestamp_same: "countTimestamp t bytes now s = Some s' \<Longrightarrow> same_stream s s'"
  unfolding countTimestamp_def Let_def
  by (elim option_elims) (simp_all only: same_stream_refl same_stream_diag)

text \<open>Reading a packet and connecting leave alone what identifies a stream; connecting also its state.\<close>

locale receiving =
  fixes read :: "u8 list option \<Rightarrow> nat \<Rightarrow> 'a IasAvbStream_scheme \<Rightarrow> 'a IasAvbStream_scheme option"
    and connect :: "nat option \<Rightarrow> 'a IasAvbStream_scheme \<Rightarrow> (IasAvbProcessingResult \<times> 'a IasAvbStream_scheme) option"
  assumes read_same: "read p n s = Some s' \<Longrightarrow> same_stream s s'"
    and connect_same: "connect l s = Some (r, s') \<Longrightarrow> same_stream s s' \<and> mStreamState s' = mStreamState s"
begin

lemma dispatch_same:
  assumes "v_readFromAvbPacket v = read" "dispatchPacket v t p n now s = Some s'"
  shows "same_stream s s'"
  using assms(2) unfolding dispatchPacket_def assms(1)
  by (elim option_elims)
    (auto split: option.splits dest: read_same countTimestamp_same intro: same_stream_trans)

end

definition engine_streams :: "'a rx_env \<Rightarrow> bool" where
  "engine_streams env \<longleftrightarrow> (\<forall>ty. receiving (v_readFromAvbPacket (re_vtable env ty)) (re_connectTo env))"

lemma engine_dispatch_same:
  "engine_streams env \<Longrightarrow> dispatchPacket (re_vtable env ty) t p n now s = Some s' \<Longrightarrow> same_stream s s'"
  unfolding engine_streams_def using receiving.dispatch_same by blast

lemma engine_connect_same:
  "engine_streams env \<Longrightarrow> re_connectTo env l s = Some (r, s') \<Longrightarrow> same_stream s s' \<and> mStreamState s' = mStreamState s"
  unfolding engine_streams_def using receiving.connect_same by blast

section \<open>Notifications\<close>

text \<open>The changes along a sequence of states.\<close>

primrec changes :: "u64 \<Rightarrow> IasAvbStreamState \<Rightarrow> IasAvbStreamState list \<Rightarrow> (u64 \<times> IasAvbStreamState) list" where
  "changes i old [] = []"
| "changes i old (x # xs) = (if x = old then [] else [(i, x)]) @ changes i x xs"

definition notices :: "'a rx_engine \<Rightarrow> (u64 \<times> IasAvbStreamState) list \<Rightarrow> (u64 \<times> IasAvbStreamState) list" where
  "notices e xs = (if mEventInterface e = None then [] else xs)"

lemma checkStreamState_Some:
  "checkStreamState d e = Some (valid, d', e') \<longleftrightarrow>
     (lastState d = mStreamState (rd_stream d) \<or> mAvbStreamId (rd_stream d) \<noteq> None) \<and>
     valid = (mStreamState (rd_stream d) = eIasAvbStreamValid) \<and> d' = d\<lparr>lastState := mStreamState (rd_stream d)\<rparr> \<and>
     e' = e\<lparr>events := events e @ notices e (changes (mStreamId (the (mAvbStreamId (rd_stream d)))) (lastState d)
                                             [mStreamState (rd_stream d)])\<rparr>"
  by (auto simp: checkStreamState_def Let_def bind_eq_Some_conv notices_def)

text \<open>What one dispatch does to the entry and to the engine.\<close>

lemma rx_dispatch_Some:
  assumes "engine_streams env" "rx_dispatch env p n now d e = Some (valid, d', e')"
  obtains s' where "dispatchPacket (re_vtable env (mStreamType (rd_stream d))) (re_tables env) p n now (rd_stream d) = Some s'"
    and "same_stream (rd_stream d) s'" "valid = (mStreamState s' = eIasAvbStreamValid)"
    and "d' = \<lparr>rd_stream = s', lastState = mStreamState s', lastTimeDispatched = now\<rparr>"
    and "e' = e\<lparr>events := events e @ notices e (changes (mStreamId (the (mAvbStreamId (rd_stream d)))) (lastState d)
                                             [mStreamState (rd_stream d), mStreamState s'])\<rparr>"
proof -
  from assms(2) obtain v1 d1 e1 s' where 1: "checkStreamState d e = Some (v1, d1, e1)"
    and 2: "dispatchPacket (re_vtable env (mStreamType (rd_stream d1))) (re_tables env) p n now (rd_stream d1) = Some s'"
    and 3: "checkStreamState (d1\<lparr>rd_stream := s', lastTimeDispatched := now\<rparr>) e1 = Some (valid, d', e')"
    by (auto simp: rx_dispatch_def bind_eq_Some_conv)
  from 1 have d1: "d1 = d\<lparr>lastState := mStreamState (rd_stream d)\<rparr>" by (simp add: checkStreamState_Some)
  with 2 have s': "dispatchPacket (re_vtable env (mStreamType (rd_stream d))) (re_tables env) p n now (rd_stream d) = Some s'"
    by simp
  note same = engine_dispatch_same [OF assms(1) s']
  show thesis
  proof (rule that [OF s' same])
    show "valid = (mStreamState s' = eIasAvbStreamValid)" using 3 by (simp add: checkStreamState_Some)
    show "d' = \<lparr>rd_stream = s', lastState = mStreamState s', lastTimeDispatched = now\<rparr>"
      using 3 d1 by (simp add: checkStreamState_Some)
    have "mAvbStreamId s' = mAvbStreamId (rd_stream d)" using same by (simp add: same_stream_def)
    then show "e' = e\<lparr>events := events e @ notices e (changes (mStreamId (the (mAvbStreamId (rd_stream d)))) (lastState d)
                                             [mStreamState (rd_stream d), mStreamState s'])\<rparr>"
      using 1 3 d1 by (auto simp: checkStreamState_Some notices_def)
  qed
qed

lemma dispatch_at_Some:
  assumes "engine_streams env" "dispatch_at env p n now k e = Some (valid, e')"
  obtains d s' where "map_of (mAvbStreams e) k = Some d"
    and "dispatchPacket (re_vtable env (mStreamType (rd_stream d))) (re_tables env) p n now (rd_stream d) = Some s'"
    and "same_stream (rd_stream d) s'" "valid = (mStreamState s' = eIasAvbStreamValid)"
    and "e' = e\<lparr>events := events e @ notices e (changes (mStreamId (the (mAvbStreamId (rd_stream d)))) (lastState d)
                                             [mStreamState (rd_stream d), mStreamState s']),
               mAvbStreams := put_stream k \<lparr>rd_stream = s', lastState = mStreamState s', lastTimeDispatched = now\<rparr>
                                (mAvbStreams e)\<rparr>"
proof -
  from assms(2) obtain d d' e1 where d: "map_of (mAvbStreams e) k = Some d"
    and r: "rx_dispatch env p n now d e = Some (valid, d', e1)"
    and e': "e' = e1\<lparr>mAvbStreams := put_stream k d' (mAvbStreams e1)\<rparr>"
    by (auto simp: dispatch_at_def bind_eq_Some_conv)
  show thesis by (rule rx_dispatch_Some [OF assms(1) r]) (rule that [OF d]; simp add: e')
qed

section \<open>The stream of a frame\<close>

text \<open>The reference for the search, on the abstract map: the entry for the stream id, else the wildcard entry
  if its address is that of the frame, in which case it moves to the stream id, or zero.\<close>

definition target ::
  "u64 \<Rightarrow> u8 list \<Rightarrow> (u64 \<rightharpoonup> 'a IasAvbStream_scheme RxStreamData) \<Rightarrow>
     (u64 \<times> (u64 \<rightharpoonup> 'a IasAvbStream_scheme RxStreamData)) option" where
  "target k dmac m =
     (case m k of
        Some d \<Rightarrow> Some (k, m)
      | None \<Rightarrow>
          (case m 0 of
             None \<Rightarrow> None
           | Some d \<Rightarrow>
               if mDmac (rd_stream d) = dmac
               then Some (k, m(0 := None, k \<mapsto> d\<lparr>rd_stream := changeStreamId (streamId_of_u64 k) (rd_stream d)\<rparr>))
               else if mDmac (rd_stream d) = replicate cIasAvbMacAddressLength 0 then Some (0, m)
               else None))"

lemma find_stream_target:
  assumes "\<not> mIgnoreStreamId e" "find_stream k dmac e = (it, e')"
  shows "case target k dmac (map_of (mAvbStreams e)) of
           None \<Rightarrow> it = None \<and> e' = e
         | Some (j, m) \<Rightarrow> it = Some j \<and> (\<exists>xs. e' = e\<lparr>mAvbStreams := xs\<rparr> \<and> map_of xs = m \<and> (keys_ok (mAvbStreams e) \<longrightarrow> keys_ok xs)) \<and> m j \<noteq> None"
proof (cases "map_of (mAvbStreams e) k")
  case (Some d)
  with assms have "it = Some k" "e' = e" by (auto simp: find_stream_def isValidStreamId_def Let_def)
  with Some show ?thesis by (auto simp: target_def intro!: exI [of _ "mAvbStreams e"])
next
  case None
  note new = this
  show ?thesis
  proof (cases "map_of (mAvbStreams e) 0")
    case None
    with new assms show ?thesis by (simp add: find_stream_def isValidStreamId_def Let_def target_def)
  next
    case (Some d)
    consider "mDmac (rd_stream d) = dmac"
      | "mDmac (rd_stream d) \<noteq> dmac" "mDmac (rd_stream d) = replicate cIasAvbMacAddressLength 0"
      | "mDmac (rd_stream d) \<noteq> dmac" "mDmac (rd_stream d) \<noteq> replicate cIasAvbMacAddressLength 0" by blast
    then show ?thesis
    proof cases
      case 1
      with new Some assms show ?thesis
        by (auto simp: find_stream_def isValidStreamId_def Let_def target_def)
    next
      case 2
      with new Some assms show ?thesis
        by (auto simp: find_stream_def isValidStreamId_def Let_def target_def intro!: exI [of _ "mAvbStreams e"])
    next
      case 3
      with new Some assms show ?thesis by (simp add: find_stream_def isValidStreamId_def Let_def target_def)
    qed
  qed
qed

lemma setSmac_same: "same_stream s s' \<Longrightarrow> mSmac s = sMac \<Longrightarrow> setSmac sMac s' = s'"
  by (simp add: same_stream_def setSmac_def)

lemma dispatch_frame_target:
  assumes "engine_streams env" "\<not> mIgnoreStreamId e" "dispatch_frame env now frame n base k e = Some e'"
  shows "case target k (take 6 frame) (map_of (mAvbStreams e)) of
           None \<Rightarrow> e' = e
         | Some (j, m) \<Rightarrow>
             (\<exists>s'. dispatchPacket (re_vtable env (mStreamType (rd_stream (the (m j))))) (re_tables env) (Some (drop base frame))
                     (unat (of_int (sint n - int base) :: u64)) now (rd_stream (the (m j))) = Some s' \<and>
                   map_of (mAvbStreams e') =
                     m(j \<mapsto> \<lparr>rd_stream = (if mStreamState s' = eIasAvbStreamValid then setSmac (take 6 (drop 6 frame)) s' else s'),
                             lastState = mStreamState s', lastTimeDispatched = now\<rparr>))"
proof -
  obtain it e1 where f: "find_stream k (take 6 frame) e = (it, e1)" by fastforce
  note t = find_stream_target [OF assms(2) f]
  have six: "slice frame 0 6 = Some (take 6 frame)" using assms(3)
    by (auto simp: dispatch_frame_def bind_eq_Some_conv slice_def split: if_splits)
  show ?thesis
  proof (cases it)
    case None
    with assms(3) f six have "e' = e1" by (simp add: dispatch_frame_def)
    with None t show ?thesis by (auto split: option.splits)
  next
    case (Some i)
    with t obtain m where m: "target k (take 6 frame) (map_of (mAvbStreams e)) = Some (i, m)"
      and e1: "map_of (mAvbStreams e1) = m"
      by (auto split: option.splits)
    from assms(3) f six Some obtain sMac d valid e2 where sMac: "slice frame 6 6 = Some sMac"
      and d: "map_of (mAvbStreams e1) i = Some d"
      and at: "dispatch_at env (Some (drop base frame)) (unat (of_int (sint n - int base) :: u64)) now i e1 = Some (valid, e2)"
      and e': "(if valid then map_option (reset_watchdog env) (if mSmac (rd_stream d) \<noteq> sMac then setSmac_at i sMac e2 else Some e2)
                else Some e2) = Some e'"
      by (auto simp: dispatch_frame_def bind_eq_Some_conv)
    from sMac have sMac': "sMac = take 6 (drop 6 frame)" by (auto simp: slice_def split: if_splits)
    obtain s' where
      s': "dispatchPacket (re_vtable env (mStreamType (rd_stream d))) (re_tables env) (Some (drop base frame))
             (unat (of_int (sint n - int base) :: u64)) now (rd_stream d) = Some s'"
      and same: "same_stream (rd_stream d) s'" and valid: "valid = (mStreamState s' = eIasAvbStreamValid)"
      and e2: "map_of (mAvbStreams e2) = (map_of (mAvbStreams e1))(i \<mapsto> \<lparr>rd_stream = s', lastState = mStreamState s', lastTimeDispatched = now\<rparr>)"
      by (rule dispatch_at_Some [OF assms(1) at]) (use d in auto)
    have "map_of (mAvbStreams e') = m(i \<mapsto> \<lparr>rd_stream = (if mStreamState s' = eIasAvbStreamValid then setSmac (take 6 (drop 6 frame)) s' else s'),
                             lastState = mStreamState s', lastTimeDispatched = now\<rparr>)"
      using e' e2 e1 valid sMac' setSmac_same [OF same, of sMac]
      by (auto simp: setSmac_at_def reset_watchdog_def split: if_splits)
    with m s' d e1 show ?thesis by auto
  qed
qed

end
