(* ===== verification/Receive_Service.thy ===== *)
theory Receive_Service
  imports Receive_Frames
begin

text \<open>
  The service of the receive engine to its client and to the streams: the client that is notified of
  every change knows the state of each stream, and no stream waits longer than twice the idle time for
  a dispatch.
\<close>

section \<open>What the client knows\<close>

primrec apply_events :: "(u64 \<times> IasAvbStreamState) list \<Rightarrow> (u64 \<rightharpoonup> IasAvbStreamState) \<Rightarrow> (u64 \<rightharpoonup> IasAvbStreamState)" where
  "apply_events [] v = v"
| "apply_events (x # xs) v = apply_events xs (v(fst x \<mapsto> snd x))"

lemma apply_append [simp]: "apply_events (xs @ ys) v = apply_events ys (apply_events xs v)"
  by (induction xs arbitrary: v) simp_all

lemma apply_changes: "v i = Some old \<Longrightarrow> apply_events (changes i old xs) v = v(i \<mapsto> last (old # xs))"
  by (induction xs arbitrary: old v) (auto simp: fun_upd_idem)

definition known :: "'a rx_engine \<Rightarrow> (u64 \<rightharpoonup> IasAvbStreamState)" where
  "known e = map_option lastState \<circ> map_of (mAvbStreams e)"

text \<open>Every entry is under the id of its stream; there is no wildcard stream and a client is registered.\<close>

definition regular :: "'a rx_engine \<Rightarrow> bool" where
  "regular e \<longleftrightarrow>
     mEventInterface e \<noteq> None \<and> map_of (mAvbStreams e) 0 = None \<and>
     (\<forall>k d. map_of (mAvbStreams e) k = Some d \<longrightarrow> mAvbStreamId (rd_stream d) = Some (streamId_of_u64 k))"

text \<open>A step keeps the engine regular, and its notifications tell what it did to the last states.\<close>

definition tells :: "'a rx_engine \<Rightarrow> 'a rx_engine \<Rightarrow> bool" where
  "tells e e' \<longleftrightarrow>
     (\<exists>new. events e' = events e @ new \<and> (regular e \<longrightarrow> regular e' \<and> apply_events new (known e) = known e'))"

lemma tells_refl [simp]: "tells e e"
  by (simp add: tells_def)

lemma tells_trans: "tells e e' \<Longrightarrow> tells e' e'' \<Longrightarrow> tells e e''"
  by (fastforce simp: tells_def)

lemma tells_same:
  "events e' = events e \<Longrightarrow> mAvbStreams e' = mAvbStreams e \<Longrightarrow> mEventInterface e' = mEventInterface e \<Longrightarrow> tells e e'"
  by (auto simp: tells_def regular_def known_def)

lemma reset_watchdog_tells: "tells e (reset_watchdog env e)"
  by (rule tells_same) (simp_all add: reset_watchdog_def)

lemma dispatch_at_tells:
  assumes "engine_streams env" "dispatch_at env p n now k e = Some (valid, e')"
  shows "tells e e'"
proof (rule dispatch_at_Some [OF assms])
  fix d s'
  assume d: "map_of (mAvbStreams e) k = Some d" and same: "same_stream (rd_stream d) s'"
    and e': "e' = e\<lparr>events := events e @ notices e (changes (mStreamId (the (mAvbStreamId (rd_stream d)))) (lastState d)
                                             [mStreamState (rd_stream d), mStreamState s']),
               mAvbStreams := put_stream k \<lparr>rd_stream = s', lastState = mStreamState s', lastTimeDispatched = now\<rparr>
                                (mAvbStreams e)\<rparr>"
  show "tells e e'"
    unfolding tells_def
  proof (intro exI conjI impI)
    show "events e' = events e @ notices e (changes (mStreamId (the (mAvbStreamId (rd_stream d)))) (lastState d)
                                             [mStreamState (rd_stream d), mStreamState s'])" by (simp add: e')
  next
    assume r: "regular e"
    then have id: "mAvbStreamId (rd_stream d) = Some (streamId_of_u64 k)" and "mEventInterface e \<noteq> None" and "k \<noteq> 0"
      using d by (auto simp: regular_def)
    with same r show "regular e'" by (auto simp: regular_def e' same_stream_def)
    have "known e k = Some (lastState d)" by (simp add: known_def d)
    from apply_changes [where v = "known e", OF this] \<open>mEventInterface e \<noteq> None\<close>
    show "apply_events (notices e (changes (mStreamId (the (mAvbStreamId (rd_stream d)))) (lastState d)
            [mStreamState (rd_stream d), mStreamState s'])) (known e) = known e'"
      by (auto simp: notices_def id streamId_of_u64_def known_def e' fun_eq_iff simp del: changes.simps)
  qed
qed

lemma dispatch_all_tells: "engine_streams env \<Longrightarrow> dispatch_all env now ks e = Some e' \<Longrightarrow> tells e e'"
  by (induction ks arbitrary: e) (auto elim!: result_elims dest: dispatch_at_tells intro: tells_trans)

lemma setSmac_at_tells: "setSmac_at k sMac e = Some e' \<Longrightarrow> tells e e'"
  by (auto simp: setSmac_at_def tells_def regular_def known_def setSmac_def fun_eq_iff elim!: result_elims)

lemma leave_polling_tells: "tells e (leave_polling p e)"
  by (rule tells_same) (simp_all add: leave_polling_def)

lemma recover_receiver_tells: "tells e (recover_receiver env e)"
  by (rule tells_same) (simp_all add: recover_receiver_def)

text \<open>Without a wildcard stream the search changes nothing.\<close>

lemma find_stream_regular: "regular e \<Longrightarrow> find_stream k dmac e = (it, e') \<Longrightarrow> e' = e"
  by (auto simp: find_stream_def regular_def Let_def split: if_splits)

lemma dispatch_frame_tells:
  assumes "engine_streams env" "dispatch_frame env now frame n base k e = Some e'" "regular e"
  shows "tells e e'"
proof -
  obtain it e1 where f: "find_stream k (take 6 frame) e = (it, e1)" by fastforce
  then have e1: "e1 = e" using assms(3) by (rule find_stream_regular [rotated])
  have six: "slice frame 0 6 = Some (take 6 frame)" using assms(2)
    by (auto simp: dispatch_frame_def bind_eq_Some_conv slice_def split: if_splits)
  show ?thesis
    using assms(2) unfolding dispatch_frame_def six f e1 Let_def
    by (elim option_SomeE result_elims)
      (auto elim!: result_elims dest!: dispatch_at_tells [OF assms(1)] setSmac_at_tells
        intro: tells_trans reset_watchdog_tells simp: f e1)
qed

lemma tells_regular: "tells e e' \<Longrightarrow> regular e \<Longrightarrow> regular e'"
  by (auto simp: tells_def)

lemma handle_frame_tells:
  "engine_streams env \<Longrightarrow> handle_frame env discardAfter now frame n e = Some e' \<Longrightarrow> regular e \<Longrightarrow> tells e e'"
  unfolding handle_frame_def by (elim result_elims) (auto dest: dispatch_frame_tells)

lemma poll_loop_tells:
  "engine_streams env \<Longrightarrow> poll_loop env discardAfter now ps packet elapsed e = Some (packet', elapsed', e') \<Longrightarrow>
     regular e \<Longrightarrow> tells e e'"
proof (induction ps arbitrary: packet elapsed e)
  case (Cons p ps)
  show ?case
  proof (cases "\<exists>frame n. rp_answer p = Igb_packet frame n \<and> \<not> n <s 0 \<and> n \<noteq> 0 \<and> (packet \<longrightarrow> rp_refresh p)")
    case True
    then obtain frame n where "rp_answer p = Igb_packet frame n" "\<not> n <s 0" "n \<noteq> 0" "packet \<longrightarrow> rp_refresh p" by blast
    with Cons.prems(2) obtain e1 where 1: "handle_frame env discardAfter now frame n e = Some e1"
      and 2: "poll_loop env discardAfter now ps True 0 e1 = Some (packet', elapsed', e')"
      by (auto elim!: option_elims)
    note t = handle_frame_tells [OF Cons.prems(1) 1 Cons.prems(3)]
    show ?thesis using Cons.IH [OF Cons.prems(1) 2 tells_regular [OF t Cons.prems(3)]] t by (rule tells_trans [rotated])
  next
    case False
    with Cons show ?thesis
      by (auto split: if_splits igb_answer.splits intro: leave_polling_tells tells_trans recover_receiver_tells)
  qed
qed simp

lemma rx_round_tells:
  assumes "engine_streams env" "rx_round env opts linkDown ps now (l, e) = Some (l', e')" "regular e"
  shows "tells e e'"
proof -
  define e0 where "e0 = (if linkDown then e\<lparr>mWatchdog := map_option (\<lambda>_. False) (mWatchdog e)\<rparr> else e)"
  have t: "tells e e0" by (rule tells_same) (simp_all add: e0_def)
  note reg = tells_regular [OF t assms(3)]
  have "tells e0 e'"
    using assms(2) [unfolded rx_round_def Let_def, simplified, folded e0_def] reg
    unfolding idle_round_def check_round_def poll_round_def
    by (elim option_elims)
      (auto elim!: option_elims dest!: dispatch_all_tells [OF assms(1)] poll_loop_tells [OF assms(1)]
        intro: tells_trans reset_watchdog_tells)
  with t show ?thesis by (rule tells_trans)
qed

section \<open>The client\<close>

text \<open>The requests that reach the engine: a round of the thread, the creation and the destruction of a stream,
  and any change to a stream from outside, such as connecting it or a report of the local stream.\<close>

datatype 'a rx_request =
    Round bool "rx_poll list" u64
  | Create "(IasAvbProcessingResult \<times> 'a IasAvbStream_scheme) option" IasAvbStreamId "u8 list"
  | Destroy u64
  | Change u64 "'a IasAvbStream_scheme \<Rightarrow> 'a IasAvbStream_scheme"

definition proper :: "'a rx_request \<Rightarrow> bool" where
  "proper q =
     (case q of
        Create outcome streamId mac \<Rightarrow>
          mStreamId streamId \<noteq> 0 \<and>
          (\<forall>s. outcome = Some (eIasAvbProcOK, s) \<longrightarrow> mAvbStreamId s = Some streamId \<and> mStreamState s = eIasAvbStreamInactive)
      | Change k f \<Rightarrow> (\<forall>s. same_stream s (f s))
      | _ \<Rightarrow> True)"

text \<open>The client keeps the states it is told, takes a new stream to be inactive and forgets a destroyed one.\<close>

definition rx_request ::
  "'a rx_env \<Rightarrow> rx_options \<Rightarrow> 'a rx_request \<Rightarrow> (u64 \<rightharpoonup> IasAvbStreamState) \<times> rx_loop \<times> 'a rx_engine \<Rightarrow>
     ((u64 \<rightharpoonup> IasAvbStreamState) \<times> rx_loop \<times> 'a rx_engine) option" where
  "rx_request env opts q st =
     (let (v, l, e) = st in
      case q of
        Round linkDown ps now \<Rightarrow>
          map_option (\<lambda>(l, e'). (apply_events (drop (length (events e)) (events e')) v, l, e'))
            (rx_round env opts linkDown ps now (l, e))
      | Create outcome streamId mac \<Rightarrow>
          let (result, e) = createReceiveStream env outcome streamId mac e
          in Some (if result = eIasAvbProcOK then v(mStreamId streamId \<mapsto> eIasAvbStreamInactive) else v, l, e)
      | Destroy k \<Rightarrow>
          let (result, e) = rx_destroyAvbStream env k e
          in Some (if result = eIasAvbProcOK then v(k := None) else v, l, e)
      | Change k f \<Rightarrow>
          Some (v, l, case map_of (mAvbStreams e) k of
                        None \<Rightarrow> e
                      | Some d \<Rightarrow> e\<lparr>mAvbStreams := put_stream k (d\<lparr>rd_stream := f (rd_stream d)\<rparr>) (mAvbStreams e)\<rparr>))"

primrec rx_requests ::
  "'a rx_env \<Rightarrow> rx_options \<Rightarrow> 'a rx_request list \<Rightarrow> (u64 \<rightharpoonup> IasAvbStreamState) \<times> rx_loop \<times> 'a rx_engine \<Rightarrow>
     ((u64 \<rightharpoonup> IasAvbStreamState) \<times> rx_loop \<times> 'a rx_engine) option" where
  "rx_requests env opts [] st = Some st"
| "rx_requests env opts (q # qs) st = Option.bind (rx_request env opts q st) (rx_requests env opts qs)"

lemma create_known:
  assumes "proper (Create outcome streamId mac)" "createReceiveStream env outcome streamId mac e = (result, e')" "regular e"
  shows "regular e' \<and> known e' = (if result = eIasAvbProcOK then (known e)(mStreamId streamId \<mapsto> eIasAvbStreamInactive) else known e)"
proof -
  have "streamId_of_u64 (mStreamId streamId) = streamId" by (simp add: streamId_of_u64_def)
  moreover have "x(k := None) = x" if "x k = None" for x :: "u64 \<rightharpoonup> 'c" and k using that by auto
  ultimately show ?thesis
    using assms
    by (auto simp: createReceiveStream_def proper_def regular_def known_def Let_def bindMcastAddr_def checkStreamIdInUse_def
        isValidStreamId_def fun_eq_iff split: option.splits if_splits prod.splits)
qed

lemma destroy_known:
  "rx_destroyAvbStream env k e = (result, e') \<Longrightarrow> regular e \<Longrightarrow>
     regular e' \<and> known e' = (if result = eIasAvbProcOK then (known e)(k := None) else known e)"
  by (auto simp: rx_destroyAvbStream_def regular_def known_def bindMcastAddr_def fun_eq_iff split: option.splits if_splits)

lemma rx_request_known:
  assumes "engine_streams env" "regular e" "proper q" "rx_request env opts q (known e, l, e) = Some (v, l', e')"
  shows "v = known e' \<and> regular e'"
proof (cases q)
  case (Round linkDown ps now)
  with assms(4) have r: "rx_round env opts linkDown ps now (l, e) = Some (l', e')"
    and v: "v = apply_events (drop (length (events e)) (events e')) (known e)"
    by (auto simp: rx_request_def)
  from rx_round_tells [OF assms(1) r assms(2)] assms(2) v show ?thesis by (auto simp: tells_def)
next
  case (Create outcome streamId mac)
  with assms(4) create_known [OF _ _ assms(2)] assms(3) show ?thesis
    by (auto simp: rx_request_def split: prod.splits)
next
  case (Destroy k)
  with assms(4) destroy_known [OF _ assms(2)] show ?thesis by (auto simp: rx_request_def split: prod.splits)
next
  case (Change k f)
  let ?e = "\<lambda>d. e\<lparr>mAvbStreams := put_stream k (d\<lparr>rd_stream := f (rd_stream d)\<rparr>) (mAvbStreams e)\<rparr>"
  have "known (?e d) = known e \<and> regular (?e d)" if "map_of (mAvbStreams e) k = Some d" for d
    using that assms(2,3) Change by (auto simp: known_def regular_def fun_eq_iff proper_def same_stream_def)
  with Change assms(2,4) show ?thesis by (auto simp: rx_request_def split: option.splits)
qed

section \<open>The times of the dispatches\<close>

definition heard_since :: "nat \<Rightarrow> 'a rx_engine \<Rightarrow> bool" where
  "heard_since b e \<longleftrightarrow> (\<forall>k d. map_of (mAvbStreams e) k = Some d \<longrightarrow> b \<le> unat (lastTimeDispatched d))"

lemma heard_since_simps [simp]:
  "heard_since b (reset_watchdog env e) = heard_since b e" "heard_since b (leave_polling p e) = heard_since b e"
  "heard_since b (recover_receiver env e) = heard_since b e" "heard_since b (e\<lparr>mWatchdog := w\<rparr>) = heard_since b e"
  by (simp_all add: heard_since_def reset_watchdog_def leave_polling_def recover_receiver_def)

lemma dispatch_at_times:
  assumes "engine_streams env" "dispatch_at env p n now k e = Some (valid, e')"
  obtains d where "map_of (mAvbStreams e') = (map_of (mAvbStreams e))(k \<mapsto> d)" "lastTimeDispatched d = now"
    "map_of (mAvbStreams e) k \<noteq> None"
  by (rule dispatch_at_Some [OF assms]) (auto intro: that)

lemma dispatch_at_heard:
  assumes "engine_streams env" "dispatch_at env p n now k e = Some (valid, e')" "heard_since b e" "b \<le> unat now"
  shows "heard_since b e'"
  by (rule dispatch_at_times [OF assms(1,2)]) (use assms(3,4) in \<open>auto simp: heard_since_def\<close>)

lemma dispatch_all_times:
  assumes "engine_streams env" "dispatch_all env now ks e = Some e'" "map_of (mAvbStreams e') k = Some d"
  shows "if k \<in> set ks then lastTimeDispatched d = now
    else map_of (mAvbStreams e) k = Some d"
  using assms(2,3)
proof (induction ks arbitrary: e)
  case (Cons j ks)
  from Cons.prems(1) obtain valid e1 where 1: "dispatch_at env None 0 now j e = Some (valid, e1)"
    and 2: "dispatch_all env now ks e1 = Some e'" by (auto elim!: result_elims)
  note ih = Cons.IH [OF 2 Cons.prems(2)]
  show ?case by (rule dispatch_at_times [OF assms(1) 1]) (use ih in \<open>auto split: if_splits\<close>)
qed simp

lemma find_stream_heard: "find_stream k dmac e = (it, e') \<Longrightarrow> heard_since b e \<Longrightarrow> heard_since b e'"
  by (auto simp: find_stream_def heard_since_def Let_def split: if_splits option.splits)

lemma setSmac_at_heard: "setSmac_at k sMac e = Some e' \<Longrightarrow> heard_since b e \<Longrightarrow> heard_since b e'"
  by (auto simp: setSmac_at_def heard_since_def elim!: result_elims)

lemma dispatch_frame_heard:
  assumes "engine_streams env" "dispatch_frame env now frame n base k e = Some e'" "heard_since b e" "b \<le> unat now"
  shows "heard_since b e'"
proof -
  from assms(2) obtain dmac where six: "slice frame 0 6 = Some dmac"
    by (auto simp: dispatch_frame_def elim!: result_elims)
  obtain it e1 where f: "find_stream k dmac e = (it, e1)" by fastforce
  note h = find_stream_heard [OF f assms(3)]
  show ?thesis
    using assms(2) h unfolding dispatch_frame_def six f Let_def
    by (elim result_elims)
      (auto simp: f elim!: result_elims dest: dispatch_at_heard [OF assms(1) _ _ assms(4)] setSmac_at_heard)
qed

lemma handle_frame_heard:
  "engine_streams env \<Longrightarrow> handle_frame env discardAfter now frame n e = Some e' \<Longrightarrow> heard_since b e \<Longrightarrow> b \<le> unat now \<Longrightarrow>
     heard_since b e'"
  unfolding handle_frame_def by (elim result_elims) (auto dest: dispatch_frame_heard)

lemma poll_loop_heard:
  "engine_streams env \<Longrightarrow> poll_loop env discardAfter now ps packet elapsed e = Some (packet', elapsed', e') \<Longrightarrow>
     heard_since b e \<Longrightarrow> b \<le> unat now \<Longrightarrow> heard_since b e'"
proof (induction ps arbitrary: packet elapsed e)
  case (Cons p ps)
  then show ?case
    by (auto split: if_splits igb_answer.splits elim!: option_elims dest: handle_frame_heard)
qed simp

lemma heard_since_mono: "heard_since b e \<Longrightarrow> b' \<le> b \<Longrightarrow> heard_since b' e"
  by (fastforce simp: heard_since_def)

definition idle_limit :: "rx_options \<Rightarrow> nat" where
  "idle_limit opts = unat (ro_idleWait opts * 1000)"

lemma overdue_iff: "unat t \<le> unat now \<Longrightarrow> overdue opts now t \<longleftrightarrow> unat t + idle_limit opts < unat now"
  by (auto simp: overdue_def idle_limit_def word_less_nat_alt unat_ucast_up unat_sub word_le_nat_alt)

lemma not_overdue: "\<not> overdue opts now t \<Longrightarrow> unat now - idle_limit opts \<le> unat t"
  using overdue_iff [of t now opts] by linarith

lemma idle_all_heard:
  assumes "engine_streams env" "dispatch_all env now (map fst (mAvbStreams e)) e = Some e'"
  shows "heard_since (unat now) e'"
  unfolding heard_since_def
proof (intro allI impI)
  fix k d assume "map_of (mAvbStreams e') k = Some d"
  from dispatch_all_times [OF assms this] show "unat now \<le> unat (lastTimeDispatched d)"
    by (auto split: if_splits dest: map_of_SomeD intro: rev_image_eqI)
qed

lemma check_all_heard:
  assumes "engine_streams env"
    and "dispatch_all env now (map fst (filter (\<lambda>x. overdue opts now (lastTimeDispatched (snd x))) (mAvbStreams e))) e = Some e'"
  shows "heard_since (unat now - idle_limit opts) e'"
  unfolding heard_since_def
proof (intro allI impI)
  fix k d assume k: "map_of (mAvbStreams e') k = Some d"
  let ?ks = "map fst (filter (\<lambda>x. overdue opts now (lastTimeDispatched (snd x))) (mAvbStreams e))"
  show "unat now - idle_limit opts \<le> unat (lastTimeDispatched d)"
  proof (cases "k \<in> set ?ks")
    case True
    with dispatch_all_times [OF assms k] show ?thesis by simp
  next
    case False
    with dispatch_all_times [OF assms k] have "(k, d) \<in> set (mAvbStreams e)" by (auto dest: map_of_SomeD)
    with False have "\<not> overdue opts now (lastTimeDispatched d)" by force
    then show ?thesis by (rule not_overdue)
  qed
qed

text \<open>Since the last check every stream has been dispatched, but for the idle time before it.\<close>

definition serviced :: "rx_options \<Rightarrow> u64 \<Rightarrow> rx_loop \<times> 'a rx_engine \<Rightarrow> bool" where
  "serviced opts start le =
     (let (l, e) = le in
      unat (rl_lastCheck l) \<le> unat (rl_now l) \<and>
      (rl_lastCheck l = start \<or> heard_since (unat (rl_lastCheck l) - idle_limit opts) e))"

lemma rx_round_serviced:
  assumes "engine_streams env" "serviced opts start (l, e)" "unat start \<le> unat (rl_now l)" "unat (rl_now l) \<le> unat now"
    and "rx_round env opts linkDown ps now (l, e) = Some (l', e')"
  shows "serviced opts start (l', e')" "rl_now l' = now"
    "unat start + idle_limit opts < unat (rl_now l) \<Longrightarrow> heard_since (unat (rl_now l) - 2 * idle_limit opts) e'"
proof -
  define e0 where "e0 = (if linkDown then e\<lparr>mWatchdog := map_option (\<lambda>_. False) (mWatchdog e)\<rparr> else e)"
  have e0: "heard_since b e0 = heard_since b e" for b by (simp add: e0_def)
  note round = assms(5) [unfolded rx_round_def Let_def, simplified, folded e0_def]
  have *: "serviced opts start (l', e') \<and> rl_now l' = now \<and>
      (unat start + idle_limit opts < unat (rl_now l) \<longrightarrow> heard_since (unat (rl_now l) - 2 * idle_limit opts) e')"
  proof (cases "ro_idleWait opts \<le> rl_elapsed l div 1000")
    case True
    with round obtain e1 where 1: "dispatch_all env (rl_now l) (map fst (mAvbStreams e0)) e0 = Some e1"
      and e': "e' = reset_watchdog env e1" "l' = l\<lparr>rl_elapsed := 0, rl_now := now\<rparr>"
      by (auto simp: idle_round_def elim!: result_elims)
    have "heard_since b e'" if "b \<le> unat (rl_now l)" for b
      using heard_since_mono [OF idle_all_heard [OF assms(1) 1] that] e' by simp
    then show ?thesis using e' assms(2,4) by (auto simp: serviced_def)
  next
    case idle: False
    show ?thesis
    proof (cases "overdue opts (rl_now l) (rl_lastCheck l)")
      case True
      with round idle obtain e1
        where 1: "dispatch_all env (rl_now l)
              (map fst (filter (\<lambda>x. overdue opts (rl_now l) (lastTimeDispatched (snd x))) (mAvbStreams e0))) e0 = Some e1"
        and e': "e' = reset_watchdog env e1" "rl_lastCheck l' = rl_now l" "rl_now l' = now"
        by (auto simp: check_round_def elim!: result_elims)
      have "heard_since (unat (rl_now l) - idle_limit opts) e'" using check_all_heard [OF assms(1) 1] e' by simp
      then show ?thesis using e' assms(4) by (auto simp: serviced_def elim!: heard_since_mono)
    next
      case False
      with round idle obtain packet elapsed
        where 1: "poll_loop env (ro_discardAfter opts) (rl_now l) ps (rl_packet l) (rl_elapsed l) e0 = Some (packet, elapsed, e')"
        and l': "rl_lastCheck l' = rl_lastCheck l" "rl_now l' = now"
        by (auto simp: poll_round_def elim!: result_elims)
      have last: "unat (rl_lastCheck l) \<le> unat (rl_now l)" using assms(2) by (simp add: serviced_def)
      have near: "unat (rl_now l) \<le> unat (rl_lastCheck l) + idle_limit opts" using False overdue_iff [OF last] by simp
      have "heard_since (unat (rl_lastCheck l) - idle_limit opts) e'" if "rl_lastCheck l \<noteq> start"
        using poll_loop_heard [OF assms(1) 1, of "unat (rl_lastCheck l) - idle_limit opts"] that assms(2) last
        by (auto simp: e0 serviced_def)
      moreover have "unat (rl_now l) - 2 * idle_limit opts \<le> unat (rl_lastCheck l) - idle_limit opts" using near by linarith
      ultimately show ?thesis using l' last near assms(4)
        by (cases "rl_lastCheck l = start") (auto simp: serviced_def elim: heard_since_mono)
    qed
  qed
  then show "serviced opts start (l', e')" "rl_now l' = now"
    "unat start + idle_limit opts < unat (rl_now l) \<Longrightarrow> heard_since (unat (rl_now l) - 2 * idle_limit opts) e'"
    by blast+
qed

text \<open>The rounds of the thread, each with the time read at its end.\<close>

primrec rx_rounds ::
  "'a rx_env \<Rightarrow> rx_options \<Rightarrow> (bool \<times> rx_poll list \<times> u64) list \<Rightarrow> rx_loop \<times> 'a rx_engine \<Rightarrow> (rx_loop \<times> 'a rx_engine) option"
where
  "rx_rounds env opts [] le = Some le"
| "rx_rounds env opts (r # rs) le =
     Option.bind (rx_round env opts (fst r) (fst (snd r)) (snd (snd r)) le) (rx_rounds env opts rs)"

lemma rx_rounds_serviced:
  assumes "engine_streams env" "rx_rounds env opts rs (l, e) = Some (l', e')" "serviced opts start (l, e)"
    and "unat start \<le> unat (rl_now l)" "sorted (map unat (rl_now l # map (snd \<circ> snd) rs))"
  shows "serviced opts start (l', e') \<and> unat start \<le> unat (rl_now l') \<and> rl_now l' = last (rl_now l # map (snd \<circ> snd) rs)"
  using assms(2-)
proof (induction rs arbitrary: l e)
  case (Cons r rs)
  from Cons.prems(1) obtain l1 e1 where 1: "rx_round env opts (fst r) (fst (snd r)) (snd (snd r)) (l, e) = Some (l1, e1)"
    and 2: "rx_rounds env opts rs (l1, e1) = Some (l', e')" by (auto elim!: bind_SomeE)
  have now: "unat (rl_now l) \<le> unat (snd (snd r))" using Cons.prems(4) by simp
  note s = rx_round_serviced [OF assms(1) Cons.prems(2,3) now 1]
  have "last (rl_now l # map (snd \<circ> snd) (r # rs)) = last (rl_now l1 # map (snd \<circ> snd) rs)" using s(2) by simp
  moreover have "unat start \<le> unat (rl_now l1)" "sorted (map unat (rl_now l1 # map (snd \<circ> snd) rs))"
    using s(2) now Cons.prems(3,4) by (simp_all add: comp_def)
  note Cons.IH [OF 2 s(1) this]
  ultimately show ?case by metis
qed simp

end
