(* ===== verification/Audio_Receiver.thy ===== *)
theory Audio_Receiver
  imports Receive_Frames Audio_Stream
begin

text \<open>
  The AVB audio stream keeps the contract \<open>receiving\<close> that the receive engine relies on: reading a
  packet and connecting to a local stream leave its id, type, direction, addresses and specification
  alone.
\<close>

section \<open>Calls of the local stream\<close>

text \<open>A client that is left alone by a request to reset and by the reset.\<close>

definition still :: "('c, 's) stream_client \<Rightarrow> bool" where
  "still client \<longleftrightarrow>
     (\<forall>n cs r cs'. c_signalDiscontinuity client eIasOverrun n cs = Some (r, cs') \<longrightarrow> fst cs' = fst cs) \<and>
     (\<forall>cs cs'. c_resetBuffers client cs = Some cs' \<longrightarrow> fst cs' = fst cs)"

lemma signal_reset_still: "still client \<Longrightarrow> signal_reset client eIasOverrun n cs = Some cs' \<Longrightarrow> fst cs' = fst cs"
  unfolding signal_reset_def still_def by (elim result_elims) (metis fst_conv)+

lemma write_prepare_still: "still client \<Longrightarrow> write_prepare client n cs = Some cs' \<Longrightarrow> fst cs' = fst cs"
  unfolding write_prepare_def Let_def
  by (elim result_elims) (metis (no_types) fst_conv signal_reset_still)+

lemma writeLocal_still:
  "still client \<Longrightarrow> writeLocalAudioBuffer client ptp ch buffer n m ts cs = Some (r, k, cs') \<Longrightarrow> fst cs' = fst cs"
  unfolding writeLocalAudioBuffer_def Let_def
  by (elim result_elims) (metis (no_types) fst_conv prod.inject signal_reset_still write_prepare_still)+

lemma setClientActive_still: "still client \<Longrightarrow> local_setClientActive client active cs = Some cs' \<Longrightarrow> fst cs' = fst cs"
  unfolding local_setClientActive_def Let_def
  by (elim result_elims) (metis (no_types) fst_conv still_def)+

lemma reset_client_still: "still (reset_client env)"
  by (auto simp: still_def reset_client_def elim!: map_SomeE)

lemma audio_client_still: "still (audio_client env)"
  unfolding still_def audio_client_def signalDiscontinuity_def
  by (auto simp: reset_client_def elim!: map_SomeE split: if_splits)

section \<open>Frames of the operations\<close>

lemma count_diag_same: "same_stream a (count_diag f a)"
  by (simp add: same_stream_def count_diag_def)

lemma put_local_same: "same_stream a (put_local i l a)"
  by (simp add: same_stream_def put_local_def)

lemma put_rxClock_same: "same_stream a (put_rxClock c a)"
  by (simp add: same_stream_def put_rxClock_def split: option.splits)

lemma on_local_same:
  assumes "on_local f a = Some (r, a')"
    and "\<And>l r b l'. f (a, l) = Some (r, b, l') \<Longrightarrow> b = a"
  shows "same_stream a a'"
  using assms(1) unfolding on_local_def
  by (elim result_elims) (metis assms(2) prod.inject put_local_same)

lemma write_local_same: "write_local env ch n m ts a = Some (k, a') \<Longrightarrow> same_stream a a'"
  unfolding write_local_def
  by (erule on_local_same) (auto elim!: map_SomeE dest!: writeLocal_still [OF audio_client_still])

lemma set_client_active_same: "set_client_active env active a = Some a' \<Longrightarrow> same_stream a a'"
  unfolding set_client_active_def audio_setClientActive_def
  by (elim result_elims; (rule subst [OF sym], assumption)?)
    (auto elim!: on_local_same map_SomeE dest!: setClientActive_still [OF reset_client_still])

lemma check_packet_same: "check_packet bytes n a = Some (st, k, a') \<Longrightarrow> same_stream a a'"
  unfolding check_packet_def validate_packet_def check_sequence_def Let_def
  by (elim result_elims) (auto simp: same_stream_def count_diag_def split: if_splits prod.splits elim!: map_SomeE)

lemma change_state_same: "change_state env st a = Some a' \<Longrightarrow> same_stream a a'"
  unfolding change_state_def Let_def
  by (elim result_elims)
    (auto dest!: set_client_active_same simp: same_stream_def count_diag_def put_rxClock_def split: option.splits if_splits)

lemma read_channels_same:
  "read_channels n ch env bytes stride k ts w a = Some (w', a') \<Longrightarrow> same_stream a a'"
proof (induction n arbitrary: ch w a)
  case (Suc n)
  from Suc.prems obtain mem w1 a1 where 1: "write_local env ch k w ts (a\<lparr>mTempBuffer := mem\<rparr>) = Some (w1, a1)"
    and 2: "read_channels n (ch + 1) env bytes stride k ts w1 a1 = Some (w', a')"
    by (auto elim!: result_elims)
  have "same_stream a (a\<lparr>mTempBuffer := mem\<rparr>)" by (simp add: same_stream_def)
  with write_local_same [OF 1] Suc.IH [OF 2] show ?case by (blast intro: same_stream_trans)
qed simp

lemma fill_channels_same: "fill_channels n ch env k ts w a = Some (w', a') \<Longrightarrow> same_stream a a'"
proof (induction n arbitrary: ch w a)
  case (Suc n)
  from Suc.prems obtain w1 a1 where 1: "write_local env ch k w ts a = Some (w1, a1)"
    and 2: "fill_channels n (ch + 1) env k ts w1 a1 = Some (w', a')"
    by (auto elim!: result_elims)
  with write_local_same [OF 1] Suc.IH [OF 2] show ?case by (blast intro: same_stream_trans)
qed simp

lemma same_stream_buffer: "same_stream a (a\<lparr>mTempBuffer := m\<rparr>)"
  by (simp add: same_stream_def)

lemma same_after_buffer: "same_stream (b\<lparr>mTempBuffer := m\<rparr>) c \<Longrightarrow> same_stream a b \<Longrightarrow> same_stream a c"
  by (simp add: same_stream_def)

lemma same_after_put: "same_stream (put_local i l a) c \<Longrightarrow> same_stream a c"
  by (simp add: same_stream_def put_local_def)

lemma deliver_payload_same: "deliver_payload env bytes ts first n l stride k a = Some a' \<Longrightarrow> same_stream a a'"
  unfolding deliver_payload_def Let_def
  by (elim result_elims; hypsubst; drule read_channels_same; drule fill_channels_same; (drule write_local_same)?;
      (erule same_after_buffer)+; (assumption | erule same_after_put))

lemma count_flags_same: "count_flags bytes a = Some a' \<Longrightarrow> same_stream a a'"
  unfolding count_flags_def by (elim result_elims) (simp add: count_diag_same)

lemma update_lock_diag_same: "same_stream a (update_lock_diag st a)"
  by (simp add: same_stream_def update_lock_diag_def count_diag_def)

lemma update_clock_same: "update_clock env rxc bytes ts n k a = Some a' \<Longrightarrow> same_stream a a'"
  unfolding update_clock_def Let_def
  by (elim result_elims)
    (auto simp: same_stream_def update_lock_diag_def count_diag_def put_rxClock_def split: option.splits)

lemma read_payload_same: "read_payload env bytes first n a = Some a' \<Longrightarrow> same_stream a a'"
  unfolding read_payload_def Let_def
  by (elim result_elims)
    (blast dest: deliver_payload_same count_flags_same update_clock_same intro: same_stream_trans)+

lemma readFromAvbPacket_same: "readFromAvbPacket env p n a = Some a' \<Longrightarrow> same_stream a a'"
proof -
  have wait: "same_stream a (a\<lparr>mWaitForData := True\<rparr>)" by (simp add: same_stream_def)
  show "readFromAvbPacket env p n a = Some a' \<Longrightarrow> same_stream a a'"
    unfolding readFromAvbPacket_def Let_def
    by (elim result_elims)
      (blast dest: check_packet_same change_state_same read_payload_same intro: same_stream_trans wait same_stream_refl)+
qed

lemma connect_local_same:
  "connect_local env i a = Some (r, a') \<Longrightarrow> same_stream a a' \<and> mStreamState a' = mStreamState a"
  unfolding connect_local_def Let_def audio_setClientActive_def
  by (elim result_elims)
    (auto simp: same_stream_def put_local_def reset_fifo_def dest!: setClientActive_still [OF reset_client_still])

lemma connectTo_same: "connectTo env l a = Some (r, a') \<Longrightarrow> same_stream a a' \<and> mStreamState a' = mStreamState a"
  unfolding connectTo_def Let_def
  by (elim result_elims)
    (auto simp: same_stream_def put_local_def dest!: connect_local_same split: option.splits)

interpretation audio: receiving "readFromAvbPacket env" "connectTo env" for env
  by unfold_locales (auto dest: readFromAvbPacket_same connectTo_same)

lemma audio_engine_streams:
  "(\<And>ty. re_vtable env ty = audio_vtable ae) \<Longrightarrow> re_connectTo env = connectTo ae \<Longrightarrow> engine_streams env"
  by (simp add: engine_streams_def audio_vtable_def audio.receiving_axioms)

end
