(* ===== verification/Receive_Properties.thy ===== *)
theory Receive_Properties
  imports Receive_Service Audio_Receiver Audio_Packets
begin

text \<open>
  The properties of the receive engine, with an engine of audio streams as the example.
\<close>

section \<open>Example\<close>

type_synonym example_ext = "(IasLocalAudioStream, unit) IasAvbAudioStream_ext"

definition example_rx_env :: "example_ext rx_env" where
  "example_rx_env =
     \<lparr>re_vtable = (\<lambda>_. audio_vtable example_audio_env), re_connectTo = connectTo example_audio_env, re_registry = None,
      re_tables = default_tables, re_pool = example_env, re_newPool = True, re_newThread = True,
      re_watchdogEnabled = False, re_newWatchdog = True, re_wdRegister = True, re_threadStart = True,
      re_threadStop = True, re_interfaceName = True, re_socket = True, re_ifIndex = True, re_ifFlags = True,
      re_bind = True, re_setsockopt = (\<lambda>_. True), re_igbDevice = True, re_refresh = (\<lambda>_. True), re_igbLock = True,
      re_flexFilter = True, re_readReg = (\<lambda>_. 0)\<rparr>"

text \<open>A stream with the id 7 and the address 1:1:1:1:1:1, which becomes valid with its first packet.\<close>

definition example_receiver :: "IasLocalAudioStream IasAvbAudioStream" where
  "example_receiver = example_audio_rx
     \<lparr>IasAvbStream.mAvbStreamId := Some (streamId_of_u64 7), mDmac := replicate 6 1, mValidationMode := cValidateNever,
      mValidationCount := 1, mStreamStateInternal := eIasAvbStreamInactive, mStreamState := eIasAvbStreamInactive\<rparr>"

definition example_engine :: "example_ext rx_engine" where
  "example_engine = engine_new
     \<lparr>mEventInterface := Some 1,
      mAvbStreams := [(7, \<lparr>rd_stream = example_receiver, lastState = eIasAvbStreamInactive, lastTimeDispatched = 0\<rparr>)]\<rparr>"

definition example_frame :: "u8 list" where
  "example_frame = replicate 6 1 @ replicate 6 2 @ [0x81, 0, 0, 0, 0x22, 0xF0] @ (replicate 24 0)[1 := 0x80, 2 := 9, 11 := 7]"

definition example_opts :: rx_options where
  "example_opts = \<lparr>ro_cycleWait = 0, ro_idleWait = 25, ro_discardAfter = None\<rparr>"

lemma example_streams: "engine_streams example_rx_env"
  by (rule audio_engine_streams [where ae = example_audio_env]) (simp_all add: example_rx_env_def)

section \<open>Properties\<close>

text \<open>C5. A frame that is for the streams at all is given to exactly one of them, the one a search in the
  abstract map finds: the stream with its id, else the wildcard stream, which takes over the id if the
  destination address is its own. The state last reported is then the state of that stream, its time of
  dispatch is the present, and the source address is taken over from a frame that leaves it valid. All
  other streams, and all streams if none is found, stay as they are.\<close>

theorem frame_to_target:
  assumes "engine_streams env" "\<not> mIgnoreStreamId e"
    and "avtp_base frame = Some (Some base)"
    and "streamId_of_bytes (Some (drop (base + 4) frame)) = Some (streamId_of_u64 k)"
    and "wanted discardAfter now (drop base frame) = Some w"
    and "handle_frame env discardAfter now frame n e = Some e'"
  shows "case (if w then target k (take 6 frame) (map_of (mAvbStreams e)) else None) of
           None \<Rightarrow> e' = e
         | Some (j, m) \<Rightarrow>
             (\<exists>s'. dispatchPacket (re_vtable env (mStreamType (rd_stream (the (m j))))) (re_tables env) (Some (drop base frame))
                     (unat (of_int (sint n - int base) :: u64)) now (rd_stream (the (m j))) = Some s' \<and>
                   map_of (mAvbStreams e') =
                     m(j \<mapsto> \<lparr>rd_stream = (if mStreamState s' = eIasAvbStreamValid then setSmac (take 6 (drop 6 frame)) s' else s'),
                             lastState = mStreamState s', lastTimeDispatched = now\<rparr>))"
proof -
  have "(if w then dispatch_frame env now frame n base k e else Some e) = Some e'"
    using assms(3-6) by (cases w) (simp_all add: handle_frame_def streamId_of_u64_def)
  with dispatch_frame_target [OF assms(1,2)] show ?thesis by (cases w) simp_all
qed

theorem frame_to_target_witness:
  "\<exists>e' d. handle_frame example_rx_env None 5 example_frame 42 example_engine = Some e' \<and>
     map_of (mAvbStreams e') = [7 \<mapsto> d] \<and> lastTimeDispatched d = 5"
proof -
  have "\<not> Option.is_none (handle_frame example_rx_env None 5 example_frame 42 example_engine)" by code_simp
  then obtain e' where h: "handle_frame example_rx_env None 5 example_frame 42 example_engine = Some e'"
    by (auto simp: Option.is_none_def)
  have f: "avtp_base example_frame = Some (Some 18)" "wanted None 5 (drop 18 example_frame) = Some True"
    "streamId_of_bytes (Some (drop (18 + 4) example_frame)) = Some (streamId_of_u64 7)"
    by code_simp+
  have e: "\<not> mIgnoreStreamId example_engine" "mAvbStreams example_engine =
      [(7, \<lparr>rd_stream = example_receiver, lastState = eIasAvbStreamInactive, lastTimeDispatched = 0\<rparr>)]"
    by (simp_all add: example_engine_def engine_new_def)
  from frame_to_target [OF example_streams e(1) f(1,3,2) h] h show ?thesis
    by (auto simp: target_def e(2))
qed





text \<open>C36. A second call of \<^verbatim>\<open>start\<close> on an engine that receives already is an error that ends the reception:
  the buffers are taken from the driver and the queue is disabled, while the thread goes on.\<close>

theorem second_start_ends_reception:
  assumes "mRcvPacketPool e \<noteq> None" "mReceiveThread e = Some True" "re_igbDevice env"
  shows "\<exists>e'. rx_start env e = Some (eIasAvbProcInitializationFailed, e') \<and> mRcvPacketPool e' = None \<and> mPacketList e' = [] \<and>
     registers e' = registers e @ [(RXDCTL 0, 0)] \<and> mReceiveThread e' = Some True \<and> mAvbStreams e' = mAvbStreams e"
  using assms
  by (simp add: rx_start_def startIgbReceiveEngine_def startIgb_body_def stopIgbReceiveEngine_def)

theorem second_start_ends_reception_witness:
  "\<exists>e'. rx_start example_rx_env (example_engine\<lparr>mReceiveThread := Some True, mRcvPacketPool := Some (pool_new 0), mPacketList := [(1, 0)]\<rparr>)
      = Some (eIasAvbProcInitializationFailed, e') \<and> mPacketList e' = [] \<and> mReceiveThread e' = Some True"
  using second_start_ends_reception
    [of "example_engine\<lparr>mReceiveThread := Some True, mRcvPacketPool := Some (pool_new 0), mPacketList := [(1, 0)]\<rparr>" example_rx_env]
  by (auto simp: example_rx_env_def)

end
