(* ===== verification/Sequencer_Streams.thy ===== *)
theory Sequencer_Streams
  imports Sequencer_Sync
begin

text \<open>
  What the worker thread of a transmit sequencer does to the streams. The locale \<open>transmitting\<close> is what the
  sequencer relies on in a stream; under it, every step of the worker leaves alone what identifies the
  streams and what the clients control, and makes a stream active at most if it is in the sequence or
  in the list of active streams (\<open>tame\<close>).
\<close>

section \<open>The contract of the streams\<close>

definition steady :: "'a IasAvbStream_scheme \<Rightarrow> 'a IasAvbStream_scheme \<Rightarrow> bool" where
  "steady s s' \<longleftrightarrow> same_stream s s' \<and> mActive s' = mActive s"

lemma steady_refl [simp]: "steady s s"
  by (simp add: steady_def)

lemma steady_trans: "steady s s' \<Longrightarrow> steady s' s'' \<Longrightarrow> steady s s''"
  by (auto simp: steady_def intro: same_stream_trans)

lemma steady_updates [simp]:
  "steady s (s\<lparr>mPacketPool := p\<rparr>)" "steady s (s\<lparr>IasAvbStream.mDiag := dg\<rparr>)"
  by (simp_all add: steady_def same_stream_def)

text \<open>The virtual functions that the worker calls do not change whether the stream is active.\<close>

locale transmitting =
  fixes v :: "'a IasAvbStream_scheme stream_vtable"
  assumes activation_steady: "v_activationChanged v s = Some s' \<Longrightarrow> steady s s'"
    and write_steady: "v_writeToAvbPacket v r w s = Some (b, s') \<Longrightarrow> steady s s'"
begin

lemma activate_Some: "activate v e s = Some s' \<Longrightarrow> same_stream s s' \<and> mActive s'"
  unfolding activate_def
  by (elim option_elims) (auto dest!: activation_steady simp: steady_def same_stream_def countInterruption_def)

lemma deactivate_Some: "deactivate v e s = Some s' \<Longrightarrow> same_stream s s' \<and> \<not> mActive s'"
  unfolding deactivate_def
  by (elim option_elims) (auto dest!: activation_steady simp: steady_def same_stream_def countInterruption_def)

lemma prepare_steady: "preparePacket v w s = Some (r, s') \<Longrightarrow> steady s s'"
proof -
  have pool: "steady (s1\<lparr>mPacketPool := p\<rparr>) s2 \<Longrightarrow> steady s1 s2" for p s1 s2
    by (simp add: steady_def same_stream_def)
  show "preparePacket v w s = Some (r, s') \<Longrightarrow> steady s s'"
    unfolding preparePacket_def Let_def
    by (elim result_elims) (auto dest!: write_steady dest: pool intro: steady_trans)
qed

end

definition sequencer_streams :: "'a tx_env \<Rightarrow> bool" where
  "sequencer_streams env \<longleftrightarrow> (\<forall>i. transmitting (te_vtable env i))"

section \<open>Tame steps\<close>

definition tame_streams ::
  "nat set \<Rightarrow> (nat \<Rightarrow> 'a IasAvbStream_scheme) \<Rightarrow> (nat \<Rightarrow> 'a IasAvbStream_scheme) \<Rightarrow> bool" where
  "tame_streams S h h' \<longleftrightarrow>
     (\<forall>j. same_stream (h j) (h' j) \<and> (mActive (h j) \<longrightarrow> mActive (h' j)) \<and> (j \<notin> S \<longrightarrow> mActive (h' j) = mActive (h j)))"

definition tame :: "nat set \<Rightarrow> 'a sequencer \<Rightarrow> 'a sequencer \<Rightarrow> bool" where
  "tame S t t' \<longleftrightarrow>
     IasAvbTransmitSequencer.mClass t' = IasAvbTransmitSequencer.mClass t \<and> mTransmitThread t' = mTransmitThread t \<and>
     mCurrentBandwidth t' = mCurrentBandwidth t \<and> txMaxBandwidth (mConfig t') = txMaxBandwidth (mConfig t) \<and>
     tame_streams S (streams t) (streams t')"

lemma tame_streams_refl [simp]: "tame_streams S h h"
  by (simp add: tame_streams_def)

lemma tame_streams_trans: "tame_streams S h h' \<Longrightarrow> tame_streams S h' h'' \<Longrightarrow> tame_streams S h h''"
  unfolding tame_streams_def by (metis same_stream_trans)

lemma tame_streams_mono: "tame_streams S h h' \<Longrightarrow> S \<subseteq> S' \<Longrightarrow> tame_streams S' h h'"
  unfolding tame_streams_def by blast

lemma tame_refl [simp]: "tame S t t"
  by (simp add: tame_def)

lemma tame_trans: "tame S t t' \<Longrightarrow> tame S t' t'' \<Longrightarrow> tame S t t''"
  unfolding tame_def by (metis tame_streams_trans)

lemma tame_mono: "tame S t t' \<Longrightarrow> S \<subseteq> S' \<Longrightarrow> tame S' t t'"
  unfolding tame_def using tame_streams_mono by blast

lemma tame_updates [simp]:
  "tame S t (t'\<lparr>mDiag := dg\<rparr>) = tame S t t'" "tame S t (t'\<lparr>igb := g\<rparr>) = tame S t t'"
  "tame S t (t'\<lparr>mSequence := xs\<rparr>) = tame S t t'" "tame S t (t'\<lparr>mThreadControl := c\<rparr>) = tame S t t'"
  "tame S t (t'\<lparr>mResponseCount := n\<rparr>) = tame S t t'"
  "tame S (t\<lparr>mDiag := dg\<rparr>) t' = tame S t t'" "tame S (t\<lparr>igb := g\<rparr>) t' = tame S t t'"
  "tame S (t\<lparr>mSequence := xs\<rparr>) t' = tame S t t'" "tame S (t\<lparr>mThreadControl := c\<rparr>) t' = tame S t t'"
  by (simp_all add: tame_def)

lemma tame_stream: "steady (streams t i) s \<Longrightarrow> tame S t (t\<lparr>streams := (streams t)(i := s)\<rparr>)"
  by (auto simp: tame_def tame_streams_def steady_def)

lemma give_back_tame: "give_back i r t = Some t' \<Longrightarrow> tame S t t'"
  by (auto simp: give_back_Some intro!: tame_stream)

lemma give_back_all_tame: "give_back_all xs t = Some t' \<Longrightarrow> tame S t t'"
  by (induction xs arbitrary: t) (auto simp: bind_eq_Some_conv dest: give_back_tame intro: tame_trans)

lemma set_attime_tame: "set_attime i r time t = Some t' \<Longrightarrow> tame S t t'"
  by (auto simp: set_attime_Some intro!: tame_stream)

lemma prepare_tame:
  "sequencer_streams env \<Longrightarrow> on_stream (preparePacket (te_vtable env i) w) i t = Some (p, t') \<Longrightarrow> tame S t t'"
  by (auto simp: on_stream_Some sequencer_streams_def dest: transmitting.prepare_steady intro!: tame_stream)

lemma toggle_tame:
  assumes "sequencer_streams env" "toggle env e i t = Some t'" "i \<in> S"
  shows "tame S t t'"
proof -
  note tr = assms(1) [unfolded sequencer_streams_def, rule_format, of i]
  from assms(2) obtain s1 s2 where 1: "deactivate (te_vtable env i) e (streams t i) = Some s1"
    and 2: "activate (te_vtable env i) e s1 = Some s2" and t': "t' = t\<lparr>streams := (streams t)(i := s2)\<rparr>"
    unfolding toggle_def by (auto simp: on_stream_Some bind_eq_Some_conv elim!: map_SomeE)
  from transmitting.deactivate_Some [OF tr 1] transmitting.activate_Some [OF tr 2] assms(3) show ?thesis
    unfolding t' by (auto simp: tame_def tame_streams_def intro: same_stream_trans)
qed

text \<open>Servicing the stream of \<open>d\<close>, which stays the one of the returned data.\<close>

lemma send_packet_tame: "send_packet env d r t = Some (again, d', t') \<Longrightarrow> tame S t t' \<and> sd_stream d' = sd_stream d"
proof -
  have frames: "on_stream (\<lambda>s. Some (incFramesTx s)) i t1 = Some (n, t2) \<Longrightarrow> tame S t1 t2" for i t1 n t2
    by (auto simp: on_stream_Some incFramesTx_def Let_def intro!: tame_stream)
  show "send_packet env d r t = Some (again, d', t') \<Longrightarrow> tame S t t' \<and> sd_stream d' = sd_stream d"
    unfolding send_packet_def Let_def
    by (elim result_elims)
      (auto dest!: set_attime_tame [where S = S] give_back_tame [where S = S] frames intro: tame_trans split: if_splits)
qed

lemma reset_late_tame:
  assumes "sequencer_streams env" "reset_late env r c d t = Some (ae, c', d', t')" "sd_stream d \<in> S"
  shows "tame S t t' \<and> sd_stream d' = sd_stream d"
  using assms(2) unfolding reset_late_def Let_def
  by (elim result_elims)
    (auto dest!: give_back_tame [where S = S] toggle_tame [OF assms(1), where S = S] simp: assms(3)
      intro: tame_trans split: if_splits)

lemma drop_late_tame:
  assumes "sequencer_streams env" "drop_late env r old c d t = Some (ae, c', d', t')" "sd_stream d \<in> S"
  shows "tame S t t' \<and> sd_stream d' = sd_stream d"
  using assms(2) unfolding drop_late_def Let_def
  by (elim result_elims)
    (auto dest!: give_back_tame [where S = S] toggle_tame [OF assms(1), where S = S] simp: assms(3)
      intro: tame_trans)

lemma fetch_step_tame:
  assumes "sequencer_streams env" "fetch_step env ws old c d t = Some (ae, c', d', t')" "sd_stream d \<in> S"
  shows "tame S t t' \<and> sd_stream d' = sd_stream d"
  using assms(2) unfolding fetch_step_def Let_def
  by (elim result_elims)
    (auto dest!: prepare_tame [OF assms(1), where S = S] reset_late_tame [OF assms(1), where S = S]
        drop_late_tame [OF assms(1), where S = S] simp: assms(3) intro: tame_trans)

lemma fetch_loop_tame:
  assumes "sequencer_streams env" "fetch_loop env ws old c d t = Some (e, d', t')" "sd_stream d \<in> S"
  shows "tame S t t' \<and> sd_stream d' = sd_stream d"
proof -
  have "sequencer_streams env \<and> sd_stream d \<in> S \<longrightarrow>
      tame S t (snd (snd x)) \<and> sd_stream (fst (snd x)) = sd_stream d" if "fetch_loop env ws old c d t = Some x" for x
  proof (rule fetch_loop.raw_induct [OF _ that])
    fix loop :: "'a tx_env \<Rightarrow> u64 \<Rightarrow> u32 \<Rightarrow> u64 \<Rightarrow> StreamData \<Rightarrow> 'a sequencer \<Rightarrow> (fetch_end \<times> StreamData \<times> 'a sequencer) option"
    fix env ws old c d t x
    assume IH: "\<And>env ws old c d t x. loop env ws old c d t = Some x \<Longrightarrow>
        sequencer_streams env \<and> sd_stream d \<in> S \<longrightarrow>
          tame S t (snd (snd x)) \<and> sd_stream (fst (snd x)) = sd_stream d"
      and body: "Option.bind (fetch_step env ws old c d t)
        (\<lambda>((again, e), c, d, t). if again then loop env ws old c d t else Some (e, d, t)) = Some x"
    from body obtain again e c1 d1 t1 where step: "fetch_step env ws old c d t = Some ((again, e), c1, d1, t1)"
      and rest: "(if again then loop env ws old c1 d1 t1 else Some (e, d1, t1)) = Some x"
      by (elim result_elims) auto
    show "sequencer_streams env \<and> sd_stream d \<in> S \<longrightarrow>
        tame S t (snd (snd x)) \<and> sd_stream (fst (snd x)) = sd_stream d"
    proof
      assume a: "sequencer_streams env \<and> sd_stream d \<in> S"
      with fetch_step_tame [OF _ step] have s: "tame S t t1" "sd_stream d1 = sd_stream d" by auto
      show "tame S t (snd (snd x)) \<and> sd_stream (fst (snd x)) = sd_stream d"
        using rest IH [of env ws old c1 d1 t1 x] a s by (cases again) (auto intro: tame_trans)
    qed
  qed
  with assms show ?thesis by fastforce
qed

lemma use_packet_tame:
  assumes "use_packet env ws d t = Some (aa, d', t')"
  shows "tame S t t' \<and> sd_stream d' = sd_stream d"
  using assms unfolding use_packet_def
  by (elim result_elims) (auto dest!: give_back_tame [where S = S] send_packet_tame [where S = S])

lemma sortByLaunchTime_tame: "sortByLaunchTime n t = (freed, n', t') \<Longrightarrow> tame S t t'"
  by (auto simp: sortByLaunchTime_def Let_def split: if_splits prod.splits)

lemma serviceStream_tame:
  assumes "sequencer_streams env" "serviceStream env ws n t = Some (res, n', t')" "stream_set t \<subseteq> S"
  shows "tame S t t'"
proof -
  from assms(2) obtain d where n: "n < length (mSequence t)" and d: "mSequence t ! n = d"
    by (auto simp: serviceStream_def bind_eq_Some_conv fetch_def split: if_splits)
  from assms(2) n d obtain again advance d1 t1 where use: "use_packet env ws d t = Some ((again, advance), d1, t1)"
    by (auto simp: serviceStream_def fetch_Some bind_eq_Some_conv)
  from assms(2) n d use obtain e d2 t2 where loop: "(if again then fetch_loop env ws (d_dropped (mDiag t1)) 0 d1 t1
      else Some (if advance then Advance else Stay, d1, t1)) = Some (e, d2, t2)"
    by (auto simp: serviceStream_def fetch_Some bind_eq_Some_conv simp del: fetch_loop.simps)
  define t3 where "t3 = t2\<lparr>mSequence := (mSequence t2)[n := d2]\<rparr>"
  obtain freed n4 t4 where it: "(case e of Stay \<Rightarrow> (False, n, t3) | Advance \<Rightarrow> (False, next_it (mSequence t3) n, t3)
      | Resort \<Rightarrow> sortByLaunchTime n t3) = (freed, n4, t4)" by (metis prod_cases3)
  obtain m k where skip: "skip_done (length (mSequence t4)) (mSequence t4) n4 n4 = (m, k)" by fastforce
  have t': "t' = t4\<lparr>mDiag := (mDiag t4)\<lparr>d_skipCount := d_skipCount (mDiag t4) + of_nat k\<rparr>\<rparr>"
    using assms(2) n d use loop it skip unfolding t3_def by (auto simp: serviceStream_def fetch_Some Let_def)
  have S: "sd_stream d \<in> S" using n d assms(3) by (auto simp: stream_set_def)
  note u = use_packet_tame [OF use, of S]
  have "tame S t1 t2"
    using loop fetch_loop_tame [OF assms(1), of ws _ 0 d1 t1 e d2 t2 S] u S by (auto split: if_splits)
  moreover have "tame S t3 t4" using it by (auto split: fetch_end.splits dest: sortByLaunchTime_tame)
  then have "tame S t2 t'" by (simp add: t3_def t')
  ultimately show ?thesis using u by (blast intro: tame_trans)
qed

lemma same_streams_set: "same_streams t t' \<Longrightarrow> stream_set t' = stream_set t"
  unfolding stream_set_def same_streams_def by (intro mset_eq_setD) simp

lemma service_window_tame:
  assumes "sequencer_streams env" "service_window env ws left n t = Some (n', t')" "stream_set t \<subseteq> S"
  shows "tame S t t'"
proof -
  have "sequencer_streams env \<and> stream_set t \<subseteq> S \<longrightarrow> tame S t (snd x)"
    if "service_window env ws left n t = Some x" for x
  proof (rule service_window.raw_induct [OF _ that])
    fix loop :: "'a tx_env \<Rightarrow> u64 \<Rightarrow> nat \<Rightarrow> nat \<Rightarrow> 'a sequencer \<Rightarrow> (nat \<times> 'a sequencer) option"
    fix env ws left n t x
    assume IH: "\<And>env ws left n t x. loop env ws left n t = Some x \<Longrightarrow>
        sequencer_streams env \<and> stream_set t \<subseteq> S \<longrightarrow> tame S t (snd x)"
      and body: "(if mThreadControl t = 0 \<and> left > 0 then
        Option.bind (serviceStream env ws n t)
          (\<lambda>(d, n, t). loop env ws
               (if d = eNotDone then left else if d = eEndOfWindow \<or> d = eDry then left - 1 else 0) n t)
        else Some (n, t)) = Some x"
    show "sequencer_streams env \<and> stream_set t \<subseteq> S \<longrightarrow> tame S t (snd x)"
    proof (cases "mThreadControl t = 0 \<and> left > 0")
      case True
      with body obtain d1 n1 t1 left1 where s: "serviceStream env ws n t = Some (d1, n1, t1)"
        and l: "loop env ws left1 n1 t1 = Some x"
        by (auto simp: bind_eq_Some_conv)
      have "stream_set t1 = stream_set t"
        using serviceStream_due [OF s] by (intro same_streams_set) simp
      with IH [OF l] serviceStream_tame [OF _ s, of S] show ?thesis by (auto intro: tame_trans)
    qed (use body in auto)
  qed
  with assms show ?thesis by fastforce
qed

lemma run_window_tame:
  assumes "sequencer_streams env" "run_window env ws n t = Some (ws', n', t')" "stream_set t \<subseteq> S"
  shows "tame S t t'"
proof -
  define t0 where "t0 = t\<lparr>mSequence := map (\<lambda>d. d\<lparr>sd_done := eNotDone\<rparr>) (mSequence t)\<rparr>"
  from assms(2) obtain n1 t1 where w: "service_window env ws (length (mSequence t)) n t0 = Some (n1, t1)"
    and t': "tame S t1 t'"
    unfolding run_window_def Let_def t0_def [symmetric] by (elim result_elims) (auto split: if_splits)
  have "stream_set t0 = stream_set t" "tame S t t0" by (simp_all add: t0_def stream_set_def o_def)
  with service_window_tame [OF assms(1) w, of S] assms(3) t' show ?thesis by (auto intro: tame_trans)
qed

section \<open>Tame updates of the sequence\<close>

lemma erase_obsolete_tame: "erase_obsolete k s temp n t = Some (temp', n', t') \<Longrightarrow> tame S t t'"
proof (induction k arbitrary: s temp n t)
  case (Suc k)
  show ?case
  proof (cases "sd_stream (mSequence t ! s) \<in> temp")
    case True
    with Suc.prems have "erase_obsolete k (Suc s) (temp - {sd_stream (mSequence t ! s)}) n t = Some (temp', n', t')"
      by (simp add: Let_def)
    then show ?thesis by (rule Suc.IH)
  next
    case False
    from Suc.prems False obtain t1 n1 xs where gb:
        "(case sd_packet (mSequence t ! s) of None \<Rightarrow> Some t | Some r \<Rightarrow> give_back (sd_stream (mSequence t ! s)) r t) = Some t1"
      and rest: "erase_obsolete k s temp n1 (t1\<lparr>mSequence := xs\<rparr>) = Some (temp', n', t')"
      unfolding erase_obsolete.simps Let_def if_not_P [OF False] if_P [OF False] by (elim bind_SomeE) blast
    from gb have "tame S t t1" by (auto split: option.splits dest: give_back_tame)
    with Suc.IH [OF rest] show ?thesis by (auto intro: tame_trans)
  qed
qed simp

lemma insert_stream_tame: "insert_stream i (n, t) = (n', t') \<Longrightarrow> tame S t t'"
  unfolding insert_stream_def Let_def
  by (auto simp: snd_def split: prod.splits dest!: sortByLaunchTime_tame [where S = S])

lemma insert_streams_tame: "fold insert_stream is' (n, t) = (n', t') \<Longrightarrow> tame S t t'"
proof (induction is' arbitrary: n t)
  case (Cons i is')
  obtain n1 t1 where 1: "insert_stream i (n, t) = (n1, t1)" by fastforce
  with Cons.IH [of n1 t1] insert_stream_tame [OF 1] Cons.prems show ?case by (auto intro: tame_trans)
qed simp

lemma sync_streams_tame: "sync_streams n t = Some (n', t') \<Longrightarrow> tame S t t'"
  unfolding sync_streams_def
  by (elim result_elims) (metis (no_types) erase_obsolete_tame insert_streams_tame tame_trans)

lemma toggle_all_tame:
  "sequencer_streams env \<Longrightarrow> toggle_all env is' t = Some t' \<Longrightarrow> set is' \<subseteq> S \<Longrightarrow> tame S t t'"
  by (induction is' arbitrary: t) (auto simp: bind_eq_Some_conv dest: toggle_tame [where S = S] intro: tame_trans)

lemma run_leave_tame: "run_leave reclaimed t = Some (n', t') \<Longrightarrow> tame S t t'"
  unfolding run_leave_def reclaimPackets_def
  by (elim result_elims) (auto dest!: give_back_all_tame [where S = S] intro: tame_trans)

lemma run_restart_tame:
  assumes "sequencer_streams env" "run_restart env t = Some t'" "finite (mActiveStreams t)" "mActiveStreams t \<subseteq> S"
  shows "tame S t t'"
  using assms(2) unfolding run_restart_def
  by (elim result_elims) (auto dest!: toggle_all_tame [OF assms(1), where S = S] intro: tame_trans subsetD [OF assms(4)] simp: assms(3))

section \<open>The steps of the worker\<close>

text \<open>What the worker does between two looks at its requests; any valid iterator is allowed. An update and its
  response are one step here; theory \<open>Sequencer_Sync\<close> has them apart.\<close>

inductive worker_step :: "'a tx_env \<Rightarrow> 'a sequencer \<Rightarrow> 'a sequencer \<Rightarrow> bool" for env where
  w_sync: "0 < pending t \<Longrightarrow> it_ok n (mSequence t) \<Longrightarrow> sync_streams n t = Some (n', t') \<Longrightarrow>
    worker_step env t (respond t')"
| w_window: "it_ok n (mSequence t) \<Longrightarrow> run_window env ws n t = Some (ws', n', t') \<Longrightarrow> worker_step env t t'"
| w_leave: "run_leave reclaimed t = Some (n', t') \<Longrightarrow> worker_step env t t'"
| w_restart: "run_restart env t = Some t' \<Longrightarrow> pending t < 2 ^ 31 - 2 \<Longrightarrow> worker_step env t t'"
| w_reclaim: "reclaimPackets reclaimed t = Some (k, t') \<Longrightarrow> worker_step env t t'"
| w_own: "worker_step env t (t\<lparr>mThreadControl := c, mDiag := dg,
    mConfig := (mConfig t)\<lparr>txWindowWidth := w, txWindowPitch := p\<rparr>\<rparr>)"

inductive_cases worker_stepE: "worker_step env t t'"

text \<open>The sequence holds at most active streams and those in \<open>X\<close>, and only active ones when all requests are
  answered.\<close>

definition settled :: "nat set \<Rightarrow> 'a sequencer \<Rightarrow> bool" where
  "settled X t \<longleftrightarrow>
     finite (mActiveStreams t) \<and> 0 \<le> pending t \<and> stream_set t \<subseteq> X \<union> mActiveStreams t \<and>
     (pending t = 0 \<longrightarrow> stream_set t \<subseteq> mActiveStreams t)"

lemma settled_same:
  "same_requests t t' \<Longrightarrow> stream_set t' \<subseteq> stream_set t \<Longrightarrow> settled X t \<Longrightarrow> settled X t'"
  unfolding settled_def by (auto simp: pending_same) (auto simp: same_requests_def)

lemma reclaim_same:
  assumes "reclaimPackets reclaimed t = Some (k, t')"
  shows "same_requests t t'" "mSequence t' = mSequence t" "tame S t t'"
proof -
  from assms obtain t1 where "give_back_all reclaimed t = Some t1 \<and> t' = t1 \<or> t' = t"
    unfolding reclaimPackets_def by (elim option_elims) auto
  then show "same_requests t t'" "mSequence t' = mSequence t" "tame S t t'"
    using give_back_all_same give_back_all_tame by (auto simp: same_requests_def)
qed

lemma run_window_same:
  "run_window env ws n t = Some (ws', n', t') \<Longrightarrow> same_requests t t' \<and> stream_set t' = stream_set t"
  using run_window_frame [of env ws n t ws' n' t'] same_streams_set [of t t']
  by (simp add: same_streams_def same_requests_def)

lemma worker_step_settled:
  assumes "sequencer_streams env" "worker_step env t t'" "settled X t"
  shows "settled X t' \<and> mActiveStreams t' = mActiveStreams t \<and> mRequestCount t' = mRequestCount t \<and>
    (pending t \<le> 2 ^ 31 - 2 \<longrightarrow> pending t' \<le> 2 ^ 31 - 2) \<and> tame (X \<union> mActiveStreams t) t t'"
  using assms(2)
proof cases
  case (w_sync n n' t1)
  note s = sync_streams_ok [OF w_sync(4,3)]
  with assms(3) have "stream_set t1 = mActiveStreams t" "same_requests t t1" by (auto simp: settled_def)
  moreover have "pending t' = pending t - 1"
    using w_sync(1,2) pending_respond [of t1] pending_same [OF s(4)] assms(3) by (simp add: settled_def)
  ultimately show ?thesis
    using w_sync(1,2) assms(3) sync_streams_tame [OF w_sync(4)]
    by (auto simp: settled_def same_requests_def) (auto simp: respond_def)
next
  case (w_window n ws ws' n')
  note s = run_window_same [OF w_window(2)]
  have "tame (X \<union> mActiveStreams t) t t'"
    using run_window_tame [OF assms(1) w_window(2)] assms(3) by (simp add: settled_def)
  with s settled_same [OF _ _ assms(3)] show ?thesis by (simp add: same_requests_def pending_def)
next
  case (w_leave reclaimed n')
  note l = run_leave_same [OF w_leave]
  then have "stream_set t' = {}" by (simp add: stream_set_def)
  with l settled_same [OF l(1) _ assms(3)] run_leave_tame [OF w_leave] show ?thesis
    by (simp add: same_requests_def pending_def)
next
  case w_restart
  have "pending t < 2 ^ 31 - 1" using w_restart(2) by simp
  note r = run_restart_same [OF w_restart(1) this]
  have "mRequestCount t' = mRequestCount t"
    using w_restart(1) unfolding run_restart_def
    by (elim result_elims) (auto dest!: toggle_all_same simp: same_requests_def)
  moreover have "stream_set t' = stream_set t" using r by (simp add: stream_set_def)
  ultimately show ?thesis
    using r w_restart(2) assms(3) run_restart_tame [OF assms(1) w_restart(1), of "X \<union> mActiveStreams t"]
    by (auto simp: settled_def)
next
  case (w_reclaim reclaimed k)
  note r = reclaim_same [OF w_reclaim]
  then have "stream_set t' = stream_set t" by (simp add: stream_set_def)
  with r settled_same [OF r(1) _ assms(3)] show ?thesis by (simp add: same_requests_def pending_def)
next
  case (w_own c dg w p)
  with assms(3) show ?thesis by (auto simp: settled_def pending_def stream_set_def tame_def)
qed

lemma worker_steps_settled:
  assumes "sequencer_streams env" "(worker_step env)\<^sup>*\<^sup>* t t'" "settled X t"
  shows "settled X t' \<and> mActiveStreams t' = mActiveStreams t \<and> mRequestCount t' = mRequestCount t \<and>
    (pending t \<le> 2 ^ 31 - 2 \<longrightarrow> pending t' \<le> 2 ^ 31 - 2) \<and> tame (X \<union> mActiveStreams t) t t'"
  using assms(2,3)
proof (induction rule: rtranclp_induct)
  case (step t1 t2)
  then have 1: "settled X t1" "mActiveStreams t1 = mActiveStreams t" "mRequestCount t1 = mRequestCount t"
    "pending t \<le> 2 ^ 31 - 2 \<longrightarrow> pending t1 \<le> 2 ^ 31 - 2" "tame (X \<union> mActiveStreams t) t t1" by auto
  from worker_step_settled [OF assms(1) step(2) 1(1)] 1 show ?case by (auto intro: tame_trans)
qed simp

text \<open>A round of the loop of the thread consists of such steps.\<close>

lemma sync_rounds_steps:
  assumes "sync_rounds k n t = Some (n', t')" "int k \<le> pending t" "it_ok n (mSequence t)" "finite (mActiveStreams t)"
  shows "(worker_step env)\<^sup>*\<^sup>* t t' \<and> it_ok n' (mSequence t') \<and> finite (mActiveStreams t')"
  using assms
proof (induction k arbitrary: n t)
  case (Suc k)
  from Suc.prems(1) obtain n1 t1 where s: "sync_streams n t = Some (n1, t1)"
    and rest: "sync_rounds k n1 (respond t1) = Some (n', t')" by (auto simp: bind_eq_Some_conv)
  note o = sync_streams_ok [OF s Suc.prems(3,4)]
  have "pending t1 = pending t" by (rule pending_same [OF o(4)])
  then have "int k \<le> pending (respond t1)" using Suc.prems(2) pending_respond [of t1] by simp
  with Suc.IH [OF rest] o Suc.prems(4)
  have "(worker_step env)\<^sup>*\<^sup>* (respond t1) t' \<and> it_ok n' (mSequence t') \<and> finite (mActiveStreams t')"
    by (simp add: same_requests_def)
  moreover have "worker_step env t (respond t1)"
    using Suc.prems(2) by (intro w_sync [OF _ Suc.prems(3) s]) simp
  ultimately show ?case by (meson converse_rtranclp_into_rtranclp)
qed simp

lemma w_own_control: "worker_step env t (t\<lparr>mThreadControl := c\<rparr>)"
  using w_own [where t = t and c = c and dg = "mDiag t" and w = "txWindowWidth (mConfig t)" and p = "txWindowPitch (mConfig t)"] by simp

lemma w_own_window: "worker_step env t (t\<lparr>mConfig := (mConfig t)\<lparr>txWindowWidth := w, txWindowPitch := p\<rparr>\<rparr>)"
  using w_own [where t = t and c = "mThreadControl t" and dg = "mDiag t" and w = w and p = p] by simp

lemma w_own_log: "worker_step env t (logOutput t)"
  using w_own [where t = t and c = "mThreadControl t" and w = "txWindowWidth (mConfig t)" and p = "txWindowPitch (mConfig t)"]
  by (simp add: logOutput_def Let_def)

lemma updateSequence_steps:
  assumes "updateSequence n t = Some (n', t')" "0 \<le> pending t" "it_ok n (mSequence t)" "finite (mActiveStreams t)"
  shows "(worker_step env)\<^sup>*\<^sup>* t t' \<and> it_ok n' (mSequence t')"
proof -
  from assms(1) obtain t1 where s: "sync_rounds (nat (pending t)) n t = Some (n', t1)"
    by (cases "sync_rounds (nat (pending t)) n t") (auto simp: updateSequence_def pending_def Let_def)
  with assms(1) have t': "t' = t1 \<or> t' = t1\<lparr>mConfig := (mConfig t1)\<lparr>txWindowWidth := txWindowWidthInit (mConfig t1),
                                                  txWindowPitch := txWindowPitchInit (mConfig t1)\<rparr>\<rparr>"
    by (simp add: updateSequence_def Let_def pending_def [symmetric] split: if_split_asm)
  note r = sync_rounds_steps [OF s _ assms(3,4), of env]
  with assms(2) t' w_own_window [of env t1] show ?thesis by (auto intro: rtranclp.rtrancl_into_rtrancl)
qed

text \<open>The steps of a round, one after the other.\<close>

lemma then_window:
  "run_window env ws n a = Some (ws', n', b) \<Longrightarrow> it_ok n (mSequence a) \<Longrightarrow>
     (worker_step env)\<^sup>*\<^sup>* t a \<Longrightarrow> (worker_step env)\<^sup>*\<^sup>* t b"
  by (meson rtranclp.rtrancl_into_rtrancl w_window)

lemma then_reclaim:
  "reclaimPackets l a = Some (k, b) \<Longrightarrow> (worker_step env)\<^sup>*\<^sup>* t a \<Longrightarrow> (worker_step env)\<^sup>*\<^sup>* t b"
  by (meson rtranclp.rtrancl_into_rtrancl w_reclaim)

lemma then_flag: "(worker_step env)\<^sup>*\<^sup>* t a \<Longrightarrow> (worker_step env)\<^sup>*\<^sup>* t (a\<lparr>mThreadControl := c\<rparr>)"
  by (erule rtranclp.rtrancl_into_rtrancl) (rule w_own_control)

lemma then_log: "(worker_step env)\<^sup>*\<^sup>* t a \<Longrightarrow> (worker_step env)\<^sup>*\<^sup>* t (logOutput a)"
  by (meson rtranclp.rtrancl_into_rtrancl w_own_log)

lemma then_if:
  "(worker_step env)\<^sup>*\<^sup>* t a \<Longrightarrow> (worker_step env)\<^sup>*\<^sup>* t b \<Longrightarrow> (worker_step env)\<^sup>*\<^sup>* t (if c then a else b)"
  by simp

lemma it_flag: "it_ok n (mSequence a) \<Longrightarrow> it_ok n (mSequence (a\<lparr>mThreadControl := c\<rparr>))"
  by simp

lemma it_if: "it_ok n (mSequence a) \<Longrightarrow> it_ok n (mSequence b) \<Longrightarrow> it_ok n (mSequence (if c then a else b))"
  by simp

lemmas then_steps = then_log then_flag then_if it_flag it_if

lemma run_cycle_steps:
  assumes run: "run_cycle env ca (link, ws, n, t) = Some (link', ws', n', t')"
    and ok: "0 \<le> pending t" "it_ok n (mSequence t)" "finite (mActiveStreams t)"
  shows "(worker_step env)\<^sup>*\<^sup>* t t'"
proof -
  note update = updateSequence_steps [where env = env, OF _ ok]
  show ?thesis
    using run unfolding run_cycle_def Let_def prod.case
    by - (elim bind_SomeE prod_SomeE if_SomeE Some_SomeE; (simp only: prod.inject option.inject)?; elim conjE; hypsubst;
        (drule update, elim conjE)?;
        (intro then_steps | erule then_reclaim | erule then_window | assumption)+)
qed

end
