(* ===== verification/Transmit_Engine.thy ===== *)
theory Transmit_Engine
  imports Sequencer_Streams Stream_Map
begin

text \<open>
  \<^verbatim>\<open>IasAvbTransmitEngine\<close> (\<^verbatim>\<open>IasAvbTransmitEngine.hpp/.cpp\<close>): it owns the transmit streams and the two
  transmit sequencers, one for each SR class, and puts the streams on their lists and takes them off. A
  stream pointer is a number and the streams themselves are the field \<open>heap\<close>; a pointer to a sequencer is its
  index in \<^verbatim>\<open>mSequencers\<close>, and a call on a sequencer works on the streams of the engine. The calls that
  leave the engine are recorded in \<open>calls\<close>; the field \<open>lost\<close> holds the sequencers that have been forgotten
  without being deleted. What is only logged is left out.

  \<open>txe_env\<close> holds the answers from outside: for each sequencer the environment of theory
  \<open>Transmit_Sequencer\<close>, the virtual functions of the streams by their type, the registry, the driver and
  the allocator, and what the worker threads do while the engine waits for a response (\<open>xe_worker\<close>) and
  while a thread ends (\<open>xe_join\<close>). The result \<open>None\<close> is undefined behaviour, which includes a violated
  \<^verbatim>\<open>AVB_ASSERT\<close>.
\<close>

section \<open>State\<close>

datatype engine_call =
    SetClassBandwidth u32 u32 u32 u32
  | LinkStatus bool
  | StreamStatus u64 IasAvbStreamState

record 'a IasAvbTransmitEngine =
  mIgbDevice :: bool
  mAvbStreams :: "(u64 \<times> nat) list"
  txe_mUseShaper :: bool
  mUseResume :: bool
  mRunning :: bool
  mSequencers :: "'a sequencer option list"
  txe_mEventInterface :: "nat option"
  heap :: "nat \<Rightarrow> 'a IasAvbStream_scheme"
  calls :: "engine_call list"
  lost :: "'a sequencer list"

type_synonym 'a tx_engine = "'a IasAvbTransmitEngine"

record 'a txe_env =
  xe_tx :: "nat \<Rightarrow> 'a tx_env"
  xe_vtable :: "IasAvbStreamType \<Rightarrow> 'a IasAvbStream_scheme stream_vtable"
  xe_connectTo :: "nat option \<Rightarrow> 'a IasAvbStream_scheme \<Rightarrow> (IasAvbProcessingResult \<times> 'a IasAvbStream_scheme) option"
  xe_registry :: "registry option"
  xe_igbDevice :: bool
  xe_setBandwidth :: "nat \<Rightarrow> int"
  xe_newSequencer :: bool
  xe_newStream :: "nat set \<Rightarrow> nat"
  xe_worker :: "'a tx_env \<Rightarrow> 'a sequencer \<Rightarrow> 'a sequencer option"
  xe_join :: "'a tx_env \<Rightarrow> 'a sequencer \<Rightarrow> 'a sequencer option"

definition cIasAvbNumSupportedClasses :: nat where "cIasAvbNumSupportedClasses = 2"

definition txe_new :: "(nat \<Rightarrow> 'a IasAvbStream_scheme) \<Rightarrow> 'a tx_engine" where
  "txe_new ss =
     \<lparr>mIgbDevice = False, mAvbStreams = [], txe_mUseShaper = False, mUseResume = False, mRunning = False,
      mSequencers = replicate cIasAvbNumSupportedClasses None, txe_mEventInterface = None, heap = ss, calls = [],
      lost = []\<rparr>"

definition txe_isInitialized :: "'a tx_engine \<Rightarrow> bool" where
  "txe_isInitialized e \<longleftrightarrow> mIgbDevice e"

definition txe_isRunning :: "'a tx_engine \<Rightarrow> bool" where
  "txe_isRunning e \<longleftrightarrow> mRunning e"

definition txe_isValidStreamId :: "u64 \<Rightarrow> 'a tx_engine \<Rightarrow> bool" where
  "txe_isValidStreamId k e \<longleftrightarrow> map_of (mAvbStreams e) k \<noteq> None"

section \<open>Sequencers\<close>

text \<open>The environment of a sequencer, with the virtual functions of the streams as they are now.\<close>

definition seq_env :: "'a txe_env \<Rightarrow> nat \<Rightarrow> 'a tx_engine \<Rightarrow> 'a tx_env" where
  "seq_env env i e = (xe_tx env i)\<lparr>te_vtable := \<lambda>p. xe_vtable env (mStreamType (heap e p))\<rparr>"

definition sequencer_at :: "nat \<Rightarrow> 'a tx_engine \<Rightarrow> 'a sequencer option" where
  "sequencer_at i e = (if i < length (mSequencers e) then mSequencers e ! i else None)"

text \<open>A call on the sequencer \<open>i\<close>, which sees and changes the streams of the engine.\<close>

definition on_seq ::
  "('a sequencer \<Rightarrow> ('r \<times> 'a sequencer) option) \<Rightarrow> nat \<Rightarrow> 'a tx_engine \<Rightarrow> ('r \<times> 'a tx_engine) option" where
  "on_seq f i e =
     do {
       t \<leftarrow> sequencer_at i e;
       (r, t) \<leftarrow> f (t\<lparr>streams := heap e\<rparr>);
       Some (r, e\<lparr>mSequencers := (mSequencers e)[i := Some t], heap := streams t\<rparr>)
     }"

text \<open>The search ends at the first entry that is NULL or of the class.\<close>

primrec find_class :: "IasAvbSrClass \<Rightarrow> nat \<Rightarrow> 'a sequencer option list \<Rightarrow> nat option" where
  "find_class c i [] = None"
| "find_class c i (x # xs) =
     (case x of
        None \<Rightarrow> None
      | Some t \<Rightarrow> if IasAvbTransmitSequencer.mClass t = c then Some i else find_class c (Suc i) xs)"

definition getSequencerByClass :: "IasAvbSrClass \<Rightarrow> 'a tx_engine \<Rightarrow> nat option" where
  "getSequencerByClass c e = find_class c 0 (mSequencers e)"

definition getSequencerByStream :: "nat \<Rightarrow> 'a tx_engine \<Rightarrow> nat option option" where
  "getSequencerByStream p e =
     map_option (\<lambda>tSpec. getSequencerByClass (IasAvbTSpec.mClass tSpec) e) (mTSpec (heap e p))"

definition igb_set_class_bandwidth :: "u32 \<Rightarrow> u32 \<Rightarrow> u32 \<Rightarrow> u32 \<Rightarrow> 'a tx_engine \<Rightarrow> 'a tx_engine" where
  "igb_set_class_bandwidth a b c d e = e\<lparr>calls := calls e @ [SetClassBandwidth a b c d]\<rparr>"

text \<open>The shaper is turned off; the driver is asked at most \<open>n\<close> times.\<close>

primrec disable_shaper :: "'a txe_env \<Rightarrow> nat \<Rightarrow> 'a tx_engine \<Rightarrow> 'a tx_engine" where
  "disable_shaper env 0 e = e"
| "disable_shaper env (Suc n) e =
     (let err = xe_setBandwidth env (length (calls e)); e = igb_set_class_bandwidth 0 0 1500 64 e
      in if err \<noteq> 0 then disable_shaper env n e else e)"

definition access_count :: "'a txe_env \<Rightarrow> nat" where
  "access_count env =
     unat (snd (getConfigValue (ucast :: u64 \<Rightarrow> u32) (xe_registry env) cIgbAccessTimeoutCnt 0))"

text \<open>\<^verbatim>\<open>updateShaper\<close> of every sequencer there is.\<close>

primrec update_shapers :: "'a txe_env \<Rightarrow> nat list \<Rightarrow> 'a tx_engine \<Rightarrow> 'a tx_engine option" where
  "update_shapers env [] e = Some e"
| "update_shapers env (i # is') e =
     do {
       e \<leftarrow> (if sequencer_at i e = None then Some e
             else map_option snd (on_seq (\<lambda>t. map_option (Pair ()) (updateShaper (seq_env env i e) t)) i e));
       update_shapers env is' e
     }"

definition txe_updateLinkStatus :: "'a txe_env \<Rightarrow> bool \<Rightarrow> 'a tx_engine \<Rightarrow> 'a tx_engine option" where
  "txe_updateLinkStatus env linkIsUp e =
     (if \<not> txe_isInitialized e then None
      else do {
        e \<leftarrow> (if linkIsUp then
                (if txe_mUseShaper e then update_shapers env [0..<length (mSequencers e)] e
                 else Some (igb_set_class_bandwidth 0 0 1500 64 e))
              else Some e);
        Some (if txe_mEventInterface e \<noteq> None then e\<lparr>calls := calls e @ [LinkStatus linkIsUp]\<rparr> else e)
      })"

definition txe_updateStreamStatus :: "u64 \<Rightarrow> IasAvbStreamState \<Rightarrow> 'a tx_engine \<Rightarrow> 'a tx_engine" where
  "txe_updateStreamStatus streamId status e =
     (if txe_mEventInterface e \<noteq> None then e\<lparr>calls := calls e @ [StreamStatus streamId status]\<rparr> else e)"

text \<open>\<^verbatim>\<open>updateShapers\<close>: the bandwidths per observation interval, rounded up.\<close>

definition class_bandwidth :: "IasAvbSrClass \<Rightarrow> 'a sequencer option \<Rightarrow> u32 \<Rightarrow> u32" where
  "class_bandwidth c x bw =
     (case x of
        None \<Rightarrow> bw
      | Some t \<Rightarrow> if IasAvbTransmitSequencer.mClass t = c then mCurrentBandwidth t else bw)"

definition updateShapers :: "'a tx_engine \<Rightarrow> 'a tx_engine" where
  "updateShapers e =
     (let bwHigh = fold (class_bandwidth eIasAvbSrClassHigh) (mSequencers e) 0;
          bwLow = fold (class_bandwidth eIasAvbSrClassLow) (mSequencers e) 0
      in igb_set_class_bandwidth (if bwHigh > 0 then (bwHigh + 7999) div 8000 else bwHigh)
           (if bwLow > 0 then (bwLow + 3999) div 4000 else bwLow) 83 83 e)"

section \<open>Starting and stopping\<close>

text \<open>A thread that is to end does its last rounds before \<^verbatim>\<open>stop\<close> of the sequencer goes on.\<close>

definition stop_sequencer :: "'a txe_env \<Rightarrow> nat \<Rightarrow> 'a tx_engine \<Rightarrow> (IasAvbProcessingResult \<times> 'a tx_engine) option" where
  "stop_sequencer env i e =
     (let te = seq_env env i e in
      on_seq (\<lambda>t. do {
                t \<leftarrow> (if mTransmitThread t = Some True \<and> te_threadStop te then xe_join env te t else Some t);
                sequencer_stop te t
              }) i e)"

text \<open>The loops end at the first NULL; the list has the indices left.\<close>

primrec stop_sequencers ::
  "'a txe_env \<Rightarrow> nat list \<Rightarrow> IasAvbProcessingResult \<Rightarrow> 'a tx_engine \<Rightarrow> (IasAvbProcessingResult \<times> 'a tx_engine) option"
where
  "stop_sequencers env [] result e = Some (result, e)"
| "stop_sequencers env (i # is') result e =
     (if sequencer_at i e = None then Some (result, e)
      else do {
        (res, e) \<leftarrow> stop_sequencer env i e;
        stop_sequencers env is' (if res \<noteq> eIasAvbProcOK then res else result) e
      })"

primrec start_sequencers ::
  "'a txe_env \<Rightarrow> nat list \<Rightarrow> 'a tx_engine \<Rightarrow> (IasAvbProcessingResult \<times> 'a tx_engine) option" where
  "start_sequencers env [] e = Some (eIasAvbProcOK, e)"
| "start_sequencers env (i # is') e =
     (if sequencer_at i e = None then Some (eIasAvbProcOK, e)
      else do {
        (res, e) \<leftarrow> on_seq (\<lambda>t. Some (sequencer_start (seq_env env i e) t)) i e;
        if res \<noteq> eIasAvbProcOK then Some (res, e) else start_sequencers env is' e
      })"

definition txe_stop :: "'a txe_env \<Rightarrow> 'a tx_engine \<Rightarrow> (IasAvbProcessingResult \<times> 'a tx_engine) option" where
  "txe_stop env e =
     do {
       (result, e) \<leftarrow>
         (if \<not> txe_isInitialized e then Some (eIasAvbProcNotInitialized, e)
          else if \<not> txe_isRunning e then Some (eIasAvbProcOK, e)
          else stop_sequencers env [0..<length (mSequencers e)] eIasAvbProcOK e);
       Some (result, e\<lparr>mRunning := False\<rparr>)
     }"

definition txe_start :: "'a txe_env \<Rightarrow> 'a tx_engine \<Rightarrow> (IasAvbProcessingResult \<times> 'a tx_engine) option" where
  "txe_start env e =
     do {
       (result, e) \<leftarrow>
         (if \<not> txe_isInitialized e then Some (eIasAvbProcNotInitialized, e)
          else if txe_isRunning e then Some (eIasAvbProcOK, e)
          else
            let e = (if mUseResume e then disable_shaper env (access_count env) e else e)
            in start_sequencers env [0..<length (mSequencers e)] (e\<lparr>mUseResume := True\<rparr>));
       if result \<noteq> eIasAvbProcOK then map_option (\<lambda>(_, e). (result, e)) (txe_stop env e)
       else Some (result, e\<lparr>mRunning := True\<rparr>)
     }"

section \<open>Creating and destroying streams\<close>

definition queue_of :: "IasAvbSrClass \<Rightarrow> u32" where
  "queue_of c = (case c of eIasAvbSrClassHigh \<Rightarrow> 0 | eIasAvbSrClassLow \<Rightarrow> 1)"

text \<open>A new sequencer: \<^verbatim>\<open>init\<close>, the event interface of the first one, \<^verbatim>\<open>start\<close> if the engine runs.
  The engine is the event interface 0.\<close>

definition new_sequencer ::
  "'a tx_env \<Rightarrow> IasAvbSrClass \<Rightarrow> bool \<Rightarrow> bool \<Rightarrow> 'a sequencer \<Rightarrow> IasAvbProcessingResult \<times> 'a sequencer" where
  "new_sequencer te qavClass isFirst running t =
     (let (result, t) = sequencer_init te (queue_of qavClass) qavClass isFirst t;
          (result, t) = (if isFirst \<and> result = eIasAvbProcOK
                         then Transmit_Sequencer.registerEventInterface (Some 0) t else (result, t))
      in if result = eIasAvbProcOK \<and> running then sequencer_start te t else (result, t))"

definition createSequencerOnDemand ::
  "'a txe_env \<Rightarrow> IasAvbSrClass \<Rightarrow> 'a tx_engine \<Rightarrow> (IasAvbProcessingResult \<times> 'a tx_engine) option" where
  "createSequencerOnDemand env qavClass e =
     (if \<not> txe_isInitialized e then None
      else if getSequencerByClass qavClass e \<noteq> None then Some (eIasAvbProcOK, e)
      else
        let i = length (takeWhile (\<lambda>x. x \<noteq> None) (mSequencers e)) in
        if i = cIasAvbNumSupportedClasses then Some (eIasAvbProcNoSpaceLeft, e)
        else if \<not> xe_newSequencer env then Some (eIasAvbProcNotEnoughMemory, e)
        else
          let (result, t) = new_sequencer (seq_env env i e) qavClass (i = 0) (txe_isRunning e) (sequencer_new (heap e))
          in Some (result, if result = eIasAvbProcOK then e\<lparr>mSequencers := (mSequencers e)[i := Some t]\<rparr> else e))"

text \<open>The creation of a transmit stream, the same for the three types: \<open>outcome\<close> is \<open>None\<close> if there is no
  memory for the object, and else the result of its \<^verbatim>\<open>initTransmit\<close>.\<close>

definition createTransmitStream ::
  "'a txe_env \<Rightarrow> (IasAvbProcessingResult \<times> 'a IasAvbStream_scheme) option \<Rightarrow> u64 \<Rightarrow> 'a tx_engine \<Rightarrow>
     (IasAvbProcessingResult \<times> 'a tx_engine) option" where
  "createTransmitStream env outcome k e =
     (if map_of (mAvbStreams e) k \<noteq> None then Some (eIasAvbProcInvalidParam, e)
      else case outcome of
             None \<Rightarrow> Some (eIasAvbProcNotEnoughMemory, e)
           | Some (result, s) \<Rightarrow>
               if result \<noteq> eIasAvbProcOK then Some (result, e)
               else do {
                 let p = xe_newStream env (snd ` set (mAvbStreams e));
                 tSpec \<leftarrow> mTSpec s;
                 (result, e) \<leftarrow> createSequencerOnDemand env (IasAvbTSpec.mClass tSpec) (e\<lparr>heap := (heap e)(p := s)\<rparr>);
                 Some (result, if result = eIasAvbProcOK
                               then e\<lparr>mAvbStreams := put_stream k p (mAvbStreams e)\<rparr> else e)
               })"

definition on_heap ::
  "('a IasAvbStream_scheme \<Rightarrow> 'a IasAvbStream_scheme option) \<Rightarrow> nat \<Rightarrow> 'a tx_engine \<Rightarrow> 'a tx_engine option" where
  "on_heap f p e = map_option (\<lambda>s. e\<lparr>heap := (heap e)(p := s)\<rparr>) (f (heap e p))"

text \<open>The largest frame of the high class is handed to the sequencer of the low class.\<close>

definition pass_frame_size :: "nat \<Rightarrow> 'a tx_engine \<Rightarrow> 'a tx_engine option" where
  "pass_frame_size i e =
     do {
       t \<leftarrow> sequencer_at i e;
       if txe_mUseShaper e \<and> IasAvbTransmitSequencer.mClass t = eIasAvbSrClassHigh then
         (case getSequencerByClass eIasAvbSrClassLow e of
            None \<Rightarrow> Some e
          | Some j \<Rightarrow> map_option snd (on_seq (\<lambda>l. Some ((), l\<lparr>mMaxFrameSizeHigh := mMaxFrameSizeHigh t\<rparr>)) j e))
       else Some e
     }"

definition activateAvbStream ::
  "'a txe_env \<Rightarrow> u64 \<Rightarrow> 'a tx_engine \<Rightarrow> (IasAvbProcessingResult \<times> 'a tx_engine) option" where
  "activateAvbStream env k e =
     (case map_of (mAvbStreams e) k of
        None \<Rightarrow> Some (eIasAvbProcInvalidParam, e)
      | Some p \<Rightarrow>
          if mActive (heap e p) then Some (eIasAvbProcOK, e)
          else do {
            seq \<leftarrow> getSequencerByStream p e;
            i \<leftarrow> seq;
            (result, e) \<leftarrow> on_seq (addStreamToTransmitList (seq_env env i e) (Some p)) i e;
            if result \<noteq> eIasAvbProcOK then Some (result, e)
            else do {
              e \<leftarrow> on_heap (activate (xe_vtable env (mStreamType (heap e p))) False) p e;
              e \<leftarrow> pass_frame_size i e;
              Some (result, e)
            }
          })"

definition deactivateAvbStream ::
  "'a txe_env \<Rightarrow> u64 \<Rightarrow> 'a tx_engine \<Rightarrow> (IasAvbProcessingResult \<times> 'a tx_engine) option" where
  "deactivateAvbStream env k e =
     (case map_of (mAvbStreams e) k of
        None \<Rightarrow> Some (eIasAvbProcInvalidParam, e)
      | Some p \<Rightarrow>
          if \<not> mActive (heap e p) then Some (eIasAvbProcOK, e)
          else do {
            seq \<leftarrow> getSequencerByStream p e;
            i \<leftarrow> seq;
            let v = xe_vtable env (mStreamType (heap e p));
            let te = seq_env env i e;
            e \<leftarrow> on_heap (deactivate v False) p e;
            (result, e) \<leftarrow> on_seq (removeStreamFromTransmitList te (xe_worker env te) (Some p)) i e;
            if result = eIasAvbProcOK then do {
              e \<leftarrow> (if mActive (heap e p) then on_heap (deactivate v False) p e else Some e);
              e \<leftarrow> pass_frame_size i e;
              Some (result, e)
            }
            else do {
              e \<leftarrow> on_heap (activate v False) p e;
              Some (result, e)
            }
          })"

definition destroyAvbStream ::
  "'a txe_env \<Rightarrow> u64 \<Rightarrow> 'a tx_engine \<Rightarrow> (IasAvbProcessingResult \<times> 'a tx_engine) option" where
  "destroyAvbStream env k e =
     (if map_of (mAvbStreams e) k = None then Some (eIasAvbProcInvalidParam, e)
      else do {
        (result, e) \<leftarrow> deactivateAvbStream env k e;
        Some (result, if result = eIasAvbProcOK then e\<lparr>mAvbStreams := erase_stream k (mAvbStreams e)\<rparr> else e)
      })"

section \<open>Connections\<close>

definition txe_connect_at ::
  "'a txe_env \<Rightarrow> nat option \<Rightarrow> nat \<Rightarrow> 'a tx_engine \<Rightarrow> (IasAvbProcessingResult \<times> 'a tx_engine) option" where
  "txe_connect_at env localStream p e =
     map_option (\<lambda>(result, s). (result, e\<lparr>heap := (heap e)(p := s)\<rparr>)) (xe_connectTo env localStream (heap e p))"

text \<open>\<^verbatim>\<open>connectAudioStreams\<close> and \<^verbatim>\<open>connectVideoStreams\<close>, by the type they ask for.\<close>

definition txe_connectStreams ::
  "'a txe_env \<Rightarrow> IasAvbStreamType \<Rightarrow> u64 \<Rightarrow> nat option \<Rightarrow> 'a tx_engine \<Rightarrow> (IasAvbProcessingResult \<times> 'a tx_engine) option"
where
  "txe_connectStreams env streamType k localStream e =
     (case map_of (mAvbStreams e) k of
        None \<Rightarrow> Some (eIasAvbProcErr, e)
      | Some p \<Rightarrow> if mStreamType (heap e p) = streamType then txe_connect_at env localStream p e
                  else Some (eIasAvbProcErr, e))"

definition txe_disconnectStreams ::
  "'a txe_env \<Rightarrow> u64 \<Rightarrow> 'a tx_engine \<Rightarrow> (IasAvbProcessingResult \<times> 'a tx_engine) option" where
  "txe_disconnectStreams env k e =
     (case map_of (mAvbStreams e) k of
        None \<Rightarrow> Some (eIasAvbProcInvalidParam, e)
      | Some p \<Rightarrow>
          if mStreamType (heap e p) = eIasAvbVideoStream \<or> mStreamType (heap e p) = eIasAvbAudioStream
          then txe_connect_at env None p e else Some (eIasAvbProcInvalidParam, e))"

section \<open>Set-up\<close>

definition txe_registerEventInterface :: "nat option \<Rightarrow> 'a tx_engine \<Rightarrow> IasAvbProcessingResult \<times> 'a tx_engine" where
  "txe_registerEventInterface eventInterface e =
     (if \<not> txe_isInitialized e then (eIasAvbProcNotInitialized, e)
      else if eventInterface = None then (eIasAvbProcInvalidParam, e)
      else if txe_mEventInterface e \<noteq> None then (eIasAvbProcAlreadyInUse, e)
      else (eIasAvbProcOK, e\<lparr>txe_mEventInterface := eventInterface\<rparr>))"

definition txe_unregisterEventInterface :: "nat option \<Rightarrow> 'a tx_engine \<Rightarrow> IasAvbProcessingResult \<times> 'a tx_engine" where
  "txe_unregisterEventInterface eventInterface e =
     (if \<not> txe_isInitialized e then (eIasAvbProcNotInitialized, e)
      else if eventInterface = None \<or> txe_mEventInterface e \<noteq> eventInterface then (eIasAvbProcInvalidParam, e)
      else (eIasAvbProcOK, e\<lparr>txe_mEventInterface := None\<rparr>))"

text \<open>The sequencers are deleted before the streams; the memory of both is gone afterwards.\<close>

definition txe_cleanup :: "'a txe_env \<Rightarrow> 'a tx_engine \<Rightarrow> 'a tx_engine option" where
  "txe_cleanup env e =
     do {
       (_, e) \<leftarrow> txe_stop env e;
       Some (e\<lparr>mSequencers := map (\<lambda>_. None) (mSequencers e), mIgbDevice := False, mAvbStreams := []\<rparr>)
     }"

definition txe_init :: "'a txe_env \<Rightarrow> 'a tx_engine \<Rightarrow> (IasAvbProcessingResult \<times> 'a tx_engine) option" where
  "txe_init env e =
     (let result = (if txe_isInitialized e \<or> \<not> xe_igbDevice env then eIasAvbProcInitializationFailed else eIasAvbProcOK);
          e = e\<lparr>mIgbDevice := xe_igbDevice env\<rparr>;
          e = (if result = eIasAvbProcOK
               then disable_shaper env (access_count env)
                      (e\<lparr>txe_mUseShaper := snd (doGetConfigValue (xe_registry env) cXmitUseShaper 0) \<noteq> 0\<rparr>)
               else e);
          e = e\<lparr>lost := lost e @ concat (map (\<lambda>x. case x of None \<Rightarrow> [] | Some t \<Rightarrow> [t]) (mSequencers e)),
                mSequencers := map (\<lambda>_. None) (mSequencers e)\<rparr>
      in if result \<noteq> eIasAvbProcOK then map_option (Pair result) (txe_cleanup env e) else Some (result, e))"

end
