(* ===== verification/Transmit_Lists.thy ===== *)
theory Transmit_Lists
  imports Transmit_Engine
begin

text \<open>
  The transmit engine together with the worker threads of its sequencers: the invariant \<open>engine_ok\<close>, the step
  relation \<open>txe_step\<close>, and what the calls on one sequencer do to its list, its sequence and the streams.
\<close>

section \<open>The invariant\<close>

definition pointers :: "'a tx_engine \<Rightarrow> nat set" where
  "pointers e = snd ` set (mAvbStreams e)"

definition class_of :: "'a IasAvbStream_scheme \<Rightarrow> IasAvbSrClass option" where
  "class_of s = map_option IasAvbTSpec.mClass (mTSpec s)"

definition on_list :: "(nat \<Rightarrow> 'a IasAvbStream_scheme) \<Rightarrow> nat set \<Rightarrow> IasAvbSrClass \<Rightarrow> nat set" where
  "on_list h ps c = {p \<in> ps. mActive (h p) \<and> class_of (h p) = Some c}"

definition seq_ok :: "(nat \<Rightarrow> 'a IasAvbStream_scheme) \<Rightarrow> nat set \<Rightarrow> 'a sequencer \<Rightarrow> bool" where
  "seq_ok h ps t \<longleftrightarrow>
     settled {} t \<and> mActiveStreams t = on_list h ps (IasAvbTransmitSequencer.mClass t) \<and>
     mTransmitThread t \<noteq> None \<and> (mTransmitThread t = Some False \<longrightarrow> mSequence t = [])"

definition engine_ok :: "'a tx_engine \<Rightarrow> bool" where
  "engine_ok e \<longleftrightarrow>
     keys_ok (mAvbStreams e) \<and> distinct (map snd (mAvbStreams e)) \<and>
     length (mSequencers e) = cIasAvbNumSupportedClasses \<and>
     (\<forall>i t. sequencer_at i e = Some t \<longrightarrow> seq_ok (heap e) (pointers e) t) \<and>
     (\<forall>i j t u. sequencer_at i e = Some t \<longrightarrow> sequencer_at j e = Some u \<longrightarrow>
        IasAvbTransmitSequencer.mClass t = IasAvbTransmitSequencer.mClass u \<longrightarrow> i = j) \<and>
     (\<forall>i j. j \<le> i \<longrightarrow> sequencer_at i e \<noteq> None \<longrightarrow> sequencer_at j e \<noteq> None) \<and>
     (\<forall>p \<in> pointers e. \<exists>i t. sequencer_at i e = Some t \<and>
        class_of (heap e p) = Some (IasAvbTransmitSequencer.mClass t))"

text \<open>Fewer than \<open>2 ^ 31 - 2\<close> requests of a sequencer are unanswered.\<close>

definition calm :: "'a tx_engine \<Rightarrow> bool" where
  "calm e \<longleftrightarrow> (\<forall>i t. sequencer_at i e = Some t \<longrightarrow> pending t < 2 ^ 31 - 2)"

text \<open>What the engine relies on: the streams keep their contract, connecting a stream is steady, the workers do
  what the model of their thread does, a thread that ends leaves its loop, and a new object is none of
  those that are alive.\<close>

definition engine_env :: "'a txe_env \<Rightarrow> bool" where
  "engine_env env \<longleftrightarrow>
     (\<forall>ty. transmitting (xe_vtable env ty)) \<and>
     (\<forall>l s r s'. xe_connectTo env l s = Some (r, s') \<longrightarrow> steady s s') \<and>
     (\<forall>te t t'. xe_worker env te t = Some t' \<longrightarrow> (worker_step te)\<^sup>*\<^sup>* t t') \<and>
     (\<forall>te t t'. xe_join env te t = Some t' \<longrightarrow>
        (\<exists>t1 reclaimed n. (worker_step te)\<^sup>*\<^sup>* t t1 \<and> run_leave reclaimed t1 = Some (n, t'))) \<and>
     (\<forall>S. finite S \<longrightarrow> xe_newStream env S \<notin> S)"

text \<open>The operations of the engine and the steps of the worker threads. A new stream is not active; \<^verbatim>\<open>init\<close> is
  called on an engine without streams.\<close>

inductive txe_step :: "'a txe_env \<Rightarrow> 'a tx_engine \<Rightarrow> 'a tx_engine \<Rightarrow> bool" for env where
  init: "mAvbStreams e = [] \<Longrightarrow> txe_init env e = Some (r, e') \<Longrightarrow> txe_step env e e'"
| cleanup: "txe_cleanup env e = Some e' \<Longrightarrow> txe_step env e e'"
| start: "txe_start env e = Some (r, e') \<Longrightarrow> txe_step env e e'"
| stop: "txe_stop env e = Some (r, e') \<Longrightarrow> txe_step env e e'"
| create: "\<forall>r s. outcome = Some (r, s) \<longrightarrow> \<not> mActive s \<Longrightarrow> createTransmitStream env outcome k e = Some (r, e') \<Longrightarrow>
    txe_step env e e'"
| destroy: "destroyAvbStream env k e = Some (r, e') \<Longrightarrow> txe_step env e e'"
| activate: "activateAvbStream env k e = Some (r, e') \<Longrightarrow> txe_step env e e'"
| deactivate: "deactivateAvbStream env k e = Some (r, e') \<Longrightarrow> txe_step env e e'"
| connect: "txe_connectStreams env ty k l e = Some (r, e') \<Longrightarrow> txe_step env e e'"
| disconnect: "txe_disconnectStreams env k e = Some (r, e') \<Longrightarrow> txe_step env e e'"
| register: "txe_registerEventInterface x e = (r, e') \<Longrightarrow> txe_step env e e'"
| unregister: "txe_unregisterEventInterface x e = (r, e') \<Longrightarrow> txe_step env e e'"
| link_status: "txe_updateLinkStatus env up e = Some e' \<Longrightarrow> txe_step env e e'"
| stream_status: "txe_step env e (txe_updateStreamStatus i st e)"
| shapers: "txe_step env e (updateShapers e)"
| worker: "on_seq f i e = Some ((), e') \<Longrightarrow>
    (\<And>t r t'. f t = Some (r, t') \<Longrightarrow> mTransmitThread t = Some True \<and> worker_step (seq_env env i e) t t') \<Longrightarrow>
    txe_step env e e'"

inductive_cases txe_stepE: "txe_step env e e'"

section \<open>Changes of one sequencer\<close>

lemma engine_env_vtable: "engine_env env \<Longrightarrow> transmitting (xe_vtable env ty)"
  by (simp add: engine_env_def)

lemma engine_env_streams: "engine_env env \<Longrightarrow> sequencer_streams (seq_env env i e)"
  by (simp add: engine_env_def sequencer_streams_def seq_env_def)

lemma engine_env_join:
  "engine_env env \<Longrightarrow> xe_join env te t = Some t' \<Longrightarrow>
     \<exists>t1 reclaimed n. (worker_step te)\<^sup>*\<^sup>* t t1 \<and> run_leave reclaimed t1 = Some (n, t')"
  unfolding engine_env_def by blast

lemma finite_pointers [simp]: "finite (pointers e)"
  by (simp add: pointers_def)

lemma class_of_same: "same_stream s s' \<Longrightarrow> class_of s' = class_of s"
  by (simp add: same_stream_def class_of_def)

lemma settled_load [simp]: "settled X (t\<lparr>streams := h\<rparr>) = settled X t"
  by (simp add: settled_def pending_def stream_set_def)

lemma seq_ok_load [simp]: "seq_ok h ps (t\<lparr>streams := h'\<rparr>) = seq_ok h ps t"
  by (simp add: seq_ok_def)

text \<open>The sequencers with another class than \<open>t\<close> see no change if only streams of its class become active or
  inactive.\<close>

lemma engine_ok_store:
  assumes ok: "engine_ok e" and t: "sequencer_at i e = Some t"
    and c: "IasAvbTransmitSequencer.mClass t' = IasAvbTransmitSequencer.mClass t"
    and new: "seq_ok h (pointers e) t'"
    and same: "\<And>p. p \<in> pointers e \<Longrightarrow> class_of (h p) = class_of (heap e p)"
    and other: "\<And>p. p \<in> pointers e \<Longrightarrow> class_of (heap e p) \<noteq> Some (IasAvbTransmitSequencer.mClass t) \<Longrightarrow>
      mActive (h p) = mActive (heap e p)"
  shows "engine_ok (e\<lparr>mSequencers := (mSequencers e)[i := Some t'], heap := h\<rparr>)"
proof -
  let ?e = "e\<lparr>mSequencers := (mSequencers e)[i := Some t'], heap := h\<rparr>"
  have i: "i < length (mSequencers e)" using t by (auto simp: sequencer_at_def split: if_splits)
  have at: "sequencer_at j ?e = (if j = i then Some t' else sequencer_at j e)" for j
    using i by (simp add: sequencer_at_def)
  have ps: "pointers ?e = pointers e" by (simp add: pointers_def)
  have "seq_ok h (pointers e) u" if "sequencer_at j e = Some u" "j \<noteq> i" for j u
  proof -
    have u: "seq_ok (heap e) (pointers e) u" and "IasAvbTransmitSequencer.mClass u \<noteq> IasAvbTransmitSequencer.mClass t"
      using ok t that by (auto simp: engine_ok_def)
    then have "on_list h (pointers e) (IasAvbTransmitSequencer.mClass u) = on_list (heap e) (pointers e) (IasAvbTransmitSequencer.mClass u)"
      using same other by (auto simp: on_list_def)
    with u show ?thesis by (simp add: seq_ok_def)
  qed
  moreover have "\<exists>j u. sequencer_at j ?e = Some u \<and> class_of (h p) = Some (IasAvbTransmitSequencer.mClass u)"
    if "p \<in> pointers e" for p
  proof -
    from ok that obtain j u where "sequencer_at j e = Some u" "class_of (heap e p) = Some (IasAvbTransmitSequencer.mClass u)"
      by (auto simp: engine_ok_def)
    with same [OF that] c t at show ?thesis by (intro exI [of _ j]) auto
  qed
  ultimately show ?thesis
    using ok new t c unfolding engine_ok_def ps at by (auto split: if_splits)
qed

lemma on_seqE:
  assumes "on_seq f i e = Some (r, e')"
  obtains t t' where "sequencer_at i e = Some t" "f (t\<lparr>streams := heap e\<rparr>) = Some (r, t')"
    "e' = e\<lparr>mSequencers := (mSequencers e)[i := Some t'], heap := streams t'\<rparr>"
  using assms unfolding on_seq_def by (auto simp: bind_eq_Some_conv)

lemma on_seq_keeps:
  "on_seq f i e = Some (r, e') \<Longrightarrow>
     mAvbStreams e' = mAvbStreams e \<and> pointers e' = pointers e \<and> txe_mUseShaper e' = txe_mUseShaper e \<and>
     length (mSequencers e') = length (mSequencers e)"
  by (erule on_seqE) (simp add: pointers_def)

text \<open>A call that leaves list and requests alone and does not touch the active streams outside the list.\<close>

lemma engine_ok_tame:
  assumes ok: "engine_ok e" and t: "sequencer_at i e = Some t"
    and c: "IasAvbTransmitSequencer.mClass t' = IasAvbTransmitSequencer.mClass t"
    and tame: "tame_streams (mActiveStreams t) (heap e) (streams t')"
    and list: "mActiveStreams t' = mActiveStreams t" "settled {} t'"
    and thread: "mTransmitThread t' \<noteq> None" "mTransmitThread t' = Some False \<longrightarrow> mSequence t' = []"
  shows "engine_ok (e\<lparr>mSequencers := (mSequencers e)[i := Some t'], heap := streams t'\<rparr>)"
proof -
  let ?c = "IasAvbTransmitSequencer.mClass t"
  have seq: "seq_ok (heap e) (pointers e) t" using ok t by (simp add: engine_ok_def)
  then have act: "mActiveStreams t = on_list (heap e) (pointers e) ?c" by (simp add: seq_ok_def)
  have same: "same_stream (heap e p) (streams t' p)" "p \<notin> mActiveStreams t \<Longrightarrow> mActive (streams t' p) = mActive (heap e p)"
    "mActive (heap e p) \<Longrightarrow> mActive (streams t' p)" for p using tame by (auto simp: tame_streams_def)
  have cls: "class_of (streams t' p) = class_of (heap e p)" for p using class_of_same [OF same(1)] .
  have mact: "mActive (streams t' p) = mActive (heap e p)" for p
    using same(2,3) [of p] act by (cases "p \<in> mActiveStreams t") (auto simp: on_list_def)
  have "on_list (streams t') (pointers e) ?c = on_list (heap e) (pointers e) ?c"
    by (simp add: on_list_def cls mact)
  then have "seq_ok (streams t') (pointers e) t'"
    using c list thread seq act by (simp add: seq_ok_def)
  then show ?thesis
    using c cls mact by (intro engine_ok_store [OF ok t]) simp_all
qed

section \<open>What the calls of a sequencer do\<close>

text \<open>The list is kept, no stream becomes inactive, and no stream outside the list becomes active.\<close>

definition harmless :: "(nat \<Rightarrow> 'a IasAvbStream_scheme) \<Rightarrow> 'a sequencer \<Rightarrow> 'a sequencer \<Rightarrow> bool" where
  "harmless h t t' \<longleftrightarrow>
     settled {} t' \<and> mActiveStreams t' = mActiveStreams t \<and> mTransmitThread t' \<noteq> None \<and>
     (mTransmitThread t' = Some False \<longrightarrow> mSequence t' = []) \<and>
     IasAvbTransmitSequencer.mClass t' = IasAvbTransmitSequencer.mClass t \<and>
     tame_streams (mActiveStreams t) h (streams t')"

lemma harmless_load [simp]: "harmless h (t\<lparr>streams := h'\<rparr>) t' = harmless h t t'"
  by (simp add: harmless_def)

lemma worker_call:
  assumes "sequencer_streams te" "(worker_step te)\<^sup>*\<^sup>* t t'" "settled {} t"
  shows "settled {} t' \<and> mActiveStreams t' = mActiveStreams t \<and> mTransmitThread t' = mTransmitThread t \<and>
    IasAvbTransmitSequencer.mClass t' = IasAvbTransmitSequencer.mClass t \<and>
    tame_streams (mActiveStreams t) (streams t) (streams t')"
  using worker_steps_settled [OF assms] by (simp add: tame_def)

lemma settled_request: "settled X t \<Longrightarrow> pending t < 2 ^ 31 - 1 \<Longrightarrow> settled X (t\<lparr>mRequestCount := mRequestCount t + 1\<rparr>)"
  by (auto simp: settled_def pending_request)

lemma settled_cong:
  "mActiveStreams t' = mActiveStreams t \<Longrightarrow> mSequence t' = mSequence t \<Longrightarrow> mRequestCount t' = mRequestCount t \<Longrightarrow>
     mResponseCount t' = mResponseCount t \<Longrightarrow> settled X t' = settled X t"
  by (simp add: settled_def pending_def stream_set_def)

lemma start_call:
  assumes "sequencer_start te t = (r, t')" "settled {} t" "pending t < 2 ^ 31 - 2"
    "mTransmitThread t \<noteq> None" "mTransmitThread t = Some False \<longrightarrow> mSequence t = []"
  shows "harmless (streams t) t t'"
proof -
  from assms(4) obtain running where "mTransmitThread t = Some running" by blast
  with assms(1) have t': "t' = t\<lparr>mTransmitThread := Some (running \<or> te_threadStart te), mRequestCount := mRequestCount t + 1\<rparr>"
    by (simp add: sequencer_start_def)
  have "settled {} (t\<lparr>mRequestCount := mRequestCount t + 1\<rparr>)" using assms(2,3) by (intro settled_request) simp_all
  then have "settled {} t'" by (subst settled_cong [where t = "t\<lparr>mRequestCount := mRequestCount t + 1\<rparr>"]) (simp_all add: t')
  with t' \<open>mTransmitThread t = Some running\<close> assms(5) show ?thesis by (auto simp: harmless_def)
qed

lemma stop_call:
  assumes te: "sequencer_streams te" and run: "sequencer_stop te t = Some (r, t')" and ok: "settled {} t"
    and thread: "mTransmitThread t \<noteq> None" "mTransmitThread t = Some False \<or> te_threadStop te \<longrightarrow> mSequence t = []"
  shows "harmless (streams t) t t'"
proof (cases "mTransmitThread t = Some True")
  case False
  with run thread ok show ?thesis by (auto simp: sequencer_stop_def harmless_def)
next
  case True
  let ?t = "if te_threadStop te then (shutDown t)\<lparr>mTransmitThread := Some False\<rparr> else t"
  from run True have "toggle_all te (sorted_list_of_set (mActiveStreams t)) ?t = Some t'"
    by (auto simp: sequencer_stop_def bind_eq_Some_conv)
  with toggle_all_same [OF this] toggle_all_tame [OF te this, of "mActiveStreams t"]
  have s: "same_requests ?t t'" "mSequence t' = mSequence ?t" "tame (mActiveStreams t) ?t t'"
    using ok by (simp_all add: settled_def)
  have "settled {} ?t" using ok by (auto simp: settled_def shutDown_def pending_def stream_set_def)
  then have "settled {} t'" using settled_same [OF s(1)] s(2) by (simp add: stream_set_def)
  with s True thread show ?thesis
    by (auto simp: harmless_def tame_def same_requests_def shutDown_def split: if_splits)
qed

lemma shaper_frame:
  assumes "(if b then updateShaper te (if c then t\<lparr>mMaxFrameSizeHigh := x\<rparr> else t) else Some t) = Some t'"
  obtains m g where "t' = t\<lparr>mMaxFrameSizeHigh := m, igb := g\<rparr>"
proof -
  define t0 where "t0 = (if b \<and> c then t\<lparr>mMaxFrameSizeHigh := x\<rparr> else t)"
  have t0: "t0 = t\<lparr>mMaxFrameSizeHigh := mMaxFrameSizeHigh t0\<rparr>" by (simp add: t0_def)
  from assms have "\<exists>g. t' = t0\<lparr>igb := g\<rparr>"
  proof (cases b)
    case False
    with assms have "t' = t0\<lparr>igb := igb t0\<rparr>" by (simp add: t0_def)
    then show ?thesis ..
  qed (use assms in \<open>auto simp: t0_def dest: updateShaper_frame\<close>)
  with t0 that show thesis by metis
qed

lemma add_call:
  assumes "addStreamToTransmitList te (Some p) t = Some (r, t')" "mTSpec (streams t p) = Some s"
  shows "r \<noteq> eIasAvbProcOK \<and> t' = t \<or>
    r = eIasAvbProcOK \<and> IasAvbTSpec.mClass s = IasAvbTransmitSequencer.mClass t \<and>
    (\<exists>bw fr m g. t' = t\<lparr>mCurrentBandwidth := bw, mCurrentMaxIntervalFrames := fr, mMaxFrameSizeHigh := m, igb := g,
       mActiveStreams := insert p (mActiveStreams t), mRequestCount := mRequestCount t + 1\<rparr>)"
proof -
  let ?t = "\<lambda>bw fr. t\<lparr>mCurrentBandwidth := bw, mCurrentMaxIntervalFrames := fr\<rparr>"
  show ?thesis
  proof (cases "t' = t \<and> r \<noteq> eIasAvbProcOK")
    case False
    with assms obtain bw fr t2 where c: "IasAvbTSpec.mClass s = IasAvbTransmitSequencer.mClass t" "r = eIasAvbProcOK"
      and t2: "(if mUseShaper t then updateShaper te
            (if IasAvbTransmitSequencer.mClass t = eIasAvbSrClassHigh \<and> mMaxFrameSizeHigh t < ucast (mMaxFrameSize s)
             then (?t bw fr)\<lparr>mMaxFrameSizeHigh := ucast (mMaxFrameSize s)\<rparr> else ?t bw fr)
          else Some (?t bw fr)) = Some t2"
      and t': "t' = t2\<lparr>mActiveStreams := insert p (mActiveStreams t2), mRequestCount := mRequestCount t2 + 1\<rparr>"
      unfolding addStreamToTransmitList_def Let_def
      by (auto simp: bind_eq_Some_conv split: if_split_asm)
    from t2 obtain m g where "t2 = (?t bw fr)\<lparr>mMaxFrameSizeHigh := m, igb := g\<rparr>" by (rule shaper_frame)
    then show ?thesis using c t' by (intro disjI2) auto
  qed auto
qed

text \<open>The removal of a stream, by the answer of the worker.\<close>

lemma request_call:
  assumes te: "sequencer_streams te" and w: "\<And>t t'. worker t = Some t' \<Longrightarrow> (worker_step te)\<^sup>*\<^sup>* t t'"
    and run: "remove_request worker p t = Some (r, t')" and ok: "settled {} t" "pending t < 2 ^ 31 - 2"
    and thread: "mTransmitThread t = None \<or> mTransmitThread t = Some False \<longrightarrow> mSequence t = []"
  shows "settled {} t' \<and> mTransmitThread t' = mTransmitThread t \<and> (mTransmitThread t = Some False \<longrightarrow> mSequence t' = []) \<and>
    IasAvbTransmitSequencer.mClass t' = IasAvbTransmitSequencer.mClass t \<and>
    mActiveStreams t' = (if r = eIasAvbProcOK then mActiveStreams t - {p} else insert p (mActiveStreams t - {p})) \<and>
    tame_streams (insert p (mActiveStreams t)) (streams t) (streams t')"
proof -
  define t0 where "t0 = t\<lparr>mActiveStreams := mActiveStreams t - {p}, mRequestCount := mRequestCount t + 1\<rparr>"
  have p0: "pending t0 = pending t + 1"
    using pending_request [of "t\<lparr>mActiveStreams := mActiveStreams t - {p}\<rparr>"] ok(2) by (simp add: t0_def)
  have s0: "settled {p} t0" using ok p0 by (auto simp: settled_def t0_def)
  show ?thesis
  proof (cases "mTransmitThread t = Some True")
    case False
    with run have "r = eIasAvbProcOK" "t' = t0" by (auto simp: remove_request_def t0_def)
    moreover have "mSequence t0 = []" using False thread by (cases "mTransmitThread t") (auto simp: t0_def)
    then have "settled {} t0" using s0 by (simp add: settled_def stream_set_def)
    ultimately show ?thesis using False \<open>mSequence t0 = []\<close> by (simp add: t0_def)
  next
    case True
    with run obtain t1 where t1: "worker t0 = Some t1"
      and r: "(r, t') = (if mRequestCount t1 \<noteq> mResponseCount t1
             then (eIasAvbProcErr, t1\<lparr>mActiveStreams := insert p (mActiveStreams t1), mRequestCount := mRequestCount t1 + 1\<rparr>)
             else (eIasAvbProcOK, t1))"
      by (auto simp: remove_request_def t0_def bind_eq_Some_conv)
    note s1 = worker_steps_settled [OF te w [OF t1] s0]
    then have thr: "mTransmitThread t1 = Some True" "mActiveStreams t1 = mActiveStreams t - {p}"
      "IasAvbTransmitSequencer.mClass t1 = IasAvbTransmitSequencer.mClass t"
      "tame_streams (insert p (mActiveStreams t)) (streams t) (streams t1)"
      using True by (auto simp: tame_def t0_def insert_absorb)
    have p1: "pending t1 \<le> 2 ^ 31 - 2" using s1 p0 ok(2) by simp
    show ?thesis
    proof (cases "mRequestCount t1 = mResponseCount t1")
      case True
      then have "settled {} t1" using s1 by (auto simp: settled_def pending_def)
      with r True thr \<open>mTransmitThread t = Some True\<close> show ?thesis by simp
    next
      case False
      then have t': "t' = t1\<lparr>mActiveStreams := insert p (mActiveStreams t1), mRequestCount := mRequestCount t1 + 1\<rparr>"
        "r = eIasAvbProcErr" using r by simp_all
      have "pending t' = pending t1 + 1"
        using pending_request [of "t1\<lparr>mActiveStreams := insert p (mActiveStreams t1)\<rparr>"] p1 by (simp add: t')
      then have "settled {} t'" using s1 by (auto simp: settled_def t')
      with t' thr \<open>mTransmitThread t = Some True\<close> show ?thesis by simp
    qed
  qed
qed

lemma remove_call:
  assumes te: "sequencer_streams te" and w: "\<And>t t'. worker t = Some t' \<Longrightarrow> (worker_step te)\<^sup>*\<^sup>* t t'"
    and run: "removeStreamFromTransmitList te worker (Some p) t = Some (r, t')"
    and ok: "settled {} t" "pending t < 2 ^ 31 - 2"
    and thread: "mTransmitThread t \<noteq> None" "mTransmitThread t = Some False \<longrightarrow> mSequence t = []"
    and c: "class_of (streams t p) = Some (IasAvbTransmitSequencer.mClass t)"
  shows "settled {} t' \<and> mTransmitThread t' \<noteq> None \<and> (mTransmitThread t' = Some False \<longrightarrow> mSequence t' = []) \<and>
    IasAvbTransmitSequencer.mClass t' = IasAvbTransmitSequencer.mClass t \<and>
    mActiveStreams t' = (if r = eIasAvbProcOK then mActiveStreams t - {p} else insert p (mActiveStreams t - {p})) \<and>
    tame_streams (insert p (mActiveStreams t)) (streams t) (streams t')"
proof -
  from run c thread(1) obtain r1 t1 where req: "remove_request worker p t = Some (r1, t1)"
    and rest: "r1 \<noteq> eIasAvbProcOK \<and> r = r1 \<and> t' = t1 \<or>
      r1 = eIasAvbProcOK \<and> r = eIasAvbProcOK \<and> (\<exists>bw fr m g.
        t' = t1\<lparr>mCurrentBandwidth := bw, mCurrentMaxIntervalFrames := fr, mMaxFrameSizeHigh := m, igb := g\<rparr>)"
  proof -
    from c obtain s where s: "mTSpec (streams t p) = Some s" "IasAvbTSpec.mClass s = IasAvbTransmitSequencer.mClass t"
      by (auto simp: class_of_def)
    have init: "sequencer_isInitialized t" using thread(1) by (simp add: sequencer_isInitialized_def)
    obtain r1 t1 where req: "remove_request worker p t = Some (r1, t1)"
      using run s init by (cases "remove_request worker p t") (auto simp: removeStreamFromTransmitList_def)
    have rest: "(if r1 \<noteq> eIasAvbProcOK then Some (r1, t1)
          else let t = t1\<lparr>mCurrentBandwidth := mCurrentBandwidth t1 - getRequiredBandwidth (te_tables te) s,
                          mCurrentMaxIntervalFrames := mCurrentMaxIntervalFrames t1 - ucast (mMaxIntervalFrames s)\<rparr>
               in if mUseShaper t
                  then Option.bind
                         (if IasAvbTransmitSequencer.mClass t = eIasAvbSrClassHigh \<and> mMaxFrameSizeHigh t \<le> ucast (mMaxFrameSize s)
                          then max_frame (sorted_list_of_set (mActiveStreams t)) t 0 else Some (mMaxFrameSizeHigh t))
                         (\<lambda>m. Option.bind (updateShaper te (t\<lparr>mMaxFrameSizeHigh := m\<rparr>)) (\<lambda>t. Some (eIasAvbProcOK, t)))
                  else Some (eIasAvbProcOK, t)) = Some (r, t')"
      using run s init req unfolding removeStreamFromTransmitList_def by simp
    have "r1 \<noteq> eIasAvbProcOK \<and> r = r1 \<and> t' = t1 \<or>
      r1 = eIasAvbProcOK \<and> r = eIasAvbProcOK \<and> (\<exists>bw fr m g.
        t' = t1\<lparr>mCurrentBandwidth := bw, mCurrentMaxIntervalFrames := fr, mMaxFrameSizeHigh := m, igb := g\<rparr>)"
    proof (cases "r1 = eIasAvbProcOK")
      case True
      let ?u = "t1\<lparr>mCurrentBandwidth := mCurrentBandwidth t1 - getRequiredBandwidth (te_tables te) s,
                   mCurrentMaxIntervalFrames := mCurrentMaxIntervalFrames t1 - ucast (mMaxIntervalFrames s)\<rparr>"
      show ?thesis
      proof (cases "mUseShaper ?u")
        case False
        with True rest have "r = eIasAvbProcOK" "t' = ?u\<lparr>mMaxFrameSizeHigh := mMaxFrameSizeHigh ?u, igb := igb ?u\<rparr>"
          by (simp_all add: Let_def)
        with True show ?thesis by blast
      next
        case shaper: True
        with True rest obtain m where "updateShaper te (?u\<lparr>mMaxFrameSizeHigh := m\<rparr>) = Some t'" "r = eIasAvbProcOK"
          by (auto simp: Let_def bind_eq_Some_conv)
        with True updateShaper_frame show ?thesis by blast
      qed
    qed (use rest in simp)
    then show thesis by (rule that [OF req])
  qed
  have none: "mTransmitThread t = None \<or> mTransmitThread t = Some False \<longrightarrow> mSequence t = []" using thread by blast
  note q = request_call [OF te w req ok none]
  from rest show ?thesis
  proof
    assume "r1 \<noteq> eIasAvbProcOK \<and> r = r1 \<and> t' = t1"
    with q thread show ?thesis by simp
  next
    assume "r1 = eIasAvbProcOK \<and> r = eIasAvbProcOK \<and> (\<exists>bw fr m g.
        t' = t1\<lparr>mCurrentBandwidth := bw, mCurrentMaxIntervalFrames := fr, mMaxFrameSizeHigh := m, igb := g\<rparr>)"
    then obtain bw fr m g where r: "r1 = eIasAvbProcOK" "r = eIasAvbProcOK"
      and t': "t' = t1\<lparr>mCurrentBandwidth := bw, mCurrentMaxIntervalFrames := fr, mMaxFrameSizeHigh := m, igb := g\<rparr>" by blast
    have "settled {} t' = settled {} t1" by (rule settled_cong) (simp_all add: t')
    with q r thread show ?thesis by (simp add: t')
  qed
qed

end
