(* ===== verification/Transmit_Properties.thy ===== *)
theory Transmit_Properties
  imports Transmit_Lists
begin

text \<open>
  The operations of the transmit engine keep the invariant of theory \<open>Transmit_Lists\<close>: the streams on the
  lists of the sequencers are exactly the active streams of the engine, and no sequencer ever refers to a
  stream that has been destroyed. The last section is about a start that fails.
\<close>

section \<open>The operations of the engine\<close>

lemma engine_okD:
  assumes "engine_ok e" "sequencer_at i e = Some t"
  shows "settled {} t" "mActiveStreams t = on_list (heap e) (pointers e) (IasAvbTransmitSequencer.mClass t)"
    "mTransmitThread t \<noteq> None" "mTransmitThread t = Some False \<longrightarrow> mSequence t = []"
  using assms by (auto simp: engine_ok_def seq_ok_def)

text \<open>Fields that the invariant does not look at.\<close>

lemma engine_ok_cong:
  assumes "mAvbStreams e' = mAvbStreams e" "mSequencers e' = mSequencers e" "heap e' = heap e"
  shows "engine_ok e' = engine_ok e"
  using assms by (simp add: engine_ok_def pointers_def sequencer_at_def)

lemma engine_ok_simps [simp]:
  "engine_ok (e\<lparr>mRunning := b\<rparr>) = engine_ok e" "engine_ok (e\<lparr>mUseResume := b\<rparr>) = engine_ok e"
  "engine_ok (e\<lparr>calls := cs\<rparr>) = engine_ok e" "engine_ok (e\<lparr>mIgbDevice := b\<rparr>) = engine_ok e"
  "engine_ok (e\<lparr>txe_mUseShaper := b\<rparr>) = engine_ok e" "engine_ok (e\<lparr>txe_mEventInterface := x\<rparr>) = engine_ok e"
  by (rule engine_ok_cong; simp)+

lemma at_store:
  "sequencer_at i e = Some t \<Longrightarrow>
     sequencer_at j (e\<lparr>mSequencers := (mSequencers e)[i := Some t'], heap := h\<rparr>) =
       (if j = i then Some t' else sequencer_at j e)"
  by (auto simp: sequencer_at_def split: if_splits)

lemma on_seq_ok:
  assumes "on_seq f i e = Some (r, e')" "engine_ok e"
    and "\<And>t t'. sequencer_at i e = Some t \<Longrightarrow> f (t\<lparr>streams := heap e\<rparr>) = Some (r, t') \<Longrightarrow>
      harmless (heap e) t t'"
  shows "engine_ok e'"
  using assms(1)
proof (rule on_seqE)
  fix t t'
  assume t: "sequencer_at i e = Some t" "f (t\<lparr>streams := heap e\<rparr>) = Some (r, t')"
    and e': "e' = e\<lparr>mSequencers := (mSequencers e)[i := Some t'], heap := streams t'\<rparr>"
  show ?thesis
    unfolding e' using assms(3) [OF t] by (intro engine_ok_tame [OF assms(2) t(1)]) (simp_all add: harmless_def)
qed

lemma on_seq_other:
  "on_seq f i e = Some (r, e') \<Longrightarrow> j \<noteq> i \<Longrightarrow> sequencer_at j e' = sequencer_at j e"
  by (erule on_seqE) (simp add: at_store)

lemma update_shapers_ok: "update_shapers env is' e = Some e' \<Longrightarrow> engine_ok e \<Longrightarrow> engine_ok e'"
proof (induction is' arbitrary: e)
  case (Cons i is')
  let ?f = "\<lambda>t. map_option (Pair ()) (updateShaper (seq_env env i e) t)"
  from Cons.prems(1) obtain e1 where e1: "sequencer_at i e = None \<and> e1 = e \<or> on_seq ?f i e = Some ((), e1)"
    and rest: "update_shapers env is' e1 = Some e'"
    by (auto simp: bind_eq_Some_conv split: if_splits)
  have "engine_ok e1" if "on_seq ?f i e = Some ((), e1)"
    using that Cons.prems(2)
  proof (rule on_seq_ok)
    fix t t'
    assume t: "sequencer_at i e = Some t" "?f (t\<lparr>streams := heap e\<rparr>) = Some ((), t')"
    from t(2) have "updateShaper (seq_env env i e) (t\<lparr>streams := heap e\<rparr>) = Some t'" by (elim map_SomeE) simp
    from updateShaper_frame [OF this] obtain g where "t' = t\<lparr>streams := heap e, igb := g\<rparr>" by blast
    with engine_okD [OF Cons.prems(2) t(1)] show "harmless (heap e) t t'"
      by (simp add: harmless_def settled_def pending_def stream_set_def)
  qed
  with e1 Cons.prems(2) have "engine_ok e1" by blast
  with rest show ?case by (rule Cons.IH)
qed simp

lemma stop_sequencer_ok:
  assumes env: "engine_env env" and run: "stop_sequencer env i e = Some (r, e')" and ok: "engine_ok e"
  shows "engine_ok e'"
  using run [unfolded stop_sequencer_def Let_def] ok
proof (rule on_seq_ok)
  let ?te = "seq_env env i e"
  fix t t'
  assume t: "sequencer_at i e = Some t"
    and "Option.bind (if mTransmitThread (t\<lparr>streams := heap e\<rparr>) = Some True \<and> te_threadStop ?te
        then xe_join env ?te (t\<lparr>streams := heap e\<rparr>) else Some (t\<lparr>streams := heap e\<rparr>)) (sequencer_stop ?te) = Some (r, t')"
  then obtain t1 where join: "(if mTransmitThread t = Some True \<and> te_threadStop ?te
        then xe_join env ?te (t\<lparr>streams := heap e\<rparr>) else Some (t\<lparr>streams := heap e\<rparr>)) = Some t1"
    and stop: "sequencer_stop ?te t1 = Some (r, t')" by (auto simp: bind_eq_Some_conv)
  note te = engine_env_streams [OF env, of i e] and seq = engine_okD [OF ok t]
  have t1: "settled {} t1 \<and> mActiveStreams t1 = mActiveStreams t \<and> mTransmitThread t1 = mTransmitThread t \<and>
      IasAvbTransmitSequencer.mClass t1 = IasAvbTransmitSequencer.mClass t \<and>
      tame_streams (mActiveStreams t) (heap e) (streams t1) \<and>
      (mTransmitThread t = Some False \<or> te_threadStop ?te \<longrightarrow> mSequence t1 = [])"
  proof (cases "mTransmitThread t = Some True \<and> te_threadStop ?te")
    case False
    with join have t1: "t1 = t\<lparr>streams := heap e\<rparr>" by (simp split: if_split_asm)
    obtain running where "mTransmitThread t = Some running" using seq(3) by blast
    with seq False show ?thesis by (cases running) (simp_all add: t1)
  next
    case True
    with join have "xe_join env ?te (t\<lparr>streams := heap e\<rparr>) = Some t1" by simp
    from engine_env_join [OF env this]
    obtain t2 reclaimed n where steps: "(worker_step ?te)\<^sup>*\<^sup>* (t\<lparr>streams := heap e\<rparr>) t2"
      and leave: "run_leave reclaimed t2 = Some (n, t1)" by blast
    have "(worker_step ?te)\<^sup>*\<^sup>* (t\<lparr>streams := heap e\<rparr>) t1" using steps w_leave [OF leave] by (rule rtranclp.rtrancl_into_rtrancl)
    from worker_call [OF te this] run_leave_same(2) [OF leave] seq show ?thesis by simp
  qed
  have "harmless (streams t1) t1 t'" by (rule stop_call [OF te stop]) (use t1 seq in simp_all)
  with t1 show "harmless (heap e) t t'"
    unfolding harmless_def by (metis tame_streams_trans)
qed

lemma stop_sequencers_ok:
  "engine_env env \<Longrightarrow> stop_sequencers env is' result e = Some (r, e') \<Longrightarrow> engine_ok e \<Longrightarrow> engine_ok e'"
proof (induction is' arbitrary: result e)
  case (Cons i is')
  from Cons.prems(2) consider "e' = e" | res e1 where "stop_sequencer env i e = Some (res, e1)"
      "stop_sequencers env is' (if res \<noteq> eIasAvbProcOK then res else result) e1 = Some (r, e')"
    by (auto simp: bind_eq_Some_conv split: if_split_asm)
  then show ?case using Cons.prems stop_sequencer_ok Cons.IH by cases blast+
qed simp

lemma txe_stop_ok:
  assumes "engine_env env" "txe_stop env e = Some (r, e')" "engine_ok e"
  shows "engine_ok e'"
  using assms(2) unfolding txe_stop_def
  by (elim option_elims prod_SomeE) (auto dest: stop_sequencers_ok [OF assms(1)] simp: assms(3))

lemma start_sequencers_ok:
  "start_sequencers env is' e = Some (r, e') \<Longrightarrow> engine_ok e \<Longrightarrow> distinct is' \<Longrightarrow>
     (\<forall>i \<in> set is'. \<forall>t. sequencer_at i e = Some t \<longrightarrow> pending t < 2 ^ 31 - 2) \<Longrightarrow> engine_ok e'"
proof (induction is' arbitrary: e)
  case (Cons i is')
  let ?f = "\<lambda>t. Some (sequencer_start (seq_env env i e) t)"
  show ?case
  proof (cases "sequencer_at i e = None")
    case False
    with Cons.prems(1) obtain res e1 where 1: "on_seq ?f i e = Some (res, e1)"
      and rest: "e' = e1 \<or> start_sequencers env is' e1 = Some (r, e')"
      by (auto simp: bind_eq_Some_conv split: if_split_asm)
    have ok1: "engine_ok e1" using 1 Cons.prems(2)
    proof (rule on_seq_ok)
      fix t t'
      assume t: "sequencer_at i e = Some t" "?f (t\<lparr>streams := heap e\<rparr>) = Some (res, t')"
      moreover have "pending (t\<lparr>streams := heap e\<rparr>) < 2 ^ 31 - 2"
        using Cons.prems(4) t(1) by (simp add: pending_def)
      ultimately show "harmless (heap e) t t'"
        using start_call [of "seq_env env i e" "t\<lparr>streams := heap e\<rparr>" res t'] engine_okD [OF Cons.prems(2) t(1)] by simp
    qed
    moreover have "\<forall>j \<in> set is'. \<forall>t. sequencer_at j e1 = Some t \<longrightarrow> pending t < 2 ^ 31 - 2"
      using Cons.prems(3,4) on_seq_other [OF 1] by (metis distinct.simps(2) list.set_intros(2))
    ultimately show ?thesis using rest Cons.IH [of e1] Cons.prems(3) by auto
  qed (use Cons.prems in auto)
qed simp

lemma disable_shaper_same:
  "mAvbStreams (disable_shaper env n e) = mAvbStreams e \<and> mSequencers (disable_shaper env n e) = mSequencers e \<and>
     heap (disable_shaper env n e) = heap e \<and> mIgbDevice (disable_shaper env n e) = mIgbDevice e"
  by (induction n arbitrary: e) (simp_all add: Let_def igb_set_class_bandwidth_def)

lemma disable_shaper_ok [simp]: "engine_ok (disable_shaper env n e) = engine_ok e"
  using disable_shaper_same [of env n e] by (intro engine_ok_cong) simp_all

lemma calm_cong: "mSequencers e' = mSequencers e \<Longrightarrow> calm e' = calm e"
  by (simp add: calm_def sequencer_at_def)

lemma txe_start_ok:
  assumes env: "engine_env env" and run: "txe_start env e = Some (r, e')" and ok: "engine_ok e" and calm: "calm e"
  shows "engine_ok e'"
proof -
  define e0 where "e0 = (if mUseResume e then disable_shaper env (access_count env) e else e)\<lparr>mUseResume := True\<rparr>"
  have e0: "engine_ok e0" "calm e0"
    using ok calm disable_shaper_same [of env "access_count env" e] calm_cong [of e0 e] by (simp_all add: e0_def)
  from run obtain result e1 where 1: "(if \<not> txe_isInitialized e then Some (eIasAvbProcNotInitialized, e)
          else if txe_isRunning e then Some (eIasAvbProcOK, e)
          else start_sequencers env [0..<length (mSequencers (if mUseResume e then disable_shaper env (access_count env) e else e))]
                 e0) = Some (result, e1)"
    and rest: "(if result \<noteq> eIasAvbProcOK then map_option (\<lambda>(_, e). (result, e)) (txe_stop env e1)
       else Some (result, e1\<lparr>mRunning := True\<rparr>)) = Some (r, e')"
    unfolding txe_start_def Let_def e0_def by (elim bind_SomeE prod_SomeE) blast
  have "engine_ok e1"
    using 1 ok start_sequencers_ok [OF _ e0(1), of env] e0(2) by (auto simp: calm_def split: if_split_asm)
  with rest show ?thesis by (auto split: if_split_asm dest: txe_stop_ok [OF env])
qed

section \<open>Streams that come and go\<close>

lemma mset_put: "map_of xs k = None \<Longrightarrow> mset (put_stream k d xs) = add_mset (k, d) (mset xs)"
  by (induction xs) (auto split: if_splits)

lemma put_new:
  assumes "map_of xs k = None"
  shows "snd ` set (put_stream k d xs) = insert d (snd ` set xs)"
    "distinct (map snd (put_stream k d xs)) \<longleftrightarrow> d \<notin> snd ` set xs \<and> distinct (map snd xs)"
proof -
  have m: "mset (map snd (put_stream k d xs)) = mset (d # map snd xs)" using mset_put [OF assms] by simp
  from mset_eq_setD [OF m] show "snd ` set (put_stream k d xs) = insert d (snd ` set xs)" by simp
  from mset_eq_imp_distinct_iff [OF m]
  show "distinct (map snd (put_stream k d xs)) \<longleftrightarrow> d \<notin> snd ` set xs \<and> distinct (map snd xs)" by simp
qed

lemma erase_old:
  assumes "keys_ok xs" "distinct (map snd xs)" "map_of xs k = Some d"
  shows "snd ` set (erase_stream k xs) = snd ` set xs - {d}" "distinct (map snd (erase_stream k xs))"
proof -
  have kd: "(k, d) \<in> set xs" using assms(3) by (rule map_of_SomeD)
  have "inj_on snd (set xs)" using assms(2) by (simp add: distinct_map)
  from inj_onD [OF this _ _ kd] have a: "k' = k" if "(k', d) \<in> set xs" for k' using that by (metis fst_conv snd_conv)
  have b: "(k, d') \<in> set xs \<Longrightarrow> d' = d" for d'
  proof -
    assume "(k, d') \<in> set xs"
    then have "map_of xs k = Some d'" using keys_ok_distinct [OF assms(1)] by simp
    with assms(3) show "d' = d" by simp
  qed
  have "fst x \<noteq> k \<longleftrightarrow> snd x \<noteq> d" if "x \<in> set xs" for x
    using that a [of "fst x"] b [of "snd x"] by (metis prod.collapse)
  then have "set (erase_stream k xs) = {x \<in> set xs. snd x \<noteq> d}" unfolding erase_stream_def set_filter by blast
  then show "snd ` set (erase_stream k xs) = snd ` set xs - {d}" by auto
  show "distinct (map snd (erase_stream k xs))" using assms(2) by (simp add: erase_stream_def distinct_map_filter)
qed

lemma pointer_of: "map_of (mAvbStreams e) k = Some p \<Longrightarrow> p \<in> pointers e"
  unfolding pointers_def by (force dest: map_of_SomeD)

lemma find_class_Some:
  "find_class c i xs = Some j \<Longrightarrow> \<exists>k t. j = i + k \<and> k < length xs \<and> xs ! k = Some t \<and> IasAvbTransmitSequencer.mClass t = c"
proof (induction xs arbitrary: i)
  case (Cons x xs)
  show ?case
  proof (cases "\<exists>t. x = Some t \<and> IasAvbTransmitSequencer.mClass t = c")
    case True
    with Cons.prems show ?thesis by (intro exI [of _ 0]) auto
  next
    case False
    with Cons.prems have "find_class c (Suc i) xs = Some j" by (auto split: option.splits if_splits)
    from Cons.IH [OF this] obtain k t where "j = Suc i + k" "k < length xs" "xs ! k = Some t"
      "IasAvbTransmitSequencer.mClass t = c" by blast
    then show ?thesis by (intro exI [of _ "Suc k"]) auto
  qed
qed simp

lemma getSequencerByClass_Some:
  "getSequencerByClass c e = Some j \<Longrightarrow> \<exists>t. sequencer_at j e = Some t \<and> IasAvbTransmitSequencer.mClass t = c"
  unfolding getSequencerByClass_def sequencer_at_def by (drule find_class_Some) auto

lemma find_class_None:
  "find_class c i xs = None \<Longrightarrow> k < length (takeWhile (\<lambda>x. x \<noteq> None) xs) \<Longrightarrow>
     \<exists>t. xs ! k = Some t \<and> IasAvbTransmitSequencer.mClass t \<noteq> c"
proof (induction xs arbitrary: i k)
  case (Cons x xs)
  then show ?case by (cases k) (auto split: if_splits option.splits)
qed simp

lemma pass_frame_size_keeps:
  assumes "pass_frame_size i e = Some e'"
  shows "mAvbStreams e' = mAvbStreams e \<and> heap e' = heap e"
proof -
  from assms consider "e' = e" | j x where "on_seq (\<lambda>l. Some ((), l\<lparr>mMaxFrameSizeHigh := x\<rparr>)) j e = Some ((), e')"
    unfolding pass_frame_size_def by (elim result_elims) (auto elim!: map_SomeE)
  then show ?thesis by cases (auto elim!: on_seqE)
qed

text \<open>A change of one stream that leaves it as active as it was.\<close>

lemma engine_ok_steady:
  assumes "engine_ok e" "steady (heap e p) s"
  shows "engine_ok (e\<lparr>heap := (heap e)(p := s)\<rparr>)"
proof -
  let ?h = "(heap e)(p := s)"
  have c: "class_of (?h q) = class_of (heap e q)" "mActive (?h q) = mActive (heap e q)" for q
    using assms(2) class_of_same by (auto simp: steady_def)
  have "on_list ?h ps cl = on_list (heap e) ps cl" for ps cl unfolding on_list_def c ..
  then have "seq_ok ?h ps t = seq_ok (heap e) ps t" for ps t by (simp add: seq_ok_def)
  moreover have "pointers (e\<lparr>heap := ?h\<rparr>) = pointers e" "sequencer_at i (e\<lparr>heap := ?h\<rparr>) = sequencer_at i e" for i
    by (simp_all add: pointers_def sequencer_at_def)
  ultimately show ?thesis using assms(1) c(1) by (simp add: engine_ok_def)
qed

lemma connect_at_ok:
  assumes "engine_env env" "engine_ok e" "txe_connect_at env l p e = Some (r, e')"
  shows "engine_ok e'"
proof -
  from assms(3) obtain s where "xe_connectTo env l (heap e p) = Some (r, s)" "e' = e\<lparr>heap := (heap e)(p := s)\<rparr>"
    unfolding txe_connect_at_def by (elim map_SomeE) (auto split: prod.splits)
  with assms(1) engine_ok_steady [OF assms(2), of p s] show ?thesis by (simp add: engine_env_def)
qed

lemma connect_ok:
  "engine_env env \<Longrightarrow> engine_ok e \<Longrightarrow> txe_connectStreams env ty k l e = Some (r, e') \<Longrightarrow> engine_ok e'"
  "engine_env env \<Longrightarrow> engine_ok e \<Longrightarrow> txe_disconnectStreams env k e = Some (r, e') \<Longrightarrow> engine_ok e'"
  unfolding txe_connectStreams_def txe_disconnectStreams_def
  by (auto split: option.splits if_split_asm intro: connect_at_ok)

lemma pass_frame_size_ok:
  assumes "pass_frame_size i e = Some e'" "engine_ok e"
  shows "engine_ok e'"
proof -
  from assms(1) consider "e' = e" | j x where "on_seq (\<lambda>l. Some ((), l\<lparr>mMaxFrameSizeHigh := x\<rparr>)) j e = Some ((), e')"
    unfolding pass_frame_size_def by (elim result_elims) (auto elim!: map_SomeE)
  then show ?thesis
  proof cases
    case (2 j x)
    then show ?thesis using assms(2)
    proof (rule on_seq_ok)
      fix t t'
      assume t: "sequencer_at j e = Some t" "Some ((), t\<lparr>streams := heap e\<rparr>\<lparr>mMaxFrameSizeHigh := x\<rparr>) = Some ((), t')"
      from t(2) have t': "t' = t\<lparr>streams := heap e, mMaxFrameSizeHigh := x\<rparr>" by simp
      have "settled {} t' = settled {} t" by (rule settled_cong) (simp_all add: t')
      with engine_okD [OF assms(2) t(1)] show "harmless (heap e) t t'" by (simp add: harmless_def t')
    qed
  qed (use assms(2) in simp)
qed

section \<open>Putting streams on the lists and taking them off\<close>

text \<open>The stream of an engine operation and its sequencer.\<close>

lemma stream_sequencer:
  assumes "getSequencerByStream p e = Some (Some i)"
  obtains t where "sequencer_at i e = Some t" "class_of (heap e p) = Some (IasAvbTransmitSequencer.mClass t)"
proof -
  from assms obtain s where s: "mTSpec (heap e p) = Some s" "getSequencerByClass (IasAvbTSpec.mClass s) e = Some i"
    by (auto simp: getSequencerByStream_def)
  from getSequencerByClass_Some [OF s(2)] s(1) that show thesis by (auto simp: class_of_def)
qed

text \<open>The list after the stream \<open>p\<close> has become active or inactive.\<close>

lemma on_list_change:
  assumes "tame_streams (insert p (on_list h ps c)) (h(p := s0)) h'" "class_of (h p) = Some c" "p \<in> ps"
    and "same_stream (h' p) s" "same_stream (h p) s0"
  shows "on_list (h'(p := s)) ps c = (if mActive s then insert p (on_list h ps c) else on_list h ps c - {p})"
    "q \<in> ps \<Longrightarrow> class_of ((h'(p := s)) q) = class_of (h q)"
    "q \<in> ps \<Longrightarrow> class_of (h q) \<noteq> Some c \<Longrightarrow> mActive ((h'(p := s)) q) = mActive (h q)"
proof -
  have same: "same_stream (h r) ((h'(p := s)) r)" for r
  proof (cases "r = p")
    case True
    have "same_stream s0 (h' p)" using assms(1) unfolding tame_streams_def by (metis fun_upd_same)
    with assms(4,5) True show ?thesis by (auto intro: same_stream_trans)
  next
    case False
    with assms(1) show ?thesis unfolding tame_streams_def by (metis fun_upd_other)
  qed
  have cls: "class_of ((h'(p := s)) r) = class_of (h r)" for r using class_of_same [OF same] .
  have act: "mActive (h' r) = mActive (h r)" if "r \<noteq> p" for r
    using assms(1) that unfolding tame_streams_def
    by (cases "r \<in> on_list h ps c") (auto simp: on_list_def dest: spec [of _ r])
  show "on_list (h'(p := s)) ps c = (if mActive s then insert p (on_list h ps c) else on_list h ps c - {p})"
    unfolding on_list_def cls using act assms(2,3) by auto
  show "class_of ((h'(p := s)) q) = class_of (h q)" by (rule cls)
  show "mActive ((h'(p := s)) q) = mActive (h q)" if "class_of (h q) \<noteq> Some c"
    using that act assms(2) by (cases "q = p") auto
qed

text \<open>A call on the sequencer of \<open>p\<close> after which \<open>p\<close> is given the state that the list says.\<close>

lemma engine_ok_list:
  assumes ok: "engine_ok e" and t: "sequencer_at i e = Some t" and p: "p \<in> pointers e"
    and c: "class_of (heap e p) = Some (IasAvbTransmitSequencer.mClass t)"
    and tame: "tame_streams (insert p (mActiveStreams t)) ((heap e)(p := s0)) h'"
    and s: "same_stream (h' p) s" "same_stream (heap e p) s0"
    and t': "settled {} t'" "mTransmitThread t' \<noteq> None" "mTransmitThread t' = Some False \<longrightarrow> mSequence t' = []"
      "IasAvbTransmitSequencer.mClass t' = IasAvbTransmitSequencer.mClass t"
      "mActiveStreams t' = (if mActive s then insert p (mActiveStreams t) else mActiveStreams t - {p})"
  shows "engine_ok (e\<lparr>mSequencers := (mSequencers e)[i := Some t'], heap := h'(p := s)\<rparr>)"
proof -
  note list = engine_okD(2) [OF ok t]
  note ch = on_list_change [OF tame [unfolded list] c p s]
  show ?thesis
  proof (rule engine_ok_store [OF ok t t'(4)])
    show "seq_ok (h'(p := s)) (pointers e) t'"
      using t' ch(1) list by (simp add: seq_ok_def)
  qed (use ch(2,3) in auto)
qed

lemma activate_ok:
  assumes env: "engine_env env" and run: "activateAvbStream env k e = Some (r, e')" and ok: "engine_ok e" and calm: "calm e"
  shows "engine_ok e'"
proof (cases "map_of (mAvbStreams e) k")
  case None
  with run ok show ?thesis by (simp add: activateAvbStream_def)
next
  case (Some p)
  show ?thesis
  proof (cases "mActive (heap e p)")
    case True
    with run ok Some show ?thesis by (simp add: activateAvbStream_def)
  next
    case False
    with run Some obtain i e1 where i: "getSequencerByStream p e = Some (Some i)"
      and add: "on_seq (addStreamToTransmitList (seq_env env i e) (Some p)) i e = Some (r, e1)"
      and rest: "r \<noteq> eIasAvbProcOK \<and> e' = e1 \<or> r = eIasAvbProcOK \<and> (\<exists>e2.
          on_heap (activate (xe_vtable env (mStreamType (heap e1 p))) False) p e1 = Some e2 \<and> pass_frame_size i e2 = Some e')"
      unfolding activateAvbStream_def by (auto simp: bind_eq_Some_conv split: if_split_asm)
    from stream_sequencer [OF i] obtain t where t: "sequencer_at i e = Some t"
      and c: "class_of (heap e p) = Some (IasAvbTransmitSequencer.mClass t)" by blast
    from add t obtain t' where t': "addStreamToTransmitList (seq_env env i e) (Some p) (t\<lparr>streams := heap e\<rparr>) = Some (r, t')"
      and e1: "e1 = e\<lparr>mSequencers := (mSequencers e)[i := Some t'], heap := streams t'\<rparr>" by (auto elim!: on_seqE)
    from c obtain s where s: "mTSpec (streams (t\<lparr>streams := heap e\<rparr>) p) = Some s" by (auto simp: class_of_def)
    note seq = engine_okD [OF ok t] and p = pointer_of [OF Some]
    from add_call [OF t' s] show ?thesis
    proof (elim disjE)
      assume "r \<noteq> eIasAvbProcOK \<and> t' = t\<lparr>streams := heap e\<rparr>"
      with rest e1 seq engine_ok_tame [OF ok t, of t'] show ?thesis by auto
    next
      assume a: "r = eIasAvbProcOK \<and> IasAvbTSpec.mClass s = IasAvbTransmitSequencer.mClass (t\<lparr>streams := heap e\<rparr>) \<and>
        (\<exists>bw fr m g. t' = t\<lparr>streams := heap e\<rparr>\<lparr>mCurrentBandwidth := bw, mCurrentMaxIntervalFrames := fr,
          mMaxFrameSizeHigh := m, igb := g, mActiveStreams := insert p (mActiveStreams (t\<lparr>streams := heap e\<rparr>)),
          mRequestCount := mRequestCount (t\<lparr>streams := heap e\<rparr>) + 1\<rparr>)"
      then obtain bw fr m g where t1: "t' = t\<lparr>streams := heap e, mCurrentBandwidth := bw, mCurrentMaxIntervalFrames := fr,
          mMaxFrameSizeHigh := m, igb := g, mActiveStreams := insert p (mActiveStreams t), mRequestCount := mRequestCount t + 1\<rparr>"
        by auto
      from rest a obtain e2 s' where act: "activate (xe_vtable env (mStreamType (heap e p))) False (heap e p) = Some s'"
        and e2: "e2 = e1\<lparr>heap := (heap e1)(p := s')\<rparr>" and pass: "pass_frame_size i e2 = Some e'"
        unfolding on_heap_def by (auto simp: e1 t1)
      note s' = transmitting.activate_Some [OF engine_env_vtable [OF env] act]
      have "pending t < 2 ^ 31 - 2" using calm t unfolding calm_def by blast
      then have pend: "pending t' = pending t + 1" using pending_request [of t] by (simp add: t1 pending_def)
      have "settled {} t'" using seq(1) pend by (auto simp: settled_def t1 stream_set_def)
      then have "engine_ok (e\<lparr>mSequencers := (mSequencers e)[i := Some t'], heap := (heap e)(p := s')\<rparr>)"
        using s' seq by (intro engine_ok_list [OF ok t p c, where ?s0.0 = "heap e p"]) (simp_all add: t1)
      then have "engine_ok e2" by (simp add: e2 e1 t1)
      with pass show ?thesis by (rule pass_frame_size_ok)
    qed
  qed
qed

lemma deactivate_ok:
  assumes env: "engine_env env" and run: "deactivateAvbStream env k e = Some (r, e')" and ok: "engine_ok e" and calm: "calm e"
  shows "engine_ok e' \<and> mAvbStreams e' = mAvbStreams e \<and>
    (r = eIasAvbProcOK \<longrightarrow> (\<forall>p. map_of (mAvbStreams e) k = Some p \<longrightarrow> \<not> mActive (heap e' p)))"
proof (cases "map_of (mAvbStreams e) k")
  case None
  with run ok show ?thesis by (simp add: deactivateAvbStream_def)
next
  case (Some p)
  show ?thesis
  proof (cases "mActive (heap e p)")
    case False
    with run ok Some show ?thesis by (simp add: deactivateAvbStream_def)
  next
    case True
    let ?v = "xe_vtable env (mStreamType (heap e p))"
    from run Some True obtain i where i: "getSequencerByStream p e = Some (Some i)"
      unfolding deactivateAvbStream_def by (auto elim!: bind_SomeE)
    define te where "te = seq_env env i e"
    from run Some True i have "Option.bind (on_heap (deactivate ?v False) p e)
        (\<lambda>e. Option.bind (on_seq (removeStreamFromTransmitList te (xe_worker env te) (Some p)) i e)
          (\<lambda>(result, e). if result = eIasAvbProcOK
            then Option.bind (if mActive (heap e p) then on_heap (deactivate ?v False) p e else Some e)
                   (\<lambda>e. Option.bind (pass_frame_size i e) (\<lambda>e. Some (result, e)))
            else Option.bind (on_heap (activate ?v False) p e) (\<lambda>e. Some (result, e)))) = Some (r, e')"
      by (simp add: deactivateAvbStream_def te_def Let_def)
    then obtain e1 res e2 where d: "on_heap (deactivate ?v False) p e = Some e1"
      and rem: "on_seq (removeStreamFromTransmitList te (xe_worker env te) (Some p)) i e1 = Some (res, e2)"
      and rest: "(if res = eIasAvbProcOK
            then Option.bind (if mActive (heap e2 p) then on_heap (deactivate ?v False) p e2 else Some e2)
                   (\<lambda>e. Option.bind (pass_frame_size i e) (\<lambda>e. Some (res, e)))
            else Option.bind (on_heap (activate ?v False) p e2) (\<lambda>e. Some (res, e))) = Some (r, e')"
      by (elim bind_SomeE prod_SomeE) blast
    from d obtain s1 where s1: "deactivate ?v False (heap e p) = Some s1" and e1: "e1 = e\<lparr>heap := (heap e)(p := s1)\<rparr>"
      unfolding on_heap_def by (elim map_SomeE) simp
    note tr = engine_env_vtable [OF env]
    note s1' = transmitting.deactivate_Some [OF tr s1]
    from stream_sequencer [OF i] obtain t where t: "sequencer_at i e = Some t"
      and c: "class_of (heap e p) = Some (IasAvbTransmitSequencer.mClass t)" by blast
    have t1: "sequencer_at i e1 = Some t" using t by (simp add: e1 sequencer_at_def split: if_split_asm)
    let ?t = "t\<lparr>streams := heap e1\<rparr>"
    from rem t1 obtain t' where call: "removeStreamFromTransmitList te (xe_worker env te) (Some p) ?t = Some (res, t')"
      and e2: "e2 = e1\<lparr>mSequencers := (mSequencers e1)[i := Some t'], heap := streams t'\<rparr>" by (auto elim!: on_seqE)
    note seq = engine_okD [OF ok t] and p = pointer_of [OF Some]
    have pend: "pending ?t < 2 ^ 31 - 2" using calm t by (simp add: calm_def pending_def)
    have te: "sequencer_streams te" using engine_env_streams [OF env] by (simp add: te_def)
    have w: "xe_worker env te a = Some b \<Longrightarrow> (worker_step te)\<^sup>*\<^sup>* a b" for a b using env by (simp add: engine_env_def)
    have cls: "class_of (streams ?t p) = Some (IasAvbTransmitSequencer.mClass ?t)"
      using c s1' class_of_same [of "heap e p" s1] by (simp add: e1)
    note rc = remove_call [OF te w call _ pend _ _ cls]
    have q: "settled {} t'" "mTransmitThread t' \<noteq> None" "mTransmitThread t' = Some False \<longrightarrow> mSequence t' = []"
      "IasAvbTransmitSequencer.mClass t' = IasAvbTransmitSequencer.mClass t"
      "mActiveStreams t' = (if res = eIasAvbProcOK then mActiveStreams t - {p} else insert p (mActiveStreams t))"
      "tame_streams (insert p (mActiveStreams t)) (heap e1) (streams t')"
      using rc seq by (simp_all add: insert_absorb2)
    have final: "engine_ok (e2\<lparr>heap := (heap e2)(p := s)\<rparr>)"
      if "same_stream (heap e2 p) s" "mActive s \<longleftrightarrow> res \<noteq> eIasAvbProcOK" for s
    proof -
      have "engine_ok (e\<lparr>mSequencers := (mSequencers e)[i := Some t'], heap := (streams t')(p := s)\<rparr>)"
        using q s1' that seq by (intro engine_ok_list [OF ok t p c, where ?s0.0 = s1]) (simp_all add: e1 e2)
      then show ?thesis by (simp add: e2 e1)
    qed
    have type: "mStreamType (heap e2 p) = mStreamType (heap e p)"
      using q(6) s1' by (auto simp: tame_streams_def e1 e2 same_stream_def)
    have keeps: "mAvbStreams e2 = mAvbStreams e" by (simp add: e1 e2)
    show ?thesis
    proof (cases "res = eIasAvbProcOK")
      case False
      with rest obtain s where "activate ?v False (heap e2 p) = Some s" "e' = e2\<lparr>heap := (heap e2)(p := s)\<rparr>" "r = res"
        unfolding on_heap_def by (auto elim!: bind_SomeE map_SomeE)
      with transmitting.activate_Some [OF tr this(1)] False final [of s] keeps show ?thesis by simp
    next
      case True
      with rest obtain e3 where e3: "(if mActive (heap e2 p) then on_heap (deactivate ?v False) p e2 else Some e2) = Some e3"
        and pass: "pass_frame_size i e3 = Some e'" and r: "r = eIasAvbProcOK" by (auto elim!: bind_SomeE)
      obtain s where s: "same_stream (heap e2 p) s" "\<not> mActive s" "e3 = e2\<lparr>heap := (heap e2)(p := s)\<rparr>"
      proof (cases "mActive (heap e2 p)")
        case False
        with e3 have "e3 = e2\<lparr>heap := (heap e2)(p := heap e2 p)\<rparr>" by simp
        with False show thesis by (intro that [of "heap e2 p"]) simp_all
      next
        case True
        with e3 obtain s where "deactivate ?v False (heap e2 p) = Some s" "e3 = e2\<lparr>heap := (heap e2)(p := s)\<rparr>"
          unfolding on_heap_def by (auto elim!: map_SomeE)
        with transmitting.deactivate_Some [OF tr this(1)] that show thesis by blast
      qed
      have "engine_ok e3" using final [of s] s True by simp
      with pass have "engine_ok e'" by (rule pass_frame_size_ok)
      moreover have "mAvbStreams e' = mAvbStreams e3 \<and> heap e' = heap e3" using pass by (rule pass_frame_size_keeps)
      ultimately show ?thesis using s keeps Some by simp
    qed
  qed
qed

lemma destroy_ok:
  assumes env: "engine_env env" and run: "destroyAvbStream env k e = Some (r, e')" and ok: "engine_ok e" and calm: "calm e"
  shows "engine_ok e'"
proof (cases "map_of (mAvbStreams e) k")
  case None
  with run ok show ?thesis by (simp add: destroyAvbStream_def)
next
  case (Some p)
  with run obtain e1 where d: "deactivateAvbStream env k e = Some (r, e1)"
    and e': "e' = (if r = eIasAvbProcOK then e1\<lparr>mAvbStreams := erase_stream k (mAvbStreams e1)\<rparr> else e1)"
    unfolding destroyAvbStream_def by (auto elim!: bind_SomeE)
  note d' = deactivate_ok [OF env d ok calm]
  show ?thesis
  proof (cases "r = eIasAvbProcOK")
    case False
    with d' e' show ?thesis by simp
  next
    case True
    with d' e' Some have e1: "engine_ok e1" "map_of (mAvbStreams e1) k = Some p" "\<not> mActive (heap e1 p)"
      and e'': "e' = e1\<lparr>mAvbStreams := erase_stream k (mAvbStreams e1)\<rparr>" by auto
    have "keys_ok (mAvbStreams e1)" "distinct (map snd (mAvbStreams e1))" using e1(1) by (auto simp: engine_ok_def)
    note er = erase_old [OF this e1(2)]
    have ps: "pointers e' = pointers e1 - {p}" using er(1) by (simp add: pointers_def e'')
    have "on_list (heap e1) (pointers e1 - {p}) c = on_list (heap e1) (pointers e1) c" for c
      using e1(3) by (auto simp: on_list_def)
    then have "seq_ok (heap e1) (pointers e1 - {p}) t = seq_ok (heap e1) (pointers e1) t" for t by (simp add: seq_ok_def)
    moreover have "sequencer_at i e' = sequencer_at i e1" for i by (simp add: sequencer_at_def e'')
    ultimately show ?thesis
      using e1(1) er(2) unfolding engine_ok_def ps by (simp add: e'')
  qed
qed

lemma sequencer_init_result:
  assumes "sequencer_init te q c b t = (eIasAvbProcOK, t')"
  shows "mTransmitThread t' = Some False \<and> IasAvbTransmitSequencer.mClass t' = c \<and> mSequence t' = mSequence t \<and>
    mActiveStreams t' = mActiveStreams t \<and> mRequestCount t' = mRequestCount t \<and> mResponseCount t' = mResponseCount t"
  using assms unfolding sequencer_init_def Let_def
  by (simp split: if_split_asm prod.split_asm) (auto split: if_split_asm)

lemma register_frame:
  "Transmit_Sequencer.registerEventInterface y t = (r, t') \<Longrightarrow> \<exists>x. t' = t\<lparr>mEventInterface := x\<rparr>"
  unfolding Transmit_Sequencer.registerEventInterface_def
  by (simp split: if_split_asm) (auto intro: exI [of _ "mEventInterface t"])

lemma new_sequencer_ok:
  assumes "new_sequencer te c b running (sequencer_new h) = (eIasAvbProcOK, t')"
  shows "settled {} t' \<and> IasAvbTransmitSequencer.mClass t' = c \<and> mActiveStreams t' = {} \<and> mTransmitThread t' \<noteq> None \<and>
    mSequence t' = []"
proof -
  obtain r1 t1 where 1: "sequencer_init te (queue_of c) c b (sequencer_new h) = (r1, t1)" by fastforce
  obtain r2 t2 where 2: "(if b \<and> r1 = eIasAvbProcOK then Transmit_Sequencer.registerEventInterface (Some 0) t1 else (r1, t1)) = (r2, t2)"
    by fastforce
  from assms 1 2 have 3: "(if r2 = eIasAvbProcOK \<and> running then sequencer_start te t2 else (r2, t2)) = (eIasAvbProcOK, t')"
    by (simp add: new_sequencer_def Let_def)
  then have r2: "r2 = eIasAvbProcOK" by (auto split: if_split_asm)
  with 2 have r1: "r1 = eIasAvbProcOK" by (auto split: if_split_asm)
  note i = sequencer_init_result [OF 1 [unfolded r1]]
  obtain x where t2: "t2 = t1\<lparr>mEventInterface := x\<rparr>"
  proof (cases b)
    case True
    with 2 r1 have "Transmit_Sequencer.registerEventInterface (Some 0) t1 = (r2, t2)" by simp
    from register_frame [OF this] that show thesis by blast
  next
    case False
    with 2 have "t2 = t1\<lparr>mEventInterface := mEventInterface t1\<rparr>" by simp
    then show thesis by (rule that)
  qed
  from 3 r2 have t': "t' = t2 \<or> (\<exists>th. t' = t2\<lparr>mTransmitThread := Some th, mRequestCount := mRequestCount t2 + 1\<rparr>)"
    using i by (auto simp: sequencer_start_def t2 split: if_split_asm option.split_asm)
  have "pending t2 = 0" using i by (simp add: t2 pending_def sequencer_new_def)
  then have "0 \<le> pending t'" using t' pending_request [of t2] by (auto simp: pending_def)
  with t' i show ?thesis by (auto simp: settled_def stream_set_def t2 sequencer_new_def)
qed

lemma at_new:
  "i < length (mSequencers e) \<Longrightarrow>
     sequencer_at j (e\<lparr>mSequencers := (mSequencers e)[i := Some t]\<rparr>) = (if j = i then Some t else sequencer_at j e)"
  by (simp add: sequencer_at_def)

lemma first_free:
  assumes "engine_ok e" "i = length (takeWhile (\<lambda>x. x \<noteq> None) (mSequencers e))" "i \<noteq> cIasAvbNumSupportedClasses"
  shows "i < length (mSequencers e)" "sequencer_at i e = None" "sequencer_at j e \<noteq> None \<longleftrightarrow> j < i"
proof -
  let ?xs = "mSequencers e"
  have "length ?xs = cIasAvbNumSupportedClasses" using assms(1) by (simp add: engine_ok_def)
  then show i: "i < length ?xs" using assms(2,3) length_takeWhile_le [of "\<lambda>x. x \<noteq> None" ?xs] by simp
  have "?xs ! i = None" using nth_length_takeWhile [of "\<lambda>x. x \<noteq> None" ?xs] i assms(2) by simp
  then show none: "sequencer_at i e = None" by (simp add: sequencer_at_def)
  have less: "sequencer_at j e \<noteq> None" if "j < i"
  proof -
    have "?xs ! j \<in> set (takeWhile (\<lambda>x. x \<noteq> None) ?xs)"
      using that assms(2) by (metis nth_mem takeWhile_nth)
    then show ?thesis using that i by (auto simp: sequencer_at_def dest: set_takeWhileD)
  qed
  show "sequencer_at j e \<noteq> None \<longleftrightarrow> j < i"
    using less none assms(1) unfolding engine_ok_def by (meson not_le_imp_less)
qed

lemma on_demand_ok:
  assumes run: "createSequencerOnDemand env c e = Some (r, e')" and ok: "engine_ok e"
  shows "engine_ok e' \<and> mAvbStreams e' = mAvbStreams e \<and> heap e' = heap e \<and>
    (r = eIasAvbProcOK \<longrightarrow> (\<exists>i t. sequencer_at i e' = Some t \<and> IasAvbTransmitSequencer.mClass t = c))"
proof -
  define i where "i = length (takeWhile (\<lambda>x. x \<noteq> None) (mSequencers e))"
  obtain res t where ns:
    "new_sequencer (seq_env env i e) c (i = 0) (txe_isRunning e) (sequencer_new (heap e)) = (res, t)" by fastforce
  have "r = eIasAvbProcOK \<and> e' = e \<and> getSequencerByClass c e \<noteq> None \<or> r \<noteq> eIasAvbProcOK \<and> e' = e \<or>
      getSequencerByClass c e = None \<and> i \<noteq> cIasAvbNumSupportedClasses \<and> res = eIasAvbProcOK \<and> r = eIasAvbProcOK \<and>
      e' = e\<lparr>mSequencers := (mSequencers e)[i := Some t]\<rparr>"
    using run unfolding createSequencerOnDemand_def Let_def i_def [symmetric]
    by (simp add: ns split: if_split_asm)
  then consider (old) "r = eIasAvbProcOK" "e' = e" "getSequencerByClass c e \<noteq> None"
    | (fail) "r \<noteq> eIasAvbProcOK" "e' = e"
    | (new) "getSequencerByClass c e = None" "i \<noteq> cIasAvbNumSupportedClasses" "res = eIasAvbProcOK"
        "r = eIasAvbProcOK" "e' = e\<lparr>mSequencers := (mSequencers e)[i := Some t]\<rparr>"
    by (elim disjE conjE)
  then show ?thesis
  proof cases
    case old
    then show ?thesis using ok getSequencerByClass_Some [of c e] by blast
  next
    case fail
    then show ?thesis using ok by simp
  next
    case new
    note free = first_free [OF ok i_def new(2)]
    note t = new_sequencer_ok [OF ns [unfolded new(3)]]
    have other: "IasAvbTransmitSequencer.mClass u \<noteq> c" if "sequencer_at j e = Some u" for j u
    proof -
      have "j < i" using free(3) [of j] that by simp
      then obtain u' where "mSequencers e ! j = Some u'" "IasAvbTransmitSequencer.mClass u' \<noteq> c"
        using find_class_None [of c 0 "mSequencers e" j] new(1) by (auto simp: getSequencerByClass_def i_def)
      with that \<open>j < i\<close> free(1) show ?thesis by (simp add: sequencer_at_def)
    qed
    have ps: "pointers e' = pointers e" by (simp add: new(5) pointers_def)
    note at = at_new [OF free(1), of _ t, folded new(5)]
    have "on_list (heap e) (pointers e) c = {}"
      using ok other unfolding on_list_def engine_ok_def by fastforce
    then have "seq_ok (heap e) (pointers e) t" using t by (simp add: seq_ok_def)
    moreover have "\<exists>j u. sequencer_at j e' = Some u \<and> class_of (heap e p) = Some (IasAvbTransmitSequencer.mClass u)"
      if "p \<in> pointers e" for p
    proof -
      from ok that obtain j u where "sequencer_at j e = Some u" "class_of (heap e p) = Some (IasAvbTransmitSequencer.mClass u)"
        by (auto simp: engine_ok_def)
      with at free(2) show ?thesis by (intro exI [of _ j]) auto
    qed
    moreover have "sequencer_at j e' \<noteq> None \<longleftrightarrow> j \<le> i" for j using at free(3) [of j] by auto
    then have "j \<le> j' \<Longrightarrow> sequencer_at j' e' \<noteq> None \<Longrightarrow> sequencer_at j e' \<noteq> None" for j j' using le_trans by blast
    moreover have "seq_ok (heap e') (pointers e') u" if "sequencer_at j e' = Some u" for j u
      using that ok at \<open>seq_ok (heap e) (pointers e) t\<close> unfolding ps
      by (cases "j = i") (auto simp: new(5) engine_ok_def)
    moreover have "j = j'" if "sequencer_at j e' = Some u" "sequencer_at j' e' = Some u'"
      "IasAvbTransmitSequencer.mClass u = IasAvbTransmitSequencer.mClass u'" for j j' u u'
    proof (cases "j = i \<or> j' = i")
      case True
      with that at other t show ?thesis by (metis option.inject)
    next
      case False
      with that at ok show ?thesis unfolding engine_ok_def by metis
    qed
    moreover have "keys_ok (mAvbStreams e')" "distinct (map snd (mAvbStreams e'))"
      "length (mSequencers e') = cIasAvbNumSupportedClasses" "heap e' = heap e"
      using ok by (simp_all add: new(5) engine_ok_def)
    ultimately have "engine_ok e'" unfolding engine_ok_def ps by (intro conjI allI impI ballI) (simp_all, blast?)
    then show ?thesis using at t by (auto simp: new(4,5))
  qed
qed

lemma create_ok:
  assumes env: "engine_env env" and run: "createTransmitStream env outcome k e = Some (r, e')" and ok: "engine_ok e"
    and inactive: "\<forall>r s. outcome = Some (r, s) \<longrightarrow> \<not> mActive s"
  shows "engine_ok e'"
proof (cases "map_of (mAvbStreams e) k = None \<and> (\<exists>s. outcome = Some (eIasAvbProcOK, s))")
  case False
  with run ok show ?thesis
    unfolding createTransmitStream_def by (auto split: if_split_asm option.split_asm prod.split_asm)
next
  case True
  then obtain s where s: "outcome = Some (eIasAvbProcOK, s)" "\<not> mActive s" and k: "map_of (mAvbStreams e) k = None"
    using inactive by blast
  define p where "p = xe_newStream env (snd ` set (mAvbStreams e))"
  have p: "p \<notin> pointers e" using env by (simp add: p_def pointers_def engine_env_def)
  define e0 where "e0 = e\<lparr>heap := (heap e)(p := s)\<rparr>"
  from run s k obtain spec e1 where spec: "mTSpec s = Some spec"
    and d: "createSequencerOnDemand env (IasAvbTSpec.mClass spec) e0 = Some (r, e1)"
    and e': "e' = (if r = eIasAvbProcOK then e1\<lparr>mAvbStreams := put_stream k p (mAvbStreams e1)\<rparr> else e1)"
    unfolding createTransmitStream_def Let_def p_def [symmetric] by (auto simp: e0_def elim!: bind_SomeE)
  have eq: "(heap e0) q = heap e q" if "q \<in> pointers e" for q using that p by (auto simp: e0_def)
  have "on_list (heap e0) (pointers e) c = on_list (heap e) (pointers e) c" for c using eq by (auto simp: on_list_def)
  then have "seq_ok (heap e0) (pointers e) t = seq_ok (heap e) (pointers e) t" for t by (simp add: seq_ok_def)
  moreover have "pointers e0 = pointers e" "sequencer_at i e0 = sequencer_at i e" for i
    by (simp_all add: pointers_def sequencer_at_def e0_def)
  ultimately have "engine_ok e0" using ok eq by (simp add: engine_ok_def e0_def [symmetric]) (simp add: e0_def)
  note e1 = on_demand_ok [OF d this]
  show ?thesis
  proof (cases "r = eIasAvbProcOK")
    case False
    with e1 e' show ?thesis by simp
  next
    case r: True
    then have e'': "e' = e1\<lparr>mAvbStreams := put_stream k p (mAvbStreams e1)\<rparr>" using e' by simp
    have k1: "map_of (mAvbStreams e1) k = None" using e1 k by (simp add: e0_def)
    note new = put_new [OF k1, of p]
    have ps: "pointers e' = insert p (pointers e1)" using new(1) by (simp add: pointers_def e'')
    have p1: "p \<notin> pointers e1" using p e1 by (simp add: pointers_def e0_def)
    have hp: "heap e1 p = s" using e1 by (simp add: e0_def)
    have "on_list (heap e1) (insert p (pointers e1)) c = on_list (heap e1) (pointers e1) c" for c
      using hp s(2) by (auto simp: on_list_def)
    then have "seq_ok (heap e1) (insert p (pointers e1)) t = seq_ok (heap e1) (pointers e1) t" for t by (simp add: seq_ok_def)
    moreover have at: "sequencer_at i e' = sequencer_at i e1" for i by (simp add: sequencer_at_def e'')
    moreover have "\<exists>i t. sequencer_at i e1 = Some t \<and> class_of (heap e1 p) = Some (IasAvbTransmitSequencer.mClass t)"
    proof -
      from e1 r obtain i t where "sequencer_at i e1 = Some t" "IasAvbTransmitSequencer.mClass t = IasAvbTSpec.mClass spec"
        by blast
      with hp spec show ?thesis by (intro exI [of _ i] exI [of _ t]) (simp add: class_of_def)
    qed
    moreover have "engine_ok e1" using e1 by simp
    moreover have "keys_ok (mAvbStreams e')" "distinct (map snd (mAvbStreams e'))"
      using \<open>engine_ok e1\<close> new(2) p1 by (simp_all add: e'' engine_ok_def pointers_def)
    moreover have "heap e' = heap e1" "mSequencers e' = mSequencers e1" by (simp_all add: e'')
    ultimately show ?thesis unfolding engine_ok_def ps by simp
  qed
qed

section \<open>All steps\<close>

lemma empty_ok:
  assumes "mAvbStreams e = []" "mSequencers e = replicate cIasAvbNumSupportedClasses None"
  shows "engine_ok e"
  using assms by (simp add: engine_ok_def pointers_def sequencer_at_def)

lemma on_seq_length: "stop_sequencer env i e = Some (r, e') \<Longrightarrow> length (mSequencers e') = length (mSequencers e)"
  unfolding stop_sequencer_def Let_def by (drule on_seq_keeps) simp

lemma cleanup_ok:
  assumes "engine_env env" "txe_cleanup env e = Some e'" "engine_ok e"
  shows "engine_ok e'"
proof -
  from assms(2) obtain r e1 where "txe_stop env e = Some (r, e1)"
    and e': "e' = e1\<lparr>mSequencers := map (\<lambda>_. None) (mSequencers e1), mIgbDevice := False, mAvbStreams := []\<rparr>"
    unfolding txe_cleanup_def by (elim result_elims) simp
  from txe_stop_ok [OF assms(1) this(1) assms(3)]
  have "length (mSequencers e1) = cIasAvbNumSupportedClasses" by (simp add: engine_ok_def)
  then show ?thesis by (intro empty_ok) (simp_all add: e' map_replicate_const)
qed

lemma txe_init_ok:
  assumes "engine_env env" "txe_init env e = Some (r, e')" "engine_ok e" "mAvbStreams e = []"
  shows "engine_ok e'"
proof -
  define result where "result = (if txe_isInitialized e \<or> \<not> xe_igbDevice env then eIasAvbProcInitializationFailed else eIasAvbProcOK)"
  define e1 where "e1 = (if result = eIasAvbProcOK
     then disable_shaper env (access_count env)
            (e\<lparr>mIgbDevice := xe_igbDevice env, txe_mUseShaper := snd (doGetConfigValue (xe_registry env) cXmitUseShaper 0) \<noteq> 0\<rparr>)
     else e\<lparr>mIgbDevice := xe_igbDevice env\<rparr>)"
  define e2 where "e2 = e1\<lparr>lost := lost e1 @ concat (map (\<lambda>x. case x of None \<Rightarrow> [] | Some t \<Rightarrow> [t]) (mSequencers e1)),
                mSequencers := map (\<lambda>_. None) (mSequencers e1)\<rparr>"
  have "mAvbStreams e1 = []" "mSequencers e1 = mSequencers e"
    using disable_shaper_same [of env "access_count env"] assms(4) by (simp_all add: e1_def)
  moreover have "length (mSequencers e) = cIasAvbNumSupportedClasses" using assms(3) by (simp add: engine_ok_def)
  ultimately have e2: "engine_ok e2" by (intro empty_ok) (simp_all add: e2_def map_replicate_const)
  have "(if result \<noteq> eIasAvbProcOK then map_option (Pair result) (txe_cleanup env e2) else Some (result, e2)) = Some (r, e')"
    using assms(2) unfolding txe_init_def Let_def result_def [symmetric] e1_def [symmetric] e2_def [symmetric]
    by (simp add: e1_def e2_def)
  then show ?thesis using e2 cleanup_ok [OF assms(1)] by (auto split: if_split_asm)
qed

lemma link_status_ok:
  assumes "txe_updateLinkStatus env up e = Some e'" "engine_ok e"
  shows "engine_ok e'"
  using assms unfolding txe_updateLinkStatus_def igb_set_class_bandwidth_def
  by (elim option_elims) (auto dest: update_shapers_ok split: if_split_asm)

lemma worker_ok:
  assumes env: "engine_env env" and run: "on_seq f i e = Some (u, e')" and ok: "engine_ok e"
    and w: "\<And>t r t'. f t = Some (r, t') \<Longrightarrow> mTransmitThread t = Some True \<and> worker_step (seq_env env i e) t t'"
  shows "engine_ok e'"
  using run ok
proof (rule on_seq_ok)
  fix t t'
  assume t: "sequencer_at i e = Some t" "f (t\<lparr>streams := heap e\<rparr>) = Some (u, t')"
  from w [OF t(2)] have "mTransmitThread t = Some True"
    "(worker_step (seq_env env i e))\<^sup>*\<^sup>* (t\<lparr>streams := heap e\<rparr>) t'" by auto
  with worker_call [OF engine_env_streams [OF env] this(2)] engine_okD [OF ok t(1)] show "harmless (heap e) t t'"
    by (simp add: harmless_def)
qed

lemma txe_step_ok:
  assumes env: "engine_env env" and step: "txe_step env e e'" and ok: "engine_ok e" and calm: "calm e"
  shows "engine_ok e'"
  using step
proof cases
  case (init r)
  then show ?thesis using txe_init_ok [OF env] ok by blast
next
  case cleanup
  then show ?thesis using cleanup_ok [OF env] ok by blast
next
  case (start r)
  then show ?thesis using txe_start_ok [OF env] ok calm by blast
next
  case (stop r)
  then show ?thesis using txe_stop_ok [OF env] ok by blast
next
  case (create outcome k r)
  then show ?thesis using create_ok [OF env] ok by blast
next
  case (destroy k r)
  then show ?thesis using destroy_ok [OF env] ok calm by blast
next
  case (activate k r)
  then show ?thesis using activate_ok [OF env] ok calm by blast
next
  case (deactivate k r)
  then show ?thesis using deactivate_ok [OF env] ok calm by blast
next
  case (connect ty k l r)
  then show ?thesis using connect_ok(1) [OF env] ok by blast
next
  case (disconnect k r)
  then show ?thesis using connect_ok(2) [OF env] ok by blast
next
  case (register x r)
  then show ?thesis using ok by (auto simp: txe_registerEventInterface_def split: if_split_asm)
next
  case (unregister x r)
  then show ?thesis using ok by (auto simp: txe_unregisterEventInterface_def split: if_split_asm)
next
  case (link_status up)
  then show ?thesis using link_status_ok ok by blast
next
  case (stream_status i st)
  then show ?thesis using ok by (simp add: txe_updateStreamStatus_def)
next
  case shapers
  then show ?thesis using ok by (simp add: updateShapers_def Let_def igb_set_class_bandwidth_def)
next
  case (worker f i)
  show ?thesis by (rule worker_ok [OF env worker(1) ok worker(2)])
qed


text \<open>A run in which a stream is created, the engine started, the stream activated and taken up by the worker.\<close>

definition example_answer :: "unit sequencer \<Rightarrow> unit sequencer option" where
  "example_answer t =
     (if 0 < pending t then map_option (\<lambda>x. respond (snd x)) (sync_streams 0 t) else Some t)"

definition example_txe_env :: "unit txe_env" where
  "example_txe_env =
     \<lparr>xe_tx = (\<lambda>_. example_tx_env 0 0), xe_vtable = (\<lambda>_. example_read_vtable),
      xe_connectTo = (\<lambda>_ s. Some (eIasAvbProcOK, s)), xe_registry = None, xe_igbDevice = True,
      xe_setBandwidth = (\<lambda>_. 0), xe_newSequencer = True, xe_newStream = (\<lambda>S. if S = {} then 0 else Suc (Max S)),
      xe_worker = (\<lambda>_. example_answer), xe_join = (\<lambda>_ t. map_option snd (run_leave [] t))\<rparr>"

definition example_outcome :: "(IasAvbProcessingResult \<times> IasAvbStream) option" where
  "example_outcome = Some (eIasAvbProcOK, example_sender\<lparr>mActive := False\<rparr>)"

definition example_work :: "unit sequencer \<Rightarrow> (unit \<times> unit sequencer) option" where
  "example_work t =
     (if mTransmitThread t = Some True \<and> 0 < pending t then map_option (Pair ()) (example_answer t) else None)"

definition example_engine1 :: "unit tx_engine" where
  "example_engine1 = snd (the (txe_init example_txe_env (txe_new (\<lambda>_. stream_new eIasAvbAudioStream))))"

definition example_engine2 :: "unit tx_engine" where
  "example_engine2 = snd (the (createTransmitStream example_txe_env example_outcome 7 example_engine1))"

definition example_engine3 :: "unit tx_engine" where
  "example_engine3 = snd (the (txe_start example_txe_env example_engine2))"

definition example_engine4 :: "unit tx_engine" where
  "example_engine4 = snd (the (activateAvbStream example_txe_env 7 example_engine3))"

definition example_engine5 :: "unit tx_engine" where
  "example_engine5 = snd (the (on_seq example_work 0 example_engine4))"

lemma calm_code [code]:
  "calm e \<longleftrightarrow> list_all (\<lambda>x. case x of None \<Rightarrow> True | Some t \<Rightarrow> pending t < 2 ^ 31 - 2) (mSequencers e)"
  by (auto simp: calm_def sequencer_at_def list_all_length split: option.splits)

lemma example_answer_steps: "example_answer t = Some t' \<Longrightarrow> (worker_step te)\<^sup>*\<^sup>* t t'"
proof -
  have "it_ok 0 (mSequence t)" by (auto simp: it_ok_def)
  then show "example_answer t = Some t' \<Longrightarrow> (worker_step te)\<^sup>*\<^sup>* t t'"
    unfolding example_answer_def by (elim option_elims) (auto intro!: r_into_rtranclp w_sync)
qed

lemma example_txe_env_ok: "engine_env example_txe_env"
proof -
  have "transmitting example_read_vtable" by unfold_locales (simp_all add: example_read_vtable_def)
  moreover have "\<exists>t1 reclaimed n. (worker_step te)\<^sup>*\<^sup>* t t1 \<and> run_leave reclaimed t1 = Some (n, t')"
    if "map_option snd (run_leave [] t) = Some t'" for te and t t' :: "unit sequencer"
    using that by (elim map_SomeE) (metis prod.collapse rtranclp.rtrancl_refl)
  moreover have "finite S \<Longrightarrow> (if S = {} then 0 else Suc (Max S)) \<notin> S" for S :: "nat set"
    by (auto dest: Max_ge)
  ultimately show ?thesis
    by (simp add: engine_env_def example_txe_env_def example_answer_steps)
qed

lemma example_engine_run:
  "txe_init example_txe_env (txe_new (\<lambda>_. stream_new eIasAvbAudioStream)) = Some (eIasAvbProcOK, example_engine1)"
  "createTransmitStream example_txe_env example_outcome 7 example_engine1 = Some (eIasAvbProcOK, example_engine2)"
  "txe_start example_txe_env example_engine2 = Some (eIasAvbProcOK, example_engine3)"
  "activateAvbStream example_txe_env 7 example_engine3 = Some (eIasAvbProcOK, example_engine4)"
  "on_seq example_work 0 example_engine4 = Some ((), example_engine5)"
proof -
  have pick: "\<not> Option.is_none x \<and> fst (the x) = a \<Longrightarrow> x = Some (a, snd (the x))" for x :: "('p \<times> 'q) option" and a
    by (cases x) auto
  show "txe_init example_txe_env (txe_new (\<lambda>_. stream_new eIasAvbAudioStream)) = Some (eIasAvbProcOK, example_engine1)"
    unfolding example_engine1_def by (rule pick) code_simp
  show "createTransmitStream example_txe_env example_outcome 7 example_engine1 = Some (eIasAvbProcOK, example_engine2)"
    unfolding example_engine2_def by (rule pick) code_simp
  show "txe_start example_txe_env example_engine2 = Some (eIasAvbProcOK, example_engine3)"
    unfolding example_engine3_def by (rule pick) code_simp
  show "activateAvbStream example_txe_env 7 example_engine3 = Some (eIasAvbProcOK, example_engine4)"
    unfolding example_engine4_def by (rule pick) code_simp
  show "on_seq example_work 0 example_engine4 = Some ((), example_engine5)"
    unfolding example_engine5_def by (rule pick) code_simp
qed


section \<open>A start that fails\<close>

lemma start_at:
  assumes "sequencer_at i e = Some t" "mTransmitThread t = Some False"
  shows "\<exists>t' h. on_seq (\<lambda>t. Some (sequencer_start te t)) i e =
      Some (if te_threadStart te then eIasAvbProcOK else eIasAvbProcThreadStartFailed,
            e\<lparr>mSequencers := (mSequencers e)[i := Some t'], heap := h\<rparr>) \<and>
    mTransmitThread t' = Some (te_threadStart te)"
  using assms
  by (intro exI [of _ "t\<lparr>streams := heap e, mTransmitThread := Some (te_threadStart te), mRequestCount := mRequestCount t + 1\<rparr>"]
        exI [of _ "heap e"]) (simp add: on_seq_def sequencer_start_def)

text \<open>C35. When the thread of the first sequencer starts and that of the second one does not, starting the engine
  fails without stopping the first one: the clean-up by \<^verbatim>\<open>stop\<close> does nothing because the engine does not
  count as running yet. The thread stays, and a later \<^verbatim>\<open>stop\<close> reports success and does not stop it either.\<close>

theorem failed_start_leaves_thread:
  assumes "txe_isInitialized e" "\<not> txe_isRunning e" "\<not> mUseResume e" "mSequencers e = [Some t, Some u]"
    and "mTransmitThread t = Some False" "mTransmitThread u = Some False"
    and "te_threadStart (xe_tx env 0)" "\<not> te_threadStart (xe_tx env 1)"
  shows "\<exists>e' e'' t' u'. txe_start env e = Some (eIasAvbProcThreadStartFailed, e') \<and> \<not> txe_isRunning e' \<and>
    mSequencers e' = [Some t', Some u'] \<and> mTransmitThread t' = Some True \<and>
    txe_stop env e' = Some (eIasAvbProcOK, e'') \<and> mSequencers e'' = mSequencers e'"
proof -
  have te: "te_threadStart (seq_env env i x) = te_threadStart (xe_tx env i)" for i x by (simp add: seq_env_def)
  let ?e0 = "e\<lparr>mUseResume := True\<rparr>"
  have "sequencer_at 0 ?e0 = Some t" using assms(4) by (simp add: sequencer_at_def)
  from start_at [OF this assms(5), of "seq_env env 0 ?e0"] obtain t' h where
    1: "on_seq (\<lambda>t. Some (sequencer_start (seq_env env 0 ?e0) t)) 0 ?e0 =
      Some (eIasAvbProcOK, ?e0\<lparr>mSequencers := [Some t', Some u], heap := h\<rparr>)" "mTransmitThread t' = Some True"
    using assms(4,7) by (auto simp: te)
  let ?e1 = "?e0\<lparr>mSequencers := [Some t', Some u], heap := h\<rparr>"
  have "sequencer_at 1 ?e1 = Some u" by (simp add: sequencer_at_def)
  from start_at [OF this assms(6), of "seq_env env 1 ?e1"] obtain u' h' where
    2: "on_seq (\<lambda>t. Some (sequencer_start (seq_env env 1 ?e1) t)) 1 ?e1 =
      Some (eIasAvbProcThreadStartFailed, ?e1\<lparr>mSequencers := [Some t', Some u'], heap := h'\<rparr>)"
    using assms(8) by (auto simp: te)
  let ?e2 = "?e1\<lparr>mSequencers := [Some t', Some u'], heap := h'\<rparr>"
  have "[0..<length (mSequencers ?e0)] = [0, 1]" using assms(4) by (simp add: upt_rec)
  then have "start_sequencers env [0..<length (mSequencers ?e0)] ?e0 = Some (eIasAvbProcThreadStartFailed, ?e2)"
    using 1(1) 2 assms(4) by (simp add: sequencer_at_def)
  then have "txe_start env e = Some (eIasAvbProcThreadStartFailed, ?e2\<lparr>mRunning := False\<rparr>)"
    using assms(1-3) by (simp add: txe_start_def txe_stop_def txe_isInitialized_def txe_isRunning_def)
  moreover have "txe_stop env (?e2\<lparr>mRunning := False\<rparr>) = Some (eIasAvbProcOK, ?e2\<lparr>mRunning := False\<rparr>)"
    using assms(1) by (simp add: txe_stop_def txe_isInitialized_def txe_isRunning_def)
  ultimately show ?thesis using 1(2) by (auto simp: txe_isRunning_def)
qed

definition example_half_env :: "unit txe_env" where
  "example_half_env = example_txe_env\<lparr>xe_tx := \<lambda>i. (example_tx_env 0 0)\<lparr>te_threadStart := i = 0\<rparr>\<rparr>"

definition example_pair :: "unit tx_engine" where
  "example_pair = (txe_new (\<lambda>_. stream_new eIasAvbAudioStream))
     \<lparr>mIgbDevice := True,
      mSequencers := [Some (example_accounts\<lparr>mClass := eIasAvbSrClassHigh\<rparr>), Some (example_accounts\<lparr>mClass := eIasAvbSrClassLow\<rparr>)]\<rparr>"

theorem failed_start_leaves_thread_witness:
  "\<exists>e' e'' t' u'. txe_start example_half_env example_pair = Some (eIasAvbProcThreadStartFailed, e') \<and> \<not> txe_isRunning e' \<and>
    mSequencers e' = [Some t', Some u'] \<and> mTransmitThread t' = Some True \<and>
    txe_stop example_half_env e' = Some (eIasAvbProcOK, e'') \<and> mSequencers e'' = mSequencers e'"
  by (rule failed_start_leaves_thread [of example_pair "example_accounts\<lparr>IasAvbTransmitSequencer.mClass := eIasAvbSrClassHigh\<rparr>"
        "example_accounts\<lparr>IasAvbTransmitSequencer.mClass := eIasAvbSrClassLow\<rparr>"])
    (simp_all add: example_pair_def example_half_env_def txe_new_def txe_isInitialized_def txe_isRunning_def example_accounts_def
      sequencer_new_def)

end
