(* ===== verification/Audio_Transmitter.thy ===== *)
theory Audio_Transmitter
  imports Transmit_Properties Audio_Receiver
begin

text \<open>
  The AVB audio stream keeps the contract \<open>transmitting\<close> that the transmit sequencer relies on: writing a
  packet, being activated and connecting to a local stream leave its identity alone and whether it is
  active.
\<close>

section \<open>Calls of the local stream\<close>

definition steady_client :: "('a IasAvbStream_scheme, 's) stream_client \<Rightarrow> bool" where
  "steady_client client \<longleftrightarrow>
     (\<forall>ev n cs r cs'. c_signalDiscontinuity client ev n cs = Some (r, cs') \<longrightarrow> steady (fst cs) (fst cs')) \<and>
     (\<forall>cs cs'. c_resetBuffers client cs = Some cs' \<longrightarrow> steady (fst cs) (fst cs'))"

lemma signal_reset_steady: "steady_client client \<Longrightarrow> signal_reset client ev n cs = Some cs' \<Longrightarrow> steady (fst cs) (fst cs')"
  unfolding signal_reset_def steady_client_def by (elim result_elims) (metis fst_conv steady_trans)+

lemma reset_steady: "steady_client client \<Longrightarrow> signal_reset client ev n (a, s) = Some cs' \<Longrightarrow> steady a (fst cs')"
  using signal_reset_steady [of client ev n "(a, s)" cs'] by simp

lemma readLocal_steady:
  "steady_client client \<Longrightarrow> readLocalAudioBuffer client ch buffer n m stamp cs = Some (r, buffer', k, stamp', cs') \<Longrightarrow>
     steady (fst cs) (fst cs')"
  unfolding readLocalAudioBuffer_def Let_def
  by (elim result_elims; (simp only: prod.inject)?; elim conjE; (hypsubst+)?; (erule (1) reset_steady | simp))

lemma dump_loop_steady: "steady_client client \<Longrightarrow> dump_loop n i client k cs = Some cs' \<Longrightarrow> steady (fst cs) (fst cs')"
proof (induction n arbitrary: i cs)
  case (Suc n)
  from Suc.prems(2) obtain r b m s cs1 where
      "readLocalAudioBuffer client (of_nat i) (Some (replicate (unat k) 0)) (ucast k) 0 0 cs = Some (r, b, m, s, cs1)"
    and rest: "dump_loop n (Suc i) client k cs1 = Some cs'"
    by (auto elim!: bind_SomeE)
  from readLocal_steady [OF Suc.prems(1) this(1)] Suc.IH [OF Suc.prems(1) rest] show ?case by (rule steady_trans)
qed simp

lemma dump_steady:
  "steady_client client \<Longrightarrow> dumpFromLocalAudioBuffer client n cs = Some (r, k, cs') \<Longrightarrow> steady (fst cs) (fst cs')"
  unfolding dumpFromLocalAudioBuffer_def Let_def
  by (elim result_elims) (metis (no_types) prod.inject dump_loop_steady steady_refl)+

lemma setClientActive_fst: "audio_setClientActive env active cs = Some cs' \<Longrightarrow> fst cs' = fst cs"
  unfolding audio_setClientActive_def by (rule setClientActive_still [OF reset_client_still])

lemma steady_state [simp]: "steady a (a\<lparr>IasAvbStream.mStreamState := st, mWaitForData := w\<rparr>)"
  by (simp add: steady_def same_stream_def)

lemma audio_client_steady: "steady_client (audio_client env)"
proof -
  have "steady (fst cs) (fst cs')" if "signalDiscontinuity env ev n cs = Some (r, cs')" for ev n cs r cs'
    using that unfolding signalDiscontinuity_def Let_def
    by (cases ev) (auto split: if_split_asm elim!: map_SomeE dest!: setClientActive_fst)
  moreover have "steady (fst cs) (fst cs')" if "c_resetBuffers (reset_client env) cs = Some cs'" for cs cs'
    using that by (auto simp: reset_client_def elim!: map_SomeE split: prod.splits)
  ultimately show ?thesis by (simp add: steady_client_def audio_client_def)
qed

section \<open>Frames of the operations\<close>

lemma put_local_steady [simp]: "steady a (put_local i l a)"
  by (simp add: steady_def same_stream_def put_local_def)

lemma reset_fifo_steady [simp]: "steady a (reset_fifo a)"
  by (simp add: steady_def same_stream_def reset_fifo_def)

lemma on_local_steady:
  assumes "on_local f a = Some (r, a')"
    and "\<And>l r b l'. f (a, l) = Some (r, b, l') \<Longrightarrow> steady a b"
  shows "steady a a'"
  using assms(1) unfolding on_local_def
  by (elim result_elims) (metis assms(2) prod.inject put_local_steady steady_trans)

lemma set_active_steady:
  assumes "map_option snd (on_local (\<lambda>al. map_option (Pair ()) (audio_setClientActive env active al)) a) = Some a'"
  shows "steady a a'"
proof -
  from assms obtain u where "on_local (\<lambda>al. map_option (Pair ()) (audio_setClientActive env active al)) a = Some (u, a')"
    by (elim map_SomeE) auto
  then show ?thesis by (rule on_local_steady) (auto elim!: map_SomeE dest!: setClientActive_fst)
qed

lemma dump_local_steady:
  "on_local (\<lambda>al. map_option (\<lambda>(x, n, al). (g x n, al)) (dumpFromLocalAudioBuffer (audio_client env) k al)) a = Some (r, a') \<Longrightarrow>
     steady a a'"
  by (erule on_local_steady) (auto elim!: map_SomeE dest!: dump_steady [OF audio_client_steady] split: prod.splits)

lemma timestamp_steady:
  "on_local (\<lambda>(a, l). map_option (\<lambda>t. (t, a, l)) (getCurrentTimestamp l)) a = Some (r, a') \<Longrightarrow> steady a a'"
  by (erule on_local_steady) (auto elim!: map_SomeE)

text \<open>A result that is a pair whose first part is a pair.\<close>

lemma prod_fun_SomeE:
  "(case p of (x, y) \<Rightarrow> f x y) b = Some r \<Longrightarrow> (\<And>x y. p = (x, y) \<Longrightarrow> f x y b = Some r \<Longrightarrow> P) \<Longrightarrow> P"
  by (cases p) auto

lemma steady_into:
  "steady a b \<Longrightarrow> steady a c \<Longrightarrow> steady a (if q then b else c)"
  "steady a b \<Longrightarrow> steady a (b\<lparr>mWaitForData := w\<rparr>)"
  "steady a b \<Longrightarrow> steady a (b\<lparr>mDummySamplesSent := n\<rparr>)"
  "steady a b \<Longrightarrow> steady a (b\<lparr>mWaitForData := w, mDummySamplesSent := n\<rparr>)"
  "steady a b \<Longrightarrow> steady a (b\<lparr>mTempBuffer := m\<rparr>)"
  "steady a b \<Longrightarrow> steady a (b\<lparr>mLocalStreamReadSampleCount := k\<rparr>)"
  by (simp_all add: steady_def same_stream_def)

lemmas steady_fields = steady_def same_stream_def

lemma resetTime_steady: "resetTime env w a = Some (r, a') \<Longrightarrow> steady a a'"
  unfolding resetTime_def Let_def
  by (elim result_elims; (hypsubst+)?; simp only: prod.inject; elim conjE; (hypsubst+)?; simp add: steady_fields)

lemma write_header_steady: "write_header a bytes = Some (r, a') \<Longrightarrow> steady a a'"
  unfolding write_header_def Let_def
  by (elim bind_SomeE prod_SomeE Some_SomeE) (simp add: steady_fields)

lemma balance_steady: "balance_dummies env a = Some (r, a') \<Longrightarrow> steady a a'"
  unfolding balance_dummies_def Let_def
  by (elim result_elims; (hypsubst+)?; (drule dump_local_steady)?; simp add: steady_fields)

lemma discard_old_steady: "discard_old env t a = Some (r, a') \<Longrightarrow> steady a a'"
proof -
  have "steady a (snd x)" if "discard_old env t a = Some x" for x
  proof (rule discard_old.raw_induct [OF _ that])
    fix loop :: "'a local_stream audio_env \<Rightarrow> u64 \<Rightarrow> 'a audio_stream \<Rightarrow> (u64 \<times> 'a audio_stream) option"
    fix env t a x
    assume IH: "\<And>env t a x. loop env t a = Some x \<Longrightarrow> steady a (snd x)"
      and body: "(if t \<noteq> 0 \<and> t < mRefPlaneSampleTime a then
        Option.bind (on_local (\<lambda>al. map_option (\<lambda>(_, _, al). ((), al))
            (dumpFromLocalAudioBuffer (audio_client env) (mSamplesPerChannelPerPacket a) al)) a)
          (\<lambda>(_, a). Option.bind (on_local (\<lambda>(a, l). map_option (\<lambda>t. (t, a, l)) (getCurrentTimestamp l)) a)
             (\<lambda>(t, a). loop env t a))
        else Some (t, a)) = Some x"
    from body consider "x = (t, a)" | u b t' c where
        "on_local (\<lambda>al. map_option (\<lambda>(_, _, al). ((), al))
            (dumpFromLocalAudioBuffer (audio_client env) (mSamplesPerChannelPerPacket a) al)) a = Some (u, b)"
        "on_local (\<lambda>(a, l). map_option (\<lambda>t. (t, a, l)) (getCurrentTimestamp l)) b = Some (t', c)"
        "loop env t' c = Some x"
      by (elim if_SomeE bind_SomeE prod_SomeE Some_SomeE) blast+
    then show "steady a (snd x)"
    proof cases
      case (2 u b t' c)
      from dump_local_steady [OF 2(1)] timestamp_steady [OF 2(2)] IH [OF 2(3)] show ?thesis by (metis steady_trans)
    qed simp
  qed
  then show "discard_old env t a = Some (r, a') \<Longrightarrow> steady a a'" by fastforce
qed

lemma align_steady: "align_local env a = Some a' \<Longrightarrow> steady a a'"
  unfolding align_local_def Let_def
  by (elim result_elims; (hypsubst+)?; drule timestamp_steady; drule discard_old_steady)
    (simp_all add: steady_fields)

lemma read_local_steady: "read_local env ch w a = Some (r, a') \<Longrightarrow> steady a a'"
proof -
  have on: "on_local (\<lambda>al. map_option (\<lambda>(_, mem, n, t, al). ((mem, n, t), al))
      (readLocalAudioBuffer (audio_client env) ch buf k w 0 al)) a = Some (r, a') \<Longrightarrow> steady a a'" for buf k r a a'
    by (erule on_local_steady) (auto elim!: map_SomeE dest!: readLocal_steady [OF audio_client_steady] split: prod.splits)
  show "read_local env ch w a = Some (r, a') \<Longrightarrow> steady a a'"
    unfolding read_local_def by (elim bind_SomeE prod_SomeE prod_fun_SomeE Some_SomeE; (hypsubst+)?; drule on) (simp add: steady_fields)
qed

lemma fetch_channel_steady: "fetch_channel env ready ch w a = Some (r, a') \<Longrightarrow> steady a a'"
  unfolding fetch_channel_def Let_def
  by (elim result_elims prod_fun_SomeE; (hypsubst+)?; (drule read_local_steady)?; (simp only: prod.inject)?; elim conjE;
      (hypsubst+)?; (intro steady_into steady_refl | assumption)+)

lemma write_channels_steady: "write_channels n ch env ready w bytes a = Some (w', bytes', a') \<Longrightarrow> steady a a'"
proof (induction n arbitrary: ch w bytes a)
  case (Suc n)
  from Suc.prems obtain w1 a1 b1 where "fetch_channel env ready ch w a = Some (w1, a1)"
    and "write_channels n (ch + 1) env ready w1 b1 a1 = Some (w', bytes', a')"
    by (auto elim!: bind_SomeE)
  from fetch_channel_steady [OF this(1)] Suc.IH [OF this(2)] show ?case by (rule steady_trans)
qed simp

lemma layout_steady: "get_layout env ch a = Some (r, a') \<Longrightarrow> steady a a'"
  unfolding get_layout_def
  by (elim result_elims prod_fun_SomeE; (hypsubst+)?; (drule read_local_steady)?; simp)

lemma payload_steady: "write_payload env bytes a = Some (r, n, w, b, a') \<Longrightarrow> steady a a'"
  unfolding write_payload_def Let_def
  by (elim result_elims; (hypsubst+)?; drule balance_steady; (drule align_steady)?; drule write_channels_steady;
      drule layout_steady; auto intro: steady_trans)

lemma advance_steady: "advance_plane env w a = Some a' \<Longrightarrow> steady a a'"
  unfolding advance_plane_def Let_def
  by (elim result_elims; (hypsubst+)?; simp add: steady_fields)

lemma write_packet_steady: "write_packet env w pb a = Some (r, a') \<Longrightarrow> steady a a'"
  unfolding write_packet_def Let_def
  by (elim result_elims prod_fun_SomeE; (hypsubst+)?; (drule resetTime_steady)?; (drule write_header_steady)?; (drule payload_steady)?;
      (drule advance_steady)?; auto intro: steady_trans)

lemma writeToAvbPacket_steady: "writeToAvbPacket env p w a = Some (r, a') \<Longrightarrow> steady a a'"
  unfolding writeToAvbPacket_def Let_def
  by (elim result_elims prod_fun_SomeE; (hypsubst+)?; (drule write_packet_steady)?; simp add: steady_fields)

lemma activation_steady:
  assumes "audio_activationChanged env a = Some a'"
  shows "steady a a'"
proof -
  from assms obtain b where "steady a b" "(if isConnected b
      then map_option snd (on_local (\<lambda>al. map_option (Pair ()) (audio_setClientActive env (mActive b) al)) b)
      else Some b) = Some a'"
    unfolding audio_activationChanged_def Let_def by (rule that [rotated]) (simp add: steady_fields reset_fifo_def)
  then show ?thesis by (elim if_SomeE) (drule set_active_steady, erule (1) steady_trans, simp)
qed

lemma connect_local_steady: "connect_local env i a = Some (r, a') \<Longrightarrow> steady a a'"
  unfolding connect_local_def Let_def audio_setClientActive_def
  by (elim result_elims)
    (auto simp: steady_fields put_local_def reset_fifo_def dest!: setClientActive_still [OF reset_client_still])

lemma connectTo_steady: "connectTo env l a = Some (r, a') \<Longrightarrow> steady a a'"
  unfolding connectTo_def Let_def
  by (elim result_elims)
    (auto simp: steady_fields put_local_def dest!: connect_local_steady split: option.splits)

interpretation audio_tx: transmitting "audio_vtable env" for env
  by unfold_locales (auto simp: audio_vtable_def dest: activation_steady writeToAvbPacket_steady)

lemma audio_sequencer_streams: "(\<And>i. te_vtable te i = audio_vtable env) \<Longrightarrow> sequencer_streams te"
  by (simp add: sequencer_streams_def audio_tx.transmitting_axioms)

text \<open>The transmit engine with audio streams only: what is left to assume are its threads and the allocator.\<close>

lemma audio_engine_env:
  assumes "\<And>ty. xe_vtable env ty = audio_vtable ae" "xe_connectTo env = connectTo ae"
    and "\<And>te t t'. xe_worker env te t = Some t' \<Longrightarrow> (worker_step te)\<^sup>*\<^sup>* t t'"
    and "\<And>te t t'. xe_join env te t = Some t' \<Longrightarrow>
      \<exists>t1 reclaimed n. (worker_step te)\<^sup>*\<^sup>* t t1 \<and> run_leave reclaimed t1 = Some (n, t')"
    and "\<And>S. finite S \<Longrightarrow> xe_newStream env S \<notin> S"
  shows "engine_env env"
  unfolding engine_env_def assms(1,2)
  by (intro conjI allI impI) (rule audio_tx.transmitting_axioms, erule connectTo_steady, (erule assms)+)

end
