(* ===== verification/Local_Video_Buffer.thy ===== *)
theory Local_Video_Buffer
  imports Packet_Pool "HOL-Library.Monad_Syntax"
begin

unbundle bit_operations_syntax

text \<open>
  \<^verbatim>\<open>IasLocalVideoBuffer\<close> (\<^verbatim>\<open>IasLocalVideoBuffer.hpp/.cpp\<close>): the ring of packet descriptors between a local
  video stream and the AVB stream that sends its packets. The packets come from the pool of the AVB stream:
  the member \<^verbatim>\<open>mPool\<close> is modelled by whether it is set, and the operations take and return the pool and
  the DMA memory, which they change through pointers. A pointer to data is the list of the bytes from there
  on. The result \<open>None\<close> is a NULL dereference, an access outside the ring or an overread.
\<close>

section \<open>State\<close>

record IasVideoDesc =
  tspsInAvbPacket :: u32
  hasSph :: bool
  isIec61883Packet :: bool
  pts :: u64
  dts :: u64
  rtpTimestamp :: u32
  rtpSequenceNumber :: u16
  mptField :: u8
  rtpPacketPtr :: "u8 list option"
  avbPacket :: "pkt_ref option"
  buffer_data :: "u8 list option"
  buffer_size :: u32

definition video_desc :: IasVideoDesc where
  "video_desc =
     \<lparr>tspsInAvbPacket = 0, hasSph = False, isIec61883Packet = False, pts = 0, dts = 0, rtpTimestamp = 0,
      rtpSequenceNumber = 0, mptField = 0, rtpPacketPtr = None, avbPacket = None, buffer_data = None,
      buffer_size = 0\<rparr>"

record IasLocalVideoBuffer =
  mReadIndex :: u32
  mWriteIndex :: u32
  mRtpSequNrLast :: u16
  mNumPacketsTotal :: u32
  mMaxPacketSize :: u16
  mMaxFillLevel :: u16
  mInternalBuffers :: bool
  mBuffer :: bool
  mPool :: bool
  mRing :: "IasVideoDesc list option"

definition lvb_new :: IasLocalVideoBuffer where
  "lvb_new =
     \<lparr>mReadIndex = 0, mWriteIndex = 0, mRtpSequNrLast = 0, mNumPacketsTotal = 0, mMaxPacketSize = 0,
      mMaxFillLevel = 0, mInternalBuffers = False, mBuffer = False, mPool = False, mRing = None\<rparr>"

definition lvb_getFillLevel :: "IasLocalVideoBuffer \<Rightarrow> u32" where
  "lvb_getFillLevel b =
     (let ret = mWriteIndex b - mReadIndex b
      in if ret > mNumPacketsTotal b then ret + mNumPacketsTotal b else ret)"

definition lvb_getTotalSize :: "IasLocalVideoBuffer \<Rightarrow> u32" where
  "lvb_getTotalSize b = mNumPacketsTotal b"

definition lvb_getInternalBuffers :: "IasLocalVideoBuffer \<Rightarrow> bool" where
  "lvb_getInternalBuffers b \<longleftrightarrow> \<not> mBuffer b"

definition lvb_setAvbPacketPool :: "bool \<Rightarrow> IasLocalVideoBuffer \<Rightarrow> IasLocalVideoBuffer" where
  "lvb_setAvbPacketPool isSet b = b\<lparr>mPool := isSet\<rparr>"

text \<open>\<open>newBuffer\<close> and \<open>newRing\<close> are the answers of \<^verbatim>\<open>operator new\<close>.\<close>

definition lvb_init ::
  "bool \<Rightarrow> bool \<Rightarrow> u16 \<Rightarrow> u16 \<Rightarrow> bool \<Rightarrow> IasLocalVideoBuffer \<Rightarrow> IasAvbProcessingResult \<times> IasLocalVideoBuffer" where
  "lvb_init newBuffer newRing numPackets maxPacketSize internalBuffers b =
     (if numPackets \<le> 1 \<or> maxPacketSize = 0 then (eIasAvbProcInvalidParam, b)
      else
        let b = (if internalBuffers then b\<lparr>mBuffer := newBuffer\<rparr> else b) in
        if internalBuffers \<and> \<not> newBuffer then (eIasAvbProcNotEnoughMemory, b)
        else if \<not> newRing then (eIasAvbProcNotEnoughMemory, b\<lparr>mRing := None\<rparr>)
        else (eIasAvbProcOK,
              b\<lparr>mRing := Some (replicate (unat numPackets) video_desc), mInternalBuffers := internalBuffers,
                mNumPacketsTotal := ucast numPackets, mMaxPacketSize := maxPacketSize, mReadIndex := 0,
                mWriteIndex := 0\<rparr>))"

definition lvb_cleanup :: "IasLocalVideoBuffer \<Rightarrow> IasLocalVideoBuffer" where
  "lvb_cleanup b = b\<lparr>mBuffer := False, mRing := None\<rparr>"

section \<open>Access to the ring\<close>

definition entry :: "nat \<Rightarrow> IasLocalVideoBuffer \<Rightarrow> IasVideoDesc option" where
  "entry i b = Option.bind (mRing b) (\<lambda>xs. fetch xs i)"

definition put_entry :: "nat \<Rightarrow> (IasVideoDesc \<Rightarrow> IasVideoDesc) \<Rightarrow> IasLocalVideoBuffer \<Rightarrow> IasLocalVideoBuffer option" where
  "put_entry i f b =
     do { xs \<leftarrow> mRing b; d \<leftarrow> fetch xs i; Some (b\<lparr>mRing := Some (xs[i := f d])\<rparr>) }"

text \<open>The loop of \<^verbatim>\<open>reset\<close> over the entries from \<open>i\<close> on; \<open>n\<close> counts those left.\<close>

definition clear_entry :: "IasVideoDesc \<Rightarrow> IasVideoDesc" where
  "clear_entry d = d\<lparr>avbPacket := None, isIec61883Packet := False, hasSph := False, tspsInAvbPacket := 0\<rparr>"

primrec reset_entries ::
  "nat \<Rightarrow> nat \<Rightarrow> IasLocalVideoBuffer \<times> IasAvbPacketPool \<Rightarrow> (IasLocalVideoBuffer \<times> IasAvbPacketPool) option" where
  "reset_entries 0 i bp = Some bp"
| "reset_entries (Suc n) i bp =
     do {
       let (b, pool) = bp;
       d \<leftarrow> entry i b;
       bp \<leftarrow> (case avbPacket d of
                None \<Rightarrow> Some (b, pool)
              | Some r \<Rightarrow> do {
                  (_, pool) \<leftarrow> returnPacket (Some r) pool;
                  b \<leftarrow> put_entry i clear_entry b;
                  Some (b, pool)
                });
       reset_entries n (Suc i) bp
     }"

definition lvb_reset ::
  "IasLocalVideoBuffer \<times> IasAvbPacketPool \<Rightarrow> (IasAvbProcessingResult \<times> IasLocalVideoBuffer \<times> IasAvbPacketPool) option"
where
  "lvb_reset bp =
     (if mRing (fst bp) = None then Some (eIasAvbProcNotInitialized, bp)
      else do {
        (b, pool) \<leftarrow> reset_entries (unat (mNumPacketsTotal (fst bp))) 0 bp;
        Some (eIasAvbProcOK, b\<lparr>mReadIndex := 0, mWriteIndex := 0\<rparr>, pool)
      })"

section \<open>Writing\<close>

text \<open>The test at the start of both write functions.\<close>

definition unusable :: "IasVideoDesc \<Rightarrow> IasLocalVideoBuffer \<Rightarrow> bool" where
  "unusable packet b \<longleftrightarrow>
     buffer_data packet = None \<or> buffer_size packet = 0 \<or> ucast (mMaxPacketSize b) < buffer_size packet"

definition remaining_entries :: "IasLocalVideoBuffer \<Rightarrow> u32" where
  "remaining_entries b = mNumPacketsTotal b - lvb_getFillLevel b - 1"

text \<open>\<^verbatim>\<open>int32_t((getPacketSize() - getPayloadOffset()) - size)\<close>\<close>

definition headroom :: "IasAvbPacketPool \<Rightarrow> IasAvbPacket \<Rightarrow> u32 \<Rightarrow> s32" where
  "headroom pool pk n = of_nat (mPacketSize pool) - of_nat (mPayloadOffset pk) - n"

definition advance_write :: "IasLocalVideoBuffer \<Rightarrow> IasLocalVideoBuffer" where
  "advance_write b =
     (let w = mWriteIndex b + 1;
          b = (if ucast (mMaxFillLevel b) = mNumPacketsTotal b - 1 then b\<lparr>mMaxFillLevel := 0\<rparr> else b)
      in b\<lparr>mWriteIndex := (if w = mNumPacketsTotal b then 0 else w)\<rparr>)"

type_synonym video_state = "IasLocalVideoBuffer \<times> IasAvbPacketPool \<times> dma_memory"

text \<open>The packet has been taken from the pool: the payload is copied and the entry filled in.\<close>

definition store_h264 ::
  "IasVideoDesc \<Rightarrow> pkt_ref \<Rightarrow> video_state \<Rightarrow> (u32 \<times> video_state) option" where
  "store_h264 packet r st =
     do {
       let (b, pool, mem) = st;
       let w = unat (mWriteIndex b);
       pk \<leftarrow> deref pool r;
       let n = buffer_size packet;
       if headroom pool pk n <s 0 then Some (0, advance_write b, pool, mem)
       else do {
         data \<leftarrow> buffer_data packet;
         bytes \<leftarrow> slice data 0 (unat n);
         let mem = save_packet (getPayloadPointer pk) bytes mem;
         pool \<leftarrow> update_packet (\<lambda>pk. pk\<lparr>len := of_nat (mPayloadOffset pk) + n\<rparr>) r pool;
         b \<leftarrow> put_entry w (\<lambda>d. d\<lparr>avbPacket := Some r, rtpSequenceNumber := rtpSequenceNumber packet,
                                 rtpTimestamp := rtpTimestamp packet, buffer_size := 0, buffer_data := None\<rparr>) b;
         Some (n, advance_write (b\<lparr>mRtpSequNrLast := rtpSequenceNumber packet\<rparr>), pool, mem)
       }
     }"

definition lvb_writeH264 :: "IasVideoDesc \<Rightarrow> video_state \<Rightarrow> (u32 \<times> video_state) option" where
  "lvb_writeH264 packet st =
     (let (b, pool, mem) = st in
      if unusable packet b \<or> \<not> mPool b \<and> \<not> mBuffer b then Some (0, st)
      else do {
        let fill = lvb_getFillLevel b;
        let b = (if fill > ucast (mMaxFillLevel b) then b\<lparr>mMaxFillLevel := ucast fill\<rparr> else b);
        if remaining_entries b = 0 then Some (0, b, pool, mem)
        else do {
          b \<leftarrow> put_entry (unat (mWriteIndex b))
                 (\<lambda>d. d\<lparr>buffer_data := buffer_data packet, buffer_size := buffer_size packet,
                        isIec61883Packet := isIec61883Packet packet, mptField := mptField packet\<rparr>) b;
          if mBuffer b then Some (0, b, pool, mem)
          else do {
            (avbPacket, pool) \<leftarrow> getPacket pool;
            case avbPacket of
              None \<Rightarrow> Some (0, b, pool, mem)
            | Some r \<Rightarrow> store_h264 packet r (b, pool, mem)
          }
        }
      })"

text \<open>The copy of \<open>n\<close> transport stream packets into the AVB packet \<open>r\<close>, which entry \<open>i\<close> refers to. A source
  packet header is left out of the copy if the data has none; \<open>p\<close> is the write pointer.\<close>

definition sphSize :: u32 where "sphSize = 4"

primrec copy_tsps ::
  "nat \<Rightarrow> bool \<Rightarrow> u32 \<Rightarrow> pkt_ref \<Rightarrow> nat \<Rightarrow> u64 \<Rightarrow> u8 list \<Rightarrow> u32 \<Rightarrow> video_state \<Rightarrow>
     (u8 list \<times> u32 \<times> video_state) option" where
  "copy_tsps 0 sph tspSize r i p readPtr bytesWritten st = Some (readPtr, bytesWritten, st)"
| "copy_tsps (Suc n) sph tspSize r i p readPtr bytesWritten st =
     do {
       let (b, pool, mem) = st;
       let skip = (if sph then 0 else sphSize);
       bytes \<leftarrow> slice readPtr 0 (unat tspSize);
       let mem = save_packet (p + ucast skip) bytes mem;
       pool \<leftarrow> update_packet (\<lambda>pk. pk\<lparr>len := len pk + (skip + tspSize)\<rparr>) r pool;
       b \<leftarrow> put_entry i (\<lambda>d. d\<lparr>tspsInAvbPacket := tspsInAvbPacket d + 1\<rparr>) b;
       copy_tsps n sph tspSize r i (p + ucast (skip + tspSize)) (drop (unat tspSize) readPtr)
         (bytesWritten + (skip + tspSize)) (b, pool, mem)
     }"

definition tsp_capacity :: "IasLocalVideoBuffer \<Rightarrow> u32" where
  "tsp_capacity b = ucast (mMaxPacketSize b) div (sphSize + 188)"

text \<open>Whether the packet written before is to be filled up.\<close>

definition recycles :: "IasLocalVideoBuffer \<Rightarrow> bool option" where
  "recycles b =
     (if 0 < mWriteIndex b \<and> mNumPacketsTotal b > mWriteIndex b
      then map_option (\<lambda>d. avbPacket d \<noteq> None \<and> isIec61883Packet d \<and> tsp_capacity b > tspsInAvbPacket d \<and>
               2 < lvb_getFillLevel b \<and> mNumPacketsTotal b - 2 > lvb_getFillLevel b)
             (entry (unat (mWriteIndex b) - 1) b)
      else Some False)"

text \<open>A new packet for the entry at the write index, with its header only.\<close>

definition fresh_entry ::
  "IasLocalVideoBuffer \<times> IasAvbPacketPool \<Rightarrow> (pkt_ref option \<times> IasLocalVideoBuffer \<times> IasAvbPacketPool) option" where
  "fresh_entry bp =
     do {
       let (b, pool) = bp;
       (packet, pool) \<leftarrow> getPacket pool;
       case packet of
         None \<Rightarrow> Some (None, b, pool)
       | Some r \<Rightarrow> do {
           b \<leftarrow> put_entry (unat (mWriteIndex b)) (\<lambda>d. d\<lparr>tspsInAvbPacket := 0, avbPacket := Some r\<rparr>) b;
           pool \<leftarrow> update_packet (\<lambda>pk. pk\<lparr>len := of_nat (mPayloadOffset pk)\<rparr>) r pool;
           Some (Some r, b, pool)
         }
     }"

text \<open>What does not fit into the packet being filled up goes into a new one; the result tells whether the
  packet before is still the one in use.\<close>

definition fill_up ::
  "IasVideoDesc \<Rightarrow> pkt_ref \<Rightarrow> video_state \<Rightarrow> (bool \<times> pkt_ref option \<times> u32 \<times> video_state) option" where
  "fill_up packet r st =
     do {
       let (b, pool, mem) = st;
       let i = unat (mWriteIndex b) - 1;
       d \<leftarrow> entry i b;
       pk \<leftarrow> deref pool r;
       data \<leftarrow> buffer_data packet;
       let tspSize = 188 + (if hasSph packet then sphSize else 0);
       let tspCount = buffer_size packet div tspSize;
       let done = tspsInAvbPacket d;
       let p = getPayloadPointer pk + ucast (done * (tspSize + sphSize));
       let excess = (if tsp_capacity b < tspCount + done then tspCount + done - tsp_capacity b else 0);
       (rest, bytesWritten, b, pool, mem) \<leftarrow>
         copy_tsps (unat (tspCount - excess)) (hasSph packet) tspSize r i p data 0 (b, pool, mem);
       if excess = 0 then Some (True, Some r, bytesWritten, b, pool, mem)
       else do {
         (next, b, pool) \<leftarrow> fresh_entry (b, pool);
         case next of
           None \<Rightarrow> Some (True, None, bytesWritten, b, pool, mem)
         | Some r' \<Rightarrow> do {
             pk' \<leftarrow> deref pool r';
             (_, bytesWritten, st) \<leftarrow>
               copy_tsps (unat excess) (hasSph packet) tspSize r' (unat (mWriteIndex b)) (getPayloadPointer pk') rest
                 bytesWritten (b, pool, mem);
             Some (False, Some r', bytesWritten, st)
           }
       }
     }"

text \<open>The data goes into the new packet of the entry at the write index.\<close>

definition fill_new ::
  "IasVideoDesc \<Rightarrow> pkt_ref \<Rightarrow> video_state \<Rightarrow> (bool \<times> pkt_ref option \<times> u32 \<times> video_state) option" where
  "fill_new packet r st =
     do {
       let (b, pool, mem) = st;
       pk \<leftarrow> deref pool r;
       data \<leftarrow> buffer_data packet;
       let tspSize = 188 + (if hasSph packet then sphSize else 0);
       (_, bytesWritten, st) \<leftarrow>
         copy_tsps (unat (buffer_size packet div tspSize)) (hasSph packet) tspSize r (unat (mWriteIndex b))
           (getPayloadPointer pk) data 0 st;
       Some (False, Some r, bytesWritten, st)
     }"

definition finish_entry ::
  "IasVideoDesc \<Rightarrow> pkt_ref option \<Rightarrow> IasLocalVideoBuffer \<Rightarrow> IasLocalVideoBuffer option" where
  "finish_entry packet r b =
     map_option advance_write
       (put_entry (unat (mWriteIndex b))
          (\<lambda>d. d\<lparr>avbPacket := r, rtpSequenceNumber := rtpSequenceNumber packet,
                 rtpTimestamp := rtpTimestamp packet, buffer_size := 0, buffer_data := None\<rparr>) b)"

definition store_tsps ::
  "bool \<Rightarrow> IasVideoDesc \<Rightarrow> pkt_ref \<Rightarrow> video_state \<Rightarrow> (u32 \<times> video_state) option" where
  "store_tsps recycling packet r st =
     do {
       pk \<leftarrow> deref (fst (snd st)) r;
       (recycling, r, bytesWritten, b, pool, mem) \<leftarrow>
         (if headroom (fst (snd st)) pk (buffer_size packet) <s 0 then Some (recycling, Some r, 0, st)
          else if recycling then fill_up packet r st else fill_new packet r st);
       b \<leftarrow> (if recycling then Some b else finish_entry packet r b);
       Some (bytesWritten, b, pool, mem)
     }"

definition lvb_writeMpegTS :: "IasVideoDesc \<Rightarrow> video_state \<Rightarrow> (u32 \<times> video_state) option" where
  "lvb_writeMpegTS packet st =
     (let (b, pool, mem) = st in
      if unusable packet b \<or> \<not> mPool b \<or> remaining_entries b = 0 then Some (0, st)
      else do {
        b \<leftarrow> put_entry (unat (mWriteIndex b))
               (\<lambda>d. d\<lparr>buffer_data := buffer_data packet, buffer_size := buffer_size packet,
                      isIec61883Packet := isIec61883Packet packet\<rparr>) b;
        if mBuffer b then Some (0, b, pool, mem)
        else do {
          recycling \<leftarrow> recycles b;
          (r, b, pool) \<leftarrow>
            (if recycling
             then map_option (\<lambda>d. (avbPacket d, b, pool)) (entry (unat (mWriteIndex b) - 1) b)
             else fresh_entry (b, pool));
          case r of
            None \<Rightarrow> Some (0, b, pool, mem)
          | Some r \<Rightarrow> store_tsps recycling packet r (b, pool, mem)
        }
      })"

section \<open>Reading\<close>

text \<open>\<^verbatim>\<open>read\<close> with no memory of the caller, as the streams call it: the descriptor is copied and its packet
  taken out of the ring.\<close>

definition lvb_read ::
  "IasVideoDesc \<Rightarrow> IasLocalVideoBuffer \<Rightarrow> (IasVideoDesc \<times> IasLocalVideoBuffer) option" where
  "lvb_read descPacket b =
     (if (mPool b \<or> mBuffer b) \<and> lvb_getFillLevel b > 0 then do {
        let i = unat (mReadIndex b);
        d \<leftarrow> entry i b;
        b \<leftarrow> put_entry i (\<lambda>d. d\<lparr>avbPacket := None\<rparr>) b;
        let r = mReadIndex b + 1;
        Some (d, b\<lparr>mReadIndex := (if r = mNumPacketsTotal b then 0 else r)\<rparr>)
      }
      else Some (descPacket, b))"

end
