(* ===== verification/Video_Fifo.thy ===== *)
theory Video_Fifo
  imports Local_Video_Buffer
begin

text \<open>
  The ring of a local video stream implements a bounded queue of frames: what the theory
  \<open>Local_Video_Buffer\<close> models is compared with a queue, a number of free packets and a number of packets
  that the AVB stream holds, over any sequence of writes, reads, returns and resets.
\<close>

section \<open>Well-formed rings\<close>

definition vb_size :: "IasLocalVideoBuffer \<Rightarrow> nat" where
  "vb_size b = unat (mNumPacketsTotal b)"

definition vb_fill :: "IasLocalVideoBuffer \<Rightarrow> nat" where
  "vb_fill b =
     (if mReadIndex b \<le> mWriteIndex b then unat (mWriteIndex b) - unat (mReadIndex b)
      else unat (mWriteIndex b) + vb_size b - unat (mReadIndex b))"

definition in_ring :: "IasLocalVideoBuffer \<Rightarrow> IasVideoDesc list" where
  "in_ring b = ring (the (mRing b)) (unat (mReadIndex b)) (vb_fill b)"

definition off_ring :: "IasLocalVideoBuffer \<Rightarrow> IasVideoDesc list" where
  "off_ring b = ring (the (mRing b)) (unat (mReadIndex b) + vb_fill b) (vb_size b - vb_fill b)"

definition ring_refs :: "IasLocalVideoBuffer \<Rightarrow> pkt_ref list" where
  "ring_refs b = map (\<lambda>d. the (avbPacket d)) (in_ring b)"

definition indices_ok :: "IasLocalVideoBuffer \<Rightarrow> bool" where
  "indices_ok b \<longleftrightarrow> (\<exists>xs. mRing b = Some xs \<and> length xs = vb_size b) \<and> 2 \<le> vb_size b \<and> vb_size b < 2 ^ 16 \<and>
     unat (mReadIndex b) < vb_size b \<and> unat (mWriteIndex b) < vb_size b"

lemma vb_fill_less: "indices_ok b \<Longrightarrow> vb_fill b < vb_size b"
  by (auto simp: indices_ok_def vb_fill_def word_le_nat_alt)

lemma write_index_eq: "indices_ok b \<Longrightarrow> unat (mWriteIndex b) = (unat (mReadIndex b) + vb_fill b) mod vb_size b"
  by (auto simp: indices_ok_def vb_fill_def word_le_nat_alt)

lemma fill_level:
  assumes "indices_ok b"
  shows "unat (lvb_getFillLevel b) = vb_fill b"
proof (cases "mReadIndex b \<le> mWriteIndex b")
  case True
  then have "unat (mWriteIndex b - mReadIndex b) = unat (mWriteIndex b) - unat (mReadIndex b)"
    by (simp add: unat_sub word_le_nat_alt)
  moreover from this have "\<not> mWriteIndex b - mReadIndex b > mNumPacketsTotal b"
    using assms by (auto simp: indices_ok_def word_less_nat_alt vb_size_def)
  ultimately show ?thesis using True by (simp add: lvb_getFillLevel_def vb_fill_def Let_def)
next
  case False
  then have less: "unat (mWriteIndex b) < unat (mReadIndex b)" by (simp add: word_le_nat_alt)
  have T: "unat (mNumPacketsTotal b) < 2 ^ 16" "unat (mReadIndex b) < unat (mNumPacketsTotal b)"
    using assms by (auto simp: indices_ok_def vb_size_def)
  have d: "unat (mWriteIndex b - mReadIndex b) = 2 ^ 32 + unat (mWriteIndex b) - unat (mReadIndex b)"
    using less by (simp add: unat_sub_wrap)
  then have gt: "mWriteIndex b - mReadIndex b > mNumPacketsTotal b"
    using T less by (simp add: word_less_nat_alt)
  have "unat (mWriteIndex b - mReadIndex b + mNumPacketsTotal b) =
      unat (mWriteIndex b) + unat (mNumPacketsTotal b) - unat (mReadIndex b)"
  proof -
    have "unat (mWriteIndex b - mReadIndex b) + unat (mNumPacketsTotal b) =
        unat (mWriteIndex b) + unat (mNumPacketsTotal b) - unat (mReadIndex b) + 2 ^ 32"
      using d T less by simp
    moreover have "unat (mWriteIndex b) + unat (mNumPacketsTotal b) - unat (mReadIndex b) < 2 ^ 32" using T less by simp
    ultimately show ?thesis by (simp add: unat_word_ariths)
  qed
  with gt False show ?thesis by (simp add: lvb_getFillLevel_def vb_fill_def Let_def vb_size_def)
qed

lemma remaining_zero:
  assumes "indices_ok b"
  shows "remaining_entries b = 0 \<longleftrightarrow> vb_fill b = vb_size b - 1"
proof -
  have f: "unat (lvb_getFillLevel b) = vb_fill b" "vb_fill b < vb_size b" "vb_size b = unat (mNumPacketsTotal b)"
    using fill_level [OF assms] vb_fill_less [OF assms] by (simp_all add: vb_size_def)
  then have x: "unat (mNumPacketsTotal b - lvb_getFillLevel b) = vb_size b - vb_fill b"
    by (simp add: unat_sub word_le_nat_alt)
  then have "mNumPacketsTotal b - lvb_getFillLevel b \<noteq> 0" using f(2) by (metis unat_0 zero_less_diff less_irrefl)
  then have "unat (remaining_entries b) = vb_size b - vb_fill b - 1"
    using x by (simp add: remaining_entries_def unat_minus_one)
  with f(2) show ?thesis by (auto simp: unat_eq_zero [symmetric])
qed

section \<open>Moving the indices\<close>

lemma next_index:
  assumes "unat (w :: u32) < n" "n < 2 ^ 16" "unat (T :: u32) = n"
  shows "unat (if w + 1 = T then 0 else w + 1) = (unat w + 1) mod n"
proof -
  have "unat (w + 1) = unat w + 1" using assms by (simp add: unat_add_small)
  moreover from this have "w + 1 = T \<longleftrightarrow> unat w + 1 = n" using assms(3) by (metis word_unat_eq_iff)
  ultimately show ?thesis using assms(1) by auto
qed

lemma fill_push:
  assumes ok: "indices_ok b" and room: "vb_fill b < vb_size b - 1"
    and b': "mReadIndex b' = mReadIndex b" "mNumPacketsTotal b' = mNumPacketsTotal b"
      "unat (mWriteIndex b') = (unat (mWriteIndex b) + 1) mod vb_size b"
  shows "vb_fill b' = Suc (vb_fill b)"
proof -
  have T: "unat (mReadIndex b) < vb_size b" "unat (mWriteIndex b) < vb_size b" "vb_size b' = vb_size b"
    using ok b'(2) by (auto simp: indices_ok_def vb_size_def)
  show ?thesis
    using room T b'(1,3) unfolding vb_fill_def
    by (cases "unat (mWriteIndex b) + 1 = vb_size b") (auto simp: word_le_nat_alt)
qed

lemma fill_pop:
  assumes ok: "indices_ok b" and some: "0 < vb_fill b"
    and b': "mWriteIndex b' = mWriteIndex b" "mNumPacketsTotal b' = mNumPacketsTotal b"
      "unat (mReadIndex b') = (unat (mReadIndex b) + 1) mod vb_size b"
  shows "Suc (vb_fill b') = vb_fill b"
proof -
  have T: "unat (mReadIndex b) < vb_size b" "unat (mWriteIndex b) < vb_size b" "vb_size b' = vb_size b"
    using ok b'(2) by (auto simp: indices_ok_def vb_size_def)
  show ?thesis
    using some T b'(1,3) unfolding vb_fill_def
    by (cases "unat (mReadIndex b) + 1 = vb_size b") (auto simp: word_le_nat_alt split: if_splits)
qed

text \<open>A new entry at the write index.\<close>

lemma ring_push:
  assumes ok: "indices_ok b" and room: "vb_fill b < vb_size b - 1"
    and b': "mReadIndex b' = mReadIndex b" "mNumPacketsTotal b' = mNumPacketsTotal b"
      "unat (mWriteIndex b') = (unat (mWriteIndex b) + 1) mod vb_size b"
      "mRing b' = Some ((the (mRing b))[unat (mWriteIndex b) := d])"
  shows "indices_ok b'" "in_ring b' = in_ring b @ [d]" "set (off_ring b') \<subseteq> set (off_ring b)"
proof -
  let ?xs = "the (mRing b)" and ?r = "unat (mReadIndex b)" and ?w = "unat (mWriteIndex b)" and ?n = "vb_size b"
  have T: "mRing b = Some ?xs" "length ?xs = ?n" "2 \<le> ?n" "?r < ?n" "?w < ?n" "vb_size b' = ?n"
    using ok b'(2) by (auto simp: indices_ok_def vb_size_def)
  have w: "?w = (?r + vb_fill b) mod ?n" by (rule write_index_eq [OF ok])
  have fill: "vb_fill b' = Suc (vb_fill b)" by (rule fill_push [OF ok room b'(1-3)])
  show "indices_ok b'" using ok T b' by (auto simp: indices_ok_def vb_size_def)
  show "in_ring b' = in_ring b @ [d]"
    unfolding in_ring_def fill b'(1,4) option.sel
    using ring_append [of "?xs[?w := d]" ?xs "vb_fill b" "[d]" ?r] T w room by (auto simp: nth_list_update)
  show "set (off_ring b') \<subseteq> set (off_ring b)"
  proof
    fix y
    assume "y \<in> set (off_ring b')"
    then obtain i where i: "i < ?n - Suc (vb_fill b)" "y = ?xs[?w := d] ! ((?r + Suc (vb_fill b) + i) mod ?n)"
      unfolding off_ring_def fill T(6) b'(1,4) option.sel by (auto simp: in_set_conv_nth nth_ring T(2))
    have "(?r + Suc (vb_fill b) + i) mod ?n \<noteq> (?r + vb_fill b) mod ?n"
    proof
      assume "(?r + Suc (vb_fill b) + i) mod ?n = (?r + vb_fill b) mod ?n"
      then have "(?r + vb_fill b + Suc i) mod ?n = (?r + vb_fill b + 0) mod ?n" by simp
      moreover have "Suc i < ?n" "0 < ?n" using i(1) by linarith+
      ultimately show False using mod_add_inj by blast
    qed
    then have "y = ?xs ! ((?r + vb_fill b + Suc i) mod ?n)" using i(2) w by (simp add: nth_list_update)
    with i(1) show "y \<in> set (off_ring b)"
      unfolding off_ring_def by (auto simp: in_set_conv_nth nth_ring T(2) intro!: exI [of _ "Suc i"])
  qed
qed

lemma ring_pop:
  assumes ok: "indices_ok b" and some: "0 < vb_fill b"
    and b': "mWriteIndex b' = mWriteIndex b" "mNumPacketsTotal b' = mNumPacketsTotal b"
      "unat (mReadIndex b') = (unat (mReadIndex b) + 1) mod vb_size b"
      "mRing b' = Some ((the (mRing b))[unat (mReadIndex b) := d])"
  shows "indices_ok b'" "in_ring b = the (mRing b) ! unat (mReadIndex b) # in_ring b'"
    "set (off_ring b') \<subseteq> insert d (set (off_ring b))"
proof -
  let ?xs = "the (mRing b)" and ?r = "unat (mReadIndex b)" and ?n = "vb_size b"
  have T: "mRing b = Some ?xs" "length ?xs = ?n" "2 \<le> ?n" "?r < ?n" "vb_size b' = ?n" "vb_fill b < ?n"
    using ok b'(2) vb_fill_less [OF ok] by (auto simp: indices_ok_def vb_size_def)
  have fill: "vb_fill b = Suc (vb_fill b')" using fill_pop [OF ok some b'(1-3)] by simp
  have r': "unat (mReadIndex b') mod ?n = (?r + 1) mod ?n" using b'(3) by simp
  show "indices_ok b'" using ok T b' by (auto simp: indices_ok_def vb_size_def)
  have apart: "(?r + 1 + i) mod ?n \<noteq> ?r" if "Suc i < ?n" for i
    using mod_add_inj [of ?r "Suc i" ?n 0] that T(4) by (auto simp: add.assoc)
  show "in_ring b = ?xs ! ?r # in_ring b'"
  proof (rule nth_equalityI)
    show "length (in_ring b) = length (?xs ! ?r # in_ring b')" by (simp add: in_ring_def fill)
    fix i
    assume "i < length (in_ring b)"
    then have i: "i < vb_fill b" by (simp add: in_ring_def)
    have "(unat (mReadIndex b') + k) mod ?n = (?r + 1 + k) mod ?n" for k
      using r' by (metis mod_add_left_eq)
    moreover have "(?r + 1 + k) mod ?n \<noteq> ?r" if "Suc k = i" for k using apart [of k] that i T(6) by simp
    ultimately show "in_ring b ! i = (?xs ! ?r # in_ring b') ! i"
      using i T by (cases i) (auto simp: in_ring_def nth_ring b'(4) fill nth_list_update)
  qed
  show "set (off_ring b') \<subseteq> insert d (set (off_ring b))"
  proof
    fix y
    assume "y \<in> set (off_ring b')"
    then obtain i where i: "i < ?n - vb_fill b'"
        "y = ?xs[?r := d] ! ((unat (mReadIndex b') + vb_fill b' + i) mod ?n)"
      unfolding off_ring_def T(5) b'(4) option.sel by (auto simp: in_set_conv_nth nth_ring T(2))
    have "(unat (mReadIndex b') + (vb_fill b' + i)) mod ?n = (?r + 1 + (vb_fill b' + i)) mod ?n"
      using r' by (metis mod_add_left_eq)
    then have "(unat (mReadIndex b') + vb_fill b' + i) mod ?n = (?r + vb_fill b + i) mod ?n"
      using fill by (simp add: add.assoc)
    with i(2) have y: "y = ?xs[?r := d] ! ((?r + vb_fill b + i) mod ?n)" by simp
    show "y \<in> insert d (set (off_ring b))"
    proof (cases "(?r + vb_fill b + i) mod ?n = ?r")
      case True
      with y T show ?thesis by simp
    next
      case False
      have "i \<noteq> ?n - vb_fill b" using False T(4,6) by auto
      then have "i < ?n - vb_fill b" using i(1) fill by simp
      with y False show ?thesis by (auto simp: off_ring_def in_set_conv_nth nth_ring T(2) intro!: exI [of _ i])
    qed
  qed
qed

lemma ring_touch:
  assumes ok: "indices_ok b"
    and b': "mReadIndex b' = mReadIndex b" "mWriteIndex b' = mWriteIndex b" "mNumPacketsTotal b' = mNumPacketsTotal b"
      "mRing b' = Some ((the (mRing b))[unat (mWriteIndex b) := d])"
  shows "indices_ok b'" "in_ring b' = in_ring b" "set (off_ring b') \<subseteq> insert d (set (off_ring b))"
proof -
  let ?xs = "the (mRing b)" and ?r = "unat (mReadIndex b)" and ?w = "unat (mWriteIndex b)" and ?n = "vb_size b"
  have T: "mRing b = Some ?xs" "length ?xs = ?n" "?r < ?n" "?w < ?n" "vb_size b' = ?n" "vb_fill b' = vb_fill b"
    using ok b' by (auto simp: indices_ok_def vb_size_def vb_fill_def)
  have w: "?w = (?r + vb_fill b) mod ?n" and less: "vb_fill b < ?n"
    by (rule write_index_eq [OF ok], rule vb_fill_less [OF ok])
  show "indices_ok b'" using ok T b' by (auto simp: indices_ok_def vb_size_def)
  have "?w \<noteq> (?r + i) mod ?n" if "i < vb_fill b" for i
    using mod_add_inj [of ?r i ?n "vb_fill b"] that less w by auto
  then show "in_ring b' = in_ring b"
    unfolding in_ring_def T(6) b'(1,4) option.sel by (intro nth_equalityI) (simp_all add: nth_ring T(2) nth_list_update_neq)
  show "set (off_ring b') \<subseteq> insert d (set (off_ring b))"
  proof
    fix y
    assume "y \<in> set (off_ring b')"
    then obtain i where i: "i < ?n - vb_fill b" "y = ?xs[?w := d] ! ((?r + vb_fill b + i) mod ?n)"
      unfolding off_ring_def T(5,6) b'(1,4) option.sel by (auto simp: in_set_conv_nth nth_ring T(2))
    then show "y \<in> insert d (set (off_ring b))"
      using T(2,4)
      by (cases "(?r + vb_fill b + i) mod ?n = ?w")
        (auto simp: off_ring_def in_set_conv_nth nth_ring nth_list_update intro!: exI [of _ i])
  qed
qed

lemma ring_whole:
  assumes "indices_ok b"
  shows "mset (in_ring b @ off_ring b) = mset (the (mRing b))"
proof -
  have "in_ring b @ off_ring b = rotate (unat (mReadIndex b)) (the (mRing b))"
    using assms vb_fill_less [OF assms]
    by (intro nth_equalityI)
      (auto simp: indices_ok_def in_ring_def off_ring_def nth_append nth_ring nth_rotate add.assoc)
  moreover have "mset (rotate k xs) = mset xs" for k and xs :: "'x list"
    unfolding rotate_drop_take mset_append
    by (metis append_take_drop_id mset_append union_commute)
  ultimately show ?thesis by simp
qed

section \<open>Slots of the pool\<close>

definition shape :: "IasAvbPacket \<Rightarrow> u64 \<times> nat \<times> u32" where
  "shape pk = (vaddr pk, mPayloadOffset pk, len pk)"

definition shapes :: "IasAvbPacketPool \<Rightarrow> pkt_ref \<Rightarrow> (u64 \<times> nat \<times> u32) option" where
  "shapes pool r = map_option shape (deref pool r)"

definition spot :: "IasAvbPacketPool \<Rightarrow> pkt_ref \<Rightarrow> (u64 \<times> nat) option" where
  "spot pool r = map_option (\<lambda>pk. (vaddr pk, mPayloadOffset pk)) (deref pool r)"

lemma spot_shapes: "spot pool r = map_option (\<lambda>(v, k, m). (v, k)) (shapes pool r)"
  by (cases "deref pool r") (simp_all add: spot_def shapes_def shape_def)

text \<open>Every packet has room for \<open>n\<close> bytes of payload, apart from those of the other packets.\<close>

definition slots_ok :: "nat \<Rightarrow> IasAvbPacketPool \<Rightarrow> bool" where
  "slots_ok n pool \<longleftrightarrow> mPacketSize pool < 2 ^ 31 \<and>
     (\<forall>r v k. spot pool r = Some (v, k) \<longrightarrow> k + n \<le> mPacketSize pool) \<and>
     (\<forall>r v k r' v' k' i j. spot pool r = Some (v, k) \<longrightarrow> spot pool r' = Some (v', k') \<longrightarrow>
        i < n \<longrightarrow> j < n \<longrightarrow> v + of_nat k + of_nat i = v' + of_nat k' + of_nat j \<longrightarrow> r = r')"

definition payload :: "dma_memory \<Rightarrow> IasAvbPacketPool \<Rightarrow> pkt_ref \<Rightarrow> u8 list option" where
  "payload mem pool r =
     map_option (\<lambda>pk. load_packet mem (getPayloadPointer pk) (unat (len pk) - mPayloadOffset pk)) (deref pool r)"

lemma payload_shapes:
  "payload mem pool r = map_option (\<lambda>(v, k, m). load_packet mem (v + of_nat k) (unat m - k)) (shapes pool r)"
  by (cases "deref pool r") (simp_all add: payload_def shapes_def shape_def getPayloadPointer_def)

lemma deref_free [simp]: "deref (p\<lparr>mFreeBufferStack := x\<rparr>) r = deref p r"
  by (cases "mBase p") (simp_all add: deref_def)

lemma deref_update_packet:
  "update_packet f r p = Some p' \<Longrightarrow>
     deref p' r' = (if r' = r then map_option f (deref p r) else deref p r')"
  by (cases r; cases r') (auto simp: update_packet_def deref_def fetch_def split: option.splits if_splits)

lemma update_packet_size: "update_packet f r p = Some p' \<Longrightarrow> mPacketSize p' = mPacketSize p"
  by (auto simp: update_packet_def)

lemma shapes_update:
  assumes "update_packet f r p = Some p'" "\<And>pk. shape (f pk) = shape pk"
  shows "shapes p' r' = shapes p r'"
  using deref_update_packet [OF assms(1), of r'] assms(2)
  by (auto simp: shapes_def option.map_comp comp_def)

lemma getPacket_shapes:
  assumes "getPacket p = Some (x, p')"
  shows "shapes p' = shapes p \<and> mPacketSize p' = mPacketSize p"
proof (cases "mBase p \<noteq> None \<and> mFreeBufferStack p \<noteq> []")
  case True
  let ?q = "p\<lparr>mFreeBufferStack := butlast (mFreeBufferStack p)\<rparr>"
  from True assms have "update_packet (\<lambda>pk. pk\<lparr>flags := 0, dmatime := 0\<rparr>) (last (mFreeBufferStack p)) ?q = Some p'"
    by (auto simp: getPacket_def Let_def)
  from shapes_update [OF this] update_packet_size [OF this] show ?thesis
    by (auto simp: shape_def fun_eq_iff shapes_def)
next
  case False
  with assms show ?thesis by (auto simp: getPacket_def)
qed

lemma returnPacket_shapes:
  assumes "returnPacket (Some r) p = Some (x, p')"
  shows "shapes p' = shapes p \<and> mPacketSize p' = mPacketSize p"
proof -
  have "p' = p \<or> (\<exists>q. update_packet (\<lambda>pk. pk\<lparr>mDummyFlag := False\<rparr>) r p = Some q \<and>
      (p' = q \<or> p' = q\<lparr>mFreeBufferStack := mFreeBufferStack q @ [r]\<rparr>))"
    using assms by (auto simp: returnPacket_def doReturnPacket_def bind_eq_Some_conv split: if_splits)
  then show ?thesis
    using shapes_update [of "\<lambda>pk. pk\<lparr>mDummyFlag := False\<rparr>" r p] update_packet_size [of _ r p]
    by (auto simp: shape_def fun_eq_iff shapes_def)
qed

lemma slots_ok_cong: "spot p' = spot p \<Longrightarrow> mPacketSize p' = mPacketSize p \<Longrightarrow> slots_ok n p' = slots_ok n p"
  by (simp add: slots_ok_def)

lemma spot_cong: "shapes p' = shapes p \<Longrightarrow> spot p' = spot p"
  by (simp add: fun_eq_iff spot_shapes)

section \<open>The requests of the streams\<close>

text \<open>The local video stream writes frames and resets the ring, the AVB stream reads frames and returns the
  packets it holds, which the sequencer has sent, in any order.\<close>

datatype frame_request =
  WriteFrame u16 u32 "u8 list" | ReadFrame | ReturnFrame nat | ResetRing

type_synonym video_frame = "u16 \<times> u32 \<times> u8 list"

datatype frame_answer = Wrote nat | Frame "video_frame option" | Done

definition frame_desc :: "u16 \<Rightarrow> u32 \<Rightarrow> u8 list \<Rightarrow> IasVideoDesc" where
  "frame_desc sn ts bytes = video_desc
     \<lparr>rtpSequenceNumber := sn, rtpTimestamp := ts, buffer_data := Some bytes, buffer_size := of_nat (length bytes)\<rparr>"

primrec ring_request ::
  "frame_request \<Rightarrow> video_state \<times> pkt_ref list \<Rightarrow> (frame_answer \<times> video_state \<times> pkt_ref list) option" where
  "ring_request (WriteFrame sn ts bytes) c =
     do { (n, st) \<leftarrow> lvb_writeH264 (frame_desc sn ts bytes) (fst c); Some (Wrote (unat n), st, snd c) }"
| "ring_request ReadFrame c =
     do {
       let (b, pool, mem) = fst c;
       (d, b) \<leftarrow> lvb_read video_desc b;
       case avbPacket d of
         None \<Rightarrow> Some (Frame None, (b, pool, mem), snd c)
       | Some r \<Rightarrow> do {
           bytes \<leftarrow> payload mem pool r;
           Some (Frame (Some (rtpSequenceNumber d, rtpTimestamp d, bytes)), (b, pool, mem), snd c @ [r])
         }
     }"
| "ring_request (ReturnFrame i) c =
     (if i < length (snd c) then do {
        let (b, pool, mem) = fst c;
        (_, pool) \<leftarrow> returnPacket (Some (snd c ! i)) pool;
        Some (Done, (b, pool, mem), remove1 (snd c ! i) (snd c))
      }
      else Some (Done, c))"
| "ring_request ResetRing c =
     do {
       let (b, pool, mem) = fst c;
       (_, b, pool) \<leftarrow> lvb_reset (b, pool);
       Some (Done, (b, pool, mem), snd c)
     }"

primrec ring_requests ::
  "frame_request list \<Rightarrow> video_state \<times> pkt_ref list \<Rightarrow> (frame_answer list \<times> video_state \<times> pkt_ref list) option"
where
  "ring_requests [] c = Some ([], c)"
| "ring_requests (q # qs) c =
     do { (a, c) \<leftarrow> ring_request q c; (as, c) \<leftarrow> ring_requests qs c; Some (a # as, c) }"

text \<open>The specification: a queue of at most \<open>cap\<close> frames of at most \<open>m\<close> bytes, with a number of free packets and
  of packets that the AVB stream holds.\<close>

record frame_queue =
  queued :: "video_frame list"
  free_packets :: nat
  held_packets :: nat

primrec queue_request :: "nat \<Rightarrow> nat \<Rightarrow> frame_request \<Rightarrow> frame_queue \<Rightarrow> frame_answer \<times> frame_queue" where
  "queue_request cap m (WriteFrame sn ts bytes) q =
     (if bytes = [] \<or> m < length bytes \<or> length (queued q) = cap \<or> free_packets q = 0 then (Wrote 0, q)
      else (Wrote (length bytes),
            q\<lparr>queued := queued q @ [(sn, ts, bytes)], free_packets := free_packets q - 1\<rparr>))"
| "queue_request cap m ReadFrame q =
     (case queued q of
        [] \<Rightarrow> (Frame None, q)
      | x # xs \<Rightarrow> (Frame (Some x), q\<lparr>queued := xs, held_packets := held_packets q + 1\<rparr>))"
| "queue_request cap m (ReturnFrame i) q =
     (Done, if i < held_packets q
            then q\<lparr>held_packets := held_packets q - 1, free_packets := free_packets q + 1\<rparr> else q)"
| "queue_request cap m ResetRing q =
     (Done, q\<lparr>queued := [], free_packets := free_packets q + length (queued q)\<rparr>)"

primrec queue_requests ::
  "nat \<Rightarrow> nat \<Rightarrow> frame_request list \<Rightarrow> frame_queue \<Rightarrow> frame_answer list \<times> frame_queue" where
  "queue_requests cap m [] q = ([], q)"
| "queue_requests cap m (r # rs) q =
     (let (a, q) = queue_request cap m r q; (as, q) = queue_requests cap m rs q in (a # as, q))"

text \<open>The invariant of the ring, the pool and the packets held.\<close>

definition video_ok :: "IasLocalVideoBuffer \<Rightarrow> IasAvbPacketPool \<Rightarrow> pkt_ref list \<Rightarrow> bool" where
  "video_ok b pool held \<longleftrightarrow> indices_ok b \<and> mPool b \<and> \<not> mBuffer b \<and>
     (\<forall>d \<in> set (in_ring b). avbPacket d \<noteq> None) \<and> (\<forall>d \<in> set (off_ring b). avbPacket d = None) \<and>
     pool_ok pool (ring_refs b @ held) \<and> slots_ok (unat (mMaxPacketSize b)) pool \<and>
     (\<forall>r \<in> set (ring_refs b). \<forall>v k m. shapes pool r = Some (v, k, m) \<longrightarrow> unat m - k \<le> unat (mMaxPacketSize b))"

text \<open>The queue that a ring stands for.\<close>

definition frame_of :: "dma_memory \<Rightarrow> IasAvbPacketPool \<Rightarrow> IasVideoDesc \<Rightarrow> video_frame" where
  "frame_of mem pool d =
     (rtpSequenceNumber d, rtpTimestamp d, the (Option.bind (avbPacket d) (payload mem pool)))"

definition ring_queue :: "video_state \<times> pkt_ref list \<Rightarrow> frame_queue" where
  "ring_queue c = (case c of ((b, pool, mem), held) \<Rightarrow>
     \<lparr>queued = map (frame_of mem pool) (in_ring b), free_packets = length (mFreeBufferStack pool),
      held_packets = length held\<rparr>)"

section \<open>Writing a frame\<close>

lemma load_save: "length bytes < 2 ^ 64 \<Longrightarrow> load_packet (save_packet start bytes mem) start (length bytes) = bytes"
  by (intro nth_equalityI) (auto simp: load_packet_def save_packet_def Let_def unat_of_nat)

lemma payload_save:
  assumes slots: "slots_ok n pool" and r: "shapes pool r = Some (v, k, m)" and len: "length bytes \<le> n"
    and r': "r' \<noteq> r" "\<And>v' k' m'. shapes pool r' = Some (v', k', m') \<Longrightarrow> unat m' - k' \<le> n"
  shows "payload (save_packet (v + of_nat k) bytes mem) pool r' = payload mem pool r'"
proof (cases "shapes pool r'")
  case None
  then show ?thesis by (simp add: payload_shapes)
next
  case (Some s)
  obtain v' k' m' where s: "s = (v', k', m')" by (cases s) auto
  have "save_packet (v + of_nat k) bytes mem (v' + of_nat k' + of_nat j) = mem (v' + of_nat k' + of_nat j)"
    if j: "j < unat m' - k'" for j
  proof -
    let ?a = "v' + of_nat k' + of_nat j" and ?s = "v + of_nat k :: u64"
    have "\<not> unat (?a - ?s) < length bytes"
    proof
      assume "unat (?a - ?s) < length bytes"
      then have i: "unat (?a - ?s) < n" using len by simp
      have "?s + of_nat (unat (?a - ?s)) = ?a" by simp
      moreover have "j < n" using j r'(2) Some s by (meson less_le_trans)
      ultimately show False using slots r Some i r'(1) unfolding slots_ok_def s spot_shapes by fastforce
    qed
    then show ?thesis by (simp add: save_packet_def Let_def)
  qed
  then show ?thesis using Some s by (simp add: payload_shapes load_packet_def)
qed

lemma free_entry:
  assumes "video_ok b pool held"
  shows "avbPacket (the (mRing b) ! unat (mWriteIndex b)) = None"
proof -
  have ok: "indices_ok b" and none: "\<forall>d \<in> set (off_ring b). avbPacket d = None"
    using assms by (simp_all add: video_ok_def)
  have "the (mRing b) ! unat (mWriteIndex b) \<in> set (off_ring b)"
    using ok vb_fill_less [OF ok] write_index_eq [OF ok]
    by (auto simp: off_ring_def in_set_conv_nth nth_ring indices_ok_def intro!: exI [of _ 0])
  with none show ?thesis by blast
qed

lemma video_ok_touch:
  assumes ok: "video_ok b pool held"
    and b': "mReadIndex b' = mReadIndex b" "mWriteIndex b' = mWriteIndex b" "mNumPacketsTotal b' = mNumPacketsTotal b"
      "mMaxPacketSize b' = mMaxPacketSize b" "mPool b' = mPool b" "mBuffer b' = mBuffer b"
      "mRing b' = Some ((the (mRing b))[unat (mWriteIndex b) := d])" and d: "avbPacket d = None"
  shows "video_ok b' pool held \<and> in_ring b' = in_ring b"
proof -
  have "indices_ok b" using ok by (simp add: video_ok_def)
  from ring_touch [OF this b'(1-3,7)] show ?thesis
    using ok d unfolding video_ok_def ring_refs_def by (auto simp: b')
qed

lemma max_fill_simps [simp]:
  "vb_size (b\<lparr>mMaxFillLevel := x\<rparr>) = vb_size b" "vb_fill (b\<lparr>mMaxFillLevel := x\<rparr>) = vb_fill b"
  "in_ring (b\<lparr>mMaxFillLevel := x\<rparr>) = in_ring b" "off_ring (b\<lparr>mMaxFillLevel := x\<rparr>) = off_ring b"
  by (simp_all add: vb_size_def vb_fill_def in_ring_def off_ring_def)

lemma video_ok_max_fill [simp]: "video_ok (b\<lparr>mMaxFillLevel := x\<rparr>) pool held = video_ok b pool held"
  by (simp add: video_ok_def indices_ok_def ring_refs_def)

lemma frame_desc_simps [simp]:
  "rtpSequenceNumber (frame_desc sn ts bytes) = sn" "rtpTimestamp (frame_desc sn ts bytes) = ts"
  "buffer_data (frame_desc sn ts bytes) = Some bytes" "buffer_size (frame_desc sn ts bytes) = of_nat (length bytes)"
  "isIec61883Packet (frame_desc sn ts bytes) = False" "mptField (frame_desc sn ts bytes) = 0"
  "avbPacket (frame_desc sn ts bytes) = None"
  by (simp_all add: frame_desc_def video_desc_def)

lemma unusable_frame:
  assumes "length bytes < 2 ^ 32"
  shows "unusable (frame_desc sn ts bytes) b \<longleftrightarrow> bytes = [] \<or> unat (mMaxPacketSize b) < length bytes"
proof -
  have n: "unat (of_nat (length bytes) :: u32) = length bytes" using assms by (simp add: unat_of_nat)
  moreover have "unat (ucast (mMaxPacketSize b) :: u32) = unat (mMaxPacketSize b)"
    by (simp add: unat_ucast_up)
  moreover have "(of_nat (length bytes) :: u32) = 0 \<longleftrightarrow> bytes = []"
    using n by (metis length_0_conv unat_eq_zero)
  ultimately show ?thesis by (simp add: unusable_def word_less_nat_alt)
qed

lemma signed_of_nat_small: "n < 2 ^ 31 \<Longrightarrow> sint (of_nat n :: 32 word) = int n"
proof -
  assume n: "n < 2 ^ 31"
  have "sint (of_int (int n) :: 32 word) = int n"
    using n by (simp only: signed_of_int) (simp add: signed_take_bit_int_eq_self)
  then show ?thesis by simp
qed

lemma headroom_ok:
  assumes "mPacketSize pool < 2 ^ 31" "mPayloadOffset pk + n \<le> mPacketSize pool"
  shows "\<not> headroom pool pk (of_nat n) <s 0"
proof -
  let ?d = "mPacketSize pool - mPayloadOffset pk - n"
  have "headroom pool pk (of_nat n) = of_nat ?d" using assms(2) by (simp add: headroom_def of_nat_diff)
  moreover have "sint (of_nat ?d :: 32 word) = int ?d"
    using assms(1) signed_of_nat_small [of ?d] by simp
  ultimately show ?thesis by (simp add: word_sless_alt)
qed


lemma remaining_max_fill [simp]: "remaining_entries (b\<lparr>mMaxFillLevel := x\<rparr>) = remaining_entries b"
  by (simp add: remaining_entries_def lvb_getFillLevel_def Let_def)

definition noted_fill :: "IasLocalVideoBuffer \<Rightarrow> u16" where
  "noted_fill b =
     (if lvb_getFillLevel b > ucast (mMaxFillLevel b) then ucast (lvb_getFillLevel b) else mMaxFillLevel b)"

definition begun_frame :: "u8 list \<Rightarrow> IasLocalVideoBuffer \<Rightarrow> IasLocalVideoBuffer" where
  "begun_frame bytes b =
     b\<lparr>mMaxFillLevel := noted_fill b,
       mRing := map_option (\<lambda>xs. xs[unat (mWriteIndex b) := (xs ! unat (mWriteIndex b))
         \<lparr>buffer_data := Some bytes, buffer_size := of_nat (length bytes), isIec61883Packet := False, mptField := 0\<rparr>])
         (mRing b)\<rparr>"

text \<open>Writing a frame of a suitable size, with the entry that is written on the way.\<close>

lemma writeH264_usable:
  assumes "\<not> unusable (frame_desc sn ts bytes) b" "mPool b" "\<not> mBuffer b"
    and xs: "mRing b = Some xs" "unat (mWriteIndex b) < length xs"
  shows "lvb_writeH264 (frame_desc sn ts bytes) (b, pool, mem) =
    (if remaining_entries b = 0 then Some (0, b\<lparr>mMaxFillLevel := noted_fill b\<rparr>, pool, mem)
     else do {
       (avbPacket, pool) \<leftarrow> getPacket pool;
       case avbPacket of
         None \<Rightarrow> Some (0, begun_frame bytes b, pool, mem)
       | Some r \<Rightarrow> store_h264 (frame_desc sn ts bytes) r (begun_frame bytes b, pool, mem)
     })"
proof -
  have b: "(if lvb_getFillLevel b > ucast (mMaxFillLevel b) then b\<lparr>mMaxFillLevel := ucast (lvb_getFillLevel b)\<rparr> else b) =
      b\<lparr>mMaxFillLevel := noted_fill b\<rparr>"
    by (cases b) (simp add: noted_fill_def)
  have begun: "begun_frame bytes b =
      b\<lparr>mMaxFillLevel := noted_fill b, mRing := Some (xs[unat (mWriteIndex b) := (xs ! unat (mWriteIndex b))
        \<lparr>buffer_data := Some bytes, buffer_size := of_nat (length bytes), isIec61883Packet := False, mptField := 0\<rparr>])\<rparr>"
    using xs by (simp add: begun_frame_def)
  show ?thesis
    using assms unfolding lvb_writeH264_def prod.case Let_def b begun
    by (simp add: put_entry_def fetch_Some)
qed

lemma write_refused:
  assumes ok: "video_ok b pool held" and n: "length bytes < 2 ^ 32"
    and no: "bytes = [] \<or> unat (mMaxPacketSize b) < length bytes \<or> vb_fill b = vb_size b - 1 \<or>
      mFreeBufferStack pool = []"
  obtains b' where "lvb_writeH264 (frame_desc sn ts bytes) (b, pool, mem) = Some (0, b', pool, mem)"
    "video_ok b' pool held" "in_ring b' = in_ring b" "vb_size b' = vb_size b" "mMaxPacketSize b' = mMaxPacketSize b"
proof (cases "bytes = [] \<or> unat (mMaxPacketSize b) < length bytes")
  case True
  then have "unusable (frame_desc sn ts bytes) b" by (simp add: unusable_frame [OF n])
  with ok show ?thesis by (intro that [of b]) (simp_all add: lvb_writeH264_def)
next
  case False
  let ?b = "b\<lparr>mMaxFillLevel := noted_fill b\<rparr>"
  have usable: "\<not> unusable (frame_desc sn ts bytes) b" using False by (simp add: unusable_frame [OF n])
  have flags: "mPool b" "\<not> mBuffer b" "indices_ok b" using ok by (simp_all add: video_ok_def)
  obtain xs where xs: "mRing b = Some xs" "unat (mWriteIndex b) < length xs"
    using flags(3) by (auto simp: indices_ok_def)
  note eq = writeH264_usable [OF usable flags(1,2) xs, of pool mem]
  show ?thesis
  proof (cases "remaining_entries b = 0")
    case True
    with eq ok show ?thesis by (intro that [of ?b]) simp_all
  next
    case room: False
    then have "vb_fill b \<noteq> vb_size b - 1" using remaining_zero [OF flags(3)] by simp
    with no False have "mFreeBufferStack pool = []" by auto
    then have none: "getPacket pool = Some (None, pool)" by (simp add: getPacket_def)
    have "video_ok (begun_frame bytes b) pool held \<and> in_ring (begun_frame bytes b) = in_ring b"
      by (rule video_ok_touch [OF ok, where d = "(xs ! unat (mWriteIndex b))\<lparr>buffer_data := Some bytes,
            buffer_size := of_nat (length bytes), isIec61883Packet := False, mptField := 0\<rparr>"])
        (use xs free_entry [OF ok] in \<open>simp_all add: begun_frame_def\<close>)
    with eq room none show ?thesis
      by (intro that [of "begun_frame bytes b"]) (simp_all add: vb_size_def begun_frame_def)
  qed
qed


lemma advance_write_simps [simp]:
  "mReadIndex (advance_write b) = mReadIndex b" "mNumPacketsTotal (advance_write b) = mNumPacketsTotal b"
  "mMaxPacketSize (advance_write b) = mMaxPacketSize b" "mPool (advance_write b) = mPool b"
  "mBuffer (advance_write b) = mBuffer b" "mRing (advance_write b) = mRing b"
  "vb_size (advance_write b) = vb_size b"
  by (simp_all add: advance_write_def Let_def vb_size_def)

lemma advance_write_index:
  assumes "unat (mWriteIndex b) < vb_size b" "vb_size b < 2 ^ 16"
  shows "unat (mWriteIndex (advance_write b)) = (unat (mWriteIndex b) + 1) mod vb_size b"
  using next_index [OF assms vb_size_def [symmetric]] by (auto simp: advance_write_def Let_def)

lemma pool_ok_perm:
  assumes "mset xs = mset ys"
  shows "pool_ok p xs = pool_ok p ys"
proof -
  have "mset (mFreeBufferStack p @ xs) = mset (mFreeBufferStack p @ ys)" using assms by simp
  then have "distinct (mFreeBufferStack p @ xs) = distinct (mFreeBufferStack p @ ys)"
    "set (mFreeBufferStack p @ xs) = set (mFreeBufferStack p @ ys)"
    by (rule mset_eq_imp_distinct_iff, rule mset_eq_setD)
  then show ?thesis by (simp only: pool_ok_def)
qed

lemma write_accepted:
  assumes ok: "video_ok b pool held" and n: "length bytes < 2 ^ 32"
    and room: "bytes \<noteq> []" "length bytes \<le> unat (mMaxPacketSize b)" "vb_fill b < vb_size b - 1"
      "mFreeBufferStack pool \<noteq> []"
  obtains b' pool' mem' r d where
    "lvb_writeH264 (frame_desc sn ts bytes) (b, pool, mem) = Some (of_nat (length bytes), b', pool', mem')"
    "video_ok b' pool' held" "in_ring b' = in_ring b @ [d]" "vb_size b' = vb_size b"
    "mMaxPacketSize b' = mMaxPacketSize b" "length (mFreeBufferStack pool') = length (mFreeBufferStack pool) - 1"
    "map (frame_of mem' pool') (in_ring b') = map (frame_of mem pool) (in_ring b) @ [(sn, ts, bytes)]"
proof -
  let ?r = "last (mFreeBufferStack pool)" and ?n = "unat (mMaxPacketSize b)" and ?w = "unat (mWriteIndex b)"
  have flags: "mPool b" "\<not> mBuffer b" "indices_ok b" "pool_ok pool (ring_refs b @ held)" "slots_ok ?n pool"
    using ok by (simp_all add: video_ok_def)
  obtain xs where xs: "mRing b = Some xs" "?w < length xs" "length xs = vb_size b" "vb_size b < 2 ^ 16" "?w < vb_size b"
    using flags(3) by (auto simp: indices_ok_def)
  have usable: "\<not> unusable (frame_desc sn ts bytes) b" using room by (simp add: unusable_frame [OF n])
  have rem: "remaining_entries b \<noteq> 0" using room remaining_zero [OF flags(3)] by simp
  obtain p1 where p1: "getPacket pool = Some (Some ?r, p1)" "mFreeBufferStack p1 = butlast (mFreeBufferStack pool)"
    "pool_ok p1 (?r # ring_refs b @ held)"
    by (rule getPacket_Some [OF flags(4) room(4)])
  have same1: "shapes p1 = shapes pool" "mPacketSize p1 = mPacketSize pool"
    using getPacket_shapes [OF p1(1)] by simp_all
  obtain pk where pk: "deref p1 ?r = Some pk" by (rule pool_ok_deref [OF p1(3), of ?r]) auto
  then have sh: "shapes pool ?r = Some (vaddr pk, mPayloadOffset pk, len pk)"
    by (simp add: shapes_def shape_def flip: same1(1))
  let ?f = "\<lambda>pk. pk\<lparr>len := of_nat (mPayloadOffset pk) + of_nat (length bytes)\<rparr>"
  obtain p2 where p2: "update_packet ?f ?r p1 = Some p2" "pool_ok p2 (?r # ring_refs b @ held)"
    "mFreeBufferStack p2 = mFreeBufferStack p1" "same_pool p1 p2"
    by (rule pool_ok_update [OF p1(3), of ?r ?f]) auto
  have size: "mPayloadOffset pk + length bytes \<le> mPacketSize pool" "mPacketSize pool < 2 ^ 31"
    using flags(5) sh room(2) unfolding slots_ok_def spot_shapes by fastforce+
  have newlen: "unat (of_nat (mPayloadOffset pk) + of_nat (length bytes) :: u32) = mPayloadOffset pk + length bytes"
    using size by (simp add: unat_of_nat flip: of_nat_add)
  let ?d = "(xs ! ?w)\<lparr>isIec61883Packet := False, mptField := 0, avbPacket := Some ?r,
      rtpSequenceNumber := sn, rtpTimestamp := ts, buffer_size := 0, buffer_data := None\<rparr>"
  let ?b' = "advance_write (b\<lparr>mMaxFillLevel := noted_fill b, mRing := Some (xs[?w := ?d]), mRtpSequNrLast := sn\<rparr>)"
  let ?mem = "save_packet (getPayloadPointer pk) bytes mem"
  have "store_h264 (frame_desc sn ts bytes) ?r (begun_frame bytes b, p1, mem) = Some (of_nat (length bytes), ?b', p2, ?mem)"
    using pk p2(1) xs n headroom_ok [of p1 pk "length bytes"] size same1(2)
    by (simp add: store_h264_def begun_frame_def put_entry_def fetch_Some slice_Some unat_of_nat)
  with writeH264_usable [OF usable flags(1,2) xs(1,2), of pool mem] rem p1(1)
  have run: "lvb_writeH264 (frame_desc sn ts bytes) (b, pool, mem) = Some (of_nat (length bytes), ?b', p2, ?mem)"
    by simp
  have b': "mReadIndex ?b' = mReadIndex b" "mNumPacketsTotal ?b' = mNumPacketsTotal b"
    "unat (mWriteIndex ?b') = (?w + 1) mod vb_size b" "mRing ?b' = Some ((the (mRing b))[?w := ?d])"
    using xs advance_write_index [of "b\<lparr>mMaxFillLevel := noted_fill b, mRing := Some (xs[?w := ?d]), mRtpSequNrLast := sn\<rparr>"]
    by (simp_all add: vb_size_def)
  note push = ring_push [OF flags(3) room(3) b']
  have shapes2: "shapes p2 r = (if r = ?r then Some (vaddr pk, mPayloadOffset pk, of_nat (mPayloadOffset pk) + of_nat (length bytes))
      else shapes pool r)" for r
    using deref_update_packet [OF p2(1), of r] pk by (simp add: shapes_def shape_def flip: same1(1))
  have size2: "mPacketSize p2 = mPacketSize pool" using p2(4) same1(2) by (simp add: same_pool_def)
  have "spot p2 = spot pool" by (rule ext) (simp add: spot_shapes shapes2 sh)
  then have slots2: "slots_ok ?n p2" using flags(5) slots_ok_cong [OF _ size2] by blast
  have apart: "?r \<notin> set (ring_refs b)" using p1(3) by (simp add: pool_ok_def)
  have refs: "ring_refs ?b' = ring_refs b @ [?r]" unfolding ring_refs_def push(2) by simp
  have "mset (?r # ring_refs b @ held) = mset (ring_refs ?b' @ held)" by (simp add: refs)
  then have "pool_ok p2 (ring_refs ?b' @ held)" using p2(2) pool_ok_perm by blast
  moreover have "\<forall>r \<in> set (ring_refs ?b'). \<forall>v k m. shapes p2 r = Some (v, k, m) \<longrightarrow> unat m - k \<le> ?n"
    unfolding refs using ok room(2) by (simp add: video_ok_def shapes2 newlen)
  ultimately have ok': "video_ok ?b' p2 held"
    unfolding video_ok_def advance_write_simps push(2) using ok push(1,3) slots2
    by (simp add: video_ok_def) (meson in_mono)
  have frames: "map (frame_of ?mem p2) (in_ring b) = map (frame_of mem pool) (in_ring b)"
  proof (rule map_cong [OF refl])
    fix d'
    assume d': "d' \<in> set (in_ring b)"
    with ok obtain r' where r': "avbPacket d' = Some r'" by (auto simp: video_ok_def)
    with d' have in_refs: "r' \<in> set (ring_refs b)" by (auto simp: ring_refs_def intro!: rev_image_eqI [of d'])
    with apart have neq: "r' \<noteq> ?r" by blast
    then have "payload ?mem p2 r' = payload ?mem pool r'" by (simp only: payload_shapes shapes2 if_False)
    also have "\<dots> = payload mem pool r'"
      unfolding getPayloadPointer_def
      by (rule payload_save [OF flags(5) sh room(2) neq]) (use in_refs ok in \<open>simp add: video_ok_def\<close>)
    finally show "frame_of ?mem p2 d' = frame_of mem pool d'" by (simp add: frame_of_def r')
  qed
  have "payload ?mem p2 ?r = Some bytes"
    using load_save [of bytes "getPayloadPointer pk" mem] n
    by (simp add: payload_shapes shapes2 newlen getPayloadPointer_def)
  then have "frame_of ?mem p2 ?d = (sn, ts, bytes)" by (simp add: frame_of_def)
  with frames have "map (frame_of ?mem p2) (in_ring ?b') = map (frame_of mem pool) (in_ring b) @ [(sn, ts, bytes)]"
    unfolding push(2) by simp
  then show thesis
    using run ok' push(2) p1(2) p2(3) by (intro that [of ?b' p2 ?mem ?d]) (simp_all add: vb_size_def)
qed

section \<open>Reading, returning and resetting\<close>

lemma read_empty:
  assumes "video_ok b pool held" "vb_fill b = 0"
  shows "lvb_read video_desc b = Some (video_desc, b)"
proof -
  have "unat (lvb_getFillLevel b) = 0" using assms fill_level by (simp add: video_ok_def)
  then show ?thesis by (simp add: lvb_read_def unat_eq_zero)
qed

lemma read_frame:
  assumes ok: "video_ok b pool held" and some: "0 < vb_fill b"
  obtains d r b' where "lvb_read video_desc b = Some (d, b')" "in_ring b = d # in_ring b'" "avbPacket d = Some r"
    "video_ok b' pool (held @ [r])" "vb_size b' = vb_size b" "mMaxPacketSize b' = mMaxPacketSize b"
proof -
  let ?i = "unat (mReadIndex b)"
  have flags: "mPool b" "indices_ok b" "pool_ok pool (ring_refs b @ held)" using ok by (simp_all add: video_ok_def)
  obtain xs where xs: "mRing b = Some xs" "?i < length xs" "?i < vb_size b" "vb_size b < 2 ^ 16"
    using flags(2) by (auto simp: indices_ok_def)
  let ?d = "(xs ! ?i)\<lparr>avbPacket := None\<rparr>"
  let ?r = "if mReadIndex b + 1 = mNumPacketsTotal b then 0 else mReadIndex b + 1"
  let ?b' = "b\<lparr>mRing := Some (xs[?i := ?d]), mReadIndex := ?r\<rparr>"
  have "unat (lvb_getFillLevel b) \<noteq> 0" using some fill_level [OF flags(2)] by simp
  then have "lvb_getFillLevel b > 0" by (simp add: unat_eq_zero word_gt_0)
  then have run: "lvb_read video_desc b = Some (xs ! ?i, ?b')"
    using flags(1) xs by (simp add: lvb_read_def entry_def put_entry_def fetch_Some Let_def)
  have "unat ?r = (?i + 1) mod vb_size b" by (rule next_index [OF xs(3,4)]) (simp add: vb_size_def)
  then have b': "mWriteIndex ?b' = mWriteIndex b" "mNumPacketsTotal ?b' = mNumPacketsTotal b"
    "unat (mReadIndex ?b') = (?i + 1) mod vb_size b" "mRing ?b' = Some ((the (mRing b))[?i := ?d])"
    using xs(1) by simp_all
  note pop = ring_pop [OF flags(2) some b']
  have first: "in_ring b = xs ! ?i # in_ring ?b'" using pop(2) xs(1) by simp
  then obtain r where r: "avbPacket (xs ! ?i) = Some r" using ok by (fastforce simp: video_ok_def)
  have refs: "ring_refs b = r # ring_refs ?b'" unfolding ring_refs_def first using r by simp
  have "mset (ring_refs b @ held) = mset (ring_refs ?b' @ held @ [r])" unfolding refs by simp
  with flags(3) have pool: "pool_ok pool (ring_refs ?b' @ held @ [r])" using pool_ok_perm by blast
  have none: "avbPacket d = None" if "d \<in> set (off_ring ?b')" for d
    using pop(3) that ok by (auto simp: video_ok_def)
  have "video_ok ?b' pool (held @ [r])"
    using ok pop(1) pool none unfolding video_ok_def refs first by simp
  then show thesis by (rule that [OF run first r]) (simp_all add: vb_size_def)
qed

lemma payload_Some:
  assumes "pool_ok pool out" "r \<in> set out"
  shows "\<exists>bytes. payload mem pool r = Some bytes"
proof -
  obtain pk where "deref pool r = Some pk" by (rule pool_ok_deref [OF assms(1), of r]) (use assms(2) in auto)
  then show ?thesis by (simp add: payload_def)
qed

lemma return_frame:
  assumes ok: "video_ok b pool held" and r: "r \<in> set held"
  obtains pool' where "returnPacket (Some r) pool = Some (eIasAvbProcOK, pool')"
    "length (mFreeBufferStack pool') = Suc (length (mFreeBufferStack pool))" "video_ok b pool' (remove1 r held)"
    "shapes pool' = shapes pool"
proof -
  have flags: "pool_ok pool (ring_refs b @ held)" "slots_ok (unat (mMaxPacketSize b)) pool"
    using ok by (simp_all add: video_ok_def)
  obtain pool' where p: "returnPacket (Some r) pool = Some (eIasAvbProcOK, pool')"
    "mFreeBufferStack pool' = mFreeBufferStack pool @ [r]" "pool_ok pool' (remove1 r (ring_refs b @ held))"
    by (rule returnPacket_ok [OF flags(1), of r]) (use r in auto)
  have same: "shapes pool' = shapes pool" "mPacketSize pool' = mPacketSize pool"
    using returnPacket_shapes [OF p(1)] by simp_all
  have "r \<notin> set (ring_refs b)" using flags(1) r by (auto simp: pool_ok_def)
  then have "remove1 r (ring_refs b @ held) = ring_refs b @ remove1 r held" by (simp add: remove1_append)
  with p(3) have "pool_ok pool' (ring_refs b @ remove1 r held)" by simp
  moreover have "slots_ok (unat (mMaxPacketSize b)) pool'"
    using flags(2) slots_ok_cong [OF spot_cong [OF same(1)] same(2)] by blast
  ultimately have "video_ok b pool' (remove1 r held)" using ok by (simp add: video_ok_def same(1))
  with p(1,2) same(1) show thesis by (intro that [of pool']) simp_all
qed

text \<open>The packets that the entries of a list refer to, and the entry that a reset leaves.\<close>

definition entry_refs :: "IasVideoDesc list \<Rightarrow> pkt_ref list" where
  "entry_refs ds = List.map_filter avbPacket ds"

definition reset_entry :: "IasVideoDesc \<Rightarrow> IasVideoDesc" where
  "reset_entry d = (if avbPacket d = None then d else clear_entry d)"

lemma reset_entries_run:
  assumes "mRing b = Some xs" "length xs = i + n" "pool_ok pool (entry_refs (drop i xs) @ held)"
  shows "\<exists>pool'. reset_entries n i (b, pool) =
      Some (b\<lparr>mRing := Some (take i xs @ map reset_entry (drop i xs))\<rparr>, pool') \<and> pool_ok pool' held \<and>
    shapes pool' = shapes pool \<and> mPacketSize pool' = mPacketSize pool \<and>
    length (mFreeBufferStack pool') = length (mFreeBufferStack pool) + length (entry_refs (drop i xs))"
  using assms
proof (induction n arbitrary: i b xs pool)
  case 0
  then show ?case by (cases b) (simp add: entry_refs_def map_filter_simps)
next
  case (Suc n)
  have i: "i < length xs" using Suc.prems(2) by simp
  then have drop: "drop i xs = xs ! i # drop (Suc i) xs" by (simp add: Cons_nth_drop_Suc)
  show ?case
  proof (cases "avbPacket (xs ! i)")
    case None
    then have refs: "entry_refs (drop i xs) = entry_refs (drop (Suc i) xs)"
      by (simp add: drop entry_refs_def map_filter_simps)
    have eq: "take i xs @ map reset_entry (drop i xs) = take (Suc i) xs @ map reset_entry (drop (Suc i) xs)"
      using i None by (simp add: drop take_Suc_conv_app_nth reset_entry_def)
    have "reset_entries (Suc n) i (b, pool) = reset_entries n (Suc i) (b, pool)"
      using Suc.prems(1) i None by (simp add: entry_def fetch_Some)
    then show ?thesis using Suc.IH [of b xs "Suc i" pool] Suc.prems unfolding refs eq by simp
  next
    case (Some r)
    then have refs: "entry_refs (drop i xs) = r # entry_refs (drop (Suc i) xs)"
      by (simp add: drop entry_refs_def map_filter_simps)
    let ?xs = "xs[i := clear_entry (xs ! i)]" and ?b = "b\<lparr>mRing := Some (xs[i := clear_entry (xs ! i)])\<rparr>"
    obtain p where p: "returnPacket (Some r) pool = Some (eIasAvbProcOK, p)"
      "mFreeBufferStack p = mFreeBufferStack pool @ [r]" "pool_ok p (remove1 r (r # entry_refs (drop (Suc i) xs) @ held))"
      by (rule returnPacket_ok [of pool "r # entry_refs (drop (Suc i) xs) @ held" r])
        (use Suc.prems(3) refs in auto)
    have eq: "take i xs @ map reset_entry (drop i xs) = take (Suc i) ?xs @ map reset_entry (drop (Suc i) ?xs)"
      using i Some by (simp add: drop take_Suc_conv_app_nth reset_entry_def)
    have "reset_entries (Suc n) i (b, pool) = reset_entries n (Suc i) (?b, p)"
      using Suc.prems(1) i Some p(1) by (simp add: entry_def put_entry_def fetch_Some)
    moreover obtain pool' where "reset_entries n (Suc i) (?b, p) =
        Some (?b\<lparr>mRing := Some (take (Suc i) ?xs @ map reset_entry (drop (Suc i) ?xs))\<rparr>, pool')" "pool_ok pool' held"
      "shapes pool' = shapes p" "mPacketSize pool' = mPacketSize p"
      "length (mFreeBufferStack pool') = length (mFreeBufferStack p) + length (entry_refs (drop (Suc i) ?xs))"
      using Suc.IH [of ?b ?xs "Suc i" p] Suc.prems(2) p(3) by (auto simp: drop_update_cancel)
    ultimately show ?thesis
      unfolding refs eq using returnPacket_shapes [OF p(1)] p(2) by (simp add: drop_update_cancel)
  qed
qed

lemma entry_refs_mset: "mset ds = mset es \<Longrightarrow> mset (entry_refs ds) = mset (entry_refs es)"
  by (simp only: entry_refs_def List.map_filter_def mset_map mset_filter)

lemma entry_refs_ring:
  assumes "video_ok b pool held" "mRing b = Some xs"
  shows "mset (entry_refs xs) = mset (ring_refs b)"
proof -
  have "entry_refs (in_ring b @ off_ring b) = ring_refs b"
    using assms(1) by (auto simp: video_ok_def entry_refs_def List.map_filter_def ring_refs_def)
  moreover have "mset (in_ring b @ off_ring b) = mset xs"
    using ring_whole [of b] assms by (simp add: video_ok_def)
  ultimately show ?thesis by (metis entry_refs_mset)
qed

lemma reset_ring:
  assumes ok: "video_ok b pool held"
  obtains b' pool' where "lvb_reset (b, pool) = Some (eIasAvbProcOK, b', pool')" "in_ring b' = []"
    "video_ok b' pool' held" "vb_size b' = vb_size b" "mMaxPacketSize b' = mMaxPacketSize b"
    "length (mFreeBufferStack pool') = length (mFreeBufferStack pool) + vb_fill b"
proof -
  have flags: "indices_ok b" "pool_ok pool (ring_refs b @ held)" "slots_ok (unat (mMaxPacketSize b)) pool"
    using ok by (simp_all add: video_ok_def)
  obtain xs where xs: "mRing b = Some xs" "length xs = vb_size b" using flags(1) by (auto simp: indices_ok_def)
  note refs = entry_refs_ring [OF ok xs(1)]
  have "mset (ring_refs b @ held) = mset (entry_refs xs @ held)" using refs by simp
  then have "pool_ok pool (entry_refs xs @ held)" using flags(2) pool_ok_perm by blast
  then obtain pool' where p: "reset_entries (vb_size b) 0 (b, pool) = Some (b\<lparr>mRing := Some (map reset_entry xs)\<rparr>, pool')"
    "pool_ok pool' held" "shapes pool' = shapes pool" "mPacketSize pool' = mPacketSize pool"
    "length (mFreeBufferStack pool') = length (mFreeBufferStack pool) + length (entry_refs xs)"
    using reset_entries_run [of b xs 0 "vb_size b" pool held] xs by auto
  let ?b' = "b\<lparr>mRing := Some (map reset_entry xs), mReadIndex := 0, mWriteIndex := 0\<rparr>"
  have run: "lvb_reset (b, pool) = Some (eIasAvbProcOK, ?b', pool')"
    using p(1) xs(1) by (simp add: lvb_reset_def vb_size_def)
  have fill: "vb_fill ?b' = 0" "vb_size ?b' = vb_size b" by (simp_all add: vb_fill_def vb_size_def)
  have none: "avbPacket d = None" if "d \<in> set (off_ring ?b')" for d
    using that xs flags(1) unfolding off_ring_def fill
    by (auto simp: in_set_conv_nth nth_ring reset_entry_def clear_entry_def indices_ok_def)
  have "slots_ok (unat (mMaxPacketSize b)) pool'"
    using flags(3) slots_ok_cong [OF spot_cong [OF p(3)] p(4)] by blast
  moreover have empty: "in_ring ?b' = []" by (simp add: in_ring_def fill)
  moreover have "indices_ok ?b'" using flags(1) xs by (auto simp: indices_ok_def vb_size_def)
  ultimately have "video_ok ?b' pool' held"
    using ok none p(2) by (simp add: video_ok_def ring_refs_def)
  moreover have "length (entry_refs xs) = vb_fill b"
    using arg_cong [OF refs, of size] by (simp add: ring_refs_def in_ring_def)
  ultimately show thesis using run empty fill(2) p(5) by (intro that [of ?b' pool']) simp_all
qed

section \<open>The refinement\<close>

primrec sane :: "frame_request \<Rightarrow> bool" where
  "sane (WriteFrame sn ts bytes) = (length bytes < 2 ^ 32)"
| "sane ReadFrame = True"
| "sane (ReturnFrame i) = True"
| "sane ResetRing = True"

lemma request_refines:
  assumes ok: "video_ok b pool held" and q: "sane q"
  shows "\<exists>a b' pool' mem' held'.
    ring_request q ((b, pool, mem), held) = Some (a, (b', pool', mem'), held') \<and> video_ok b' pool' held' \<and>
    vb_size b' = vb_size b \<and> mMaxPacketSize b' = mMaxPacketSize b \<and>
    queue_request (vb_size b - 1) (unat (mMaxPacketSize b)) q (ring_queue ((b, pool, mem), held)) =
      (a, ring_queue ((b', pool', mem'), held'))"
proof (cases q)
  case (WriteFrame sn ts bytes)
  let ?m = "unat (mMaxPacketSize b)"
  have n: "length bytes < 2 ^ 32" using q WriteFrame by simp
  have less: "vb_fill b \<le> vb_size b - 1" using ok vb_fill_less [of b] by (simp add: video_ok_def)
  show ?thesis
  proof (cases "bytes = [] \<or> ?m < length bytes \<or> vb_fill b = vb_size b - 1 \<or> mFreeBufferStack pool = []")
    case True
    obtain b' where "lvb_writeH264 (frame_desc sn ts bytes) (b, pool, mem) = Some (0, b', pool, mem)"
      "video_ok b' pool held" "in_ring b' = in_ring b" "vb_size b' = vb_size b" "mMaxPacketSize b' = mMaxPacketSize b"
      by (rule write_refused [OF ok n True])
    moreover have "length (in_ring b) = vb_fill b" by (simp add: in_ring_def)
    ultimately show ?thesis using True by (auto simp: WriteFrame ring_queue_def)
  next
    case False
    then have room: "bytes \<noteq> []" "length bytes \<le> ?m" "vb_fill b < vb_size b - 1" "mFreeBufferStack pool \<noteq> []"
      using less by auto
    obtain b' pool' mem' r d where
      "lvb_writeH264 (frame_desc sn ts bytes) (b, pool, mem) = Some (of_nat (length bytes), b', pool', mem')"
      "video_ok b' pool' held" "vb_size b' = vb_size b"
      "mMaxPacketSize b' = mMaxPacketSize b" "length (mFreeBufferStack pool') = length (mFreeBufferStack pool) - 1"
      "map (frame_of mem' pool') (in_ring b') = map (frame_of mem pool) (in_ring b) @ [(sn, ts, bytes)]"
      by (rule write_accepted [OF ok n room])
    moreover have "length (in_ring b) = vb_fill b" by (simp add: in_ring_def)
    ultimately show ?thesis using False n by (simp add: WriteFrame ring_queue_def unat_of_nat)
  qed
next
  case ReadFrame
  show ?thesis
  proof (cases "vb_fill b = 0")
    case True
    have "avbPacket video_desc = None" by (simp add: video_desc_def)
    with read_empty [OF ok True] True ok show ?thesis
      by (simp add: ReadFrame ring_queue_def in_ring_def)
  next
    case False
    then obtain d r b' where d: "lvb_read video_desc b = Some (d, b')" "in_ring b = d # in_ring b'"
      "avbPacket d = Some r" "video_ok b' pool (held @ [r])" "vb_size b' = vb_size b"
      "mMaxPacketSize b' = mMaxPacketSize b"
      by (auto intro: read_frame [OF ok])
    have "pool_ok pool (ring_refs b' @ held @ [r])" using d(4) by (simp add: video_ok_def)
    from payload_Some [OF this, of r mem] obtain bytes where "payload mem pool r = Some bytes" by auto
    with d show ?thesis by (simp add: ReadFrame ring_queue_def frame_of_def)
  qed
next
  case (ReturnFrame i)
  show ?thesis
  proof (cases "i < length held")
    case True
    obtain pool' where "returnPacket (Some (held ! i)) pool = Some (eIasAvbProcOK, pool')"
      "length (mFreeBufferStack pool') = Suc (length (mFreeBufferStack pool))"
      "video_ok b pool' (remove1 (held ! i) held)" "shapes pool' = shapes pool"
      by (rule return_frame [OF ok, of "held ! i"]) (use True in simp)
    moreover from this(4) have "payload mem pool' = payload mem pool" by (intro ext) (simp add: payload_shapes)
    then have "frame_of mem pool' = frame_of mem pool" by (intro ext) (simp add: frame_of_def)
    ultimately show ?thesis using True by (simp add: ReturnFrame ring_queue_def length_remove1)
  next
    case False
    with ok show ?thesis by (simp add: ReturnFrame ring_queue_def)
  qed
next
  case ResetRing
  obtain b' pool' where "lvb_reset (b, pool) = Some (eIasAvbProcOK, b', pool')" "in_ring b' = []"
    "video_ok b' pool' held" "vb_size b' = vb_size b" "mMaxPacketSize b' = mMaxPacketSize b"
    "length (mFreeBufferStack pool') = length (mFreeBufferStack pool) + vb_fill b"
    by (rule reset_ring [OF ok])
  moreover have "length (in_ring b) = vb_fill b" by (simp add: in_ring_def)
  ultimately show ?thesis by (simp add: ResetRing ring_queue_def)
qed

lemma video_ring_refines:
  assumes "video_ok b pool held" "\<forall>q \<in> set qs. sane q"
  shows "\<exists>as b' pool' mem' held'.
    ring_requests qs ((b, pool, mem), held) = Some (as, (b', pool', mem'), held') \<and> video_ok b' pool' held' \<and>
    queue_requests (vb_size b - 1) (unat (mMaxPacketSize b)) qs (ring_queue ((b, pool, mem), held)) =
      (as, ring_queue ((b', pool', mem'), held'))"
  using assms
proof (induction qs arbitrary: b pool mem held)
  case Nil
  then show ?case by simp
next
  case (Cons q qs)
  obtain a b1 pool1 mem1 held1 where s: "ring_request q ((b, pool, mem), held) = Some (a, (b1, pool1, mem1), held1)"
    "video_ok b1 pool1 held1" "vb_size b1 = vb_size b" "mMaxPacketSize b1 = mMaxPacketSize b"
    "queue_request (vb_size b - 1) (unat (mMaxPacketSize b)) q (ring_queue ((b, pool, mem), held)) =
      (a, ring_queue ((b1, pool1, mem1), held1))"
    using request_refines [OF Cons.prems(1), of q mem] Cons.prems(2) by auto
  obtain as b2 pool2 mem2 held2 where
    "ring_requests qs ((b1, pool1, mem1), held1) = Some (as, (b2, pool2, mem2), held2)" "video_ok b2 pool2 held2"
    "queue_requests (vb_size b - 1) (unat (mMaxPacketSize b)) qs (ring_queue ((b1, pool1, mem1), held1)) =
      (as, ring_queue ((b2, pool2, mem2), held2))"
    using Cons.IH [OF s(2), of mem1] Cons.prems(2) s(3,4) by auto
  with s(1,5) show ?case by simp
qed

lemma init_video_ok:
  assumes "1 < n" "0 < m" "pool_ok pool held" "slots_ok (unat m) pool"
  shows "\<exists>b. lvb_init True True n m False lvb_new = (eIasAvbProcOK, b) \<and>
    video_ok (lvb_setAvbPacketPool True b) pool held \<and> vb_size b = unat n \<and> mMaxPacketSize b = m \<and>
    in_ring (lvb_setAvbPacketPool True b) = []"
proof -
  have n: "unat (ucast n :: u32) = unat n" by (simp add: unat_ucast_up)
  have two: "2 \<le> unat n" using assms(1) by (simp add: word_less_nat_alt)
  have small: "unat n < 2 ^ 16" using unsigned_less [of n] by simp
  show ?thesis
    using assms n two small
    by (auto simp: lvb_init_def lvb_new_def Let_def lvb_setAvbPacketPool_def video_ok_def indices_ok_def vb_size_def
        in_ring_def off_ring_def vb_fill_def ring_refs_def video_desc_def in_set_conv_nth nth_ring not_le)
qed


definition example_packet :: "u64 \<Rightarrow> IasAvbPacket" where
  "example_packet v = packet_new\<lparr>mHome := Some 1, mPayloadOffset := 42, vaddr := v\<rparr>"

definition example_pool :: IasAvbPacketPool where
  "example_pool =
     \<lparr>mThis = 1, mPacketSize = 1536, mPoolSize = 2, mFreeBufferStack = [(0, 0), (0, 1)],
      mBase = Some [example_packet 4096, example_packet 8192], mBaseId = 0, mDmaPages = []\<rparr>"

lemma example_pool_ok: "pool_ok example_pool []"
  by (auto simp: pool_ok_def example_pool_def example_packet_def packet_new_def isValid_def)

lemma example_slots: "slots_ok 100 example_pool"
proof -
  have spot: "spot example_pool r =
      (if r = (0, 0) then Some (4096, 42) else if r = (0, 1) then Some (8192, 42) else None)" for r
    by (cases r) (auto simp: spot_def example_pool_def example_packet_def deref_def fetch_def less_Suc_eq)
  have "(4096 + of_nat 42 + of_nat i :: u64) \<noteq> 8192 + of_nat 42 + of_nat j" if "i < 100" "j < 100" for i j
  proof
    assume "(4096 + of_nat 42 + of_nat i :: u64) = 8192 + of_nat 42 + of_nat j"
    then have "of_nat (4096 + 42 + i) = (of_nat (8192 + 42 + j) :: u64)" by simp
    from arg_cong [OF this, of unat] have "(4096 + 42 + i) mod 2 ^ 64 = (8192 + 42 + j) mod 2 ^ 64"
      by (simp only: unat_of_nat) simp
    with that show False by simp
  qed
  then show ?thesis
    unfolding slots_ok_def spot by (auto split: if_splits simp: example_pool_def) (metis of_nat_numeral)+
qed


end
