(* ===== verification/Alsa_Stream.thy ===== *)
theory Alsa_Stream
  imports Local_Audio_Stream
begin

text \<open>
  \<^verbatim>\<open>IasAlsaVirtualDeviceStream\<close> (\<^verbatim>\<open>IasAlsaVirtualDeviceStream.hpp/.cpp\<close>): a local audio stream whose other
  side is a virtual ALSA device. The record extends \<open>IasLocalAudioStream\<close>; the client is called as there,
  with \<^verbatim>\<open>resetBuffers\<close> of this class as \<open>c_resetBuffers\<close>. The object behind \<^verbatim>\<open>mShm\<close>, which passes samples to
  the ALSA plug-in of another repository, is modelled by the name of its device, the answer of its \<^verbatim>\<open>init\<close>
  and a function for its \<^verbatim>\<open>copyJob\<close>. The result \<open>None\<close> is undefined behaviour or a violated assertion.
\<close>

datatype IasAlsaDeviceTypes = eIasAlsaVirtualDevice | eIasAlsaHwDevice | eIasAlsaHwDeviceAsync

record IasAlsaVirtualDeviceStream = IasLocalAudioStream +
  mShm :: "string option"
  mOptimalFillLevel :: u32
  mPeriodSize :: u32
  mNumAlsaPeriods :: u32
  mCycle :: u32
  mCycleCount :: u32
  mAlsaDeviceType :: IasAlsaDeviceTypes

record alsa_env =
  al_local :: local_env
  al_newShm :: bool
  al_initShm :: IasAvbProcessingResult

definition alsa_new :: "IasAvbStreamDirection \<Rightarrow> u16 \<Rightarrow> IasAlsaVirtualDeviceStream" where
  "alsa_new direction streamId =
     IasLocalAudioStream.extend (local_stream_new direction eIasAlsaStream streamId)
       (IasAlsaVirtualDeviceStream.fields None 0 0 0 1 1 eIasAlsaVirtualDevice)"

section \<open>Set-up\<close>

text \<open>The base class is not cleaned up.\<close>

definition alsa_cleanup :: "IasAlsaVirtualDeviceStream \<Rightarrow> IasAlsaVirtualDeviceStream" where
  "alsa_cleanup s = s\<lparr>mShm := None, mSampleFrequency := 0, mPeriodSize := 0, mOptimalFillLevel := 0\<rparr>"

definition device_suffix :: "IasAvbStreamDirection \<Rightarrow> string" where
  "device_suffix direction = (if direction = eIasAvbTransmitToNetwork then ''_p'' else ''_c'')"

definition alsa_init_shm ::
  "alsa_env \<Rightarrow> u32 \<Rightarrow> string \<Rightarrow> IasAlsaVirtualDeviceStream \<Rightarrow> IasAvbProcessingResult \<times> IasAlsaVirtualDeviceStream"
where
  "alsa_init_shm env numAlsaPeriods deviceName s =
     (if \<not> al_newShm env then (eIasAvbProcNotEnoughMemory, s\<lparr>mShm := None\<rparr>)
      else (al_initShm env,
            s\<lparr>mShm := Some (''avb_'' @ deviceName @ device_suffix (mDirection s)), mNumAlsaPeriods := numAlsaPeriods\<rparr>))"

definition alsa_init_body ::
  "alsa_env \<Rightarrow> u16 \<Rightarrow> u32 \<Rightarrow> u32 \<Rightarrow> u32 \<Rightarrow> u32 \<Rightarrow> u32 \<Rightarrow> IasAvbAudioFormat \<Rightarrow> u8 \<Rightarrow> bool \<Rightarrow> string \<Rightarrow> IasAlsaDeviceTypes \<Rightarrow>
     IasAlsaVirtualDeviceStream \<Rightarrow> (IasAvbProcessingResult \<times> IasAlsaVirtualDeviceStream) option" where
  "alsa_init_body env numChannels totalLocalBufferSize optimalFillLevel alsaPeriodSize numAlsaPeriods
     alsaSampleFrequency format channelLayout hasSideChannel deviceName alsaDeviceType s =
     (if alsaDeviceType \<noteq> eIasAlsaVirtualDevice \<or> alsaPeriodSize = 0 \<or> numAlsaPeriods = 0 \<or> deviceName = []
      then Some (eIasAvbProcInvalidParam, s)
      else if format \<noteq> eIasAvbAudioFormatSaf16 then Some (eIasAvbProcUnsupportedFormat, s)
      else do {
        (ret, s) \<leftarrow> local_init (al_local env) channelLayout numChannels hasSideChannel totalLocalBufferSize
          alsaSampleFrequency alsaPeriodSize s;
        Some (if ret = eIasAvbProcOK
              then alsa_init_shm env numAlsaPeriods deviceName
                     (s\<lparr>mOptimalFillLevel := optimalFillLevel, mAlsaDeviceType := alsaDeviceType\<rparr>)
              else (ret, s))
      })"

definition alsa_init ::
  "alsa_env \<Rightarrow> u16 \<Rightarrow> u32 \<Rightarrow> u32 \<Rightarrow> u32 \<Rightarrow> u32 \<Rightarrow> u32 \<Rightarrow> IasAvbAudioFormat \<Rightarrow> u8 \<Rightarrow> bool \<Rightarrow> string \<Rightarrow> IasAlsaDeviceTypes \<Rightarrow>
     IasAlsaVirtualDeviceStream \<Rightarrow> (IasAvbProcessingResult \<times> IasAlsaVirtualDeviceStream) option" where
  "alsa_init env numChannels totalLocalBufferSize optimalFillLevel alsaPeriodSize numAlsaPeriods
     alsaSampleFrequency format channelLayout hasSideChannel deviceName alsaDeviceType s =
     do {
       (ret, s) \<leftarrow> alsa_init_body env numChannels totalLocalBufferSize optimalFillLevel alsaPeriodSize numAlsaPeriods
         alsaSampleFrequency format channelLayout hasSideChannel deviceName alsaDeviceType s;
       Some (ret, if ret = eIasAvbProcOK then s\<lparr>mPeriodSize := alsaPeriodSize\<rparr> else alsa_cleanup s)
     }"

section \<open>Service\<close>

type_synonym 'c alsa_client = "('c, IasAlsaVirtualDeviceStream) stream_client"

text \<open>\<^verbatim>\<open>resetBuffers\<close>: the channels from \<open>i\<close> on, \<open>n\<close> of them.\<close>

primrec alsa_reset_channels ::
  "nat \<Rightarrow> nat \<Rightarrow> 'c alsa_client \<Rightarrow> 'c \<times> IasAlsaVirtualDeviceStream \<Rightarrow> ('c \<times> IasAlsaVirtualDeviceStream) option" where
  "alsa_reset_channels 0 i client cs = Some cs"
| "alsa_reset_channels (Suc n) i client cs =
     do {
       let s = snd cs;
       b \<leftarrow> fetch (mChannelBuffers s) i;
       cs \<leftarrow> (if hasBufferDesc s then
               if mOptimalFillLevel s < getFillLevel b then do {
                 let bufferSize = getFillLevel b - mOptimalFillLevel s;
                 (_, _, _, _, cs) \<leftarrow> readLocalAudioBuffer client (of_nat i) (Some (replicate (unat bufferSize) 0))
                   bufferSize 0 0 cs;
                 Some cs
               }
               else Some cs
             else map_option (\<lambda>(_, s). (fst cs, s)) (on_ring i (lab_reset (mOptimalFillLevel s)) s));
       alsa_reset_channels n (Suc i) client cs
     }"

definition alsa_resetBuffers ::
  "'c alsa_client \<Rightarrow> 'c \<times> IasAlsaVirtualDeviceStream \<Rightarrow> (IasAvbProcessingResult \<times> 'c \<times> IasAlsaVirtualDeviceStream) option"
where
  "alsa_resetBuffers client cs =
     (if hasBufferDesc (snd cs) \<and> mBufferDescQ (snd cs) = None then None
      else map_option (Pair eIasAvbProcOK) (alsa_reset_channels (unat (mNumChannels (snd cs))) 0 client cs))"

text \<open>\<open>update\<close> is \<^verbatim>\<open>updateRelativeFillLevel\<close> of the client.\<close>

definition alsa_updateBufferStatus ::
  "(int \<Rightarrow> 'c \<times> IasAlsaVirtualDeviceStream \<Rightarrow> ('c \<times> IasAlsaVirtualDeviceStream) option) \<Rightarrow> 'c alsa_client \<Rightarrow>
     'c \<times> IasAlsaVirtualDeviceStream \<Rightarrow> ('c \<times> IasAlsaVirtualDeviceStream) option" where
  "alsa_updateBufferStatus update client cs =
     (if \<not> mClient (snd cs) then Some cs
      else do {
        b \<leftarrow> fetch (mChannelBuffers (snd cs)) 0;
        cs \<leftarrow> update (getRelativeFillLevel b) cs;
        b \<leftarrow> fetch (mChannelBuffers (snd cs)) 0;
        if mClientState (snd cs) \<noteq> eIasActive then Some cs
        else if getFillLevel b = mTotalSize b then signal_reset client eIasOverrun 0 cs
        else if getFillLevel b = 0 then signal_reset client eIasUnderrun 0 cs
        else Some cs
      })"

definition setCycle :: "u32 \<Rightarrow> IasAlsaVirtualDeviceStream \<Rightarrow> IasAlsaVirtualDeviceStream" where
  "setCycle cycle s = s\<lparr>mCycle := cycle\<rparr>"

definition nextCycle :: "u32 \<Rightarrow> IasAlsaVirtualDeviceStream \<Rightarrow> bool option" where
  "nextCycle cycle s = (if mCycle s = 0 then None else Some (cycle mod mCycle s = 0))"

text \<open>\<open>copy\<close> is \<^verbatim>\<open>copyJob\<close> of the object behind \<^verbatim>\<open>mShm\<close>: the number of samples, whether the stream is not
  connected, and the time.\<close>

definition alsa_copyJob ::
  "(u32 \<Rightarrow> bool \<Rightarrow> u64 \<Rightarrow> IasLocalAudioBuffer list \<times> IasLocalAudioBufferDesc option \<Rightarrow>
      (IasLocalAudioBuffer list \<times> IasLocalAudioBufferDesc option) option) \<Rightarrow> u64 \<Rightarrow> IasAlsaVirtualDeviceStream \<Rightarrow>
     IasAlsaVirtualDeviceStream option" where
  "alsa_copyJob copy timestamp s =
     (if mShm s = None \<or> mCycle s = 0 then Some s
      else map_option (\<lambda>(bs, q). s\<lparr>mChannelBuffers := bs, mBufferDescQ := q\<rparr>)
             (copy (mPeriodSize s div mCycle s) (mClientState s = eIasNotConnected) timestamp
                (mChannelBuffers s, mBufferDescQ s)))"

end
