(* ===== verification/Alsa_Worker.thy ===== *)
theory Alsa_Worker
  imports Alsa_Stream
begin

text \<open>
  \<^verbatim>\<open>IasAlsaWorkerThread\<close> (\<^verbatim>\<open>IasAlsaWorkerThread.hpp/.cpp\<close>): it services the ALSA streams of one clock domain
  whose period times are multiples of its own, and adjusts its sleep interval so that the samples it has
  passed on keep up with the events of the clock domain. A stream pointer is a number and the streams
  themselves are a heap; a worker function that changes streams works on the heap. \<open>worker_env\<close> holds the
  answers from outside. The functions of a stream that service it are \<open>wk_serve\<close>. Values that are only logged
  are left out. The result \<open>None\<close> is undefined behaviour or a violated assertion, which includes an overflow
  of a signed integer.
\<close>

definition cAlsaClockTimeout :: string where "cAlsaClockTimeout = ''alsa.clock.timeout''"
definition cAlsaClockCycle :: string where "cAlsaClockCycle = ''alsa.clock.cycle''"
definition cAlsaClockGain :: string where "cAlsaClockGain = ''alsa.clock.gain''"
definition cAlsaClockUnlock :: string where "cAlsaClockUnlock = ''alsa.clock.unlock''"
definition cAlsaClockResetThresh :: string where "cAlsaClockResetThresh = ''alsa.clock.threshold.reset''"

section \<open>Streams\<close>

text \<open>Of the class for hardware devices the engine uses what it shares with the other one.\<close>

record IasAlsaHwDeviceHandler = IasLocalAudioStream +
  hw_name :: string
  hw_mPeriodSize :: u32
  hw_started :: bool

datatype alsa_object = Virtual_Device IasAlsaVirtualDeviceStream | Hw_Device IasAlsaHwDeviceHandler

text \<open>The functions of \<^verbatim>\<open>IasAlsaStreamInterface\<close>.\<close>

primrec ao_local :: "alsa_object \<Rightarrow> IasLocalAudioStream" where
  "ao_local (Virtual_Device s) = IasLocalAudioStream.truncate s"
| "ao_local (Hw_Device s) = IasLocalAudioStream.truncate s"

primrec ao_put_local :: "IasLocalAudioStream \<Rightarrow> alsa_object \<Rightarrow> alsa_object" where
  "ao_put_local l (Virtual_Device s) = Virtual_Device (IasLocalAudioStream.extend l (IasLocalAudioStream.more s))"
| "ao_put_local l (Hw_Device s) = Hw_Device (IasLocalAudioStream.extend l (IasLocalAudioStream.more s))"

primrec getPeriodSize :: "alsa_object \<Rightarrow> u32" where
  "getPeriodSize (Virtual_Device s) = mPeriodSize s"
| "getPeriodSize (Hw_Device s) = hw_mPeriodSize s"

definition getSampleFrequency :: "alsa_object \<Rightarrow> u32" where
  "getSampleFrequency x = mSampleFrequency (ao_local x)"

definition getStreamId :: "alsa_object \<Rightarrow> u16" where
  "getStreamId x = mStreamId (ao_local x)"

definition ao_isConnected :: "alsa_object \<Rightarrow> bool" where
  "ao_isConnected x \<longleftrightarrow> mClientState (ao_local x) \<noteq> eIasNotConnected"

primrec getDeviceName :: "alsa_object \<Rightarrow> string option" where
  "getDeviceName (Virtual_Device s) = mShm s"
| "getDeviceName (Hw_Device s) = Some (hw_name s)"

primrec ao_setCycle :: "u32 \<Rightarrow> alsa_object \<Rightarrow> alsa_object" where
  "ao_setCycle cycle (Virtual_Device s) = Virtual_Device (setCycle cycle s)"
| "ao_setCycle cycle (Hw_Device s) = Hw_Device s"

definition ao_setWorkerActive :: "bool \<Rightarrow> alsa_object \<Rightarrow> alsa_object option" where
  "ao_setWorkerActive active x = map_option (\<lambda>l. ao_put_local l x) (local_setWorkerActive active (ao_local x))"

definition count_deviation :: "alsa_object \<Rightarrow> alsa_object" where
  "count_deviation x =
     (let l = ao_local x; d = IasLocalAudioStream.mDiag l
      in ao_put_local (l\<lparr>IasLocalAudioStream.mDiag := d\<lparr>deviationOutOfBounds := deviationOutOfBounds d + 1\<rparr>\<rparr>) x)"

section \<open>State\<close>

type_synonym alsa_heap = "nat \<Rightarrow> alsa_object"

record IasAlsaWorkerThread =
  aw_mKeepRunning :: bool
  aw_mThread :: "bool option"
  aw_mClockDomain :: "nat option"
  aw_mWatchdog :: "bool option"
  mAlsaStreams :: "nat list"
  mAlsaPeriodSize :: u32
  aw_mSampleFrequency :: u32
  mServiceCycle :: u32

record worker_env =
  wk_registry :: "registry option"
  wk_newThread :: bool
  wk_watchdogEnabled :: bool
  wk_newWatchdog :: bool
  wk_threadStart :: bool
  wk_threadStop :: bool
  wk_serve :: "u64 \<Rightarrow> alsa_object \<Rightarrow> alsa_object option"

text \<open>\<^verbatim>\<open>mThread\<close> and \<^verbatim>\<open>mWatchdog\<close> are \<open>None\<close> for NULL; else whether the thread runs and the watchdog is
  registered.\<close>

definition worker_new :: IasAlsaWorkerThread where
  "worker_new =
     \<lparr>aw_mKeepRunning = False, aw_mThread = None, aw_mClockDomain = None, aw_mWatchdog = None, mAlsaStreams = [],
      mAlsaPeriodSize = 0, aw_mSampleFrequency = 0, mServiceCycle = 0\<rparr>"

text \<open>\<^verbatim>\<open>setWorkerActive\<close> of the streams on a list.\<close>

primrec set_workers_active :: "bool \<Rightarrow> nat list \<Rightarrow> alsa_heap \<Rightarrow> alsa_heap option" where
  "set_workers_active active [] h = Some h"
| "set_workers_active active (p # ps) h =
     Option.bind (ao_setWorkerActive active (h p)) (\<lambda>x. set_workers_active active ps (h(p := x)))"

section \<open>Streams of a worker\<close>

definition fitting_period :: "u32 \<Rightarrow> u32 \<Rightarrow> u32 \<Rightarrow> u32 \<Rightarrow> bool" where
  "fitting_period alsaPeriodSize sampleFrequency periodBase frequencyBase \<longleftrightarrow>
     (let p = (ucast alsaPeriodSize * ucast frequencyBase :: u64);
          q = (ucast periodBase * ucast sampleFrequency :: u64)
      in q \<noteq> 0 \<and> p div q \<ge> 1 \<and> p mod q = 0)"

definition checkParameter :: "nat option \<Rightarrow> u32 \<Rightarrow> u32 \<Rightarrow> IasAlsaWorkerThread \<Rightarrow> bool" where
  "checkParameter clockDomain alsaPeriodSize sampleFrequency w \<longleftrightarrow>
     aw_mClockDomain w = clockDomain \<and>
     fitting_period alsaPeriodSize sampleFrequency (mAlsaPeriodSize w) (aw_mSampleFrequency w)"

type_synonym worker_state = "IasAlsaWorkerThread \<times> alsa_heap"

definition addAlsaStream :: "nat option \<Rightarrow> worker_state \<Rightarrow> (IasAvbProcessingResult \<times> worker_state) option" where
  "addAlsaStream alsaStream wh =
     (let (w, h) = wh in
      if aw_mClockDomain w = None then Some (eIasAvbProcNotInitialized, wh)
      else if mAlsaPeriodSize w = 0 \<or> aw_mSampleFrequency w = 0 then None
      else case alsaStream of
        None \<Rightarrow> Some (eIasAvbProcInvalidParam, wh)
      | Some p \<Rightarrow>
          if getPeriodSize (h p) = 0 \<or> getSampleFrequency (h p) = 0 \<or> p \<in> set (mAlsaStreams w)
          then Some (eIasAvbProcInvalidParam, wh)
          else
            let a = (ucast (getPeriodSize (h p)) * ucast (aw_mSampleFrequency w) :: u64);
                b = (ucast (mAlsaPeriodSize w) * ucast (getSampleFrequency (h p)) :: u64)
            in if a mod b \<noteq> 0 then Some (eIasAvbProcInvalidParam, wh)
               else do {
                 running \<leftarrow> aw_mThread w;
                 x \<leftarrow> ao_setWorkerActive running (ao_setCycle (ucast (a div b)) (h p));
                 Some (eIasAvbProcOK, w\<lparr>mAlsaStreams := p # mAlsaStreams w\<rparr>, h(p := x))
               })"

text \<open>The result tells also whether it was the last stream.\<close>

definition removeAlsaStream ::
  "nat option \<Rightarrow> bool \<Rightarrow> IasAlsaWorkerThread \<Rightarrow> IasAvbProcessingResult \<times> bool \<times> IasAlsaWorkerThread" where
  "removeAlsaStream alsaStream lastStream w =
     (case alsaStream of
        None \<Rightarrow> (eIasAvbProcInvalidParam, lastStream, w)
      | Some p \<Rightarrow>
          if p \<in> set (mAlsaStreams w)
          then let ps = remove1 p (mAlsaStreams w) in (eIasAvbProcOK, ps = [], w\<lparr>mAlsaStreams := ps\<rparr>)
          else (eIasAvbProcInvalidParam, lastStream, w))"

definition streamIsHandled :: "u16 \<Rightarrow> worker_state \<Rightarrow> bool" where
  "streamIsHandled streamId wh \<longleftrightarrow> (\<exists>p\<in>set (mAlsaStreams (fst wh)). getStreamId (snd wh p) = streamId)"

section \<open>Control\<close>

definition worker_watchdog :: "worker_env \<Rightarrow> IasAlsaWorkerThread \<Rightarrow> IasAvbProcessingResult \<times> IasAlsaWorkerThread" where
  "worker_watchdog env w =
     (if snd (getConfigValue id (wk_registry env) cUseWatchdog 0) \<noteq> 0 \<and> wk_watchdogEnabled env
      then if wk_newWatchdog env then (eIasAvbProcOK, w\<lparr>aw_mWatchdog := Some False\<rparr>)
           else (eIasAvbProcInitializationFailed, w\<lparr>aw_mWatchdog := None\<rparr>)
      else (eIasAvbProcOK, w))"

definition worker_init ::
  "worker_env \<Rightarrow> nat option \<Rightarrow> u32 \<Rightarrow> u32 \<Rightarrow> nat option \<Rightarrow> worker_state \<Rightarrow>
     (IasAvbProcessingResult \<times> worker_state) option" where
  "worker_init env alsaStream alsaPeriodSize sampleFrequency clockDomain wh =
     (let (w, h) = wh in
      if aw_mThread w \<noteq> None then Some (eIasAvbProcInitializationFailed, wh)
      else if alsaStream = None \<or> clockDomain = None \<or> alsaPeriodSize = 0 \<or> sampleFrequency = 0
      then Some (eIasAvbProcInvalidParam, wh)
      else if \<not> wk_newThread env then Some (eIasAvbProcNotEnoughMemory, wh)
      else do {
        (result, w, h) \<leftarrow> addAlsaStream alsaStream
          (w\<lparr>aw_mThread := Some False, mAlsaStreams := [], mAlsaPeriodSize := alsaPeriodSize,
             aw_mSampleFrequency := sampleFrequency, aw_mClockDomain := clockDomain\<rparr>, h);
        if result \<noteq> eIasAvbProcOK then Some (result, w, h)
        else let (result, w) = worker_watchdog env w in Some (result, w, h)
      })"

definition worker_start :: "worker_env \<Rightarrow> worker_state \<Rightarrow> (IasAvbProcessingResult \<times> worker_state) option" where
  "worker_start env wh =
     (let (w, h) = wh;
          (result, w) =
            (case aw_mThread w of
               None \<Rightarrow> (eIasAvbProcThreadStartFailed, w)
             | Some True \<Rightarrow> (eIasAvbProcOK, w)
             | Some False \<Rightarrow>
                 if wk_threadStart env then (eIasAvbProcOK, w\<lparr>aw_mKeepRunning := True, aw_mThread := Some True\<rparr>)
                 else (eIasAvbProcThreadStartFailed, w\<lparr>aw_mKeepRunning := True\<rparr>))
      in if result \<noteq> eIasAvbProcOK then Some (result, w, h)
         else map_option (\<lambda>h. (result, w, h)) (set_workers_active True (mAlsaStreams w) h))"

definition worker_stop :: "worker_env \<Rightarrow> worker_state \<Rightarrow> (IasAvbProcessingResult \<times> worker_state) option" where
  "worker_stop env wh =
     (let (w, h) = wh in
      do {
        h \<leftarrow> set_workers_active False (mAlsaStreams w) h;
        Some (case aw_mThread w of
                None \<Rightarrow> (eIasAvbProcThreadStopFailed, w, h)
              | Some False \<Rightarrow> (eIasAvbProcOK, w, h)
              | Some True \<Rightarrow>
                  if wk_threadStop env
                  then (eIasAvbProcOK, w\<lparr>aw_mKeepRunning := False, aw_mThread := Some False\<rparr>, h)
                  else (eIasAvbProcThreadStopFailed, w, h))
      })"

definition worker_cleanup :: "IasAlsaWorkerThread \<Rightarrow> IasAlsaWorkerThread" where
  "worker_cleanup w =
     w\<lparr>aw_mThread := None, aw_mWatchdog := None, aw_mKeepRunning := False, aw_mClockDomain := None, mAlsaPeriodSize := 0,
       aw_mSampleFrequency := 0, mAlsaStreams := []\<rparr>"

section \<open>The thread\<close>

text \<open>\<^verbatim>\<open>process\<close>: the streams in the order of the list.\<close>

primrec serve_streams :: "worker_env \<Rightarrow> u64 \<Rightarrow> nat list \<Rightarrow> alsa_heap \<Rightarrow> alsa_heap option" where
  "serve_streams env timestamp [] h = Some h"
| "serve_streams env timestamp (p # ps) h =
     Option.bind (wk_serve env timestamp (h p)) (\<lambda>x. serve_streams env timestamp ps (h(p := x)))"

definition process :: "worker_env \<Rightarrow> u64 \<Rightarrow> worker_state \<Rightarrow> worker_state option" where
  "process env timestamp wh =
     map_option (Pair ((fst wh)\<lparr>mServiceCycle := mServiceCycle (fst wh) + 1\<rparr>))
       (serve_streams env timestamp (mAlsaStreams (fst wh)) (snd wh))"

text \<open>Signed 64 bit arithmetic, which must not overflow; division truncates towards zero.\<close>

definition s64_of_int :: "int \<Rightarrow> s64 option" where
  "s64_of_int x = (if - (2 ^ 63) \<le> x \<and> x < 2 ^ 63 then Some (of_int x) else None)"

definition quot :: "int \<Rightarrow> nat \<Rightarrow> int" where
  "quot x n = (if 0 \<le> x then x div int n else - (- x div int n))"

text \<open>What the configuration says and what is computed before the loop.\<close>

record worker_config =
  wc_timeout :: u64
  wc_adjustCycle :: u64
  wc_gain :: double
  wc_threshold :: u32
  wc_maxSleep :: u32
  wc_sleepEstimate :: u32

definition run_config :: "registry option \<Rightarrow> IasAlsaWorkerThread \<Rightarrow> worker_config option" where
  "run_config reg w =
     (if aw_mSampleFrequency w = 0 then None
      else do {
        let (found, val) = getConfigValue (ucast :: u64 \<Rightarrow> u32) reg cAlsaClockGain 0;
        gain \<leftarrow> (if found then ddiv (double_of_u32 val) 1000 else Some (fl (1 / 10)));
        Some \<lparr>wc_timeout = snd (getConfigValue id reg cAlsaClockTimeout 1000000000),
              wc_adjustCycle = snd (getConfigValue id reg cAlsaClockCycle 5000000), wc_gain = gain,
              wc_threshold = snd (getConfigValue ucast reg cAlsaClockUnlock 50000),
              wc_maxSleep = snd (getConfigValue ucast reg cAlsaClockResetThresh 0),
              wc_sleepEstimate =
                ucast (ucast (mAlsaPeriodSize w) * (1000000000 :: u64) div ucast (aw_mSampleFrequency w))\<rparr>
      })"

record worker_loop =
  sleepInterval :: u32
  initInterval :: bool
  slaveTime :: u64
  slaveTimePtp :: u64
  slaveCount :: s64
  wl_offset :: s64
  lastCountMaster :: s64
  lastTimeMaster :: s64
  lastMasterUpdate :: u64
  lastAdjustment :: u64
  wl_deviation :: double
  masterRate :: double
  sleepUntilPtp :: u64
  isRefClkAvail :: bool
  lastEpoch :: u32

definition loop_new :: "u32 \<Rightarrow> worker_loop" where
  "loop_new epoch =
     \<lparr>sleepInterval = 0, initInterval = True, slaveTime = 0, slaveTimePtp = 0, slaveCount = 0, wl_offset = 0,
      lastCountMaster = 0, lastTimeMaster = 0, lastMasterUpdate = 0, lastAdjustment = 0, wl_deviation = 0,
      masterRate = 0, sleepUntilPtp = 0, isRefClkAvail = False, lastEpoch = epoch\<rparr>"

text \<open>The answers in one round: the time, the clock domain, the conversions of the time proxy, the registration
  of the watchdog, the sleep. Without a proxy \<open>ra_ptp\<close> is \<open>None\<close>; its components are \<^verbatim>\<open>sysToPtp\<close>,
  \<^verbatim>\<open>ptpToSys\<close> and the epoch read at the end.\<close>

record round_answer =
  ra_now :: "u64 option"
  ra_eventCount :: u64
  ra_masterTime :: u64
  ra_eventRate :: u32
  ra_ptp :: "((u64 \<Rightarrow> u64) \<times> (u64 \<Rightarrow> u64) \<times> u32) option"
  ra_wdRegister :: bool
  ra_sleep :: bool

definition master_count :: "round_answer \<Rightarrow> IasAlsaWorkerThread \<Rightarrow> s64 option" where
  "master_count ra w =
     (if ra_eventRate ra = 0 then Some (ra_eventCount ra)
      else do {
        p \<leftarrow> s64_of_int (sint (ra_eventCount ra) * int (unat (aw_mSampleFrequency w)));
        s64_of_int (quot (sint p) (unat (ra_eventRate ra)))
      })"

text \<open>A thread that slept too long starts over.\<close>

definition check_overslept :: "worker_config \<Rightarrow> u64 \<Rightarrow> worker_loop \<Rightarrow> worker_loop" where
  "check_overslept c now t =
     (let over = now - slaveTime t;
          limit = (ucast (if wc_maxSleep c \<noteq> 0 then wc_maxSleep c else sleepInterval t) :: u64)
      in if \<not> initInterval t \<and> over > ucast (sleepInterval t) \<and> over > limit
         then t\<lparr>slaveTime := 0, initInterval := True\<rparr> else t)"

definition check_master :: "s64 \<Rightarrow> worker_loop \<Rightarrow> worker_loop" where
  "check_master masterCount t =
     (if masterCount <s lastCountMaster t then t\<lparr>initInterval := True, isRefClkAvail := False\<rparr> else t)"

definition restart_interval ::
  "worker_config \<Rightarrow> round_answer \<Rightarrow> u64 \<Rightarrow> s64 \<Rightarrow> IasAlsaWorkerThread \<Rightarrow> worker_loop \<Rightarrow> worker_loop option" where
  "restart_interval c ra now masterCount w t =
     do {
       offset \<leftarrow> s64_of_int (sint (slaveCount t) - sint masterCount);
       rate \<leftarrow> ddiv (double_of_u32 (aw_mSampleFrequency w)) 1000000000;
       let slave = (if slaveTime t = 0 then now else slaveTime t);
       Some (t\<lparr>initInterval := False, sleepInterval := wc_sleepEstimate c, wl_offset := offset, slaveTime := slave,
              lastAdjustment := slave, masterRate := rate, wl_deviation := 0,
              slaveTimePtp := (case ra_ptp ra of None \<Rightarrow> slaveTimePtp t | Some (toPtp, _) \<Rightarrow> toPtp slave),
              sleepUntilPtp := 0, lastMasterUpdate := 0\<rparr>)
     }"

definition kick_watchdog :: "round_answer \<Rightarrow> IasAlsaWorkerThread \<Rightarrow> IasAlsaWorkerThread" where
  "kick_watchdog ra w =
     (case aw_mWatchdog w of
        Some False \<Rightarrow> if ra_wdRegister ra then w\<lparr>aw_mWatchdog := Some True\<rparr> else w\<lparr>aw_mKeepRunning := False\<rparr>
      | _ \<Rightarrow> w)"

text \<open>The reference is looked at: a time that stands still may be a timeout, else the rate is measured.\<close>

definition observe_master ::
  "worker_config \<Rightarrow> round_answer \<Rightarrow> u64 \<Rightarrow> s64 \<Rightarrow> double \<Rightarrow> worker_loop \<Rightarrow> (s64 \<times> worker_loop) option" where
  "observe_master c ra now masterCount timeOffset t =
     (let t = (if lastTimeMaster t = 0 then t\<lparr>lastTimeMaster := ra_masterTime ra\<rparr> else t);
          deltaTM = ra_masterTime ra - lastTimeMaster t
      in if deltaTM = 0 then
           Some (deltaTM,
             if lastMasterUpdate t \<noteq> 0 \<and> now - lastMasterUpdate t > wc_timeout c
             then t\<lparr>lastMasterUpdate := 0, lastTimeMaster := 0, isRefClkAvail := False\<rparr> else t)
         else do {
           t \<leftarrow> (if lastMasterUpdate t = 0 then do {
                    ideal \<leftarrow> u64_of_double (dadd (double_of_s64 masterCount) (dmul timeOffset (masterRate t)));
                    Some (t\<lparr>wl_offset := slaveCount t - ideal\<rparr>)
                  }
                  else do {
                    d \<leftarrow> s64_of_int (sint masterCount - sint (lastCountMaster t));
                    rate \<leftarrow> ddiv (double_of_s64 d) (double_of_s64 deltaTM);
                    Some (t\<lparr>masterRate := rate\<rparr>)
                  });
           Some (deltaTM, t\<lparr>lastMasterUpdate := now, isRefClkAvail := True\<rparr>)
         })"

text \<open>The control loop: the deviation from the ideal sample count changes the sleep interval. The result tells
  whether it was out of bounds.\<close>

definition control_interval ::
  "worker_config \<Rightarrow> s64 \<Rightarrow> double \<Rightarrow> s64 \<Rightarrow> worker_loop \<Rightarrow> (bool \<times> worker_loop) option" where
  "control_interval c masterCount timeOffset deltaTM t =
     (if lastMasterUpdate t = 0 then Some (False, t)
      else do {
        d \<leftarrow> s64_of_int (sint (slaveCount t) - sint masterCount);
        d \<leftarrow> s64_of_int (sint d - sint (wl_offset t));
        let dev = dsub (double_of_s64 d) (dmul timeOffset (masterRate t));
        let t = t\<lparr>wl_deviation := dev\<rparr>;
        if \<bar>dev\<bar> > double_of_u32 (wc_threshold c)
        then Some (True, t\<lparr>initInterval := True, isRefClkAvail := False\<rparr>)
        else if 0 <s deltaTM then do {
          adj \<leftarrow> s32_of_double (dmul dev (wc_gain c));
          Some (False, t\<lparr>sleepInterval := sleepInterval t + adj\<rparr>)
        }
        else Some (False, t)
      })"

definition adjust_interval ::
  "worker_config \<Rightarrow> round_answer \<Rightarrow> u64 \<Rightarrow> s64 \<Rightarrow> worker_loop \<Rightarrow> (bool \<times> worker_loop) option" where
  "adjust_interval c ra now masterCount t =
     (let (timeOffset, t) =
            (case ra_ptp ra of
               None \<Rightarrow> (0, t)
             | Some (toPtp, _) \<Rightarrow>
                 let p = toPtp (slaveTime t) in (double_of_s64 (p - ra_masterTime ra), t\<lparr>slaveTimePtp := p\<rparr>))
      in if slaveTime t - lastAdjustment t \<ge> wc_adjustCycle c then do {
           (deltaTM, t) \<leftarrow> observe_master c ra now masterCount timeOffset (t\<lparr>lastAdjustment := slaveTime t\<rparr>);
           control_interval c masterCount timeOffset deltaTM t
         }
         else Some (False, t))"

text \<open>The next time to wake up; the result tells whether the thread sleeps.\<close>

definition next_wakeup :: "round_answer \<Rightarrow> u64 \<Rightarrow> IasAlsaWorkerThread \<Rightarrow> worker_loop \<Rightarrow> (bool \<times> worker_loop) option" where
  "next_wakeup ra timestamp w t =
     do {
       slaves \<leftarrow> s64_of_int (sint (slaveCount t) + int (unat (mAlsaPeriodSize w)));
       let t = t\<lparr>slaveCount := slaves, slaveTime := slaveTime t + ucast (sleepInterval t)\<rparr>;
       let t = (if \<not> initInterval t \<and> timestamp \<noteq> 0 then
                  let until = (if sleepUntilPtp t = 0 then timestamp else sleepUntilPtp t) + ucast (sleepInterval t)
                  in t\<lparr>sleepUntilPtp := until,
                       slaveTime := (case ra_ptp ra of None \<Rightarrow> slaveTime t | Some (_, toSys, _) \<Rightarrow> toSys until)\<rparr>
                else t\<lparr>sleepUntilPtp := 0\<rparr>);
       let epoch = (case ra_ptp ra of None \<Rightarrow> 0 | Some (_, _, e) \<Rightarrow> e);
       Some (if epoch \<noteq> lastEpoch t
             then (False, t\<lparr>lastEpoch := epoch, slaveTime := 0, initInterval := True, isRefClkAvail := False\<rparr>)
             else (True, t))
     }"

text \<open>One round of the loop.\<close>

definition worker_round ::
  "worker_env \<Rightarrow> worker_config \<Rightarrow> round_answer \<Rightarrow> worker_loop \<times> worker_state \<Rightarrow> (worker_loop \<times> worker_state) option" where
  "worker_round env c ra st =
     (let (t, w, h) = st in
      if \<not> aw_mKeepRunning w then Some st
      else case ra_now ra of
        None \<Rightarrow> Some (t, w\<lparr>aw_mKeepRunning := False\<rparr>, h)
      | Some now \<Rightarrow> do {
          let t = check_overslept c now t;
          _ \<leftarrow> aw_mClockDomain w;
          masterCount \<leftarrow> master_count ra w;
          let t = check_master masterCount t;
          (t, w, h) \<leftarrow>
            (if initInterval t then map_option (\<lambda>t. (t, w, h)) (restart_interval c ra now masterCount w t)
             else do {
               let w = kick_watchdog ra w;
               (out, t) \<leftarrow> adjust_interval c ra now masterCount t;
               Some (t, w, if out then (\<lambda>p. if p \<in> set (mAlsaStreams w) then count_deviation (h p) else h p) else h)
             });
          let t = t\<lparr>lastCountMaster := masterCount, lastTimeMaster := ra_masterTime ra\<rparr>;
          let timestamp = (if isRefClkAvail t then slaveTimePtp t else 0);
          (w, h) \<leftarrow> process env timestamp (w, h);
          (sleeps, t) \<leftarrow> next_wakeup ra timestamp w t;
          Some (t, if sleeps \<and> \<not> ra_sleep ra then w\<lparr>aw_mKeepRunning := False\<rparr> else w, h)
        })"

end
