(* ===== verification/Alsa_Engine.thy ===== *)
theory Alsa_Engine
  imports Alsa_Worker Stream_Map
begin

text \<open>
  \<^verbatim>\<open>IasAlsaEngine\<close> (\<^verbatim>\<open>IasAlsaEngine.hpp/.cpp\<close>): it owns the ALSA streams, in one map for virtual and one for
  hardware devices, and the worker threads, and assigns each stream to a worker thread that fits. A stream
  pointer is a number; the maps hold pointers and the streams themselves are the field \<open>alsa_heap\<close>. The lock
  makes the operations atomic. \<open>alsa_engine_env\<close> holds the answers from outside; what a new stream of a
  hardware device looks like after its \<^verbatim>\<open>init\<close> is \<open>ag_initHw\<close>. The result \<open>None\<close> is undefined behaviour or a
  violated assertion.
\<close>

definition cAlsaRingBufferSz :: string where "cAlsaRingBufferSz = ''local.alsa.ringbuffer''"
definition cAlsaDevicePeriods :: string where "cAlsaDevicePeriods = ''alsa.device.periods.''"
definition cMinNumberAlsaBuffer :: u32 where "cMinNumberAlsaBuffer = 3"

section \<open>State\<close>

record IasAlsaEngine =
  ag_mIsInitialized :: bool
  ag_mIsStarted :: bool
  mWorkerThreads :: "IasAlsaWorkerThread list"
  mAlsaViDevStreams :: "(u16 \<times> nat) list"
  mAlsaHwDevStreams :: "(u16 \<times> nat) list"
  alsa_heap :: alsa_heap

record alsa_engine_env =
  ag_registry :: "registry option"
  ag_worker :: worker_env
  ag_stream :: alsa_env
  ag_newStream :: "nat set \<Rightarrow> nat option"
  ag_newWorker :: bool
  ag_initHw :: "IasAvbStreamDirection \<Rightarrow> u16 \<Rightarrow> string \<Rightarrow> u32 \<Rightarrow> u32 \<Rightarrow> IasAvbProcessingResult \<times> IasAlsaHwDeviceHandler"
  ag_hwStart :: bool

definition alsa_engine_new :: "alsa_heap \<Rightarrow> IasAlsaEngine" where
  "alsa_engine_new h =
     \<lparr>ag_mIsInitialized = False, ag_mIsStarted = False, mWorkerThreads = [], mAlsaViDevStreams = [],
      mAlsaHwDevStreams = [], alsa_heap = h\<rparr>"

definition ag_init :: "IasAlsaEngine \<Rightarrow> IasAvbProcessingResult \<times> IasAlsaEngine" where
  "ag_init e =
     (if ag_mIsInitialized e then (eIasAvbProcInitializationFailed, e)
      else (eIasAvbProcOK,
            e\<lparr>mAlsaViDevStreams := [], mAlsaHwDevStreams := [], mWorkerThreads := [], ag_mIsInitialized := True\<rparr>))"

text \<open>The pointers in use.\<close>

definition ag_pointers :: "IasAlsaEngine \<Rightarrow> nat set" where
  "ag_pointers e =
     snd ` set (mAlsaViDevStreams e) \<union> snd ` set (mAlsaHwDevStreams e) \<union> (\<Union>w\<in>set (mWorkerThreads e). set (mAlsaStreams w))"

section \<open>Starting and stopping\<close>

text \<open>A call of every worker thread, the result of which is not looked at.\<close>

primrec each_worker ::
  "(worker_state \<Rightarrow> (IasAvbProcessingResult \<times> worker_state) option) \<Rightarrow> IasAlsaWorkerThread list \<Rightarrow> alsa_heap \<Rightarrow>
     (IasAlsaWorkerThread list \<times> alsa_heap) option" where
  "each_worker f [] h = Some ([], h)"
| "each_worker f (w # ws) h =
     do {
       (_, w, h) \<leftarrow> f (w, h);
       (ws, h) \<leftarrow> each_worker f ws h;
       Some (w # ws, h)
     }"

definition on_workers ::
  "(worker_state \<Rightarrow> (IasAvbProcessingResult \<times> worker_state) option) \<Rightarrow> IasAlsaEngine \<Rightarrow> IasAlsaEngine option" where
  "on_workers f e =
     map_option (\<lambda>(ws, h). e\<lparr>mWorkerThreads := ws, alsa_heap := h\<rparr>) (each_worker f (mWorkerThreads e) (alsa_heap e))"

definition ag_start :: "alsa_engine_env \<Rightarrow> IasAlsaEngine \<Rightarrow> (IasAvbProcessingResult \<times> IasAlsaEngine) option" where
  "ag_start env e =
     (if \<not> ag_mIsInitialized e then Some (eIasAvbProcNotInitialized, e)
      else map_option (\<lambda>e. (eIasAvbProcOK, e\<lparr>ag_mIsStarted := True\<rparr>)) (on_workers (worker_start (ag_worker env)) e))"

definition ag_stop :: "alsa_engine_env \<Rightarrow> IasAlsaEngine \<Rightarrow> (IasAvbProcessingResult \<times> IasAlsaEngine) option" where
  "ag_stop env e =
     (if \<not> ag_mIsInitialized e then Some (eIasAvbProcNotInitialized, e)
      else map_option (\<lambda>e. (eIasAvbProcOK, e\<lparr>ag_mIsStarted := False\<rparr>)) (on_workers (worker_stop (ag_worker env)) e))"

section \<open>Worker threads\<close>

text \<open>The first worker thread that satisfies a condition.\<close>

primrec find_worker :: "(IasAlsaWorkerThread \<Rightarrow> bool) \<Rightarrow> nat \<Rightarrow> IasAlsaWorkerThread list \<Rightarrow> nat option" where
  "find_worker P i [] = None"
| "find_worker P i (w # ws) = (if P w then Some i else find_worker P (Suc i) ws)"

definition getWorkerThread :: "u16 \<Rightarrow> IasAlsaEngine \<Rightarrow> nat option" where
  "getWorkerThread streamId e = find_worker (\<lambda>w. streamIsHandled streamId (w, alsa_heap e)) 0 (mWorkerThreads e)"

definition put_worker :: "nat \<Rightarrow> worker_state \<Rightarrow> IasAlsaEngine \<Rightarrow> IasAlsaEngine" where
  "put_worker i wh e = e\<lparr>mWorkerThreads := (mWorkerThreads e)[i := fst wh], alsa_heap := snd wh\<rparr>"

text \<open>A new worker thread gets the base period if the stream fits it. A thread that does not start stays on
  the list.\<close>

definition new_worker ::
  "alsa_engine_env \<Rightarrow> nat \<Rightarrow> nat option \<Rightarrow> IasAlsaEngine \<Rightarrow> (IasAvbProcessingResult \<times> IasAlsaEngine) option" where
  "new_worker env p clockDomain e =
     (let x = alsa_heap e p;
          freqBase = snd (getConfigValue ucast (ag_registry env) cAlsaBaseFreq 48000);
          periodBase = snd (getConfigValue ucast (ag_registry env) cAlsaBasePeriod 128);
          (period, freq) = (if fitting_period (getPeriodSize x) (getSampleFrequency x) periodBase freqBase
                            then (periodBase, freqBase) else (getPeriodSize x, getSampleFrequency x))
      in if \<not> ag_newWorker env then Some (eIasAvbProcNotEnoughMemory, e)
         else do {
           (result, w, h) \<leftarrow> worker_init (ag_worker env) (Some p) period freq clockDomain (worker_new, alsa_heap e);
           if result \<noteq> eIasAvbProcOK then Some (result, e\<lparr>alsa_heap := h\<rparr>)
           else do {
             (result, w, h) \<leftarrow> (if ag_mIsStarted e then worker_start (ag_worker env) (w, h) else Some (result, w, h));
             Some (result, e\<lparr>mWorkerThreads := mWorkerThreads e @ [w], alsa_heap := h\<rparr>)
           }
         })"

definition assignToWorkerThread ::
  "alsa_engine_env \<Rightarrow> nat option \<Rightarrow> nat option \<Rightarrow> IasAlsaEngine \<Rightarrow> (IasAvbProcessingResult \<times> IasAlsaEngine) option"
where
  "assignToWorkerThread env alsaStream clockDomain e =
     (if \<not> ag_mIsInitialized e then Some (eIasAvbProcNotInitialized, e)
      else case alsaStream of
        None \<Rightarrow> Some (eIasAvbProcInvalidParam, e)
      | Some p \<Rightarrow>
          let x = alsa_heap e p in
          if getPeriodSize x = 0 \<or> getSampleFrequency x = 0 then Some (eIasAvbProcInvalidParam, e)
          else
            case find_worker (checkParameter clockDomain (getPeriodSize x) (getSampleFrequency x)) 0 (mWorkerThreads e) of
              Some i \<Rightarrow> map_option (\<lambda>(result, wh). (result, put_worker i wh e))
                          (addAlsaStream (Some p) (mWorkerThreads e ! i, alsa_heap e))
            | None \<Rightarrow> new_worker env p clockDomain e)"

text \<open>The last stream takes its worker thread with it.\<close>

definition removeFromWorkerThread ::
  "alsa_engine_env \<Rightarrow> nat option \<Rightarrow> IasAlsaEngine \<Rightarrow> (IasAvbProcessingResult \<times> IasAlsaEngine) option" where
  "removeFromWorkerThread env stream e =
     (if \<not> ag_mIsInitialized e then Some (eIasAvbProcNotInitialized, e)
      else case stream of
        None \<Rightarrow> Some (eIasAvbProcInvalidParam, e)
      | Some p \<Rightarrow>
          (case getWorkerThread (getStreamId (alsa_heap e p)) e of
             None \<Rightarrow> Some (eIasAvbProcErr, e)
           | Some i \<Rightarrow>
               let (result, lastStream, w) = removeAlsaStream (Some p) False (mWorkerThreads e ! i) in
               if result \<noteq> eIasAvbProcOK then Some (eIasAvbProcErr, put_worker i (w, alsa_heap e) e)
               else if lastStream then
                 map_option (\<lambda>(_, _, h). (result, e\<lparr>mWorkerThreads := take i (mWorkerThreads e) @ drop (Suc i) (mWorkerThreads e),
                                                     alsa_heap := h\<rparr>))
                   (worker_stop (ag_worker env) (w, alsa_heap e))
               else Some (result, put_worker i (w, alsa_heap e) e)))"

section \<open>Streams\<close>

text \<open>\<^verbatim>\<open>std::string::find\<close>: whether one string occurs in the other.\<close>

primrec occurs :: "string \<Rightarrow> string \<Rightarrow> bool" where
  "occurs pat [] \<longleftrightarrow> pat = []"
| "occurs pat (c # cs) \<longleftrightarrow> take (length pat) (c # cs) = pat \<or> occurs pat cs"

text \<open>The search for the device name; \<open>None\<close> is a stream without a name.\<close>

primrec name_in_use :: "string \<Rightarrow> nat list \<Rightarrow> alsa_heap \<Rightarrow> bool option" where
  "name_in_use name [] h = Some False"
| "name_in_use name (p # ps) h =
     do {
       devName \<leftarrow> getDeviceName (h p);
       if occurs name devName then Some True else name_in_use name ps h
     }"

definition check_new_stream :: "u16 \<Rightarrow> string \<Rightarrow> (u16 \<times> nat) list \<Rightarrow> alsa_heap \<Rightarrow> IasAvbProcessingResult option" where
  "check_new_stream streamId fullName xs h =
     (if map_of xs streamId \<noteq> None then Some eIasAvbProcInvalidParam
      else map_option (\<lambda>used. if used then eIasAvbProcInvalidParam else eIasAvbProcOK) (name_in_use fullName (map snd xs) h))"

text \<open>The size of the local buffer. The product \<^verbatim>\<open>basePeriod * sampleFrequency\<close> has 32 bits.\<close>

definition local_buffer_size :: "registry option \<Rightarrow> u32 \<Rightarrow> u32 \<Rightarrow> u32 \<Rightarrow> u32 \<Rightarrow> u32 option" where
  "local_buffer_size reg freqBase periodBase periodSize sampleFrequency =
     (let mode = snd (getConfigValue cast_desc_mode reg cAudioTstampBuffer eIasAudioBufferDescModeOff) in
      if mode = eIasAudioBufferDescModeOff
      then Some (periodSize * snd (getConfigValue ucast reg cAlsaRingBuffer 1))
      else
        let freqBase = snd (getConfigValue ucast reg cAlsaBaseFreq freqBase);
            periodBase = snd (getConfigValue ucast reg cAlsaBasePeriod periodBase);
            p = (ucast periodSize * ucast freqBase :: u64);
            q = (ucast (periodBase * sampleFrequency) :: u64)
        in if q = 0 then None
           else
             let cycle = (ucast (p div q) :: u32);
                 desc = (if p mod q = 0 \<and> cycle \<noteq> 0 then periodSize div cycle else periodSize);
                 minSize = desc * cMinNumberAlsaBuffer;
                 total = snd (getConfigValue ucast reg cAlsaRingBufferSz minSize)
             in Some (if total < minSize then minSize else total))"

definition num_periods :: "registry option \<Rightarrow> string \<Rightarrow> u32 \<Rightarrow> u32" where
  "num_periods reg fullName numAlsaPeriods =
     (let n = snd (getConfigValue ucast reg (cAlsaDevicePeriods @ fullName) numAlsaPeriods)
      in if n < cMinNumberAlsaBuffer then cMinNumberAlsaBuffer else n)"

text \<open>The diagnostics of a virtual device stream take over the base period in the time-aware mode.\<close>

definition note_base :: "registry option \<Rightarrow> IasAlsaVirtualDeviceStream \<Rightarrow> IasAlsaVirtualDeviceStream" where
  "note_base reg s =
     (if snd (getConfigValue cast_desc_mode reg cAudioTstampBuffer eIasAudioBufferDescModeOff) = eIasAudioBufferDescModeOff
      then s
      else s\<lparr>IasLocalAudioStream.mDiag := (IasLocalAudioStream.mDiag s)
               \<lparr>basePeriod := snd (getConfigValue ucast reg cAlsaBasePeriod 128),
                baseFreq := snd (getConfigValue ucast reg cAlsaBaseFreq 48000)\<rparr>\<rparr>)"

definition create_virtual ::
  "alsa_engine_env \<Rightarrow> IasAvbStreamDirection \<Rightarrow> u16 \<Rightarrow> u32 \<Rightarrow> IasAvbAudioFormat \<Rightarrow> u32 \<Rightarrow> u32 \<Rightarrow> u8 \<Rightarrow> bool \<Rightarrow> string \<Rightarrow>
     u16 \<Rightarrow> nat option \<Rightarrow> nat \<Rightarrow> IasAlsaEngine \<Rightarrow> (IasAvbProcessingResult \<times> IasAlsaEngine) option" where
  "create_virtual env direction numChannels sampleFrequency format periodSize numAlsaPeriods channelLayout
     hasSideChannel deviceName streamId clockDomain p e =
     do {
       let reg = ag_registry env;
       total \<leftarrow> local_buffer_size reg 48000 128 periodSize sampleFrequency;
       (result, s) \<leftarrow> alsa_init (ag_stream env) numChannels total (total div 2) periodSize
         (num_periods reg (deviceName @ device_suffix direction) numAlsaPeriods) sampleFrequency format channelLayout
         hasSideChannel deviceName eIasAlsaVirtualDevice (note_base reg (alsa_new direction streamId));
       let e = e\<lparr>alsa_heap := (alsa_heap e)(p := Virtual_Device s)\<rparr>;
       if result \<noteq> eIasAvbProcOK then Some (result, e)
       else do {
         (result, e) \<leftarrow> assignToWorkerThread env (Some p) clockDomain e;
         Some (result, if result = eIasAvbProcOK
                       then e\<lparr>mAlsaViDevStreams := put_stream streamId p (mAlsaViDevStreams e)\<rparr> else e)
       }
     }"

text \<open>A stream that no worker thread takes is deleted and started all the same.\<close>

definition create_hw ::
  "alsa_engine_env \<Rightarrow> IasAvbStreamDirection \<Rightarrow> u32 \<Rightarrow> u32 \<Rightarrow> string \<Rightarrow> u16 \<Rightarrow> nat option \<Rightarrow> nat \<Rightarrow> IasAlsaEngine \<Rightarrow>
     (IasAvbProcessingResult \<times> IasAlsaEngine) option" where
  "create_hw env direction sampleFrequency periodSize deviceName streamId clockDomain p e =
     do {
       _ \<leftarrow> local_buffer_size (ag_registry env) sampleFrequency periodSize periodSize sampleFrequency;
       let (result, s) = ag_initHw env direction streamId deviceName sampleFrequency periodSize;
       let e = e\<lparr>alsa_heap := (alsa_heap e)(p := Hw_Device s)\<rparr>;
       if result \<noteq> eIasAvbProcOK then Some (result, e)
       else do {
         (result, e) \<leftarrow> assignToWorkerThread env (Some p) clockDomain e;
         if result \<noteq> eIasAvbProcOK then None
         else Some (result, e\<lparr>mAlsaHwDevStreams := put_stream streamId p (mAlsaHwDevStreams e),
                              alsa_heap := (alsa_heap e)(p := (case alsa_heap e p of
                                  Hw_Device s \<Rightarrow> Hw_Device (s\<lparr>hw_started := ag_hwStart env\<rparr>) | x \<Rightarrow> x))\<rparr>)
       }
     }"

definition createAlsaStream ::
  "alsa_engine_env \<Rightarrow> IasAvbStreamDirection \<Rightarrow> u16 \<Rightarrow> u32 \<Rightarrow> IasAvbAudioFormat \<Rightarrow> u32 \<Rightarrow> u32 \<Rightarrow> u8 \<Rightarrow> bool \<Rightarrow> string \<Rightarrow>
     u16 \<Rightarrow> nat option \<Rightarrow> IasAlsaDeviceTypes \<Rightarrow> IasAlsaEngine \<Rightarrow> (IasAvbProcessingResult \<times> IasAlsaEngine) option" where
  "createAlsaStream env direction numChannels sampleFrequency format periodSize numAlsaPeriods channelLayout
     hasSideChannel deviceName streamId clockDomain alsaDeviceType e =
     (if \<not> ag_mIsInitialized e then Some (eIasAvbProcNotInitialized, e)
      else do {
        let virtual = (alsaDeviceType = eIasAlsaVirtualDevice);
        result \<leftarrow> check_new_stream streamId (deviceName @ device_suffix direction)
          (if virtual then mAlsaViDevStreams e else mAlsaHwDevStreams e) (alsa_heap e);
        if result \<noteq> eIasAvbProcOK then Some (result, e)
        else case ag_newStream env (ag_pointers e) of
          None \<Rightarrow> Some (eIasAvbProcNotEnoughMemory, e)
        | Some p \<Rightarrow>
            if virtual
            then create_virtual env direction numChannels sampleFrequency format periodSize numAlsaPeriods channelLayout
                   hasSideChannel deviceName streamId clockDomain p e
            else create_hw env direction sampleFrequency periodSize deviceName streamId clockDomain p e
      })"

text \<open>A stream of a hardware device is preferred to one of a virtual device with the same id.\<close>

definition destroyAlsaStream :: "alsa_engine_env \<Rightarrow> u16 \<Rightarrow> IasAlsaEngine \<Rightarrow> (IasAvbProcessingResult \<times> IasAlsaEngine) option"
where
  "destroyAlsaStream env streamId e =
     (if \<not> ag_mIsInitialized e then Some (eIasAvbProcNotInitialized, e)
      else case map_of (mAlsaHwDevStreams e) streamId of
        Some p \<Rightarrow>
          if ao_isConnected (alsa_heap e p) then Some (eIasAvbProcAlreadyInUse, e)
          else do {
            (result, e) \<leftarrow> removeFromWorkerThread env (Some p) e;
            Some (result, if result = eIasAvbProcOK
                          then e\<lparr>mAlsaHwDevStreams := erase_stream streamId (mAlsaHwDevStreams e)\<rparr> else e)
          }
      | None \<Rightarrow>
          (case map_of (mAlsaViDevStreams e) streamId of
             None \<Rightarrow> Some (eIasAvbProcInvalidParam, e)
           | Some p \<Rightarrow>
               if ao_isConnected (alsa_heap e p) then Some (eIasAvbProcAlreadyInUse, e)
               else do {
                 (result, e) \<leftarrow> removeFromWorkerThread env (Some p) e;
                 Some (result, if result = eIasAvbProcOK
                               then e\<lparr>mAlsaViDevStreams := erase_stream streamId (mAlsaViDevStreams e)\<rparr> else e)
               }))"

definition ag_getLocalAudioStream :: "u16 \<Rightarrow> IasAlsaEngine \<Rightarrow> nat option" where
  "ag_getLocalAudioStream streamId e =
     (case map_of (mAlsaHwDevStreams e) streamId of
        Some p \<Rightarrow> Some p | None \<Rightarrow> map_of (mAlsaViDevStreams e) streamId)"

text \<open>The loops of \<^verbatim>\<open>cleanup\<close> destroy the first stream of a map until one cannot be destroyed; \<open>n\<close> bounds the
  rounds by the size of the map.\<close>

primrec destroy_streams ::
  "alsa_engine_env \<Rightarrow> (IasAlsaEngine \<Rightarrow> (u16 \<times> nat) list) \<Rightarrow> nat \<Rightarrow> IasAvbProcessingResult \<times> IasAlsaEngine \<Rightarrow>
     (IasAvbProcessingResult \<times> IasAlsaEngine) option" where
  "destroy_streams env streams_of 0 re = Some re"
| "destroy_streams env streams_of (Suc n) re =
     (if fst re \<noteq> eIasAvbProcOK then Some re
      else case streams_of (snd re) of
        [] \<Rightarrow> Some re
      | x # _ \<Rightarrow> Option.bind (destroyAlsaStream env (fst x) (snd re)) (destroy_streams env streams_of n))"

definition ag_cleanup :: "alsa_engine_env \<Rightarrow> IasAlsaEngine \<Rightarrow> IasAlsaEngine option" where
  "ag_cleanup env e =
     do {
       e \<leftarrow> on_workers (worker_stop (ag_worker env)) e;
       re \<leftarrow> destroy_streams env mAlsaViDevStreams (length (mAlsaViDevStreams e)) (eIasAvbProcOK, e);
       re \<leftarrow> destroy_streams env mAlsaHwDevStreams (length (mAlsaHwDevStreams (snd re))) re;
       Some ((snd re)\<lparr>mAlsaViDevStreams := [], mAlsaHwDevStreams := [], mWorkerThreads := [], ag_mIsStarted := False,
                      ag_mIsInitialized := False\<rparr>)
     }"

section \<open>Information\<close>

record IasLocalAudioStreamAttributes =
  laa_direction :: IasAvbStreamDirection
  laa_numChannels :: u16
  laa_sampleFrequency :: u32
  laa_format :: IasAvbAudioFormat
  laa_periodSize :: u32
  laa_numPeriods :: u32
  laa_channelLayout :: u8
  laa_hasSideChannel :: bool
  laa_deviceName :: string
  laa_streamId :: u16
  laa_connected :: bool
  laa_diagnostics :: IasLocalAudioStreamDiagnostics

definition alsa_attributes :: "alsa_object \<Rightarrow> IasLocalAudioStreamAttributes option" where
  "alsa_attributes x =
     do {
       let l = ao_local x;
       name \<leftarrow> getDeviceName x;
       Some \<lparr>laa_direction = mDirection l, laa_numChannels = mNumChannels l, laa_sampleFrequency = mSampleFrequency l,
             laa_format = eIasAvbAudioFormatSaf16, laa_periodSize = getPeriodSize x,
             laa_numPeriods = (case x of Virtual_Device s \<Rightarrow> mNumAlsaPeriods s | Hw_Device s \<Rightarrow> 0),
             laa_channelLayout = mChannelLayout l, laa_hasSideChannel = mHasSideChannel l, laa_deviceName = name,
             laa_streamId = mStreamId l, laa_connected = ao_isConnected x,
             laa_diagnostics = IasLocalAudioStream.mDiag l\<rparr>
     }"

text \<open>Only the streams of virtual devices are listed; the loop ends at the id that is asked for.\<close>

primrec list_alsa ::
  "u16 \<Rightarrow> (u16 \<times> nat) list \<Rightarrow> alsa_heap \<Rightarrow> IasLocalAudioStreamAttributes list \<Rightarrow>
     (bool \<times> IasLocalAudioStreamAttributes list) option" where
  "list_alsa streamId [] h infos = Some (False, infos)"
| "list_alsa streamId (x # xs) h infos =
     do {
       infos \<leftarrow> (if streamId = 0 \<or> fst x = streamId
                 then map_option (\<lambda>a. infos @ [a]) (alsa_attributes (h (snd x))) else Some infos);
       if streamId \<noteq> 0 \<and> fst x = streamId then Some (True, infos) else list_alsa streamId xs h infos
     }"

definition ag_getLocalStreamInfo ::
  "u16 \<Rightarrow> IasLocalAudioStreamAttributes list \<Rightarrow> IasAlsaEngine \<Rightarrow> (bool \<times> IasLocalAudioStreamAttributes list) option"
where
  "ag_getLocalStreamInfo streamId infos e = list_alsa streamId (mAlsaViDevStreams e) (alsa_heap e) infos"

end
