(* ===== verification/Local_Video_Stream.thy ===== *)
theory Local_Video_Stream
  imports Avb_Stream Local_Audio_Stream Local_Video_Buffer Video_Ring_Buffer
begin

unbundle bit_operations_syntax

text \<open>
  \<^verbatim>\<open>IasLocalVideoStream\<close> and the classes derived from it, \<^verbatim>\<open>IasLocalVideoInStream\<close> (from shared memory to
  the network) and \<^verbatim>\<open>IasLocalVideoOutStream\<close> (from the network to shared memory). The pointer to the client
  is modelled by whether it is set. The operations take the packet pool of the AVB stream and, where they
  copy packets, its DMA memory along. The segment of shared memory is the ring of theory
  \<open>Video_Ring_Buffer\<close> with the bytes of its buffers; other processes change both between calls. The
  creation of segments, allocation and threads are answered by \<open>video_env\<close>. The result \<open>None\<close> is a NULL
  dereference or an access outside the ring or the segment.
\<close>

section \<open>Memory order\<close>

text \<open>Words that are stored as they are in memory; the machine is little endian.\<close>

definition le_word :: "u8 list \<Rightarrow> 'a::len word" where
  "le_word bytes = foldr (\<lambda>b w. push_bit 8 w OR ucast b) bytes 0"

definition le_bytes :: "nat \<Rightarrow> 'a::len word \<Rightarrow> u8 list" where
  "le_bytes n w = map (\<lambda>i. ucast (drop_bit (8 * i) w)) [0..<n]"

definition load32 :: "u8 list \<Rightarrow> nat \<Rightarrow> u32 option" where
  "load32 bytes i = map_option le_word (slice bytes i 4)"

definition load64 :: "u8 list \<Rightarrow> nat \<Rightarrow> u64 option" where
  "load64 bytes i = map_option le_word (slice bytes i 8)"

section \<open>The base class\<close>

datatype IasAvbVideoFormat = eIasAvbVideoFormatIec61883 | eIasAvbVideoFormatRtp

record IasLocalVideoStream =
  lvs_mDirection :: IasAvbStreamDirection
  lvs_mType :: IasLocalStreamType
  lvs_mStreamId :: u16
  lvs_mMaxPacketRate :: u16
  lvs_mMaxPacketSize :: u16
  mLocalVideoBuffer :: "IasLocalVideoBuffer option"
  lvs_mFormat :: IasAvbVideoFormat
  lvs_mClientState :: ClientState
  lvs_mClient :: bool

record video_env =
  ve_object :: bool
  ve_buffer :: bool
  ve_ring :: bool
  ve_shm_init :: bool
  ve_createRing :: bool

definition lvs_new :: "IasAvbStreamDirection \<Rightarrow> IasLocalStreamType \<Rightarrow> u16 \<Rightarrow> IasLocalVideoStream" where
  "lvs_new direction type streamId =
     \<lparr>lvs_mDirection = direction, lvs_mType = type, lvs_mStreamId = streamId, lvs_mMaxPacketRate = 0,
      lvs_mMaxPacketSize = 0, mLocalVideoBuffer = None, lvs_mFormat = eIasAvbVideoFormatRtp,
      lvs_mClientState = eIasNotConnected, lvs_mClient = False\<rparr>"

definition lvs_isInitialized :: "'a IasLocalVideoStream_scheme \<Rightarrow> bool" where
  "lvs_isInitialized l \<longleftrightarrow> 0 \<noteq> lvs_mMaxPacketSize l"

definition lvs_isConnected :: "'a IasLocalVideoStream_scheme \<Rightarrow> bool" where
  "lvs_isConnected l \<longleftrightarrow> lvs_mClientState l \<noteq> eIasNotConnected"

type_synonym 'a lvs_pool = "'a IasLocalVideoStream_scheme \<times> IasAvbPacketPool"

definition lvs_disconnect :: "'a lvs_pool \<Rightarrow> (IasAvbProcessingResult \<times> 'a lvs_pool) option" where
  "lvs_disconnect lp =
     do {
       let (l, pool) = lp;
       (l, pool) \<leftarrow> (case mLocalVideoBuffer l of
           None \<Rightarrow> Some (l, pool)
         | Some b \<Rightarrow> do {
             (_, b, pool) \<leftarrow> lvb_reset (lvb_setAvbPacketPool False b, pool);
             Some (l\<lparr>mLocalVideoBuffer := Some b\<rparr>, pool)
           });
       Some (eIasAvbProcOK, l\<lparr>lvs_mClientState := eIasNotConnected, lvs_mClient := False\<rparr>, pool)
     }"

definition lvs_cleanup :: "'a lvs_pool \<Rightarrow> 'a lvs_pool option" where
  "lvs_cleanup lp =
     do {
       (l, pool) \<leftarrow> (if lvs_isConnected (fst lp) then map_option snd (lvs_disconnect lp) else Some lp);
       Some (l\<lparr>mLocalVideoBuffer := None, lvs_mMaxPacketRate := 0, lvs_mMaxPacketSize := 0\<rparr>, pool)
     }"

definition lvs_init_buffer ::
  "video_env \<Rightarrow> u16 \<Rightarrow> u16 \<Rightarrow> bool \<Rightarrow> 'a IasLocalVideoStream_scheme \<Rightarrow>
     IasAvbProcessingResult \<times> 'a IasLocalVideoStream_scheme" where
  "lvs_init_buffer env numPackets maxPacketSize internalBuffers l =
     (if \<not> numPackets > 0 then (eIasAvbProcOK, l)
      else if \<not> ve_object env then (eIasAvbProcNotEnoughMemory, l\<lparr>mLocalVideoBuffer := None\<rparr>)
      else
        let (result, b) = lvb_init (ve_buffer env) (ve_ring env) numPackets maxPacketSize internalBuffers lvb_new
        in (result, l\<lparr>mLocalVideoBuffer := (if result = eIasAvbProcOK then Some b else None)\<rparr>))"

definition lvs_init ::
  "video_env \<Rightarrow> IasAvbVideoFormat \<Rightarrow> u16 \<Rightarrow> u16 \<Rightarrow> u16 \<Rightarrow> bool \<Rightarrow> 'a lvs_pool \<Rightarrow>
     (IasAvbProcessingResult \<times> 'a lvs_pool) option" where
  "lvs_init env format numPackets maxPacketRate maxPacketSize internalBuffers lp =
     (let (l, pool) = lp;
          l = l\<lparr>lvs_mMaxPacketRate := maxPacketRate, lvs_mMaxPacketSize := maxPacketSize, lvs_mFormat := format\<rparr>
      in if 1500 < maxPacketSize then Some (eIasAvbProcInvalidParam, l, pool)
         else if \<not> lvs_isInitialized l then Some (eIasAvbProcInitializationFailed, l, pool)
         else
           let (result, l) = lvs_init_buffer env numPackets maxPacketSize internalBuffers l
           in if result \<noteq> eIasAvbProcOK then map_option (Pair result) (lvs_cleanup (l, pool))
              else Some (result, l, pool))"

text \<open>The result is what the pointer \<^verbatim>\<open>descPacket\<close> points to afterwards.\<close>

definition lvs_readLocalVideoBuffer ::
  "IasVideoDesc \<Rightarrow> 'a IasLocalVideoStream_scheme \<Rightarrow>
     (IasAvbProcessingResult \<times> IasVideoDesc \<times> 'a IasLocalVideoStream_scheme) option" where
  "lvs_readLocalVideoBuffer descPacket l =
     (if \<not> lvs_isInitialized l then Some (eIasAvbProcNotInitialized, descPacket, l)
      else case mLocalVideoBuffer l of
        None \<Rightarrow> Some (eIasAvbProcNullPointerAccess, descPacket, l)
      | Some b \<Rightarrow> map_option (\<lambda>(d, b). (eIasAvbProcOK, d, l\<lparr>mLocalVideoBuffer := Some b\<rparr>)) (lvb_read descPacket b))"

definition lvs_connect ::
  "bool \<Rightarrow> 'a IasLocalVideoStream_scheme \<Rightarrow> IasAvbProcessingResult \<times> 'a IasLocalVideoStream_scheme" where
  "lvs_connect client l =
     (if \<not> client then (eIasAvbProcInvalidParam, l)
      else if lvs_mClient l then (eIasAvbProcAlreadyInUse, l)
      else (eIasAvbProcOK, l\<lparr>lvs_mClient := True, lvs_mClientState := eIasIdle\<rparr>))"

text \<open>\<^verbatim>\<open>resetBuffers\<close> is the same in both derived classes: the level that the one passes on is not used.\<close>

definition lvs_resetBuffers :: "'a lvs_pool \<Rightarrow> (IasAvbProcessingResult \<times> 'a lvs_pool) option" where
  "lvs_resetBuffers lp =
     (case mLocalVideoBuffer (fst lp) of
        None \<Rightarrow> Some (eIasAvbProcOK, lp)
      | Some b \<Rightarrow> map_option (\<lambda>(_, b, pool). (eIasAvbProcOK, (fst lp)\<lparr>mLocalVideoBuffer := Some b\<rparr>, pool))
                    (lvb_reset (b, snd lp)))"

definition lvs_setClientActive :: "bool \<Rightarrow> 'a lvs_pool \<Rightarrow> 'a lvs_pool option" where
  "lvs_setClientActive active lp =
     (let (l, pool) = lp in
      if \<not> lvs_mClient l then Some lp
      else if active then
        if eIasActive \<noteq> lvs_mClientState l
        then map_option snd (lvs_resetBuffers (l\<lparr>lvs_mClientState := eIasActive\<rparr>, pool))
        else Some lp
      else Some (l\<lparr>lvs_mClientState := eIasIdle\<rparr>, pool))"

definition lvs_setAvbPacketPool ::
  "bool \<Rightarrow> 'a IasLocalVideoStream_scheme \<Rightarrow> IasAvbProcessingResult \<times> 'a IasLocalVideoStream_scheme" where
  "lvs_setAvbPacketPool isSet l =
     (case mLocalVideoBuffer l of
        None \<Rightarrow> (eIasAvbProcNullPointerAccess, l)
      | Some b \<Rightarrow> (eIasAvbProcOK, l\<lparr>mLocalVideoBuffer := Some (lvb_setAvbPacketPool isSet b)\<rparr>))"

section \<open>Shared memory\<close>

record video_shm =
  vs_ring :: IasAvbVideoRingBufferShm
  vs_data :: "u8 list"

text \<open>The space for one packet of each format in a buffer of the ring.\<close>

definition sizeof_TransferPacket :: "IasAvbVideoFormat \<Rightarrow> u32" where
  "sizeof_TransferPacket format = (if format = eIasAvbVideoFormatIec61883 then 24 else 16)"

text \<open>The address of the segment does not matter to the ring.\<close>

definition createRingBuffer :: "video_env \<Rightarrow> u16 \<Rightarrow> u32 \<Rightarrow> video_shm option" where
  "createRingBuffer env numPackets maxPacketSize =
     (if ve_createRing env \<and> maxPacketSize \<noteq> 0 \<and> numPackets \<noteq> 0
      then Some \<lparr>vs_ring = snd (video_ring_init maxPacketSize (ucast numPackets) (Some 0) True video_ring_new),
                 vs_data = replicate (unat (maxPacketSize * ucast numPackets)) 0\<rparr>
      else None)"

section \<open>From shared memory to the network\<close>

record IasLocalVideoInStream = IasLocalVideoStream +
  in_mIpcName :: string
  in_shm :: "video_shm option"
  in_mRingBuffer :: bool
  in_mRingBufferSize :: u32
  in_mThread :: bool
  in_mThreadIsRunning :: bool
  in_mOptimalFillLevel :: u32
  in_mRtpSequNrLast :: u16

definition in_new :: "u16 \<Rightarrow> IasLocalVideoInStream" where
  "in_new streamId = IasLocalVideoStream.extend (lvs_new eIasAvbTransmitToNetwork eIasLocalVideoInStream streamId)
     (IasLocalVideoInStream.fields [] None False 0 False False 0 0)"

type_synonym in_pool = "IasLocalVideoInStream \<times> IasAvbPacketPool"

definition in_init ::
  "video_env \<Rightarrow> string \<Rightarrow> u16 \<Rightarrow> u16 \<Rightarrow> IasAvbVideoFormat \<Rightarrow> u16 \<Rightarrow> u32 \<Rightarrow> bool \<Rightarrow> in_pool \<Rightarrow>
     (IasAvbProcessingResult \<times> in_pool) option" where
  "in_init env ipcName maxPacketRate maxPacketSize format numPackets optimalFillLevel internalBuffers lp =
     (if in_mIpcName (fst lp) \<noteq> [] then Some (eIasAvbProcInitializationFailed, lp)
      else if 0 = maxPacketSize \<or> ipcName = [] then Some (eIasAvbProcInvalidParam, lp)
      else do {
        (result, lp) \<leftarrow> lvs_init env format numPackets maxPacketRate maxPacketSize internalBuffers lp;
        if result \<noteq> eIasAvbProcOK then Some (result, lp)
        else if \<not> ve_shm_init env then map_option (Pair eIasAvbProcNotEnoughMemory) (lvs_cleanup lp)
        else
          case createRingBuffer env numPackets (ucast maxPacketSize + sizeof_TransferPacket format) of
            None \<Rightarrow> map_option (Pair eIasAvbProcInitializationFailed) (lvs_cleanup lp)
          | Some shm \<Rightarrow>
              Some (eIasAvbProcOK,
                    (fst lp)\<lparr>in_shm := Some shm, in_mRingBuffer := True,
                      in_mRingBufferSize := IasAvbVideoRingBufferShm.mBufferSize (vs_ring shm), in_mThread := True,
                      in_mIpcName := ipcName, in_mOptimalFillLevel := optimalFillLevel\<rparr>, snd lp)
      })"

definition in_start :: "IasLocalVideoInStream \<Rightarrow> IasAvbProcessingResult \<times> IasLocalVideoInStream" where
  "in_start l =
     (if \<not> in_mThread l then (eIasAvbProcNotInitialized, l)
      else (eIasAvbProcOK, l\<lparr>in_mThreadIsRunning := True\<rparr>))"

definition in_stop :: "IasLocalVideoInStream \<Rightarrow> IasAvbProcessingResult \<times> IasLocalVideoInStream" where
  "in_stop l =
     (if \<not> in_mThread l then (eIasAvbProcNotInitialized, l)
      else (eIasAvbProcOK, l\<lparr>in_mThreadIsRunning := False\<rparr>))"

definition in_cleanup :: "IasLocalVideoInStream \<Rightarrow> IasLocalVideoInStream" where
  "in_cleanup l =
     (snd (in_stop l))\<lparr>in_mIpcName := [], in_mThread := False, in_mRingBuffer := False, in_mRingBufferSize := 0\<rparr>"

type_synonym in_state = "IasLocalVideoInStream \<times> IasAvbPacketPool \<times> dma_memory"

text \<open>A write to the local buffer, if there is one.\<close>

definition on_buffer ::
  "(video_state \<Rightarrow> (u32 \<times> video_state) option) \<Rightarrow> in_state \<Rightarrow> in_state option" where
  "on_buffer f st =
     (let (l, pool, mem) = st in
      case mLocalVideoBuffer l of
        None \<Rightarrow> Some st
      | Some b \<Rightarrow> map_option (\<lambda>(_, b, pool, mem). (l\<lparr>mLocalVideoBuffer := Some b\<rparr>, pool, mem)) (f (b, pool, mem)))"

text \<open>An RTP packet: its 12 byte header is taken off unless it has an extension.\<close>

definition eventOnNewPacketH264 :: "u8 list \<Rightarrow> u32 \<Rightarrow> in_state \<Rightarrow> in_state option" where
  "eventOnNewPacketH264 rtp n st =
     (if ucast (lvs_mMaxPacketSize (fst st)) \<ge> n then do {
        rtpSequenceNumber \<leftarrow> ntohs_at rtp 2;
        rtpTimestamp \<leftarrow> load32 rtp 4;
        mptField \<leftarrow> fetch rtp 1;
        flags \<leftarrow> fetch rtp 0;
        let plain = (flags AND 0x10 = 0);
        let descPacket = video_desc
          \<lparr>rtpSequenceNumber := rtpSequenceNumber, rtpTimestamp := rtpTimestamp, isIec61883Packet := False,
           mptField := mptField, buffer_data := Some (if plain then drop 12 rtp else rtp),
           buffer_size := (if plain then n - 12 else n)\<rparr>;
        on_buffer (lvb_writeH264 descPacket) ((fst st)\<lparr>in_mRtpSequNrLast := rtpSequenceNumber\<rparr>, snd st)
      }
      else Some st)"

definition ts_desc :: "bool \<Rightarrow> u8 list \<Rightarrow> u32 \<Rightarrow> IasVideoDesc" where
  "ts_desc sph bytes n =
     video_desc\<lparr>hasSph := sph, isIec61883Packet := True, buffer_data := Some bytes, buffer_size := n\<rparr>"

text \<open>The chunks of as many transport stream packets as an AVB packet takes, and the rest.\<close>

function mpegts_chunks :: "bool \<Rightarrow> u32 \<Rightarrow> u32 \<Rightarrow> u32 \<Rightarrow> u8 list \<Rightarrow> in_state \<Rightarrow> in_state option" where
  "mpegts_chunks sph width maxTsps tsps bytes st =
     (if 0 < maxTsps \<and> tsps > maxTsps
      then Option.bind (on_buffer (lvb_writeMpegTS (ts_desc sph bytes (maxTsps * width))) st)
             (mpegts_chunks sph width maxTsps (tsps - maxTsps) (drop (unat (maxTsps * width)) bytes))
      else if 0 \<noteq> tsps then on_buffer (lvb_writeMpegTS (ts_desc sph bytes (tsps * width))) st
      else Some st)"
  by auto
termination
  by (relation "measure (\<lambda>(sph, width, maxTsps, tsps, bytes, st). unat tsps)")
    (auto simp: word_less_nat_alt unat_sub_small)

declare mpegts_chunks.simps [simp del]

definition eventOnNewPacketMpegTS :: "bool \<Rightarrow> u8 list \<Rightarrow> u32 \<Rightarrow> in_state \<Rightarrow> in_state option" where
  "eventOnNewPacketMpegTS sph bytes n st =
     (let width = (if sph then 192 else 188) in
      if 0 \<noteq> n mod width then Some st
      else mpegts_chunks sph width (ucast (lvs_mMaxPacketSize (fst st)) div 192) (n div width) bytes st)"

definition put_ring :: "IasAvbVideoRingBufferShm \<Rightarrow> IasLocalVideoInStream \<Rightarrow> IasLocalVideoInStream" where
  "put_ring r l = l\<lparr>in_shm := map_option (\<lambda>shm. shm\<lparr>vs_ring := r\<rparr>) (in_shm l)\<rparr>"

text \<open>One packet is taken over from the ring. The number of packets that \<^verbatim>\<open>beginAccess\<close> grants is not looked
  at. Both assertions compare the result of the function instead of that of \<^verbatim>\<open>endAccess\<close> and always hold.\<close>

definition copyJob :: "int \<Rightarrow> u64 \<Rightarrow> in_state \<Rightarrow> (IasAvbProcessingResult \<times> in_state) option" where
  "copyJob tid now st =
     (if \<not> in_mRingBuffer (fst st) \<or> in_mRingBufferSize (fst st) = 0 then None
      else do {
        shm \<leftarrow> in_shm (fst st);
        let (res, off, _, r) = beginAccess eIasRingBufferAccessRead tid (Some 0) (Some 1) now (vs_ring shm);
        if res \<noteq> eIasRingBuffOk
        then Some (eIasAvbProcErr, put_ring (snd (endAccess eIasRingBufferAccessRead tid 0 now r)) (fst st), snd st)
        else do {
          position \<leftarrow> off;
          let slot = drop (unat (position * in_mRingBufferSize (fst st))) (vs_data shm);
          let st = (put_ring r (fst st), snd st);
          st \<leftarrow> (if lvs_mFormat (fst st) = eIasAvbVideoFormatRtp then do {
                   n \<leftarrow> load64 slot 0;
                   eventOnNewPacketH264 (drop 8 slot) (ucast n) st
                 }
                 else do {
                   sph \<leftarrow> fetch slot 0;
                   n \<leftarrow> load64 slot 8;
                   eventOnNewPacketMpegTS (sph \<noteq> 0) (drop 16 slot) (ucast n) st
                 });
          Some (eIasAvbProcOK, put_ring (snd (endAccess eIasRingBufferAccessRead tid 1 now r)) (fst st), snd st)
        }
      })"

text \<open>A round of the thread, with the answer of \<^verbatim>\<open>waitRead\<close>.\<close>

definition in_round :: "int \<Rightarrow> u64 \<Rightarrow> IasVideoRingBufferResult \<Rightarrow> in_state \<Rightarrow> in_state option" where
  "in_round tid now waited st =
     (if in_mThreadIsRunning (fst st) \<and> waited \<noteq> eIasRingBuffTimeOut then map_option snd (copyJob tid now st)
      else Some st)"

section \<open>From the network to shared memory\<close>

record IasLocalVideoOutStream = IasLocalVideoStream +
  out_mIpcName :: string
  out_shm :: "video_shm option"
  out_mOptimalFillLevel :: u32
  out_mWriteCount :: u32

definition out_new :: "u16 \<Rightarrow> IasLocalVideoOutStream" where
  "out_new streamId = IasLocalVideoStream.extend (lvs_new eIasAvbReceiveFromNetwork eIasLocalVideoOutStream streamId)
     (IasLocalVideoOutStream.fields [] None 0 0)"

definition out_cleanup :: "IasLocalVideoOutStream \<Rightarrow> IasLocalVideoOutStream" where
  "out_cleanup l = l\<lparr>out_mIpcName := []\<rparr>"

type_synonym out_pool = "IasLocalVideoOutStream \<times> IasAvbPacketPool"

definition out_init ::
  "video_env \<Rightarrow> string \<Rightarrow> u16 \<Rightarrow> u16 \<Rightarrow> IasAvbVideoFormat \<Rightarrow> u16 \<Rightarrow> u32 \<Rightarrow> bool \<Rightarrow> out_pool \<Rightarrow>
     (IasAvbProcessingResult \<times> out_pool) option" where
  "out_init env ipcName maxPacketRate maxPacketSize format numPackets optimalFillLevel internalBuffers lp =
     (if out_mIpcName (fst lp) \<noteq> [] then Some (eIasAvbProcInitializationFailed, lp)
      else if 0 = maxPacketSize \<or> ipcName = [] then Some (eIasAvbProcInvalidParam, lp)
      else do {
        (result, lp) \<leftarrow> lvs_init env format 0 maxPacketRate maxPacketSize internalBuffers lp;
        if result \<noteq> eIasAvbProcOK then Some (result, lp)
        else if \<not> ve_shm_init env then map_option (Pair eIasAvbProcNotEnoughMemory) (lvs_cleanup lp)
        else
          case createRingBuffer env numPackets (ucast maxPacketSize + sizeof_TransferPacket format) of
            None \<Rightarrow> map_option (Pair eIasAvbProcInitializationFailed) (lvs_cleanup lp)
          | Some shm \<Rightarrow>
              Some (eIasAvbProcOK,
                    (fst lp)\<lparr>out_shm := Some shm, out_mIpcName := ipcName, out_mOptimalFillLevel := optimalFillLevel\<rparr>,
                    snd lp)
      })"

text \<open>The bytes that a packet of each kind puts into a buffer of the ring; of the flag \<^verbatim>\<open>sph\<close> and the size only
  the bytes of the members are written.\<close>

definition transfer_H264 :: "nat \<Rightarrow> u32 \<Rightarrow> u8 list \<Rightarrow> u8 list \<Rightarrow> u8 list option" where
  "transfer_H264 position n bytes segment =
     do {
       segment \<leftarrow> blit segment position (le_bytes 8 (ucast n :: u64));
       bytes \<leftarrow> slice bytes 0 (unat n);
       blit segment (position + 8) bytes
     }"

definition transfer_MpegTS :: "nat \<Rightarrow> bool \<Rightarrow> u32 \<Rightarrow> u8 list \<Rightarrow> u8 list \<Rightarrow> u8 list option" where
  "transfer_MpegTS position sph n bytes segment =
     do {
       segment \<leftarrow> blit segment (position + 8) (le_bytes 8 (ucast n :: u64));
       segment \<leftarrow> store segment position (if sph then 1 else 0);
       bytes \<leftarrow> slice bytes 0 (unat n);
       blit segment (position + 16) bytes
     }"

text \<open>Both functions \<^verbatim>\<open>pushPayload\<close>, up to what they put into the buffer. The first argument of the ring's
  functions, the process, has no influence on writing.\<close>

definition pushPayload ::
  "(nat \<Rightarrow> u8 list \<Rightarrow> u8 list option) \<Rightarrow> u64 \<Rightarrow> IasLocalVideoOutStream \<Rightarrow>
     (IasAvbProcessingResult \<times> IasLocalVideoOutStream) option" where
  "pushPayload transfer now l =
     (case out_shm l of
        None \<Rightarrow> Some (eIasAvbProcErr, l)
      | Some shm \<Rightarrow> do {
          let (res, off, n, r) = beginAccess eIasRingBufferAccessWrite 1 (Some 0) (Some 1) now (vs_ring shm);
          if res \<noteq> eIasRingBuffOk then Some (eIasAvbProcErr, l\<lparr>out_shm := Some (shm\<lparr>vs_ring := r\<rparr>)\<rparr>)
          else do {
            position \<leftarrow> off;
            numPackets \<leftarrow> n;
            let start = unat (position * IasAvbVideoRingBufferShm.mBufferSize r);
            segment \<leftarrow> (if 0 \<noteq> numPackets then transfer start (vs_data shm) else Some (vs_data shm));
            let (res, r) = endAccess eIasRingBufferAccessWrite 1 (if 0 \<noteq> numPackets then 1 else 0) now r;
            Some (if res \<noteq> eIasRingBuffOk then eIasAvbProcErr else eIasAvbProcOK,
                  l\<lparr>out_shm := Some \<lparr>vs_ring = r, vs_data = segment\<rparr>\<rparr>)
          }
        })"

definition pushNull :: "u64 \<Rightarrow> IasLocalVideoOutStream \<Rightarrow> IasAvbProcessingResult \<times> IasLocalVideoOutStream" where
  "pushNull now l =
     (case out_shm l of
        None \<Rightarrow> (eIasAvbProcErr, l)
      | Some shm \<Rightarrow>
          let (_, _, _, r) = beginAccess eIasRingBufferAccessWrite 1 (Some 0) (Some 0) now (vs_ring shm);
              (_, r) = endAccess eIasRingBufferAccessWrite 1 0 now r
          in (eIasAvbProcOK, l\<lparr>out_shm := Some (shm\<lparr>vs_ring := r\<rparr>)\<rparr>))"

text \<open>The RTP header is written in place, over the header of the received packet.\<close>

definition rtp_header :: "IasVideoDesc \<Rightarrow> u8 list" where
  "rtp_header d =
     [0x80, mptField d] @ htons_bytes (rtpSequenceNumber d) @ le_bytes 4 (rtpTimestamp d) @ htonl_bytes 0x4120db95"

definition out_writeLocalVideoBuffer ::
  "IasVideoDesc option \<Rightarrow> u64 \<Rightarrow> IasLocalVideoOutStream \<Rightarrow>
     (IasAvbProcessingResult \<times> IasLocalVideoOutStream) option" where
  "out_writeLocalVideoBuffer descPacket now l =
     (case Option.bind descPacket (\<lambda>d. map_option (Pair d) (rtpPacketPtr d)) of
        None \<Rightarrow> Some (pushNull now l)
      | Some (d, rtpBase) \<Rightarrow>
          if \<not> isIec61883Packet d then do {
            rtp \<leftarrow> blit rtpBase 0 (rtp_header d);
            let l = l\<lparr>out_mWriteCount := (if out_mWriteCount l mod 8000 = 0 then 1 else out_mWriteCount l + 1)\<rparr>;
            pushPayload (\<lambda>position. transfer_H264 position (buffer_size d + 12) rtp) now l
          }
          else do {
            bytes \<leftarrow> buffer_data d;
            pushPayload (\<lambda>position. transfer_MpegTS position True (buffer_size d) bytes) now l
          })"

end
