(* ===== verification/Avb_Video_Stream.thy ===== *)
theory Avb_Video_Stream
  imports Local_Video_Stream
begin

text \<open>
  \<^verbatim>\<open>IasAvbVideoStream\<close> (\<^verbatim>\<open>IasAvbVideoStream.hpp/.cpp\<close>): an AVB stream that carries H.264 over RTP or MPEG
  transport streams between the network and a local video stream. The record extends \<open>IasAvbStream\<close>, and its
  virtual functions fill a \<open>stream_vtable\<close>; \<^verbatim>\<open>preparePacket\<close> is overridden. What the stream reaches through
  pointers is its field \<open>av_heap\<close>: the local video streams and the memory of the packets. Members that are
  only logged are left out. \<open>vse_ptp\<close> is the time of the PTP proxy (\<open>None\<close> without a proxy), \<open>vse_lockState\<close>
  the state of the clock domain. The result \<open>None\<close> is undefined behaviour, which includes a violated
  assertion.
\<close>

definition cCompatibilityVideo :: string where "cCompatibilityVideo = ''compatibility.video''"
definition cVideoAvtpHeaderSize :: nat where "cVideoAvtpHeaderSize = 24"
definition cRtppHeaderSize :: nat where "cRtppHeaderSize = 12"
definition cEthHeaderSize :: nat where "cEthHeaderSize = 18"
definition cCIPHeaderSize :: nat where "cCIPHeaderSize = 8"
definition cVideoValidateNever :: u32 where "cVideoValidateNever = 0"
definition cVideoValidateOnce :: u32 where "cVideoValidateOnce = 1"
definition cVideoValidateAlways :: u32 where "cVideoValidateAlways = 2"

section \<open>State\<close>

datatype local_video = Video_In IasLocalVideoInStream | Video_Out IasLocalVideoOutStream

text \<open>The functions of the base class work on the members of the base class.\<close>

primrec lv_base :: "local_video \<Rightarrow> IasLocalVideoStream" where
  "lv_base (Video_In l) = IasLocalVideoStream.truncate l"
| "lv_base (Video_Out l) = IasLocalVideoStream.truncate l"

primrec put_base :: "IasLocalVideoStream \<Rightarrow> local_video \<Rightarrow> local_video" where
  "put_base b (Video_In l) = Video_In (IasLocalVideoStream.extend b (IasLocalVideoStream.more l))"
| "put_base b (Video_Out l) = Video_Out (IasLocalVideoStream.extend b (IasLocalVideoStream.more l))"

record video_heap =
  vh_locals :: "nat \<Rightarrow> local_video"
  vh_memory :: dma_memory

datatype video_compatibility = eCompCurrent | eComp1722aD5 | eComp1722aD9

record IasAvbVideoStream = IasAvbStream +
  mVideoFormat :: IasAvbVideoFormat
  mVideoFormatCode :: u8
  mCompatibility :: video_compatibility
  av_mLocalStream :: "nat option"
  av_mMaxPacketRate :: u16
  av_mMaxPacketSize :: u16
  mLaunchTimeDelta :: u32
  av_mPacketLaunchTime :: u64
  av_mSeqNum :: u8
  mRtpSeqHighByte :: u8
  av_mWaitForData :: bool
  av_mValidationMode :: u32
  av_mNumSkippedPackets :: u32
  av_mValidationThreshold :: u32
  av_mValidationCount :: u32
  mRefPaneSampleCount :: u32
  mRefPaneSampleTime :: u32
  mDatablockSeqNum :: u8
  av_heap :: video_heap

record video_stream_env =
  vse_registry :: "registry option"
  vse_stream :: stream_env
  vse_sourceMac :: "u8 list option"
  vse_ptp :: "u64 option"
  vse_lockState :: IasAvbLockState
  vse_now :: u64

text \<open>The constructor leaves \<^verbatim>\<open>mRefPaneSampleCount\<close> and \<^verbatim>\<open>mRefPaneSampleTime\<close> uninitialised.\<close>

definition video_new :: "u32 \<Rightarrow> u32 \<Rightarrow> video_heap \<Rightarrow> IasAvbVideoStream" where
  "video_new samples time h = IasAvbStream.extend (stream_new eIasAvbVideoStream)
     (IasAvbVideoStream.fields eIasAvbVideoFormatRtp 0 eCompCurrent None 0 0 0 0 0 0 False cVideoValidateOnce 0 0 0
        samples time 0 h)"

definition video_isConnected :: "IasAvbVideoStream \<Rightarrow> bool" where
  "video_isConnected s \<longleftrightarrow> av_mLocalStream s \<noteq> None"

definition put_video :: "nat \<Rightarrow> local_video \<Rightarrow> IasAvbVideoStream \<Rightarrow> IasAvbVideoStream" where
  "put_video i l s = s\<lparr>av_heap := (av_heap s)\<lparr>vh_locals := (vh_locals (av_heap s))(i := l)\<rparr>\<rparr>"

text \<open>A call of the base class through a pointer. A receive stream has no pool, and its local stream no packets.\<close>

definition on_video ::
  "(IasLocalVideoStream \<times> IasAvbPacketPool \<Rightarrow> ('r \<times> IasLocalVideoStream \<times> IasAvbPacketPool) option) \<Rightarrow> nat \<Rightarrow>
     IasAvbVideoStream \<Rightarrow> ('r \<times> IasAvbVideoStream) option" where
  "on_video f i s =
     do {
       let lv = vh_locals (av_heap s) i;
       let pool = (case mPacketPool s of None \<Rightarrow> pool_new 0 | Some p \<Rightarrow> p);
       (r, l, pool) \<leftarrow> f (lv_base lv, pool);
       Some (r, put_video i (put_base l lv) (s\<lparr>mPacketPool := map_option (\<lambda>_. pool) (mPacketPool s)\<rparr>))
     }"

definition video_setClientActive :: "bool \<Rightarrow> nat \<Rightarrow> IasAvbVideoStream \<Rightarrow> IasAvbVideoStream option" where
  "video_setClientActive active i s =
     map_option snd (on_video (\<lambda>lp. map_option (Pair ()) (lvs_setClientActive active lp)) i s)"

section \<open>Formats\<close>

definition video_getFormatCode :: "IasAvbVideoFormat \<Rightarrow> u8" where
  "video_getFormatCode format = (if format = eIasAvbVideoFormatRtp then 3 else 0)"

definition getVideoFormatCode :: "IasAvbVideoFormat \<Rightarrow> u8" where
  "getVideoFormatCode format = (if format = eIasAvbVideoFormatRtp then 2 else 0)"

fun hex_string :: "nat \<Rightarrow> string" where
  "hex_string n =
     (if n < 16 then [''0123456789abcdef'' ! n] else hex_string (n div 16) @ [''0123456789abcdef'' ! (n mod 16)])"

declare hex_string.simps [simp del]

text \<open>The compatibility mode: that of the stream if configured, else the general one.\<close>

definition video_compat :: "registry option \<Rightarrow> IasAvbStreamId \<Rightarrow> video_compatibility" where
  "video_compat reg streamId =
     (let key = cCompatibilityVideo @ ''.h.264.'' @ hex_string (unat (IasAvbStreamId.mStreamId streamId));
          (found, comp) = getConfigValue_text reg key [];
          comp = (if found then comp else snd (getConfigValue_text reg cCompatibilityVideo []))
      in if comp = ''D5_1722a'' then eComp1722aD5
         else if comp = ''D9_1722a'' then eComp1722aD9
         else eCompCurrent)"

section \<open>Connection and activation\<close>

definition video_connect_local :: "nat \<Rightarrow> IasAvbVideoStream \<Rightarrow> (IasAvbProcessingResult \<times> IasAvbVideoStream) option"
where
  "video_connect_local i s =
     (let l = lv_base (vh_locals (av_heap s) i) in
      if 0 = av_mMaxPacketRate s \<or> 0 = av_mMaxPacketSize s \<or> av_mMaxPacketRate s \<noteq> lvs_mMaxPacketRate l \<or>
         av_mMaxPacketSize s \<noteq> lvs_mMaxPacketSize l \<or> IasAvbStream.mDirection s \<noteq> lvs_mDirection l
      then Some (eIasAvbProcInvalidParam, s)
      else do {
        (result, s) \<leftarrow> on_video (\<lambda>(l, pool). Some (fst (lvs_connect True l), snd (lvs_connect True l), pool)) i s;
        (result, s) \<leftarrow>
          (if lvs_mDirection l = eIasAvbTransmitToNetwork \<and> result = eIasAvbProcOK
           then on_video (\<lambda>(l, pool). Some (fst (lvs_setAvbPacketPool True l), snd (lvs_setAvbPacketPool True l), pool)) i s
           else Some (result, s));
        if result \<noteq> eIasAvbProcOK then Some (result, s)
        else do {
          s \<leftarrow> video_setClientActive (isTransmitStream s \<and> mActive s) i s;
          Some (eIasAvbProcOK, s\<lparr>av_mLocalStream := Some i\<rparr>)
        }
      })"

definition video_connectTo :: "nat option \<Rightarrow> IasAvbVideoStream \<Rightarrow> (IasAvbProcessingResult \<times> IasAvbVideoStream) option"
where
  "video_connectTo localStream s =
     (if \<not> isInitialized s then Some (eIasAvbProcNotInitialized, s)
      else if localStream = av_mLocalStream s then Some (eIasAvbProcOK, s)
      else do {
        s \<leftarrow> (case av_mLocalStream s of
                None \<Rightarrow> Some s
              | Some i \<Rightarrow> map_option (\<lambda>(_, s). s\<lparr>av_mLocalStream := None\<rparr>) (on_video lvs_disconnect i s));
        case localStream of None \<Rightarrow> Some (eIasAvbProcOK, s) | Some i \<Rightarrow> video_connect_local i s
      })"

definition video_derivedCleanup :: "IasAvbVideoStream \<Rightarrow> IasAvbVideoStream option" where
  "video_derivedCleanup s =
     do {
       s \<leftarrow> (if video_isConnected s then map_option snd (video_connectTo None s) else Some s);
       Some (s\<lparr>av_mMaxPacketRate := 0, av_mMaxPacketSize := 0, mLaunchTimeDelta := 0\<rparr>)
     }"

definition video_activationChanged :: "IasAvbVideoStream \<Rightarrow> IasAvbVideoStream option" where
  "video_activationChanged s =
     (let s = (if mActive s then s\<lparr>av_mWaitForData := True, av_mPacketLaunchTime := 0\<rparr> else s) in
      case av_mLocalStream s of
        None \<Rightarrow> Some s
      | Some i \<Rightarrow> video_setClientActive (mActive s) i s)"

section \<open>The packet template\<close>

definition video_template :: "u8 list \<Rightarrow> IasAvbVideoStream \<Rightarrow> u8 list \<Rightarrow> u8 list option" where
  "video_template sourceMac s bytes =
     (let h264 = (3 = video_getFormatCode (mVideoFormat s)) in
      do {
        bytes \<leftarrow> blit bytes 0 (take cIasAvbMacAddressLength (mDmac s));
        bytes \<leftarrow> blit bytes 6 (take cIasAvbMacAddressLength sourceMac);
        bytes \<leftarrow> blit bytes 12 [0x81, 0x00];
        bytes \<leftarrow> blit bytes 14 (htons_bytes (mVlanData s));
        bytes \<leftarrow> blit bytes 16 [0x22, 0xF0];
        bytes \<leftarrow> put8 0 (video_getFormatCode (mVideoFormat s)) bytes;
        bytes \<leftarrow> put8 1 (if h264 then 0x81 else 0x80) bytes;
        bytes \<leftarrow> put8 3 0x00 bytes;
        streamId \<leftarrow> mAvbStreamId s;
        bytes \<leftarrow> copyStreamId_loop 8 (avtpBase + 4) (IasAvbStreamId.mStreamId streamId) bytes;
        bytes \<leftarrow> blit bytes (avtpBase + 16)
          (if h264 then if mCompatibility s = eComp1722aD5 then [getVideoFormatCode (mVideoFormat s), 0, 0, 1]
                        else [getVideoFormatCode (mVideoFormat s), 1, 0, 0]
           else [0, 0, 0, 0]);
        if h264 then put8 23 0 bytes else blit bytes (avtpBase + 22) [0x5F, 0xA0]
      })"

text \<open>The length of the template and the offset of the payload.\<close>

definition template_length :: "IasAvbVideoStream \<Rightarrow> nat" where
  "template_length s =
     (if 3 = video_getFormatCode (mVideoFormat s) \<and> mCompatibility s = eCompCurrent then 46 else 42)"

definition video_payload_offset :: "IasAvbVideoStream \<Rightarrow> nat" where
  "video_payload_offset s =
     (if 3 = video_getFormatCode (mVideoFormat s)
      then if mCompatibility s = eComp1722aD5 \<or> mCompatibility s = eComp1722aD9
           then cEthHeaderSize + cVideoAvtpHeaderSize else cEthHeaderSize + cVideoAvtpHeaderSize + 4
      else cEthHeaderSize + cVideoAvtpHeaderSize + cCIPHeaderSize)"

definition video_prepareAllPackets ::
  "video_stream_env \<Rightarrow> IasAvbVideoStream \<Rightarrow> (IasAvbProcessingResult \<times> IasAvbVideoStream) option" where
  "video_prepareAllPackets env s =
     (if \<not> isInitialized s \<or> \<not> isTransmitStream s then None
      else do {
        pool \<leftarrow> mPacketPool s;
        (referencePacket, pool) \<leftarrow> getPacket pool;
        let s = s\<lparr>mPacketPool := Some pool\<rparr>;
        case (referencePacket, vse_sourceMac env) of
          (Some r, Some sourceMac) \<Rightarrow> do {
            pk \<leftarrow> deref pool r;
            let mem = vh_memory (av_heap s);
            bytes \<leftarrow> video_template sourceMac s (load_packet mem (vaddr pk) (mPacketSize pool));
            let mem = save_packet (vaddr pk) bytes mem;
            pool \<leftarrow> update_packet
              (\<lambda>pk. pk\<lparr>len := of_nat (template_length s), mPayloadOffset := video_payload_offset s\<rparr>) r pool;
            (result, pool, mem) \<leftarrow> initAllPacketsFromTemplate (deref pool r) (pool, mem);
            (_, pool) \<leftarrow> returnPacket (Some r) pool;
            Some (result, s\<lparr>mPacketPool := Some pool, av_heap := (av_heap s)\<lparr>vh_memory := mem\<rparr>\<rparr>)
          }
        | _ \<Rightarrow> Some (eIasAvbProcInitializationFailed, s)
      })"

section \<open>Transmission\<close>

definition video_resetTime :: "bool \<Rightarrow> video_stream_env \<Rightarrow> IasAvbVideoStream \<Rightarrow> IasAvbVideoStream option" where
  "video_resetTime hard env s =
     (case vse_ptp env of
        None \<Rightarrow> Some s
      | Some localTime \<Rightarrow>
          if localTime = 0 then None
          else
            let launchDelta = localTime - av_mPacketLaunchTime s;
                s = (if hard \<or> 0 = mRefPaneSampleTime s
                     then s\<lparr>av_mPacketLaunchTime := localTime, mRefPaneSampleTime := ucast localTime\<rparr>
                     else if 0 <s launchDelta
                     then s\<lparr>av_mPacketLaunchTime := av_mPacketLaunchTime s + launchDelta,
                            mRefPaneSampleTime := mRefPaneSampleTime s + ucast launchDelta\<rparr>
                     else s)
            in Some (s\<lparr>mRefPaneSampleCount := 0\<rparr>))"

text \<open>The end of both functions that complete a packet.\<close>

definition advance_pane :: "IasAvbVideoStream \<Rightarrow> IasAvbVideoStream" where
  "advance_pane s =
     s\<lparr>mRefPaneSampleTime := mRefPaneSampleTime s + mLaunchTimeDelta s,
       av_mPacketLaunchTime := av_mPacketLaunchTime s + ucast (mLaunchTimeDelta s)\<rparr>"

definition lock_byte :: "video_stream_env \<Rightarrow> IasAvbVideoStream \<Rightarrow> u8 option" where
  "lock_byte env s =
     map_option (\<lambda>_. if vse_lockState env = eIasAvbLockStateLocked then 0x00 else 0x01) (mAvbClockDomain s)"

text \<open>The time stamps in front of the transport stream packets.\<close>

function stamp_sph :: "nat \<Rightarrow> nat \<Rightarrow> u32 \<Rightarrow> u8 list \<Rightarrow> u8 list option" where
  "stamp_sph i n ts bytes =
     (if i < n then Option.bind (put32 i ts bytes) (stamp_sph (i + 192) n ts) else Some bytes)"
  by auto
termination by (relation "measure (\<lambda>(i, n, ts, bytes). n - i)") auto

declare stamp_sph.simps [simp del]

text \<open>The header of an H.264 packet. The time stamp of RTP is copied as it is in memory.\<close>

definition finalize_h264 :: "IasVideoDesc \<Rightarrow> u16 \<Rightarrow> IasAvbVideoStream \<Rightarrow> u8 list \<Rightarrow> u8 list option" where
  "finalize_h264 d streamDataLength s bytes =
     do {
       let marker = (mptField d AND 0x80 \<noteq> 0);
       bytes \<leftarrow> (if mCompatibility s = eComp1722aD5 \<or> mCompatibility s = eComp1722aD9
                 then blit bytes (avtpBase + 12) (le_bytes 4 (rtpTimestamp d))
                 else do {
                   bytes \<leftarrow> put32 12 (mRefPaneSampleTime s + mPresentationTimeOffset s) bytes;
                   blit bytes (avtpBase + 24) (le_bytes 4 (rtpTimestamp d))
                 });
       bytes \<leftarrow> put8 2 (ucast (rtpSequenceNumber d)) bytes;
       bytes \<leftarrow> put16 20 streamDataLength bytes;
       put8 22 (case mCompatibility s of
                  eComp1722aD5 \<Rightarrow> (if marker then 0x04 else 0x00)
                | eComp1722aD9 \<Rightarrow> (if marker then 0x10 else 0x00)
                | eCompCurrent \<Rightarrow> (if marker then 0x10 else 0x00) OR 0x20) bytes
     }"

definition finalize_ts ::
  "IasVideoDesc \<Rightarrow> u16 \<Rightarrow> IasAvbVideoStream \<Rightarrow> u8 list \<Rightarrow> (u8 list \<times> IasAvbVideoStream) option" where
  "finalize_ts d streamDataLength s bytes =
     do {
       bytes \<leftarrow> blit bytes (avtpBase + 12) [0, 0, 0, 0];
       bytes \<leftarrow> put8 2 (av_mSeqNum s) bytes;
       bytes \<leftarrow> put16 20 streamDataLength bytes;
       bytes \<leftarrow> blit bytes (avtpBase + 24) [63, 0x06, 0xC4, mDatablockSeqNum s, 0xA0, 0x00, 0x00, 0x00];
       bytes \<leftarrow> (if hasSph d then Some bytes
                 else stamp_sph 32 (unat streamDataLength) (mRefPaneSampleTime s + mPresentationTimeOffset s) bytes);
       Some (bytes, s\<lparr>av_mSeqNum := av_mSeqNum s + 1,
                      mDatablockSeqNum := mDatablockSeqNum s + ucast (streamDataLength div 24)\<rparr>)
     }"

definition finalizeAvbPacket ::
  "video_stream_env \<Rightarrow> IasVideoDesc \<Rightarrow> IasAvbVideoStream \<Rightarrow> (bool \<times> IasAvbVideoStream) option" where
  "finalizeAvbPacket env d s =
     (if \<not> isInitialized s \<or> \<not> mActive s \<or> \<not> isTransmitStream s then Some (False, s)
      else do {
        r \<leftarrow> avbPacket d;
        pool \<leftarrow> mPacketPool s;
        s \<leftarrow> (if 0 = av_mPacketLaunchTime s then video_resetTime True env s else Some s);
        pk \<leftarrow> deref pool r;
        let bytes = load_packet (vh_memory (av_heap s)) (vaddr pk) (mPacketSize pool);
        pool \<leftarrow> update_packet (\<lambda>pk. pk\<lparr>attime := av_mPacketLaunchTime s\<rparr>) r pool;
        let streamDataLength = ucast (len pk) - of_nat (mPayloadOffset pk);
        (bytes, s) \<leftarrow>
          (if isIec61883Packet d then finalize_ts d (streamDataLength + of_nat cCIPHeaderSize) s bytes
           else map_option (\<lambda>bytes. (bytes, s)) (finalize_h264 d streamDataLength s bytes));
        lock \<leftarrow> lock_byte env s;
        bytes \<leftarrow> put8 3 lock bytes;
        Some (True, advance_pane (s\<lparr>mPacketPool := Some pool,
          av_heap := (av_heap s)\<lparr>vh_memory := save_packet (vaddr pk) bytes (vh_memory (av_heap s))\<rparr>\<rparr>))
      })"

definition prepareDummyAvbPacket ::
  "video_stream_env \<Rightarrow> pkt_ref \<Rightarrow> IasAvbVideoStream \<Rightarrow> (bool \<times> IasAvbVideoStream) option" where
  "prepareDummyAvbPacket env r s =
     (if \<not> isInitialized s \<or> \<not> mActive s \<or> \<not> isTransmitStream s then Some (False, s)
      else do {
        pool \<leftarrow> mPacketPool s;
        s \<leftarrow> (if 0 = av_mPacketLaunchTime s then video_resetTime True env s else Some s);
        pk \<leftarrow> deref pool r;
        let bytes = load_packet (vh_memory (av_heap s)) (vaddr pk) (mPacketSize pool);
        bytes \<leftarrow> put16 20 0 bytes;
        pool \<leftarrow> update_packet (\<lambda>pk. pk\<lparr>attime := av_mPacketLaunchTime s,
          len := of_nat (cIasAvbPerFrameOverhead + cVideoAvtpHeaderSize)\<rparr>) r pool;
        lock \<leftarrow> lock_byte env s;
        bytes \<leftarrow> put8 3 lock bytes;
        Some (True, advance_pane (s\<lparr>mPacketPool := Some pool,
          av_heap := (av_heap s)\<lparr>vh_memory := save_packet (vaddr pk) bytes (vh_memory (av_heap s))\<rparr>\<rparr>))
      })"

text \<open>A packet that could not be completed goes back to the pool.\<close>

definition dispose_refused ::
  "pkt_ref \<Rightarrow> bool \<times> IasAvbVideoStream \<Rightarrow> (pkt_ref option \<times> IasAvbVideoStream) option" where
  "dispose_refused r x =
     (case x of
        (True, s) \<Rightarrow> Some (Some r, s)
      | (False, s) \<Rightarrow> do {
          pool \<leftarrow> mPacketPool s;
          (_, pool) \<leftarrow> returnPacket (Some r) pool;
          Some (None, s\<lparr>mPacketPool := Some pool\<rparr>)
        })"

definition video_preparePacket ::
  "video_stream_env \<Rightarrow> u64 \<Rightarrow> IasAvbVideoStream \<Rightarrow> (pkt_ref option \<times> IasAvbVideoStream) option" where
  "video_preparePacket env nextWindowStart s =
     (case av_mLocalStream s of
        None \<Rightarrow> Some (None, s)
      | Some i \<Rightarrow>
          if \<not> isInitialized s \<or> \<not> isTransmitStream s then Some (None, s)
          else do {
            (descPacket, s) \<leftarrow>
              on_video (\<lambda>(l, pool). map_option (\<lambda>(_, d, l). (d, l, pool)) (lvs_readLocalVideoBuffer video_desc l)) i s;
            case avbPacket descPacket of
              Some r \<Rightarrow> Option.bind (finalizeAvbPacket env descPacket s) (dispose_refused r)
            | None \<Rightarrow> do {
                pool \<leftarrow> mPacketPool s;
                (packet, pool) \<leftarrow> getDummyPacket pool;
                let s = s\<lparr>mPacketPool := Some pool\<rparr>;
                case packet of
                  None \<Rightarrow> Some (None, s)
                | Some r \<Rightarrow> Option.bind (prepareDummyAvbPacket env r s) (dispose_refused r)
              }
          })"

definition video_writeToAvbPacket ::
  "pkt_ref \<Rightarrow> u64 \<Rightarrow> IasAvbVideoStream \<Rightarrow> (bool \<times> IasAvbVideoStream) option" where
  "video_writeToAvbPacket packet nextWindowStart s = Some (False, s)"

section \<open>Reception\<close>

text \<open>The checks on a packet of \<open>n\<close> bytes. The length of the data is a \<^verbatim>\<open>size_t\<close>, and eight less may wrap around.\<close>

definition validate_video :: "u8 list \<Rightarrow> nat \<Rightarrow> u16 \<Rightarrow> IasVideoDesc \<Rightarrow> (IasAvbStreamState \<times> IasVideoDesc) option" where
  "validate_video bytes n payloadLength d =
     (if n < cVideoAvtpHeaderSize then Some (eIasAvbStreamInvalidData, d)
      else do {
        subtype \<leftarrow> fetch bytes 0;
        if subtype = 0x00 then do {
          let d = d\<lparr>isIec61883Packet := True\<rparr>;
          tag \<leftarrow> fetch bytes 22;
          if tag AND 0x40 \<noteq> 0x40 then Some (eIasAvbStreamInvalidData, d)
          else do {
            sph \<leftarrow> fetch bytes 26;
            let bufferSize = (ucast payloadLength :: u64) - of_nat cCIPHeaderSize;
            Some (if of_nat (n - cVideoAvtpHeaderSize) \<ge> bufferSize then eIasAvbStreamValid else eIasAvbStreamInvalidData,
                  d\<lparr>hasSph := (sph AND 0x4 = 0x4)\<rparr>)
          }
        }
        else if subtype = 0x03 then do {
          let d = d\<lparr>isIec61883Packet := False\<rparr>;
          format \<leftarrow> fetch bytes 16;
          Some (if format = 0x02 \<and> n - cVideoAvtpHeaderSize \<ge> unat payloadLength
                then eIasAvbStreamValid else eIasAvbStreamInvalidData, d)
        }
        else Some (eIasAvbStreamInvalidData, d)
      })"

definition count_video_diag :: "(IasAvbStreamDiagnostics \<Rightarrow> IasAvbStreamDiagnostics) \<Rightarrow> IasAvbVideoStream \<Rightarrow> IasAvbVideoStream" where
  "count_video_diag f s = s\<lparr>IasAvbStream.mDiag := f (IasAvbStream.mDiag s)\<rparr>"

text \<open>The new state that a packet leads to, with the descriptor as far as it is filled in.\<close>

definition judge_validated ::
  "u8 list \<Rightarrow> nat \<Rightarrow> u16 \<Rightarrow> IasVideoDesc \<Rightarrow> IasAvbVideoStream \<Rightarrow>
     (IasAvbStreamState \<times> IasVideoDesc \<times> IasAvbVideoStream) option" where
  "judge_validated bytes n payloadLength d s =
     (if cVideoValidateAlways = av_mValidationMode s \<or> mStreamState s \<noteq> eIasAvbStreamValid then do {
        (newState, d) \<leftarrow> validate_video bytes n payloadLength d;
        Some (newState, d, if newState \<noteq> eIasAvbStreamValid
                           then count_video_diag (\<lambda>x. x\<lparr>unsupportedFormat := unsupportedFormat x + 1\<rparr>) s else s)
      }
      else Some (eIasAvbStreamInvalidData, d, s))"

definition judge_sequence ::
  "u8 list \<Rightarrow> IasAvbStreamState \<times> IasVideoDesc \<times> IasAvbVideoStream \<Rightarrow>
     (IasAvbStreamState \<times> IasVideoDesc \<times> IasAvbVideoStream) option" where
  "judge_sequence bytes x =
     (let (newState, d, s) = x in
      if mStreamStateInternal s \<noteq> eIasAvbStreamValid then Some x
      else do {
        seqNum \<leftarrow> fetch bytes 2;
        if seqNum = av_mSeqNum s + 1 then do {
          subtype \<leftarrow> fetch bytes 0;
          Some (eIasAvbStreamValid, d\<lparr>isIec61883Packet := (subtype = 0x00)\<rparr>,
                if subtype \<noteq> 0x00 \<and> seqNum < av_mSeqNum s then s\<lparr>mRtpSeqHighByte := mRtpSeqHighByte s + 1\<rparr> else s)
        }
        else Some (eIasAvbStreamInvalidData, d,
                   count_video_diag (\<lambda>x. x\<lparr>seqNumMismatch := seqNumMismatch x + 1\<rparr>) s)
      })"

definition judge_video ::
  "u8 list \<Rightarrow> nat \<Rightarrow> u16 \<Rightarrow> IasAvbVideoStream \<Rightarrow> (IasAvbStreamState \<times> IasVideoDesc \<times> IasAvbVideoStream) option" where
  "judge_video bytes n payloadLength s =
     do {
       let s = count_video_diag (\<lambda>x. x\<lparr>framesRx := framesRx x + 1\<rparr>) s;
       (newState, d, s) \<leftarrow>
         (if cVideoValidateNever = av_mValidationMode s then Some (eIasAvbStreamValid, video_desc, s)
          else Option.bind (judge_validated bytes n payloadLength video_desc s) (judge_sequence bytes));
       seqNum \<leftarrow> fetch bytes 2;
       Some (newState, d\<lparr>rtpSequenceNumber := push_bit 8 (ucast (mRtpSeqHighByte s)) OR ucast seqNum\<rparr>,
             s\<lparr>av_mSeqNum := seqNum\<rparr>)
     }"

text \<open>The activity of the client, if there is one.\<close>

definition tell_client :: "bool \<Rightarrow> IasAvbVideoStream \<Rightarrow> IasAvbVideoStream option" where
  "tell_client active s =
     (case av_mLocalStream s of None \<Rightarrow> Some s | Some i \<Rightarrow> video_setClientActive active i s)"

definition video_new_state :: "IasAvbStreamState \<Rightarrow> IasAvbVideoStream \<Rightarrow> IasAvbVideoStream option" where
  "video_new_state newState s =
     do {
       let oldState = mStreamStateInternal s;
       s \<leftarrow> (if newState = eIasAvbStreamValid \<and> av_mValidationCount s > 0 then
               let s = s\<lparr>av_mValidationCount := av_mValidationCount s - 1\<rparr> in
               if 0 = av_mValidationCount s then tell_client True (s\<lparr>mStreamState := newState\<rparr>) else Some s
             else Some s);
       if newState \<noteq> oldState then
         let s = s\<lparr>mStreamStateInternal := newState\<rparr> in
         if oldState = eIasAvbStreamValid
         then tell_client False (s\<lparr>av_mValidationCount := av_mValidationThreshold s, mStreamState := newState\<rparr>)
         else Some s
       else Some s
     }"

text \<open>The data of a packet as it is handed over.\<close>

definition received_desc ::
  "u8 list \<Rightarrow> u16 \<Rightarrow> video_compatibility \<Rightarrow> IasVideoDesc \<Rightarrow> IasVideoDesc option" where
  "received_desc bytes payloadLength compatMode d =
     do {
       let old = (compatMode = eComp1722aD5 \<or> compatMode = eComp1722aD9);
       let d = (if \<not> isIec61883Packet d
                then d\<lparr>buffer_data := Some (drop 24 bytes), rtpPacketPtr := Some (drop (if old then 12 else 16) bytes),
                       buffer_size := ucast payloadLength\<rparr>
                else d\<lparr>buffer_data := Some (drop 32 bytes), buffer_size := ucast payloadLength - of_nat cCIPHeaderSize,
                       rtpPacketPtr := Some (drop 12 bytes)\<rparr>);
       flags \<leftarrow> fetch bytes 22;
       ts \<leftarrow> (if old then load32 bytes 12 else if flags AND 0x20 \<noteq> 0 then load32 bytes 24 else Some 0);
       let marker = (flags AND (if compatMode = eComp1722aD5 then 0x04 else 0x10) \<noteq> 0);
       Some (d\<lparr>dts := 0, pts := 0, rtpTimestamp := ts, mptField := (if marker then 0xE0 else 0x60)\<rparr>)
     }"

text \<open>\<^verbatim>\<open>writeLocalVideoBuffer\<close> through the pointer; the base class does nothing.\<close>

definition write_local_video ::
  "video_stream_env \<Rightarrow> IasVideoDesc option \<Rightarrow> nat \<Rightarrow> IasAvbVideoStream \<Rightarrow> IasAvbVideoStream option" where
  "write_local_video env d i s =
     (case vh_locals (av_heap s) i of
        Video_In _ \<Rightarrow> Some s
      | Video_Out l \<Rightarrow> map_option (\<lambda>(_, l). put_video i (Video_Out l) s) (out_writeLocalVideoBuffer d (vse_now env) l))"

definition video_readFromAvbPacket ::
  "video_stream_env \<Rightarrow> u8 list option \<Rightarrow> nat \<Rightarrow> IasAvbVideoStream \<Rightarrow> IasAvbVideoStream option" where
  "video_readFromAvbPacket env packet n s =
     (if \<not> isInitialized s \<or> \<not> isReceiveStream s then Some s
      else case packet of
        None \<Rightarrow> do {
          s \<leftarrow> video_new_state eIasAvbStreamNoData (s\<lparr>av_mWaitForData := True\<rparr>);
          i \<leftarrow> av_mLocalStream s;
          write_local_video env None i s
        }
      | Some bytes \<Rightarrow> do {
          payloadLength \<leftarrow> ntohs_at bytes 20;
          (newState, d, s) \<leftarrow> judge_video bytes n payloadLength s;
          s \<leftarrow> video_new_state newState s;
          case av_mLocalStream s of
            None \<Rightarrow> Some s
          | Some i \<Rightarrow>
              if newState = eIasAvbStreamValid \<and> payloadLength \<noteq> 0
              then Option.bind (received_desc bytes payloadLength (mCompatibility s) d)
                     (\<lambda>d. write_local_video env (Some d) i s)
              else Some s
        })"

section \<open>Initialisation\<close>

definition video_vtable :: "video_stream_env \<Rightarrow> IasAvbVideoStream stream_vtable" where
  "video_vtable env =
     \<lparr>v_activationChanged = video_activationChanged, v_derivedCleanup = video_derivedCleanup,
      v_readFromAvbPacket = video_readFromAvbPacket env, v_writeToAvbPacket = video_writeToAvbPacket\<rparr>"

definition check_video_format :: "u16 \<Rightarrow> u16 \<Rightarrow> nat \<Rightarrow> IasAvbProcessingResult" where
  "check_video_format maxPacketRate maxPacketSize limit =
     (if 0 = maxPacketRate \<or> 0 = maxPacketSize then eIasAvbProcInvalidParam
      else if limit < unat maxPacketSize then eIasAvbProcUnsupportedFormat
      else eIasAvbProcOK)"

definition video_tspec :: "IasAvbSrClass \<Rightarrow> u16 \<Rightarrow> u16 \<Rightarrow> IasAvbTSpec" where
  "video_tspec srClass maxPacketSize maxIntervalFrames =
     \<lparr>mMaxFrameSize = maxPacketSize + 24, mClass = srClass, mMaxIntervalFrames = maxIntervalFrames\<rparr>"

definition video_initTransmit_body ::
  "video_stream_env \<Rightarrow> IasAvbSrClass \<Rightarrow> u16 \<Rightarrow> u16 \<Rightarrow> IasAvbVideoFormat \<Rightarrow> IasAvbStreamId \<Rightarrow> u32 \<Rightarrow> nat option \<Rightarrow>
     u8 list \<Rightarrow> bool \<Rightarrow> IasAvbVideoStream \<Rightarrow> (IasAvbProcessingResult \<times> IasAvbVideoStream) option" where
  "video_initTransmit_body env srClass maxPacketRate maxPacketSize format streamId poolSize clockDomain dmac
     preconfigured s =
     (let t = env_tables (vse_stream env);
          packetsPerSec = getPacketsPerSecondByClass t srClass;
          frames = (if 0 \<noteq> packetsPerSec then ucast ((ucast maxPacketRate + packetsPerSec - 1) div packetsPerSec) else 1);
          tSpec = video_tspec srClass maxPacketSize frames;
          result = check_video_format maxPacketRate maxPacketSize (1500 - cVideoAvtpHeaderSize - cRtppHeaderSize)
      in if result \<noteq> eIasAvbProcOK then Some (result, s)
         else do {
           (result, s) \<leftarrow> initTransmit (video_vtable env) (vse_stream env) tSpec streamId poolSize clockDomain dmac
                            (getVlanId t tSpec) preconfigured s;
           if result \<noteq> eIasAvbProcOK then Some (result, s)
           else if packetsPerSec * ucast frames = 0 then None
           else do {
             sid \<leftarrow> mAvbStreamId s;
             video_prepareAllPackets env
               (s\<lparr>mCompatibility := video_compat (vse_registry env) sid, av_mMaxPacketRate := maxPacketRate,
                  av_mMaxPacketSize := maxPacketSize, mVideoFormat := format,
                  mLaunchTimeDelta := ucast ((1000000000 :: u64) div ucast (packetsPerSec * ucast frames))\<rparr>)
           }
         })"

definition video_initReceive_body ::
  "video_stream_env \<Rightarrow> IasAvbSrClass \<Rightarrow> u16 \<Rightarrow> u16 \<Rightarrow> IasAvbVideoFormat \<Rightarrow> IasAvbStreamId \<Rightarrow> u8 list \<Rightarrow> u16 \<Rightarrow> bool \<Rightarrow>
     IasAvbVideoStream \<Rightarrow> (IasAvbProcessingResult \<times> IasAvbVideoStream) option" where
  "video_initReceive_body env srClass maxPacketRate maxPacketSize format streamId dmac vid preconfigured s =
     (let result = check_video_format maxPacketRate maxPacketSize 1500; reg = vse_registry env
      in if result \<noteq> eIasAvbProcOK then Some (result, s)
         else do {
           (result, s) \<leftarrow> initReceive (video_vtable env) (vse_stream env) (video_tspec srClass maxPacketSize 1) streamId
                            dmac vid preconfigured s;
           if result \<noteq> eIasAvbProcOK then Some (result, s)
           else do {
             sid \<leftarrow> mAvbStreamId s;
             let threshold = snd (getConfigValue ucast reg cRxValidationThreshold 100);
             Some (eIasAvbProcOK,
                   s\<lparr>mCompatibility := video_compat reg sid,
                     av_mValidationMode := snd (getConfigValue ucast reg cRxValidationMode (av_mValidationMode s)),
                     av_mValidationThreshold := threshold, av_mValidationCount := threshold, av_mWaitForData := True,
                     av_mNumSkippedPackets := 1, av_mMaxPacketRate := maxPacketRate, av_mMaxPacketSize := maxPacketSize,
                     mVideoFormat := format, mVideoFormatCode := video_getFormatCode format\<rparr>)
           }
         })"

text \<open>The frame around both: a stream is initialised once, and cleaned up after an error.\<close>

definition video_init_with ::
  "video_stream_env \<Rightarrow> (IasAvbVideoStream \<Rightarrow> (IasAvbProcessingResult \<times> IasAvbVideoStream) option) \<Rightarrow>
     IasAvbVideoStream \<Rightarrow> (IasAvbProcessingResult \<times> IasAvbVideoStream) option" where
  "video_init_with env body s =
     (if isInitialized s then Some (eIasAvbProcInitializationFailed, s)
      else do {
        (result, s) \<leftarrow> body s;
        if result \<noteq> eIasAvbProcOK then map_option (Pair result) (stream_cleanup (video_vtable env) s)
        else Some (result, s)
      })"

definition video_initTransmit ::
  "video_stream_env \<Rightarrow> IasAvbSrClass \<Rightarrow> u16 \<Rightarrow> u16 \<Rightarrow> IasAvbVideoFormat \<Rightarrow> IasAvbStreamId \<Rightarrow> u32 \<Rightarrow> nat option \<Rightarrow>
     u8 list \<Rightarrow> bool \<Rightarrow> IasAvbVideoStream \<Rightarrow> (IasAvbProcessingResult \<times> IasAvbVideoStream) option" where
  "video_initTransmit env srClass maxPacketRate maxPacketSize format streamId poolSize clockDomain dmac preconfigured =
     video_init_with env (video_initTransmit_body env srClass maxPacketRate maxPacketSize format streamId poolSize
       clockDomain dmac preconfigured)"

definition video_initReceive ::
  "video_stream_env \<Rightarrow> IasAvbSrClass \<Rightarrow> u16 \<Rightarrow> u16 \<Rightarrow> IasAvbVideoFormat \<Rightarrow> IasAvbStreamId \<Rightarrow> u8 list \<Rightarrow> u16 \<Rightarrow> bool \<Rightarrow>
     IasAvbVideoStream \<Rightarrow> (IasAvbProcessingResult \<times> IasAvbVideoStream) option" where
  "video_initReceive env srClass maxPacketRate maxPacketSize format streamId dmac vid preconfigured =
     video_init_with env (video_initReceive_body env srClass maxPacketRate maxPacketSize format streamId dmac vid
       preconfigured)"

end
