(* ===== verification/Video_Interface.thy ===== *)
theory Video_Interface
  imports Avb_Video_Stream Stream_Map
begin

text \<open>
  \<^verbatim>\<open>IasVideoStreamInterface\<close> (\<^verbatim>\<open>IasVideoStreamInterface.hpp/.cpp\<close>): the owner of the local video streams,
  with one map for each direction. A map holds the streams themselves; other components change them through
  pointers between the calls. \<open>vi_env\<close> holds the answers from outside: memory for the objects and what
  the set-up of a local stream asks for. The result \<open>None\<close> is a NULL dereference.
\<close>

definition cVideoInNumPackets :: string where "cVideoInNumPackets = ''video.in.numpackets''"
definition cVideoOutNumPackets :: string where "cVideoOutNumPackets = ''video.out.numpackets''"

section \<open>State\<close>

record IasVideoStreamInterface =
  vi_mIsInitialized :: bool
  vi_mRunning :: bool
  mVideoInStreams :: "(u16 \<times> IasLocalVideoInStream) list"
  mVideoOutStreams :: "(u16 \<times> IasLocalVideoOutStream) list"

record vi_env =
  vie_registry :: "registry option"
  vie_video :: video_env
  vie_new :: bool

record IasLocalVideoStreamAttributes =
  lva_direction :: IasAvbStreamDirection
  lva_type :: IasLocalStreamType
  lva_streamId :: u16
  lva_format :: IasAvbVideoFormat
  lva_maxPacketRate :: u16
  lva_maxPacketSize :: u16
  lva_internalBuffers :: bool

definition vi_new :: IasVideoStreamInterface where
  "vi_new = \<lparr>vi_mIsInitialized = False, vi_mRunning = False, mVideoInStreams = [], mVideoOutStreams = []\<rparr>"

definition vi_init :: "IasVideoStreamInterface \<Rightarrow> IasAvbProcessingResult \<times> IasVideoStreamInterface" where
  "vi_init v = (eIasAvbProcOK, v\<lparr>vi_mIsInitialized := True\<rparr>)"

section \<open>Starting and stopping\<close>

text \<open>The loop ends at the first stream that does not start.\<close>

primrec start_in_streams ::
  "(u16 \<times> IasLocalVideoInStream) list \<Rightarrow> IasAvbProcessingResult \<times> (u16 \<times> IasLocalVideoInStream) list" where
  "start_in_streams [] = (eIasAvbProcOK, [])"
| "start_in_streams (x # xs) =
     (let (result, s) = in_start (snd x) in
      if result \<noteq> eIasAvbProcOK then (result, (fst x, s) # xs)
      else let (result, xs) = start_in_streams xs in (result, (fst x, s) # xs))"

definition vi_stop :: "IasVideoStreamInterface \<Rightarrow> IasAvbProcessingResult \<times> IasVideoStreamInterface" where
  "vi_stop v =
     (eIasAvbProcOK,
      if vi_mRunning v
      then v\<lparr>mVideoInStreams := map (\<lambda>(k, s). (k, snd (in_stop s))) (mVideoInStreams v), vi_mRunning := False\<rparr>
      else v)"

definition vi_start :: "IasVideoStreamInterface \<Rightarrow> IasAvbProcessingResult \<times> IasVideoStreamInterface" where
  "vi_start v =
     (if \<not> vi_mIsInitialized v then (eIasAvbProcNotInitialized, v)
      else
        let (result, xs) = start_in_streams (mVideoInStreams v);
            v = v\<lparr>vi_mRunning := True, mVideoInStreams := xs\<rparr>
        in (result, if result \<noteq> eIasAvbProcOK then snd (vi_stop v) else v))"

definition vi_cleanup :: "IasVideoStreamInterface \<Rightarrow> IasVideoStreamInterface" where
  "vi_cleanup v = v\<lparr>mVideoInStreams := [], mVideoOutStreams := []\<rparr>"

section \<open>The streams\<close>

definition createVideoInStream ::
  "vi_env \<Rightarrow> u16 \<Rightarrow> u16 \<Rightarrow> IasAvbVideoFormat \<Rightarrow> string \<Rightarrow> u16 \<Rightarrow> IasVideoStreamInterface \<Rightarrow>
     (IasAvbProcessingResult \<times> IasVideoStreamInterface) option" where
  "createVideoInStream env maxPacketRate maxPacketSize format ipcName streamId v =
     (if \<not> vi_mRunning v then Some (eIasAvbProcNotInitialized, v)
      else if map_of (mVideoInStreams v) streamId \<noteq> None then Some (eIasAvbProcInvalidParam, v)
      else if \<not> vie_new env then Some (eIasAvbProcNotEnoughMemory, v)
      else do {
        let numPackets = snd (getConfigValue ucast (vie_registry env) cVideoInNumPackets 800);
        (result, s, _) \<leftarrow> in_init (vie_video env) ipcName maxPacketRate maxPacketSize format numPackets
          (ucast (numPackets div 2)) False (in_new streamId, pool_new 0);
        let (result, s) = (if result = eIasAvbProcOK then in_start s else (result, s));
        Some (result, if result = eIasAvbProcOK
                      then v\<lparr>mVideoInStreams := put_stream streamId s (mVideoInStreams v)\<rparr> else v)
      })"

definition createVideoOutStream ::
  "vi_env \<Rightarrow> u16 \<Rightarrow> u16 \<Rightarrow> IasAvbVideoFormat \<Rightarrow> string \<Rightarrow> u16 \<Rightarrow> IasVideoStreamInterface \<Rightarrow>
     (IasAvbProcessingResult \<times> IasVideoStreamInterface) option" where
  "createVideoOutStream env maxPacketRate maxPacketSize format ipcName streamId v =
     (if \<not> vi_mRunning v then Some (eIasAvbProcNotInitialized, v)
      else if map_of (mVideoOutStreams v) streamId \<noteq> None then Some (eIasAvbProcInvalidParam, v)
      else if \<not> vie_new env then Some (eIasAvbProcNotEnoughMemory, v)
      else do {
        let numPackets = snd (getConfigValue ucast (vie_registry env) cVideoOutNumPackets 800);
        (result, s, _) \<leftarrow> out_init (vie_video env) ipcName maxPacketRate maxPacketSize format numPackets
          (ucast (numPackets div 2)) True (out_new streamId, pool_new 0);
        Some (result, if result = eIasAvbProcOK
                      then v\<lparr>mVideoOutStreams := put_stream streamId s (mVideoOutStreams v)\<rparr> else v)
      })"

definition createVideoStream ::
  "vi_env \<Rightarrow> IasAvbStreamDirection \<Rightarrow> u16 \<Rightarrow> u16 \<Rightarrow> IasAvbVideoFormat \<Rightarrow> string \<Rightarrow> u16 \<Rightarrow> IasVideoStreamInterface \<Rightarrow>
     (IasAvbProcessingResult \<times> IasVideoStreamInterface) option" where
  "createVideoStream env direction maxPacketRate maxPacketSize format ipcName streamId v =
     (if \<not> vi_mRunning v then Some (eIasAvbProcNotInitialized, v)
      else case direction of
        eIasAvbTransmitToNetwork \<Rightarrow> createVideoInStream env maxPacketRate maxPacketSize format ipcName streamId v
      | eIasAvbReceiveFromNetwork \<Rightarrow> createVideoOutStream env maxPacketRate maxPacketSize format ipcName streamId v)"

definition vi_getLocalVideoStream :: "u16 \<Rightarrow> IasVideoStreamInterface \<Rightarrow> local_video option" where
  "vi_getLocalVideoStream streamId v =
     (case map_of (mVideoInStreams v) streamId of
        Some s \<Rightarrow> Some (Video_In s)
      | None \<Rightarrow> map_option Video_Out (map_of (mVideoOutStreams v) streamId))"

definition destroyVideoStream :: "u16 \<Rightarrow> IasVideoStreamInterface \<Rightarrow> IasAvbProcessingResult \<times> IasVideoStreamInterface"
where
  "destroyVideoStream streamId v =
     (case map_of (mVideoInStreams v) streamId of
        Some s \<Rightarrow>
          if lvs_isConnected s then (eIasAvbProcAlreadyInUse, v)
          else (eIasAvbProcOK, v\<lparr>mVideoInStreams := erase_stream streamId (mVideoInStreams v)\<rparr>)
      | None \<Rightarrow>
          (case map_of (mVideoOutStreams v) streamId of
             Some s \<Rightarrow>
               if lvs_isConnected s then (eIasAvbProcAlreadyInUse, v)
               else (eIasAvbProcOK, v\<lparr>mVideoOutStreams := erase_stream streamId (mVideoOutStreams v)\<rparr>)
           | None \<Rightarrow> (eIasAvbProcInvalidParam, v)))"

section \<open>Information\<close>

definition video_attributes :: "'a IasLocalVideoStream_scheme \<Rightarrow> IasLocalVideoStreamAttributes option" where
  "video_attributes s =
     map_option (\<lambda>b. \<lparr>lva_direction = lvs_mDirection s, lva_type = lvs_mType s, lva_streamId = lvs_mStreamId s,
                      lva_format = lvs_mFormat s, lva_maxPacketRate = lvs_mMaxPacketRate s,
                      lva_maxPacketSize = lvs_mMaxPacketSize s, lva_internalBuffers = lvb_getInternalBuffers b\<rparr>)
       (mLocalVideoBuffer s)"

text \<open>A loop over one map: the list so far and whether the id has been found, which ends the loop.\<close>

primrec list_streams ::
  "u16 \<Rightarrow> (u16 \<times> 'a IasLocalVideoStream_scheme) list \<Rightarrow> IasLocalVideoStreamAttributes list \<times> bool \<Rightarrow>
     (IasLocalVideoStreamAttributes list \<times> bool) option" where
  "list_streams streamId [] st = Some st"
| "list_streams streamId (x # xs) st =
     (if snd st then Some st
      else do {
        infos \<leftarrow> (if streamId = 0 \<or> fst x = streamId
                  then map_option (\<lambda>a. fst st @ [a]) (video_attributes (snd x)) else Some (fst st));
        list_streams streamId xs (infos, streamId \<noteq> 0 \<and> fst x = streamId)
      })"

definition vi_getLocalStreamInfo ::
  "u16 \<Rightarrow> IasLocalVideoStreamAttributes list \<Rightarrow> IasVideoStreamInterface \<Rightarrow>
     (bool \<times> IasLocalVideoStreamAttributes list) option" where
  "vi_getLocalStreamInfo streamId infos v =
     do {
       st \<leftarrow> list_streams streamId (mVideoInStreams v) (infos, False);
       st \<leftarrow> list_streams streamId (mVideoOutStreams v) st;
       Some (snd st, fst st)
     }"

end
