(* ===== verification/Clock_Controller.thy ===== *)
theory Clock_Controller
  imports Clock_Domain Registry
begin

text \<open>
  \<^verbatim>\<open>IasAvbClockController\<close> (\<^verbatim>\<open>IasAvbClockController.hpp/.cpp\<close>): a thread that compares a master clock domain
  with a slave clock domain and tells the clock driver by which factor to change the slave. Clock domains are
  numbers and the domains themselves a heap. A round of the thread starts when a change of the slave's rate has
  been signalled; what it reads is the record \<open>cc_answer\<close>, and its results are the controller, the local
  variables of the loop, whether it asks the master domain for a reset and what it hands to the driver.

  The quotient of the rates may have the divisor 0: the values infinity and "not a number" of the C++ type are
  those of \<open>xdouble\<close>. All other values are finite as long as the configured filter coefficients do not make the
  filters diverge. Values that are only logged are left out. The result \<open>None\<close> is undefined behaviour, which
  includes an overflow of a signed integer, or a violated assertion.
\<close>

definition cClockCtrlUpperLimit :: string where "cClockCtrlUpperLimit = ''clockdriver.control.upperlimitppm''"
definition cClockCtrlLowerLimit :: string where "cClockCtrlLowerLimit = ''clockdriver.control.lowerlimitppm''"
definition cClockCtrlWaitInterval :: string where "cClockCtrlWaitInterval = ''clockdriver.control.waitintervalusec''"
definition cClockCtrlHoldOff :: string where "cClockCtrlHoldOff = ''clockdriver.control.holdoffusec''"
definition cClockCtrlGain :: string where "cClockCtrlGain = ''clockdriver.control.gain''"
definition cClockCtrlCoeff1 :: string where "cClockCtrlCoeff1 = ''clockdriver.control.coeff1''"
definition cClockCtrlCoeff2 :: string where "cClockCtrlCoeff2 = ''clockdriver.control.coeff2''"
definition cClockCtrlCoeff3 :: string where "cClockCtrlCoeff3 = ''clockdriver.control.coeff3''"
definition cClockCtrlCoeff4 :: string where "cClockCtrlCoeff4 = ''clockdriver.control.coeff4''"
definition cClockCtrlLockCount :: string where "cClockCtrlLockCount = ''clockdriver.control.lockcount''"
definition cClockCtrlLockThres :: string where "cClockCtrlLockThres = ''clockdriver.control.lockthres''"
definition cClockCtrlEngage :: string where "cClockCtrlEngage = ''clockdriver.control.engage''"

definition cWaitMin :: u32 where "cWaitMin = 1000"

section \<open>State\<close>

datatype LockState = eInit | eUnlocked | eLockingRate | eLockingPhase | eLocked | eOff

record IasAvbClockController =
  mMaster :: "nat option"
  mSlave :: "nat option"
  mClockDriver :: bool
  mDriverParam :: u32
  mEngage :: bool
  cc_mLockState :: LockState
  mUpperLimit :: double
  mLowerLimit :: double
  cc_mThread :: bool
  mSignal :: bool
  mEndThread :: bool
  mWait :: u32

record cc_env =
  cc_registry :: "registry option"
  cc_driver :: bool
  cc_threadStart :: bool
  cc_threadStop :: bool

type_synonym clock_heap = "nat \<Rightarrow> IasAvbClockDomain"

definition controller_new :: IasAvbClockController where
  "controller_new =
     \<lparr>mMaster = None, mSlave = None, mClockDriver = False, mDriverParam = 0, mEngage = True, cc_mLockState = eInit,
      mUpperLimit = fl (10001 / 10000), mLowerLimit = fl (1 / fl (10001 / 10000)), cc_mThread = False, mSignal = False,
      mEndThread = False, mWait = 25000\<rparr>"

section \<open>Set-up\<close>

definition unregister :: "nat \<Rightarrow> nat option \<Rightarrow> clock_heap \<Rightarrow> clock_heap" where
  "unregister self d h =
     (case d of None \<Rightarrow> h | Some d \<Rightarrow> h(d := snd (clock_unregisterClient (Some self) (h d))))"

definition controller_cleanup ::
  "cc_env \<Rightarrow> nat \<Rightarrow> IasAvbClockController \<times> clock_heap \<Rightarrow> IasAvbClockController \<times> clock_heap" where
  "controller_cleanup env self ch =
     (let (c, h) = ch;
          c = (if cc_mThread c \<and> cc_threadStop env
               then c\<lparr>cc_mThread := False, mEndThread := True, mSignal := True\<rparr> else c)
      in (c\<lparr>mSlave := None, mMaster := None, mClockDriver := False\<rparr>,
          unregister self (mMaster c) (unregister self (mSlave c) h)))"

text \<open>\<^verbatim>\<open>1.0 + (double(ppm) * 0.000001)\<close>.\<close>

definition ppm_factor :: "u64 \<Rightarrow> double" where
  "ppm_factor ppm = dadd 1 (dmul (double_of_u64 ppm) (fl (1 / 1000000)))"

definition setLimits :: "registry option \<Rightarrow> IasAvbClockController \<Rightarrow> IasAvbClockController option" where
  "setLimits reg c =
     (let (found, ppm) = getConfigValue id reg cClockCtrlUpperLimit 0;
          c = (if found then c\<lparr>mUpperLimit := ppm_factor ppm\<rparr> else c);
          (found, ppm) = getConfigValue id reg cClockCtrlLowerLimit ppm
      in if found then map_option (\<lambda>q. c\<lparr>mLowerLimit := q\<rparr>) (ddiv 1 (ppm_factor ppm)) else Some c)"

definition controller_init ::
  "cc_env \<Rightarrow> nat \<Rightarrow> nat option \<Rightarrow> nat option \<Rightarrow> u32 \<Rightarrow> IasAvbClockController \<times> clock_heap \<Rightarrow>
     (IasAvbProcessingResult \<times> IasAvbClockController \<times> clock_heap) option" where
  "controller_init env self master slave driverParam ch =
     do {
       let (c, h) = ch;
       (ret, c, h) \<leftarrow>
         (case (master, slave) of
            (Some m, Some s) \<Rightarrow> do {
              c \<leftarrow> setLimits (cc_registry env) (c\<lparr>mClockDriver := cc_driver env\<rparr>);
              let wait = snd (getConfigValue ucast (cc_registry env) cClockCtrlWaitInterval (mWait c));
              let (found, engage) = getConfigValue id (cc_registry env) cClockCtrlEngage 1;
              let c = c\<lparr>mWait := (if wait < cWaitMin then cWaitMin else wait),
                       mEngage := (if found then engage \<noteq> 0 else mEngage c), mDriverParam := driverParam\<rparr>;
              Some (if \<not> mClockDriver c then (eIasAvbProcInitializationFailed, c, h)
                    else
                      let c = c\<lparr>cc_mLockState := eInit, mMaster := master, mSlave := slave\<rparr>;
                          (ret, ds) = clock_registerClient (Some self) (h s);
                          h = h(s := ds)
                      in if ret \<noteq> eIasAvbProcOK then (ret, c, h)
                         else let (ret, dm) = clock_registerClient (Some self) (h m) in (ret, c, h(m := dm)))
            }
          | _ \<Rightarrow> Some (eIasAvbProcInvalidParam, c, h));
       let (ret, c) = (if ret \<noteq> eIasAvbProcOK then (ret, c)
                       else if cc_threadStart env then (ret, c\<lparr>cc_mThread := True, mEndThread := False\<rparr>)
                       else (eIasAvbProcThreadStartFailed, c));
       Some (if ret \<noteq> eIasAvbProcOK then (ret, controller_cleanup env self (c, h)) else (ret, c, h))
     }"

definition controller_shutDown :: "IasAvbClockController \<Rightarrow> IasAvbClockController" where
  "controller_shutDown c = c\<lparr>mEndThread := True, mSignal := True\<rparr>"

section \<open>Notifications\<close>

definition notifyUpdateRatio :: "nat \<Rightarrow> IasAvbClockController \<Rightarrow> IasAvbClockController" where
  "notifyUpdateRatio domain c = (if mSlave c = Some domain then c\<lparr>mSignal := True\<rparr> else c)"

definition notifyUpdateLockState :: "nat \<Rightarrow> IasAvbLockState \<Rightarrow> IasAvbClockController \<Rightarrow> IasAvbClockController" where
  "notifyUpdateLockState domain newState c =
     (if mMaster c \<noteq> None \<and> mSlave c \<noteq> None \<and> (mMaster c = Some domain \<or> mSlave c = Some domain) \<and>
         newState \<noteq> eIasAvbLockStateLocked \<and> cc_mLockState c \<notin> {eInit, eUnlocked}
      then c\<lparr>cc_mLockState := eUnlocked\<rparr> else c)"

section \<open>Values that are not finite\<close>

datatype xdouble = Num double | PInf | NInf | NaN

text \<open>Division; a divisor 0 has a sign.\<close>

definition xdiv :: "double \<Rightarrow> bool \<Rightarrow> double \<Rightarrow> xdouble" where
  "xdiv x negative y =
     (case ddiv x y of
        Some q \<Rightarrow> Num q
      | None \<Rightarrow> if x = 0 then NaN else if (0 < x) = negative then NInf else PInf)"

primrec xadd :: "xdouble \<Rightarrow> double \<Rightarrow> xdouble" where
  "xadd (Num x) y = Num (dadd x y)"
| "xadd PInf y = PInf"
| "xadd NInf y = NInf"
| "xadd NaN y = NaN"

text \<open>\<open>x > y\<close> and \<open>x < y\<close>: a comparison with "not a number" is false.\<close>

primrec xgreater :: "xdouble \<Rightarrow> double \<Rightarrow> bool" where
  "xgreater (Num x) y \<longleftrightarrow> x > y"
| "xgreater PInf y \<longleftrightarrow> True"
| "xgreater NInf y \<longleftrightarrow> False"
| "xgreater NaN y \<longleftrightarrow> False"

primrec xless :: "xdouble \<Rightarrow> double \<Rightarrow> bool" where
  "xless (Num x) y \<longleftrightarrow> x < y"
| "xless PInf y \<longleftrightarrow> False"
| "xless NInf y \<longleftrightarrow> True"
| "xless NaN y \<longleftrightarrow> False"

section \<open>The thread\<close>

record control_config =
  holdOffTime :: u64
  lockCountMax :: u64
  cc_gain :: double
  coeff1 :: double
  coeff2 :: double
  coeff3 :: double
  coeff4 :: double
  lockThreshold :: double

definition config_double :: "registry option \<Rightarrow> string \<Rightarrow> (u64 \<Rightarrow> double) \<Rightarrow> double \<Rightarrow> double \<Rightarrow> double" where
  "config_double reg key conv factor other =
     (let (found, val) = getConfigValue id reg key 0 in if found then dmul (conv val) factor else other)"

definition control_config :: "registry option \<Rightarrow> control_config" where
  "control_config reg =
     (let e6 = fl (1 / 1000000);
          (found, val) = getConfigValue id reg cClockCtrlHoldOff 0;
          c1 = config_double reg cClockCtrlCoeff1 double_of_s64 e6 (fl (1 / 2))
      in \<lparr>holdOffTime = (if found then val * 1000 else 60000000),
          lockCountMax = snd (getConfigValue id reg cClockCtrlLockCount 5),
          cc_gain = config_double reg cClockCtrlGain double_of_u64 (fl (1 / 1000000000)) (fl (1 / 10000000)),
          coeff1 = c1,
          coeff2 = config_double reg cClockCtrlCoeff2 double_of_s64 e6 (dsub 1 c1),
          coeff3 = config_double reg cClockCtrlCoeff3 double_of_s64 e6 (fl (8 / 10)),
          coeff4 = config_double reg cClockCtrlCoeff4 double_of_s64 e6 0,
          lockThreshold = config_double reg cClockCtrlLockThres double_of_u64 e6 (fl (2 / 1000000))\<rparr>)"

record control_loop =
  lastCountMaster :: s64
  lastCountSlave :: s64
  lastTimeMaster :: s64
  lastTimeSlave :: s64
  cl_offset :: s64
  holdOff :: u64
  lockCount :: u64
  lastDev :: double
  bufDev :: double
  bufRate :: double

definition control_loop_new :: control_loop where
  "control_loop_new =
     \<lparr>lastCountMaster = 0, lastCountSlave = 0, lastTimeMaster = 0, lastTimeSlave = 0, cl_offset = 0, holdOff = 0,
      lockCount = 0, lastDev = 0, bufDev = 0, bufRate = 0\<rparr>"

text \<open>What the thread does before its loop.\<close>

definition control_start :: "registry option \<Rightarrow> IasAvbClockController \<Rightarrow> (control_config \<times> control_loop) option" where
  "control_start reg c =
     (if mMaster c = None \<or> mSlave c = None \<or> \<not> mClockDriver c then None
      else Some (control_config reg, control_loop_new))"

record cc_answer =
  masterCount :: s64
  masterTime :: u64
  slaveCount :: s64
  slaveTime :: u64
  masterLocked :: bool
  masterRatio :: double
  slaveRatio :: double

text \<open>The result of a 64 bit subtraction and addition that must not overflow.\<close>

definition s64_int :: "int \<Rightarrow> s64 option" where
  "s64_int x = (if - (2 ^ 63) \<le> x \<and> x < 2 ^ 63 then Some (of_int x) else None)"

definition s64_sub :: "s64 \<Rightarrow> s64 \<Rightarrow> s64 option" where
  "s64_sub x y = s64_int (sint x - sint y)"

definition s64_add :: "s64 \<Rightarrow> s64 \<Rightarrow> s64 option" where
  "s64_add x y = s64_int (sint x + sint y)"

text \<open>The rate of a domain since the last round; 0 if its time stands still.\<close>

definition observed_rate :: "s64 \<Rightarrow> s64 \<Rightarrow> s64 \<Rightarrow> double option" where
  "observed_rate now before delta =
     (if delta = 0 then Some 0
      else Option.bind (s64_sub now before) (\<lambda>d. ddiv (double_of_s64 d) (double_of_s64 delta)))"

text \<open>What the cases of the \<^verbatim>\<open>switch\<close> use.\<close>

record measured =
  me_masterRate :: double
  me_slaveRate :: double
  me_slaveBack :: bool
  me_deviation :: double
  me_timeOffset :: double

type_synonym control_state = "LockState \<times> control_loop"

definition locking_common ::
  "control_config \<Rightarrow> cc_answer \<Rightarrow> measured \<Rightarrow> control_state \<Rightarrow> xdouble \<times> control_state" where
  "locking_common cfg a me st =
     (let (state, t) = st;
          (correction0, t) =
            (if masterTime a > holdOff t \<or> masterTime a < holdOff t - holdOffTime cfg
             then (xdiv (me_masterRate me) (me_slaveBack me) (me_slaveRate me), t\<lparr>holdOff := masterTime a + holdOffTime cfg\<rparr>)
             else (Num 1, t))
      in if state = eLockingRate then (correction0, state, t)
         else
           let deviation = me_deviation me;
               rate = dsub deviation (lastDev t);
               t = t\<lparr>lastDev := deviation,
                     bufDev := dadd (dmul (coeff1 cfg) (- deviation)) (dmul (coeff2 cfg) (bufDev t)),
                     bufRate := dadd (dmul (coeff3 cfg) (- rate)) (dmul (coeff4 cfg) (bufRate t))\<rparr>;
               correction0 = xadd correction0 (dmul (dadd (bufDev t) (bufRate t)) (cc_gain cfg));
               state = (if state = eLockingPhase \<and> \<bar>deviation\<bar> < 1 then eLocked else state)
           in if \<bar>deviation\<bar> > 10 then (Num 1, eLockingRate, t\<lparr>lockCount := 0, holdOff := 0\<rparr>)
              else (correction0, state, t))"

text \<open>The case \<^verbatim>\<open>eLockingRate\<close> either achieves the lock of the rate or falls through.\<close>

definition locking_rate ::
  "control_config \<Rightarrow> cc_answer \<Rightarrow> measured \<Rightarrow> control_loop \<Rightarrow> (xdouble \<times> control_state) option" where
  "locking_rate cfg a me t =
     (if \<bar>dsub (masterRatio a) (slaveRatio a)\<bar> < lockThreshold cfg then
        let t = t\<lparr>lockCount := lockCount t + 1\<rparr> in
        if lockCount t > lockCountMax cfg then do {
          d \<leftarrow> s64_sub (slaveCount a) (masterCount a);
          x \<leftarrow> s64_of_double (dmul (me_timeOffset me) (me_masterRate me));
          offset \<leftarrow> s64_add d x;
          Some (Num 1, eLockingPhase, t\<lparr>lockCount := 0, cl_offset := offset, lastDev := 0\<rparr>)
        }
        else Some (locking_common cfg a me (eLockingRate, t))
      else Some (locking_common cfg a me (eLockingRate, t\<lparr>lockCount := 0\<rparr>)))"

definition control_switch ::
  "control_config \<Rightarrow> cc_answer \<Rightarrow> measured \<Rightarrow> control_state \<Rightarrow> (xdouble \<times> control_state) option" where
  "control_switch cfg a me st =
     (let (state, t) = st in
      case state of
        eInit \<Rightarrow> Some (Num 1, eUnlocked, t)
      | eUnlocked \<Rightarrow>
          Some (Num 1, if masterLocked a then (eLockingRate, t\<lparr>lockCount := 0, holdOff := 0\<rparr>) else st)
      | eLockingRate \<Rightarrow> locking_rate cfg a me t
      | eLockingPhase \<Rightarrow> Some (locking_common cfg a me st)
      | eLocked \<Rightarrow> Some (locking_common cfg a me st)
      | eOff \<Rightarrow> Some (Num 1, st))"

definition limit_correction :: "IasAvbClockController \<Rightarrow> xdouble \<Rightarrow> xdouble" where
  "limit_correction c correction =
     (let correction = (if xgreater correction (mUpperLimit c) then Num (mUpperLimit c) else correction)
      in if xless correction (mLowerLimit c) then Num (mLowerLimit c) else correction)"

record control_result =
  cr_controller :: IasAvbClockController
  cr_loop :: control_loop
  cr_resetRequest :: bool
  cr_updateRelative :: "(u32 \<times> xdouble) option"

definition control_round ::
  "control_config \<Rightarrow> cc_answer \<Rightarrow> IasAvbClockController \<Rightarrow> control_loop \<Rightarrow> control_result option" where
  "control_round cfg a c t =
     do {
       let deltaTM = masterTime a - lastTimeMaster t;
       let deltaTS = slaveTime a - lastTimeSlave t;
       let timeOffset = double_of_s64 (masterTime a - slaveTime a);
       let reset = deltaTS <s 0;
       let t = (if reset then t\<lparr>holdOff := 0\<rparr> else t);
       masterRate \<leftarrow> observed_rate (masterCount a) (lastCountMaster t) deltaTM;
       slaveRate \<leftarrow> observed_rate (slaveCount a) (lastCountSlave t) deltaTS;
       d \<leftarrow> s64_sub (slaveCount a) (masterCount a);
       d \<leftarrow> s64_sub d (cl_offset t);
       let deviation = dadd (double_of_s64 d) (dmul timeOffset masterRate);
       let state = (if deltaTM = 0 \<or> deltaTS = 0 then eUnlocked else cc_mLockState c);
       (correction0, state, t) \<leftarrow> control_switch cfg a
         \<lparr>me_masterRate = masterRate, me_slaveRate = slaveRate, me_slaveBack = reset, me_deviation = deviation,
          me_timeOffset = timeOffset\<rparr> (state, t);
       if mWait c = 0 then None
       else
         let correction = limit_correction c correction0 in
         Some \<lparr>cr_controller = c\<lparr>cc_mLockState := state\<rparr>,
               cr_loop = t\<lparr>lastCountMaster := masterCount a, lastCountSlave := slaveCount a,
                           lastTimeMaster := masterTime a, lastTimeSlave := slaveTime a\<rparr>,
               cr_resetRequest = reset,
               cr_updateRelative = (if mEngage c \<and> correction \<noteq> Num 1 then Some (mDriverParam c, correction) else None)\<rparr>
     }"


text \<open>What the thread and the clock domains do with a controller, in any order; the result holds, for each round,
  the answers, the local variables before it and what was handed to the driver.\<close>

datatype cc_request = Round cc_answer | Notified nat IasAvbLockState

primrec control_run ::
  "control_config \<Rightarrow> cc_request list \<Rightarrow> IasAvbClockController \<Rightarrow> control_loop \<Rightarrow>
     (cc_answer \<times> control_loop \<times> (u32 \<times> xdouble) option) list option" where
  "control_run cfg [] c t = Some []"
| "control_run cfg (x # xs) c t =
     (case x of
        Notified domain newState \<Rightarrow> control_run cfg xs (notifyUpdateLockState domain newState c) t
      | Round a \<Rightarrow> do {
          r \<leftarrow> control_round cfg a c t;
          rest \<leftarrow> control_run cfg xs (cr_controller r) (cr_loop r);
          Some ((a, t, cr_updateRelative r) # rest)
        })"

section \<open>The limits\<close>

definition limits_ok :: "IasAvbClockController \<Rightarrow> bool" where
  "limits_ok c \<longleftrightarrow> 0 < mLowerLimit c \<and> mLowerLimit c \<le> 1 \<and> 1 \<le> mUpperLimit c"

lemma fl_1 [simp]: "fl 1 = 1"
  using fl_of_nat [of 1] by simp

lemma fl_ge_1: "1 \<le> x \<Longrightarrow> 1 \<le> fl x"
  using fl_mono [of 1 x] by simp

lemma fl_pos: "1 / 2 ^ 64 \<le> \<bar>x\<bar> \<Longrightarrow> fl x \<noteq> 0"
proof -
  assume x: "1 / 2 ^ 64 \<le> \<bar>x\<bar>"
  have "(2 :: rat) powi (- 1022) \<le> 2 powi (- 64)" by (rule powi_mono) simp
  also have "\<dots> \<le> \<bar>x\<bar>" using x by (simp add: power_int_def field_simps)
  finally have "\<bar>fl x - x\<bar> \<le> \<bar>x\<bar> / 2 ^ 53" by (rule fl_relative_error)
  moreover have "0 < \<bar>x\<bar>" by (rule less_le_trans [OF _ x]) simp
  ultimately show ?thesis by (auto simp: pos_le_divide_eq)
qed

lemma inverse_factor: "1 \<le> x \<Longrightarrow> x \<le> 2 ^ 64 \<Longrightarrow> 0 < fl (1 / x) \<and> fl (1 / x) \<le> 1"
proof -
  assume x: "1 \<le> x" "x \<le> 2 ^ 64"
  then have "1 / x \<le> 1" "1 / 2 ^ 64 \<le> 1 / x" by (simp_all add: field_simps)
  moreover have "0 \<le> 1 / x" using x(1) by simp
  ultimately show ?thesis
    using fl_mono [of "1 / x" 1] fl_pos [of "1 / x"] fl_nonneg [of "1 / x"] by auto
qed

lemma ppm_factor_bounds: "1 \<le> ppm_factor ppm" "ppm_factor ppm \<le> 2 ^ 64"
proof -
  let ?d = "double_of_u64 ppm" and ?m = "fl (1 / 1000000)"
  have d: "0 \<le> ?d" "?d \<le> 2 ^ 64"
  proof -
    show "0 \<le> ?d" unfolding double_of_u64_def by (rule fl_nonneg, rule of_nat_0_le_iff)
    have "(of_nat (unat ppm) :: rat) \<le> of_nat (2 ^ 64)"
      unfolding of_nat_le_iff using unat_lt [of ppm] by simp
    then have "fl (of_nat (unat ppm)) \<le> fl (2 ^ 64)"
      by (intro fl_mono of_nat_0_le_iff) simp
    also have "fl (2 ^ 64) = 2 ^ 64" by (rule fl_exact [of _ 1 64]) simp_all
    finally show "?d \<le> 2 ^ 64" unfolding double_of_u64_def .
  qed
  have "fl (1 / 1000000) \<le> fl (1 / 2)" by (rule fl_mono) simp_all
  also have "fl (1 / 2) = 1 / 2" by (rule fl_exact [of _ 1 "- 1"]) simp_all
  finally have m: "0 \<le> ?m" "?m \<le> 1 / 2" by (simp_all add: fl_nonneg)
  have p: "0 \<le> ?d * ?m" "?d * ?m \<le> 2 ^ 63" using mult_mono [OF d(2) m(2)] d m by simp_all
  have "fl (?d * ?m) \<le> fl (2 ^ 63)" using p by (intro fl_mono)
  also have "fl (2 ^ 63) = 2 ^ 63" by (rule fl_exact [of _ 1 63]) simp_all
  finally have q: "0 \<le> dmul ?d ?m" "dmul ?d ?m \<le> 2 ^ 63" using p by (simp_all add: dmul_def fl_nonneg)
  then show "1 \<le> ppm_factor ppm" by (simp add: ppm_factor_def dadd_def fl_ge_1)
  have "fl (1 + dmul ?d ?m) \<le> fl (2 ^ 64)" using q by (intro fl_mono) simp_all
  also have "fl (2 ^ 64) = 2 ^ 64" by (rule fl_exact [of _ 1 64]) simp_all
  finally show "ppm_factor ppm \<le> 2 ^ 64" by (simp add: ppm_factor_def dadd_def)
qed

lemma limits_new: "limits_ok controller_new"
proof -
  have "1 \<le> fl (10001 / 10000)" by (rule fl_ge_1) simp
  moreover have "fl (10001 / 10000) \<le> fl 2" by (rule fl_mono) simp_all
  moreover have "fl 2 = 2" using fl_of_nat [of 2] by simp
  ultimately show ?thesis using inverse_factor [of "fl (10001 / 10000)"] by (simp add: limits_ok_def controller_new_def)
qed

lemma limits_upper: "limits_ok c \<Longrightarrow> limits_ok (c\<lparr>mUpperLimit := ppm_factor p\<rparr>)"
  by (simp add: limits_ok_def ppm_factor_bounds)

lemma limits_lower: "limits_ok c \<Longrightarrow> ddiv 1 (ppm_factor p) = Some q \<Longrightarrow> limits_ok (c\<lparr>mLowerLimit := q\<rparr>)"
  using inverse_factor [OF ppm_factor_bounds, of p] by (auto simp: limits_ok_def ddiv_def split: if_splits)

lemma setLimits_ok: "limits_ok c \<Longrightarrow> setLimits reg c = Some c' \<Longrightarrow> limits_ok c'"
  by (auto simp: setLimits_def Let_def limits_upper split: prod.splits if_splits intro: limits_lower)


lemma controller_init_limits:
  assumes "controller_init env self m s p ch = Some (eIasAvbProcOK, c, h')" and "limits_ok (fst ch)"
  shows "limits_ok c" and "mDriverParam c = p" and "1000 \<le> mWait c"
proof -
  obtain c0 h where ch: "ch = (c0, h)" by (cases ch)
  have l: "limits_ok (c0\<lparr>mClockDriver := d\<rparr>)" for d using assms(2) by (simp add: ch limits_ok_def)
  have "limits_ok c \<and> mDriverParam c = p \<and> 1000 \<le> mWait c"
    using assms(1) setLimits_ok [OF l]
    by (auto simp: controller_init_def ch cWaitMin_def limits_ok_def Let_def not_less
        split: option.splits prod.splits if_splits elim!: option_elims)
  then show "limits_ok c" "mDriverParam c = p" "1000 \<le> mWait c" by auto
qed

section \<open>The driver\<close>

lemma limit_correction_cases:
  assumes "limits_ok c"
  shows "limit_correction c x = NaN \<and> x = NaN \<or>
    (\<exists>y. limit_correction c x = Num y \<and> mLowerLimit c \<le> y \<and> y \<le> mUpperLimit c)"
  using assms by (cases x) (auto simp: limit_correction_def limits_ok_def)

lemma fl_s64_upper: "\<bar>double_of_s64 d\<bar> \<le> 2 ^ 63"
proof -
  have "\<bar>of_int (sint d) :: rat\<bar> \<le> of_int (2 ^ 63)"
    unfolding of_int_abs [symmetric] of_int_le_iff using sint_ge [of d] sint_lt [of d] by simp
  moreover have "fl (2 ^ 63) = 2 ^ 63" by (rule fl_exact [of _ 1 63]) simp_all
  ultimately show ?thesis unfolding double_of_s64_def by (intro fl_bounded) simp_all
qed

lemma fl_s64_lower: "d \<noteq> 0 \<Longrightarrow> 1 \<le> \<bar>double_of_s64 d\<bar>"
proof -
  assume "d \<noteq> 0"
  then have "sint d \<noteq> 0" by (metis of_int_0 of_int_sint scast_id)
  then have "1 \<le> \<bar>sint d\<bar>" by linarith
  then have "1 \<le> \<bar>of_int (sint d) :: rat\<bar>" by linarith
  then show ?thesis unfolding double_of_s64_def by (intro fl_bounded_below) simp_all
qed

lemma observed_rate_zero:
  assumes "observed_rate now before delta = Some 0" and "delta \<noteq> 0"
  shows "now = before"
proof -
  obtain d where d: "s64_sub now before = Some d" and q: "ddiv (double_of_s64 d) (double_of_s64 delta) = Some 0"
    using assms by (auto simp: observed_rate_def elim!: option_elims)
  let ?x = "double_of_s64 d" and ?y = "double_of_s64 delta"
  have y: "?y \<noteq> 0" using fl_s64_lower [OF assms(2)] by auto
  have "d = 0"
  proof (rule ccontr)
    assume "d \<noteq> 0"
    then have "1 \<le> \<bar>?x\<bar>" by (rule fl_s64_lower)
    then have "1 / 2 ^ 64 \<le> \<bar>?x / ?y\<bar>" using fl_s64_upper [of delta] y
      by (simp add: abs_divide field_simps)
    then show False using fl_pos [of "?x / ?y"] q y by (simp add: ddiv_def)
  qed
  then show ?thesis using d by (auto simp: s64_sub_def s64_int_def split: if_splits)
qed


lemma locking_common_NaN:
  "locking_common cfg a me st = (NaN, st') \<Longrightarrow> me_masterRate me = 0 \<and> me_slaveRate me = 0"
proof -
  have x: "xadd x y = NaN \<longleftrightarrow> x = NaN" for x y by (cases x) simp_all
  have d: "xdiv m n z = NaN \<Longrightarrow> m = 0 \<and> z = 0" for m n z
    by (auto simp: xdiv_def ddiv_def split: if_splits)
  assume "locking_common cfg a me st = (NaN, st')"
  then show ?thesis
    by (cases st) (auto simp: locking_common_def Let_def x dest!: d split: if_splits prod.splits)
qed

lemma locking_rate_NaN:
  "locking_rate cfg a me t = Some (NaN, st') \<Longrightarrow> me_masterRate me = 0 \<and> me_slaveRate me = 0"
  by (auto simp: locking_rate_def Let_def dest: locking_common_NaN elim!: option_elims split: if_splits)

lemma control_switch_NaN:
  assumes "control_switch cfg a me (state, t) = Some (NaN, st')"
  shows "state \<noteq> eUnlocked" and "me_masterRate me = 0" and "me_slaveRate me = 0"
  using assms by (cases state; auto simp: control_switch_def dest: locking_common_NaN locking_rate_NaN)+

definition fit_for_driver :: "IasAvbClockController \<Rightarrow> cc_answer \<Rightarrow> control_loop \<Rightarrow> xdouble \<Rightarrow> bool" where
  "fit_for_driver c a t x \<longleftrightarrow>
     (case x of
        Num y \<Rightarrow> mLowerLimit c \<le> y \<and> y \<le> mUpperLimit c \<and> y \<noteq> 1
      | NaN \<Rightarrow> masterCount a = lastCountMaster t \<and> slaveCount a = lastCountSlave t \<and>
               masterTime a \<noteq> lastTimeMaster t \<and> slaveTime a \<noteq> lastTimeSlave t
      | _ \<Rightarrow> False)"

lemma fit_limits:
  "mLowerLimit c' = mLowerLimit c \<Longrightarrow> mUpperLimit c' = mUpperLimit c \<Longrightarrow>
     fit_for_driver c' a t x = fit_for_driver c a t x"
  by (cases x) (simp_all add: fit_for_driver_def)

lemma control_round_fit:
  assumes r: "control_round cfg a c t = Some r" and c: "limits_ok c"
  shows "limits_ok (cr_controller r)" and "mDriverParam (cr_controller r) = mDriverParam c"
    and "mLowerLimit (cr_controller r) = mLowerLimit c" and "mUpperLimit (cr_controller r) = mUpperLimit c"
    and "cr_updateRelative r = Some (q, x) \<Longrightarrow> q = mDriverParam c \<and> fit_for_driver c a t x"
proof -
  obtain mr sr d2 x0 st t1 t2 where
    mr: "observed_rate (masterCount a) (lastCountMaster t) (masterTime a - lastTimeMaster t) = Some mr" and
    sr: "observed_rate (slaveCount a) (lastCountSlave t) (slaveTime a - lastTimeSlave t) = Some sr" and
    sw: "control_switch cfg a \<lparr>me_masterRate = mr, me_slaveRate = sr, me_slaveBack = slaveTime a - lastTimeSlave t <s 0,
        me_deviation = d2, me_timeOffset = double_of_s64 (masterTime a - slaveTime a)\<rparr>
       (if masterTime a - lastTimeMaster t = 0 \<or> slaveTime a - lastTimeSlave t = 0 then eUnlocked else cc_mLockState c, t1)
       = Some (x0, st, t2)" and
    c': "cr_controller r = c\<lparr>cc_mLockState := st\<rparr>" and
    u: "cr_updateRelative r = (if mEngage c \<and> limit_correction c x0 \<noteq> Num 1
          then Some (mDriverParam c, limit_correction c x0) else None)"
    using r by (auto simp: control_round_def Let_def elim!: option_elims split: prod.splits if_splits)
  show "limits_ok (cr_controller r)" "mDriverParam (cr_controller r) = mDriverParam c"
    "mLowerLimit (cr_controller r) = mLowerLimit c" "mUpperLimit (cr_controller r) = mUpperLimit c"
    using c by (simp_all add: c' limits_ok_def)
  assume q: "cr_updateRelative r = Some (q, x)"
  then have x: "x = limit_correction c x0" "x \<noteq> Num 1" "q = mDriverParam c" using u by (auto split: if_splits)
  show "q = mDriverParam c \<and> fit_for_driver c a t x"
  proof (cases "limit_correction c x0 = NaN")
    case True
    then have "x0 = NaN" using limit_correction_cases [OF c, of x0] by auto
    note s = control_switch_NaN [OF sw [unfolded this]]
    have d: "masterTime a \<noteq> lastTimeMaster t" "slaveTime a \<noteq> lastTimeSlave t" using s(1) by (auto split: if_splits)
    then show ?thesis
      using observed_rate_zero [of "masterCount a" "lastCountMaster t"] observed_rate_zero [of "slaveCount a" "lastCountSlave t"]
        mr sr s(2,3) x True by (simp add: fit_for_driver_def)
  next
    case False
    then show ?thesis using limit_correction_cases [OF c, of x0] x by (auto simp: fit_for_driver_def)
  qed
qed

lemma control_run_fit:
  assumes "control_run cfg xs c t = Some outs" and "limits_ok c" and "(a, t', Some (q, x)) \<in> set outs"
  shows "q = mDriverParam c \<and> fit_for_driver c a t' x"
  using assms
proof (induction xs arbitrary: c t outs)
  case (Cons y xs)
  show ?case
  proof (cases y)
    case (Notified domain st)
    let ?c = "notifyUpdateLockState domain st c"
    have k: "limits_ok ?c" "mDriverParam ?c = mDriverParam c" "mLowerLimit ?c = mLowerLimit c" "mUpperLimit ?c = mUpperLimit c"
      using Cons.prems(2) by (simp_all add: notifyUpdateLockState_def limits_ok_def)
    then show ?thesis using Cons.IH [of ?c t outs] Cons.prems Notified by (simp add: fit_limits [OF k(3,4)])
  next
    case (Round b)
    then obtain r rest where r: "control_round cfg b c t = Some r"
      and rest: "control_run cfg xs (cr_controller r) (cr_loop r) = Some rest"
      and outs: "outs = (b, t, cr_updateRelative r) # rest"
      using Cons.prems(1) by (auto elim!: option_elims)
    note f = control_round_fit [OF r Cons.prems(2)]
    show ?thesis
      using Cons.prems(3) f(5) [of q x] Cons.IH [OF rest f(1)] f(2) unfolding outs fit_limits [OF f(3,4)] by auto
  qed
qed simp

text \<open>
  C16. Whatever the registry says, and in whatever order the clock domains notify the controller and its thread
  runs after a successful set-up of a new controller: a correction given to the clock driver carries the parameter
  of the set-up and lies between the limits, which enclose 1, and is not 1; or it is not a number, which only
  happens in a round in which neither event counter has moved although both times have.
\<close>

theorem driver_correction:
  assumes "controller_init env self m s p (controller_new, h) = Some (eIasAvbProcOK, c, h')"
    and "control_run cfg xs c t = Some outs" and "(a, t', Some (q, x)) \<in> set outs"
  shows "q = p \<and> 0 < mLowerLimit c \<and> mLowerLimit c \<le> 1 \<and> 1 \<le> mUpperLimit c \<and>
    (case x of
       Num y \<Rightarrow> mLowerLimit c \<le> y \<and> y \<le> mUpperLimit c \<and> y \<noteq> 1
     | NaN \<Rightarrow> masterCount a = lastCountMaster t' \<and> slaveCount a = lastCountSlave t' \<and>
              masterTime a \<noteq> lastTimeMaster t' \<and> slaveTime a \<noteq> lastTimeSlave t'
     | _ \<Rightarrow> False)"
proof -
  note i = controller_init_limits [OF assms(1)] limits_new
  have "limits_ok c" using i by simp
  then show ?thesis
    using control_run_fit [OF assms(2) _ assms(3)] i(2) limits_new by (simp add: fit_for_driver_def limits_ok_def)
qed


definition still :: "u64 \<Rightarrow> cc_answer" where
  "still t = \<lparr>masterCount = 0, masterTime = t, slaveCount = 0, slaveTime = t, masterLocked = True, masterRatio = 1,
              slaveRatio = 1\<rparr>"

definition example_config :: control_config where
  "example_config = \<lparr>holdOffTime = 60000000, lockCountMax = 5, cc_gain = 1, coeff1 = 1, coeff2 = 0, coeff3 = 1, coeff4 = 0,
                     lockThreshold = 1\<rparr>"

definition example_env :: cc_env where
  "example_env = \<lparr>cc_registry = None, cc_driver = True, cc_threadStart = True, cc_threadStop = True\<rparr>"

lemma rate_still: "observed_rate 0 0 d = Some 0"
proof (cases "d = 0")
  case False
  then have "double_of_s64 d \<noteq> 0" using fl_s64_lower [of d] by auto
  then show ?thesis by (simp add: observed_rate_def s64_sub_def s64_int_def double_of_s64_def ddiv_def)
qed (simp add: observed_rate_def)

lemma example_run:
  "\<exists>c h' outs t. controller_init example_env 9 (Some 0) (Some 1) 7 (controller_new, \<lambda>_. clock_new eIasAvbClockDomainSw)
       = Some (eIasAvbProcOK, c, h') \<and>
     control_run example_config (map Round [still 1, still 2, still 3]) c control_loop_new = Some outs \<and>
     (still 3, t, Some (7, NaN)) \<in> set outs"
proof -
  have z: "double_of_s64 0 = 0" by (simp add: double_of_s64_def)
  show ?thesis
    by (simp add: controller_init_def example_env_def getConfigValue_def doGetConfigValue_def setLimits_def
        controller_new_def clock_new_def clock_registerClient_def cWaitMin_def control_round_def still_def
        control_loop_new_def rate_still z s64_sub_def s64_int_def control_switch_def locking_rate_def
        locking_common_def example_config_def xdiv_def ddiv_def dsub_def dadd_def dmul_def word_sless_alt Let_def
        limit_correction_def)
qed

theorem driver_correction_witness:
  "\<exists>c outs t. control_run example_config (map Round [still 1, still 2, still 3]) c control_loop_new = Some outs \<and>
     (still 3, t, Some (7, NaN)) \<in> set outs \<and> 0 < mLowerLimit c \<and> 1 \<le> mUpperLimit c \<and>
     slaveCount (still 3) = lastCountSlave t \<and> slaveTime (still 3) \<noteq> lastTimeSlave t"
proof -
  obtain c h' outs t where e:
    "controller_init example_env 9 (Some 0) (Some 1) 7 (controller_new, \<lambda>_. clock_new eIasAvbClockDomainSw)
       = Some (eIasAvbProcOK, c, h')"
    "control_run example_config (map Round [still 1, still 2, still 3]) c control_loop_new = Some outs"
    "(still 3, t, Some (7, NaN)) \<in> set outs"
    using example_run by blast
  have "0 < mLowerLimit c" "1 \<le> mUpperLimit c" "slaveCount (still 3) = lastCountSlave t"
    "slaveTime (still 3) \<noteq> lastTimeSlave t"
    using driver_correction [OF e] by simp_all
  with e(2,3) show ?thesis by blast
qed

end
