(* ===== verification/Test_Tone.thy ===== *)
theory Test_Tone
  imports Local_Audio_Stream Audio_Stream
begin

text \<open>
  \<^verbatim>\<open>IasTestToneStream\<close> (\<^verbatim>\<open>IasTestToneStream.hpp/.cpp\<close>): a local audio stream that computes its samples. The type
  \<^verbatim>\<open>float\<close> (IEEE 754 binary32) is modelled as \<^verbatim>\<open>double\<close> is in \<open>Binary64\<close>: a finite value is the rational number
  it stands for and \<open>fl32\<close> rounds to it; overflow to infinity is not modelled. The functions \<^verbatim>\<open>powf\<close>, \<^verbatim>\<open>cosf\<close>
  and \<^verbatim>\<open>sinf\<close> are parameters. The conversion to samples is the one with SSE instructions. The result \<open>None\<close> is
  undefined behaviour or a violated assertion.
\<close>

datatype IasAvbTestToneMode =
  eIasAvbTestToneSine | eIasAvbTestTonePulse | eIasAvbTestToneSawtooth | eIasAvbTestToneFile

section \<open>Single precision\<close>

type_synonym float32 = rat

definition ulp32 :: "rat \<Rightarrow> rat" where
  "ulp32 x = 2 powi max (binade x - 23) (- 149)"

definition fl32 :: "rat \<Rightarrow> float32" where
  "fl32 x = (if x = 0 then 0 else of_int (rne (x / ulp32 x)) * ulp32 x)"

definition float_of_u32 :: "u32 \<Rightarrow> float32" where "float_of_u32 w = fl32 (of_nat (unat w))"
definition float_of_s32 :: "s32 \<Rightarrow> float32" where "float_of_s32 w = fl32 (of_int (sint w))"

definition s16_of_float :: "float32 \<Rightarrow> AudioData option" where
  "s16_of_float x = (if - (2 ^ 15) \<le> trunc x \<and> trunc x < 2 ^ 15 then Some (of_int (trunc x)) else None)"

section \<open>State\<close>

record GeneratorParams =
  gp_mode :: IasAvbTestToneMode
  userParam :: s32
  signalFreq :: u32
  level :: s32
  peak :: float32
  coeff :: float32
  buf1 :: float32
  buf2 :: float32

datatype ProcessMethod = generateSineWave | generatePulseWave | generateSawtoothWaveRising | generateSawtoothWaveFalling

record ChannelData =
  cd_params :: GeneratorParams
  cd_method :: ProcessMethod

record IasTestToneStream = IasLocalAudioStream +
  mChannels :: "ChannelData list"
  tt_mConversionGain :: float32
  tt_mUseSaturation :: bool

record tone_env =
  tt_local :: local_env
  tt_registry :: "registry option"
  powf :: "float32 \<Rightarrow> float32 \<Rightarrow> float32"
  cosf :: "float32 \<Rightarrow> float32"
  sinf :: "float32 \<Rightarrow> float32"

definition params_new :: GeneratorParams where
  "params_new =
     \<lparr>gp_mode = eIasAvbTestToneSine, userParam = 0, signalFreq = 48000, level = 0, peak = 1, coeff = 1, buf1 = 1, buf2 = 0\<rparr>"

definition tone_new :: "u16 \<Rightarrow> IasTestToneStream" where
  "tone_new streamId =
     IasLocalAudioStream.extend (local_stream_new eIasAvbTransmitToNetwork eIasTestToneStream streamId)
       (IasTestToneStream.fields [] 32767 True)"

section \<open>Set-up\<close>

definition tone_pi :: double where "tone_pi = fl (314159265358979323846 / 10 ^ 20)"

definition calcCoeff :: "tone_env \<Rightarrow> u32 \<Rightarrow> GeneratorParams \<Rightarrow> GeneratorParams option" where
  "calcCoeff env sampleFreq params =
     (if sampleFreq = 0 then None
      else
        let params = params\<lparr>peak := powf env 10 (fl32 (float_of_s32 (level params) / 20))\<rparr>;
            freq = float_of_u32 (signalFreq params);
            sampleRate = float_of_u32 sampleFreq
        in case gp_mode params of
             eIasAvbTestToneSine \<Rightarrow> do {
               q \<leftarrow> ddiv (dmul (dmul 2 tone_pi) freq) sampleRate;
               let omega = fl32 q;
               Some (params\<lparr>coeff := fl32 (2 * cosf env omega), buf1 := fl32 (peak params * sinf env omega), buf2 := 0\<rparr>)
             }
           | eIasAvbTestTonePulse \<Rightarrow>
               Some (params\<lparr>coeff := fl32 (freq / sampleRate), buf1 := 0,
                            buf2 := fl32 (fl32 (1 / 100) * float_of_s32 (userParam params))\<rparr>)
           | eIasAvbTestToneSawtooth \<Rightarrow>
               let twice = fl32 (2 * peak params)
               in Some (params\<lparr>buf2 := twice, coeff := fl32 (fl32 (twice * freq) / sampleRate), buf1 := 0\<rparr>)
           | eIasAvbTestToneFile \<Rightarrow> None)"

definition setProcessMethod :: "ChannelData \<Rightarrow> ChannelData option" where
  "setProcessMethod ch =
     (case gp_mode (cd_params ch) of
        eIasAvbTestToneSine \<Rightarrow> Some (ch\<lparr>cd_method := generateSineWave\<rparr>)
      | eIasAvbTestTonePulse \<Rightarrow> Some (ch\<lparr>cd_method := generatePulseWave\<rparr>)
      | eIasAvbTestToneSawtooth \<Rightarrow>
          Some (ch\<lparr>cd_method := (if 0 \<le>s userParam (cd_params ch) then generateSawtoothWaveRising
                                 else generateSawtoothWaveFalling)\<rparr>)
      | eIasAvbTestToneFile \<Rightarrow> None)"

text \<open>Parameters with what is computed from them.\<close>

definition channel_data :: "tone_env \<Rightarrow> u32 \<Rightarrow> GeneratorParams \<Rightarrow> ChannelData option" where
  "channel_data env sampleFreq params =
     do {
       params \<leftarrow> calcCoeff env sampleFreq params;
       setProcessMethod \<lparr>cd_params = params, cd_method = generateSineWave\<rparr>
     }"

definition tone_init ::
  "tone_env \<Rightarrow> u16 \<Rightarrow> u32 \<Rightarrow> u8 \<Rightarrow> IasTestToneStream \<Rightarrow> (IasAvbProcessingResult \<times> IasTestToneStream) option" where
  "tone_init env numChannels sampleFrequency channelLayout s =
     (if numChannels = 0 then Some (eIasAvbProcInvalidParam, s)
      else do {
        (ret, s) \<leftarrow> local_init (tt_local env) channelLayout numChannels False 0 sampleFrequency 0 s;
        if ret \<noteq> eIasAvbProcOK then Some (ret, s)
        else do {
          c \<leftarrow> channel_data env (IasLocalAudioStream.mSampleFrequency s) params_new;
          let (gainFound, gain) = getConfigValue (ucast :: u64 \<Rightarrow> u32) (tt_registry env) cAudioFloatGain 0x7FFF;
          let (satFound, sat) = getConfigValue (ucast :: u64 \<Rightarrow> u32) (tt_registry env) cAudioSaturate gain;
          Some (ret, s\<lparr>mChannels := mChannels s @ replicate (unat numChannels) c,
                       tt_mConversionGain := (if gainFound then float_of_s32 gain else tt_mConversionGain s),
                       tt_mUseSaturation := (if satFound then sat \<noteq> 0 else tt_mUseSaturation s)\<rparr>)
        }
      })"

text \<open>The base class is not cleaned up.\<close>

definition tone_cleanup :: "IasTestToneStream \<Rightarrow> IasTestToneStream" where
  "tone_cleanup s = s\<lparr>IasLocalAudioStream.mSampleFrequency := 0\<rparr>"

text \<open>The check of the parameters. A product of signed integers must not overflow.\<close>

definition check_params :: "IasAvbTestToneMode \<Rightarrow> s32 \<Rightarrow> IasAvbProcessingResult option" where
  "check_params mode param =
     (case mode of
        eIasAvbTestToneSine \<Rightarrow> Some eIasAvbProcOK
      | eIasAvbTestTonePulse \<Rightarrow> Some (if param <s 0 \<or> 100 <s param then eIasAvbProcInvalidParam else eIasAvbProcOK)
      | eIasAvbTestToneSawtooth \<Rightarrow>
          if sint param * sint param \<ge> 2 ^ 31 then None
          else Some (if param * param \<noteq> 1 then eIasAvbProcInvalidParam else eIasAvbProcOK)
      | eIasAvbTestToneFile \<Rightarrow> Some eIasAvbProcUnsupportedFormat)"

definition setChannelParams ::
  "tone_env \<Rightarrow> u16 \<Rightarrow> u32 \<Rightarrow> s32 \<Rightarrow> IasAvbTestToneMode \<Rightarrow> s32 \<Rightarrow> IasTestToneStream \<Rightarrow>
     (IasAvbProcessingResult \<times> IasTestToneStream) option" where
  "setChannelParams env channel signalFrequency newLevel mode param s =
     (if \<not> local_isInitialized s then Some (eIasAvbProcNotInitialized, s)
      else if channel \<ge> IasLocalAudioStream.mNumChannels s \<or> 2 * signalFrequency > IasLocalAudioStream.mSampleFrequency s then Some (eIasAvbProcInvalidParam, s)
      else if length (mChannels s) \<noteq> unat (IasLocalAudioStream.mNumChannels s) then None
      else do {
        result \<leftarrow> check_params mode param;
        if result \<noteq> eIasAvbProcOK then Some (result, s)
        else do {
          c \<leftarrow> fetch (mChannels s) (unat channel);
          c \<leftarrow> channel_data env (IasLocalAudioStream.mSampleFrequency s)
            ((cd_params c)\<lparr>signalFreq := signalFrequency, level := newLevel, gp_mode := mode, userParam := param\<rparr>);
          Some (result, s\<lparr>mChannels := (mChannels s)[unat channel := c]\<rparr>)
        }
      })"

section \<open>Samples\<close>

text \<open>\<^verbatim>\<open>_mm_cvtps_epi32\<close> rounds to the nearest integer, \<^verbatim>\<open>_mm_packs_epi32\<close> saturates; a value out of the range of
  32 bits becomes the smallest number first.\<close>

definition convertFloatToPcm16 :: "float32 \<Rightarrow> float32 \<Rightarrow> AudioData" where
  "convertFloatToPcm16 gain val =
     (let i = rne (fl32 (val * gain));
          b = (if - (2 ^ 31) \<le> i \<and> i < 2 ^ 31 then i else - (2 ^ 31))
      in of_int (if b > 32767 then 32767 else if b < - 32768 then - 32768 else b))"

definition to_sample :: "IasTestToneStream \<Rightarrow> float32 \<Rightarrow> AudioData option" where
  "to_sample s val =
     (if tt_mUseSaturation s then Some (convertFloatToPcm16 (tt_mConversionGain s) val)
      else s16_of_float (fl32 (val * tt_mConversionGain s)))"

text \<open>One sample of each kind of wave.\<close>

definition sine_step :: "IasTestToneStream \<Rightarrow> GeneratorParams \<Rightarrow> (AudioData \<times> GeneratorParams) option" where
  "sine_step s p =
     (let tempData = fl32 (fl32 (coeff p * buf1 p) - buf2 p)
      in map_option (\<lambda>x. (x, p\<lparr>buf2 := buf1 p, buf1 := tempData\<rparr>)) (to_sample s tempData))"

definition pulse_step :: "IasTestToneStream \<Rightarrow> GeneratorParams \<Rightarrow> (AudioData \<times> GeneratorParams) option" where
  "pulse_step s p =
     do {
       x \<leftarrow> to_sample s (peak p);
       let phase = fl32 (buf1 p + coeff p);
       Some (if buf1 p > buf2 p then - x else x, p\<lparr>buf1 := (if phase \<ge> 1 then fl32 (phase - 1) else phase)\<rparr>)
     }"

definition rising_step :: "IasTestToneStream \<Rightarrow> GeneratorParams \<Rightarrow> (AudioData \<times> GeneratorParams) option" where
  "rising_step s p =
     do {
       x \<leftarrow> to_sample s (buf1 p);
       let next = fl32 (buf1 p + coeff p);
       Some (x, p\<lparr>buf1 := (if next > peak p then fl32 (next - buf2 p) else next)\<rparr>)
     }"

definition falling_step :: "IasTestToneStream \<Rightarrow> GeneratorParams \<Rightarrow> (AudioData \<times> GeneratorParams) option" where
  "falling_step s p =
     do {
       x \<leftarrow> to_sample s (buf1 p);
       let next = fl32 (buf1 p - coeff p);
       Some (x, p\<lparr>buf1 := (if next < - peak p then fl32 (next + buf2 p) else next)\<rparr>)
     }"

primrec wave_step :: "ProcessMethod \<Rightarrow> IasTestToneStream \<Rightarrow> GeneratorParams \<Rightarrow> (AudioData \<times> GeneratorParams) option" where
  "wave_step generateSineWave = sine_step"
| "wave_step generatePulseWave = pulse_step"
| "wave_step generateSawtoothWaveRising = rising_step"
| "wave_step generateSawtoothWaveFalling = falling_step"

primrec generate ::
  "nat \<Rightarrow> ProcessMethod \<Rightarrow> IasTestToneStream \<Rightarrow> GeneratorParams \<Rightarrow> (AudioData list \<times> GeneratorParams) option" where
  "generate 0 m s p = Some ([], p)"
| "generate (Suc n) m s p =
     do {
       (x, p) \<leftarrow> wave_step m s p;
       (xs, p) \<leftarrow> generate n m s p;
       Some (x # xs, p)
     }"

definition tone_writeLocalAudioBuffer :: "IasTestToneStream \<Rightarrow> IasAvbProcessingResult \<times> IasTestToneStream" where
  "tone_writeLocalAudioBuffer s = (eIasAvbProcNotImplemented, s)"

text \<open>The result has the buffer, the number of samples (its low 16 bits) and the time stamp.\<close>

definition tone_readLocalAudioBuffer ::
  "u16 \<Rightarrow> AudioData list option \<Rightarrow> u32 \<Rightarrow> u16 \<Rightarrow> IasTestToneStream \<Rightarrow>
     (IasAvbProcessingResult \<times> AudioData list option \<times> u16 \<times> u64 \<times> IasTestToneStream) option" where
  "tone_readLocalAudioBuffer channelIdx buffer bufferSize samplesRead s =
     (if \<not> local_isInitialized s then Some (eIasAvbProcNotInitialized, buffer, samplesRead, 0, s)
      else if channelIdx \<ge> IasLocalAudioStream.mNumChannels s \<or> buffer = None \<or> bufferSize = 0
      then Some (eIasAvbProcInvalidParam, buffer, samplesRead, 0, s)
      else if length (mChannels s) \<noteq> unat (IasLocalAudioStream.mNumChannels s) then None
      else do {
        mem \<leftarrow> buffer;
        c \<leftarrow> fetch (mChannels s) (unat channelIdx);
        (xs, p) \<leftarrow> generate (unat bufferSize) (cd_method c) s (cd_params c);
        mem \<leftarrow> blit mem 0 xs;
        Some (eIasAvbProcOK, Some mem, ucast bufferSize, 0,
              s\<lparr>mChannels := (mChannels s)[unat channelIdx := c\<lparr>cd_params := p\<rparr>]\<rparr>)
      })"

end
