(* ===== verification/Stream_Handler.thy ===== *)
theory Stream_Handler
  imports Transmit_Engine Receive_Engine Alsa_Engine Video_Interface Clock_Controller Test_Tone
begin

text \<open>
  \<^verbatim>\<open>IasAvbStreamHandler\<close> (\<^verbatim>\<open>IasAvbStreamHandler.hpp/.cpp\<close>), the object behind the API: it owns the engines, the local
  streams, the clock domains and the clock controllers. Each part is the state of its own model. A clock domain is
  a number; of the domains the heap holds the part that all of them have. The handler itself is the event interface
  0 of its engines, and the clock controllers are the clients above their numbers.

  \<open>sh_env\<close> holds the answers from outside and the environments of the parts. The parameters of a stream that are
  only passed on to its set-up are one argument \<open>outcome\<close>: what the set-up makes of the MAC address, the clock
  domain and the flag for preconfigured streams. \<open>sh_address\<close> is the address of a local stream; what connecting a
  stream does to the local stream is part of the models of both streams. The calls run one after the other. The API
  mutex is held between lock and unlock; locking a mutex that is held never returns. This is one of the meanings of
  the result \<open>None\<close>, the others are undefined behaviour and a violated assertion.
\<close>

definition cIasAvbMaxNumChannels :: u16 where "cIasAvbMaxNumChannels = 738"
definition cRxClockDomainIdStart :: u32 where "cRxClockDomainIdStart = 1000"
definition cIasAvbPtpClockDomainId :: u32 where "cIasAvbPtpClockDomainId = 0"
definition cIasAvbHwCaptureClockDomainId :: u32 where "cIasAvbHwCaptureClockDomainId = 16"
definition cIasAvbRawClockDomainId :: u32 where "cIasAvbRawClockDomainId = 33"
definition cApiMutex :: string where "cApiMutex = ''api.control.mutex''"
definition cClkRecoverFrom :: string where "cClkRecoverFrom = ''clock.recover.from''"
definition cClkRecoverUsing :: string where "cClkRecoverUsing = ''clock.recover.using''"
definition cClockHwCapFrequency :: string where "cClockHwCapFrequency = ''clock.hwcapture.nominal''"
definition cPtpLoopCount :: string where "cPtpLoopCount = ''ptp.loopcount''"
definition cClockDriverFileName :: string where "cClockDriverFileName = ''clockdriver.filename''"

datatype IasAvbIdAssignMode = eIasAvbIdAssignModeStatic | eIasAvbIdAssignModeOther

section \<open>State\<close>

datatype handler_state = eIasDead | eIasInitialized | eIasStarted

text \<open>Calls that leave the program.\<close>

datatype outside_call =
    Client_Link bool
  | Client_Stream u64 IasAvbStreamState
  | Driver_Init
  | Driver_Cleanup
  | Ptp_Init
  | Ptp_CleanUp
  | Ptp_Store
  | Igb_Init
  | Igb_Shutdown

text \<open>Of the environment object: whether there is a clock driver, a network device and a PTP proxy.\<close>

record handler_environment =
  he_driver :: bool
  he_igb :: bool
  he_ptp :: bool

record 'a IasAvbStreamHandler =
  sh_mState :: handler_state
  mAvbReceiveEngine :: "'a rx_engine option"
  mAvbTransmitEngine :: "'a tx_engine option"
  mAlsaEngine :: "IasAlsaEngine option"
  mVideoStreamInterface :: "IasVideoStreamInterface option"
  mTestToneStreams :: "(u16 \<times> IasTestToneStream) list"
  mEnvironment :: "handler_environment option"
  sh_mClient :: "nat option"
  mAvbClockDomains :: "(u32 \<times> nat) list"
  mNextLocalStreamId :: u16
  mNextClockDomainId :: u32
  mClockControllers :: "(nat \<times> IasAvbClockController) list"
  mConfigPluginHandle :: "bool option"
  mPreConfigurationInProgress :: bool
  mApiMutexEnable :: bool
  mApiMutexEnableConfig :: bool
  mApiMtx :: bool
  clocks :: clock_heap
  outside :: "outside_call list"

type_synonym 'a handler = "'a IasAvbStreamHandler"

datatype local_audio = Alsa_Audio nat | Tone_Audio u16
datatype local_ref = Audio_Ref local_audio | Video_Ref u16

record 'a sh_env =
  she_registry :: "registry option"
  she_tx :: "'a txe_env"
  she_newTx :: bool
  she_txHeap :: "nat \<Rightarrow> 'a IasAvbStream_scheme"
  she_rx :: "'a rx_env"
  she_newRx :: bool
  she_alsa :: alsa_engine_env
  she_newAlsa :: bool
  she_alsaHeap :: alsa_heap
  she_video :: vi_env
  she_newVideo :: bool
  she_tone :: tone_env
  she_newTone :: bool
  she_clock :: cc_env
  she_newController :: "nat option"
  she_newClock :: "nat set \<Rightarrow> nat option"
  she_rxClock :: IasAvbClockDomain
  sh_address :: "local_ref \<Rightarrow> nat"
  she_driverInit :: bool
  she_igbInit :: bool
  she_ptpStore :: IasAvbProcessingResult

text \<open>\<^verbatim>\<open>mConfigPluginHandle\<close> is \<open>None\<close> for NULL, else whether the handle is open.\<close>

definition handler_new :: "clock_heap \<Rightarrow> 'a handler" where
  "handler_new h =
     \<lparr>sh_mState = eIasDead, mAvbReceiveEngine = None, mAvbTransmitEngine = None, mAlsaEngine = None,
      mVideoStreamInterface = None, mTestToneStreams = [], mEnvironment = None, sh_mClient = None,
      mAvbClockDomains = [], mNextLocalStreamId = 1, mNextClockDomainId = cRxClockDomainIdStart,
      mClockControllers = [], mConfigPluginHandle = None, mPreConfigurationInProgress = False,
      mApiMutexEnable = False, mApiMutexEnableConfig = True, mApiMtx = False, clocks = h, outside = []\<rparr>"

definition sh_isInitialized :: "'a handler \<Rightarrow> bool" where
  "sh_isInitialized h \<longleftrightarrow> sh_mState h \<noteq> eIasDead"

definition isStarted :: "'a handler \<Rightarrow> bool" where
  "isStarted h \<longleftrightarrow> sh_mState h = eIasStarted"

definition called :: "outside_call \<Rightarrow> 'a handler \<Rightarrow> 'a handler" where
  "called x h = h\<lparr>outside := outside h @ [x]\<rparr>"

section \<open>The API mutex\<close>

definition lockApiMutex :: "'a handler \<Rightarrow> 'a handler option" where
  "lockApiMutex h =
     (if mApiMutexEnable h then if mApiMtx h then None else Some (h\<lparr>mApiMtx := True\<rparr>) else Some h)"

definition unlockApiMutex :: "'a handler \<Rightarrow> 'a handler" where
  "unlockApiMutex h = (if mApiMutexEnable h then h\<lparr>mApiMtx := False\<rparr> else h)"

definition activateMutexHandling :: "'a handler \<Rightarrow> 'a handler option" where
  "activateMutexHandling h =
     (if mApiMtx h then None else Some (h\<lparr>mApiMutexEnable := mApiMutexEnableConfig h\<rparr>))"

definition with_lock :: "('a handler \<Rightarrow> ('r \<times> 'a handler) option) \<Rightarrow> 'a handler \<Rightarrow> ('r \<times> 'a handler) option" where
  "with_lock f h =
     do {
       h \<leftarrow> lockApiMutex h;
       (r, h) \<leftarrow> f h;
       Some (r, unlockApiMutex h)
     }"

definition mapResultCode :: "IasAvbProcessingResult \<Rightarrow> IasAvbResult" where
  "mapResultCode code =
     (case code of
        eIasAvbProcOK \<Rightarrow> eIasAvbResultOk
      | eIasAvbProcUnsupportedFormat \<Rightarrow> eIasAvbResultNotSupported
      | eIasAvbProcNotImplemented \<Rightarrow> eIasAvbResultNotImplemented
      | _ \<Rightarrow> eIasAvbResultErr)"

text \<open>An API function with a processing result.\<close>

definition api ::
  "('a handler \<Rightarrow> (IasAvbProcessingResult \<times> 'a handler) option) \<Rightarrow> 'a handler \<Rightarrow> (IasAvbResult \<times> 'a handler) option" where
  "api f h = map_option (\<lambda>(result, h). (mapResultCode result, h)) (with_lock f h)"

section \<open>Clients\<close>

definition registerClient :: "nat option \<Rightarrow> 'a handler \<Rightarrow> IasAvbResult \<times> 'a handler" where
  "registerClient client h =
     (if \<not> sh_isInitialized h \<or> client = None \<or> sh_mClient h \<noteq> None then (eIasAvbResultErr, h)
      else (eIasAvbResultOk, h\<lparr>sh_mClient := client\<rparr>))"

definition unregisterClient :: "nat option \<Rightarrow> 'a handler \<Rightarrow> IasAvbResult \<times> 'a handler" where
  "unregisterClient client h =
     (if \<not> sh_isInitialized h \<or> client = None \<or> sh_mClient h \<noteq> client then (eIasAvbResultErr, h)
      else (eIasAvbResultOk, h\<lparr>sh_mClient := None\<rparr>))"

definition sh_updateLinkStatus :: "bool \<Rightarrow> 'a handler \<Rightarrow> 'a handler" where
  "sh_updateLinkStatus linkIsUp h = (if sh_mClient h \<noteq> None then called (Client_Link linkIsUp) h else h)"

definition sh_updateStreamStatus :: "u64 \<Rightarrow> IasAvbStreamState \<Rightarrow> 'a handler \<Rightarrow> 'a handler" where
  "sh_updateStreamStatus streamId status h =
     (if sh_mClient h \<noteq> None then called (Client_Stream streamId status) h else h)"

section \<open>Local streams and clock domains\<close>

definition getLocalAudioStreamById :: "u16 \<Rightarrow> 'a handler \<Rightarrow> local_audio option" where
  "getLocalAudioStreamById k h =
     (case Option.bind (mAlsaEngine h) (ag_getLocalAudioStream k) of
        Some p \<Rightarrow> Some (Alsa_Audio p)
      | None \<Rightarrow> if map_of (mTestToneStreams h) k \<noteq> None then Some (Tone_Audio k) else None)"

definition getLocalVideoStreamById :: "u16 \<Rightarrow> 'a handler \<Rightarrow> local_video option" where
  "getLocalVideoStreamById k h = Option.bind (mVideoStreamInterface h) (vi_getLocalVideoStream k)"

definition isLocalStreamIdInUse :: "u16 \<Rightarrow> 'a handler \<Rightarrow> bool" where
  "isLocalStreamIdInUse k h \<longleftrightarrow> getLocalAudioStreamById k h \<noteq> None \<or> getLocalVideoStreamById k h \<noteq> None"

definition getClockDomainById :: "u32 \<Rightarrow> 'a handler \<Rightarrow> nat option" where
  "getClockDomainById k h = map_of (mAvbClockDomains h) k"

text \<open>The loop of \<^verbatim>\<open>getNextLocalStreamId\<close>; it returns to \<open>start\<close> after at most \<open>2 ^ 16\<close> rounds.\<close>

primrec free_id :: "nat \<Rightarrow> u16 \<Rightarrow> u16 \<Rightarrow> 'a handler \<Rightarrow> u16 option" where
  "free_id 0 start k h = None"
| "free_id (Suc n) start k h =
     (if k = 0 \<or> isLocalStreamIdInUse k h
      then if k + 1 = start then None else free_id n start (k + 1) h
      else Some k)"

definition getNextLocalStreamId :: "'a handler \<Rightarrow> (u16 \<times> 'a handler) option" where
  "getNextLocalStreamId h =
     map_option (\<lambda>k. (k, h\<lparr>mNextLocalStreamId := k + 1\<rparr>)) (free_id (2 ^ 16) (mNextLocalStreamId h) (mNextLocalStreamId h) h)"

text \<open>The search for an unused clock id, which ends at 0; each round passes an entry of the map.\<close>

primrec free_clock_id :: "nat \<Rightarrow> u32 \<Rightarrow> 'a handler \<Rightarrow> u32" where
  "free_clock_id 0 k h = k"
| "free_clock_id (Suc n) k h =
     (if map_of (mAvbClockDomains h) k \<noteq> None \<and> k \<noteq> 0 then free_clock_id n (k + 1) h else k)"

text \<open>The id of a new local stream, which the caller may have chosen.\<close>

definition choose_local_id :: "u16 \<Rightarrow> 'a handler \<Rightarrow> (IasAvbProcessingResult \<times> u16 \<times> 'a handler) option" where
  "choose_local_id streamId h =
     (if streamId \<noteq> 0
      then Some (if isLocalStreamIdInUse streamId h then eIasAvbProcInvalidParam else eIasAvbProcOK, streamId, h)
      else map_option (\<lambda>(k, h). (eIasAvbProcOK, k, h)) (getNextLocalStreamId h))"

section \<open>Engines\<close>

text \<open>An engine that cannot be set up is deleted.\<close>

definition createTransmitEngine :: "'a sh_env \<Rightarrow> 'a handler \<Rightarrow> (IasAvbProcessingResult \<times> 'a handler) option" where
  "createTransmitEngine env h =
     (if mAvbTransmitEngine h \<noteq> None then None
      else if \<not> she_newTx env then Some (eIasAvbProcNotEnoughMemory, h)
      else do {
        (result, e) \<leftarrow> txe_init (she_tx env) (txe_new (she_txHeap env));
        let (result, e) = (if result = eIasAvbProcOK then txe_registerEventInterface (Some 0) e else (result, e));
        (result, e) \<leftarrow> (if result = eIasAvbProcOK \<and> isStarted h then txe_start (she_tx env) e else Some (result, e));
        if result = eIasAvbProcOK then Some (result, h\<lparr>mAvbTransmitEngine := Some e\<rparr>)
        else map_option (\<lambda>_. (result, h)) (txe_cleanup (she_tx env) e)
      })"

definition createReceiveEngine :: "'a sh_env \<Rightarrow> 'a handler \<Rightarrow> (IasAvbProcessingResult \<times> 'a handler) option" where
  "createReceiveEngine env h =
     (if mAvbReceiveEngine h \<noteq> None then None
      else if \<not> she_newRx env then Some (eIasAvbProcNotEnoughMemory, h)
      else do {
        let (result, e) = rx_init (she_rx env) engine_new;
        let (result, e) = (if result = eIasAvbProcOK then rx_registerEventInterface (Some 0) e else (result, e));
        (result, e) \<leftarrow> (if result = eIasAvbProcOK \<and> isStarted h then rx_start (she_rx env) e else Some (result, e));
        Some (result, if result = eIasAvbProcOK then h\<lparr>mAvbReceiveEngine := Some e\<rparr> else h)
      })"

definition need_transmit_engine :: "'a sh_env \<Rightarrow> 'a handler \<Rightarrow> (IasAvbProcessingResult \<times> 'a handler) option" where
  "need_transmit_engine env h =
     (if mAvbTransmitEngine h = None then createTransmitEngine env h else Some (eIasAvbProcOK, h))"

definition need_receive_engine :: "'a sh_env \<Rightarrow> 'a handler \<Rightarrow> (IasAvbProcessingResult \<times> 'a handler) option" where
  "need_receive_engine env h =
     (if mAvbReceiveEngine h = None then createReceiveEngine env h else Some (eIasAvbProcOK, h))"

definition need_alsa_engine :: "'a sh_env \<Rightarrow> 'a handler \<Rightarrow> (IasAvbProcessingResult \<times> 'a handler) option" where
  "need_alsa_engine env h =
     (if mAlsaEngine h \<noteq> None then Some (eIasAvbProcOK, h)
      else if \<not> she_newAlsa env then Some (eIasAvbProcNotEnoughMemory, h)
      else do {
        let (result, e) = ag_init (alsa_engine_new (she_alsaHeap env));
        (result, e) \<leftarrow> (if result = eIasAvbProcOK \<and> isStarted h then ag_start (she_alsa env) e else Some (result, e));
        Some (result, if result = eIasAvbProcOK then h\<lparr>mAlsaEngine := Some e\<rparr> else h)
      })"

definition need_video_interface :: "'a sh_env \<Rightarrow> 'a handler \<Rightarrow> IasAvbProcessingResult \<times> 'a handler" where
  "need_video_interface env h =
     (if mVideoStreamInterface h \<noteq> None then (eIasAvbProcOK, h)
      else if \<not> she_newVideo env then (eIasAvbProcNotEnoughMemory, h)
      else
        let (result, v) = vi_init vi_new;
            (result, v) = (if result = eIasAvbProcOK then vi_start v else (result, v))
        in (result, if result = eIasAvbProcOK then h\<lparr>mVideoStreamInterface := Some v\<rparr> else h))"

text \<open>A call of an engine that is there.\<close>

definition on_tx ::
  "('a tx_engine \<Rightarrow> (IasAvbProcessingResult \<times> 'a tx_engine) option) \<Rightarrow> 'a handler \<Rightarrow>
     (IasAvbProcessingResult \<times> 'a handler) option" where
  "on_tx f h =
     do {
       e \<leftarrow> mAvbTransmitEngine h;
       (result, e) \<leftarrow> f e;
       Some (result, h\<lparr>mAvbTransmitEngine := Some e\<rparr>)
     }"

definition on_rx ::
  "('a rx_engine \<Rightarrow> (IasAvbProcessingResult \<times> 'a rx_engine) option) \<Rightarrow> 'a handler \<Rightarrow>
     (IasAvbProcessingResult \<times> 'a handler) option" where
  "on_rx f h =
     do {
       e \<leftarrow> mAvbReceiveEngine h;
       (result, e) \<leftarrow> f e;
       Some (result, h\<lparr>mAvbReceiveEngine := Some e\<rparr>)
     }"

definition on_alsa ::
  "(IasAlsaEngine \<Rightarrow> (IasAvbProcessingResult \<times> IasAlsaEngine) option) \<Rightarrow> 'a handler \<Rightarrow>
     (IasAvbProcessingResult \<times> 'a handler) option" where
  "on_alsa f h =
     do {
       e \<leftarrow> mAlsaEngine h;
       (result, e) \<leftarrow> f e;
       Some (result, h\<lparr>mAlsaEngine := Some e\<rparr>)
     }"


section \<open>AVB streams\<close>

type_synonym 'a outcome = "(IasAvbProcessingResult \<times> 'a IasAvbStream_scheme) option"

text \<open>The loop \<^verbatim>\<open>mac[i] = uint8_t(destMacAddr >> ((cIasAvbMacAddressLength - i - 1) * 8))\<close>.\<close>

definition mac_of_u64 :: "u64 \<Rightarrow> u8 list" where
  "mac_of_u64 a = map (\<lambda>i. ucast (drop_bit ((cIasAvbMacAddressLength - i - 1) * 8) a)) [0..<cIasAvbMacAddressLength]"

definition deriveClockDomainFromRxStream ::
  "'a sh_env \<Rightarrow> u64 \<Rightarrow> u32 \<Rightarrow> 'a handler \<Rightarrow> (IasAvbResult \<times> u32 \<times> 'a handler) option" where
  "deriveClockDomainFromRxStream env rxStreamId clockId h =
     (if \<not> sh_isInitialized h then Some (eIasAvbResultErr, clockId, h)
      else do {
        let (result, clockId, h) =
          (if clockId \<noteq> 0
           then (if map_of (mAvbClockDomains h) clockId \<noteq> None then eIasAvbProcInvalidParam else eIasAvbProcOK, clockId, h)
           else
             let k = free_clock_id (length (mAvbClockDomains h)) (mNextClockDomainId h) h
             in (if k = 0 then eIasAvbProcErr else eIasAvbProcOK, k, h\<lparr>mNextClockDomainId := k\<rparr>));
        if result \<noteq> eIasAvbProcOK then Some (mapResultCode result, clockId, h)
        else
          case Option.bind (mAvbReceiveEngine h) (\<lambda>e. map_option (Pair e) (map_of (IasAvbReceiveEngine.mAvbStreams e) rxStreamId)) of
            None \<Rightarrow> Some (mapResultCode eIasAvbProcInvalidParam, clockId, h)
          | Some (e, d) \<Rightarrow>
              (case she_newClock env (snd ` set (mAvbClockDomains h)) of
                 None \<Rightarrow> Some (mapResultCode eIasAvbProcNotEnoughMemory, clockId, h)
               | Some p \<Rightarrow>
                   let (result, s) = hookClockDomain (Some p) (rd_stream d);
                       h = h\<lparr>mAvbReceiveEngine := Some (e\<lparr>IasAvbReceiveEngine.mAvbStreams :=
                               put_stream rxStreamId (d\<lparr>rd_stream := s\<rparr>) (IasAvbReceiveEngine.mAvbStreams e)\<rparr>)\<rparr>
                   in if result \<noteq> eIasAvbProcOK then Some (mapResultCode result, clockId, h)
                      else if mNextClockDomainId h = 0 then None
                      else Some (mapResultCode result, clockId,
                             h\<lparr>clocks := (clocks h)(p := (she_rxClock env)\<lparr>mClockId := clockId\<rparr>),
                               mAvbClockDomains := put_stream clockId p (mAvbClockDomains h)\<rparr>))
      })"

definition setClockRecoveryParams ::
  "'a sh_env \<Rightarrow> u32 \<Rightarrow> u32 \<Rightarrow> u32 \<Rightarrow> 'a handler \<Rightarrow> (IasAvbResult \<times> 'a handler) option" where
  "setClockRecoveryParams env masterClockId slaveClockId driverId h =
     (if \<not> sh_isInitialized h then Some (eIasAvbResultErr, h)
      else
        case (getClockDomainById masterClockId h, getClockDomainById slaveClockId h) of
          (Some m, Some s) \<Rightarrow>
            (case she_newController env of
               None \<Rightarrow> Some (eIasAvbResultErr, h)
             | Some self \<Rightarrow> do {
                 (res, c, cl) \<leftarrow> controller_init (she_clock env) self (Some m) (Some s) driverId (controller_new, clocks h);
                 Some (if res \<noteq> eIasAvbProcOK
                       then (eIasAvbResultErr, h\<lparr>clocks := snd (controller_cleanup (she_clock env) self (c, cl))\<rparr>)
                       else (eIasAvbResultOk, h\<lparr>clocks := cl, mClockControllers := mClockControllers h @ [(self, c)]\<rparr>))
               })
        | _ \<Rightarrow> Some (eIasAvbResultInvalidParam, h))"

text \<open>Clock recovery from the stream that the registry names.\<close>

definition recovers_from :: "'a sh_env \<Rightarrow> u64 \<Rightarrow> bool" where
  "recovers_from env streamId \<longleftrightarrow>
     (let (found, k) = doGetConfigValue (she_registry env) cClkRecoverFrom 0 in found \<and> k = streamId)"

definition recover_using :: "'a sh_env \<Rightarrow> u32" where
  "recover_using env =
     ucast (snd (doGetConfigValue (she_registry env) cClkRecoverUsing (ucast cIasAvbHwCaptureClockDomainId)))"

definition recover_clock :: "'a sh_env \<Rightarrow> u64 \<Rightarrow> 'a handler \<Rightarrow> (IasAvbProcessingResult \<times> 'a handler) option" where
  "recover_clock env streamId h =
     (if \<not> recovers_from env streamId then Some (eIasAvbProcOK, h)
      else do {
        (res, rxClockId, h) \<leftarrow> deriveClockDomainFromRxStream env streamId 0 h;
        (res, h) \<leftarrow> (if res = eIasAvbResultOk then setClockRecoveryParams env rxClockId (recover_using env) 0 h
                     else Some (res, h));
        Some (if res = eIasAvbResultOk then eIasAvbProcOK else eIasAvbProcErr, h)
      })"

definition create_receive ::
  "'a sh_env \<Rightarrow> (u8 list \<Rightarrow> bool \<Rightarrow> 'a outcome) \<Rightarrow> u64 \<Rightarrow> u64 \<Rightarrow> 'a handler \<Rightarrow> (IasAvbProcessingResult \<times> 'a handler) option" where
  "create_receive env outcome streamId destMacAddr h =
     do {
       (result, h) \<leftarrow> need_receive_engine env h;
       if result \<noteq> eIasAvbProcOK then Some (result, h)
       else
         let mac = mac_of_u64 destMacAddr in
         on_rx (\<lambda>e. Some (createReceiveStream (she_rx env) (outcome mac (mPreConfigurationInProgress h))
                  (streamId_of_u64 streamId) mac e)) h
     }"

definition createReceiveAudioStream ::
  "'a sh_env \<Rightarrow> (u8 list \<Rightarrow> bool \<Rightarrow> 'a outcome) \<Rightarrow> u16 \<Rightarrow> u64 \<Rightarrow> u64 \<Rightarrow> 'a handler \<Rightarrow> (IasAvbResult \<times> 'a handler) option"
where
  "createReceiveAudioStream env outcome maxNumberChannels streamId destMacAddr =
     api (\<lambda>h.
       if \<not> sh_isInitialized h then Some (eIasAvbProcNotInitialized, h)
       else if maxNumberChannels > cIasAvbMaxNumChannels then Some (eIasAvbProcErr, h)
       else do {
         (result, h) \<leftarrow> create_receive env outcome streamId destMacAddr h;
         if result = eIasAvbProcOK then recover_clock env streamId h else Some (result, h)
       })"

definition createReceiveVideoStream ::
  "'a sh_env \<Rightarrow> (u8 list \<Rightarrow> bool \<Rightarrow> 'a outcome) \<Rightarrow> u64 \<Rightarrow> u64 \<Rightarrow> 'a handler \<Rightarrow> (IasAvbResult \<times> 'a handler) option" where
  "createReceiveVideoStream env outcome streamId destMacAddr =
     api (\<lambda>h. if \<not> sh_isInitialized h then Some (eIasAvbProcNotInitialized, h)
              else create_receive env outcome streamId destMacAddr h)"

text \<open>The API mutex is not locked.\<close>

definition createReceiveClockReferenceStream ::
  "'a sh_env \<Rightarrow> (u8 list \<Rightarrow> 'a outcome) \<Rightarrow> u64 \<Rightarrow> u64 \<Rightarrow> u32 \<Rightarrow> 'a handler \<Rightarrow> (IasAvbResult \<times> u32 \<times> 'a handler) option"
where
  "createReceiveClockReferenceStream env outcome streamId dmac clockId h =
     do {
       (result, h) \<leftarrow> (if \<not> sh_isInitialized h then Some (eIasAvbProcNotInitialized, h)
                       else create_receive env (\<lambda>mac _. outcome mac) streamId dmac h);
       let res = mapResultCode result;
       (res, clockId, h) \<leftarrow> (if res = eIasAvbResultOk then deriveClockDomainFromRxStream env streamId clockId h
                             else Some (res, clockId, h));
       (res, h) \<leftarrow> (if res = eIasAvbResultOk \<and> recovers_from env streamId
                    then setClockRecoveryParams env clockId (recover_using env) 0 h else Some (res, h));
       Some (res, clockId, h)
     }"

text \<open>Creation of a transmit stream; one that cannot be activated is destroyed.\<close>

definition create_transmit ::
  "'a sh_env \<Rightarrow> (u8 list \<Rightarrow> nat \<Rightarrow> bool \<Rightarrow> 'a outcome) \<Rightarrow> u32 \<Rightarrow> IasAvbIdAssignMode \<Rightarrow> u64 \<Rightarrow> u64 \<Rightarrow> bool \<Rightarrow> 'a handler \<Rightarrow>
     (IasAvbProcessingResult \<times> 'a handler) option" where
  "create_transmit env outcome clockId assignMode streamId destMacAddr active h =
     do {
       (result, h) \<leftarrow> need_transmit_engine env h;
       (result, h) \<leftarrow>
         (if result \<noteq> eIasAvbProcOK then Some (result, h)
          else case getClockDomainById clockId h of
            None \<Rightarrow> Some (eIasAvbProcInvalidParam, h)
          | Some clock \<Rightarrow>
              if assignMode \<noteq> eIasAvbIdAssignModeStatic then Some (eIasAvbProcNotImplemented, h)
              else on_tx (createTransmitStream (she_tx env)
                     (outcome (mac_of_u64 destMacAddr) clock (mPreConfigurationInProgress h)) streamId) h);
       if result = eIasAvbProcOK \<and> active then do {
         (result, h) \<leftarrow> on_tx (activateAvbStream (she_tx env) streamId) h;
         if result = eIasAvbProcOK then Some (result, h)
         else map_option (\<lambda>(_, h). (result, h)) (on_tx (Transmit_Engine.destroyAvbStream (she_tx env) streamId) h)
       }
       else Some (result, h)
     }"

definition createTransmitAudioStream ::
  "'a sh_env \<Rightarrow> (u8 list \<Rightarrow> nat \<Rightarrow> bool \<Rightarrow> 'a outcome) \<Rightarrow> u16 \<Rightarrow> u32 \<Rightarrow> IasAvbIdAssignMode \<Rightarrow> u64 \<Rightarrow> u64 \<Rightarrow> bool \<Rightarrow>
     'a handler \<Rightarrow> (IasAvbResult \<times> 'a handler) option" where
  "createTransmitAudioStream env outcome maxNumberChannels clockId assignMode streamId destMacAddr active =
     api (\<lambda>h.
       if \<not> sh_isInitialized h then Some (eIasAvbProcNotInitialized, h)
       else if maxNumberChannels > cIasAvbMaxNumChannels then Some (eIasAvbProcErr, h)
       else create_transmit env outcome clockId assignMode streamId destMacAddr active h)"

definition createTransmitVideoStream ::
  "'a sh_env \<Rightarrow> (u8 list \<Rightarrow> nat \<Rightarrow> bool \<Rightarrow> 'a outcome) \<Rightarrow> u32 \<Rightarrow> IasAvbIdAssignMode \<Rightarrow> u64 \<Rightarrow> u64 \<Rightarrow> bool \<Rightarrow>
     'a handler \<Rightarrow> (IasAvbResult \<times> 'a handler) option" where
  "createTransmitVideoStream env outcome clockId assignMode streamId dmac active =
     api (\<lambda>h. if \<not> sh_isInitialized h then Some (eIasAvbProcNotInitialized, h)
              else create_transmit env outcome clockId assignMode streamId dmac active h)"

text \<open>The API mutex is not locked.\<close>

definition createTransmitClockReferenceStream ::
  "'a sh_env \<Rightarrow> (u8 list \<Rightarrow> nat \<Rightarrow> 'a outcome) \<Rightarrow> u32 \<Rightarrow> IasAvbIdAssignMode \<Rightarrow> u64 \<Rightarrow> u64 \<Rightarrow> bool \<Rightarrow> 'a handler \<Rightarrow>
     (IasAvbResult \<times> 'a handler) option" where
  "createTransmitClockReferenceStream env outcome clockId assignMode streamId dmac active h =
     map_option (\<lambda>(result, h). (mapResultCode result, h))
       (if \<not> sh_isInitialized h then Some (eIasAvbProcNotInitialized, h)
        else create_transmit env (\<lambda>mac clock _. outcome mac clock) clockId assignMode streamId dmac active h)"

text \<open>The transmit engine is asked first, the receive engine, which gets the result so far, if that has failed.\<close>

definition tx_then_rx ::
  "('a tx_engine \<Rightarrow> (IasAvbProcessingResult \<times> 'a tx_engine) option) \<Rightarrow>
     (IasAvbProcessingResult \<Rightarrow> 'a rx_engine \<Rightarrow> (IasAvbProcessingResult \<times> 'a rx_engine) option) \<Rightarrow> 'a handler \<Rightarrow>
     (IasAvbProcessingResult \<times> 'a handler) option" where
  "tx_then_rx f g h =
     do {
       (result, h) \<leftarrow> (if sh_isInitialized h \<and> mAvbTransmitEngine h \<noteq> None then on_tx f h
                       else Some (eIasAvbProcNotInitialized, h));
       if result \<noteq> eIasAvbProcOK \<and> sh_isInitialized h \<and> mAvbReceiveEngine h \<noteq> None then on_rx (g result) h
       else Some (result, h)
     }"

definition destroyStream :: "'a sh_env \<Rightarrow> u64 \<Rightarrow> 'a handler \<Rightarrow> (IasAvbResult \<times> 'a handler) option" where
  "destroyStream env streamId =
     api (tx_then_rx (Transmit_Engine.destroyAvbStream (she_tx env) streamId)
            (\<lambda>_ e. Some (rx_destroyAvbStream (she_rx env) streamId e)))"

definition setStreamActive :: "'a sh_env \<Rightarrow> u64 \<Rightarrow> bool \<Rightarrow> 'a handler \<Rightarrow> (IasAvbResult \<times> 'a handler) option" where
  "setStreamActive env streamId active =
     api (\<lambda>h. if \<not> sh_isInitialized h \<or> mAvbTransmitEngine h = None then Some (eIasAvbProcNotInitialized, h)
              else on_tx (if active then activateAvbStream (she_tx env) streamId
                          else deactivateAvbStream (she_tx env) streamId) h)"


section \<open>Local streams\<close>

definition create_alsa ::
  "'a sh_env \<Rightarrow> IasAvbStreamDirection \<Rightarrow> u16 \<Rightarrow> u32 \<Rightarrow> IasAvbAudioFormat \<Rightarrow> u32 \<Rightarrow> u32 \<Rightarrow> u32 \<Rightarrow> u8 \<Rightarrow> bool \<Rightarrow> string \<Rightarrow>
     u16 \<Rightarrow> IasAlsaDeviceTypes \<Rightarrow> 'a handler \<Rightarrow> (IasAvbProcessingResult \<times> u16 \<times> 'a handler) option" where
  "create_alsa env direction numberOfChannels sampleFreq format clockId periodSize numPeriods channelLayout
     hasSideChannel deviceName streamId alsaDeviceType h =
     (if \<not> sh_isInitialized h then Some (eIasAvbProcNotInitialized, streamId, h)
      else if numberOfChannels > cIasAvbMaxNumChannels then Some (eIasAvbProcErr, streamId, h)
      else do {
        (result, h) \<leftarrow> need_alsa_engine env h;
        if result \<noteq> eIasAvbProcOK then Some (result, streamId, h)
        else do {
          (result, streamId, h) \<leftarrow> choose_local_id streamId h;
          if result \<noteq> eIasAvbProcOK then Some (result, streamId, h)
          else case getClockDomainById clockId h of
            None \<Rightarrow> Some (eIasAvbProcInvalidParam, streamId, h)
          | Some clock \<Rightarrow> do {
              (result, h) \<leftarrow> on_alsa (Alsa_Engine.createAlsaStream (she_alsa env) direction numberOfChannels sampleFreq
                format periodSize numPeriods channelLayout hasSideChannel deviceName streamId (Some clock)
                alsaDeviceType) h;
              Some (result, streamId, h)
            }
        }
      })"

text \<open>A function that returns the id of a new local stream, or 0.\<close>

definition api_id ::
  "('a handler \<Rightarrow> (IasAvbProcessingResult \<times> u16 \<times> 'a handler) option) \<Rightarrow> 'a handler \<Rightarrow>
     (IasAvbResult \<times> u16 \<times> 'a handler) option" where
  "api_id f h =
     do {
       h \<leftarrow> lockApiMutex h;
       (result, streamId, h) \<leftarrow> f h;
       Some (mapResultCode result, if result \<noteq> eIasAvbProcOK then 0 else streamId, unlockApiMutex h)
     }"

definition sh_createAlsaStream ::
  "'a sh_env \<Rightarrow> IasAvbStreamDirection \<Rightarrow> u16 \<Rightarrow> u32 \<Rightarrow> IasAvbAudioFormat \<Rightarrow> u32 \<Rightarrow> u32 \<Rightarrow> u32 \<Rightarrow> u8 \<Rightarrow> bool \<Rightarrow> string \<Rightarrow>
     u16 \<Rightarrow> IasAlsaDeviceTypes \<Rightarrow> 'a handler \<Rightarrow> (IasAvbResult \<times> u16 \<times> 'a handler) option" where
  "sh_createAlsaStream env direction numberOfChannels sampleFreq format clockId periodSize numPeriods channelLayout
     hasSideChannel deviceName streamId alsaDeviceType =
     api_id (create_alsa env direction numberOfChannels sampleFreq format clockId periodSize numPeriods channelLayout
       hasSideChannel deviceName streamId alsaDeviceType)"

text \<open>Of an id that the caller has chosen only audio streams are looked at, and the format only with such an id.\<close>

definition create_tone ::
  "'a sh_env \<Rightarrow> u16 \<Rightarrow> u32 \<Rightarrow> IasAvbAudioFormat \<Rightarrow> u8 \<Rightarrow> u16 \<Rightarrow> 'a handler \<Rightarrow>
     (IasAvbProcessingResult \<times> u16 \<times> 'a handler) option" where
  "create_tone env numberOfChannels sampleFreq format channelLayout streamId h =
     (if \<not> sh_isInitialized h then Some (eIasAvbProcNotInitialized, streamId, h)
      else do {
        (result, streamId, h) \<leftarrow>
          (if streamId \<noteq> 0
           then Some (if getLocalAudioStreamById streamId h \<noteq> None then eIasAvbProcInvalidParam
                      else if format \<noteq> eIasAvbAudioFormatSafFloat then eIasAvbProcUnsupportedFormat
                      else eIasAvbProcOK, streamId, h)
           else map_option (\<lambda>(k, h). (eIasAvbProcOK, k, h)) (getNextLocalStreamId h));
        if result \<noteq> eIasAvbProcOK then Some (result, streamId, h)
        else if \<not> she_newTone env then Some (eIasAvbProcNotEnoughMemory, streamId, h)
        else do {
          (result, s) \<leftarrow> tone_init (she_tone env) numberOfChannels sampleFreq channelLayout (tone_new streamId);
          Some (result, streamId,
                if result \<noteq> eIasAvbProcOK then h
                else h\<lparr>mTestToneStreams := put_stream streamId s (mTestToneStreams h)\<rparr>)
        }
      })"

definition createTestToneStream ::
  "'a sh_env \<Rightarrow> u16 \<Rightarrow> u32 \<Rightarrow> IasAvbAudioFormat \<Rightarrow> u8 \<Rightarrow> u16 \<Rightarrow> 'a handler \<Rightarrow> (IasAvbResult \<times> u16 \<times> 'a handler) option" where
  "createTestToneStream env numberOfChannels sampleFreq format channelLayout streamId =
     api_id (create_tone env numberOfChannels sampleFreq format channelLayout streamId)"

definition create_local_video ::
  "'a sh_env \<Rightarrow> IasAvbStreamDirection \<Rightarrow> u16 \<Rightarrow> u16 \<Rightarrow> IasAvbVideoFormat \<Rightarrow> string \<Rightarrow> u16 \<Rightarrow> 'a handler \<Rightarrow>
     (IasAvbProcessingResult \<times> u16 \<times> 'a handler) option" where
  "create_local_video env direction maxPacketRate maxPacketSize format ipcName streamId h =
     (if \<not> sh_isInitialized h then Some (eIasAvbProcNotInitialized, streamId, h)
      else
        let (result, h) = need_video_interface env h in
        if result \<noteq> eIasAvbProcOK then Some (result, streamId, h)
        else do {
          (result, streamId, h) \<leftarrow> choose_local_id streamId h;
          if result \<noteq> eIasAvbProcOK then Some (result, streamId, h)
          else do {
            v \<leftarrow> mVideoStreamInterface h;
            (result, v) \<leftarrow> createVideoStream (she_video env) direction maxPacketRate maxPacketSize format ipcName streamId v;
            Some (result, streamId, h\<lparr>mVideoStreamInterface := Some v\<rparr>)
          }
        })"

definition createLocalVideoStream ::
  "'a sh_env \<Rightarrow> IasAvbStreamDirection \<Rightarrow> u16 \<Rightarrow> u16 \<Rightarrow> IasAvbVideoFormat \<Rightarrow> string \<Rightarrow> u16 \<Rightarrow> 'a handler \<Rightarrow>
     (IasAvbResult \<times> u16 \<times> 'a handler) option" where
  "createLocalVideoStream env direction maxPacketRate maxPacketSize format ipcName streamId =
     api_id (create_local_video env direction maxPacketRate maxPacketSize format ipcName streamId)"

text \<open>\<^verbatim>\<open>getType\<close> of the stream at a pointer.\<close>

definition audio_type :: "local_audio \<Rightarrow> 'a handler \<Rightarrow> IasLocalStreamType option" where
  "audio_type r h =
     (case r of
        Alsa_Audio p \<Rightarrow> map_option (\<lambda>e. IasLocalAudioStream.mType (ao_local (alsa_heap e p))) (mAlsaEngine h)
      | Tone_Audio k \<Rightarrow> map_option IasLocalAudioStream.mType (map_of (mTestToneStreams h) k))"

definition destroyLocalStream :: "'a sh_env \<Rightarrow> u16 \<Rightarrow> 'a handler \<Rightarrow> (IasAvbResult \<times> 'a handler) option" where
  "destroyLocalStream env streamId =
     api (\<lambda>h.
       if \<not> sh_isInitialized h then Some (eIasAvbProcNotInitialized, h)
       else case getLocalAudioStreamById streamId h of
         Some r \<Rightarrow> do {
           t \<leftarrow> audio_type r h;
           if mAlsaEngine h \<noteq> None \<and> t = eIasAlsaStream
           then on_alsa (destroyAlsaStream (she_alsa env) streamId) h
           else case map_of (mTestToneStreams h) streamId of
             None \<Rightarrow> Some (eIasAvbProcInvalidParam, h)
           | Some s \<Rightarrow>
               if IasLocalAudioStream.mClientState s \<noteq> eIasNotConnected then Some (eIasAvbProcAlreadyInUse, h)
               else Some (eIasAvbProcOK, h\<lparr>mTestToneStreams := erase_stream streamId (mTestToneStreams h)\<rparr>)
         }
       | None \<Rightarrow>
           (case getLocalVideoStreamById streamId h of
              None \<Rightarrow> Some (eIasAvbProcInvalidParam, h)
            | Some _ \<Rightarrow> do {
                v \<leftarrow> mVideoStreamInterface h;
                let (result, v) = destroyVideoStream streamId v;
                Some (result, h\<lparr>mVideoStreamInterface := Some v\<rparr>)
              }))"

section \<open>Connections\<close>

definition audio_direction :: "local_audio \<Rightarrow> 'a handler \<Rightarrow> IasAvbStreamDirection option" where
  "audio_direction r h =
     (case r of
        Alsa_Audio p \<Rightarrow> map_option (\<lambda>e. IasLocalAudioStream.mDirection (ao_local (alsa_heap e p))) (mAlsaEngine h)
      | Tone_Audio k \<Rightarrow> map_option IasLocalAudioStream.mDirection (map_of (mTestToneStreams h) k))"

primrec video_direction :: "local_video \<Rightarrow> IasAvbStreamDirection" where
  "video_direction (Video_In s) = lvs_mDirection s"
| "video_direction (Video_Out s) = lvs_mDirection s"

text \<open>The engine for the direction of the local stream connects it, if it is there.\<close>

definition connect_by_direction ::
  "'a sh_env \<Rightarrow> IasAvbStreamType \<Rightarrow> IasAvbStreamDirection \<Rightarrow> u64 \<Rightarrow> nat \<Rightarrow> IasAvbProcessingResult \<Rightarrow> 'a handler \<Rightarrow>
     (IasAvbProcessingResult \<times> 'a handler) option" where
  "connect_by_direction env streamType direction networkStreamId p result h =
     (if direction = eIasAvbTransmitToNetwork
      then if mAvbTransmitEngine h = None then Some (result, h)
           else on_tx (txe_connectStreams (she_tx env) streamType networkStreamId (Some p)) h
      else if mAvbReceiveEngine h = None then Some (result, h)
           else on_rx (rx_connectStreams (she_rx env) streamType networkStreamId (Some p)) h)"

text \<open>An id may stand for an audio and a video stream.\<close>

definition connectStreams :: "'a sh_env \<Rightarrow> u64 \<Rightarrow> u16 \<Rightarrow> 'a handler \<Rightarrow> (IasAvbResult \<times> 'a handler) option" where
  "connectStreams env networkStreamId localStreamId =
     api (\<lambda>h.
       if \<not> sh_isInitialized h then Some (eIasAvbProcNotInitialized, h)
       else do {
         let localVideo = getLocalVideoStreamById localStreamId h;
         (result, h) \<leftarrow>
           (case getLocalAudioStreamById localStreamId h of
              None \<Rightarrow> Some (eIasAvbProcInvalidParam, h)
            | Some r \<Rightarrow> do {
                direction \<leftarrow> audio_direction r h;
                connect_by_direction env eIasAvbAudioStream direction networkStreamId (sh_address env (Audio_Ref r))
                  eIasAvbProcInvalidParam h
              });
         case localVideo of
           None \<Rightarrow> Some (result, h)
         | Some s \<Rightarrow> connect_by_direction env eIasAvbVideoStream (video_direction s) networkStreamId
                       (sh_address env (Video_Ref localStreamId)) result h
       })"

definition disconnectStreams :: "'a sh_env \<Rightarrow> u64 \<Rightarrow> 'a handler \<Rightarrow> (IasAvbResult \<times> 'a handler) option" where
  "disconnectStreams env networkStreamId =
     api (tx_then_rx
       (\<lambda>e. if txe_isValidStreamId networkStreamId e then txe_disconnectStreams (she_tx env) networkStreamId e
            else Some (eIasAvbProcNotInitialized, e))
       (\<lambda>result e. if isValidStreamId networkStreamId e then rx_disconnectStreams (she_rx env) networkStreamId e
                   else Some (result, e)))"

section \<open>Parameters of local streams\<close>

definition on_audio ::
  "(IasLocalAudioStream \<Rightarrow> IasAvbProcessingResult \<times> IasLocalAudioStream) \<Rightarrow> local_audio \<Rightarrow> 'a handler \<Rightarrow>
     (IasAvbProcessingResult \<times> 'a handler) option" where
  "on_audio f r h =
     (case r of
        Alsa_Audio p \<Rightarrow>
          on_alsa (\<lambda>e. let (result, l) = f (ao_local (alsa_heap e p))
                       in Some (result, e\<lparr>alsa_heap := (alsa_heap e)(p := ao_put_local l (alsa_heap e p))\<rparr>)) h
      | Tone_Audio k \<Rightarrow> do {
          s \<leftarrow> map_of (mTestToneStreams h) k;
          let (result, l) = f (IasLocalAudioStream.truncate s);
          Some (result, h\<lparr>mTestToneStreams := put_stream k (IasLocalAudioStream.extend l (IasLocalAudioStream.more s))
                                                (mTestToneStreams h)\<rparr>)
        })"

definition sh_setChannelLayout :: "u16 \<Rightarrow> u8 \<Rightarrow> 'a handler \<Rightarrow> (IasAvbResult \<times> 'a handler) option" where
  "sh_setChannelLayout localStreamId channelLayout =
     with_lock (\<lambda>h.
       if \<not> sh_isInitialized h then Some (eIasAvbResultErr, h)
       else case getLocalAudioStreamById localStreamId h of
         None \<Rightarrow> Some (eIasAvbResultInvalidParam, h)
       | Some r \<Rightarrow> map_option (\<lambda>(result, h). (mapResultCode result, h)) (on_audio (setChannelLayout channelLayout) r h))"

text \<open>The stream is looked up before the mutex is locked.\<close>

definition setTestToneParams ::
  "'a sh_env \<Rightarrow> u16 \<Rightarrow> u16 \<Rightarrow> u32 \<Rightarrow> s32 \<Rightarrow> IasAvbTestToneMode \<Rightarrow> s32 \<Rightarrow> 'a handler \<Rightarrow> (IasAvbResult \<times> 'a handler) option"
where
  "setTestToneParams env localStreamId channel signalFrequency newLevel mode param h =
     (if \<not> sh_isInitialized h then Some (eIasAvbResultErr, h)
      else case getLocalAudioStreamById localStreamId h of
        Some (Tone_Audio k) \<Rightarrow>
          api (\<lambda>h. do {
            s \<leftarrow> map_of (mTestToneStreams h) k;
            (result, s) \<leftarrow> setChannelParams (she_tone env) channel signalFrequency newLevel mode param s;
            Some (result, h\<lparr>mTestToneStreams := put_stream k s (mTestToneStreams h)\<rparr>)
          }) h
      | _ \<Rightarrow> Some (eIasAvbResultInvalidParam, h))"

section \<open>Information\<close>

text \<open>The lists that the engines fill are arguments.\<close>

definition sh_getAvbStreamInfo ::
  "('a rx_engine \<Rightarrow> 'i list) \<Rightarrow> ('a tx_engine \<Rightarrow> 'i list) \<Rightarrow> 'i list \<Rightarrow> 'a handler \<Rightarrow>
     (IasAvbResult \<times> 'i list \<times> 'a handler) option" where
  "sh_getAvbStreamInfo rx_infos tx_infos infos h =
     (if \<not> sh_isInitialized h then Some (eIasAvbResultErr, infos, h)
      else do {
        h \<leftarrow> lockApiMutex h;
        let fromRx = (case mAvbReceiveEngine h of None \<Rightarrow> [] | Some e \<Rightarrow> rx_infos e);
        let fromTx = (case mAvbTransmitEngine h of None \<Rightarrow> [] | Some e \<Rightarrow> tx_infos e);
        Some (if mAvbReceiveEngine h \<noteq> None \<or> mAvbTransmitEngine h \<noteq> None then eIasAvbResultOk else eIasAvbResultErr,
              fromRx @ fromTx, unlockApiMutex h)
      })"

definition sh_getLocalStreamInfo ::
  "IasLocalAudioStreamAttributes list \<Rightarrow> IasLocalVideoStreamAttributes list \<Rightarrow> 'a handler \<Rightarrow>
     (IasAvbResult \<times> IasLocalAudioStreamAttributes list \<times> IasLocalVideoStreamAttributes list \<times> 'a handler) option" where
  "sh_getLocalStreamInfo audioInfos videoInfos h =
     (if \<not> sh_isInitialized h then Some (eIasAvbResultErr, audioInfos, videoInfos, h)
      else do {
        h \<leftarrow> lockApiMutex h;
        audioInfos \<leftarrow> (case mAlsaEngine h of None \<Rightarrow> Some [] | Some e \<Rightarrow> map_option snd (ag_getLocalStreamInfo 0 [] e));
        videoInfos \<leftarrow> (case mVideoStreamInterface h of
                         None \<Rightarrow> Some [] | Some v \<Rightarrow> map_option snd (vi_getLocalStreamInfo 0 [] v));
        Some (if mAlsaEngine h \<noteq> None \<or> mVideoStreamInterface h \<noteq> None then eIasAvbResultOk else eIasAvbResultErr,
              audioInfos, videoInfos, unlockApiMutex h)
      })"


section \<open>Starting and stopping\<close>

text \<open>A step that is left out when a result before it was an error.\<close>

definition and_then ::
  "('a handler \<Rightarrow> (IasAvbProcessingResult \<times> 'a handler) option) \<Rightarrow> ('a handler \<Rightarrow> (IasAvbProcessingResult \<times> 'a handler) option) \<Rightarrow>
     'a handler \<Rightarrow> (IasAvbProcessingResult \<times> 'a handler) option" where
  "and_then f g h =
     do {
       (result, h) \<leftarrow> f h;
       if result = eIasAvbProcOK then g h else Some (result, h)
     }"

definition start_tx :: "'a sh_env \<Rightarrow> 'a handler \<Rightarrow> (IasAvbProcessingResult \<times> 'a handler) option" where
  "start_tx env h =
     (if mAvbTransmitEngine h = None then Some (eIasAvbProcOK, h) else on_tx (txe_start (she_tx env)) h)"

definition start_rx :: "'a sh_env \<Rightarrow> 'a handler \<Rightarrow> (IasAvbProcessingResult \<times> 'a handler) option" where
  "start_rx env h =
     (if mAvbReceiveEngine h = None then Some (eIasAvbProcOK, h) else on_rx (rx_start (she_rx env)) h)"

definition start_alsa :: "'a sh_env \<Rightarrow> 'a handler \<Rightarrow> (IasAvbProcessingResult \<times> 'a handler) option" where
  "start_alsa env h =
     (if mAlsaEngine h = None then Some (eIasAvbProcOK, h) else on_alsa (ag_start (she_alsa env)) h)"

definition has_device :: "(handler_environment \<Rightarrow> bool) \<Rightarrow> 'a handler \<Rightarrow> bool" where
  "has_device f h \<longleftrightarrow> (case mEnvironment h of None \<Rightarrow> False | Some ev \<Rightarrow> f ev)"

definition resume_devices :: "'a sh_env \<Rightarrow> 'a handler \<Rightarrow> IasAvbProcessingResult \<times> 'a handler" where
  "resume_devices env h =
     (if \<not> has_device he_igb h then (eIasAvbProcErr, h)
      else
        let h = called Igb_Init h in
        if \<not> she_igbInit env then (eIasAvbProcInitializationFailed, h)
        else if \<not> has_device he_ptp h then (eIasAvbProcErr, h)
        else
          let h = called Ptp_Init h in
          if \<not> has_device he_driver h then (eIasAvbProcOK, h)
          else (if she_driverInit env then eIasAvbProcOK else eIasAvbProcInitializationFailed, called Driver_Init h))"

text \<open>The video stream interface stays as it is when the system is suspended. The driver is initialised then, as
  for a resume.\<close>

definition stop_body :: "'a sh_env \<Rightarrow> bool \<Rightarrow> 'a handler \<Rightarrow> (IasAvbProcessingResult \<times> 'a handler) option" where
  "stop_body env suspend h =
     (if \<not> sh_isInitialized h then Some (eIasAvbProcNotInitialized, h)
      else if \<not> isStarted h then Some (eIasAvbProcOK, h)
      else do {
        let h = (if suspend then h
                 else h\<lparr>mVideoStreamInterface := map_option (\<lambda>v. snd (vi_stop v)) (mVideoStreamInterface h)\<rparr>);
        (_, h) \<leftarrow> (if mAlsaEngine h = None then Some (eIasAvbProcOK, h) else on_alsa (ag_stop (she_alsa env)) h);
        (_, h) \<leftarrow> (if mAvbTransmitEngine h = None then Some (eIasAvbProcOK, h) else on_tx (txe_stop (she_tx env)) h);
        let h = h\<lparr>mAvbReceiveEngine := map_option (\<lambda>e. snd (rx_stop (she_rx env) e)) (mAvbReceiveEngine h),
                  sh_mState := eIasInitialized\<rparr>;
        if \<not> suspend then Some (eIasAvbProcOK, h)
        else
          let h = (if has_device he_ptp h then called Ptp_CleanUp h else h) in
          Some (if has_device he_driver h
                then (if she_driverInit env then eIasAvbProcOK else eIasAvbProcInitializationFailed, called Driver_Init h)
                else (eIasAvbProcOK, h))
      })"

definition sh_stop :: "'a sh_env \<Rightarrow> bool \<Rightarrow> 'a handler \<Rightarrow> (IasAvbProcessingResult \<times> 'a handler) option" where
  "sh_stop env suspend = with_lock (stop_body env suspend)"

definition sh_start :: "'a sh_env \<Rightarrow> bool \<Rightarrow> 'a handler \<Rightarrow> (IasAvbProcessingResult \<times> 'a handler) option" where
  "sh_start env resume =
     with_lock (\<lambda>h.
       if \<not> sh_isInitialized h then Some (eIasAvbProcNotInitialized, h)
       else if isStarted h then Some (eIasAvbProcOK, h)
       else do {
         let (result, h) = (if resume then resume_devices env h else (eIasAvbProcOK, h));
         (result, h) \<leftarrow> (if result = eIasAvbProcOK
                         then and_then (start_tx env) (and_then (start_rx env) (start_alsa env)) h
                         else Some (result, h));
         if result = eIasAvbProcOK then Some (result, h\<lparr>sh_mState := eIasStarted\<rparr>)
         else map_option (\<lambda>(_, h). (result, h)) (sh_stop env False h)
       })"

definition emergencyStop :: "'a sh_env \<Rightarrow> 'a handler \<Rightarrow> 'a handler" where
  "emergencyStop env h =
     (let h = h\<lparr>mAvbReceiveEngine := map_option (emergencyShutdown (she_rx env)) (mAvbReceiveEngine h)\<rparr>
      in if mEnvironment h \<noteq> None then called Igb_Shutdown h else h)"

definition triggerStorePersistenceData :: "'a sh_env \<Rightarrow> 'a handler \<Rightarrow> IasAvbProcessingResult \<times> 'a handler" where
  "triggerStorePersistenceData env h =
     (if has_device he_ptp h then (she_ptpStore env, called Ptp_Store h) else (eIasAvbProcNullPointerAccess, h))"

section \<open>Clean-up\<close>

primrec delete_controllers ::
  "cc_env \<Rightarrow> (nat \<times> IasAvbClockController) list \<Rightarrow> clock_heap \<Rightarrow> clock_heap" where
  "delete_controllers env [] cl = cl"
| "delete_controllers env (x # xs) cl = delete_controllers env xs (snd (controller_cleanup env (fst x) (snd x, cl)))"

text \<open>A handle that is not open must not be closed.\<close>

definition close_plugin :: "'a handler \<Rightarrow> 'a handler option" where
  "close_plugin h =
     (case mConfigPluginHandle h of
        None \<Rightarrow> Some h
      | Some True \<Rightarrow> Some (h\<lparr>mConfigPluginHandle := None\<rparr>)
      | Some False \<Rightarrow> None)"

definition delete_tx :: "'a sh_env \<Rightarrow> 'a handler \<Rightarrow> 'a handler option" where
  "delete_tx env h =
     (case mAvbTransmitEngine h of
        None \<Rightarrow> Some h
      | Some e \<Rightarrow> map_option (\<lambda>_. h\<lparr>mAvbTransmitEngine := None\<rparr>) (txe_cleanup (she_tx env) e))"

definition delete_alsa :: "'a sh_env \<Rightarrow> 'a handler \<Rightarrow> 'a handler option" where
  "delete_alsa env h =
     (case mAlsaEngine h of
        None \<Rightarrow> Some h
      | Some e \<Rightarrow> map_option (\<lambda>_. h\<lparr>mAlsaEngine := None\<rparr>) (ag_cleanup (she_alsa env) e))"

definition sh_cleanup :: "'a sh_env \<Rightarrow> 'a handler \<Rightarrow> 'a handler option" where
  "sh_cleanup env h =
     do {
       let h = h\<lparr>mVideoStreamInterface := map_option (\<lambda>v. snd (vi_stop v)) (mVideoStreamInterface h)\<rparr>;
       (_, h) \<leftarrow> sh_stop env False h;
       let h = h\<lparr>clocks := delete_controllers (she_clock env) (mClockControllers h) (clocks h), mClockControllers := []\<rparr>;
       let h = (if has_device he_driver h then called Driver_Cleanup h else h);
       h \<leftarrow> delete_tx env h;
       let h = h\<lparr>mAvbReceiveEngine := None\<rparr>;
       h \<leftarrow> delete_alsa env h;
       close_plugin (h\<lparr>mVideoStreamInterface := None, mTestToneStreams := [], mAvbClockDomains := [],
                       mEnvironment := None, sh_mClient := None, sh_mState := eIasDead\<rparr>)
     }"

section \<open>Set-up\<close>

text \<open>The answers during \<^verbatim>\<open>init\<close>. \<open>ia_setup\<close> is \<^verbatim>\<open>config.setup\<close>, which calls the API of the handler. The wait for
  PTP only takes time.\<close>

record 'a init_answers =
  ia_dlopen :: "bool \<times> bool"
  ia_dlsym :: bool
  ia_newEnvironment :: bool
  ia_passArguments :: "bool option"
  ia_validate :: bool
  ia_registerDlt :: IasAvbProcessingResult
  ia_loadDriver :: IasAvbProcessingResult
  ia_txRing :: bool
  ia_igb :: bool
  ia_ptp :: bool
  ia_sourceMac :: bool
  ia_hwInit :: IasAvbProcessingResult
  ia_hwClock :: IasAvbClockDomain
  ia_watchdog :: IasAvbProcessingResult
  ia_setup :: "'a handler \<Rightarrow> (bool \<times> 'a handler) option"

definition load_plugin :: "'a init_answers \<Rightarrow> string \<Rightarrow> 'a handler \<Rightarrow> (IasAvbProcessingResult \<times> 'a handler) option" where
  "load_plugin ia configName h =
     (if configName = [] then Some (eIasAvbProcInvalidParam, h)
      else if mConfigPluginHandle h \<noteq> None then None
      else if \<not> fst (ia_dlopen ia) \<and> \<not> snd (ia_dlopen ia) then Some (eIasAvbProcInitializationFailed, h)
      else if \<not> ia_dlsym ia then Some (eIasAvbProcInitializationFailed, h\<lparr>mConfigPluginHandle := Some False\<rparr>)
      else Some (eIasAvbProcOK, h\<lparr>mConfigPluginHandle := Some True\<rparr>))"

definition create_environment :: "'a sh_env \<Rightarrow> 'a init_answers \<Rightarrow> 'a handler \<Rightarrow> (IasAvbProcessingResult \<times> 'a handler) option"
where
  "create_environment env ia h =
     Some (if \<not> ia_newEnvironment ia then (eIasAvbProcNotEnoughMemory, h)
           else
             let h = h\<lparr>mEnvironment := Some \<lparr>he_driver = False, he_igb = False, he_ptp = False\<rparr>\<rparr>
             in if ia_passArguments ia = Some False \<or> \<not> ia_validate ia then (eIasAvbProcInitializationFailed, h)
                else (ia_registerDlt ia,
                      h\<lparr>mApiMutexEnableConfig :=
                          snd (getConfigValue (\<lambda>v. v \<noteq> 0) (she_registry env) cApiMutex (mApiMutexEnableConfig h))\<rparr>))"

definition note_device :: "(handler_environment \<Rightarrow> handler_environment) \<Rightarrow> 'a handler \<Rightarrow> 'a handler" where
  "note_device f h = h\<lparr>mEnvironment := map_option f (mEnvironment h)\<rparr>"

definition load_driver :: "'a sh_env \<Rightarrow> 'a init_answers \<Rightarrow> 'a handler \<Rightarrow> (IasAvbProcessingResult \<times> 'a handler) option" where
  "load_driver env ia h =
     Some (if \<not> fst (getConfigValue_text (she_registry env) cClockDriverFileName []) then (eIasAvbProcOK, h)
           else if ia_loadDriver ia \<noteq> eIasAvbProcOK then (ia_loadDriver ia, h)
           else (if she_driverInit env then eIasAvbProcOK else eIasAvbProcInitializationFailed,
                 called Driver_Init (note_device (\<lambda>ev. ev\<lparr>he_driver := True\<rparr>) h)))"

definition open_devices :: "'a init_answers \<Rightarrow> 'a handler \<Rightarrow> (IasAvbProcessingResult \<times> 'a handler) option" where
  "open_devices ia h =
     (if \<not> ia_txRing ia \<or> \<not> ia_igb ia then Some (eIasAvbProcInitializationFailed, h)
      else
        let h = note_device (\<lambda>ev. ev\<lparr>he_igb := True\<rparr>) h in
        if \<not> ia_ptp ia then Some (eIasAvbProcInitializationFailed, h)
        else if \<not> ia_sourceMac ia then None
        else Some (eIasAvbProcOK, note_device (\<lambda>ev. ev\<lparr>he_ptp := True\<rparr>) h))"

text \<open>A new clock domain under a fixed id.\<close>

definition add_clock :: "'a sh_env \<Rightarrow> u32 \<Rightarrow> IasAvbClockDomain \<Rightarrow> 'a handler \<Rightarrow> IasAvbProcessingResult \<times> 'a handler" where
  "add_clock env k d h =
     (case she_newClock env (snd ` set (mAvbClockDomains h)) of
        None \<Rightarrow> (eIasAvbProcInitializationFailed, h)
      | Some p \<Rightarrow> (eIasAvbProcOK, h\<lparr>clocks := (clocks h)(p := d\<lparr>mClockId := k\<rparr>),
                                  mAvbClockDomains := put_stream k p (mAvbClockDomains h)\<rparr>))"

definition create_ptp_clock :: "'a sh_env \<Rightarrow> 'a handler \<Rightarrow> (IasAvbProcessingResult \<times> 'a handler) option" where
  "create_ptp_clock env h =
     map_option (\<lambda>d. add_clock env cIasAvbPtpClockDomainId (IasAvbClockDomain.truncate d) h) ptp_clock_new"

definition create_raw_clock :: "'a sh_env \<Rightarrow> 'a handler \<Rightarrow> (IasAvbProcessingResult \<times> 'a handler) option" where
  "create_raw_clock env h =
     map_option (\<lambda>d. add_clock env cIasAvbRawClockDomainId (IasAvbClockDomain.truncate d) h) raw_clock_new"

definition create_hw_clock :: "'a sh_env \<Rightarrow> 'a init_answers \<Rightarrow> 'a handler \<Rightarrow> (IasAvbProcessingResult \<times> 'a handler) option" where
  "create_hw_clock env ia h =
     Some (if snd (doGetConfigValue (she_registry env) cClockHwCapFrequency 0) = 0 then (eIasAvbProcOK, h)
           else if ia_hwInit ia \<noteq> eIasAvbProcOK then (eIasAvbProcInitializationFailed, h)
           else add_clock env cIasAvbHwCaptureClockDomainId (ia_hwClock ia) h)"

definition create_watchdog :: "'a init_answers \<Rightarrow> 'a handler \<Rightarrow> (IasAvbProcessingResult \<times> 'a handler) option" where
  "create_watchdog ia h =
     Some (if ia_watchdog ia = eIasAvbProcInvalidParam \<or> ia_watchdog ia = eIasAvbProcOK
           then (eIasAvbProcOK, h\<lparr>sh_mState := eIasInitialized\<rparr>)
           else (eIasAvbProcInitializationFailed, h))"

definition run_setup :: "'a init_answers \<Rightarrow> bool \<Rightarrow> 'a handler \<Rightarrow> (IasAvbProcessingResult \<times> 'a handler) option" where
  "run_setup ia runSetup h =
     (if \<not> runSetup then Some (eIasAvbProcOK, h)
      else map_option (\<lambda>(ok, h). (if ok then eIasAvbProcOK else eIasAvbProcInitializationFailed,
                                  h\<lparr>mPreConfigurationInProgress := False\<rparr>))
             (ia_setup ia (h\<lparr>mPreConfigurationInProgress := True\<rparr>)))"

definition sh_init ::
  "'a sh_env \<Rightarrow> 'a init_answers \<Rightarrow> string \<Rightarrow> bool \<Rightarrow> 'a handler \<Rightarrow> (IasAvbProcessingResult \<times> 'a handler) option" where
  "sh_init env ia configName runSetup h =
     (if sh_isInitialized h then Some (eIasAvbProcAlreadyInUse, h)
      else do {
        (result, h) \<leftarrow>
          and_then (load_plugin ia configName) (and_then (create_environment env ia) (and_then (load_driver env ia)
            (and_then (open_devices ia) (and_then (create_ptp_clock env) (and_then (create_raw_clock env)
            (and_then (create_hw_clock env ia) (and_then (create_watchdog ia) (run_setup ia runSetup)))))))) h;
        if result = eIasAvbProcOK then Some (result, h) else map_option (Pair result) (sh_cleanup env h)
      })"

end
