(* ===== verification/Alsa_Properties.thy ===== *)
theory Alsa_Properties
  imports Alsa_Engine "HOL-Library.Multiset"
begin

text \<open>
  Properties of the ALSA engine: every stream of its maps is on the list of exactly one worker thread that fits
  it, over any sequence of calls and rounds of the worker threads.
\<close>

section \<open>What a stream keeps\<close>

definition ao_same :: "alsa_object \<Rightarrow> alsa_object \<Rightarrow> bool" where
  "ao_same x y \<longleftrightarrow>
     getPeriodSize y = getPeriodSize x \<and> getSampleFrequency y = getSampleFrequency x \<and> getStreamId y = getStreamId x \<and>
     mType (ao_local y) = mType (ao_local x)"

lemma ao_same_refl [simp]: "ao_same x x"
  by (simp add: ao_same_def)

lemma ao_same_trans: "ao_same x y \<Longrightarrow> ao_same y z \<Longrightarrow> ao_same x z"
  by (simp add: ao_same_def)

lemma ao_local_put [simp]: "ao_local (ao_put_local l x) = l"
  by (cases x) (simp_all add: IasLocalAudioStream.defs)

lemma getPeriodSize_put [simp]: "getPeriodSize (ao_put_local l x) = getPeriodSize x"
proof (cases x)
  case (Virtual_Device s)
  then show ?thesis by (cases s) (simp add: IasLocalAudioStream.defs)
next
  case (Hw_Device s)
  then show ?thesis by (cases s) (simp add: IasLocalAudioStream.defs)
qed

lemma ao_setCycle_same [simp]: "ao_same x (ao_setCycle c x)"
  by (cases x) (simp_all add: ao_same_def setCycle_def getSampleFrequency_def getStreamId_def IasLocalAudioStream.defs)

lemma count_deviation_same [simp]: "ao_same x (count_deviation x)"
  by (simp add: ao_same_def count_deviation_def Let_def getSampleFrequency_def getStreamId_def)

definition heap_same :: "alsa_heap \<Rightarrow> alsa_heap \<Rightarrow> bool" where
  "heap_same h h' \<longleftrightarrow> (\<forall>p. ao_same (h p) (h' p))"

lemma heap_same_refl [simp]: "heap_same h h"
  by (simp add: heap_same_def)

lemma heap_same_trans: "heap_same h g \<Longrightarrow> heap_same g k \<Longrightarrow> heap_same h k"
  by (simp add: heap_same_def ao_same_def)

lemma heap_same_upd: "ao_same (h p) x \<Longrightarrow> heap_same h (h(p := x))"
  by (simp add: heap_same_def)


lemma on_ring_keeps:
  "on_ring i f s = Some (r, s') \<Longrightarrow> mSampleFrequency s' = mSampleFrequency s \<and> mStreamId s' = mStreamId s \<and> mType s' = mType s"
  by (auto simp: on_ring_def elim!: result_elims)

lemma reset_rings_keeps:
  "reset_rings n i s = Some s' \<Longrightarrow> mSampleFrequency s' = mSampleFrequency s \<and> mStreamId s' = mStreamId s \<and> mType s' = mType s"
  by (induction n arbitrary: i s) (auto elim!: result_elims dest!: on_ring_keeps)

lemma setWorkerActive_keeps:
  "local_setWorkerActive a s = Some s' \<Longrightarrow> mSampleFrequency s' = mSampleFrequency s \<and> mStreamId s' = mStreamId s \<and> mType s' = mType s"
  by (auto simp: local_setWorkerActive_def flush_all_def on_descQ_def Let_def elim!: result_elims dest!: reset_rings_keeps)

lemma ao_setWorkerActive_same: "ao_setWorkerActive a x = Some y \<Longrightarrow> ao_same x y"
  by (auto simp: ao_setWorkerActive_def ao_same_def getSampleFrequency_def getStreamId_def
      elim!: option_elims dest!: setWorkerActive_keeps)

lemma set_workers_active_same: "set_workers_active a ps h = Some h' \<Longrightarrow> heap_same h h'"
proof (induction ps arbitrary: h)
  case (Cons p ps)
  then obtain x where x: "ao_setWorkerActive a (h p) = Some x" and r: "set_workers_active a ps (h(p := x)) = Some h'"
    by (auto elim!: option_elims)
  show ?case using heap_same_trans [OF heap_same_upd [of h p, OF ao_setWorkerActive_same [OF x]] Cons.IH [OF r]] .
qed simp

section \<open>Workers\<close>

text \<open>What stays the same in a worker when it is started, stopped or runs.\<close>

definition worker_same :: "IasAlsaWorkerThread \<Rightarrow> IasAlsaWorkerThread \<Rightarrow> bool" where
  "worker_same w v \<longleftrightarrow>
     mAlsaStreams v = mAlsaStreams w \<and> mAlsaPeriodSize v = mAlsaPeriodSize w \<and>
     aw_mSampleFrequency v = aw_mSampleFrequency w \<and> aw_mClockDomain v = aw_mClockDomain w \<and>
     (aw_mThread w \<noteq> None \<longrightarrow> aw_mThread v \<noteq> None)"

lemma worker_same_refl [simp]: "worker_same w w"
  by (simp add: worker_same_def)

lemma worker_start_same:
  "worker_start env (w, h) = Some (r, w', h') \<Longrightarrow> worker_same w w' \<and> heap_same h h'"
  by (auto simp: worker_start_def worker_same_def Let_def elim!: option_elims dest!: set_workers_active_same
      split: option.splits bool.splits if_splits prod.splits)

lemma worker_stop_same:
  "worker_stop env (w, h) = Some (r, w', h') \<Longrightarrow> worker_same w w' \<and> heap_same h h'"
  by (auto simp: worker_stop_def worker_same_def Let_def elim!: option_elims dest!: set_workers_active_same
      split: option.splits bool.splits if_splits prod.splits)

definition serve_ok :: "worker_env \<Rightarrow> bool" where
  "serve_ok env \<longleftrightarrow> (\<forall>t x y. wk_serve env t x = Some y \<longrightarrow> ao_same x y)"

lemma serve_streams_same:
  "serve_streams env t ps h = Some h' \<Longrightarrow> serve_ok env \<Longrightarrow> heap_same h h'"
proof (induction ps arbitrary: h)
  case (Cons p ps)
  then obtain x where x: "wk_serve env t (h p) = Some x" and r: "serve_streams env t ps (h(p := x)) = Some h'"
    by (auto elim!: option_elims)
  have "ao_same (h p) x" using x Cons.prems(2) by (auto simp: serve_ok_def)
  then show ?case using heap_same_trans [OF heap_same_upd [of h p x] Cons.IH [OF r Cons.prems(2)]] by blast
qed simp

lemma kick_watchdog_same [simp]: "worker_same w (kick_watchdog ra w)"
  by (auto simp: kick_watchdog_def worker_same_def split: option.splits bool.splits)

lemma worker_same_trans: "worker_same w v \<Longrightarrow> worker_same v u \<Longrightarrow> worker_same w u"
  by (auto simp: worker_same_def)

lemma process_same:
  "process env t (w, h) = Some (w', h') \<Longrightarrow> serve_ok env \<Longrightarrow> worker_same w w' \<and> heap_same h h'"
  by (auto simp: process_def worker_same_def elim!: option_elims dest: serve_streams_same)

lemma keep_running_same [simp]: "worker_same w (w\<lparr>aw_mKeepRunning := b\<rparr>)"
  by (simp add: worker_same_def)

lemma worker_round_same:
  assumes "worker_round env c ra (t, w, h) = Some (t', w', h')" and "serve_ok env"
  shows "worker_same w w' \<and> heap_same h h'"
proof (cases "aw_mKeepRunning w \<and> ra_now ra \<noteq> None")
  case True
  then obtain now where now: "ra_now ra = Some now" by auto
  obtain w1 h1 ts w2 where
    p: "process env ts (w1, h1) = Some (w2, h')" and a: "worker_same w w1 \<and> heap_same h h1" and
    d: "w' = w2 \<or> w' = w2\<lparr>aw_mKeepRunning := False\<rparr>"
    using assms(1) True now
    apply (simp add: worker_round_def Let_def)
    apply (elim bind_SomeE prod_SomeE)
    apply (simp only: prod.inject prod.case option.inject)
    apply (elim conjE)
    apply (rule that)
      apply assumption
     apply (auto simp: heap_same_def Let_def split: if_splits elim!: option_elims) [1]
    apply (auto split: if_splits) [1]
    done
  have "worker_same w2 w'" using d by auto
  then show ?thesis using a process_same [OF p assms(2)] worker_same_trans heap_same_trans by blast
next
  case False
  then show ?thesis using assms(1) by (auto simp: worker_round_def split: if_splits)
qed

section \<open>The invariant\<close>

text \<open>A stream knows its id and that it is an ALSA stream.\<close>

definition named :: "u16 \<Rightarrow> alsa_object \<Rightarrow> bool" where
  "named k x \<longleftrightarrow> getStreamId x = k \<and> mType (ao_local x) = eIasAlsaStream"

lemma named_same: "named k x \<Longrightarrow> ao_same x y \<Longrightarrow> named k y"
  by (simp add: named_def ao_same_def)

text \<open>The streams on a worker list fit the period of the worker.\<close>

definition fits :: "alsa_heap \<Rightarrow> IasAlsaWorkerThread \<Rightarrow> bool" where
  "fits h w \<longleftrightarrow>
     (\<forall>p\<in>set (mAlsaStreams w). fitting_period (getPeriodSize (h p)) (getSampleFrequency (h p)) (mAlsaPeriodSize w) (aw_mSampleFrequency w))"

definition worker_ok :: "alsa_heap \<Rightarrow> IasAlsaWorkerThread \<Rightarrow> bool" where
  "worker_ok h w \<longleftrightarrow> mAlsaStreams w \<noteq> [] \<and> aw_mThread w \<noteq> None \<and> aw_mClockDomain w \<noteq> None \<and> fits h w"

definition entries :: "IasAlsaEngine \<Rightarrow> (u16 \<times> nat) list" where
  "entries e = mAlsaHwDevStreams e @ mAlsaViDevStreams e"

definition listed :: "IasAlsaEngine \<Rightarrow> nat list" where
  "listed e = concat (map mAlsaStreams (mWorkerThreads e))"

definition alsa_ok :: "IasAlsaEngine \<Rightarrow> bool" where
  "alsa_ok e \<longleftrightarrow>
     keys_ok (mAlsaViDevStreams e) \<and> keys_ok (mAlsaHwDevStreams e) \<and> distinct (map fst (entries e)) \<and>
     distinct (map snd (entries e)) \<and> mset (listed e) = mset (map snd (entries e)) \<and>
     (\<forall>(k, p)\<in>set (entries e). named k (alsa_heap e p)) \<and>
     (\<forall>w\<in>set (mWorkerThreads e). worker_ok (alsa_heap e) w)"

lemma fits_same: "heap_same h h' \<Longrightarrow> worker_same w w' \<Longrightarrow> fits h w \<Longrightarrow> fits h' w'"
  by (auto simp: fits_def heap_same_def ao_same_def worker_same_def)

lemma worker_ok_same: "heap_same h h' \<Longrightarrow> worker_same w w' \<Longrightarrow> worker_ok h w \<Longrightarrow> worker_ok h' w'"
  using fits_same by (auto simp: worker_ok_def worker_same_def)

text \<open>Workers and heap change without the invariant being touched.\<close>

lemma alsa_ok_same:
  assumes "alsa_ok e" and "heap_same (alsa_heap e) h" and "list_all2 worker_same (mWorkerThreads e) ws"
  shows "alsa_ok (e\<lparr>mWorkerThreads := ws, alsa_heap := h, ag_mIsStarted := b\<rparr>)"
proof -
  have "map mAlsaStreams ws = map mAlsaStreams (mWorkerThreads e)"
    using assms(3) by (induction rule: list_all2_induct) (auto simp: worker_same_def)
  moreover have "\<forall>w\<in>set ws. worker_ok h w"
  proof
    fix v assume "v \<in> set ws"
    then obtain w where "w \<in> set (mWorkerThreads e)" "worker_same w v"
      using assms(3) by (metis in_set_conv_nth list_all2_conv_all_nth)
    then show "worker_ok h v" using worker_ok_same [OF assms(2)] assms(1) by (auto simp: alsa_ok_def)
  qed
  moreover have "\<forall>(k, p)\<in>set (entries e). named k (h p)"
    using assms(1,2) named_same unfolding alsa_ok_def heap_same_def by fast
  ultimately show ?thesis using assms(1) by (auto simp: alsa_ok_def entries_def listed_def)
qed

lemma each_worker_same:
  assumes "each_worker f ws h = Some (ws', h')"
    and "\<And>w h r w' h'. f (w, h) = Some (r, w', h') \<Longrightarrow> worker_same w w' \<and> heap_same h h'"
  shows "list_all2 worker_same ws ws' \<and> heap_same h h'"
  using assms(1)
proof (induction ws arbitrary: h ws')
  case (Cons w ws)
  then obtain r w1 h1 ws1 where 1: "f (w, h) = Some (r, w1, h1)" and 2: "each_worker f ws h1 = Some (ws1, h')"
    and 3: "ws' = w1 # ws1" by (auto elim!: option_elims)
  show ?case using assms(2) [OF 1] Cons.IH [OF 2] heap_same_trans by (auto simp: 3)
qed simp

lemma find_worker_Some:
  "find_worker P i ws = Some j \<Longrightarrow> i \<le> j \<and> j < i + length ws \<and> P (ws ! (j - i))"
proof (induction ws arbitrary: i)
  case (Cons w ws)
  show ?case
  proof (cases "P w")
    case False
    then have "Suc i \<le> j \<and> j < Suc i + length ws \<and> P (ws ! (j - Suc i))"
      using Cons.prems by (intro Cons.IH) simp
    then show ?thesis by (auto simp: Suc_diff_le nth_Cons')
  qed (use Cons.prems in simp)
qed simp

lemma find_worker_None: "find_worker P i ws = None \<longleftrightarrow> (\<forall>w\<in>set ws. \<not> P w)"
  by (induction ws arbitrary: i) auto

section \<open>A stream gets its worker\<close>

lemma addAlsaStream_OK:
  assumes "addAlsaStream (Some p) (w, h) = Some (r, w', h')"
  shows "heap_same h h'"
    and "r = eIasAvbProcOK \<Longrightarrow> mAlsaStreams w' = p # mAlsaStreams w \<and> mAlsaPeriodSize w' = mAlsaPeriodSize w \<and>
      aw_mSampleFrequency w' = aw_mSampleFrequency w \<and> aw_mClockDomain w' = aw_mClockDomain w \<and>
      aw_mThread w' = aw_mThread w \<and> aw_mThread w \<noteq> None"
    and "r \<noteq> eIasAvbProcOK \<Longrightarrow> w' = w"
proof -
  have same: "ao_setWorkerActive b (ao_setCycle c (h p)) = Some x \<Longrightarrow> heap_same h (h(p := x))" for b c x
    using ao_same_trans [OF ao_setCycle_same ao_setWorkerActive_same] by (blast intro: heap_same_upd)
  show "heap_same h h'"
    "r = eIasAvbProcOK \<Longrightarrow> mAlsaStreams w' = p # mAlsaStreams w \<and> mAlsaPeriodSize w' = mAlsaPeriodSize w \<and>
      aw_mSampleFrequency w' = aw_mSampleFrequency w \<and> aw_mClockDomain w' = aw_mClockDomain w \<and>
      aw_mThread w' = aw_mThread w \<and> aw_mThread w \<noteq> None"
    "r \<noteq> eIasAvbProcOK \<Longrightarrow> w' = w"
    using assms by (auto simp: addAlsaStream_def Let_def split: if_splits elim!: option_elims dest!: same)
qed

lemma fitting_period_self:
  "p \<noteq> 0 \<Longrightarrow> f \<noteq> 0 \<Longrightarrow> fitting_period p f p f"
proof -
  assume "p \<noteq> 0" "f \<noteq> 0"
  then have "unat p * unat f \<noteq> 0" by (simp add: unat_eq_zero)
  moreover have "unat p * unat f < 2 ^ 64"
    using mult_strict_mono [of "unat p" "2 ^ 32" "unat f" "2 ^ 32"] unat_lt [of p] unat_lt [of f] by simp
  ultimately have "(ucast p * ucast f :: u64) \<noteq> 0"
    by (simp add: word_neq_0_conv word_less_nat_alt unat_word_ariths unat_ucast_up)
  then show ?thesis
    by (simp add: fitting_period_def Let_def word_le_nat_alt unat_div unat_eq_zero flip: word_neq_0_conv)
qed

lemma worker_init_OK:
  assumes "worker_init env (Some p) period freq clock (worker_new, h) = Some (r, w, h')"
  shows "heap_same h h'"
    and "r = eIasAvbProcOK \<Longrightarrow> mAlsaStreams w = [p] \<and> mAlsaPeriodSize w = period \<and> aw_mSampleFrequency w = freq \<and>
      aw_mClockDomain w \<noteq> None \<and> aw_mThread w \<noteq> None"
  using assms addAlsaStream_OK
  by (auto simp: worker_init_def worker_new_def worker_watchdog_def Let_def elim!: option_elims split: if_splits prod.splits,
      (blast dest: addAlsaStream_OK)+)


text \<open>Two workers and a heap are in order after one worker has got a stream \<open>p\<close> that was on no list.\<close>

lemma worker_ok_add:
  assumes "worker_ok h w" and "heap_same h h'"
    and "mAlsaStreams w' = p # mAlsaStreams w \<and> mAlsaPeriodSize w' = mAlsaPeriodSize w \<and>
      aw_mSampleFrequency w' = aw_mSampleFrequency w \<and> aw_mClockDomain w' = aw_mClockDomain w \<and>
      aw_mThread w' = aw_mThread w \<and> aw_mThread w \<noteq> None"
    and "fitting_period (getPeriodSize (h p)) (getSampleFrequency (h p)) (mAlsaPeriodSize w) (aw_mSampleFrequency w)"
  shows "worker_ok h' w'"
  using assms by (auto simp: worker_ok_def fits_def heap_same_def ao_same_def)

definition same_maps :: "IasAlsaEngine \<Rightarrow> IasAlsaEngine \<Rightarrow> bool" where
  "same_maps e e' \<longleftrightarrow> mAlsaHwDevStreams e' = mAlsaHwDevStreams e \<and> mAlsaViDevStreams e' = mAlsaViDevStreams e \<and>
     ag_mIsInitialized e' = ag_mIsInitialized e \<and> ag_mIsStarted e' = ag_mIsStarted e"

lemma same_maps_refl [simp]: "same_maps e e"
  by (simp add: same_maps_def)

text \<open>Threads that are asked to start do so.\<close>

definition env_ok :: "alsa_engine_env \<Rightarrow> bool" where
  "env_ok env \<longleftrightarrow> wk_threadStart (ag_worker env) \<and> serve_ok (ag_worker env) \<and>
     (\<forall>d k n f p. named k (Hw_Device (snd (ag_initHw env d k n f p)))) \<and>
     (\<forall>A p. ag_newStream env A = Some p \<longrightarrow> p \<notin> A)"

lemma worker_start_OK:
  "worker_start env (w, h) = Some (r, w', h') \<Longrightarrow> wk_threadStart env \<Longrightarrow> aw_mThread w \<noteq> None \<Longrightarrow> r = eIasAvbProcOK"
  by (auto simp: worker_start_def split: option.splits bool.splits elim!: option_elims)

lemma new_worker_OK:
  assumes "new_worker env p clock e = Some (r, e')" and "env_ok env"
    and "getPeriodSize (alsa_heap e p) \<noteq> 0" "getSampleFrequency (alsa_heap e p) \<noteq> 0"
  shows "same_maps e e' \<and> heap_same (alsa_heap e) (alsa_heap e')"
    and "r \<noteq> eIasAvbProcOK \<Longrightarrow> mWorkerThreads e' = mWorkerThreads e"
    and "r = eIasAvbProcOK \<Longrightarrow> \<exists>w. mWorkerThreads e' = mWorkerThreads e @ [w] \<and> mAlsaStreams w = [p] \<and> worker_ok (alsa_heap e') w"
proof -
  let ?x = "alsa_heap e p"
  obtain period freq where
    pf: "fitting_period (getPeriodSize ?x) (getSampleFrequency ?x) period freq" and
    eq: "new_worker env p clock e =
      (if \<not> ag_newWorker env then Some (eIasAvbProcNotEnoughMemory, e)
       else do {
         (result, w, h) \<leftarrow> worker_init (ag_worker env) (Some p) period freq clock (worker_new, alsa_heap e);
         if result \<noteq> eIasAvbProcOK then Some (result, e\<lparr>alsa_heap := h\<rparr>)
         else do {
           (result, w, h) \<leftarrow> (if ag_mIsStarted e then worker_start (ag_worker env) (w, h) else Some (result, w, h));
           Some (result, e\<lparr>mWorkerThreads := mWorkerThreads e @ [w], alsa_heap := h\<rparr>)
         }
       })"
  proof (cases "fitting_period (getPeriodSize ?x) (getSampleFrequency ?x)
      (snd (getConfigValue ucast (ag_registry env) cAlsaBasePeriod 128))
      (snd (getConfigValue ucast (ag_registry env) cAlsaBaseFreq 48000))")
    case True
    then show thesis by (intro that) (simp_all add: new_worker_def Let_def)
  next
    case False
    then show thesis using fitting_period_self [OF assms(3,4)] by (intro that) (simp_all add: new_worker_def Let_def)
  qed
  show "same_maps e e' \<and> heap_same (alsa_heap e) (alsa_heap e')"
    "r \<noteq> eIasAvbProcOK \<Longrightarrow> mWorkerThreads e' = mWorkerThreads e"
    "r = eIasAvbProcOK \<Longrightarrow> \<exists>w. mWorkerThreads e' = mWorkerThreads e @ [w] \<and> mAlsaStreams w = [p] \<and> worker_ok (alsa_heap e') w"
  proof -
    have "same_maps e e' \<and> heap_same (alsa_heap e) (alsa_heap e') \<and> (r \<noteq> eIasAvbProcOK \<longrightarrow> mWorkerThreads e' = mWorkerThreads e) \<and>
      (r = eIasAvbProcOK \<longrightarrow> (\<exists>w. mWorkerThreads e' = mWorkerThreads e @ [w] \<and> mAlsaStreams w = [p] \<and> worker_ok (alsa_heap e') w))"
    proof (cases "ag_newWorker env")
      case False
      then show ?thesis using assms(1) eq by auto
    next
      case True
      then obtain result w h where i: "worker_init (ag_worker env) (Some p) period freq clock (worker_new, alsa_heap e)
          = Some (result, w, h)"
        and c: "(if result \<noteq> eIasAvbProcOK then Some (result, e\<lparr>alsa_heap := h\<rparr>)
         else do {
           (result, w, h) \<leftarrow> (if ag_mIsStarted e then worker_start (ag_worker env) (w, h) else Some (result, w, h));
           Some (result, e\<lparr>mWorkerThreads := mWorkerThreads e @ [w], alsa_heap := h\<rparr>)
         }) = Some (r, e')"
        using assms(1) unfolding eq by (elim if_SomeE bind_SomeE prod_SomeE) auto
      note io = worker_init_OK [OF i]
      show ?thesis
      proof (cases "result = eIasAvbProcOK")
        case False
        then show ?thesis using c io(1) by (auto simp: same_maps_def)
      next
        case True
        then obtain w' h' where s: "(if ag_mIsStarted e then worker_start (ag_worker env) (w, h) else Some (result, w, h)) = Some (r, w', h')"
          and e': "e' = e\<lparr>mWorkerThreads := mWorkerThreads e @ [w'], alsa_heap := h'\<rparr>"
          using c by (auto elim!: bind_SomeE)
        note io2 = io(2) [OF True]
        have w: "worker_ok h w" using io2 pf io(1) by (auto simp: worker_ok_def fits_def heap_same_def ao_same_def)
        have sm: "worker_same w w' \<and> heap_same h h'" using s by (auto split: if_splits dest: worker_start_same)
        have "r = eIasAvbProcOK"
          using s True io2 assms(2) by (auto split: if_splits dest: worker_start_OK simp: env_ok_def)
        moreover have "worker_ok h' w'" using worker_ok_same [OF conjunct2 [OF sm] conjunct1 [OF sm] w] .
        moreover have "mAlsaStreams w' = [p]" using sm io2 by (simp add: worker_same_def)
        ultimately show ?thesis using e' io(1) sm heap_same_trans by (auto simp: same_maps_def)
      qed
    qed
    then show "same_maps e e' \<and> heap_same (alsa_heap e) (alsa_heap e')"
      "r \<noteq> eIasAvbProcOK \<Longrightarrow> mWorkerThreads e' = mWorkerThreads e"
      "r = eIasAvbProcOK \<Longrightarrow> \<exists>w. mWorkerThreads e' = mWorkerThreads e @ [w] \<and> mAlsaStreams w = [p] \<and> worker_ok (alsa_heap e') w"
      by auto
  qed
qed

text \<open>What assigning a stream does to the workers.\<close>

definition assigned :: "nat \<Rightarrow> IasAlsaEngine \<Rightarrow> IasAlsaEngine \<Rightarrow> bool" where
  "assigned p e e' \<longleftrightarrow>
     mset (listed e') = add_mset p (mset (listed e)) \<and> (\<forall>w\<in>set (mWorkerThreads e'). worker_ok (alsa_heap e') w)"

lemma listed_update:
  assumes "i < length (mWorkerThreads e)" and "mAlsaStreams w = p # mAlsaStreams (mWorkerThreads e ! i)"
  shows "mset (concat (map mAlsaStreams ((mWorkerThreads e)[i := w]))) = add_mset p (mset (listed e))"
proof -
  have "mWorkerThreads e = take i (mWorkerThreads e) @ mWorkerThreads e ! i # drop (Suc i) (mWorkerThreads e)"
    using assms(1) by (rule id_take_nth_drop)
  then have "mset (listed e) = mset (concat (map mAlsaStreams (take i (mWorkerThreads e)))) +
      mset (mAlsaStreams (mWorkerThreads e ! i)) + mset (concat (map mAlsaStreams (drop (Suc i) (mWorkerThreads e))))"
    unfolding listed_def by (metis (no_types, lifting) add.assoc concat.simps(2) concat_append list.map(2) map_append mset_append)
  then show ?thesis using assms by (simp add: upd_conv_take_nth_drop)
qed

lemma assign_OK:
  assumes "assignToWorkerThread env (Some p) clock e = Some (r, e')" and "env_ok env"
    and "\<forall>w\<in>set (mWorkerThreads e). worker_ok (alsa_heap e) w"
  shows "same_maps e e'" and "heap_same (alsa_heap e) (alsa_heap e')"
    and "r \<noteq> eIasAvbProcOK \<Longrightarrow> mWorkerThreads e' = mWorkerThreads e"
    and "r = eIasAvbProcOK \<Longrightarrow> assigned p e e'"
proof -
  let ?x = "alsa_heap e p"
  have "same_maps e e' \<and> heap_same (alsa_heap e) (alsa_heap e') \<and>
    (if r = eIasAvbProcOK then assigned p e e' else mWorkerThreads e' = mWorkerThreads e)"
  proof (cases "\<not> ag_mIsInitialized e \<or> getPeriodSize ?x = 0 \<or> getSampleFrequency ?x = 0")
    case True
    then show ?thesis using assms(1) by (auto simp: assignToWorkerThread_def Let_def split: if_splits)
  next
    case False
    let ?f = "find_worker (checkParameter clock (getPeriodSize ?x) (getSampleFrequency ?x)) 0 (mWorkerThreads e)"
    show ?thesis
    proof (cases ?f)
      case None
      then have n: "new_worker env p clock e = Some (r, e')" using assms(1) False by (simp add: assignToWorkerThread_def Let_def)
      have nz: "getPeriodSize ?x \<noteq> 0" "getSampleFrequency ?x \<noteq> 0" using False by auto
      note o = new_worker_OK [OF n assms(2) nz]
      show ?thesis
      proof (cases "r = eIasAvbProcOK")
        case True
        then obtain w where w: "mWorkerThreads e' = mWorkerThreads e @ [w]" "mAlsaStreams w = [p]" "worker_ok (alsa_heap e') w"
          using o(3) by blast
        have "\<forall>v\<in>set (mWorkerThreads e). worker_ok (alsa_heap e') v"
          using assms(3) worker_ok_same [OF conjunct2 [OF o(1)] worker_same_refl] by blast
        then show ?thesis using True o(1) w by (auto simp: assigned_def listed_def)
      qed (use o in auto)
    next
      case (Some i)
      then have i: "i < length (mWorkerThreads e)"
        and fit: "checkParameter clock (getPeriodSize ?x) (getSampleFrequency ?x) (mWorkerThreads e ! i)"
        using find_worker_Some [OF Some] by auto
      obtain w' h' where a: "addAlsaStream (Some p) (mWorkerThreads e ! i, alsa_heap e) = Some (r, w', h')"
        and e': "e' = put_worker i (w', h') e"
        using assms(1) False Some by (auto simp: assignToWorkerThread_def Let_def elim!: option_elims)
      note ao = addAlsaStream_OK [OF a]
      show ?thesis
      proof (cases "r = eIasAvbProcOK")
        case False
        then show ?thesis using ao e' by (simp add: put_worker_def same_maps_def)
      next
        case True
        note ao2 = ao(2) [OF True]
        have "worker_ok h' w'"
          using worker_ok_add [OF _ ao(1) ao2] assms(3) i fit by (auto simp: checkParameter_def)
        then have "\<forall>w\<in>set ((mWorkerThreads e)[i := w']). worker_ok h' w"
          using assms(3) worker_ok_same [OF ao(1) worker_same_refl] set_update_subset_insert by fastforce
        moreover have "mset (concat (map mAlsaStreams ((mWorkerThreads e)[i := w']))) = add_mset p (mset (listed e))"
          using listed_update [OF i] ao2 by blast
        ultimately show ?thesis using True ao(1) e' by (simp add: put_worker_def same_maps_def assigned_def listed_def)
      qed
    qed
  qed
  then show "same_maps e e'" "heap_same (alsa_heap e) (alsa_heap e')"
    "r \<noteq> eIasAvbProcOK \<Longrightarrow> mWorkerThreads e' = mWorkerThreads e" "r = eIasAvbProcOK \<Longrightarrow> assigned p e e'"
    by (auto split: if_splits)
qed


section \<open>Streams are created\<close>

lemma init_rings_keeps:
  "mStreamId (snd (init_rings n i env t r a es)) = mStreamId (snd es) \<and> mType (snd (init_rings n i env t r a es)) = mType (snd es)"
  by (induction n arbitrary: i a es) (auto simp: Let_def split: prod.splits)

lemma init_descQ_keeps: "mStreamId (snd (init_descQ env q s)) = mStreamId s \<and> mType (snd (init_descQ env q s)) = mType s"
  by (simp add: init_descQ_def Let_def split: option.splits)

lemma init_desc_keeps:
  assumes "init_desc env t a s = Some (e, r, s')"
  shows "mStreamId s' = mStreamId s \<and> mType s' = mType s"
proof -
  obtain q v where "init_descQ env q v = (e, s')" and "mStreamId v = mStreamId s \<and> mType v = mType s"
    using assms unfolding init_desc_def Let_def
    by (elim bind_SomeE prod_SomeE) (auto split: prod.splits intro: that elim!: option_elims)
  then show ?thesis using init_descQ_keeps [of env q v] by simp
qed

lemma local_init_keeps:
  assumes "local_init env c n b t f a s = Some (e, s')"
  shows "mStreamId s' = mStreamId s \<and> mType s' = mType s"
proof -
  have r: "init_rings n i env t r a (e, s) = (e', s') \<Longrightarrow> mStreamId s' = mStreamId s \<and> mType s' = mType s" for n i env t r a e s e' and s' :: "'a IasLocalAudioStream_scheme"
    using init_rings_keeps [of n i env t r a "(e, s)"] by simp
  show ?thesis
    using assms
    by (auto simp: local_init_def Let_def local_cleanup_def elim!: option_elims split: prod.splits if_splits
        dest!: r init_desc_keeps)
qed

lemma alsa_init_keeps:
  "alsa_init env n t lv p k f fmt c b d ty s = Some (r, s') \<Longrightarrow> mStreamId s' = mStreamId s \<and> mType s' = mType s"
  by (auto simp: alsa_init_def alsa_init_body_def alsa_init_shm_def alsa_cleanup_def elim!: option_elims split: if_splits
      dest!: local_init_keeps)

text \<open>The result of creating a stream: nothing, or a new entry for a stream that has got a worker.\<close>

definition created :: "u16 \<Rightarrow> nat \<Rightarrow> IasAlsaEngine \<Rightarrow> IasAlsaEngine \<Rightarrow> bool" where
  "created k p e e' \<longleftrightarrow>
     (mAlsaHwDevStreams e' = put_stream k p (mAlsaHwDevStreams e) \<and> mAlsaViDevStreams e' = mAlsaViDevStreams e \<or>
      mAlsaViDevStreams e' = put_stream k p (mAlsaViDevStreams e) \<and> mAlsaHwDevStreams e' = mAlsaHwDevStreams e)"

definition same_but :: "nat \<Rightarrow> alsa_heap \<Rightarrow> alsa_heap \<Rightarrow> bool" where
  "same_but p h h' \<longleftrightarrow> (\<forall>q. q \<noteq> p \<longrightarrow> ao_same (h q) (h' q))"

lemma workers_ok_but:
  assumes "same_but p h h'" and "p \<notin> set (mAlsaStreams w)" and "worker_ok h w"
  shows "worker_ok h' w"
  using assms(3) assms(1)[unfolded same_but_def ao_same_def] assms(2) unfolding worker_ok_def fits_def by metis

lemma assign_new:
  assumes "assignToWorkerThread env (Some p) clock (e\<lparr>alsa_heap := (alsa_heap e)(p := x)\<rparr>) = Some (r, e')" and "env_ok env"
    and "\<forall>w\<in>set (mWorkerThreads e). worker_ok (alsa_heap e) w" and "p \<notin> ag_pointers e"
  shows "same_maps e e'" and "same_but p (alsa_heap e) (alsa_heap e')" and "ao_same x (alsa_heap e' p)"
    and "r \<noteq> eIasAvbProcOK \<Longrightarrow> mWorkerThreads e' = mWorkerThreads e"
    and "r = eIasAvbProcOK \<Longrightarrow> assigned p e e'"
proof -
  let ?e = "e\<lparr>alsa_heap := (alsa_heap e)(p := x)\<rparr>"
  have b: "same_but p (alsa_heap e) (alsa_heap ?e)" by (simp add: same_but_def)
  have "\<forall>w\<in>set (mWorkerThreads ?e). worker_ok (alsa_heap ?e) w"
    using workers_ok_but [OF b] assms(3,4) by (auto simp: ag_pointers_def)
  note a = assign_OK [OF assms(1,2) this]
  show "same_maps e e'" using a(1) by (simp add: same_maps_def)
  have h: "ao_same (((alsa_heap e)(p := x)) q) (alsa_heap e' q)" for q using a(2) by (simp add: heap_same_def)
  show "same_but p (alsa_heap e) (alsa_heap e')" unfolding same_but_def using h by (metis fun_upd_other)
  show "ao_same x (alsa_heap e' p)" using h [of p] by simp
  show "r \<noteq> eIasAvbProcOK \<Longrightarrow> mWorkerThreads e' = mWorkerThreads e" using a(3) by simp
  show "r = eIasAvbProcOK \<Longrightarrow> assigned p e e'" using a(4) by (simp add: assigned_def listed_def)
qed

lemma create_virtual_OK:
  assumes "create_virtual env d n f fmt ps na c b dev k clock p e = Some (r, e')" and "env_ok env"
    and "\<forall>w\<in>set (mWorkerThreads e). worker_ok (alsa_heap e) w" and "p \<notin> ag_pointers e"
  shows "same_but p (alsa_heap e) (alsa_heap e')" and "named k (alsa_heap e' p)"
    and "r \<noteq> eIasAvbProcOK \<Longrightarrow> same_maps e e' \<and> mWorkerThreads e' = mWorkerThreads e"
    and "r = eIasAvbProcOK \<Longrightarrow> created k p e e' \<and> assigned p e e' \<and> ag_mIsInitialized e' = ag_mIsInitialized e"
proof -
  obtain t s r1 where
    i: "alsa_init (ag_stream env) n t (t div 2) ps (num_periods (ag_registry env) (dev @ device_suffix d) na) f fmt c b dev
          eIasAlsaVirtualDevice (note_base (ag_registry env) (alsa_new d k)) = Some (r1, s)" and
    c: "(if r1 \<noteq> eIasAvbProcOK then Some (r1, e\<lparr>alsa_heap := (alsa_heap e)(p := Virtual_Device s)\<rparr>)
         else do {
           (result, e) \<leftarrow> assignToWorkerThread env (Some p) clock (e\<lparr>alsa_heap := (alsa_heap e)(p := Virtual_Device s)\<rparr>);
           Some (result, if result = eIasAvbProcOK
                         then e\<lparr>mAlsaViDevStreams := put_stream k p (mAlsaViDevStreams e)\<rparr> else e)
         }) = Some (r, e')"
    using assms(1) unfolding create_virtual_def Let_def by (elim bind_SomeE prod_SomeE) simp
  have "mStreamId s = k \<and> mType s = eIasAlsaStream"
    using alsa_init_keeps [OF i]
    by (auto simp: note_base_def alsa_new_def local_stream_new_def IasLocalAudioStream.defs IasAlsaVirtualDeviceStream.defs)
  then have k: "named k (Virtual_Device s)" by (simp add: named_def getStreamId_def IasLocalAudioStream.defs)
  have "same_but p (alsa_heap e) (alsa_heap e') \<and> named k (alsa_heap e' p) \<and>
    (if r = eIasAvbProcOK then created k p e e' \<and> assigned p e e' \<and> ag_mIsInitialized e' = ag_mIsInitialized e
     else same_maps e e' \<and> mWorkerThreads e' = mWorkerThreads e)"
  proof (cases "r1 = eIasAvbProcOK")
    case False
    then show ?thesis using c k by (auto simp: same_but_def same_maps_def)
  next
    case True
    then obtain r2 e2 where a: "assignToWorkerThread env (Some p) clock (e\<lparr>alsa_heap := (alsa_heap e)(p := Virtual_Device s)\<rparr>) = Some (r2, e2)"
      and e2: "r = r2" "e' = (if r2 = eIasAvbProcOK then e2\<lparr>mAlsaViDevStreams := put_stream k p (mAlsaViDevStreams e2)\<rparr> else e2)"
      using c by (auto elim!: bind_SomeE)
    note n = assign_new [OF a assms(2,3,4)]
    show ?thesis using n e2 k by (auto simp: created_def assigned_def listed_def same_maps_def dest: named_same)
  qed
  then show "same_but p (alsa_heap e) (alsa_heap e')" "named k (alsa_heap e' p)"
    "r \<noteq> eIasAvbProcOK \<Longrightarrow> same_maps e e' \<and> mWorkerThreads e' = mWorkerThreads e"
    "r = eIasAvbProcOK \<Longrightarrow> created k p e e' \<and> assigned p e e' \<and> ag_mIsInitialized e' = ag_mIsInitialized e"
    by (auto split: if_splits)
qed


lemma create_hw_OK:
  assumes "create_hw env d f ps dev k clock p e = Some (r, e')" and "env_ok env"
    and "\<forall>w\<in>set (mWorkerThreads e). worker_ok (alsa_heap e) w" and "p \<notin> ag_pointers e"
  shows "same_but p (alsa_heap e) (alsa_heap e')" and "named k (alsa_heap e' p)"
    and "r \<noteq> eIasAvbProcOK \<Longrightarrow> same_maps e e' \<and> mWorkerThreads e' = mWorkerThreads e"
    and "r = eIasAvbProcOK \<Longrightarrow> created k p e e' \<and> assigned p e e' \<and> ag_mIsInitialized e' = ag_mIsInitialized e"
proof -
  obtain r1 s where i: "ag_initHw env d k dev f ps = (r1, s)" by fastforce
  have c: "(if r1 \<noteq> eIasAvbProcOK then Some (r1, e\<lparr>alsa_heap := (alsa_heap e)(p := Hw_Device s)\<rparr>)
       else do {
         (result, e) \<leftarrow> assignToWorkerThread env (Some p) clock (e\<lparr>alsa_heap := (alsa_heap e)(p := Hw_Device s)\<rparr>);
         if result \<noteq> eIasAvbProcOK then None
         else Some (result, e\<lparr>mAlsaHwDevStreams := put_stream k p (mAlsaHwDevStreams e),
                              alsa_heap := (alsa_heap e)(p := (case alsa_heap e p of
                                  Hw_Device s \<Rightarrow> Hw_Device (s\<lparr>hw_started := ag_hwStart env\<rparr>) | x \<Rightarrow> x))\<rparr>)
       }) = Some (r, e')"
    using assms(1) i unfolding create_hw_def Let_def by (elim bind_SomeE) simp
  have k: "named k (Hw_Device s)" using assms(2) i unfolding env_ok_def by (metis snd_conv)
  have "same_but p (alsa_heap e) (alsa_heap e') \<and> named k (alsa_heap e' p) \<and>
    (if r = eIasAvbProcOK then created k p e e' \<and> assigned p e e' \<and> ag_mIsInitialized e' = ag_mIsInitialized e
     else same_maps e e' \<and> mWorkerThreads e' = mWorkerThreads e)"
  proof (cases "r1 = eIasAvbProcOK")
    case False
    then show ?thesis using c k by (auto simp: same_but_def same_maps_def)
  next
    case True
    let ?start = "\<lambda>x. case x of Hw_Device s \<Rightarrow> Hw_Device (s\<lparr>hw_started := ag_hwStart env\<rparr>) | x \<Rightarrow> x"
    obtain r2 e2 where a: "assignToWorkerThread env (Some p) clock (e\<lparr>alsa_heap := (alsa_heap e)(p := Hw_Device s)\<rparr>) = Some (r2, e2)"
      and r2: "r2 = eIasAvbProcOK" "r = r2"
      and e2: "e' = e2\<lparr>mAlsaHwDevStreams := put_stream k p (mAlsaHwDevStreams e2),
                 alsa_heap := (alsa_heap e2)(p := ?start (alsa_heap e2 p))\<rparr>"
      using c True by (auto elim!: bind_SomeE split: if_splits)
    note n = assign_new [OF a assms(2,3,4)]
    have st: "ao_same x (?start x)" for x
      by (cases x) (simp_all add: ao_same_def getSampleFrequency_def getStreamId_def IasLocalAudioStream.defs)
    have h: "heap_same (alsa_heap e2) ((alsa_heap e2)(p := ?start (alsa_heap e2 p)))" by (rule heap_same_upd) (rule st)
    have "assigned p e e'"
      using n(5) [OF r2(1)] worker_ok_same [OF h worker_same_refl]
      unfolding assigned_def listed_def e2 by simp
    moreover have "same_but p (alsa_heap e) (alsa_heap e')" using n(2) unfolding same_but_def e2 by simp
    moreover have "named k (alsa_heap e' p)"
      using named_same [OF named_same [OF k n(3)] st [of "alsa_heap e2 p"]] unfolding e2 by simp
    ultimately show ?thesis using r2 n(1) by (auto simp: e2 created_def same_maps_def)
  qed
  then show "same_but p (alsa_heap e) (alsa_heap e')" "named k (alsa_heap e' p)"
    "r \<noteq> eIasAvbProcOK \<Longrightarrow> same_maps e e' \<and> mWorkerThreads e' = mWorkerThreads e"
    "r = eIasAvbProcOK \<Longrightarrow> created k p e e' \<and> assigned p e e' \<and> ag_mIsInitialized e' = ag_mIsInitialized e"
    by (auto split: if_splits)
qed

lemma mset_put_fresh: "k \<notin> fst ` set xs \<Longrightarrow> mset (put_stream k d xs) = add_mset (k, d) (mset xs)"
  by (induction xs) auto

lemma alsa_ok_pointers: "alsa_ok e \<Longrightarrow> ag_pointers e = set (map snd (entries e))"
proof -
  assume "alsa_ok e"
  then have "set (listed e) = set (map snd (entries e))" by (metis alsa_ok_def set_mset_mset)
  then show ?thesis by (auto simp: ag_pointers_def listed_def entries_def)
qed

lemma alsa_ok_not_created:
  assumes "alsa_ok e" and "same_but p (alsa_heap e) (alsa_heap e')" and "same_maps e e'"
    and "mWorkerThreads e' = mWorkerThreads e" and "p \<notin> ag_pointers e"
  shows "alsa_ok e'"
proof -
  have "entries e' = entries e" "listed e' = listed e" using assms(3,4) by (simp_all add: entries_def same_maps_def listed_def)
  moreover have "\<forall>w\<in>set (mWorkerThreads e'). worker_ok (alsa_heap e') w"
    using workers_ok_but [OF assms(2)] assms(1,4,5) by (auto simp: ag_pointers_def alsa_ok_def)
  moreover have "named k (alsa_heap e' q)" if "(k, q) \<in> set (entries e)" for k q
  proof -
    have "q \<noteq> p" using that assms(5) alsa_ok_pointers [OF assms(1)] by force
    then show ?thesis using assms(1,2) that by (fastforce simp: alsa_ok_def same_but_def intro: named_same)
  qed
  ultimately show ?thesis using assms(1,3) by (auto simp: alsa_ok_def same_maps_def)
qed

lemma alsa_ok_created:
  assumes "alsa_ok e" and "same_but p (alsa_heap e) (alsa_heap e')" and "named k (alsa_heap e' p)"
    and "created k p e e'" and "assigned p e e'" and "p \<notin> ag_pointers e" and "k \<notin> fst ` set (entries e)"
  shows "alsa_ok e'"
proof -
  have m: "mset (entries e') = mset ((k, p) # entries e)"
    using assms(4,7) unfolding created_def entries_def by (elim disjE) (simp_all add: mset_put_fresh image_Un)
  have fs: "mset (map fst (entries e')) = mset (k # map fst (entries e))" and
    sn: "mset (map snd (entries e')) = mset (p # map snd (entries e))"
    using m by (metis fst_conv list.map(2) mset_map, metis list.map(2) mset_map snd_conv)
  have p: "p \<notin> set (map snd (entries e))" using assms(1,6) alsa_ok_pointers by blast
  have "distinct (map fst (entries e'))" "distinct (map snd (entries e'))"
    using mset_eq_imp_distinct_iff [OF fs] mset_eq_imp_distinct_iff [OF sn] assms(1,7) p by (auto simp: alsa_ok_def)
  moreover have "mset (listed e') = mset (map snd (entries e'))"
    using assms(1,5) sn by (simp add: assigned_def alsa_ok_def)
  moreover have "named j (alsa_heap e' q)" if "(j, q) \<in> set (entries e')" for j q
  proof -
    have "(j, q) = (k, p) \<or> (j, q) \<in> set (entries e)" using that m by (metis set_ConsD set_mset_mset)
    then show ?thesis
    proof
      assume jq: "(j, q) \<in> set (entries e)"
      then have "q \<noteq> p" using p by force
      then show ?thesis using assms(1,2) jq by (fastforce simp: alsa_ok_def same_but_def intro: named_same)
    qed (use assms(3) in simp)
  qed
  moreover have "keys_ok (mAlsaViDevStreams e')" "keys_ok (mAlsaHwDevStreams e')"
    using assms(1,4) by (auto simp: alsa_ok_def created_def)
  ultimately show ?thesis using assms(5) by (auto simp: alsa_ok_def assigned_def)
qed

lemma createAlsaStream_OK:
  assumes "createAlsaStream env d n f fmt ps na c b dev k clock ty e = Some (r, e')" and "env_ok env"
    and "alsa_ok e" and "k \<notin> fst ` set (entries e)"
  shows "alsa_ok e' \<and> ag_mIsInitialized e' = ag_mIsInitialized e" and "r \<noteq> eIasAvbProcOK \<Longrightarrow> entries e' = entries e"
    and "r = eIasAvbProcOK \<Longrightarrow> fst ` set (entries e') = insert k (fst ` set (entries e))"
proof -
  have "alsa_ok e' \<and> ag_mIsInitialized e' = ag_mIsInitialized e \<and> (if r = eIasAvbProcOK then fst ` set (entries e') = insert k (fst ` set (entries e)) else entries e' = entries e)"
  proof (cases "\<exists>p. ag_newStream env (ag_pointers e) = Some p \<and>
      (create_virtual env d n f fmt ps na c b dev k clock p e = Some (r, e') \<or> create_hw env d f ps dev k clock p e = Some (r, e'))")
    case False
    then show ?thesis
      using assms(1,3) by (auto simp: createAlsaStream_def Let_def elim!: bind_SomeE split: if_splits option.splits)
  next
    case True
    then obtain p where np: "ag_newStream env (ag_pointers e) = Some p" and
      cr: "create_virtual env d n f fmt ps na c b dev k clock p e = Some (r, e') \<or> create_hw env d f ps dev k clock p e = Some (r, e')"
      by blast
    have p: "p \<notin> ag_pointers e" using np assms(2) by (auto simp: env_ok_def)
    have w: "\<forall>w\<in>set (mWorkerThreads e). worker_ok (alsa_heap e) w" using assms(3) by (simp add: alsa_ok_def)
    have a: "same_but p (alsa_heap e) (alsa_heap e')" "named k (alsa_heap e' p)"
      "r \<noteq> eIasAvbProcOK \<Longrightarrow> same_maps e e' \<and> mWorkerThreads e' = mWorkerThreads e"
      "r = eIasAvbProcOK \<Longrightarrow> created k p e e' \<and> assigned p e e' \<and> ag_mIsInitialized e' = ag_mIsInitialized e"
      using cr create_virtual_OK [OF _ assms(2) w p] create_hw_OK [OF _ assms(2) w p] by metis+
    show ?thesis
    proof (cases "r = eIasAvbProcOK")
      case True
      then have "created k p e e'" "assigned p e e'" "ag_mIsInitialized e' = ag_mIsInitialized e" using a(4) by auto
      moreover have "fst ` set (entries e') = insert k (fst ` set (entries e))"
        using \<open>created k p e e'\<close> keys_put [of k p]
        unfolding created_def entries_def by (elim disjE) (simp_all add: image_Un)
      ultimately show ?thesis using True alsa_ok_created [OF assms(3) a(1,2) _ _ p assms(4)] by simp
    next
      case False
      then have "same_maps e e'" "mWorkerThreads e' = mWorkerThreads e" using a(3) by auto
      then show ?thesis using False alsa_ok_not_created [OF assms(3) a(1) _ _ p] by (simp add: entries_def same_maps_def)
    qed
  qed
  then show "alsa_ok e' \<and> ag_mIsInitialized e' = ag_mIsInitialized e" "r \<noteq> eIasAvbProcOK \<Longrightarrow> entries e' = entries e"
    "r = eIasAvbProcOK \<Longrightarrow> fst ` set (entries e') = insert k (fst ` set (entries e))" by (auto split: if_splits)
qed


section \<open>Streams are destroyed\<close>

lemma same_entry: "alsa_ok e \<Longrightarrow> (k, p) \<in> set (entries e) \<Longrightarrow> (k, q) \<in> set (entries e) \<Longrightarrow> q = p"
  unfolding alsa_ok_def by (meson eq_key_imp_eq_value)

lemma entry_of_listed: "alsa_ok e \<Longrightarrow> p \<in> set (listed e) \<Longrightarrow> (getStreamId (alsa_heap e p), p) \<in> set (entries e)"
proof -
  assume ok: "alsa_ok e" and "p \<in> set (listed e)"
  then have "p \<in> snd ` set (entries e)" unfolding alsa_ok_def by (metis list.set_map set_mset_mset)
  then show ?thesis using ok by (auto simp: alsa_ok_def named_def)
qed

text \<open>The worker thread of a stream is found, since no other stream has its id.\<close>

lemma getWorkerThread_OK:
  assumes "alsa_ok e" and "(k, p) \<in> set (entries e)"
  obtains i where "getWorkerThread k e = Some i" and "i < length (mWorkerThreads e)" and "p \<in> set (mAlsaStreams (mWorkerThreads e ! i))"
proof -
  let ?P = "\<lambda>w. streamIsHandled k (w, alsa_heap e)"
  have id: "getStreamId (alsa_heap e p) = k" using assms by (auto simp: alsa_ok_def named_def)
  have "set (listed e) = set (map snd (entries e))" using assms(1) unfolding alsa_ok_def by (metis set_mset_mset)
  then have "p \<in> set (listed e)" using assms(2) by force
  then obtain w where "w \<in> set (mWorkerThreads e)" "p \<in> set (mAlsaStreams w)" by (auto simp: listed_def)
  then have "find_worker ?P 0 (mWorkerThreads e) \<noteq> None" using id by (auto simp: find_worker_None streamIsHandled_def)
  then obtain i where f: "find_worker ?P 0 (mWorkerThreads e) = Some i" by blast
  then have i: "i < length (mWorkerThreads e)" and h: "?P (mWorkerThreads e ! i)" using find_worker_Some [OF f] by auto
  from h obtain q where q: "q \<in> set (mAlsaStreams (mWorkerThreads e ! i))" "getStreamId (alsa_heap e q) = k"
    by (auto simp: streamIsHandled_def)
  then have "q \<in> set (listed e)" using i by (auto simp: listed_def)
  then have "q = p" using same_entry [OF assms] entry_of_listed [OF assms(1)] q(2) by blast
  then show thesis using that f i q(1) by (simp add: getWorkerThread_def)
qed

lemma worker_stop_empty:
  "mAlsaStreams w = [] \<Longrightarrow> \<exists>r w'. worker_stop env (w, h) = Some (r, w', h)"
  by (auto simp: worker_stop_def split: option.splits bool.splits)

lemma listed_split:
  assumes "i < length ws"
  shows "mset (concat (map mAlsaStreams ws)) = mset (mAlsaStreams (ws ! i)) +
    mset (concat (map mAlsaStreams (take i ws @ drop (Suc i) ws)))"
proof -
  have "ws = take i ws @ ws ! i # drop (Suc i) ws" using assms by (rule id_take_nth_drop)
  then have "mset (concat (map mAlsaStreams ws)) = mset (concat (map mAlsaStreams (take i ws @ ws ! i # drop (Suc i) ws)))"
    by (rule arg_cong)
  then show ?thesis by simp
qed

lemma remove_OK:
  assumes "alsa_ok e" and "ag_mIsInitialized e" and "(k, p) \<in> set (entries e)"
  shows "\<exists>ws. removeFromWorkerThread env (Some p) e = Some (eIasAvbProcOK, e\<lparr>mWorkerThreads := ws\<rparr>) \<and>
    add_mset p (mset (concat (map mAlsaStreams ws))) = mset (listed e) \<and> (\<forall>w\<in>set ws. worker_ok (alsa_heap e) w)"
proof -
  obtain i where g: "getWorkerThread k e = Some i" and i: "i < length (mWorkerThreads e)"
    and p: "p \<in> set (mAlsaStreams (mWorkerThreads e ! i))"
    by (rule getWorkerThread_OK [OF assms(1,3)])
  let ?w = "mWorkerThreads e ! i"
  let ?rest = "take i (mWorkerThreads e) @ drop (Suc i) (mWorkerThreads e)"
  have id: "getStreamId (alsa_heap e p) = k" using assms(1,3) by (auto simp: alsa_ok_def named_def)
  have ok: "\<forall>w\<in>set (mWorkerThreads e). worker_ok (alsa_heap e) w" using assms(1) by (simp add: alsa_ok_def)
  have sub: "set ?rest \<subseteq> set (mWorkerThreads e)" by (auto dest: in_set_takeD in_set_dropD)
  have ad: "add_mset p (mset (remove1 p (mAlsaStreams ?w))) = mset (mAlsaStreams ?w)" using p by simp
  show ?thesis
  proof (cases "remove1 p (mAlsaStreams ?w) = []")
    case True
    obtain r w' where "worker_stop (ag_worker env) (?w\<lparr>mAlsaStreams := []\<rparr>, alsa_heap e) = Some (r, w', alsa_heap e)"
      using worker_stop_empty [of "?w\<lparr>mAlsaStreams := []\<rparr>" "ag_worker env" "alsa_heap e"] by auto
    then have "removeFromWorkerThread env (Some p) e = Some (eIasAvbProcOK, e\<lparr>mWorkerThreads := ?rest\<rparr>)"
      using assms(2) g id p True by (simp add: removeFromWorkerThread_def removeAlsaStream_def Let_def)
    moreover have "mset (mAlsaStreams ?w) = {#p#}" using ad True by simp
    ultimately show ?thesis using listed_split [OF i] ok sub by (intro exI [of _ ?rest]) (auto simp: listed_def)
  next
    case False
    let ?v = "?w\<lparr>mAlsaStreams := remove1 p (mAlsaStreams ?w)\<rparr>"
    have "removeFromWorkerThread env (Some p) e = Some (eIasAvbProcOK, e\<lparr>mWorkerThreads := (mWorkerThreads e)[i := ?v]\<rparr>)"
      using assms(2) g id p False by (simp add: removeFromWorkerThread_def removeAlsaStream_def Let_def put_worker_def)
    moreover have "add_mset p (mset (concat (map mAlsaStreams ((mWorkerThreads e)[i := ?v])))) = mset (listed e)"
      using listed_split [OF i] ad i by (simp add: listed_def upd_conv_take_nth_drop)
    moreover have "worker_ok (alsa_heap e) ?v"
      using bspec [OF ok nth_mem [OF i]] False set_remove1_subset [of p "mAlsaStreams ?w"]
      by (auto simp: worker_ok_def fits_def)
    then have "\<forall>w\<in>set ((mWorkerThreads e)[i := ?v]). worker_ok (alsa_heap e) w"
      using ok set_update_subset_insert by fast
    ultimately show ?thesis by blast
  qed
qed

lemma mset_erase: "distinct (map fst xs) \<Longrightarrow> (k, p) \<in> set xs \<Longrightarrow> add_mset (k, p) (mset (erase_stream k xs)) = mset xs"
proof (induction xs)
  case (Cons x xs)
  show ?case
  proof (cases "fst x = k")
    case True
    then have "k \<notin> fst ` set xs" using Cons.prems(1) by auto
    moreover have "x = (k, p)" using calculation Cons.prems(2) by force
    ultimately have "filter (\<lambda>x. fst x \<noteq> k) xs = xs" and "x = (k, p)" by (auto simp: filter_id_conv)
    then show ?thesis by (simp add: erase_stream_def del: mset_filter)
  next
    case False
    then have "(k, p) \<in> set xs" using Cons.prems(2) by auto
    then show ?thesis using Cons False by (simp add: erase_stream_def)
  qed
qed simp

text \<open>The engine after an entry and its stream are gone.\<close>

lemma alsa_ok_erased:
  assumes "alsa_ok e" and "(k, p) \<in> set (entries e)"
    and "add_mset p (mset (concat (map mAlsaStreams ws))) = mset (listed e)" and "\<forall>w\<in>set ws. worker_ok (alsa_heap e) w"
    and "keys_ok (mAlsaViDevStreams e')" and "keys_ok (mAlsaHwDevStreams e')"
    and "add_mset (k, p) (mset (entries e')) = mset (entries e)" and "mWorkerThreads e' = ws" and "alsa_heap e' = alsa_heap e"
  shows "alsa_ok e'" and "fst ` set (entries e') = fst ` set (entries e) - {k}"
proof -
  have m: "mset (entries e) = mset ((k, p) # entries e')" using assms(7) by simp
  have fs: "mset (map fst (entries e)) = mset (k # map fst (entries e'))" and
    sn: "mset (map snd (entries e)) = mset (p # map snd (entries e'))"
    using m by (metis fst_conv list.map(2) mset_map, metis list.map(2) mset_map snd_conv)
  have d: "distinct (k # map fst (entries e'))" "distinct (p # map snd (entries e'))"
    using mset_eq_imp_distinct_iff [OF fs] mset_eq_imp_distinct_iff [OF sn] assms(1) by (auto simp: alsa_ok_def)
  have "set (entries e) = insert (k, p) (set (entries e'))" using m by (metis list.simps(15) set_mset_mset)
  then show "fst ` set (entries e') = fst ` set (entries e) - {k}" using d(1) by force
  have "mset (listed e') = mset (map snd (entries e'))"
    using assms(1,3,8) sn by (simp add: alsa_ok_def listed_def)
  then show "alsa_ok e'"
    using assms(1,4,5,6,8,9) d \<open>set (entries e) = _\<close> by (auto simp: alsa_ok_def)
qed

lemma destroyAlsaStream_OK:
  assumes "alsa_ok e" and "ag_mIsInitialized e" and "(k, p) \<in> set (entries e)"
  shows "ao_isConnected (alsa_heap e p) \<Longrightarrow> destroyAlsaStream env k e = Some (eIasAvbProcAlreadyInUse, e)"
    and "\<not> ao_isConnected (alsa_heap e p) \<Longrightarrow> \<exists>e'. destroyAlsaStream env k e = Some (eIasAvbProcOK, e') \<and> alsa_ok e' \<and>
      fst ` set (entries e') = fst ` set (entries e) - {k} \<and> ag_mIsInitialized e'"
proof -
  have dis: "distinct (map fst (entries e))" using assms(1) by (simp add: alsa_ok_def)
  let ?hw = "mAlsaHwDevStreams e" and ?vi = "mAlsaViDevStreams e"
  have hw: "map_of ?hw k = Some p" if "(k, p) \<in> set ?hw"
    using that dis by (auto simp: entries_def map_of_eq_Some_iff)
  have vi: "map_of ?hw k = None \<and> map_of ?vi k = Some p" if "(k, p) \<in> set ?vi"
    using that dis by (force simp: entries_def map_of_eq_Some_iff map_of_eq_None_iff)
  have kp: "(k, p) \<in> set ?hw \<or> (k, p) \<in> set ?vi" using assms(3) by (auto simp: entries_def)
  show "ao_isConnected (alsa_heap e p) \<Longrightarrow> destroyAlsaStream env k e = Some (eIasAvbProcAlreadyInUse, e)"
    using kp hw vi assms(2) by (auto simp: destroyAlsaStream_def)
  assume c: "\<not> ao_isConnected (alsa_heap e p)"
  obtain ws where r: "removeFromWorkerThread env (Some p) e = Some (eIasAvbProcOK, e\<lparr>mWorkerThreads := ws\<rparr>)"
    and m: "add_mset p (mset (concat (map mAlsaStreams ws))) = mset (listed e)" and w: "\<forall>w\<in>set ws. worker_ok (alsa_heap e) w"
    using remove_OK [OF assms] by blast
  note er = alsa_ok_erased [OF assms(1,3) m w]
  have ko: "keys_ok ?hw" "keys_ok ?vi" using assms(1) by (auto simp: alsa_ok_def)
  show "\<exists>e'. destroyAlsaStream env k e = Some (eIasAvbProcOK, e') \<and> alsa_ok e' \<and>
      fst ` set (entries e') = fst ` set (entries e) - {k} \<and> ag_mIsInitialized e'"
    using kp
  proof
    assume hwk: "(k, p) \<in> set ?hw"
    let ?e = "e\<lparr>mWorkerThreads := ws, mAlsaHwDevStreams := erase_stream k ?hw\<rparr>"
    have "add_mset (k, p) (mset (entries ?e)) = mset (entries e)"
      using mset_erase [OF _ hwk] dis by (simp add: entries_def flip: union_mset_add_mset_left)
    then show ?thesis using hw [OF hwk] c r assms(2) er [of ?e] ko by (auto simp: destroyAlsaStream_def)
  next
    assume vik: "(k, p) \<in> set ?vi"
    let ?e = "e\<lparr>mWorkerThreads := ws, mAlsaViDevStreams := erase_stream k ?vi\<rparr>"
    have "add_mset (k, p) (mset (entries ?e)) = mset (entries e)"
      using mset_erase [OF _ vik] dis by (simp add: entries_def flip: union_mset_add_mset_right)
    then show ?thesis using vi [OF vik] c r assms(2) er [of ?e] ko by (auto simp: destroyAlsaStream_def)
  qed
qed


section \<open>Runs of the engine\<close>

text \<open>
  Calls of the engine and rounds of its worker threads in any order. An id that is given to a new stream is not
  in use, which the stream handler sees to; whatever else happens to the streams leaves their id, period and
  rate alone. Every call has its own answers from outside.
\<close>

inductive alsa_run :: "IasAlsaEngine \<Rightarrow> bool" where
  run_init: "ag_init (alsa_engine_new h) = (r, e) \<Longrightarrow> alsa_run e"
| run_start: "alsa_run e \<Longrightarrow> env_ok env \<Longrightarrow> ag_start env e = Some (r, e') \<Longrightarrow> alsa_run e'"
| run_stop: "alsa_run e \<Longrightarrow> ag_stop env e = Some (r, e') \<Longrightarrow> alsa_run e'"
| run_create: "alsa_run e \<Longrightarrow> env_ok env \<Longrightarrow> k \<notin> fst ` set (entries e) \<Longrightarrow>
    createAlsaStream env d n f fmt ps na c b dev k clock ty e = Some (r, e') \<Longrightarrow> alsa_run e'"
| run_destroy: "alsa_run e \<Longrightarrow> destroyAlsaStream env k e = Some (r, e') \<Longrightarrow> alsa_run e'"
| run_round: "alsa_run e \<Longrightarrow> i < length (mWorkerThreads e) \<Longrightarrow> serve_ok env \<Longrightarrow>
    worker_round env c ra (t, mWorkerThreads e ! i, alsa_heap e) = Some (t', wh) \<Longrightarrow> alsa_run (put_worker i wh e)"
| run_streams: "alsa_run e \<Longrightarrow> heap_same (alsa_heap e) h \<Longrightarrow> alsa_run (e\<lparr>alsa_heap := h\<rparr>)"

lemma on_workers_same:
  assumes "on_workers f e = Some e'" and "alsa_ok e"
    and "\<And>w h r w' h'. f (w, h) = Some (r, w', h') \<Longrightarrow> worker_same w w' \<and> heap_same h h'"
  shows "alsa_ok (e'\<lparr>ag_mIsStarted := b\<rparr>) \<and> ag_mIsInitialized e' = ag_mIsInitialized e"
proof -
  obtain ws h where w: "each_worker f (mWorkerThreads e) (alsa_heap e) = Some (ws, h)"
    and e': "e' = e\<lparr>mWorkerThreads := ws, alsa_heap := h\<rparr>"
    using assms(1) by (auto simp: on_workers_def)
  note s = each_worker_same [OF w assms(3)]
  show ?thesis using alsa_ok_same [where b = b, OF assms(2) conjunct2 [OF s] conjunct1 [OF s]] by (simp add: e')
qed

lemma alsa_run_ok: "alsa_run e \<Longrightarrow> alsa_ok e \<and> ag_mIsInitialized e"
proof (induction rule: alsa_run.induct)
  case (run_init h r e)
  then show ?case by (auto simp: ag_init_def alsa_engine_new_def alsa_ok_def entries_def listed_def)
next
  case (run_start e env r e')
  then show ?case using on_workers_same [OF _ _ worker_start_same] by (auto simp: ag_start_def)
next
  case (run_stop e env r e')
  then show ?case using on_workers_same [OF _ _ worker_stop_same] by (auto simp: ag_stop_def)
next
  case (run_create e env k d n f fmt ps na c b dev clock ty r e')
  then show ?case using createAlsaStream_OK [OF run_create(4,2) _ run_create(3)] by simp
next
  case (run_destroy e env k r e')
  show ?case
  proof (cases "k \<in> fst ` set (entries e)")
    case True
    then obtain p where "(k, p) \<in> set (entries e)" by auto
    then show ?thesis using destroyAlsaStream_OK [of e k p env] run_destroy by (cases "ao_isConnected (alsa_heap e p)") auto
  next
    case False
    then have "map_of (mAlsaHwDevStreams e) k = None" "map_of (mAlsaViDevStreams e) k = None"
      by (auto simp: entries_def map_of_eq_None_iff)
    then show ?thesis using run_destroy by (simp add: destroyAlsaStream_def)
  qed
next
  case (run_round e i env c ra t t' wh)
  obtain w h where wh: "wh = (w, h)" by fastforce
  note s = worker_round_same [OF run_round(4)[unfolded wh] run_round(3)]
  have "list_all2 worker_same (mWorkerThreads e) ((mWorkerThreads e)[i := w])"
    using s run_round(2) by (auto simp: list_all2_conv_all_nth nth_list_update)
  from alsa_ok_same [where b = "ag_mIsStarted e", OF _ conjunct2 [OF s] this] run_round
  show ?case by (simp add: put_worker_def wh)
next
  case (run_streams e h)
  have "list_all2 worker_same (mWorkerThreads e) (mWorkerThreads e)" by (simp add: list.rel_refl)
  from alsa_ok_same [where b = "ag_mIsStarted e", OF _ _ this] run_streams show ?case by simp
qed

lemma unique_list:
  "distinct (concat xss) \<Longrightarrow> x \<in> set (concat xss) \<Longrightarrow> \<exists>!i. i < length xss \<and> x \<in> set (xss ! i)"
proof (induction xss)
  case (Cons xs xss)
  show ?case
  proof (cases "x \<in> set xs")
    case True
    then have "x \<notin> set (xss ! j)" if "j < length xss" for j using Cons.prems(1) that by fastforce
    then have "j = 0" if "j < length (xs # xss) \<and> x \<in> set ((xs # xss) ! j)" for j using that by (cases j) auto
    then show ?thesis using True by (intro ex1I [of _ 0]) simp_all
  next
    case False
    then obtain i where i: "i < length xss \<and> x \<in> set (xss ! i)"
      and u: "\<And>j. j < length xss \<and> x \<in> set (xss ! j) \<Longrightarrow> j = i" using Cons by auto
    have "j = Suc i" if "j < length (xs # xss) \<and> x \<in> set ((xs # xss) ! j)" for j using that False u by (cases j) auto
    then show ?thesis using i by (intro ex1I [of _ "Suc i"]) simp_all
  qed
qed simp


section \<open>Streams are served\<close>


text \<open>A stream of a hardware device at the base rate, in an engine that has been started.\<close>

definition demo_hw :: "IasAvbStreamDirection \<Rightarrow> u16 \<Rightarrow> string \<Rightarrow> u32 \<Rightarrow> u32 \<Rightarrow> IasAvbProcessingResult \<times> IasAlsaHwDeviceHandler" where
  "demo_hw d k n f p =
     (eIasAvbProcOK, IasLocalAudioStream.extend ((local_stream_new d eIasAlsaStream k)\<lparr>mSampleFrequency := f\<rparr>)
        (IasAlsaHwDeviceHandler.fields n p False))"

definition demo_env :: alsa_engine_env where
  "demo_env =
     \<lparr>ag_registry = None,
      ag_worker = \<lparr>wk_registry = None, wk_newThread = True, wk_watchdogEnabled = False, wk_newWatchdog = False,
                   wk_threadStart = True, wk_threadStop = True, wk_serve = \<lambda>t x. Some x\<rparr>,
      ag_stream = \<lparr>al_local = \<lparr>env_registry = None, env_ptpProxy = None, env_new_descQ = True,
                                env_new_nullData = True, env_new_buffer = \<lambda>i. True, env_samples = \<lambda>i. Some (replicate 9 0)\<rparr>,
                   al_newShm = True, al_initShm = eIasAvbProcOK\<rparr>,
      ag_newStream = (\<lambda>A. if 1 \<in> A then None else Some 1), ag_newWorker = True, ag_initHw = demo_hw, ag_hwStart = True\<rparr>"

definition demo_engine :: "IasAlsaEngine option" where
  "demo_engine =
     do {
       (_, e) \<leftarrow> ag_start demo_env (snd (ag_init (alsa_engine_new (\<lambda>p. Hw_Device (snd (demo_hw eIasAvbTransmitToNetwork 0 [] 0 0))))));
       (_, e) \<leftarrow> createAlsaStream demo_env eIasAvbTransmitToNetwork 2 48000 eIasAvbAudioFormatSaf16 256 3 0 False ''avb''
                   7 (Some 0) eIasAlsaHwDevice e;
       Some e
     }"

lemma demo_env_ok: "env_ok demo_env"
  by (auto simp: env_ok_def demo_env_def serve_ok_def demo_hw_def local_stream_new_def named_def getStreamId_def IasLocalAudioStream.defs
      IasAlsaHwDeviceHandler.defs)

lemma demo_created:
  "case demo_engine of None \<Rightarrow> False | Some e \<Rightarrow> mAlsaHwDevStreams e = [(7, 1)] \<and> length (mWorkerThreads e) = 1 \<and>
     mAlsaStreams (hd (mWorkerThreads e)) = [1] \<and> mAlsaPeriodSize (hd (mWorkerThreads e)) = 128 \<and>
     aw_mThread (hd (mWorkerThreads e)) = Some True \<and> \<not> ao_isConnected (alsa_heap e 1)"
  by code_simp

lemma demo_run:
  assumes "demo_engine = Some e"
  shows "alsa_run e"
proof -
  let ?h = "\<lambda>p. Hw_Device (snd (demo_hw eIasAvbTransmitToNetwork 0 [] 0 0))"
  let ?e0 = "snd (ag_init (alsa_engine_new ?h))"
  have e1: "ag_start demo_env ?e0 = Some (eIasAvbProcOK, ?e0\<lparr>ag_mIsStarted := True\<rparr>)" (is "_ = Some (_, ?e1)")
    by (simp add: ag_start_def ag_init_def alsa_engine_new_def on_workers_def)
  have "alsa_run ?e0" by (rule run_init [of ?h "fst (ag_init (alsa_engine_new ?h))"]) simp
  then have "alsa_run ?e1" by (rule run_start [OF _ demo_env_ok e1])
  moreover have "7 \<notin> fst ` set (entries ?e1)" by (simp add: entries_def ag_init_def alsa_engine_new_def)
  moreover obtain r where "createAlsaStream demo_env eIasAvbTransmitToNetwork 2 48000 eIasAvbAudioFormatSaf16 256 3 0 False
      ''avb'' 7 (Some 0) eIasAlsaHwDevice ?e1 = Some (r, e)"
    using assms unfolding demo_engine_def e1 by (auto elim!: bind_SomeE)
  ultimately show ?thesis by (rule run_create [OF _ demo_env_ok])
qed


text \<open>
  A worker thread that does not start: the call that creates a virtual device stream fails, and its caller
  forgets the stream, but the worker thread and the stream pointer stay on the lists of the engine.
\<close>

definition failing_env :: alsa_engine_env where
  "failing_env = demo_env\<lparr>ag_worker := (ag_worker demo_env)\<lparr>wk_threadStart := False\<rparr>\<rparr>"

lemma failed_start_keeps_pointer:
  "case demo_engine of None \<Rightarrow> False | Some e \<Rightarrow>
     (case destroyAlsaStream demo_env 7 e of None \<Rightarrow> False | Some (_, e) \<Rightarrow>
       (case createAlsaStream failing_env eIasAvbTransmitToNetwork 1 48000 eIasAvbAudioFormatSaf16 8 3 0 False ''avb'' 7
               (Some 0) eIasAlsaVirtualDevice e of
          None \<Rightarrow> False
        | Some (r, e) \<Rightarrow> r = eIasAvbProcThreadStartFailed \<and> mAlsaViDevStreams e = [] \<and> mAlsaHwDevStreams e = [] \<and>
            map mAlsaStreams (mWorkerThreads e) = [[1]]))"
  by code_simp

end
