(* ===== verification/Handler_Properties.thy ===== *)
theory Handler_Properties
  imports Stream_Handler Alsa_Properties
begin

text \<open>
  Properties of the stream handler: the choice of an id for a new local stream, starts that fail, a restart, and
  the local streams of a handler over any sequence of calls of its API.
\<close>

section \<open>Ids for local streams\<close>

lemma free_id_busy:
  "k = 0 \<or> isLocalStreamIdInUse k h \<Longrightarrow>
     free_id (Suc n) start k h = (if k + 1 = start then None else free_id n start (k + 1) h)"
  by simp

lemma round_ends: "i < 2 ^ 16 \<Longrightarrow> start + of_nat i + 1 = (start :: u16) \<longleftrightarrow> i + 1 = 2 ^ 16"
proof -
  assume i: "i < 2 ^ 16"
  have "start + of_nat i + 1 = start \<longleftrightarrow> (of_nat (i + 1) :: u16) = 0" by (simp add: add.assoc add.commute [of 1])
  also have "\<dots> \<longleftrightarrow> (i + 1) mod 2 ^ 16 = 0" using word_of_nat_eq_0_iff [where ?'a = 16, of "i + 1"] by (simp add: dvd_eq_mod_eq_0)
  also have "\<dots> \<longleftrightarrow> i + 1 = 2 ^ 16" using i by (auto simp: mod_if)
  finally show ?thesis .
qed

lemma free_id_finds:
  assumes "i + n = 2 ^ 16" and "0 < n"
  shows "case free_id n start (start + of_nat i) h of
      None \<Rightarrow> \<forall>j. i \<le> j \<and> j < 2 ^ 16 \<longrightarrow> start + of_nat j = 0 \<or> isLocalStreamIdInUse (start + of_nat j) h
    | Some k \<Rightarrow> \<exists>m. i \<le> m \<and> m < 2 ^ 16 \<and> k = start + of_nat m \<and> k \<noteq> 0 \<and> \<not> isLocalStreamIdInUse k h \<and>
        (\<forall>j. i \<le> j \<and> j < m \<longrightarrow> start + of_nat j = 0 \<or> isLocalStreamIdInUse (start + of_nat j) h)"
  using assms
proof (induction n arbitrary: i)
  case (Suc n)
  let ?k = "start + of_nat i"
  show ?case
  proof (cases "?k = 0 \<or> isLocalStreamIdInUse ?k h")
    case False
    then show ?thesis using Suc.prems by (auto intro!: exI [of _ i])
  next
    case busy: True
    have i: "i < 2 ^ 16" using Suc.prems by simp
    have nxt: "?k + 1 = start + of_nat (Suc i)" by simp
    show ?thesis
    proof (cases "n = 0")
      case True
      then have "?k + 1 = start" using round_ends [OF i] Suc.prems by simp
      then have "free_id (Suc n) start ?k h = None" using free_id_busy [OF busy] by simp
      moreover have "j = i" if "i \<le> j \<and> j < 2 ^ 16" for j using that True Suc.prems(1) by simp
      ultimately show ?thesis using busy by auto
    next
      case False
      then have "?k + 1 \<noteq> start" using round_ends [OF i] Suc.prems by simp
      then have f: "free_id (Suc n) start ?k h = free_id n start (start + of_nat (Suc i)) h"
        using free_id_busy [OF busy] by (simp only: nxt if_False)
      have ge: "i = j \<or> Suc i \<le> j" if "i \<le> j" for j using that by auto
      have "Suc i + n = 2 ^ 16" "0 < n" using Suc.prems False by simp_all
      note IH = Suc.IH [OF this]
      show ?thesis
      proof (cases "free_id n start (start + of_nat (Suc i)) h")
        case None
        then show ?thesis using IH busy ge unfolding f None option.case by metis
      next
        case (Some k)
        then obtain m where "Suc i \<le> m" "m < 2 ^ 16" "k = start + of_nat m" "k \<noteq> 0" "\<not> isLocalStreamIdInUse k h"
          "\<forall>j. Suc i \<le> j \<and> j < m \<longrightarrow> start + of_nat j = 0 \<or> isLocalStreamIdInUse (start + of_nat j) h"
          using IH unfolding Some option.case by blast
        then show ?thesis using busy ge unfolding f Some option.case by (metis Suc_leD)
      qed
    qed
  qed
qed simp

lemma next_free:
  assumes "getNextLocalStreamId h = Some (k, g)"
  shows "k \<noteq> 0 \<and> \<not> isLocalStreamIdInUse k h"
proof -
  have "free_id (2 ^ 16) (mNextLocalStreamId h) (mNextLocalStreamId h) h = Some k"
    using assms by (auto simp: getNextLocalStreamId_def)
  then show ?thesis using free_id_finds [of 0 "2 ^ 16" "mNextLocalStreamId h" h] by auto
qed


text \<open>The id after the last one is in use, so that the search passes over it and over 0.\<close>

definition one_tone :: "nat handler" where
  "one_tone = (handler_new (\<lambda>p. undefined))\<lparr>mNextLocalStreamId := 65535, mTestToneStreams := [(65535, tone_new 65535)]\<rparr>"

lemma one_tone_in_use: "isLocalStreamIdInUse k one_tone \<longleftrightarrow> k = 65535"
  by (simp add: one_tone_def isLocalStreamIdInUse_def getLocalAudioStreamById_def getLocalVideoStreamById_def handler_new_def)


section \<open>Starting and stopping\<close>

text \<open>What the steps of a start and of a stop leave alone.\<close>

definition keeps_base :: "'a handler \<Rightarrow> 'a handler \<Rightarrow> bool" where
  "keeps_base h g \<longleftrightarrow> mApiMutexEnable g = mApiMutexEnable h \<and> mApiMtx g = mApiMtx h \<and> mTestToneStreams g = mTestToneStreams h"

definition keeps :: "'a handler \<Rightarrow> 'a handler \<Rightarrow> bool" where
  "keeps h g \<longleftrightarrow> keeps_base h g \<and> sh_mState g = sh_mState h \<and> mVideoStreamInterface g = mVideoStreamInterface h"

lemma keeps_refl [simp]: "keeps h h"
  by (simp add: keeps_def keeps_base_def)

lemma keeps_trans: "keeps h g \<Longrightarrow> keeps g k \<Longrightarrow> keeps h k"
  by (simp add: keeps_def keeps_base_def)

lemma keeps_called [simp]: "keeps h (called x h)"
  by (simp add: keeps_def keeps_base_def called_def)

lemma keeps_on_tx: "on_tx f h = Some (r, g) \<Longrightarrow> keeps h g \<and> mAlsaEngine g = mAlsaEngine h \<and> mAvbReceiveEngine g = mAvbReceiveEngine h"
  by (auto simp: on_tx_def keeps_def keeps_base_def elim!: option_elims)

lemma keeps_on_rx: "on_rx f h = Some (r, g) \<Longrightarrow> keeps h g \<and> mAlsaEngine g = mAlsaEngine h"
  by (auto simp: on_rx_def keeps_def keeps_base_def elim!: option_elims)

lemma keeps_on_alsa: "on_alsa f h = Some (r, g) \<Longrightarrow> keeps h g"
  by (auto simp: on_alsa_def keeps_def keeps_base_def elim!: option_elims)

lemma start_tx_keeps: "start_tx env h = Some (r, g) \<Longrightarrow> keeps h g"
  by (auto simp: start_tx_def split: if_splits dest: keeps_on_tx)

lemma start_rx_keeps: "start_rx env h = Some (r, g) \<Longrightarrow> keeps h g"
  by (auto simp: start_rx_def split: if_splits dest: keeps_on_rx)

lemma start_alsa_keeps: "start_alsa env h = Some (r, g) \<Longrightarrow> keeps h g"
  by (auto simp: start_alsa_def split: if_splits dest: keeps_on_alsa)

lemma and_then_keeps:
  assumes "and_then f g h = Some (r, k)"
    and "\<And>h r k. f h = Some (r, k) \<Longrightarrow> keeps h k" and "\<And>h r k. g h = Some (r, k) \<Longrightarrow> keeps h k"
  shows "keeps h k"
  using assms(1) unfolding and_then_def
  by (elim bind_SomeE prod_SomeE if_SomeE) (auto dest!: assms(2,3) intro: keeps_trans)

definition start_engines :: "'a sh_env \<Rightarrow> 'a handler \<Rightarrow> (IasAvbProcessingResult \<times> 'a handler) option" where
  "start_engines env = and_then (start_tx env) (and_then (start_rx env) (start_alsa env))"

lemma start_engines_keeps: "start_engines env h = Some (r, g) \<Longrightarrow> keeps h g"
  unfolding start_engines_def by (elim and_then_keeps start_tx_keeps start_rx_keeps start_alsa_keeps)

lemma resume_devices_keeps: "keeps h (snd (resume_devices env h))"
  by (simp add: resume_devices_def keeps_def keeps_base_def called_def Let_def)

text \<open>The part of a start between the guards and the end.\<close>

definition start_steps :: "'a sh_env \<Rightarrow> bool \<Rightarrow> 'a handler \<Rightarrow> (IasAvbProcessingResult \<times> 'a handler) option" where
  "start_steps env resume h =
     (let (result, h) = (if resume then resume_devices env h else (eIasAvbProcOK, h))
      in if result = eIasAvbProcOK then start_engines env h else Some (result, h))"

lemma start_steps_keeps: "start_steps env resume h = Some (r, g) \<Longrightarrow> keeps h g"
  using resume_devices_keeps [of h env]
  by (auto simp: start_steps_def Let_def split: if_splits prod.splits dest!: start_engines_keeps intro: keeps_trans)

lemma sh_start_steps:
  "sh_start env resume =
     with_lock (\<lambda>h. if \<not> sh_isInitialized h then Some (eIasAvbProcNotInitialized, h)
       else if isStarted h then Some (eIasAvbProcOK, h)
       else do {
         (result, h) \<leftarrow> start_steps env resume h;
         if result = eIasAvbProcOK then Some (result, h\<lparr>sh_mState := eIasStarted\<rparr>)
         else map_option (\<lambda>(_, h). (result, h)) (sh_stop env False h)
       })"
  unfolding sh_start_def start_steps_def start_engines_def by (intro ext arg_cong [where f = with_lock]) (auto simp: Let_def split: prod.splits)

lemma stop_idle:
  assumes "sh_isInitialized h" and "\<not> isStarted h"
  shows "sh_stop env suspend h = (if mApiMutexEnable h then if mApiMtx h then None else Some (eIasAvbProcOK, h) else Some (eIasAvbProcOK, h))"
  using assms by (auto simp: sh_stop_def with_lock_def lockApiMutex_def unlockApiMutex_def stop_body_def sh_isInitialized_def isStarted_def)

text \<open>
  C33. A start that reports a failure on a handler that has been set up. It can only be reported when the API mutex
  is not in use: with the mutex, the call of \<^verbatim>\<open>stop\<close> in \<^verbatim>\<open>start\<close> waits for the mutex that
  \<^verbatim>\<open>start\<close> itself holds. Without it nothing is taken back: \<^verbatim>\<open>stop\<close> finds a handler that is not
  started, so that every engine stays as the steps of the start have left it, the ones before the failing step
  started.
\<close>
theorem failed_start_undoes_nothing:
  assumes "sh_start env resume h = Some (r, h')" and "sh_isInitialized h" and "r \<noteq> eIasAvbProcOK"
  shows "\<not> mApiMutexEnable h \<and> sh_mState h' = eIasInitialized \<and>
    (let (result, g) = (if resume then resume_devices env h else (eIasAvbProcOK, h))
     in if result = eIasAvbProcOK then and_then (start_tx env) (and_then (start_rx env) (start_alsa env)) g = Some (r, h')
        else r = result \<and> h' = g)"
proof -
  obtain g k where l: "lockApiMutex h = Some g" and hk: "h' = unlockApiMutex k" and
    b: "(if \<not> sh_isInitialized g then Some (eIasAvbProcNotInitialized, g) else if isStarted g then Some (eIasAvbProcOK, g)
       else do {
         (result, h) \<leftarrow> start_steps env resume g;
         if result = eIasAvbProcOK then Some (result, h\<lparr>sh_mState := eIasStarted\<rparr>)
         else map_option (\<lambda>(_, h). (result, h)) (sh_stop env False h)
       }) = Some (r, k)"
    using assms(1) unfolding sh_start_steps with_lock_def by (elim bind_SomeE prod_SomeE) auto
  have g: "g = (if mApiMutexEnable h then h\<lparr>mApiMtx := True\<rparr> else h)"
    using l by (auto simp: lockApiMutex_def split: if_splits)
  have i: "sh_isInitialized g" using assms(2) by (simp add: g sh_isInitialized_def)
  then have ns: "\<not> isStarted g" using b assms(3) by (auto split: if_splits)
  obtain g1 where s: "start_steps env resume g = Some (r, g1)" and e: "map_option (\<lambda>(_, h). (r, h)) (sh_stop env False g1) = Some (r, k)"
    using b i ns assms(3) by (auto elim!: option_elims split: if_splits)
  have kp: "keeps g g1" by (rule start_steps_keeps [OF s])
  then have i1: "sh_isInitialized g1" "\<not> isStarted g1" "sh_mState g1 = eIasInitialized"
    using i ns by (auto simp: keeps_def sh_isInitialized_def isStarted_def) (metis handler_state.exhaust)
  have n: "\<not> mApiMutexEnable h"
    using e kp stop_idle [OF i1(1,2)] by (auto simp: g keeps_def keeps_base_def split: if_splits)
  then have "g = h" "h' = g1" "sh_mState h' = eIasInitialized"
    using e kp stop_idle [OF i1(1,2)] hk i1 by (auto simp: g keeps_def keeps_base_def unlockApiMutex_def)
  then show ?thesis
    using n s unfolding start_steps_def start_engines_def by (auto simp: Let_def split: prod.splits if_splits)
qed

text \<open>A handler without a network device does not resume.\<close>

definition idle_handler :: "bool \<Rightarrow> nat handler" where
  "idle_handler m = (handler_new (\<lambda>p. undefined))\<lparr>sh_mState := eIasInitialized, mApiMutexEnable := m\<rparr>"

lemma idle_resume:
  "sh_start env True (idle_handler False) = Some (eIasAvbProcErr, idle_handler False)"
  "sh_start env True (idle_handler True) = None"
  by (simp_all add: sh_start_def with_lock_def lockApiMutex_def unlockApiMutex_def idle_handler_def handler_new_def
      resume_devices_def has_device_def sh_isInitialized_def isStarted_def sh_stop_def stop_body_def)

theorem failed_start_undoes_nothing_witness:
  "(\<forall>env. sh_start env True (idle_handler False) = Some (eIasAvbProcErr, idle_handler False)) \<and>
     sh_mState (idle_handler False) = eIasInitialized"
  using failed_start_undoes_nothing [OF idle_resume(1)] idle_resume(1)
  by (auto simp: idle_handler_def sh_isInitialized_def)

lemma stop_video:
  assumes "sh_stop env False h = Some (r, h1)" and "isStarted h"
  shows "mVideoStreamInterface h1 = map_option (\<lambda>v. snd (vi_stop v)) (mVideoStreamInterface h) \<and> sh_mState h1 = eIasInitialized"
proof -
  obtain g k where b: "stop_body env False g = Some (r, k)" and h1: "h1 = unlockApiMutex k"
    and g: "mVideoStreamInterface g = mVideoStreamInterface h" "isStarted g"
    using assms unfolding sh_stop_def with_lock_def
    by (auto elim!: option_elims split: if_splits simp: lockApiMutex_def isStarted_def)
  let ?g = "g\<lparr>mVideoStreamInterface := map_option (\<lambda>v. snd (vi_stop v)) (mVideoStreamInterface g)\<rparr>"
  have d: "do {
        (_, h) \<leftarrow> (if mAlsaEngine ?g = None then Some (eIasAvbProcOK, ?g) else on_alsa (ag_stop (she_alsa env)) ?g);
        (_, h) \<leftarrow> (if mAvbTransmitEngine h = None then Some (eIasAvbProcOK, h) else on_tx (txe_stop (she_tx env)) h);
        Some (eIasAvbProcOK, h\<lparr>mAvbReceiveEngine := map_option (\<lambda>e. snd (rx_stop (she_rx env) e)) (mAvbReceiveEngine h),
                  sh_mState := eIasInitialized\<rparr>)
      } = Some (r, k)"
    using b g(2) by (simp add: stop_body_def isStarted_def sh_isInitialized_def Let_def cong: if_cong)
  obtain r1 g1 r2 g2 where "(if mAlsaEngine ?g = None then Some (eIasAvbProcOK, ?g) else on_alsa (ag_stop (she_alsa env)) ?g) = Some (r1, g1)"
    and "(if mAvbTransmitEngine g1 = None then Some (eIasAvbProcOK, g1) else on_tx (txe_stop (she_tx env)) g1) = Some (r2, g2)"
    and k: "k = g2\<lparr>mAvbReceiveEngine := map_option (\<lambda>e. snd (rx_stop (she_rx env) e)) (mAvbReceiveEngine g2), sh_mState := eIasInitialized\<rparr>"
    using d by (elim bind_SomeE prod_SomeE) (simp only: prod.case option.inject prod.inject that)
  then have "keeps ?g g1" "keeps g1 g2" by (auto split: if_splits dest: keeps_on_alsa keeps_on_tx)
  then have "keeps ?g g2" by (rule keeps_trans)
  then show ?thesis using h1 k g by (simp add: keeps_def unlockApiMutex_def)
qed

lemma start_video:
  assumes "sh_start env resume h = Some (eIasAvbProcOK, h2)"
  shows "mVideoStreamInterface h2 = mVideoStreamInterface h \<and> sh_mState h2 = eIasStarted"
proof -
  obtain g k where l: "lockApiMutex h = Some g" and hk: "h2 = unlockApiMutex k" and
    b: "(if \<not> sh_isInitialized g then Some (eIasAvbProcNotInitialized, g) else if isStarted g then Some (eIasAvbProcOK, g)
       else do {
         (result, h) \<leftarrow> start_steps env resume g;
         if result = eIasAvbProcOK then Some (result, h\<lparr>sh_mState := eIasStarted\<rparr>)
         else map_option (\<lambda>(_, h). (result, h)) (sh_stop env False h)
       }) = Some (eIasAvbProcOK, k)"
    using assms(1) unfolding sh_start_steps with_lock_def by (elim bind_SomeE prod_SomeE) auto
  have g: "mVideoStreamInterface g = mVideoStreamInterface h" using l by (auto simp: lockApiMutex_def split: if_splits)
  have "mVideoStreamInterface k = mVideoStreamInterface g \<and> sh_mState k = eIasStarted"
  proof (cases "isStarted g")
    case True
    then show ?thesis using b by (auto simp: isStarted_def split: if_splits)
  next
    case False
    then obtain g1 where "start_steps env resume g = Some (eIasAvbProcOK, g1)" and "k = g1\<lparr>sh_mState := eIasStarted\<rparr>"
      using b by (auto elim!: option_elims split: if_splits)
    then show ?thesis using start_steps_keeps by (fastforce simp: keeps_def)
  qed
  then show ?thesis using g hk by (simp add: unlockApiMutex_def)
qed

lemma vi_stop_stopped: "\<not> vi_mRunning (snd (vi_stop v))"
  by (simp add: vi_stop_def)

lemma choose_local_id_keeps:
  "choose_local_id k h = Some (r, j, g) \<Longrightarrow> keeps h g \<and> mAlsaEngine g = mAlsaEngine h \<and> (r = eIasAvbProcOK \<or> r = eIasAvbProcInvalidParam)"
  by (auto simp: choose_local_id_def getNextLocalStreamId_def keeps_def keeps_base_def split: if_splits)

lemma refused_video:
  assumes "createLocalVideoStream env direction rate packetSize format name k h = Some (r, k', h')"
    and "mVideoStreamInterface h = Some v" and "\<not> vi_mRunning v"
  shows "r = eIasAvbResultErr \<and> k' = 0"
proof -
  obtain g r1 j g1 where l: "lockApiMutex h = Some g"
    and c: "create_local_video env direction rate packetSize format name k g = Some (r1, j, g1)"
    and r: "r = mapResultCode r1" "k' = (if r1 \<noteq> eIasAvbProcOK then 0 else j)"
    using assms(1) unfolding createLocalVideoStream_def api_id_def by (elim bind_SomeE prod_SomeE) auto
  have g: "mVideoStreamInterface g = Some v" using l assms(2) by (auto simp: lockApiMutex_def split: if_splits)
  have "r1 = eIasAvbProcNotInitialized \<or> r1 = eIasAvbProcInvalidParam"
    using c g assms(3)
    by (auto simp: create_local_video_def need_video_interface_def createVideoStream_def keeps_def
        elim!: option_elims split: if_splits dest!: choose_local_id_keeps)
  then show ?thesis using r by (auto simp: mapResultCode_def)
qed

text \<open>
  C34. A handler that has been stopped and started again with a video stream interface. The interface stays
  stopped, since nothing starts it again: every local video stream that is asked for afterwards is refused with an
  error and the id 0.
\<close>
theorem restart_refuses_video:
  assumes "sh_stop env False h = Some (r1, h1)" and "isStarted h" and "mVideoStreamInterface h = Some v"
    and "sh_start env resume h1 = Some (eIasAvbProcOK, h2)"
    and "createLocalVideoStream env' direction rate packetSize format name k h2 = Some (r, k', h3)"
  shows "isStarted h2 \<and> r = eIasAvbResultErr \<and> k' = 0"
proof -
  have v1: "mVideoStreamInterface h1 = Some (snd (vi_stop v))" "sh_mState h1 = eIasInitialized"
    using stop_video [OF assms(1,2)] assms(3) by simp_all
  then have "isStarted h2" and v2: "mVideoStreamInterface h2 = Some (snd (vi_stop v))"
    using start_video [OF assms(4)] by (simp_all add: isStarted_def)
  then show ?thesis using refused_video [OF assms(5) v2 vi_stop_stopped] by (simp add: sh_isInitialized_def isStarted_def)
qed

text \<open>A started handler with an empty video stream interface.\<close>

definition video_handler :: "bool \<Rightarrow> handler_state \<Rightarrow> nat handler" where
  "video_handler running st = (handler_new (\<lambda>p. undefined))
     \<lparr>sh_mState := st, mVideoStreamInterface := Some (vi_new\<lparr>vi_mIsInitialized := True, vi_mRunning := running\<rparr>)\<rparr>"

lemma video_handler_steps:
  "sh_stop env False (video_handler True eIasStarted) = Some (eIasAvbProcOK, video_handler False eIasInitialized)"
  "sh_start env False (video_handler False eIasInitialized) = Some (eIasAvbProcOK, video_handler False eIasStarted)"
  "createLocalVideoStream env eIasAvbTransmitToNetwork rate packetSize format name 5 (video_handler False eIasStarted)
     = Some (eIasAvbResultErr, 0, video_handler False eIasStarted)"
  by (simp_all add: sh_stop_def sh_start_def with_lock_def lockApiMutex_def unlockApiMutex_def stop_body_def video_handler_def
      handler_new_def sh_isInitialized_def isStarted_def vi_stop_def vi_new_def and_then_def start_tx_def start_rx_def
      start_alsa_def createLocalVideoStream_def api_id_def create_local_video_def need_video_interface_def choose_local_id_def
      isLocalStreamIdInUse_def getLocalAudioStreamById_def getLocalVideoStreamById_def vi_getLocalVideoStream_def
      createVideoStream_def mapResultCode_def)

theorem restart_refuses_video_witness:
  "\<forall>env rate packetSize format name. isStarted (video_handler False eIasStarted) \<and>
     createLocalVideoStream env eIasAvbTransmitToNetwork rate packetSize format name 5 (video_handler False eIasStarted)
       = Some (eIasAvbResultErr, 0, video_handler False eIasStarted)"
  using restart_refuses_video [OF video_handler_steps(1) _ _ video_handler_steps(2,3)] video_handler_steps(3)
  by (auto simp: isStarted_def video_handler_def)

end

