(* ===== verification/Local_Ids.thy ===== *)
theory Local_Ids
  imports Handler_Properties
begin

text \<open>
  The local streams of a handler: over any sequence of calls of the API an id stands for at most one ALSA stream and
  then for no other local stream, and the API mutex is free between two calls.
\<close>

section \<open>Calls that leave the local streams alone\<close>

definition frame :: "'a handler \<Rightarrow> 'a handler \<Rightarrow> bool" where
  "frame h g \<longleftrightarrow> keeps h g \<and> mAlsaEngine g = mAlsaEngine h"

lemma frame_refl [simp]: "frame h h"
  by (simp add: frame_def)

lemma frame_trans: "frame h g \<Longrightarrow> frame g k \<Longrightarrow> frame h k"
  by (auto simp: frame_def intro: keeps_trans)

lemma frame_called [simp]: "frame h (called x h)"
  by (simp add: frame_def called_def keeps_def keeps_base_def)

lemma frame_on_tx: "on_tx f h = Some (r, g) \<Longrightarrow> frame h g"
  by (simp add: frame_def keeps_on_tx)

lemma frame_on_rx: "on_rx f h = Some (r, g) \<Longrightarrow> frame h g"
  by (simp add: frame_def keeps_on_rx)

lemma createTransmitEngine_frame: "createTransmitEngine env h = Some (r, g) \<Longrightarrow> frame h g"
  by (auto simp: createTransmitEngine_def frame_def keeps_def keeps_base_def Let_def elim!: option_elims split: if_splits prod.splits)

lemma createReceiveEngine_frame: "createReceiveEngine env h = Some (r, g) \<Longrightarrow> frame h g"
  by (auto simp: createReceiveEngine_def frame_def keeps_def keeps_base_def Let_def elim!: option_elims split: if_splits prod.splits)

lemma need_engine_frame:
  "need_transmit_engine env h = Some (r, g) \<Longrightarrow> frame h g"
  "need_receive_engine env h = Some (r, g) \<Longrightarrow> frame h g"
  by (auto simp: need_transmit_engine_def need_receive_engine_def split: if_splits
      dest: createTransmitEngine_frame createReceiveEngine_frame)

lemma derive_frame: "deriveClockDomainFromRxStream env k c h = Some (r, c', g) \<Longrightarrow> frame h g"
  by (auto simp: deriveClockDomainFromRxStream_def frame_def keeps_def keeps_base_def Let_def
      elim!: option_elims split: if_splits option.splits prod.splits)

lemma recovery_frame: "setClockRecoveryParams env m s d h = Some (r, g) \<Longrightarrow> frame h g"
  by (auto simp: setClockRecoveryParams_def frame_def keeps_def keeps_base_def elim!: option_elims split: if_splits option.splits)

lemma recover_clock_frame: "recover_clock env k h = Some (r, g) \<Longrightarrow> frame h g"
  by (auto simp: recover_clock_def elim!: option_elims split: if_splits
      dest!: derive_frame recovery_frame intro: frame_trans)

lemma create_receive_frame: "create_receive env f k m h = Some (r, g) \<Longrightarrow> frame h g"
  by (auto simp: create_receive_def Let_def elim!: option_elims split: if_splits
      dest!: need_engine_frame frame_on_rx intro: frame_trans)

lemma create_transmit_frame: "create_transmit env f c a k m b h = Some (r, g) \<Longrightarrow> frame h g"
  by (auto simp: create_transmit_def Let_def elim!: option_elims split: if_splits option.splits
      dest!: need_engine_frame frame_on_tx intro: frame_trans) (meson frame_trans)+

lemma tx_then_rx_frame: "tx_then_rx f g h = Some (r, k) \<Longrightarrow> frame h k"
  by (auto simp: tx_then_rx_def elim!: option_elims split: if_splits dest!: frame_on_tx frame_on_rx intro: frame_trans)

lemma connect_frame: "connect_by_direction env t d k p r h = Some (r', g) \<Longrightarrow> frame h g"
  by (auto simp: connect_by_direction_def split: if_splits dest: frame_on_tx frame_on_rx)

section \<open>The ids\<close>

definition alsa_ids :: "'a handler \<Rightarrow> u16 set" where
  "alsa_ids h = (case mAlsaEngine h of None \<Rightarrow> {} | Some e \<Rightarrow> fst ` set (entries e))"

definition tone_ids :: "'a handler \<Rightarrow> u16 set" where
  "tone_ids h = fst ` set (mTestToneStreams h)"

definition video_ids :: "'a handler \<Rightarrow> u16 set" where
  "video_ids h = (case mVideoStreamInterface h of None \<Rightarrow> {} | Some v \<Rightarrow> fst ` set (mVideoInStreams v) \<union> fst ` set (mVideoOutStreams v))"

lemma ag_lookup_None: "ag_getLocalAudioStream k e = None \<longleftrightarrow> k \<notin> fst ` set (entries e)"
  by (auto simp: ag_getLocalAudioStream_def entries_def map_of_eq_None_iff image_Un split: option.splits dest!: map_of_SomeD) force

lemma vi_lookup_None: "vi_getLocalVideoStream k v = None \<longleftrightarrow> k \<notin> fst ` set (mVideoInStreams v) \<union> fst ` set (mVideoOutStreams v)"
  by (auto simp: vi_getLocalVideoStream_def map_of_eq_None_iff split: option.splits dest!: map_of_SomeD) force

lemma audio_lookup:
  "getLocalAudioStreamById k h = None \<longleftrightarrow> k \<notin> alsa_ids h \<union> tone_ids h"
  by (auto simp: getLocalAudioStreamById_def alsa_ids_def tone_ids_def ag_lookup_None map_of_eq_None_iff split: option.splits)
     (metis ag_lookup_None option.distinct(1))+

lemma video_lookup: "getLocalVideoStreamById k h = None \<longleftrightarrow> k \<notin> video_ids h"
  by (auto simp: getLocalVideoStreamById_def video_ids_def vi_lookup_None split: option.splits)

lemma in_use_ids: "isLocalStreamIdInUse k h \<longleftrightarrow> k \<in> alsa_ids h \<union> tone_ids h \<union> video_ids h"
  by (simp only: isLocalStreamIdInUse_def audio_lookup video_lookup) simp

definition ids_ok :: "'a handler \<Rightarrow> bool" where
  "ids_ok h \<longleftrightarrow>
     (\<forall>e. mAlsaEngine h = Some e \<longrightarrow> alsa_ok e \<and> ag_mIsInitialized e) \<and>
     0 \<notin> alsa_ids h \<union> tone_ids h \<union> video_ids h \<and> alsa_ids h \<inter> (tone_ids h \<union> video_ids h) = {} \<and>
     (sh_mState h = eIasDead \<longrightarrow> mAlsaEngine h = None \<and> mVideoStreamInterface h = None \<and> mTestToneStreams h = [])"

definition mutex_same :: "'a handler \<Rightarrow> 'a handler \<Rightarrow> bool" where
  "mutex_same h g \<longleftrightarrow> mApiMutexEnable g = mApiMutexEnable h \<and> mApiMtx g = mApiMtx h"

lemma mutex_same_refl [simp]: "mutex_same h h"
  by (simp add: mutex_same_def)

lemma mutex_same_trans: "mutex_same h g \<Longrightarrow> mutex_same g k \<Longrightarrow> mutex_same h k"
  by (simp add: mutex_same_def)

lemma frame_mutex: "frame h g \<Longrightarrow> mutex_same h g"
  by (simp add: frame_def keeps_def keeps_base_def mutex_same_def)

lemma frame_ids: "frame h g \<Longrightarrow> ids_ok h \<Longrightarrow> ids_ok g"
  by (simp add: frame_def keeps_def keeps_base_def ids_ok_def alsa_ids_def tone_ids_def video_ids_def)

lemma ids_ok_mutex [simp]: "ids_ok (h\<lparr>mApiMtx := b\<rparr>) \<longleftrightarrow> ids_ok h" "ids_ok (h\<lparr>mApiMutexEnable := b\<rparr>) \<longleftrightarrow> ids_ok h"
  by (simp_all add: ids_ok_def alsa_ids_def tone_ids_def video_ids_def)

text \<open>A handler between two calls.\<close>

definition handler_ok :: "'a handler \<Rightarrow> bool" where
  "handler_ok h \<longleftrightarrow> ids_ok h \<and> \<not> mApiMtx h"

text \<open>An operation under the lock.\<close>

definition preserves :: "('a handler \<Rightarrow> ('r \<times> 'a handler) option) \<Rightarrow> bool" where
  "preserves f \<longleftrightarrow> (\<forall>h r g. f h = Some (r, g) \<longrightarrow> ids_ok h \<longrightarrow> ids_ok g \<and> mutex_same h g)"

lemma preservesI: "(\<And>h r g. f h = Some (r, g) \<Longrightarrow> ids_ok h \<Longrightarrow> ids_ok g \<and> mutex_same h g) \<Longrightarrow> preserves f"
  by (auto simp: preserves_def)

lemma frame_preserves: "(\<And>h r g. f h = Some (r, g) \<Longrightarrow> frame h g) \<Longrightarrow> preserves f"
  unfolding preserves_def using frame_ids frame_mutex by blast

lemma locked:
  assumes "lockApiMutex h = Some h1" and "ids_ok h1 \<Longrightarrow> ids_ok g1 \<and> mutex_same h1 g1" and "handler_ok h"
  shows "handler_ok (unlockApiMutex g1)"
  using assms by (auto simp: lockApiMutex_def unlockApiMutex_def handler_ok_def mutex_same_def split: if_splits)

lemma with_lock_preserves: "with_lock f h = Some (r, g) \<Longrightarrow> preserves f \<Longrightarrow> handler_ok h \<Longrightarrow> handler_ok g"
  by (auto simp: with_lock_def preserves_def elim!: bind_SomeE intro: locked)

lemma api_preserves: "api f h = Some (r, g) \<Longrightarrow> preserves f \<Longrightarrow> handler_ok h \<Longrightarrow> handler_ok g"
  by (auto simp: api_def dest: with_lock_preserves)

lemma api_id_preserves:
  assumes "api_id f h = Some (r, k, g)" and "\<And>h r j g. f h = Some (r, j, g) \<Longrightarrow> ids_ok h \<Longrightarrow> ids_ok g \<and> mutex_same h g"
    and "handler_ok h"
  shows "handler_ok g"
  using assms by (auto simp: api_id_def elim!: bind_SomeE intro: locked)

section \<open>Calls that create and destroy local streams\<close>

text \<open>What a call does to the ids of one kind.\<close>

lemma ids_ok_alsa:
  assumes "ids_ok h" and "keeps h g" and "mAlsaEngine g = Some e" and "alsa_ok e" and "ag_mIsInitialized e"
    and "sh_isInitialized h" and "fst ` set (entries e) \<subseteq> insert k (alsa_ids h)" and "k \<noteq> 0" and "k \<notin> tone_ids h \<union> video_ids h"
  shows "ids_ok g"
proof -
  have "tone_ids g = tone_ids h" "video_ids g = video_ids h" "sh_mState g \<noteq> eIasDead" "alsa_ids g = fst ` set (entries e)"
    using assms(2,3,6) by (auto simp: keeps_def keeps_base_def tone_ids_def video_ids_def alsa_ids_def sh_isInitialized_def)
  then show ?thesis using assms(1,3,4,5,7,8,9) unfolding ids_ok_def by auto
qed

lemma choose_local_id_OK:
  assumes "choose_local_id k h = Some (r, j, g)"
  shows "frame h g" and "r = eIasAvbProcOK \<Longrightarrow> j \<noteq> 0 \<and> j \<notin> alsa_ids h \<union> tone_ids h \<union> video_ids h"
proof -
  show "frame h g" using choose_local_id_keeps [OF assms] by (simp add: frame_def)
  assume r: "r = eIasAvbProcOK"
  show "j \<noteq> 0 \<and> j \<notin> alsa_ids h \<union> tone_ids h \<union> video_ids h"
  proof (cases "k = 0")
    case True
    then have "getNextLocalStreamId h = Some (j, g)" using assms by (auto simp: choose_local_id_def)
    then show ?thesis using next_free [of h j g] in_use_ids by auto
  next
    case False
    then show ?thesis using assms r by (auto simp: choose_local_id_def in_use_ids split: if_splits)
  qed
qed

lemma need_alsa_engine_OK:
  assumes "need_alsa_engine env h = Some (r, g)" and "env_ok (she_alsa env)" and "ids_ok h" and "sh_isInitialized h"
  shows "ids_ok g \<and> keeps h g \<and> alsa_ids g = alsa_ids h"
proof (cases "mAlsaEngine h = None")
  case False
  then show ?thesis using assms(1,3) by (auto simp: need_alsa_engine_def split: if_splits)
next
  case True
  let ?e = "snd (ag_init (alsa_engine_new (she_alsaHeap env)))"
  have eq: "need_alsa_engine env h =
      (if \<not> she_newAlsa env then Some (eIasAvbProcNotEnoughMemory, h)
       else do {
         (result, e) \<leftarrow> (if isStarted h then ag_start (she_alsa env) ?e else Some (eIasAvbProcOK, ?e));
         Some (result, if result = eIasAvbProcOK then h\<lparr>mAlsaEngine := Some e\<rparr> else h)
       })"
    by (simp add: need_alsa_engine_def True ag_init_def alsa_engine_new_def Let_def)
  show ?thesis
  proof (cases "g = h")
    case False
    then obtain r1 e1 where s: "(if isStarted h then ag_start (she_alsa env) ?e else Some (eIasAvbProcOK, ?e)) = Some (r1, e1)"
      and g: "g = h\<lparr>mAlsaEngine := Some e1\<rparr>"
      using assms(1) unfolding eq by (elim if_SomeE bind_SomeE prod_SomeE) (auto split: if_splits)
    have r0: "alsa_run ?e" by (rule run_init [of "she_alsaHeap env" "fst (ag_init (alsa_engine_new (she_alsaHeap env)))"]) simp
    then have "alsa_run e1" using s assms(2) by (auto split: if_splits intro: run_start)
    moreover have "fst ` set (entries e1) = {}"
      using s by (auto simp: ag_start_def on_workers_def ag_init_def alsa_engine_new_def entries_def split: if_splits)
    ultimately show ?thesis
      using g True alsa_run_ok [of e1] assms(3,4)
      by (simp add: keeps_def keeps_base_def alsa_ids_def ids_ok_def tone_ids_def video_ids_def sh_isInitialized_def)
  qed (use assms(3) in simp)
qed

lemma create_alsa_OK:
  assumes "create_alsa env d n f fmt c ps np cl sc dev k ty h = Some (r, j, g)" and "env_ok (she_alsa env)" and "ids_ok h"
  shows "ids_ok g \<and> mutex_same h g"
proof -
  have m: "keeps h g \<Longrightarrow> mutex_same h g" for h g :: "'a handler" by (simp add: keeps_def keeps_base_def mutex_same_def)
  show ?thesis
  proof (cases "\<not> sh_isInitialized h \<or> n > cIasAvbMaxNumChannels")
    case True
    then show ?thesis using assms(1,3) by (auto simp: create_alsa_def split: if_splits)
  next
    case False
    then have i: "sh_isInitialized h" by simp
    obtain r1 h1 where n: "need_alsa_engine env h = Some (r1, h1)" and
      a: "(if r1 \<noteq> eIasAvbProcOK then Some (r1, k, h1)
        else do {
          (result, streamId, h) \<leftarrow> choose_local_id k h1;
          if result \<noteq> eIasAvbProcOK then Some (result, streamId, h)
          else case getClockDomainById c h of
            None \<Rightarrow> Some (eIasAvbProcInvalidParam, streamId, h)
          | Some clock \<Rightarrow> do {
              (result, h) \<leftarrow> on_alsa (Alsa_Engine.createAlsaStream (she_alsa env) d n f fmt ps np cl sc dev streamId (Some clock) ty) h;
              Some (result, streamId, h)
            }
        }) = Some (r, j, g)"
      using assms(1) False unfolding create_alsa_def by (elim if_SomeE bind_SomeE prod_SomeE) auto
    note n1 = need_alsa_engine_OK [OF n assms(2,3) i]
    then have i1: "sh_isInitialized h1" using i by (simp add: keeps_def sh_isInitialized_def)
    show ?thesis
    proof (cases "r1 = eIasAvbProcOK")
      case False
      then show ?thesis using a n1 m by auto
    next
      case True
      then obtain r2 j2 h2 where c: "choose_local_id k h1 = Some (r2, j2, h2)" and
        b: "(if r2 \<noteq> eIasAvbProcOK then Some (r2, j2, h2)
          else case getClockDomainById c h2 of
            None \<Rightarrow> Some (eIasAvbProcInvalidParam, j2, h2)
          | Some clock \<Rightarrow> do {
              (result, h) \<leftarrow> on_alsa (Alsa_Engine.createAlsaStream (she_alsa env) d n f fmt ps np cl sc dev j2 (Some clock) ty) h2;
              Some (result, j2, h)
            }) = Some (r, j, g)"
        using a by (auto elim!: bind_SomeE)
      note c1 = choose_local_id_OK [OF c]
      have h2: "ids_ok h2" "mutex_same h h2" "sh_isInitialized h2"
        using frame_ids [OF c1(1)] n1 mutex_same_trans [OF m frame_mutex [OF c1(1)]] i1 c1(1)
        by (auto simp: frame_def keeps_def sh_isInitialized_def)
      show ?thesis
      proof (cases "g = h2")
        case False
        then obtain clock r3 where o3: "on_alsa (Alsa_Engine.createAlsaStream (she_alsa env) d n f fmt ps np cl sc dev j2 (Some clock) ty) h2 = Some (r3, g)"
          and r2: "r2 = eIasAvbProcOK"
          using b by (auto elim!: bind_SomeE split: if_splits option.splits)
        have j2: "j2 \<noteq> 0" "j2 \<notin> alsa_ids h2 \<union> tone_ids h2 \<union> video_ids h2"
          using c1 r2 by (auto simp: frame_def keeps_def keeps_base_def alsa_ids_def tone_ids_def video_ids_def)
        obtain e e' where e: "mAlsaEngine h2 = Some e" and cr: "Alsa_Engine.createAlsaStream (she_alsa env) d n f fmt ps np cl sc dev j2 (Some clock) ty e = Some (r3, e')"
          and g: "g = h2\<lparr>mAlsaEngine := Some e'\<rparr>"
          using o3 by (auto simp: on_alsa_def elim!: option_elims)
        have ek: "alsa_ok e" "ag_mIsInitialized e" "j2 \<notin> fst ` set (entries e)" using h2(1) e j2 by (auto simp: ids_ok_def alsa_ids_def)
        note ce = createAlsaStream_OK [OF cr assms(2) ek(1,3)]
        have "fst ` set (entries e') \<subseteq> insert j2 (alsa_ids h2)"
          using ce(2,3) e by (cases "r3 = eIasAvbProcOK") (auto simp: alsa_ids_def)
        then have "ids_ok g"
          using ids_ok_alsa [OF h2(1) keeps_on_alsa [OF o3], of e' j2] ce(1) ek g h2(3) j2 by simp
        then show ?thesis using mutex_same_trans [OF h2(2) m [OF keeps_on_alsa [OF o3]]] by simp
      qed (use h2 in simp)
    qed
  qed
qed

text \<open>A call that changes only the tone streams, or only the video stream interface.\<close>

lemma ids_ok_tone:
  assumes "ids_ok h" and "sh_isInitialized h" and "fst ` set xs \<subseteq> insert k (tone_ids h)" and "k \<noteq> 0" and "k \<notin> alsa_ids h"
  shows "ids_ok (h\<lparr>mTestToneStreams := xs\<rparr>)"
proof -
  let ?g = "h\<lparr>mTestToneStreams := xs\<rparr>"
  have "alsa_ids ?g = alsa_ids h" "video_ids ?g = video_ids h" "tone_ids ?g = fst ` set xs"
    by (simp_all add: alsa_ids_def video_ids_def tone_ids_def)
  then show ?thesis using assms unfolding ids_ok_def sh_isInitialized_def by auto
qed

definition viface_ids :: "IasVideoStreamInterface \<Rightarrow> u16 set" where
  "viface_ids v = fst ` set (mVideoInStreams v) \<union> fst ` set (mVideoOutStreams v)"

lemma ids_ok_video:
  assumes "ids_ok h" and "sh_isInitialized h" and "viface_ids v \<subseteq> insert k (video_ids h)" and "k \<noteq> 0" and "k \<notin> alsa_ids h"
  shows "ids_ok (h\<lparr>mVideoStreamInterface := Some v\<rparr>)"
proof -
  let ?g = "h\<lparr>mVideoStreamInterface := Some v\<rparr>"
  have "alsa_ids ?g = alsa_ids h" "video_ids ?g = viface_ids v" "tone_ids ?g = tone_ids h"
    by (simp_all add: alsa_ids_def video_ids_def tone_ids_def viface_ids_def)
  then show ?thesis using assms unfolding ids_ok_def sh_isInitialized_def by auto
qed

lemma ids_frame: "frame h g \<Longrightarrow> alsa_ids g = alsa_ids h \<and> tone_ids g = tone_ids h \<and> video_ids g = video_ids h \<and> sh_isInitialized g = sh_isInitialized h"
  by (simp add: frame_def keeps_def keeps_base_def alsa_ids_def tone_ids_def video_ids_def sh_isInitialized_def)

lemma next_local_frame: "getNextLocalStreamId h = Some (k, g) \<Longrightarrow> frame h g"
  by (auto simp: getNextLocalStreamId_def frame_def keeps_def keeps_base_def)

lemma create_tone_OK:
  assumes "create_tone env n f fmt cl k h = Some (r, j, g)" and "ids_ok h"
  shows "ids_ok g \<and> mutex_same h g"
proof (cases "sh_isInitialized h")
  case False
  then show ?thesis using assms by (simp add: create_tone_def)
next
  case True
  let ?choice = "(if k \<noteq> 0
           then Some (if getLocalAudioStreamById k h \<noteq> None then eIasAvbProcInvalidParam
                      else if fmt \<noteq> eIasAvbAudioFormatSafFloat then eIasAvbProcUnsupportedFormat
                      else eIasAvbProcOK, k, h)
           else map_option (\<lambda>(k, h). (eIasAvbProcOK, k, h)) (getNextLocalStreamId h))"
  obtain r1 k1 h1 where c: "?choice = Some (r1, k1, h1)" and
    b: "(if r1 \<noteq> eIasAvbProcOK then Some (r1, k1, h1)
        else if \<not> she_newTone env then Some (eIasAvbProcNotEnoughMemory, k1, h1)
        else do {
          (result, s) \<leftarrow> tone_init (she_tone env) n f cl (tone_new k1);
          Some (result, k1, if result \<noteq> eIasAvbProcOK then h1 else h1\<lparr>mTestToneStreams := put_stream k1 s (mTestToneStreams h1)\<rparr>)
        }) = Some (r, j, g)"
    using assms(1) True unfolding create_tone_def by (elim if_SomeE bind_SomeE prod_SomeE) auto
  have f: "frame h h1" using c by (auto split: if_splits dest: next_local_frame)
  have k1: "k1 \<noteq> 0 \<and> k1 \<notin> alsa_ids h" if "r1 = eIasAvbProcOK"
    using c that audio_lookup [of k h] next_free [of h k1 h1] in_use_ids [of k1 h] by (auto split: if_splits)
  have h1: "ids_ok h1" "mutex_same h h1" using frame_ids [OF f assms(2)] frame_mutex [OF f] by auto
  show ?thesis
  proof (cases "g = h1")
    case False
    then obtain s where r1: "r1 = eIasAvbProcOK" and g: "g = h1\<lparr>mTestToneStreams := put_stream k1 s (mTestToneStreams h1)\<rparr>"
      using b by (auto elim!: bind_SomeE split: if_splits)
    have "fst ` set (put_stream k1 s (mTestToneStreams h1)) \<subseteq> insert k1 (tone_ids h1)" by (simp add: keys_put tone_ids_def)
    then have "ids_ok g" unfolding g using ids_ok_tone [OF h1(1) _ _ , of _ k1] k1 [OF r1] ids_frame [OF f] True by simp
    then show ?thesis using g h1(2) by (simp add: mutex_same_def)
  qed (use h1 in simp)
qed

lemma createVideoStream_ids:
  assumes "createVideoStream env d rate ps fmt name k v = Some (r, v')"
  shows "viface_ids v' \<subseteq> insert k (viface_ids v)"
proof -
  consider "v' = v" | s where "v' = v\<lparr>mVideoInStreams := put_stream k s (mVideoInStreams v)\<rparr>"
    | s where "v' = v\<lparr>mVideoOutStreams := put_stream k s (mVideoOutStreams v)\<rparr>"
    using assms by (auto simp: createVideoStream_def createVideoInStream_def createVideoOutStream_def Let_def
        elim!: option_elims split: if_splits prod.splits IasAvbStreamDirection.splits)
  then show ?thesis by cases (auto simp: viface_ids_def keys_put)
qed

lemma start_in_streams_keys: "start_in_streams xs = (r, ys) \<Longrightarrow> map fst ys = map fst xs"
  by (induction xs arbitrary: r ys) (auto simp: Let_def split: if_splits prod.splits)

lemma vi_start_ids: "viface_ids (snd (vi_start v)) = viface_ids v"
  and vi_stop_ids: "viface_ids (snd (vi_stop v)) = viface_ids v"
proof -
  show s: "viface_ids (snd (vi_stop v)) = viface_ids v" for v by (force simp: vi_stop_def viface_ids_def)
  obtain r xs where "start_in_streams (mVideoInStreams v) = (r, xs)" by fastforce
  moreover from this have "fst ` set xs = fst ` set (mVideoInStreams v)" by (metis list.set_map start_in_streams_keys)
  ultimately show "viface_ids (snd (vi_start v)) = viface_ids v"
    using s [of "v\<lparr>vi_mRunning := True, mVideoInStreams := xs\<rparr>"] by (simp add: vi_start_def Let_def) (simp add: viface_ids_def)
qed

lemma need_video_OK:
  assumes "need_video_interface env h = (r, g)" and "ids_ok h" and "sh_isInitialized h"
  shows "ids_ok g \<and> mutex_same h g \<and> sh_isInitialized g"
proof (cases "g = h")
  case False
  then have none: "mVideoStreamInterface h = None" and g: "g = h\<lparr>mVideoStreamInterface := Some (snd (vi_start (snd (vi_init vi_new))))\<rparr>"
    using assms(1) by (auto simp: need_video_interface_def vi_init_def Let_def split: if_splits prod.splits)
  have "viface_ids (snd (vi_start (snd (vi_init vi_new)))) = {}" by (simp add: vi_start_ids) (simp add: vi_init_def vi_new_def viface_ids_def)
  moreover have "\<exists>k. k \<noteq> 0 \<and> k \<notin> alsa_ids h" if "alsa_ids h \<noteq> UNIV - {0}" using that assms(2) unfolding ids_ok_def by blast
  ultimately show ?thesis using assms none by (auto simp: g ids_ok_def alsa_ids_def tone_ids_def video_ids_def viface_ids_def mutex_same_def sh_isInitialized_def)
qed (use assms in simp)

lemma create_local_video_OK:
  assumes "create_local_video env d rate ps fmt name k h = Some (r, j, g)" and "ids_ok h"
  shows "ids_ok g \<and> mutex_same h g"
proof (cases "sh_isInitialized h")
  case False
  then show ?thesis using assms by (simp add: create_local_video_def)
next
  case True
  obtain r1 h1 where n: "need_video_interface env h = (r1, h1)" by fastforce
  note h1 = need_video_OK [OF n assms(2) True]
  have c: "(if r1 \<noteq> eIasAvbProcOK then Some (r1, k, h1)
        else do {
          (result, streamId, h) \<leftarrow> choose_local_id k h1;
          if result \<noteq> eIasAvbProcOK then Some (result, streamId, h)
          else do {
            v \<leftarrow> mVideoStreamInterface h;
            (result, v) \<leftarrow> createVideoStream (she_video env) d rate ps fmt name streamId v;
            Some (result, streamId, h\<lparr>mVideoStreamInterface := Some v\<rparr>)
          }
        }) = Some (r, j, g)"
    using assms(1) True n by (simp add: create_local_video_def)
  show ?thesis
  proof (cases "r1 = eIasAvbProcOK")
    case False
    then show ?thesis using c h1 by auto
  next
    case True
    then obtain r2 j2 h2 where ch: "choose_local_id k h1 = Some (r2, j2, h2)" and
      b: "(if r2 \<noteq> eIasAvbProcOK then Some (r2, j2, h2)
          else do {
            v \<leftarrow> mVideoStreamInterface h2;
            (result, v) \<leftarrow> createVideoStream (she_video env) d rate ps fmt name j2 v;
            Some (result, j2, h2\<lparr>mVideoStreamInterface := Some v\<rparr>)
          }) = Some (r, j, g)"
      using c by (auto elim!: bind_SomeE)
    note c1 = choose_local_id_OK [OF ch]
    have h2: "ids_ok h2" "mutex_same h h2" "sh_isInitialized h2"
      using frame_ids [OF c1(1)] mutex_same_trans [OF _ frame_mutex [OF c1(1)]] ids_frame [OF c1(1)] h1 by auto
    show ?thesis
    proof (cases "r2 = eIasAvbProcOK")
      case False
      then show ?thesis using b h2 by simp
    next
      case True
      then obtain v r3 v' where v: "mVideoStreamInterface h2 = Some v" and
        cv: "createVideoStream (she_video env) d rate ps fmt name j2 v = Some (r3, v')" and g: "g = h2\<lparr>mVideoStreamInterface := Some v'\<rparr>"
        using b by (auto elim!: bind_SomeE)
      have "viface_ids v = video_ids h2" using v by (simp add: video_ids_def viface_ids_def)
      then have "viface_ids v' \<subseteq> insert j2 (video_ids h2)" using createVideoStream_ids [OF cv] by simp
      then have "ids_ok g" unfolding g using ids_ok_video [OF h2(1,3)] c1(2) [OF True] ids_frame [OF c1(1)] by auto
      then show ?thesis using g h2(2) by (simp add: mutex_same_def)
    qed
  qed
qed

section \<open>Destroying a local stream\<close>

lemma destroyAlsaStream_keeps:
  assumes "destroyAlsaStream env k e = Some (r, e')" and "alsa_ok e" and "ag_mIsInitialized e"
  shows "alsa_ok e' \<and> ag_mIsInitialized e' \<and> fst ` set (entries e') \<subseteq> fst ` set (entries e)"
proof (cases "k \<in> fst ` set (entries e)")
  case True
  then obtain p where "(k, p) \<in> set (entries e)" by auto
  then show ?thesis using destroyAlsaStream_OK [OF assms(2,3), of k p env] assms by (cases "ao_isConnected (alsa_heap e p)") auto
next
  case False
  then have "map_of (mAlsaHwDevStreams e) k = None" "map_of (mAlsaViDevStreams e) k = None"
    by (auto simp: entries_def map_of_eq_None_iff)
  then show ?thesis using assms by (simp add: destroyAlsaStream_def)
qed

lemma ids_ok_shrink:
  assumes "ids_ok h" and "mutex_same h g" and "sh_mState g = sh_mState h" and "sh_isInitialized h"
    and "\<And>e. mAlsaEngine g = Some e \<Longrightarrow> alsa_ok e \<and> ag_mIsInitialized e"
    and "alsa_ids g \<subseteq> alsa_ids h" and "tone_ids g \<subseteq> tone_ids h" and "video_ids g \<subseteq> video_ids h"
  shows "ids_ok g \<and> mutex_same h g"
  using assms unfolding ids_ok_def sh_isInitialized_def by (auto; blast)

lemma destroyVideoStream_ids: "viface_ids (snd (destroyVideoStream k v)) \<subseteq> viface_ids v"
  by (auto simp: destroyVideoStream_def viface_ids_def keys_erase split: option.splits)

definition destroy_local :: "'a sh_env \<Rightarrow> u16 \<Rightarrow> 'a handler \<Rightarrow> (IasAvbProcessingResult \<times> 'a handler) option" where
  "destroy_local env streamId h =
     (if \<not> sh_isInitialized h then Some (eIasAvbProcNotInitialized, h)
       else case getLocalAudioStreamById streamId h of
         Some r \<Rightarrow> do {
           t \<leftarrow> audio_type r h;
           if mAlsaEngine h \<noteq> None \<and> t = eIasAlsaStream
           then on_alsa (destroyAlsaStream (she_alsa env) streamId) h
           else case map_of (mTestToneStreams h) streamId of
             None \<Rightarrow> Some (eIasAvbProcInvalidParam, h)
           | Some s \<Rightarrow>
               if IasLocalAudioStream.mClientState s \<noteq> eIasNotConnected then Some (eIasAvbProcAlreadyInUse, h)
               else Some (eIasAvbProcOK, h\<lparr>mTestToneStreams := erase_stream streamId (mTestToneStreams h)\<rparr>)
         }
       | None \<Rightarrow>
           (case getLocalVideoStreamById streamId h of
              None \<Rightarrow> Some (eIasAvbProcInvalidParam, h)
            | Some _ \<Rightarrow> do {
                v \<leftarrow> mVideoStreamInterface h;
                let (result, v) = destroyVideoStream streamId v;
                Some (result, h\<lparr>mVideoStreamInterface := Some v\<rparr>)
              }))"

lemma destroyLocalStream_body: "destroyLocalStream env k = api (destroy_local env k)"
  by (simp add: destroyLocalStream_def destroy_local_def [abs_def])

lemma destroy_local_OK:
  assumes "destroy_local env k h = Some (r, g)" and "ids_ok h"
  shows "ids_ok g \<and> mutex_same h g"
proof -
  consider "g = h" | e e' where "sh_isInitialized h" "mAlsaEngine h = Some e" "destroyAlsaStream (she_alsa env) k e = Some (r, e')"
      "g = h\<lparr>mAlsaEngine := Some e'\<rparr>"
    | "sh_isInitialized h" "g = h\<lparr>mTestToneStreams := erase_stream k (mTestToneStreams h)\<rparr>"
    | v where "sh_isInitialized h" "mVideoStreamInterface h = Some v" "g = h\<lparr>mVideoStreamInterface := Some (snd (destroyVideoStream k v))\<rparr>"
  proof (cases "sh_isInitialized h")
    case False
    then show thesis using assms(1) that(1) by (simp add: destroy_local_def)
  next
    case i: True
    show thesis
    proof (cases "getLocalAudioStreamById k h")
      case None
      show thesis
      proof (cases "getLocalVideoStreamById k h")
        case (Some x)
        then obtain v where "mVideoStreamInterface h = Some v" by (auto simp: getLocalVideoStreamById_def bind_eq_Some_conv)
        then show thesis using assms(1) i None Some that(4) by (simp add: destroy_local_def split: prod.splits)
      qed (use assms(1) i None that(1) in \<open>simp add: destroy_local_def\<close>)
    next
      case (Some q)
      then obtain t where b: "(if mAlsaEngine h \<noteq> None \<and> t = eIasAlsaStream
           then on_alsa (destroyAlsaStream (she_alsa env) k) h
           else case map_of (mTestToneStreams h) k of
             None \<Rightarrow> Some (eIasAvbProcInvalidParam, h)
           | Some s \<Rightarrow>
               if IasLocalAudioStream.mClientState s \<noteq> eIasNotConnected then Some (eIasAvbProcAlreadyInUse, h)
               else Some (eIasAvbProcOK, h\<lparr>mTestToneStreams := erase_stream k (mTestToneStreams h)\<rparr>)) = Some (r, g)"
        using assms(1) i by (auto simp: destroy_local_def elim!: bind_SomeE)
      show thesis
      proof (cases "mAlsaEngine h \<noteq> None \<and> t = eIasAlsaStream")
        case True
        then show thesis using b i that(2) by (auto simp: on_alsa_def elim!: bind_SomeE)
      next
        case False
        then show thesis using b i that(1,3) by (cases "map_of (mTestToneStreams h) k") (auto split: if_splits)
      qed
    qed
  qed
  then show ?thesis
  proof cases
    case 2
    then have "alsa_ok e' \<and> ag_mIsInitialized e' \<and> fst ` set (entries e') \<subseteq> fst ` set (entries e)"
      using destroyAlsaStream_keeps [OF 2(3)] assms(2) by (simp add: ids_ok_def)
    then show ?thesis using 2 by (intro ids_ok_shrink [OF assms(2)]) (auto simp: mutex_same_def alsa_ids_def tone_ids_def video_ids_def)
  next
    case 3
    then show ?thesis using assms(2)
      by (intro ids_ok_shrink [OF assms(2)]) (auto simp: mutex_same_def alsa_ids_def tone_ids_def video_ids_def keys_erase ids_ok_def)
  next
    case 4
    then show ?thesis using assms(2) destroyVideoStream_ids [of k v]
      by (intro ids_ok_shrink [OF assms(2)]) (auto simp: mutex_same_def alsa_ids_def tone_ids_def video_ids_def viface_ids_def ids_ok_def)
  qed (use assms(2) in simp)
qed

section \<open>Parameters\<close>

lemma alsa_ok_heap: "alsa_ok e \<Longrightarrow> heap_same (alsa_heap e) g \<Longrightarrow> alsa_ok (e\<lparr>alsa_heap := g\<rparr>)"
proof -
  assume ok: "alsa_ok e" and h: "heap_same (alsa_heap e) g"
  have "list_all2 worker_same (mWorkerThreads e) (mWorkerThreads e)" by (simp add: list.rel_refl)
  from alsa_ok_same [where b = "ag_mIsStarted e", OF ok h this] show ?thesis by simp
qed

lemma keys_put_same: "map_of xs k = Some d' \<Longrightarrow> fst ` set (put_stream k d xs) = fst ` set xs"
  using keys_put [of k d xs] by (metis domI dom_map_of_conv_image_fst insert_absorb)

lemma channel_layout_OK:
  assumes "on_audio (setChannelLayout cl) q h = Some (r, g)" and "ids_ok h" and "sh_isInitialized h"
  shows "ids_ok g \<and> mutex_same h g"
proof (cases q)
  case (Alsa_Audio p)
  obtain e where e: "mAlsaEngine h = Some e"
    and g: "g = h\<lparr>mAlsaEngine := Some (e\<lparr>alsa_heap := (alsa_heap e)(p := ao_put_local (snd (setChannelLayout cl (ao_local (alsa_heap e p)))) (alsa_heap e p))\<rparr>)\<rparr>"
    using assms(1) Alsa_Audio by (auto simp: on_audio_def on_alsa_def elim!: option_elims split: prod.splits)
  have "ao_same (alsa_heap e p) (ao_put_local (snd (setChannelLayout cl (ao_local (alsa_heap e p)))) (alsa_heap e p))"
    by (simp add: ao_same_def getSampleFrequency_def getStreamId_def setChannelLayout_def)
  then have "alsa_ok (e\<lparr>alsa_heap := (alsa_heap e)(p := ao_put_local (snd (setChannelLayout cl (ao_local (alsa_heap e p)))) (alsa_heap e p))\<rparr>)"
    using alsa_ok_heap [OF _ heap_same_upd] assms(2) e by (simp add: ids_ok_def)
  then show ?thesis using e assms(2)
    by (intro ids_ok_shrink [OF assms(2) _ _ assms(3)]) (auto simp: g mutex_same_def alsa_ids_def tone_ids_def video_ids_def entries_def ids_ok_def)
next
  case (Tone_Audio k)
  then obtain s s' where "map_of (mTestToneStreams h) k = Some s" "g = h\<lparr>mTestToneStreams := put_stream k s' (mTestToneStreams h)\<rparr>"
    using assms(1) by (auto simp: on_audio_def elim!: option_elims split: prod.splits)
  then show ?thesis using assms(2) keys_put_same [of "mTestToneStreams h" k s s']
    by (intro ids_ok_shrink [OF assms(2) _ _ assms(3)]) (auto simp: mutex_same_def alsa_ids_def tone_ids_def video_ids_def ids_ok_def)
qed

lemma sh_setChannelLayout_OK: "sh_setChannelLayout k cl h = Some (r, g) \<Longrightarrow> handler_ok h \<Longrightarrow> handler_ok g"
  unfolding sh_setChannelLayout_def
  by (erule with_lock_preserves [OF _ preservesI], assumption?)
     (auto split: if_splits option.splits dest: channel_layout_OK)

lemma setTestToneParams_OK:
  assumes "setTestToneParams env k c f lv m u h = Some (r, g)" and "handler_ok h"
  shows "handler_ok g"
proof (cases "sh_isInitialized h \<and> (\<exists>j. getLocalAudioStreamById k h = Some (Tone_Audio j))")
  case False
  then show ?thesis using assms by (auto simp: setTestToneParams_def split: if_splits option.splits local_audio.splits)
next
  case True
  then obtain j where a: "api (\<lambda>h. do {
            s \<leftarrow> map_of (mTestToneStreams h) j;
            (result, s) \<leftarrow> setChannelParams (she_tone env) c f lv m u s;
            Some (result, h\<lparr>mTestToneStreams := put_stream j s (mTestToneStreams h)\<rparr>)
          }) h = Some (r, g)"
    using assms(1) by (auto simp: setTestToneParams_def)
  show ?thesis
  proof (rule api_preserves [OF a preservesI assms(2)])
    fix h r g
    assume "do {
            s \<leftarrow> map_of (mTestToneStreams h) j;
            (result, s) \<leftarrow> setChannelParams (she_tone env) c f lv m u s;
            Some (result, h\<lparr>mTestToneStreams := put_stream j s (mTestToneStreams h)\<rparr>)
          } = Some (r, g)" and ok: "ids_ok h"
    then obtain s s' where s: "map_of (mTestToneStreams h) j = Some s" "g = h\<lparr>mTestToneStreams := put_stream j s' (mTestToneStreams h)\<rparr>"
      by (auto elim!: bind_SomeE)
    then have "sh_isInitialized h" using ok by (auto simp: ids_ok_def sh_isInitialized_def)
    then show "ids_ok g \<and> mutex_same h g" using s ok keys_put_same [OF s(1), of s']
      by (intro ids_ok_shrink [OF ok]) (auto simp: mutex_same_def alsa_ids_def tone_ids_def video_ids_def ids_ok_def)
  qed
qed

section \<open>Starting, stopping, set-up and clean-up\<close>

text \<open>A step that leaves the streams of the ALSA engine alone.\<close>

definition engine_fine :: "'a handler \<Rightarrow> bool" where
  "engine_fine h \<longleftrightarrow> (\<forall>e. mAlsaEngine h = Some e \<longrightarrow> alsa_ok e \<and> ag_mIsInitialized e)"

definition alsa_step :: "'a handler \<Rightarrow> 'a handler \<Rightarrow> bool" where
  "alsa_step h g \<longleftrightarrow> keeps h g \<and> alsa_ids g = alsa_ids h \<and>
     (engine_fine h \<longrightarrow> engine_fine g) \<and> (mAlsaEngine h = None \<longrightarrow> mAlsaEngine g = None)"

lemma alsa_step_refl [simp]: "alsa_step h h"
  by (simp add: alsa_step_def)

lemma alsa_step_trans: "alsa_step h g \<Longrightarrow> alsa_step g k \<Longrightarrow> alsa_step h k"
  unfolding alsa_step_def by (auto intro: keeps_trans)

lemma frame_alsa_step: "frame h g \<Longrightarrow> alsa_step h g"
  by (simp add: frame_def alsa_step_def alsa_ids_def engine_fine_def)

lemma alsa_step_ids: "alsa_step h g \<Longrightarrow> ids_ok h \<Longrightarrow> ids_ok g \<and> mutex_same h g"
  unfolding alsa_step_def keeps_def keeps_base_def ids_ok_def mutex_same_def tone_ids_def video_ids_def
  by (simp add: engine_fine_def)

lemma on_workers_alsa:
  assumes "on_workers f e = Some e'" and "\<And>w h r w' h'. f (w, h) = Some (r, w', h') \<Longrightarrow> worker_same w w' \<and> heap_same h h'"
  shows "entries (e'\<lparr>ag_mIsStarted := b\<rparr>) = entries e"
  using assms(1) by (auto simp: on_workers_def entries_def)

lemma alsa_control_step:
  assumes "on_alsa f h = Some (r, g)"
    and "\<And>e r e'. f e = Some (r, e') \<Longrightarrow> entries e' = entries e \<and> (alsa_ok e \<and> ag_mIsInitialized e \<longrightarrow> alsa_ok e' \<and> ag_mIsInitialized e')"
  shows "alsa_step h g"
proof -
  obtain e e' where "mAlsaEngine h = Some e" "f e = Some (r, e')" "g = h\<lparr>mAlsaEngine := Some e'\<rparr>"
    using assms(1) by (auto simp: on_alsa_def elim!: bind_SomeE)
  then show ?thesis using assms(2) [of e r e'] keeps_on_alsa [OF assms(1)] by (simp add: alsa_step_def alsa_ids_def engine_fine_def)
qed

lemma ag_start_entries: "ag_start env e = Some (r, e') \<Longrightarrow> env_ok env \<Longrightarrow>
    entries e' = entries e \<and> (alsa_ok e \<and> ag_mIsInitialized e \<longrightarrow> alsa_ok e' \<and> ag_mIsInitialized e')"
  using on_workers_alsa [where f = "worker_start (ag_worker env)", OF _ worker_start_same]
    on_workers_same [where f = "worker_start (ag_worker env)", OF _ _ worker_start_same]
  by (auto simp: ag_start_def split: if_splits)

lemma ag_stop_entries: "ag_stop env e = Some (r, e') \<Longrightarrow>
    entries e' = entries e \<and> (alsa_ok e \<and> ag_mIsInitialized e \<longrightarrow> alsa_ok e' \<and> ag_mIsInitialized e')"
  using on_workers_alsa [where f = "worker_stop (ag_worker env)", OF _ worker_stop_same]
    on_workers_same [where f = "worker_stop (ag_worker env)", OF _ _ worker_stop_same]
  by (auto simp: ag_stop_def split: if_splits)

lemma and_then_step:
  assumes "and_then f g h = Some (r, k)"
    and "\<And>h r k. f h = Some (r, k) \<Longrightarrow> R h k" and "\<And>h r k. g h = Some (r, k) \<Longrightarrow> R h k" and "\<And>x y z. R x y \<Longrightarrow> R y z \<Longrightarrow> R x z"
  shows "R h k"
  using assms(1) unfolding and_then_def
  by (elim bind_SomeE prod_SomeE if_SomeE) (auto dest!: assms(2,3) intro: assms(4))

lemma start_steps_alsa:
  assumes "start_steps env resume h = Some (r, g)" and "env_ok (she_alsa env)"
  shows "alsa_step h g"
proof -
  have e: "start_engines env h = Some (r, g) \<Longrightarrow> alsa_step h g" for h
    unfolding start_engines_def
  proof (erule and_then_step [where R = alsa_step])
    show "alsa_step x z" if "alsa_step x y" "alsa_step y z" for x y z :: "'a handler" using that by (rule alsa_step_trans)
    show "start_tx env h = Some (r, k) \<Longrightarrow> alsa_step h k" for h r k
      by (auto simp: start_tx_def split: if_splits dest: frame_on_tx frame_alsa_step)
    show "and_then (start_rx env) (start_alsa env) h = Some (r, k) \<Longrightarrow> alsa_step h k" for h r k
    proof (erule and_then_step [where R = alsa_step])
      show "alsa_step x z" if "alsa_step x y" "alsa_step y z" for x y z :: "'a handler" using that by (rule alsa_step_trans)
      show "start_rx env h = Some (r, k) \<Longrightarrow> alsa_step h k" for h r k
        by (auto simp: start_rx_def split: if_splits dest: frame_on_rx frame_alsa_step)
      show "start_alsa env h = Some (r, k) \<Longrightarrow> alsa_step h k" for h r k
        using alsa_control_step [OF _ ag_start_entries [OF _ assms(2)]] by (auto simp: start_alsa_def split: if_splits)
    qed
  qed
  have f: "alsa_step h (snd (resume_devices env h))"
    by (rule frame_alsa_step) (simp add: frame_def resume_devices_keeps, simp add: resume_devices_def called_def Let_def)
  show ?thesis
    using assms(1) f e by (auto simp: start_steps_def Let_def split: if_splits prod.splits intro: alsa_step_trans)
qed

lemma ids_ok_state: "ids_ok h \<Longrightarrow> x \<noteq> eIasDead \<Longrightarrow> ids_ok (h\<lparr>sh_mState := x\<rparr>)"
  by (auto simp: ids_ok_def alsa_ids_def tone_ids_def video_ids_def)

lemma sh_start_OK:
  assumes "sh_start env resume h = Some (r, g)" and "env_ok (she_alsa env)" and "handler_ok h"
  shows "handler_ok g"
  using assms(1) unfolding sh_start_steps
proof (rule with_lock_preserves [OF _ preservesI assms(3)])
  fix h r g
  assume b: "(if \<not> sh_isInitialized h then Some (eIasAvbProcNotInitialized, h)
       else if isStarted h then Some (eIasAvbProcOK, h)
       else do {
         (result, h) \<leftarrow> start_steps env resume h;
         if result = eIasAvbProcOK then Some (result, h\<lparr>sh_mState := eIasStarted\<rparr>)
         else map_option (\<lambda>(_, h). (result, h)) (sh_stop env False h)
       }) = Some (r, g)" and ok: "ids_ok h"
  show "ids_ok g \<and> mutex_same h g"
  proof (cases "\<not> sh_isInitialized h \<or> isStarted h")
    case True
    then show ?thesis using b ok by (auto split: if_splits)
  next
    case False
    then obtain r1 h1 where s: "start_steps env resume h = Some (r1, h1)" and
      c: "(if r1 = eIasAvbProcOK then Some (r1, h1\<lparr>sh_mState := eIasStarted\<rparr>)
           else map_option (\<lambda>(_, h). (r1, h)) (sh_stop env False h1)) = Some (r, g)"
      using b by (auto elim!: bind_SomeE split: if_splits)
    have h1: "ids_ok h1" "mutex_same h h1" using alsa_step_ids [OF start_steps_alsa [OF s assms(2)] ok] by auto
    show ?thesis
    proof (cases "r1 = eIasAvbProcOK")
      case True
      then have "g = h1\<lparr>sh_mState := eIasStarted\<rparr>" using c by simp
      then show ?thesis using ids_ok_state [OF h1(1)] h1(2) by (simp add: mutex_same_def)
    next
      case f: False
      have "sh_isInitialized h1" "\<not> isStarted h1"
        using False start_steps_keeps [OF s] by (auto simp: keeps_def sh_isInitialized_def isStarted_def)
      then have "g = h1" using c f stop_idle [of h1 env False] by (auto split: if_splits)
      then show ?thesis using h1 by simp
    qed
  qed
qed

lemma stop_body_OK:
  assumes "stop_body env suspend h = Some (r, g)" and "ids_ok h"
  shows "ids_ok g \<and> mutex_same h g"
proof (cases "\<not> sh_isInitialized h \<or> \<not> isStarted h")
  case True
  then show ?thesis using assms by (auto simp: stop_body_def split: if_splits)
next
  case False
  let ?h = "if suspend then h else h\<lparr>mVideoStreamInterface := map_option (\<lambda>v. snd (vi_stop v)) (mVideoStreamInterface h)\<rparr>"
  obtain r1 h1 r2 h2 where al: "(if mAlsaEngine ?h = None then Some (eIasAvbProcOK, ?h) else on_alsa (ag_stop (she_alsa env)) ?h) = Some (r1, h1)"
    and tx: "(if mAvbTransmitEngine h1 = None then Some (eIasAvbProcOK, h1) else on_tx (txe_stop (she_tx env)) h1) = Some (r2, h2)"
    and g: "frame (h2\<lparr>sh_mState := eIasInitialized\<rparr>) g"
    using assms(1) False unfolding stop_body_def Let_def
    by (elim if_SomeE bind_SomeE prod_SomeE)
       (auto simp: frame_def keeps_def keeps_base_def called_def split: if_splits)
  have v: "video_ids ?h = video_ids h"
    using vi_stop_ids by (cases "mVideoStreamInterface h") (auto simp: video_ids_def viface_ids_def)
  have "ids_ok ?h \<and> mutex_same h ?h"
    using assms(2) v by (auto simp: ids_ok_def alsa_ids_def tone_ids_def mutex_same_def)
  moreover have "alsa_step ?h h1"
    using al alsa_control_step [OF _ ag_stop_entries] by (auto split: if_splits)
  moreover have "alsa_step h1 h2" using tx by (auto split: if_splits dest: frame_on_tx frame_alsa_step)
  ultimately have "ids_ok h2 \<and> mutex_same h h2" using alsa_step_ids mutex_same_trans by meson
  then show ?thesis using frame_ids [OF g ids_ok_state] frame_mutex [OF g] by (simp add: mutex_same_def)
qed

lemma sh_stop_OK: "sh_stop env suspend h = Some (r, g) \<Longrightarrow> handler_ok h \<Longrightarrow> handler_ok g"
  unfolding sh_stop_def by (erule with_lock_preserves [OF _ preservesI [OF stop_body_OK]])

text \<open>The end of the clean-up leaves nothing.\<close>

lemma sh_cleanup_OK:
  assumes "sh_cleanup env h = Some g" and "handler_ok h"
  shows "handler_ok g \<and> sh_mState g = eIasDead"
proof -
  let ?h = "h\<lparr>mVideoStreamInterface := map_option (\<lambda>v. snd (vi_stop v)) (mVideoStreamInterface h)\<rparr>"
  obtain r h1 where s: "sh_stop env False ?h = Some (r, h1)" and
    rest: "(let h = h1\<lparr>clocks := delete_controllers (she_clock env) (mClockControllers h1) (clocks h1), mClockControllers := []\<rparr>;
       h = (if has_device he_driver h then called Driver_Cleanup h else h)
      in do {
       h \<leftarrow> delete_tx env h;
       let h = h\<lparr>mAvbReceiveEngine := None\<rparr>;
       h \<leftarrow> delete_alsa env h;
       close_plugin (h\<lparr>mVideoStreamInterface := None, mTestToneStreams := [], mAvbClockDomains := [],
                       mEnvironment := None, sh_mClient := None, sh_mState := eIasDead\<rparr>)
     }) = Some g"
    using assms(1) unfolding sh_cleanup_def by (auto simp: Let_def elim!: bind_SomeE)
  have "video_ids ?h = video_ids h"
    using vi_stop_ids by (cases "mVideoStreamInterface h") (auto simp: video_ids_def viface_ids_def)
  then have "handler_ok ?h" using assms(2) by (auto simp: handler_ok_def ids_ok_def alsa_ids_def tone_ids_def)
  then have m: "\<not> mApiMtx h1" using sh_stop_OK [OF s] by (simp add: handler_ok_def)
  have "mAlsaEngine g = None \<and> mVideoStreamInterface g = None \<and> mTestToneStreams g = [] \<and> sh_mState g = eIasDead \<and> mApiMtx g = mApiMtx h1"
    using rest unfolding Let_def
    by (elim bind_SomeE)
       (auto simp: delete_tx_def delete_alsa_def close_plugin_def called_def split: option.splits if_splits bool.splits)
  then show ?thesis using m by (auto simp: handler_ok_def ids_ok_def alsa_ids_def tone_ids_def video_ids_def)
qed

text \<open>The steps of the set-up touch no local stream.\<close>

definition init_step :: "'a handler \<Rightarrow> 'a handler \<Rightarrow> bool" where
  "init_step h g \<longleftrightarrow> mutex_same h g \<and> mAlsaEngine g = mAlsaEngine h \<and> mVideoStreamInterface g = mVideoStreamInterface h \<and>
     mTestToneStreams g = mTestToneStreams h"

lemma init_step_trans: "init_step x y \<Longrightarrow> init_step y z \<Longrightarrow> init_step x z"
  by (simp add: init_step_def mutex_same_def)

lemma init_steps:
  "load_plugin ia name h = Some (r, g) \<Longrightarrow> init_step h g"
  "create_environment env ia h = Some (r, g) \<Longrightarrow> init_step h g"
  "load_driver env ia h = Some (r, g) \<Longrightarrow> init_step h g"
  "open_devices ia h = Some (r, g) \<Longrightarrow> init_step h g"
  "create_ptp_clock env h = Some (r, g) \<Longrightarrow> init_step h g"
  "create_raw_clock env h = Some (r, g) \<Longrightarrow> init_step h g"
  "create_hw_clock env ia h = Some (r, g) \<Longrightarrow> init_step h g"
  "create_watchdog ia h = Some (r, g) \<Longrightarrow> init_step h g"
  "run_setup ia False h = Some (r, g) \<Longrightarrow> init_step h g"
  by (auto simp: init_step_def mutex_same_def load_plugin_def create_environment_def load_driver_def open_devices_def
      create_ptp_clock_def create_raw_clock_def create_hw_clock_def create_watchdog_def run_setup_def add_clock_def
      note_device_def called_def Let_def split: if_splits option.splits)

lemma init_chain: "and_then f g h = Some (r, k) \<Longrightarrow> (\<And>h r k. f h = Some (r, k) \<Longrightarrow> init_step h k) \<Longrightarrow>
    (\<And>h r k. g h = Some (r, k) \<Longrightarrow> init_step h k) \<Longrightarrow> init_step h k"
  by (rule and_then_step) (auto intro: init_step_trans)

lemma sh_init_OK:
  assumes "sh_init env ia name False h = Some (r, g)" and "handler_ok h"
  shows "handler_ok g"
proof (cases "sh_isInitialized h")
  case True
  then show ?thesis using assms by (simp add: sh_init_def)
next
  case False
  then obtain r1 h1 where c: "and_then (load_plugin ia name) (and_then (create_environment env ia) (and_then (load_driver env ia)
            (and_then (open_devices ia) (and_then (create_ptp_clock env) (and_then (create_raw_clock env)
            (and_then (create_hw_clock env ia) (and_then (create_watchdog ia) (run_setup ia False)))))))) h = Some (r1, h1)"
    and e: "(if r1 = eIasAvbProcOK then Some (r1, h1) else map_option (Pair r1) (sh_cleanup env h1)) = Some (r, g)"
    using assms(1) by (auto simp: sh_init_def elim!: bind_SomeE)
  have "init_step h h1" using c by (elim init_chain init_steps)
  then have "handler_ok h1"
    using assms(2) False
    by (simp add: init_step_def handler_ok_def ids_ok_def alsa_ids_def tone_ids_def video_ids_def sh_isInitialized_def mutex_same_def)
  then show ?thesis using e sh_cleanup_OK by (auto split: if_splits)
qed

section \<open>Runs of the handler\<close>

text \<open>
  Calls of the API, and what threads do in between: the ALSA engine runs its worker threads and serves its streams,
  the rest leaves the local streams alone. The setup that \<^verbatim>\<open>init\<close> may call makes calls of the API itself,
  with the flag for preconfigured streams set: it is part of the run after an \<^verbatim>\<open>init\<close> without it.
\<close>

inductive handler_run :: "'a handler \<Rightarrow> bool" where
  call_new: "handler_run (handler_new cl)"
| call_init: "handler_run h \<Longrightarrow> sh_init env ia name False h = Some (r, g) \<Longrightarrow> handler_run g"
| call_flag: "handler_run h \<Longrightarrow> handler_run (h\<lparr>mPreConfigurationInProgress := b\<rparr>)"
| call_cleanup: "handler_run h \<Longrightarrow> sh_cleanup env h = Some g \<Longrightarrow> handler_run g"
| call_mutex: "handler_run h \<Longrightarrow> activateMutexHandling h = Some g \<Longrightarrow> handler_run g"
| call_start: "handler_run h \<Longrightarrow> env_ok (she_alsa env) \<Longrightarrow> sh_start env resume h = Some (r, g) \<Longrightarrow> handler_run g"
| call_stop: "handler_run h \<Longrightarrow> sh_stop env suspend h = Some (r, g) \<Longrightarrow> handler_run g"
| call_alsa: "handler_run h \<Longrightarrow> env_ok (she_alsa env) \<Longrightarrow>
    sh_createAlsaStream env d n f fmt c ps np cl sc dev k ty h = Some (r', k', g) \<Longrightarrow> handler_run g"
| call_tone: "handler_run h \<Longrightarrow> createTestToneStream env n f fmt cl k h = Some (r', k', g) \<Longrightarrow> handler_run g"
| call_video: "handler_run h \<Longrightarrow> createLocalVideoStream env d rate ps vfmt name k h = Some (r', k', g) \<Longrightarrow> handler_run g"
| call_destroy: "handler_run h \<Longrightarrow> destroyLocalStream env k h = Some (r', g) \<Longrightarrow> handler_run g"
| call_layout: "handler_run h \<Longrightarrow> sh_setChannelLayout k cl h = Some (r', g) \<Longrightarrow> handler_run g"
| call_params: "handler_run h \<Longrightarrow> setTestToneParams env k n f lv m u h = Some (r', g) \<Longrightarrow> handler_run g"
| call_rx_audio: "handler_run h \<Longrightarrow> createReceiveAudioStream env outcome n sid dmac h = Some (r', g) \<Longrightarrow> handler_run g"
| call_rx_video: "handler_run h \<Longrightarrow> createReceiveVideoStream env outcome sid dmac h = Some (r', g) \<Longrightarrow> handler_run g"
| call_rx_clock: "handler_run h \<Longrightarrow> createReceiveClockReferenceStream env outcome' sid dmac c h = Some (r', c', g) \<Longrightarrow> handler_run g"
| call_tx_audio: "handler_run h \<Longrightarrow> createTransmitAudioStream env outcome'' n c md sid dmac act h = Some (r', g) \<Longrightarrow> handler_run g"
| call_tx_video: "handler_run h \<Longrightarrow> createTransmitVideoStream env outcome'' c md sid dmac act h = Some (r', g) \<Longrightarrow> handler_run g"
| call_tx_clock: "handler_run h \<Longrightarrow> createTransmitClockReferenceStream env outcome3 c md sid dmac act h = Some (r', g) \<Longrightarrow> handler_run g"
| call_destroy_avb: "handler_run h \<Longrightarrow> destroyStream env sid h = Some (r', g) \<Longrightarrow> handler_run g"
| call_active: "handler_run h \<Longrightarrow> setStreamActive env sid act h = Some (r', g) \<Longrightarrow> handler_run g"
| call_connect: "handler_run h \<Longrightarrow> connectStreams env sid k h = Some (r', g) \<Longrightarrow> handler_run g"
| call_disconnect: "handler_run h \<Longrightarrow> disconnectStreams env sid h = Some (r', g) \<Longrightarrow> handler_run g"
| call_derive: "handler_run h \<Longrightarrow> deriveClockDomainFromRxStream env sid c h = Some (r', c', g) \<Longrightarrow> handler_run g"
| call_recovery: "handler_run h \<Longrightarrow> setClockRecoveryParams env c c' driver h = Some (r', g) \<Longrightarrow> handler_run g"
| call_register: "handler_run h \<Longrightarrow> registerClient client h = (r', g) \<Longrightarrow> handler_run g"
| call_unregister: "handler_run h \<Longrightarrow> unregisterClient client h = (r', g) \<Longrightarrow> handler_run g"
| call_emergency: "handler_run h \<Longrightarrow> handler_run (emergencyStop env h)"
| call_store: "handler_run h \<Longrightarrow> handler_run (snd (triggerStorePersistenceData env h))"
| call_worker: "handler_run h \<Longrightarrow> mAlsaEngine h = Some e \<Longrightarrow> i < length (mWorkerThreads e) \<Longrightarrow> serve_ok wenv \<Longrightarrow>
    worker_round wenv wc ra (t, mWorkerThreads e ! i, alsa_heap e) = Some (t', wh) \<Longrightarrow>
    handler_run (h\<lparr>mAlsaEngine := Some (put_worker i wh e)\<rparr>)"
| call_serve: "handler_run h \<Longrightarrow> mAlsaEngine h = Some e \<Longrightarrow> heap_same (alsa_heap e) ah \<Longrightarrow>
    handler_run (h\<lparr>mAlsaEngine := Some (e\<lparr>alsa_heap := ah\<rparr>)\<rparr>)"
| call_tones: "handler_run h \<Longrightarrow> map fst xs = map fst (mTestToneStreams h) \<Longrightarrow> handler_run (h\<lparr>mTestToneStreams := xs\<rparr>)"
| call_frames: "handler_run h \<Longrightarrow> frame h g \<Longrightarrow> handler_run g"

lemma frame_handler: "frame h g \<Longrightarrow> handler_ok h \<Longrightarrow> handler_ok g"
  using frame_ids [of h g] frame_mutex [of h g] by (simp add: handler_ok_def mutex_same_def)

lemma api_frame:
  assumes "api f h = Some (r, g)" and "handler_ok h" and "\<And>h r g. f h = Some (r, g) \<Longrightarrow> frame h g"
  shows "handler_ok g"
  using assms(1) frame_preserves [of f, OF assms(3)] assms(2) by (rule api_preserves)

lemma handler_run_ok: "handler_run h \<Longrightarrow> handler_ok h"
proof (induction rule: handler_run.induct)
  case (call_new cl)
  then show ?case by (simp add: handler_new_def handler_ok_def ids_ok_def alsa_ids_def tone_ids_def video_ids_def)
next
  case (call_init h env ia name r g)
  then show ?case by (blast intro: sh_init_OK)
next
  case (call_flag h b)
  then show ?case by (simp add: handler_ok_def ids_ok_def alsa_ids_def tone_ids_def video_ids_def)
next
  case (call_cleanup h env g)
  then show ?case using sh_cleanup_OK by blast
next
  case (call_mutex h g)
  then show ?case by (auto simp: activateMutexHandling_def handler_ok_def split: if_splits)
next
  case (call_start h env resume r g)
  then show ?case using sh_start_OK by blast
next
  case (call_stop h env suspend r g)
  then show ?case using sh_stop_OK by blast
next
  case (call_alsa h env d n f fmt c ps np cl sc dev k ty r' k' g)
  then show ?case unfolding sh_createAlsaStream_def using create_alsa_OK by (blast intro: api_id_preserves)
next
  case (call_tone h env n f fmt cl k r' k' g)
  then show ?case unfolding createTestToneStream_def using create_tone_OK by (blast intro: api_id_preserves)
next
  case (call_video h env d rate ps vfmt name k r' k' g)
  then show ?case unfolding createLocalVideoStream_def using create_local_video_OK by (blast intro: api_id_preserves)
next
  case (call_destroy h env k r' g)
  then show ?case unfolding destroyLocalStream_body using destroy_local_OK by (blast intro: api_preserves preservesI)
next
  case (call_layout h k cl r' g)
  then show ?case using sh_setChannelLayout_OK by blast
next
  case (call_params h env k n f lv m u r' g)
  then show ?case using setTestToneParams_OK by blast
next
  case (call_rx_audio h env outcome n sid dmac r' g)
  show ?case
    using call_rx_audio(2) call_rx_audio.IH unfolding createReceiveAudioStream_def
    by (rule api_frame) (auto elim!: bind_SomeE split: if_splits dest!: create_receive_frame recover_clock_frame intro: frame_trans)
next
  case (call_rx_video h env outcome sid dmac r' g)
  show ?case
    using call_rx_video(2) call_rx_video.IH unfolding createReceiveVideoStream_def
    by (rule api_frame) (auto split: if_splits dest!: create_receive_frame)
next
  case (call_rx_clock h env outcome' sid dmac c r' c' g)
  have "frame h g"
    using call_rx_clock(2) unfolding createReceiveClockReferenceStream_def Let_def
    by (auto elim!: bind_SomeE split: if_splits dest!: create_receive_frame derive_frame recovery_frame) (meson frame_trans)+
  then show ?case using call_rx_clock.IH by (rule frame_handler)
next
  case (call_tx_audio h env outcome'' n c md sid dmac act r' g)
  show ?case
    using call_tx_audio(2) call_tx_audio.IH unfolding createTransmitAudioStream_def
    by (rule api_frame) (auto split: if_splits dest!: create_transmit_frame)
next
  case (call_tx_video h env outcome'' c md sid dmac act r' g)
  show ?case
    using call_tx_video(2) call_tx_video.IH unfolding createTransmitVideoStream_def
    by (rule api_frame) (auto split: if_splits dest!: create_transmit_frame)
next
  case (call_tx_clock h env outcome3 c md sid dmac act r' g)
  have "frame h g"
    using call_tx_clock(2) unfolding createTransmitClockReferenceStream_def by (auto split: if_splits dest!: create_transmit_frame)
  then show ?case using call_tx_clock.IH by (rule frame_handler)
next
  case (call_destroy_avb h env sid r' g)
  show ?case using call_destroy_avb(2) call_destroy_avb.IH unfolding destroyStream_def by (rule api_frame [OF _ _ tx_then_rx_frame])
next
  case (call_active h env sid act r' g)
  show ?case
    using call_active(2) call_active.IH unfolding setStreamActive_def
    by (rule api_frame) (auto split: if_splits dest!: frame_on_tx)
next
  case (call_connect h env sid k r' g)
  show ?case
    using call_connect(2) call_connect.IH unfolding connectStreams_def Let_def
    by (rule api_frame) (auto elim!: bind_SomeE split: if_splits option.splits dest!: connect_frame intro: frame_trans)
next
  case (call_disconnect h env sid r' g)
  show ?case using call_disconnect(2) call_disconnect.IH unfolding disconnectStreams_def by (rule api_frame [OF _ _ tx_then_rx_frame])
next
  case (call_derive h env sid c r' c' g)
  then show ?case using derive_frame frame_handler by blast
next
  case (call_recovery h env c c' driver r' g)
  then show ?case using recovery_frame frame_handler by blast
next
  case (call_register h client r' g)
  then have "frame h g" by (auto simp: registerClient_def frame_def keeps_def keeps_base_def split: if_splits)
  then show ?case using call_register.IH by (rule frame_handler)
next
  case (call_unregister h client r' g)
  then have "frame h g" by (auto simp: unregisterClient_def frame_def keeps_def keeps_base_def split: if_splits)
  then show ?case using call_unregister.IH by (rule frame_handler)
next
  case (call_emergency h env)
  have "frame h (emergencyStop env h)" by (simp add: emergencyStop_def called_def Let_def frame_def keeps_def keeps_base_def)
  then show ?case using call_emergency.IH by (rule frame_handler)
next
  case (call_store h env)
  have "frame h (snd (triggerStorePersistenceData env h))"
    by (simp add: triggerStorePersistenceData_def called_def frame_def keeps_def keeps_base_def)
  then show ?case using call_store.IH by (rule frame_handler)
next
  case (call_worker h e i wenv wc ra t t' wh)
  obtain w ah where wh: "wh = (w, ah)" by fastforce
  note s = worker_round_same [OF call_worker(5)[unfolded wh] call_worker(4)]
  have "list_all2 worker_same (mWorkerThreads e) ((mWorkerThreads e)[i := w])"
    using s call_worker(3) by (auto simp: list_all2_conv_all_nth nth_list_update)
  from alsa_ok_same [where b = "ag_mIsStarted e", OF _ conjunct2 [OF s] this]
  have "alsa_ok (put_worker i wh e)" using call_worker.IH call_worker(2) by (simp add: put_worker_def wh handler_ok_def ids_ok_def)
  then show ?case using call_worker.IH call_worker(2)
    by (auto simp: put_worker_def handler_ok_def ids_ok_def alsa_ids_def tone_ids_def video_ids_def entries_def)
next
  case (call_serve h e ah)
  then have "alsa_ok (e\<lparr>alsa_heap := ah\<rparr>)" by (intro alsa_ok_heap) (simp_all add: handler_ok_def ids_ok_def)
  then show ?case using call_serve by (auto simp: handler_ok_def ids_ok_def alsa_ids_def tone_ids_def video_ids_def entries_def)
next
  case (call_tones h xs)
  have "fst ` set xs = fst ` set (mTestToneStreams h)" using call_tones(2) by (metis list.set_map)
  moreover have "xs = [] \<longleftrightarrow> mTestToneStreams h = []" using call_tones(2) by (cases xs) auto
  ultimately show ?case using call_tones.IH by (auto simp: handler_ok_def ids_ok_def alsa_ids_def tone_ids_def video_ids_def)
next
  case (call_frames h g)
  then show ?case by (blast intro: frame_handler)
qed


text \<open>A handler that is set up without a clock driver and gets a stream of a hardware device.\<close>

definition demo_heap :: alsa_heap where
  "demo_heap = (\<lambda>p. Hw_Device (snd (demo_hw eIasAvbTransmitToNetwork 0 [] 0 0)))"

definition demo_sh_env :: "nat sh_env" where
  "demo_sh_env =
     \<lparr>she_registry = None, she_tx = undefined, she_newTx = False, she_txHeap = undefined, she_rx = undefined, she_newRx = False,
      she_alsa = demo_env, she_newAlsa = True, she_alsaHeap = demo_heap, she_video = undefined, she_newVideo = False,
      she_tone = undefined, she_newTone = False, she_clock = undefined, she_newController = None, she_newClock = (\<lambda>A. Some 5),
      she_rxClock = undefined, sh_address = undefined, she_driverInit = False, she_igbInit = True, she_ptpStore = eIasAvbProcOK\<rparr>"

definition demo_answers :: "nat init_answers" where
  "demo_answers =
     \<lparr>ia_dlopen = (True, True), ia_dlsym = True, ia_newEnvironment = True, ia_passArguments = None, ia_validate = True,
      ia_registerDlt = eIasAvbProcOK, ia_loadDriver = eIasAvbProcOK, ia_txRing = True, ia_igb = True, ia_ptp = True,
      ia_sourceMac = True, ia_hwInit = eIasAvbProcOK, ia_hwClock = undefined, ia_watchdog = eIasAvbProcOK, ia_setup = (\<lambda>h. None)\<rparr>"

lemma raw_clock_exists: "\<exists>s. raw_clock_new = Some s"
proof -
  have "0 \<le> dmul ppm1 100000"
    by (auto simp: dmul_def ppm1_def fl_nonneg)
  then have "dadd 1 (dmul ppm1 100000) \<noteq> 0"
    using fl_mono [of 1 "1 + dmul ppm1 100000"] by (simp add: dadd_def)
  then show ?thesis
    by (auto simp: raw_clock_new_def synchronous_clock_def setLockThreshold1_def setLockThreshold2_def ddiv_def Let_def)
qed

lemma demo_env_fields:
  "she_registry demo_sh_env = None" "she_newClock demo_sh_env A = Some 5" "she_alsa demo_sh_env = demo_env"
  "she_newAlsa demo_sh_env" "she_alsaHeap demo_sh_env = demo_heap"
  by (simp_all add: demo_sh_env_def)

text \<open>The state during the set-up.\<close>

definition bare :: "nat handler \<Rightarrow> bool" where
  "bare h \<longleftrightarrow> mAlsaEngine h = None \<and> mVideoStreamInterface h = None \<and> mTestToneStreams h = [] \<and> \<not> mApiMutexEnable h"

lemma demo_steps:
  "\<exists>g. load_plugin demo_answers ''pooh'' (handler_new cl) = Some (eIasAvbProcOK, g) \<and> bare g"
  "bare h \<Longrightarrow> \<exists>g. create_environment demo_sh_env demo_answers h = Some (eIasAvbProcOK, g) \<and> bare g"
  "bare h \<Longrightarrow> \<exists>g. load_driver demo_sh_env demo_answers h = Some (eIasAvbProcOK, g) \<and> bare g"
  "bare h \<Longrightarrow> \<exists>g. open_devices demo_answers h = Some (eIasAvbProcOK, g) \<and> bare g"
  "create_hw_clock demo_sh_env demo_answers h = Some (eIasAvbProcOK, h)"
  "create_watchdog demo_answers h = Some (eIasAvbProcOK, h\<lparr>sh_mState := eIasInitialized\<rparr>)"
  "run_setup demo_answers False h = Some (eIasAvbProcOK, h)"
  by (simp_all add: load_plugin_def demo_answers_def bare_def handler_new_def create_environment_def demo_env_fields
      load_driver_def getConfigValue_text_def open_devices_def note_device_def create_hw_clock_def doGetConfigValue_def
      create_watchdog_def run_setup_def)

lemma demo_clock_steps:
  "bare h \<Longrightarrow> \<exists>g. create_ptp_clock demo_sh_env h = Some (eIasAvbProcOK, g) \<and> bare g \<and> map_of (mAvbClockDomains g) 0 = Some 5"
  "bare h \<Longrightarrow> map_of (mAvbClockDomains h) 0 = Some 5 \<Longrightarrow>
     \<exists>g. create_raw_clock demo_sh_env h = Some (eIasAvbProcOK, g) \<and> bare g \<and> map_of (mAvbClockDomains g) 0 = Some 5"
proof -
  obtain c d where "ptp_clock_new = Some c" "raw_clock_new = Some d"
    using ptp_clock_exists raw_clock_exists by blast
  then show "bare h \<Longrightarrow> \<exists>g. create_ptp_clock demo_sh_env h = Some (eIasAvbProcOK, g) \<and> bare g \<and> map_of (mAvbClockDomains g) 0 = Some 5"
    "bare h \<Longrightarrow> map_of (mAvbClockDomains h) 0 = Some 5 \<Longrightarrow>
       \<exists>g. create_raw_clock demo_sh_env h = Some (eIasAvbProcOK, g) \<and> bare g \<and> map_of (mAvbClockDomains g) 0 = Some 5"
    by (auto simp: create_ptp_clock_def create_raw_clock_def add_clock_def demo_env_fields bare_def
        cIasAvbPtpClockDomainId_def cIasAvbRawClockDomainId_def)
qed

lemma and_then_OK: "f h = Some (eIasAvbProcOK, g) \<Longrightarrow> and_then f k h = k g"
  by (simp add: and_then_def)

lemma demo_init:
  "\<exists>h. sh_init demo_sh_env demo_answers ''pooh'' False (handler_new cl) = Some (eIasAvbProcOK, h) \<and> bare h \<and>
     sh_mState h = eIasInitialized \<and> map_of (mAvbClockDomains h) 0 = Some 5"
proof -
  obtain h1 where 1: "load_plugin demo_answers ''pooh'' (handler_new cl) = Some (eIasAvbProcOK, h1)" "bare h1"
    using demo_steps(1) by blast
  obtain h2 where 2: "create_environment demo_sh_env demo_answers h1 = Some (eIasAvbProcOK, h2)" "bare h2"
    using demo_steps(2) [OF 1(2)] by blast
  obtain h3 where 3: "load_driver demo_sh_env demo_answers h2 = Some (eIasAvbProcOK, h3)" "bare h3"
    using demo_steps(3) [OF 2(2)] by blast
  obtain h4 where 4: "open_devices demo_answers h3 = Some (eIasAvbProcOK, h4)" "bare h4"
    using demo_steps(4) [OF 3(2)] by blast
  obtain h5 where 5: "create_ptp_clock demo_sh_env h4 = Some (eIasAvbProcOK, h5)" "bare h5" "map_of (mAvbClockDomains h5) 0 = Some 5"
    using demo_clock_steps(1) [OF 4(2)] by blast
  obtain h6 where 6: "create_raw_clock demo_sh_env h5 = Some (eIasAvbProcOK, h6)" "bare h6" "map_of (mAvbClockDomains h6) 0 = Some 5"
    using demo_clock_steps(2) [OF 5(2,3)] by blast
  have "sh_init demo_sh_env demo_answers ''pooh'' False (handler_new cl) = Some (eIasAvbProcOK, h6\<lparr>sh_mState := eIasInitialized\<rparr>)"
    unfolding sh_init_def
    by (simp add: and_then_OK 1(1) 2(1) 3(1) 4(1) 5(1) 6(1) demo_steps(5,6,7)) (simp add: sh_isInitialized_def handler_new_def)
  then show ?thesis using 6 by (simp add: bare_def)
qed

lemma demo_create:
  "case Alsa_Engine.createAlsaStream demo_env eIasAvbTransmitToNetwork 2 48000 eIasAvbAudioFormatSaf16 256 3 0 False ''avb''
      7 (Some 5) eIasAlsaHwDevice (snd (ag_init (alsa_engine_new demo_heap))) of
     None \<Rightarrow> False
   | Some (r, e) \<Rightarrow> r = eIasAvbProcOK \<and> ag_getLocalAudioStream 7 e = Some 1 \<and> \<not> ao_isConnected (alsa_heap e 1)"
  by code_simp

lemma demo_alsa:
  assumes "bare h" and "sh_mState h = eIasInitialized" and "map_of (mAvbClockDomains h) 0 = Some 5"
  obtains g e where "sh_createAlsaStream demo_sh_env eIasAvbTransmitToNetwork 2 48000 eIasAvbAudioFormatSaf16 0 256 3 0 False
      ''avb'' 7 eIasAlsaHwDevice h = Some (eIasAvbResultOk, 7, g)"
    and "mAlsaEngine g = Some e" and "ag_getLocalAudioStream 7 e = Some 1" and "\<not> ao_isConnected (alsa_heap e 1)"
proof -
  let ?c = "Alsa_Engine.createAlsaStream demo_env eIasAvbTransmitToNetwork 2 48000 eIasAvbAudioFormatSaf16 256 3 0 False ''avb''
      7 (Some 5) eIasAlsaHwDevice (snd (ag_init (alsa_engine_new demo_heap)))"
  have "?c \<noteq> None"
  proof
    assume n: "?c = None"
    show False using demo_create unfolding n by simp
  qed
  then obtain r e where c: "?c = Some (r, e)" by auto
  have e: "r = eIasAvbProcOK" "ag_getLocalAudioStream 7 e = Some 1" "\<not> ao_isConnected (alsa_heap e 1)"
    using demo_create unfolding c option.case prod.case by blast+
  let ?h = "h\<lparr>mAlsaEngine := Some (snd (ag_init (alsa_engine_new demo_heap)))\<rparr>"
  have n: "need_alsa_engine demo_sh_env h = Some (eIasAvbProcOK, ?h)"
    using assms(1,2) by (simp add: need_alsa_engine_def bare_def demo_env_fields isStarted_def ag_init_def alsa_engine_new_def)
  have u: "choose_local_id 7 ?h = Some (eIasAvbProcOK, 7, ?h)"
    using assms(1) by (simp add: choose_local_id_def isLocalStreamIdInUse_def getLocalAudioStreamById_def getLocalVideoStreamById_def
        bare_def ag_getLocalAudioStream_def ag_init_def alsa_engine_new_def)
  have "create_alsa demo_sh_env eIasAvbTransmitToNetwork 2 48000 eIasAvbAudioFormatSaf16 0 256 3 0 False ''avb'' 7 eIasAlsaHwDevice h
      = Some (eIasAvbProcOK, 7, h\<lparr>mAlsaEngine := Some e\<rparr>)"
    using assms(2,3) c e(1) n u
    by (simp add: create_alsa_def sh_isInitialized_def cIasAvbMaxNumChannels_def getClockDomainById_def on_alsa_def demo_env_fields)
  then show thesis
    using that [of "h\<lparr>mAlsaEngine := Some e\<rparr>" e] assms(1) e
    by (simp add: sh_createAlsaStream_def api_id_def lockApiMutex_def unlockApiMutex_def bare_def mapResultCode_def)
qed


text \<open>
  A test tone stream may get the id of a video stream: the check of a chosen id leaves video streams out. Its id
  then stands for two streams.
\<close>

lemma tone_takes_video_id:
  assumes "sh_isInitialized h" and "k \<noteq> 0" and "k \<notin> alsa_ids h \<union> tone_ids h" and "she_newTone env"
    and "tone_init (she_tone env) n f cl (tone_new k) = Some (eIasAvbProcOK, s)" and "\<not> mApiMutexEnable h"
  shows "createTestToneStream env n f eIasAvbAudioFormatSafFloat cl k h
    = Some (eIasAvbResultOk, k, h\<lparr>mTestToneStreams := put_stream k s (mTestToneStreams h)\<rparr>)"
  using assms audio_lookup [of k h]
  by (simp add: createTestToneStream_def api_id_def create_tone_def lockApiMutex_def unlockApiMutex_def mapResultCode_def)

end
